(* ===== verification/Karapace_Prelude.thy ===== *)
theory Karapace_Prelude
  imports Complex_Main "HOL-Library.AList"
begin

text \<open>
  Shared vocabulary of the development: the result type of fallible code, Python's
  insertion-ordered dictionaries (association lists with distinct keys), JSON values, and the
  generic facts the component theories use. A dictionary is read with \<^const>\<open>map_of\<close>, written
  with \<^const>\<open>AList.update\<close> (an existing key keeps its position, a new key goes last, as in
  CPython) and shrunk with \<^const>\<open>AList.delete\<close>.
\<close>

named_theorems dict_laws \<open>reading a dictionary after writing it\<close>
named_theorems inv_intros \<open>preservation of the invariants\<close>

section \<open>Fallible code\<close>

text \<open>\<open>Inl e\<close> is a raised exception, \<open>Inr x\<close> a normal return.\<close>

type_synonym ('e, 'a) result = "'e + 'a"

fun rbind :: "('e, 'a) result \<Rightarrow> ('a \<Rightarrow> ('e, 'b) result) \<Rightarrow> ('e, 'b) result" where
  "rbind (Inl e) f = Inl e"
| "rbind (Inr x) f = f x"

text \<open>A loop that stops at the first exception, threading an accumulator.\<close>

fun rfold :: "('a \<Rightarrow> 's \<Rightarrow> ('e, 's) result) \<Rightarrow> 'a list \<Rightarrow> 's \<Rightarrow> ('e, 's) result" where
  "rfold f [] s = Inr s"
| "rfold f (x # xs) s = rbind (f x s) (rfold f xs)"

fun is_ok :: "('e, 'a) result \<Rightarrow> bool" where
  "is_ok (Inl e) \<longleftrightarrow> False"
| "is_ok (Inr x) \<longleftrightarrow> True"

definition of_option :: "'e \<Rightarrow> 'a option \<Rightarrow> ('e, 'a) result" where
  "of_option e x = (case x of None \<Rightarrow> Inl e | Some y \<Rightarrow> Inr y)"

lemma rbind_eq_Inr [simp]: "rbind m f = Inr y \<longleftrightarrow> (\<exists>x. m = Inr x \<and> f x = Inr y)"
  by (cases m) auto

lemma rbind_eq_Inl: "rbind m f = Inl e \<longleftrightarrow> m = Inl e \<or> (\<exists>x. m = Inr x \<and> f x = Inl e)"
  by (cases m) auto

lemma rbind_Inr_right [simp]: "rbind m Inr = m"
  by (cases m) auto

lemma rbind_assoc: "rbind (rbind m f) g = rbind m (\<lambda>x. rbind (f x) g)"
  by (cases m) auto

lemma rbind_cong [fundef_cong]:
  "m = m' \<Longrightarrow> (\<And>x. m' = Inr x \<Longrightarrow> f x = f' x) \<Longrightarrow> rbind m f = rbind m' f'"
  by (cases m') auto

lemma of_option_eq_Inr [simp]: "of_option e x = Inr y \<longleftrightarrow> x = Some y"
  by (auto simp: of_option_def split: option.splits)

lemma of_option_simps [simp]: "of_option e None = Inl e" "of_option e (Some y) = Inr y"
  by (simp_all add: of_option_def)

lemma rfold_append: "rfold f (xs @ ys) s = rbind (rfold f xs s) (rfold f ys)"
  by (induction xs arbitrary: s) (simp_all add: rbind_assoc cong: rbind_cong)

lemma rfold_invariant:
  assumes "rfold f xs s = Inr s'" and "P s"
    and "\<And>x s s'. x \<in> set xs \<Longrightarrow> P s \<Longrightarrow> f x s = Inr s' \<Longrightarrow> P s'"
  shows "P s'"
  using assms by (induction xs arbitrary: s) auto

section \<open>Python dictionaries\<close>

type_synonym ('k, 'v) dict = "('k \<times> 'v) list"

abbreviation dict_get :: "('k, 'v) dict \<Rightarrow> 'k \<Rightarrow> 'v option" where
  "dict_get d k \<equiv> map_of d k"

abbreviation dict_set :: "('k, 'v) dict \<Rightarrow> 'k \<Rightarrow> 'v \<Rightarrow> ('k, 'v) dict" where
  "dict_set d k v \<equiv> AList.update k v d"

abbreviation dict_pop :: "('k, 'v) dict \<Rightarrow> 'k \<Rightarrow> ('k, 'v) dict" where
  "dict_pop d k \<equiv> AList.delete k d"

abbreviation dict_keys :: "('k, 'v) dict \<Rightarrow> 'k list" where
  "dict_keys d \<equiv> map fst d"

abbreviation dict_values :: "('k, 'v) dict \<Rightarrow> 'v list" where
  "dict_values d \<equiv> map snd d"

definition dict_ok :: "('k, 'v) dict \<Rightarrow> bool" where
  "dict_ok d \<longleftrightarrow> distinct (dict_keys d)"

definition setdefault :: "('k, 'v) dict \<Rightarrow> 'k \<Rightarrow> 'v \<Rightarrow> ('k, 'v) dict" where
  "setdefault d k v = (case dict_get d k of None \<Rightarrow> dict_set d k v | Some _ \<Rightarrow> d)"

text \<open>The contract of a dictionary, independent of its representation.\<close>

locale dict_store =
  fixes get :: "'d \<Rightarrow> 'k \<Rightarrow> 'v option"
    and upd :: "'d \<Rightarrow> 'k \<Rightarrow> 'v \<Rightarrow> 'd"
    and pop :: "'d \<Rightarrow> 'k \<Rightarrow> 'd"
    and keys :: "'d \<Rightarrow> 'k list"
    and ok :: "'d \<Rightarrow> bool"
  assumes get_upd: "get (upd d k v) = (get d)(k \<mapsto> v)"
    and get_pop: "get (pop d k) = (get d)(k := None)"
    and keys_get: "set (keys d) = dom (get d)"
    and keys_distinct: "ok d \<Longrightarrow> distinct (keys d)"
    and ok_upd: "ok d \<Longrightarrow> ok (upd d k v)"
    and ok_pop: "ok d \<Longrightarrow> ok (pop d k)"
    and keys_upd_old: "get d k \<noteq> None \<Longrightarrow> keys (upd d k v) = keys d"
    and keys_upd_new: "get d k = None \<Longrightarrow> keys (upd d k v) = keys d @ [k]"
    and keys_pop: "keys (pop d k) = filter (\<lambda>k'. k' \<noteq> k) (keys d)"
begin

lemma upd_upd_get: "get (upd (upd d k v) k w) = get (upd d k w)"
  by (simp add: get_upd)

lemma pop_upd_get: "get d k = None \<Longrightarrow> get (pop (upd d k v) k) = get d"
  by (auto simp: get_upd get_pop fun_eq_iff)

lemma card_keys_upd: "ok d \<Longrightarrow> length (keys (upd d k v)) =
    (if get d k = None then Suc (length (keys d)) else length (keys d))"
  by (simp add: keys_upd_old keys_upd_new)

lemma last_key_upd_new: "get d k = None \<Longrightarrow> last (keys (upd d k v)) = k"
  by (simp add: keys_upd_new)

end

lemma dict_keys_update:
  "dict_keys (AList.update k v d) = (if k \<in> set (dict_keys d) then dict_keys d else dict_keys d @ [k])"
  by (induction d) auto

lemma dict_keys_delete: "dict_keys (AList.delete k d) = filter (\<lambda>k'. k' \<noteq> k) (dict_keys d)"
  by (induction d) (auto simp: AList.delete_eq)

interpretation pd: dict_store "map_of" "\<lambda>d k v. AList.update k v d" "\<lambda>d k. AList.delete k d"
  "map fst" dict_ok
proof unfold_locales
  fix d :: "('k, 'v) dict" and k :: 'k and v :: 'v
  show "map_of (AList.update k v d) = (map_of d)(k \<mapsto> v)" by (rule AList.update_conv')
  show "map_of (AList.delete k d) = (map_of d)(k := None)" by (rule AList.delete_conv')
  show "set (map fst d) = dom (map_of d)" by (simp add: dom_map_of_conv_image_fst)
  show "dict_ok d \<Longrightarrow> distinct (map fst d)" by (simp add: dict_ok_def)
  show "dict_ok d \<Longrightarrow> dict_ok (AList.update k v d)" by (simp add: dict_ok_def AList.distinct_update)
  show "dict_ok d \<Longrightarrow> dict_ok (AList.delete k d)" by (simp add: dict_ok_def AList.distinct_delete)
  show "map_of d k \<noteq> None \<Longrightarrow> map fst (AList.update k v d) = map fst d"
    by (auto simp: dict_keys_update map_of_eq_None_iff)
  show "map_of d k = None \<Longrightarrow> map fst (AList.update k v d) = map fst d @ [k]"
    by (auto simp: dict_keys_update map_of_eq_None_iff)
  show "map fst (AList.delete k d) = filter (\<lambda>k'. k' \<noteq> k) (map fst d)"
    by (rule dict_keys_delete)
qed

declare pd.get_upd [simp, dict_laws] pd.get_pop [simp, dict_laws]
declare pd.ok_upd [simp, intro] pd.ok_pop [simp, intro]

lemma dict_ok_Nil [simp]: "dict_ok []"
  by (simp add: dict_ok_def)

lemma dict_get_setdefault [simp, dict_laws]:
  "dict_get (setdefault d k v) = (\<lambda>k'. if k' = k \<and> dict_get d k = None then Some v else dict_get d k')"
  by (auto simp: setdefault_def fun_eq_iff split: option.splits)

lemma dict_ok_setdefault [simp, intro]: "dict_ok d \<Longrightarrow> dict_ok (setdefault d k v)"
  by (auto simp: setdefault_def split: option.splits)

lemma dict_get_in_set: "dict_get d k = Some v \<Longrightarrow> (k, v) \<in> set d"
  by (rule map_of_SomeD)

lemma dict_get_eq_Some: "dict_ok d \<Longrightarrow> dict_get d k = Some v \<longleftrightarrow> (k, v) \<in> set d"
  by (auto simp: dict_ok_def intro: map_of_SomeD)

lemma dict_ok_filter [simp, intro]: "dict_ok d \<Longrightarrow> dict_ok (filter P d)"
  by (simp add: dict_ok_def distinct_map_filter)

lemma dict_get_filter:
  "dict_ok d \<Longrightarrow> dict_get (filter (\<lambda>(k, v). P k v) d) k =
     (case dict_get d k of None \<Rightarrow> None | Some v \<Rightarrow> if P k v then Some v else None)"
  by (induction d) (auto simp: dict_ok_def map_of_eq_None_iff split: option.splits)

lemma dict_ok_map_values [simp]: "dict_ok (map (\<lambda>(k, v). (k, f k v)) d) = dict_ok d"
  by (simp add: dict_ok_def case_prod_unfold comp_def)

lemma dict_get_map_values:
  "dict_get (map (\<lambda>(k, v). (k, f k v)) d) k = map_option (f k) (dict_get d k)"
  by (induction d) auto

lemma dict_values_eq: "dict_ok d \<Longrightarrow> v \<in> set (dict_values d) \<longleftrightarrow> (\<exists>k. dict_get d k = Some v)"
  by (force simp: dict_get_eq_Some)

section \<open>JSON values\<close>

text \<open>
  What \<open>json.loads\<close> returns. Python keeps integers and floats apart (\<open>isinstance(x, int)\<close>), so
  the model does too; a float is represented by the rational number it denotes. An object is a
  dictionary, in the order of its text.
\<close>

datatype json =
    JNull
  | JBool bool
  | JInt int
  | JFloat rat
  | JStr string
  | JArr "json list"
  | JObj "(string \<times> json) list"

fun jget :: "json \<Rightarrow> string \<Rightarrow> json option" where
  "jget (JObj d) k = dict_get d k"
| "jget _ k = None"

text \<open>Python truthiness of a JSON value (\<open>if x:\<close>, \<open>not x\<close>).\<close>

fun truthy :: "json \<Rightarrow> bool" where
  "truthy JNull = False"
| "truthy (JBool b) = b"
| "truthy (JInt i) = (i \<noteq> 0)"
| "truthy (JFloat r) = (r \<noteq> 0)"
| "truthy (JStr s) = (s \<noteq> [])"
| "truthy (JArr xs) = (xs \<noteq> [])"
| "truthy (JObj d) = (d \<noteq> [])"

section \<open>Lists\<close>

lemma sorted_list_max: "sorted xs \<Longrightarrow> xs \<noteq> [] \<Longrightarrow> last xs = Max (set xs)"
proof -
  assume s: "sorted xs" and ne: "xs \<noteq> []"
  have "x \<le> last xs" if "x \<in> set xs" for x
    using s that ne by (induction xs) (auto split: if_splits)
  with ne show ?thesis by (intro Max_eqI [symmetric]) auto
qed

lemma filter_eq_Cons_ex: "filter P xs \<noteq> [] \<longleftrightarrow> (\<exists>x \<in> set xs. P x)"
  by (auto simp: filter_empty_conv)

lemma fold_frame: "(\<And>x s. x \<in> set xs \<Longrightarrow> g (f x s) = g s) \<Longrightarrow> g (fold f xs s) = g s"
  by (induction xs arbitrary: s) auto

lemma fold_keeps: "P s \<Longrightarrow> (\<And>x s. x \<in> set xs \<Longrightarrow> P s \<Longrightarrow> P (f x s)) \<Longrightarrow> P (fold f xs s)"
  by (induction xs arbitrary: s) auto

end
