(* ===== verification/Schema_Typing.thy ===== *)
theory Schema_Typing
  imports Karapace_Prelude
begin

text \<open>
  The value types of the registry: \<open>karapace/core/typing.py\<close> (versions, subjects),
  \<open>errors.py\<close> (exceptions), \<open>schema_type.py\<close>, \<open>schema_references.py\<close> and
  \<open>dependency.py\<close>. Strings are lists of characters with codes below 256; a subject is a string.
\<close>

section \<open>Versions\<close>

datatype version = Version (version_value: int)

instantiation version :: linorder
begin

definition less_eq_version :: "version \<Rightarrow> version \<Rightarrow> bool" where
  "less_eq_version v w \<longleftrightarrow> version_value v \<le> version_value w"

definition less_version :: "version \<Rightarrow> version \<Rightarrow> bool" where
  "less_version v w \<longleftrightarrow> version_value v < version_value w"

instance
  by standard (auto simp: less_eq_version_def less_version_def version.expand)

end

lemma version_le_simp [simp]: "Version a \<le> Version b \<longleftrightarrow> a \<le> b"
  by (simp add: less_eq_version_def)

lemma version_less_simp [simp]: "Version a < Version b \<longleftrightarrow> a < b"
  by (simp add: less_version_def)

definition MINUS_1_VERSION_TAG :: int where
  "MINUS_1_VERSION_TAG = -1"

definition LATEST_VERSION_TAG :: string where
  "LATEST_VERSION_TAG = ''latest''"

definition is_latest :: "version \<Rightarrow> bool" where
  "is_latest v \<longleftrightarrow> version_value v = MINUS_1_VERSION_TAG"

section \<open>Exceptions\<close>

text \<open>
  The classes of \<open>errors.py\<close>, then the built-in and library exceptions that the modelled code
  raises or catches.
\<close>

datatype exn =
    VersionNotFoundException
  | InvalidVersion
  | IncompatibleSchema
  | InvalidSchema
  | InvalidSchemaType
  | InvalidReferences
  | SchemasNotFoundException
  | SchemaVersionSoftDeletedException
  | SchemaVersionNotSoftDeletedException
  | SubjectNotFoundException
  | SubjectNotSoftDeletedException
  | ReferenceExistsException "int set" version
  | SubjectSoftDeletedException
  | SchemaTooLargeException
  | ShutdownException
  | CorruptKafkaRecordException
  | KeyError
  | ValueError
  | TypeError
  | AttributeError
  | AssertionError
  | RuntimeError
  | RecursionError
  | IndexError
  | UnboundLocalError
  | ZeroDivisionError
  | JSONDecodeError
  | SchemaParseException
  | SchemaError
  | ProtobufException
  | AuthorizationFailedError
  | KafkaError
  | InvalidConfiguration
  | AuthenticationError

type_synonym 'a res = "(exn, 'a) result"

text \<open>\<open>Version.__init__\<close>: only integers (a \<open>bool\<close> is an \<open>int\<close> in Python) from \<open>-1\<close> up.\<close>

definition mk_version :: "int \<Rightarrow> version res" where
  "mk_version i = (if i < MINUS_1_VERSION_TAG then Inl InvalidVersion else Inr (Version i))"

fun version_of_json :: "json \<Rightarrow> version res" where
  "version_of_json (JInt i) = mk_version i"
| "version_of_json (JBool b) = mk_version (of_bool b)"
| "version_of_json _ = Inl InvalidVersion"

text \<open>\<open>Subject.validate\<close>: no control characters.\<close>

definition subject_validate :: "string \<Rightarrow> string res" where
  "subject_validate s =
     (if list_ex (\<lambda>c. of_char c \<le> (31 :: nat) \<or> (127 \<le> (of_char c :: nat) \<and> of_char c \<le> (159 :: nat))) s
      then Inl ValueError else Inr s)"

section \<open>Indexing a JSON value\<close>

text \<open>\<open>data[key]\<close>: \<open>KeyError\<close> for a missing key, \<open>TypeError\<close> when \<open>data\<close> is not a mapping.\<close>

fun jindex :: "json \<Rightarrow> string \<Rightarrow> json res" where
  "jindex (JObj d) k = of_option KeyError (dict_get d k)"
| "jindex _ k = Inl TypeError"

text \<open>\<open>_read_typed\<close> for \<open>str\<close> and for \<open>int\<close>.\<close>

definition read_typed_str :: "json \<Rightarrow> string \<Rightarrow> string res" where
  "read_typed_str data k = rbind (jindex data k) (\<lambda>v. case v of JStr s \<Rightarrow> Inr s | _ \<Rightarrow> Inl TypeError)"

definition read_typed_int :: "json \<Rightarrow> string \<Rightarrow> int res" where
  "read_typed_int data k = rbind (jindex data k)
     (\<lambda>v. case v of JInt i \<Rightarrow> Inr i | JBool b \<Rightarrow> Inr (of_bool b) | _ \<Rightarrow> Inl TypeError)"

section \<open>References\<close>

datatype reference = Reference (ref_name: string) (ref_subject: string) (ref_version: version)

datatype latest_reference = LatestVersionReference (lref_name: string) (lref_subject: string)

datatype any_reference = Resolved reference | Latest latest_reference

fun lref_resolve :: "latest_reference \<Rightarrow> version \<Rightarrow> reference" where
  "lref_resolve (LatestVersionReference n s) v = Reference n s v"

fun ref_to_dict :: "reference \<Rightarrow> json" where
  "ref_to_dict (Reference n s v) =
     JObj [(''name'', JStr n), (''subject'', JStr s), (''version'', JInt (version_value v))]"

definition reference_from_mapping :: "json \<Rightarrow> any_reference res" where
  "reference_from_mapping data =
     rbind (read_typed_str data ''name'') (\<lambda>n.
     rbind (read_typed_str data ''subject'') (\<lambda>s.
     rbind (read_typed_int data ''version'') (\<lambda>v.
       if v = -1 then Inr (Latest (LatestVersionReference n s))
       else rbind (mk_version v) (\<lambda>w. Inr (Resolved (Reference n s w))))))"

text \<open>
  \<open>Reference.__post_init__\<close> asserts \<open>self.version != -1\<close>, comparing a \<open>Version\<close> object with an
  \<open>int\<close>. \<open>Version.__eq__\<close> answers \<open>NotImplemented\<close> for anything but a \<open>Version\<close>, so Python falls
  back to object identity and the assertion holds for every version.
\<close>

datatype pyobj = PyInt int | PyVersion version

fun version_ne :: "version \<Rightarrow> pyobj \<Rightarrow> bool" where
  "version_ne v (PyVersion w) = (version_value v \<noteq> version_value w)"
| "version_ne v (PyInt i) = True"

definition mk_reference :: "string \<Rightarrow> string \<Rightarrow> version \<Rightarrow> reference res" where
  "mk_reference n s v =
     (if version_ne v (PyInt MINUS_1_VERSION_TAG) then Inr (Reference n s v) else Inl AssertionError)"

section \<open>Decimal printing\<close>

fun show_nat :: "nat \<Rightarrow> string" where
  "show_nat n = (if n < 10 then [char_of (48 + n)] else show_nat (n div 10) @ [char_of (48 + n mod 10)])"

declare show_nat.simps [simp del]

definition show_int :: "int \<Rightarrow> string" where
  "show_int i = (if i < 0 then ''-'' @ show_nat (nat (- i)) else show_nat (nat i))"

definition version_str :: "version \<Rightarrow> string" where
  "version_str v = show_int (version_value v)"

text \<open>\<open>Reference.__repr__\<close>.\<close>

fun ref_repr :: "reference \<Rightarrow> string" where
  "ref_repr (Reference n s v) =
     ''{name='' @ [CHR 0x27] @ n @ [CHR 0x27] @ '', subject='' @ [CHR 0x27] @ s @ [CHR 0x27] @
     '', version='' @ version_str v @ ''}''"

section \<open>Schemas and dependencies\<close>

datatype schema_type = AVRO | JSONSCHEMA | PROTOBUF

fun schema_type_value :: "schema_type \<Rightarrow> string" where
  "schema_type_value AVRO = ''AVRO''"
| "schema_type_value JSONSCHEMA = ''JSON''"
| "schema_type_value PROTOBUF = ''PROTOBUF''"

text \<open>\<open>SchemaType(value)\<close>: the enum lookup by value.\<close>

definition schema_type_of :: "json \<Rightarrow> schema_type res" where
  "schema_type_of j =
     (if j = JStr ''AVRO'' then Inr AVRO
      else if j = JStr ''JSON'' then Inr JSONSCHEMA
      else if j = JStr ''PROTOBUF'' then Inr PROTOBUF
      else Inl ValueError)"

datatype typed_schema =
    TypedSchema (ts_type: schema_type) (ts_str: string) (ts_references: "reference list option")
      (ts_dependencies: "(string \<times> dependency) list option")
and dependency =
    Dependency (dep_name: string) (dep_subject: string) (dep_version: version) (dep_schema: typed_schema)

definition dependency_of :: "reference \<Rightarrow> typed_schema \<Rightarrow> dependency" where
  "dependency_of r s = Dependency (ref_name r) (ref_subject r) (ref_version r) s"

definition dep_identifier :: "dependency \<Rightarrow> string" where
  "dep_identifier d = dep_name d @ ''_'' @ dep_subject d @ ''_'' @ version_str (dep_version d)"

text \<open>\<open>TypedSchema.__eq__\<close>: type, text and references; dependencies are not compared.\<close>

definition ts_eq :: "typed_schema \<Rightarrow> typed_schema \<Rightarrow> bool" where
  "ts_eq a b \<longleftrightarrow> ts_type a = ts_type b \<and> ts_str a = ts_str b \<and> ts_references a = ts_references b"

definition dep_eq :: "dependency \<Rightarrow> dependency \<Rightarrow> bool" where
  "dep_eq a b \<longleftrightarrow> dep_name a = dep_name b \<and> dep_subject a = dep_subject b \<and>
     dep_version a = dep_version b \<and> ts_eq (dep_schema a) (dep_schema b)"

lemma ts_eq_refl [simp]: "ts_eq s s"
  by (simp add: ts_eq_def)

lemma ts_eq_sym: "ts_eq a b \<longleftrightarrow> ts_eq b a"
  by (auto simp: ts_eq_def)

lemma ts_eq_trans: "ts_eq a b \<Longrightarrow> ts_eq b c \<Longrightarrow> ts_eq a c"
  by (simp add: ts_eq_def)

lemma mk_version_ok [simp]: "mk_version i = Inr v \<longleftrightarrow> -1 \<le> i \<and> v = Version i"
  by (auto simp: mk_version_def MINUS_1_VERSION_TAG_def)

lemma reference_round_trip_resolved:
  "0 \<le> version_value (ref_version r) \<Longrightarrow> reference_from_mapping (ref_to_dict r) = Inr (Resolved r)"
  by (cases r; cases "ref_version r")
     (auto simp: reference_from_mapping_def read_typed_str_def read_typed_int_def mk_version_def
        MINUS_1_VERSION_TAG_def)

end
