(* ===== verification/Schema_Models.thy ===== *)
theory Schema_Models
  imports Schema_Typing
begin

text \<open>
  \<open>karapace/core/schema_models.py\<close>: typed schemas, their fingerprint and normal form, the
  flattening of Avro dependencies, the parser front end, schema versions and the resolution of
  version tags. What the module calls outside the repository (the JSON codec, SHA-1, the Avro
  library, the JSON Schema meta-schema check, the Go formatter) and the Protobuf front end are the
  fields of the record \<open>ext\<close>; every definition that uses them takes it as an argument.
\<close>

section \<open>External functions\<close>

record ('a, 'n, 'p) ext =
  sha1 :: "string \<Rightarrow> string"
  loads :: "string \<Rightarrow> json option"
  dumps :: "bool \<Rightarrow> json \<Rightarrow> string"
  std_dumps :: "json \<Rightarrow> string"
  avro_names :: "bool \<Rightarrow> 'n"
  make_avsc_object :: "bool \<Rightarrow> bool \<Rightarrow> json \<Rightarrow> 'n \<Rightarrow> ('n \<times> 'a) res"
  avro_str :: "'a \<Rightarrow> string"
  avro_parse :: "bool \<Rightarrow> bool \<Rightarrow> string \<Rightarrow> 'a res"
  check_schema :: "json \<Rightarrow> bool"
  protobuf_schema :: "bool \<Rightarrow> string \<Rightarrow> reference list option \<Rightarrow> (string, dependency) dict option \<Rightarrow> 'p res"
  verify_dependencies :: "'p \<Rightarrow> bool"
  protobuf_str :: "'p \<Rightarrow> string"
  format_protobuf :: "string \<Rightarrow> dependency list \<Rightarrow> string res"

definition json_decode :: "('a, 'n, 'p, 'z) ext_scheme \<Rightarrow> string \<Rightarrow> json res" where
  "json_decode e s = of_option JSONDecodeError (loads e s)"

definition json_encode :: "('a, 'n, 'p, 'z) ext_scheme \<Rightarrow> bool \<Rightarrow> json \<Rightarrow> string" where
  "json_encode e sort_keys j = dumps e sort_keys j"

text \<open>\<open>except <classes> as exc: raise <other> from exc\<close>.\<close>

definition except_raise :: "exn set \<Rightarrow> exn \<Rightarrow> 'a res \<Rightarrow> 'a res" where
  "except_raise cs other m =
     (case m of Inl x \<Rightarrow> (if x \<in> cs then Inl other else Inl x) | Inr y \<Rightarrow> Inr y)"

lemma except_raise_Inr [simp]: "except_raise cs x m = Inr y \<longleftrightarrow> m = Inr y"
  by (auto simp: except_raise_def split: sum.splits)

section \<open>Parsed schemas\<close>

datatype ('a, 'p) parsed = PAvro 'a | PJson json | PProto 'p

record ('a, 'p) parsed_typed_schema =
  pts_typed :: typed_schema
  pts_schema :: "('a, 'p) parsed"

definition parse_avro_schema_definition ::
    "('a, 'n, 'p, 'z) ext_scheme \<Rightarrow> string \<Rightarrow> bool \<Rightarrow> bool \<Rightarrow> 'a res" where
  "parse_avro_schema_definition e s validate_enum_symbols validate_names =
     rbind (json_decode e s) (\<lambda>json_data.
       avro_parse e validate_enum_symbols validate_names (json_encode e False json_data))"

definition parse_jsonschema_definition :: "('a, 'n, 'p, 'z) ext_scheme \<Rightarrow> string \<Rightarrow> json res" where
  "parse_jsonschema_definition e s =
     rbind (json_decode e s) (\<lambda>schema. if check_schema e schema then Inr schema else Inl SchemaError)"

definition parse_protobuf_schema_definition ::
    "('a, 'n, 'p, 'z) ext_scheme \<Rightarrow> string \<Rightarrow> reference list option \<Rightarrow> (string, dependency) dict option \<Rightarrow>
     bool \<Rightarrow> bool \<Rightarrow> bool \<Rightarrow> 'p res" where
  "parse_protobuf_schema_definition e s references dependencies validate_references do_normalize use_formatter =
     rbind (if use_formatter
            then (case format_protobuf e s (case dependencies of None \<Rightarrow> [] | Some ds \<Rightarrow> dict_values ds) of
                    Inl InvalidSchema \<Rightarrow> Inr s
                  | Inl x \<Rightarrow> Inl x
                  | Inr s' \<Rightarrow> Inr s')
            else Inr s) (\<lambda>definition'.
     rbind (protobuf_schema e do_normalize definition' references dependencies) (\<lambda>p.
       if validate_references \<and> \<not> verify_dependencies e p then Inl ProtobufException else Inr p))"

section \<open>TypedSchema\<close>

text \<open>\<open>normalize_schema_str\<close>; the last argument is the parsed Protobuf schema, when there is one.\<close>

fun normalize_schema_str ::
    "('a, 'n, 'p, 'z) ext_scheme \<Rightarrow> string \<Rightarrow> schema_type \<Rightarrow> 'p option \<Rightarrow> string res" where
  "normalize_schema_str e s PROTOBUF (Some p) = Inr (protobuf_str e p)"
| "normalize_schema_str e s PROTOBUF None =
     rbind (parse_protobuf_schema_definition e s None None False False False) (\<lambda>p. Inr (protobuf_str e p))"
| "normalize_schema_str e s _ _ = rbind (json_decode e s) (\<lambda>j. Inr (json_encode e True j))"

definition mk_typed_schema ::
    "('a, 'n, 'p, 'z) ext_scheme \<Rightarrow> schema_type \<Rightarrow> string \<Rightarrow> 'p option \<Rightarrow> reference list option \<Rightarrow>
     (string, dependency) dict option \<Rightarrow> typed_schema res" where
  "mk_typed_schema e t s p references dependencies =
     rbind (normalize_schema_str e s t p) (\<lambda>s'. Inr (TypedSchema t s' references dependencies))"

text \<open>\<open>"\\n".join(...)\<close>.\<close>

fun join_with :: "string \<Rightarrow> string list \<Rightarrow> string" where
  "join_with sep [] = []"
| "join_with sep [x] = x"
| "join_with sep (x # y # ys) = x @ sep @ join_with sep (y # ys)"

definition fingerprint_str :: "typed_schema \<Rightarrow> string" where
  "fingerprint_str s = ts_str s @
     (case ts_references s of None \<Rightarrow> [] | Some rs \<Rightarrow> join_with [CHR 0x0A] (map ref_repr rs))"

definition fingerprint :: "('a, 'n, 'p, 'z) ext_scheme \<Rightarrow> typed_schema \<Rightarrow> string" where
  "fingerprint e s = sha1 e (fingerprint_str s)"

lemma fingerprint_ignores_type:
  "fingerprint e (TypedSchema t s r d) = fingerprint e (TypedSchema t' s r d')"
  by (simp add: fingerprint_def fingerprint_str_def)

lemma fingerprint_ts_eq: "ts_eq a b \<Longrightarrow> fingerprint e a = fingerprint e b"
  by (simp add: ts_eq_def fingerprint_def fingerprint_str_def)

section \<open>avro_resolve\<close>

text \<open>
  The worklist of \<open>avro_resolve\<close>: the top of the Python stack is the head of the list. An entry
  with dependencies is pushed back without them, below its dependencies.
\<close>

type_synonym resolve_entry = "string \<times> (string, dependency) dict option"

definition dep_entry :: "dependency \<Rightarrow> resolve_entry" where
  "dep_entry d = (ts_str (dep_schema d), ts_dependencies (dep_schema d))"

fun ts_weight :: "typed_schema \<Rightarrow> nat" and dep_weight :: "dependency \<Rightarrow> nat" where
  "ts_weight (TypedSchema t s r ds) =
     (case ds of None \<Rightarrow> 1 | Some xs \<Rightarrow> 2 + sum_list (map (\<lambda>x. dep_weight (snd x)) xs))"
| "dep_weight (Dependency n s v t) = ts_weight t"

definition entry_weight :: "resolve_entry \<Rightarrow> nat" where
  "entry_weight x = (case snd x of None \<Rightarrow> 1 | Some ds \<Rightarrow> 2 + sum_list (map (\<lambda>y. dep_weight (snd y)) ds))"

lemma entry_weight_dep_entry [simp]: "entry_weight (dep_entry d) = dep_weight d"
  by (cases d; cases "dep_schema d") (auto simp: entry_weight_def dep_entry_def split: option.splits)

lemma entry_weight_dep_entries:
  "sum_list (map entry_weight (map dep_entry (map snd ds))) = sum_list (map (\<lambda>y. dep_weight (snd y)) ds)"
  by (simp add: comp_def)

function avro_resolve_loop :: "resolve_entry list \<Rightarrow> string list \<Rightarrow> string set \<Rightarrow> string list" where
  "avro_resolve_loop [] merge seen = merge"
| "avro_resolve_loop ((s, Some (d # ds)) # stack) merge seen =
     avro_resolve_loop (map dep_entry (dict_values (d # ds)) @ (s, None) # stack) merge seen"
| "avro_resolve_loop ((s, None) # stack) merge seen =
     (if s \<notin> seen then avro_resolve_loop stack (merge @ [s]) (insert s seen)
      else avro_resolve_loop stack merge seen)"
| "avro_resolve_loop ((s, Some []) # stack) merge seen =
     (if s \<notin> seen then avro_resolve_loop stack (merge @ [s]) (insert s seen)
      else avro_resolve_loop stack merge seen)"
  by pat_completeness auto
termination
proof (relation "measure (\<lambda>(stack, _, _). sum_list (map entry_weight stack))", goal_cases)
  case (2 s d ds stack merge seen)
  have "sum_list (map entry_weight (map dep_entry (map snd (d # ds)))) + 1
      < entry_weight (s, Some (d # ds))"
    unfolding entry_weight_dep_entries by (simp add: entry_weight_def)
  moreover have "entry_weight (s, None) = 1" by (simp add: entry_weight_def)
  ultimately show ?case by simp
qed (auto simp: entry_weight_def)

definition avro_resolve ::
    "('a, 'n, 'p, 'z) ext_scheme \<Rightarrow> string \<Rightarrow> (string, dependency) dict option \<Rightarrow> string list res" where
  "avro_resolve e s dependencies =
     rbind (json_decode e s) (\<lambda>j. Inr (avro_resolve_loop [(json_encode e True j, dependencies)] [] {}))"

text \<open>
  The reference: the post-order of the dependency tree, keeping the first of equal texts.
\<close>

fun ts_postorder :: "typed_schema \<Rightarrow> string list" and dep_postorder :: "dependency \<Rightarrow> string list" where
  "ts_postorder (TypedSchema t s r ds) =
     (case ds of None \<Rightarrow> [s] | Some xs \<Rightarrow> concat (map (\<lambda>x. dep_postorder (snd x)) xs) @ [s])"
| "dep_postorder (Dependency n s v t) = ts_postorder t"

definition entry_postorder :: "resolve_entry \<Rightarrow> string list" where
  "entry_postorder x =
     (case snd x of None \<Rightarrow> [] | Some ds \<Rightarrow> concat (map (\<lambda>y. dep_postorder (snd y)) ds)) @ [fst x]"

fun keep_first :: "'a list \<Rightarrow> 'a set \<Rightarrow> 'a list" where
  "keep_first [] seen = []"
| "keep_first (x # xs) seen = (if x \<in> seen then keep_first xs seen else x # keep_first xs (insert x seen))"

lemma entry_postorder_dep_entry [simp]: "entry_postorder (dep_entry d) = dep_postorder d"
  by (cases d; cases "dep_schema d") (auto simp: entry_postorder_def dep_entry_def split: option.splits)

lemma avro_resolve_loop_postorder:
  "avro_resolve_loop stack merge seen = merge @ keep_first (concat (map entry_postorder stack)) seen"
proof (induction stack merge seen rule: avro_resolve_loop.induct)
  case (2 s d ds stack merge seen)
  have eq: "concat (map entry_postorder ((s, Some (d # ds)) # stack)) =
      concat (map entry_postorder (map dep_entry (dict_values (d # ds)) @ (s, None) # stack))"
    by (simp add: entry_postorder_def comp_def flip: entry_postorder_dep_entry)
  show ?case unfolding eq using 2 by simp
qed (auto simp: entry_postorder_def)

lemma set_keep_first: "set (keep_first xs seen) = set xs - seen"
  by (induction xs seen rule: keep_first.induct) auto

lemma distinct_keep_first: "distinct (keep_first xs seen)"
  by (induction xs seen rule: keep_first.induct) (auto simp: set_keep_first)

lemma keep_first_append: "keep_first (xs @ ys) seen = keep_first xs seen @ keep_first ys (seen \<union> set xs)"
  by (induction xs arbitrary: seen) (auto simp: insert_absorb)

section \<open>parse\<close>

text \<open>The loop over the flattened schemas, sharing one table of Avro names.\<close>

fun merge_avsc ::
    "('a, 'n, 'p, 'z) ext_scheme \<Rightarrow> bool \<Rightarrow> bool \<Rightarrow> string list \<Rightarrow> 'n \<Rightarrow> 'a option \<Rightarrow> 'a option res" where
  "merge_avsc e ve vn [] names merged = Inr merged"
| "merge_avsc e ve vn (s # ss) names merged =
     rbind (json_decode e s) (\<lambda>j.
     rbind (make_avsc_object e ve vn j names) (\<lambda>(names', a). merge_avsc e ve vn ss names' (Some a)))"

definition parse_avro ::
    "('a, 'n, 'p, 'z) ext_scheme \<Rightarrow> string \<Rightarrow> bool \<Rightarrow> bool \<Rightarrow> reference list option \<Rightarrow>
     (string, dependency) dict option \<Rightarrow> ('a, 'p) parsed_typed_schema res" where
  "parse_avro e s ve vn references dependencies =
     except_raise {SchemaParseException, JSONDecodeError, TypeError} InvalidSchema
      (rbind (case dependencies of
                Some (d # ds) \<Rightarrow>
                  rbind (avro_resolve e s dependencies) (\<lambda>schemas_list.
                  rbind (merge_avsc e ve vn schemas_list (avro_names e vn) None) (\<lambda>merged.
                    Inr (case merged of None \<Rightarrow> ''None'' | Some a \<Rightarrow> avro_str e a)))
              | _ \<Rightarrow> Inr s) (\<lambda>merged_schema_str.
       rbind (parse_avro_schema_definition e merged_schema_str ve vn) (\<lambda>a.
       rbind (mk_typed_schema e AVRO s None references dependencies) (\<lambda>t.
         Inr \<lparr>pts_typed = t, pts_schema = PAvro a\<rparr>))))"

definition parse_jsonschema ::
    "('a, 'n, 'p, 'z) ext_scheme \<Rightarrow> string \<Rightarrow> reference list option \<Rightarrow>
     (string, dependency) dict option \<Rightarrow> ('a, 'p) parsed_typed_schema res" where
  "parse_jsonschema e s references dependencies =
     rbind (except_raise {TypeError, JSONDecodeError, SchemaError, AssertionError} InvalidSchema
              (parse_jsonschema_definition e s)) (\<lambda>j.
     rbind (mk_typed_schema e JSONSCHEMA s None references dependencies) (\<lambda>t.
       Inr \<lparr>pts_typed = t, pts_schema = PJson j\<rparr>))"

definition parse_protobuf ::
    "('a, 'n, 'p, 'z) ext_scheme \<Rightarrow> string \<Rightarrow> reference list option \<Rightarrow>
     (string, dependency) dict option \<Rightarrow> bool \<Rightarrow> bool \<Rightarrow> ('a, 'p) parsed_typed_schema res" where
  "parse_protobuf e s references dependencies do_normalize use_formatter =
     rbind (except_raise {TypeError, SchemaError, AssertionError, ProtobufException, SchemaParseException} InvalidSchema
              (parse_protobuf_schema_definition e s references dependencies True do_normalize use_formatter)) (\<lambda>p.
     rbind (mk_typed_schema e PROTOBUF s (Some p) references dependencies) (\<lambda>t.
       Inr \<lparr>pts_typed = t, pts_schema = PProto p\<rparr>))"

definition parse ::
    "('a, 'n, 'p, 'z) ext_scheme \<Rightarrow> schema_type \<Rightarrow> string \<Rightarrow> bool \<Rightarrow> bool \<Rightarrow> reference list option \<Rightarrow>
     (string, dependency) dict option \<Rightarrow> bool \<Rightarrow> bool \<Rightarrow> ('a, 'p) parsed_typed_schema res" where
  "parse e t s validate_avro_enum_symbols validate_avro_names references dependencies do_normalize use_formatter =
     (case t of
        AVRO \<Rightarrow> parse_avro e s validate_avro_enum_symbols validate_avro_names references dependencies
      | JSONSCHEMA \<Rightarrow> parse_jsonschema e s references dependencies
      | PROTOBUF \<Rightarrow> parse_protobuf e s references dependencies do_normalize use_formatter)"

definition parsed_parse ::
    "('a, 'n, 'p, 'z) ext_scheme \<Rightarrow> schema_type \<Rightarrow> string \<Rightarrow> reference list option \<Rightarrow>
     (string, dependency) dict option \<Rightarrow> ('a, 'p) parsed_typed_schema res" where
  "parsed_parse e t s references dependencies = parse e t s False False references dependencies False False"

definition validated_parse ::
    "('a, 'n, 'p, 'z) ext_scheme \<Rightarrow> schema_type \<Rightarrow> string \<Rightarrow> reference list option \<Rightarrow>
     (string, dependency) dict option \<Rightarrow> ('a, 'p) parsed_typed_schema res" where
  "validated_parse e t s references dependencies = parse e t s True True references dependencies False False"

definition to_dict :: "('a, 'n, 'p, 'z) ext_scheme \<Rightarrow> typed_schema \<Rightarrow> json res" where
  "to_dict e s = (if ts_type s = PROTOBUF then Inl InvalidSchema else json_decode e (ts_str s))"

text \<open>\<open>ParsedTypedSchema.match\<close>; the parsed objects are compared with their own \<open>__eq__\<close>.\<close>

definition pts_match :: "('a, 'p) parsed_typed_schema \<Rightarrow> ('a, 'p) parsed_typed_schema \<Rightarrow> bool" where
  "pts_match a b \<longleftrightarrow> ts_type (pts_typed a) = ts_type (pts_typed b) \<and> pts_schema a = pts_schema b \<and>
     ts_references (pts_typed a) = ts_references (pts_typed b)"

text \<open>A parsed schema keeps the requested type, references and dependencies.\<close>

lemma mk_typed_schema_fields:
  "mk_typed_schema e t s p r d = Inr ts \<Longrightarrow>
     ts_type ts = t \<and> ts_references ts = r \<and> ts_dependencies ts = d"
  by (auto simp: mk_typed_schema_def)

lemma parse_fields:
  "parse e t s ve vn r d nz uf = Inr p \<Longrightarrow>
     ts_type (pts_typed p) = t \<and> ts_references (pts_typed p) = r \<and> ts_dependencies (pts_typed p) = d"
  by (cases t) (auto simp: parse_def parse_avro_def parse_jsonschema_def parse_protobuf_def
      dest!: mk_typed_schema_fields)

section \<open>SchemaVersion and Versioner\<close>

record schema_version =
  sv_subject :: string
  sv_version :: version
  sv_deleted :: bool
  sv_schema_id :: int
  sv_schema :: typed_schema
  sv_references :: "reference list option"

type_synonym versions = "(version, schema_version) dict"

text \<open>\<open>int(tag)\<close> on a string: surrounding white space, a sign, digits with single underscores between.\<close>

definition is_space :: "char \<Rightarrow> bool" where
  "is_space c \<longleftrightarrow> (of_char c :: nat) \<in> set ([9..<14] @ [28..<33] @ [133, 160])"

definition digit_of :: "char \<Rightarrow> int option" where
  "digit_of c = (let n = (of_char c :: nat) in if 48 \<le> n \<and> n \<le> 57 then Some (int n - 48) else None)"

fun py_digits :: "string \<Rightarrow> int \<Rightarrow> int option" where
  "py_digits [] acc = Some acc"
| "py_digits (c # cs) acc =
     (case digit_of c of
        Some d \<Rightarrow> py_digits cs (10 * acc + d)
      | None \<Rightarrow>
          if c = CHR ''_'' \<and> cs \<noteq> [] \<and> digit_of (hd cs) \<noteq> None then py_digits cs acc else None)"

definition py_unsigned :: "string \<Rightarrow> int option" where
  "py_unsigned s = (if s \<noteq> [] \<and> digit_of (hd s) \<noteq> None then py_digits s 0 else None)"

definition py_strip :: "string \<Rightarrow> string" where
  "py_strip s = rev (dropWhile is_space (rev (dropWhile is_space s)))"

definition py_int :: "string \<Rightarrow> int res" where
  "py_int s = of_option ValueError
     (case py_strip s of
        [] \<Rightarrow> None
      | c # cs \<Rightarrow>
          if c = CHR ''-'' then map_option uminus (py_unsigned cs)
          else if c = CHR ''+'' then py_unsigned cs
          else py_unsigned (c # cs))"

datatype version_tag = TagStr string | TagInt int

fun resolve_tag :: "version_tag \<Rightarrow> int res" where
  "resolve_tag (TagStr s) = (if s = LATEST_VERSION_TAG then Inr MINUS_1_VERSION_TAG else py_int s)"
| "resolve_tag (TagInt i) = Inr i"

definition validate_tag :: "version_tag \<Rightarrow> unit res" where
  "validate_tag tag =
     (case resolve_tag tag of
        Inr v \<Rightarrow> if v < MINUS_1_VERSION_TAG \<or> v = 0 then Inl InvalidVersion else Inr ()
      | Inl ValueError \<Rightarrow> if tag \<noteq> TagStr LATEST_VERSION_TAG then Inl InvalidVersion else Inr ()
      | Inl x \<Rightarrow> Inl x)"

definition versioner_V :: "version_tag \<Rightarrow> version res" where
  "versioner_V tag = rbind (validate_tag tag) (\<lambda>_. rbind (resolve_tag tag) mk_version)"

text \<open>\<open>max(mapping)\<close>: the greatest key, \<open>ValueError\<close> for an empty mapping.\<close>

definition max_key :: "(version, 'v) dict \<Rightarrow> version res" where
  "max_key d = (case dict_keys d of [] \<Rightarrow> Inl ValueError | k # ks \<Rightarrow> Inr (fold max ks k))"

definition from_schema_versions :: "versions \<Rightarrow> version \<Rightarrow> version res" where
  "from_schema_versions svs v =
     rbind (max_key svs) (\<lambda>max_version.
       if is_latest v then Inr max_version
       else if dict_get svs v \<noteq> None \<and> v \<le> max_version then Inr v
       else Inl VersionNotFoundException)"

lemma max_key_eq: "max_key d = (if d = [] then Inl ValueError else Inr (Max (fst ` set d)))"
proof (cases d)
  case (Cons x xs)
  then have "fold max (dict_keys xs) (fst x) = Max (set (fst x # dict_keys xs))"
    by (simp only: Max.set_eq_fold)
  with Cons show ?thesis by (simp add: max_key_def)
qed (simp add: max_key_def)

lemma max_key_in:
  assumes "max_key d = Inr m"
  shows "m \<in> fst ` set d"
proof -
  from assms have "d \<noteq> []" and m: "m = Max (fst ` set d)" by (auto simp: max_key_eq split: if_splits)
  then show ?thesis unfolding m by (intro Max_in) auto
qed

lemma max_key_ge: "max_key d = Inr m \<Longrightarrow> k \<in> fst ` set d \<Longrightarrow> k \<le> m"
proof -
  assume "max_key d = Inr m" and k: "k \<in> fst ` set d"
  then have m: "m = Max (fst ` set d)" by (auto simp: max_key_eq split: if_splits)
  show "k \<le> m" unfolding m using k by (intro Max_ge) auto
qed

lemma from_schema_versions_in:
  assumes "from_schema_versions svs v = Inr w"
  shows "dict_get svs w \<noteq> None"
  using assms max_key_in [of svs w]
  by (cases "is_latest v") (auto simp: from_schema_versions_def map_of_eq_None_iff split: if_splits)

lemma versioner_V_eq:
  "versioner_V (TagInt i) = (if i = -1 \<or> 1 \<le> i then Inr (Version i) else Inl InvalidVersion)"
  by (auto simp: versioner_V_def validate_tag_def mk_version_def MINUS_1_VERSION_TAG_def)

lemma versioner_V_latest [simp]: "versioner_V (TagStr ''latest'') = Inr (Version (-1))"
  by (simp add: versioner_V_def validate_tag_def mk_version_def MINUS_1_VERSION_TAG_def LATEST_VERSION_TAG_def)

lemma py_int_errors: "py_int s = Inl x \<Longrightarrow> x = ValueError"
  by (auto simp: py_int_def of_option_def split: option.splits)

lemma resolve_tag_errors: "resolve_tag t = Inl x \<Longrightarrow> x = ValueError"
  by (cases t) (auto dest: py_int_errors split: if_splits)

lemma versioner_V_range:
  "versioner_V tag = Inr v \<Longrightarrow> version_value v = -1 \<or> 1 \<le> version_value v"
  by (auto simp: versioner_V_def validate_tag_def MINUS_1_VERSION_TAG_def split: if_splits)

lemma versioner_V_errors: "versioner_V tag = Inl x \<Longrightarrow> x = InvalidVersion"
proof (cases "resolve_tag tag")
  case (Inl y)
  then have y: "y = ValueError" by (rule resolve_tag_errors)
  moreover have "tag \<noteq> TagStr LATEST_VERSION_TAG" using Inl by auto
  moreover assume "versioner_V tag = Inl x"
  ultimately show ?thesis using Inl by (simp add: versioner_V_def validate_tag_def)
next
  case (Inr i)
  moreover assume "versioner_V tag = Inl x"
  ultimately show ?thesis
    by (auto simp: versioner_V_def validate_tag_def mk_version_def split: if_splits)
qed

end
