(* ===== verification/Memory_Database.thy ===== *)
theory Memory_Database
  imports Schema_Models
begin

text \<open>
  \<open>karapace/core/in_memory_database.py\<close>: the in-memory store of subjects, versions, schema ids and
  references. One definition per method of \<open>InMemoryDatabase\<close>; the thread locks guard single
  method calls and each definition is one such call. Mutation is state passing over the record
  \<open>database\<close>. The compatibility level of a subject is a JSON value, \<^const>\<open>JNull\<close> for \<open>None\<close>.
\<close>

section \<open>State\<close>

record subject_data =
  sd_schemas :: versions
  sd_compatibility :: json

record database =
  global_schema_id :: int
  subjects :: "(string, subject_data) dict"
  schemas :: "(int, typed_schema) dict"
  referenced_by :: "(string \<times> version, int set) dict"
  hash_to_schema :: "(string, typed_schema) dict"
  hash_to_schema_id_on_subject :: "(string, (string, int) dict) dict"

definition empty_subject_data :: subject_data where
  "empty_subject_data = \<lparr>sd_schemas = [], sd_compatibility = JNull\<rparr>"

definition init_database :: database where
  "init_database = \<lparr>global_schema_id = 0, subjects = [], schemas = [], referenced_by = [],
     hash_to_schema = [], hash_to_schema_id_on_subject = []\<rparr>"

section \<open>Operations\<close>

definition get_schema_id_from_storage :: "typed_schema \<Rightarrow> database \<Rightarrow> int option" where
  "get_schema_id_from_storage s db = map_option fst (find (\<lambda>(i, t). ts_eq t s) (schemas db))"

definition get_schema_id :: "typed_schema \<Rightarrow> database \<Rightarrow> int \<times> database" where
  "get_schema_id s db =
     (case get_schema_id_from_storage s db of
        Some i \<Rightarrow> (i, db)
      | None \<Rightarrow> let g = global_schema_id db + 1 in (g, db\<lparr>global_schema_id := g\<rparr>))"

definition get_schema_id_if_exists ::
    "('a, 'n, 'p, 'z) ext_scheme \<Rightarrow> string \<Rightarrow> typed_schema \<Rightarrow> database \<Rightarrow> int option" where
  "get_schema_id_if_exists e subject s db =
     (case dict_get (hash_to_schema_id_on_subject db) subject of
        None \<Rightarrow> None
      | Some m \<Rightarrow> if m = [] then None else dict_get m (fingerprint e s))"

definition set_schema_id_on_subject ::
    "('a, 'n, 'p, 'z) ext_scheme \<Rightarrow> string \<Rightarrow> typed_schema \<Rightarrow> int \<Rightarrow> database \<Rightarrow> database" where
  "set_schema_id_on_subject e subject s i db =
     (let h = setdefault (hash_to_schema_id_on_subject db) subject [];
          m = (case dict_get h subject of None \<Rightarrow> [] | Some m \<Rightarrow> m)
      in db\<lparr>hash_to_schema_id_on_subject := dict_set h subject (dict_set m (fingerprint e s) i)\<rparr>)"

definition delete_from_schema_id_on_subject ::
    "('a, 'n, 'p, 'z) ext_scheme \<Rightarrow> string \<Rightarrow> typed_schema \<Rightarrow> database \<Rightarrow> database" where
  "delete_from_schema_id_on_subject e subject s db =
     (case dict_get (hash_to_schema_id_on_subject db) subject of
        None \<Rightarrow> db
      | Some m \<Rightarrow>
          let m' = dict_pop m (fingerprint e s)
          in if m' = []
             then db\<lparr>hash_to_schema_id_on_subject := dict_pop (hash_to_schema_id_on_subject db) subject\<rparr>
             else db\<lparr>hash_to_schema_id_on_subject := dict_set (hash_to_schema_id_on_subject db) subject m'\<rparr>)"

definition delete_subject_from_schema_id_on_subject :: "string \<Rightarrow> database \<Rightarrow> database" where
  "delete_subject_from_schema_id_on_subject subject db =
     db\<lparr>hash_to_schema_id_on_subject := dict_pop (hash_to_schema_id_on_subject db) subject\<rparr>"

definition get_from_hash_cache ::
    "('a, 'n, 'p, 'z) ext_scheme \<Rightarrow> typed_schema \<Rightarrow> database \<Rightarrow> typed_schema \<times> database" where
  "get_from_hash_cache e s db =
     (case dict_get (hash_to_schema db) (fingerprint e s) of
        Some t \<Rightarrow> (t, db)
      | None \<Rightarrow> (s, db\<lparr>hash_to_schema := dict_set (hash_to_schema db) (fingerprint e s) s\<rparr>))"

definition get_next_version :: "string \<Rightarrow> database \<Rightarrow> version res" where
  "get_next_version subject db =
     rbind (of_option KeyError (dict_get (subjects db) subject)) (\<lambda>sd.
     rbind (max_key (sd_schemas sd)) (\<lambda>m. versioner_V (TagInt (version_value m + 1))))"

definition find_subject :: "string \<Rightarrow> database \<Rightarrow> string option" where
  "find_subject subject db = (if dict_get (subjects db) subject \<noteq> None then Some subject else None)"

definition insert_subject :: "string \<Rightarrow> database \<Rightarrow> database" where
  "insert_subject subject db = db\<lparr>subjects := setdefault (subjects db) subject empty_subject_data\<rparr>"

definition insert_referenced_by :: "string \<Rightarrow> version \<Rightarrow> int \<Rightarrow> database \<Rightarrow> database" where
  "insert_referenced_by subject version i db =
     (case dict_get (referenced_by db) (subject, version) of
        Some rs \<Rightarrow>
          if rs \<noteq> {} then db\<lparr>referenced_by := dict_set (referenced_by db) (subject, version) (insert i rs)\<rparr>
          else db\<lparr>referenced_by := dict_set (referenced_by db) (subject, version) {i}\<rparr>
      | None \<Rightarrow> db\<lparr>referenced_by := dict_set (referenced_by db) (subject, version) {i}\<rparr>)"

definition get_referenced_by :: "string \<Rightarrow> version \<Rightarrow> database \<Rightarrow> int set option" where
  "get_referenced_by subject version db = dict_get (referenced_by db) (subject, version)"

definition remove_reference :: "int \<Rightarrow> reference \<Rightarrow> database \<Rightarrow> database" where
  "remove_reference i r db =
     (let key = (ref_subject r, ref_version r)
      in case dict_get (referenced_by db) key of
           Some rs \<Rightarrow>
             if rs \<noteq> {} \<and> i \<in> rs then db\<lparr>referenced_by := dict_set (referenced_by db) key (rs - {i})\<rparr> else db
         | None \<Rightarrow> db)"

definition remove_referenced_by :: "int \<Rightarrow> reference list \<Rightarrow> database \<Rightarrow> database" where
  "remove_referenced_by i rs db = fold (remove_reference i) rs db"

text \<open>\<open>self.subjects[subject].schemas[version] = ...\<close> for a subject that is present.\<close>

definition set_version :: "string \<Rightarrow> version \<Rightarrow> schema_version \<Rightarrow> database \<Rightarrow> database" where
  "set_version subject version sv db =
     (case dict_get (subjects db) subject of
        None \<Rightarrow> db
      | Some sd \<Rightarrow> db\<lparr>subjects := dict_set (subjects db) subject
                       (sd\<lparr>sd_schemas := dict_set (sd_schemas sd) version sv\<rparr>)\<rparr>)"

definition insert_schema_version ::
    "('a, 'n, 'p, 'z) ext_scheme \<Rightarrow> string \<Rightarrow> int \<Rightarrow> version \<Rightarrow> bool \<Rightarrow> typed_schema \<Rightarrow>
     reference list option \<Rightarrow> database \<Rightarrow> database" where
  "insert_schema_version e subject schema_id version deleted schema references db =
     (let db = db\<lparr>global_schema_id := max (global_schema_id db) schema_id\<rparr>;
          (schema, db) = get_from_hash_cache e schema db;
          db = (if find_subject subject db = None then insert_subject subject db else db);
          db = db\<lparr>schemas := dict_set (schemas db) schema_id schema\<rparr>;
          db = set_version subject version
                 \<lparr>sv_subject = subject, sv_version = version, sv_deleted = deleted,
                  sv_schema_id = schema_id, sv_schema = schema, sv_references = references\<rparr> db
      in if \<not> deleted
         then let db = set_schema_id_on_subject e subject schema schema_id db
              in (case references of
                    None \<Rightarrow> db
                  | Some rs \<Rightarrow> fold (\<lambda>r. insert_referenced_by (ref_subject r) (ref_version r) schema_id) rs db)
         else delete_from_schema_id_on_subject e subject schema db)"

definition get_subject_compatibility :: "string \<Rightarrow> database \<Rightarrow> json" where
  "get_subject_compatibility subject db =
     (case dict_get (subjects db) subject of Some sd \<Rightarrow> sd_compatibility sd | None \<Rightarrow> JNull)"

definition set_subject_compatibility :: "string \<Rightarrow> json \<Rightarrow> database \<Rightarrow> database" where
  "set_subject_compatibility subject c db =
     (case dict_get (subjects db) subject of
        Some sd \<Rightarrow> db\<lparr>subjects := dict_set (subjects db) subject (sd\<lparr>sd_compatibility := c\<rparr>)\<rparr>
      | None \<Rightarrow> db)"

definition delete_subject_compatibility :: "string \<Rightarrow> database \<Rightarrow> database" where
  "delete_subject_compatibility subject db =
     (case dict_get (subjects db) subject of
        Some sd \<Rightarrow> db\<lparr>subjects := dict_set (subjects db) subject (sd\<lparr>sd_compatibility := JNull\<rparr>)\<rparr>
      | None \<Rightarrow> db)"

definition find_schema :: "int \<Rightarrow> database \<Rightarrow> typed_schema res" where
  "find_schema i db = of_option KeyError (dict_get (schemas db) i)"

definition find_schemas :: "bool \<Rightarrow> bool \<Rightarrow> database \<Rightarrow> (string, schema_version list) dict" where
  "find_schemas include_deleted latest_only db =
     map (\<lambda>(subject, sd).
       let svs = dict_values (sd_schemas sd);
           selected = (if latest_only \<and> length svs > 0 then [last svs] else svs);
           selected = (if include_deleted then filter (\<lambda>sv. \<not> sv_deleted sv) selected else selected)
       in (subject, selected)) (subjects db)"

definition subjects_for_schema :: "int \<Rightarrow> database \<Rightarrow> string list" where
  "subjects_for_schema i db =
     map fst (filter (\<lambda>(subject, sd).
       list_ex (\<lambda>sv. \<not> sv_deleted sv \<and> sv_schema_id sv = i) (dict_values (sd_schemas sd))) (subjects db))"

definition find_subject_schemas :: "string \<Rightarrow> bool \<Rightarrow> database \<Rightarrow> versions" where
  "find_subject_schemas subject include_deleted db =
     (case dict_get (subjects db) subject of
        None \<Rightarrow> []
      | Some sd \<Rightarrow>
          if include_deleted then sd_schemas sd
          else filter (\<lambda>(v, sv). \<not> sv_deleted sv) (sd_schemas sd))"

definition find_schema_versions_by_schema_id :: "int \<Rightarrow> bool \<Rightarrow> database \<Rightarrow> schema_version list" where
  "find_schema_versions_by_schema_id i include_deleted db =
     concat (map (\<lambda>subject.
       filter (\<lambda>sv. sv_schema_id sv = i) (dict_values (find_subject_schemas subject include_deleted db)))
       (dict_keys (subjects db)))"

definition find_subjects :: "bool \<Rightarrow> database \<Rightarrow> string list" where
  "find_subjects include_deleted db =
     (if include_deleted then dict_keys (subjects db)
      else filter (\<lambda>subject. find_subject_schemas subject False db \<noteq> []) (dict_keys (subjects db)))"

definition mark_deleted :: "version \<Rightarrow> schema_version \<Rightarrow> schema_version" where
  "mark_deleted version sv = (if sv_version sv \<le> version then sv\<lparr>sv_deleted := True\<rparr> else sv)"

definition delete_subject ::
    "('a, 'n, 'p, 'z) ext_scheme \<Rightarrow> string \<Rightarrow> version \<Rightarrow> database \<Rightarrow> database res" where
  "delete_subject e subject version db =
     (case dict_get (subjects db) subject of
        None \<Rightarrow> Inl KeyError
      | Some sd \<Rightarrow>
          Inr (fold (\<lambda>sv. delete_from_schema_id_on_subject e subject (sv_schema sv))
                 (dict_values (sd_schemas sd))
                 (db\<lparr>subjects := dict_set (subjects db) subject
                    (sd\<lparr>sd_schemas := map (\<lambda>(v, sv). (v, mark_deleted version sv)) (sd_schemas sd)\<rparr>)\<rparr>)))"

definition remove_references_of :: "schema_version \<Rightarrow> database \<Rightarrow> database" where
  "remove_references_of sv db =
     (case sv_references sv of
        None \<Rightarrow> db
      | Some rs \<Rightarrow> if rs \<noteq> [] then remove_referenced_by (sv_schema_id sv) rs db else db)"

definition delete_subject_hard :: "string \<Rightarrow> database \<Rightarrow> database res" where
  "delete_subject_hard subject db =
     (case dict_get (subjects db) subject of
        None \<Rightarrow> Inl KeyError
      | Some sd \<Rightarrow>
          let db = fold remove_references_of (dict_values (sd_schemas sd)) db;
              db = db\<lparr>subjects := dict_pop (subjects db) subject\<rparr>
          in Inr (delete_subject_from_schema_id_on_subject subject db))"

definition delete_subject_schema ::
    "('a, 'n, 'p, 'z) ext_scheme \<Rightarrow> string \<Rightarrow> version \<Rightarrow> database \<Rightarrow> database res" where
  "delete_subject_schema e subject version db =
     (case dict_get (subjects db) subject of
        None \<Rightarrow> Inl KeyError
      | Some sd \<Rightarrow>
          let db' = db\<lparr>subjects := dict_set (subjects db) subject
                      (sd\<lparr>sd_schemas := dict_pop (sd_schemas sd) version\<rparr>)\<rparr>
          in Inr (case dict_get (sd_schemas sd) version of
                    None \<Rightarrow> db'
                  | Some sv \<Rightarrow>
                      delete_from_schema_id_on_subject e subject (sv_schema sv) (remove_references_of sv db')))"

definition num_schemas :: "database \<Rightarrow> nat" where
  "num_schemas db = length (schemas db)"

definition num_subjects :: "database \<Rightarrow> nat" where
  "num_subjects db = length (subjects db)"

definition num_schema_versions :: "database \<Rightarrow> nat \<times> nat" where
  "num_schema_versions db =
     fold (\<lambda>sd acc. fold (\<lambda>sv (live, soft_deleted).
         if \<not> sv_deleted sv then (live + 1, soft_deleted) else (live, soft_deleted + 1))
       (dict_values (sd_schemas sd)) acc) (dict_values (subjects db)) (0, 0)"

lemmas index_defs = set_schema_id_on_subject_def delete_from_schema_id_on_subject_def
  delete_subject_from_schema_id_on_subject_def get_from_hash_cache_def
lemmas reference_defs = insert_referenced_by_def remove_reference_def

section \<open>Frames\<close>

text \<open>Which fields each helper leaves alone.\<close>

lemma set_schema_id_on_subject_frame [simp]:
  "subjects (set_schema_id_on_subject e s t i db) = subjects db"
  "schemas (set_schema_id_on_subject e s t i db) = schemas db"
  "global_schema_id (set_schema_id_on_subject e s t i db) = global_schema_id db"
  "referenced_by (set_schema_id_on_subject e s t i db) = referenced_by db"
  "hash_to_schema (set_schema_id_on_subject e s t i db) = hash_to_schema db"
  by (simp_all add: set_schema_id_on_subject_def Let_def)

lemma delete_from_schema_id_on_subject_frame [simp]:
  "subjects (delete_from_schema_id_on_subject e s t db) = subjects db"
  "schemas (delete_from_schema_id_on_subject e s t db) = schemas db"
  "global_schema_id (delete_from_schema_id_on_subject e s t db) = global_schema_id db"
  "referenced_by (delete_from_schema_id_on_subject e s t db) = referenced_by db"
  "hash_to_schema (delete_from_schema_id_on_subject e s t db) = hash_to_schema db"
  by (simp_all add: delete_from_schema_id_on_subject_def Let_def split: option.splits)

lemma insert_referenced_by_frame [simp]:
  "subjects (insert_referenced_by s v i db) = subjects db"
  "schemas (insert_referenced_by s v i db) = schemas db"
  "global_schema_id (insert_referenced_by s v i db) = global_schema_id db"
  "hash_to_schema (insert_referenced_by s v i db) = hash_to_schema db"
  "hash_to_schema_id_on_subject (insert_referenced_by s v i db) = hash_to_schema_id_on_subject db"
  by (simp_all add: insert_referenced_by_def split: option.splits)

lemma remove_reference_frame [simp]:
  "subjects (remove_reference i r db) = subjects db"
  "schemas (remove_reference i r db) = schemas db"
  "global_schema_id (remove_reference i r db) = global_schema_id db"
  "hash_to_schema (remove_reference i r db) = hash_to_schema db"
  "hash_to_schema_id_on_subject (remove_reference i r db) = hash_to_schema_id_on_subject db"
  by (simp_all add: remove_reference_def Let_def split: option.splits)

lemma remove_references_of_frame [simp]:
  "subjects (remove_references_of sv db) = subjects db"
  "schemas (remove_references_of sv db) = schemas db"
  "global_schema_id (remove_references_of sv db) = global_schema_id db"
  "hash_to_schema (remove_references_of sv db) = hash_to_schema db"
  "hash_to_schema_id_on_subject (remove_references_of sv db) = hash_to_schema_id_on_subject db"
  by (auto simp: remove_references_of_def remove_referenced_by_def fold_frame split: option.splits)

lemma get_from_hash_cache_frame [simp]:
  "subjects (snd (get_from_hash_cache e t db)) = subjects db"
  "schemas (snd (get_from_hash_cache e t db)) = schemas db"
  "global_schema_id (snd (get_from_hash_cache e t db)) = global_schema_id db"
  "referenced_by (snd (get_from_hash_cache e t db)) = referenced_by db"
  "hash_to_schema_id_on_subject (snd (get_from_hash_cache e t db)) = hash_to_schema_id_on_subject db"
  by (auto simp: get_from_hash_cache_def split: option.splits)

lemma set_version_frame [simp]:
  "schemas (set_version s v sv db) = schemas db"
  "global_schema_id (set_version s v sv db) = global_schema_id db"
  "referenced_by (set_version s v sv db) = referenced_by db"
  "hash_to_schema (set_version s v sv db) = hash_to_schema db"
  "hash_to_schema_id_on_subject (set_version s v sv db) = hash_to_schema_id_on_subject db"
  by (auto simp: set_version_def split: option.splits)

lemma insert_subject_frame [simp]:
  "schemas (insert_subject s db) = schemas db"
  "global_schema_id (insert_subject s db) = global_schema_id db"
  "referenced_by (insert_subject s db) = referenced_by db"
  "hash_to_schema (insert_subject s db) = hash_to_schema db"
  "hash_to_schema_id_on_subject (insert_subject s db) = hash_to_schema_id_on_subject db"
  by (simp_all add: insert_subject_def)

lemma insert_references_frame [simp]:
  "subjects (fold (\<lambda>r. insert_referenced_by (ref_subject r) (ref_version r) i) rs db) = subjects db"
  "schemas (fold (\<lambda>r. insert_referenced_by (ref_subject r) (ref_version r) i) rs db) = schemas db"
  "global_schema_id (fold (\<lambda>r. insert_referenced_by (ref_subject r) (ref_version r) i) rs db) = global_schema_id db"
  "hash_to_schema (fold (\<lambda>r. insert_referenced_by (ref_subject r) (ref_version r) i) rs db) = hash_to_schema db"
  "hash_to_schema_id_on_subject (fold (\<lambda>r. insert_referenced_by (ref_subject r) (ref_version r) i) rs db) =
     hash_to_schema_id_on_subject db"
  by (simp_all add: fold_frame)

lemma delete_index_fold_frame [simp]:
  "subjects (fold (\<lambda>sv. delete_from_schema_id_on_subject e s (sv_schema sv)) svs db) = subjects db"
  "schemas (fold (\<lambda>sv. delete_from_schema_id_on_subject e s (sv_schema sv)) svs db) = schemas db"
  "global_schema_id (fold (\<lambda>sv. delete_from_schema_id_on_subject e s (sv_schema sv)) svs db) = global_schema_id db"
  "referenced_by (fold (\<lambda>sv. delete_from_schema_id_on_subject e s (sv_schema sv)) svs db) = referenced_by db"
  "hash_to_schema (fold (\<lambda>sv. delete_from_schema_id_on_subject e s (sv_schema sv)) svs db) = hash_to_schema db"
  by (simp_all add: fold_frame)

lemma remove_references_fold_frame [simp]:
  "subjects (fold remove_references_of svs db) = subjects db"
  "schemas (fold remove_references_of svs db) = schemas db"
  "global_schema_id (fold remove_references_of svs db) = global_schema_id db"
  "hash_to_schema (fold remove_references_of svs db) = hash_to_schema db"
  "hash_to_schema_id_on_subject (fold remove_references_of svs db) = hash_to_schema_id_on_subject db"
  by (simp_all add: fold_frame)

text \<open>The schema that \<open>insert_schema_version\<close> stores: the first one seen with the same fingerprint.\<close>

definition dedup :: "('a, 'n, 'p, 'z) ext_scheme \<Rightarrow> typed_schema \<Rightarrow> database \<Rightarrow> typed_schema" where
  "dedup e t db = (case dict_get (hash_to_schema db) (fingerprint e t) of Some u \<Rightarrow> u | None \<Rightarrow> t)"

lemma fst_get_from_hash_cache [simp]: "fst (get_from_hash_cache e t db) = dedup e t db"
  by (auto simp: get_from_hash_cache_def dedup_def split: option.splits)

lemma hash_to_schema_get_from_hash_cache [simp]:
  "hash_to_schema (snd (get_from_hash_cache e t db)) = setdefault (hash_to_schema db) (fingerprint e t) t"
  by (auto simp: get_from_hash_cache_def setdefault_def split: option.splits)

lemma dedup_global [simp]: "dedup e t (db\<lparr>global_schema_id := g\<rparr>) = dedup e t db"
  by (simp add: dedup_def)

definition the_versions :: "subject_data option \<Rightarrow> versions" where
  "the_versions x = (case x of None \<Rightarrow> [] | Some sd \<Rightarrow> sd_schemas sd)"

lemma the_versions_simps [simp]: "the_versions None = []" "the_versions (Some sd) = sd_schemas sd"
  by (simp_all add: the_versions_def)

lemma find_subject_schemas_all: "find_subject_schemas s True db = the_versions (dict_get (subjects db) s)"
  by (simp add: find_subject_schemas_def the_versions_def split: option.splits)

lemma find_subject_schemas_live:
  "find_subject_schemas s False db = filter (\<lambda>(v, sv). \<not> sv_deleted sv) (find_subject_schemas s True db)"
  by (auto simp: find_subject_schemas_def split: option.splits)

section \<open>What insert_schema_version does\<close>

lemma insert_schema_version_fields:
  "schemas (insert_schema_version e s i v d t r db) = dict_set (schemas db) i (dedup e t db)"
  "global_schema_id (insert_schema_version e s i v d t r db) = max (global_schema_id db) i"
  "hash_to_schema (insert_schema_version e s i v d t r db) = setdefault (hash_to_schema db) (fingerprint e t) t"
  by (auto simp: insert_schema_version_def Let_def case_prod_unfold split: option.splits)

lemma insert_schema_version_subjects:
  "dict_get (subjects (insert_schema_version e s i v d t r db)) s' =
     (if s' = s
      then Some ((case dict_get (subjects db) s of None \<Rightarrow> empty_subject_data | Some sd \<Rightarrow> sd)
        \<lparr>sd_schemas := dict_set (find_subject_schemas s True db) v
           \<lparr>sv_subject = s, sv_version = v, sv_deleted = d, sv_schema_id = i,
            sv_schema = dedup e t db, sv_references = r\<rparr>\<rparr>)
      else dict_get (subjects db) s')"
  by (auto simp: insert_schema_version_def Let_def case_prod_unfold set_version_def insert_subject_def
      find_subject_def find_subject_schemas_all empty_subject_data_def split: option.splits)

lemma insert_schema_version_same:
  "find_subject_schemas s True (insert_schema_version e s i v d t r db) =
     dict_set (find_subject_schemas s True db) v
       \<lparr>sv_subject = s, sv_version = v, sv_deleted = d, sv_schema_id = i,
        sv_schema = dedup e t db, sv_references = r\<rparr>"
  by (simp add: find_subject_schemas_all insert_schema_version_subjects)

lemma insert_schema_version_other:
  "s' \<noteq> s \<Longrightarrow> find_subject_schemas s' b (insert_schema_version e s i v d t r db) = find_subject_schemas s' b db"
  by (simp add: find_subject_schemas_def insert_schema_version_subjects)

section \<open>What the deletions do\<close>

lemma delete_subject_unknown: "find_subject s db = None \<longleftrightarrow> delete_subject e s v db = Inl KeyError"
  by (auto simp: find_subject_def delete_subject_def split: option.splits if_splits)

lemma delete_subject_subjects:
  "delete_subject e s v db = Inr db' \<Longrightarrow> \<exists>sd. dict_get (subjects db) s = Some sd \<and>
     subjects db' = dict_set (subjects db) s
       (sd\<lparr>sd_schemas := map (\<lambda>(w, sv). (w, mark_deleted v sv)) (sd_schemas sd)\<rparr>)"
  by (auto simp: delete_subject_def split: option.splits)

lemma delete_subject_versions:
  assumes "delete_subject e s v db = Inr db'"
  shows "find_subject_schemas s' True db' =
     (if s' = s then map (\<lambda>(w, sv). (w, mark_deleted v sv)) (find_subject_schemas s True db)
      else find_subject_schemas s' True db)"
  using delete_subject_subjects [OF assms] by (auto simp: find_subject_schemas_all)

lemma delete_subject_rest:
  assumes "delete_subject e s v db = Inr db'"
  shows "schemas db' = schemas db" "global_schema_id db' = global_schema_id db"
    "referenced_by db' = referenced_by db" "hash_to_schema db' = hash_to_schema db"
  using assms by (auto simp: delete_subject_def split: option.splits)

lemma delete_subject_schema_subjects:
  "delete_subject_schema e s v db = Inr db' \<Longrightarrow> \<exists>sd. dict_get (subjects db) s = Some sd \<and>
     subjects db' = dict_set (subjects db) s (sd\<lparr>sd_schemas := dict_pop (sd_schemas sd) v\<rparr>)"
  by (auto simp: delete_subject_schema_def Let_def split: option.splits)

lemma delete_subject_schema_versions:
  assumes "delete_subject_schema e s v db = Inr db'"
  shows "find_subject_schemas s' True db' =
     (if s' = s then dict_pop (find_subject_schemas s True db) v else find_subject_schemas s' True db)"
  using delete_subject_schema_subjects [OF assms] by (auto simp: find_subject_schemas_all)

lemma delete_subject_schema_rest:
  assumes "delete_subject_schema e s v db = Inr db'"
  shows "schemas db' = schemas db" "global_schema_id db' = global_schema_id db"
    "hash_to_schema db' = hash_to_schema db"
  using assms by (auto simp: delete_subject_schema_def Let_def split: option.splits)

lemma delete_subject_hard_subjects:
  "delete_subject_hard s db = Inr db' \<Longrightarrow>
     dict_get (subjects db) s \<noteq> None \<and> subjects db' = dict_pop (subjects db) s"
  by (auto simp: delete_subject_hard_def delete_subject_from_schema_id_on_subject_def Let_def split: option.splits)

lemma delete_subject_hard_versions:
  assumes "delete_subject_hard s db = Inr db'"
  shows "find_subject_schemas s' True db' = (if s' = s then [] else find_subject_schemas s' True db)"
  using delete_subject_hard_subjects [OF assms] by (auto simp: find_subject_schemas_all)

lemma delete_subject_hard_rest:
  assumes "delete_subject_hard s db = Inr db'"
  shows "schemas db' = schemas db" "global_schema_id db' = global_schema_id db"
    "hash_to_schema db' = hash_to_schema db"
  using assms
  by (auto simp: delete_subject_hard_def delete_subject_from_schema_id_on_subject_def Let_def split: option.splits)

lemma mark_deleted_simps [simp]:
  "sv_deleted (mark_deleted v sv) \<longleftrightarrow> sv_deleted sv \<or> sv_version sv \<le> v"
  "sv_version (mark_deleted v sv) = sv_version sv"
  "sv_subject (mark_deleted v sv) = sv_subject sv"
  "sv_schema_id (mark_deleted v sv) = sv_schema_id sv"
  "sv_schema (mark_deleted v sv) = sv_schema sv"
  "sv_references (mark_deleted v sv) = sv_references sv"
  by (auto simp: mark_deleted_def)

section \<open>The contract of the store\<close>

text \<open>
  \<open>KarapaceDatabase\<close>, the abstract base class through which the schema reader and the registry use
  the database, as a locale: the version table of each subject and what every state-changing call
  does to it.
\<close>

locale version_store =
  fixes table :: "string \<Rightarrow> 'db \<Rightarrow> versions"
    and known :: "string \<Rightarrow> 'db \<Rightarrow> bool"
    and put :: "string \<Rightarrow> int \<Rightarrow> version \<Rightarrow> bool \<Rightarrow> typed_schema \<Rightarrow> reference list option \<Rightarrow> 'db \<Rightarrow> 'db"
    and soft :: "string \<Rightarrow> version \<Rightarrow> 'db \<Rightarrow> 'db res"
    and drop_version :: "string \<Rightarrow> version \<Rightarrow> 'db \<Rightarrow> 'db res"
    and drop_subject :: "string \<Rightarrow> 'db \<Rightarrow> 'db res"
    and canon :: "typed_schema \<Rightarrow> 'db \<Rightarrow> typed_schema"
  assumes table_unknown: "\<not> known s db \<Longrightarrow> table s db = []"
    and put_table: "table s' (put s i v d t r db) =
          (if s' = s then dict_set (table s db) v
             \<lparr>sv_subject = s, sv_version = v, sv_deleted = d, sv_schema_id = i,
              sv_schema = canon t db, sv_references = r\<rparr> else table s' db)"
    and soft_known: "known s db \<Longrightarrow> \<exists>db'. soft s v db = Inr db'"
    and soft_table: "soft s v db = Inr db' \<Longrightarrow> table s' db' =
          (if s' = s then map (\<lambda>(w, sv). (w, mark_deleted v sv)) (table s db) else table s' db)"
    and drop_version_known: "known s db \<Longrightarrow> \<exists>db'. drop_version s v db = Inr db'"
    and drop_version_table: "drop_version s v db = Inr db' \<Longrightarrow> table s' db' =
          (if s' = s then dict_pop (table s db) v else table s' db)"
    and drop_subject_known: "known s db \<Longrightarrow> \<exists>db'. drop_subject s db = Inr db'"
    and drop_subject_table: "drop_subject s db = Inr db' \<Longrightarrow> table s' db' = (if s' = s then [] else table s' db)"
begin

definition live :: "string \<Rightarrow> 'db \<Rightarrow> version set" where
  "live s db = {v. \<exists>sv. dict_get (table s db) v = Some sv \<and> \<not> sv_deleted sv}"

definition tables_ok :: "'db \<Rightarrow> bool" where
  "tables_ok db \<longleftrightarrow> (\<forall>s. dict_ok (table s db) \<and>
     (\<forall>v sv. dict_get (table s db) v = Some sv \<longrightarrow> sv_version sv = v \<and> sv_subject sv = s))"

lemma tables_ok_put: "tables_ok db \<Longrightarrow> tables_ok (put s i v d t r db)"
  by (auto simp: tables_ok_def put_table)

lemma tables_ok_soft: "tables_ok db \<Longrightarrow> soft s v db = Inr db' \<Longrightarrow> tables_ok db'"
  by (auto simp: tables_ok_def soft_table dict_get_map_values)

lemma tables_ok_drop_version: "tables_ok db \<Longrightarrow> drop_version s v db = Inr db' \<Longrightarrow> tables_ok db'"
  by (auto simp: tables_ok_def drop_version_table)

lemma tables_ok_drop_subject: "tables_ok db \<Longrightarrow> drop_subject s db = Inr db' \<Longrightarrow> tables_ok db'"
  by (auto simp: tables_ok_def drop_subject_table)

lemma live_put:
  "live s' (put s i v d t r db) =
     (if s' = s then (if d then live s db - {v} else insert v (live s db)) else live s' db)"
  by (auto simp: live_def put_table)

lemma live_soft:
  assumes "tables_ok db" and "soft s v db = Inr db'"
  shows "live s' db' = (if s' = s then {w \<in> live s db. v < w} else live s' db)"
  using assms by (fastforce simp: live_def soft_table dict_get_map_values tables_ok_def not_le)

lemma live_drop_version:
  "drop_version s v db = Inr db' \<Longrightarrow> live s' db' = (if s' = s then live s db - {v} else live s' db)"
  by (auto simp: live_def drop_version_table)

lemma live_drop_subject:
  "drop_subject s db = Inr db' \<Longrightarrow> live s' db' = (if s' = s then {} else live s' db)"
  by (auto simp: live_def drop_subject_table)

lemma soft_all:
  assumes "tables_ok db" and "soft s v db = Inr db'" and "\<And>w. w \<in> live s db \<Longrightarrow> w \<le> v"
  shows "live s db' = {}"
  using assms by (auto simp: live_soft) (meson leD)

lemma put_commute:
  assumes "(s, v) \<noteq> (s', v')" and "canon t' (put s i v d t r db) = canon t' db"
    and "canon t (put s' i' v' d' t' r' db) = canon t db"
  shows "dict_get (table x (put s' i' v' d' t' r' (put s i v d t r db))) w =
         dict_get (table x (put s i v d t r (put s' i' v' d' t' r' db))) w"
  using assms by (auto simp: put_table)

end

interpretation vs: version_store
  "\<lambda>s db. find_subject_schemas s True db" "\<lambda>s db. find_subject s db \<noteq> None"
  "insert_schema_version e" "delete_subject e" "delete_subject_schema e" delete_subject_hard "dedup e"
  for e :: "('a, 'n, 'p, 'z) ext_scheme"
proof unfold_locales
  fix s :: string and db db' :: database and v :: version
  show "\<not> find_subject s db \<noteq> None \<Longrightarrow> find_subject_schemas s True db = []"
    by (auto simp: find_subject_def find_subject_schemas_def split: if_splits option.splits)
  show "find_subject s db \<noteq> None \<Longrightarrow> \<exists>db'. delete_subject e s v db = Inr db'"
    by (auto simp: find_subject_def delete_subject_def split: if_splits option.splits)
  show "find_subject s db \<noteq> None \<Longrightarrow> \<exists>db'. delete_subject_schema e s v db = Inr db'"
    by (auto simp: find_subject_def delete_subject_schema_def Let_def split: if_splits option.splits)
  show "find_subject s db \<noteq> None \<Longrightarrow> \<exists>db'. delete_subject_hard s db = Inr db'"
    by (auto simp: find_subject_def delete_subject_hard_def Let_def split: if_splits option.splits)
qed (auto simp: insert_schema_version_same insert_schema_version_other delete_subject_versions
       delete_subject_schema_versions delete_subject_hard_versions)

section \<open>The fingerprint index\<close>

lemma index_set_schema_id:
  "get_schema_id_if_exists e s' t' (set_schema_id_on_subject e s t i db) =
     (if s' = s \<and> fingerprint e t' = fingerprint e t then Some i else get_schema_id_if_exists e s' t' db)"
  by (auto simp: get_schema_id_if_exists_def set_schema_id_on_subject_def Let_def
      split: option.splits)

lemma index_delete_from:
  "get_schema_id_if_exists e s' t' (delete_from_schema_id_on_subject e s t db) =
     (if s' = s \<and> fingerprint e t' = fingerprint e t then None else get_schema_id_if_exists e s' t' db)"
proof (cases "dict_get (hash_to_schema_id_on_subject db) s")
  case None
  then show ?thesis
    by (auto simp: get_schema_id_if_exists_def delete_from_schema_id_on_subject_def)
next
  case (Some m)
  have *: "dict_get m f = None" if "dict_pop m (fingerprint e t) = []" "f \<noteq> fingerprint e t" for f
    using that AList.delete_conv' [of "fingerprint e t" m] by (auto dest: fun_cong [where x = f])
  show ?thesis
    using Some * by (auto simp: get_schema_id_if_exists_def delete_from_schema_id_on_subject_def Let_def)
qed

lemma index_delete_fold:
  "get_schema_id_if_exists e s' t' (fold (\<lambda>sv. delete_from_schema_id_on_subject e s (sv_schema sv)) svs db) =
     (if s' = s \<and> fingerprint e t' \<in> (\<lambda>sv. fingerprint e (sv_schema sv)) ` set svs then None
      else get_schema_id_if_exists e s' t' db)"
  by (induction svs arbitrary: db) (auto simp: index_delete_from)

lemma index_cong:
  "hash_to_schema_id_on_subject db = hash_to_schema_id_on_subject db' \<Longrightarrow>
     get_schema_id_if_exists e s t db = get_schema_id_if_exists e s t db'"
  by (simp add: get_schema_id_if_exists_def)

lemma index_frame [simp]:
  "get_schema_id_if_exists e s t (db\<lparr>subjects := x\<rparr>) = get_schema_id_if_exists e s t db"
  "get_schema_id_if_exists e s t (db\<lparr>global_schema_id := g\<rparr>) = get_schema_id_if_exists e s t db"
  "get_schema_id_if_exists e s t (db\<lparr>schemas := y\<rparr>) = get_schema_id_if_exists e s t db"
  "get_schema_id_if_exists e s t (remove_references_of sv db) = get_schema_id_if_exists e s t db"
  "get_schema_id_if_exists e s t (insert_subject s' db) = get_schema_id_if_exists e s t db"
  "get_schema_id_if_exists e s t (set_version s' v sv db) = get_schema_id_if_exists e s t db"
  "get_schema_id_if_exists e s t (snd (get_from_hash_cache e' t' db)) = get_schema_id_if_exists e s t db"
  "get_schema_id_if_exists e s t (fold (\<lambda>r. insert_referenced_by (ref_subject r) (ref_version r) i) rs db) =
     get_schema_id_if_exists e s t db"
  by (rule index_cong, simp)+

definition cache_ok :: "('a, 'n, 'p, 'z) ext_scheme \<Rightarrow> database \<Rightarrow> bool" where
  "cache_ok e db \<longleftrightarrow> (\<forall>fp t. dict_get (hash_to_schema db) fp = Some t \<longrightarrow> fingerprint e t = fp)"

lemma fingerprint_dedup [simp]: "cache_ok e db \<Longrightarrow> fingerprint e (dedup e t db) = fingerprint e t"
  by (auto simp: cache_ok_def dedup_def split: option.splits)

lemma index_insert:
  assumes "cache_ok e db"
  shows "get_schema_id_if_exists e s' t' (insert_schema_version e s i v d t r db) =
     (if s' = s \<and> fingerprint e t' = fingerprint e t then (if d then None else Some i)
      else get_schema_id_if_exists e s' t' db)"
proof -
  show ?thesis
    using assms
    by (auto simp: insert_schema_version_def Let_def case_prod_unfold index_set_schema_id index_delete_from
        split: option.splits)
qed

lemma index_delete_subject:
  assumes "delete_subject e s v db = Inr db'"
  shows "get_schema_id_if_exists e s' t' db' =
     (if s' = s \<and> (\<exists>w sv. (w, sv) \<in> set (find_subject_schemas s True db) \<and>
                     fingerprint e (sv_schema sv) = fingerprint e t')
      then None else get_schema_id_if_exists e s' t' db)"
proof -
  from assms obtain sd where sd: "dict_get (subjects db) s = Some sd"
    and db': "db' = fold (\<lambda>sv. delete_from_schema_id_on_subject e s (sv_schema sv)) (dict_values (sd_schemas sd))
        (db\<lparr>subjects := dict_set (subjects db) s
           (sd\<lparr>sd_schemas := map (\<lambda>(w, sv). (w, mark_deleted v sv)) (sd_schemas sd)\<rparr>)\<rparr>)"
    by (auto simp: delete_subject_def split: option.splits)
  have "fingerprint e t' \<in> (\<lambda>sv. fingerprint e (sv_schema sv)) ` set (dict_values (sd_schemas sd)) \<longleftrightarrow>
      (\<exists>w sv. (w, sv) \<in> set (find_subject_schemas s True db) \<and> fingerprint e (sv_schema sv) = fingerprint e t')"
    using sd by (force simp: find_subject_schemas_all image_iff)
  then show ?thesis
    unfolding db' index_delete_fold by auto
qed

lemma index_delete_subject_schema:
  assumes "delete_subject_schema e s v db = Inr db'"
  shows "get_schema_id_if_exists e s' t' db' =
     (if s' = s \<and> (\<exists>sv. dict_get (find_subject_schemas s True db) v = Some sv \<and>
                     fingerprint e (sv_schema sv) = fingerprint e t')
      then None else get_schema_id_if_exists e s' t' db)"
  using assms
  by (auto simp: delete_subject_schema_def Let_def find_subject_schemas_all index_delete_from
      split: option.splits)

lemma index_delete_subject_hard:
  assumes "delete_subject_hard s db = Inr db'"
  shows "get_schema_id_if_exists e s' t' db' = (if s' = s then None else get_schema_id_if_exists e s' t' db)"
  using assms
  by (auto simp: delete_subject_hard_def delete_subject_from_schema_id_on_subject_def Let_def
      get_schema_id_if_exists_def split: option.splits)

section \<open>Invariant\<close>

text \<open>
  Dictionaries have distinct keys; every version is filed under its own subject and number, and
  its id is allocated; allocated ids do not exceed the counter; the cache maps a fingerprint to a
  schema with that fingerprint; the index has no empty entry and only allocated ids.
\<close>

definition versions_ok :: "database \<Rightarrow> bool" where
  "versions_ok db \<longleftrightarrow> (\<forall>s. dict_ok (find_subject_schemas s True db) \<and>
     (\<forall>v sv. dict_get (find_subject_schemas s True db) v = Some sv \<longrightarrow>
        sv_version sv = v \<and> sv_subject sv = s \<and> dict_get (schemas db) (sv_schema_id sv) \<noteq> None))"

definition ids_ok :: "database \<Rightarrow> bool" where
  "ids_ok db \<longleftrightarrow> (\<forall>i. dict_get (schemas db) i \<noteq> None \<longrightarrow> i \<le> global_schema_id db)"

definition index_ok :: "('a, 'n, 'p, 'z) ext_scheme \<Rightarrow> database \<Rightarrow> bool" where
  "index_ok e db \<longleftrightarrow> (\<forall>s t i. get_schema_id_if_exists e s t db = Some i \<longrightarrow> dict_get (schemas db) i \<noteq> None)"

definition db_ok :: "('a, 'n, 'p, 'z) ext_scheme \<Rightarrow> database \<Rightarrow> bool" where
  "db_ok e db \<longleftrightarrow> dict_ok (subjects db) \<and> dict_ok (schemas db) \<and> versions_ok db \<and> ids_ok db \<and>
     cache_ok e db \<and> index_ok e db"

lemma db_ok_init: "db_ok e init_database"
  by (simp add: db_ok_def versions_ok_def ids_ok_def cache_ok_def index_ok_def init_database_def
      find_subject_schemas_def get_schema_id_if_exists_def)

lemma versions_okI:
  assumes "vs.tables_ok db"
    and "\<And>s v sv. dict_get (find_subject_schemas s True db) v = Some sv \<Longrightarrow>
           dict_get (schemas db) (sv_schema_id sv) \<noteq> None"
  shows "versions_ok db"
  using assms by (auto simp: versions_ok_def vs.tables_ok_def)

lemma versions_okD:
  "versions_ok db \<Longrightarrow> dict_get (find_subject_schemas s True db) v = Some sv \<Longrightarrow>
     sv_version sv = v \<and> sv_subject sv = s \<and> dict_get (schemas db) (sv_schema_id sv) \<noteq> None"
  by (simp add: versions_ok_def)

lemma db_ok_vs: "db_ok e db \<Longrightarrow> vs.tables_ok db"
  by (simp add: db_ok_def versions_ok_def vs.tables_ok_def)

lemma subjects_ok_insert:
  "dict_ok (subjects db) \<Longrightarrow> dict_ok (subjects (insert_schema_version e s i v d t r db))"
  by (auto simp: insert_schema_version_def Let_def case_prod_unfold set_version_def insert_subject_def
      split: option.splits)

lemma db_ok_insert [inv_intros]:
  assumes "db_ok e db"
  shows "db_ok e (insert_schema_version e s i v d t r db)"
proof -
  let ?db = "insert_schema_version e s i v d t r db"
  have "vs.tables_ok ?db" using db_ok_vs [OF assms] by (rule vs.tables_ok_put)
  then have "versions_ok ?db"
    using assms by (auto simp: versions_ok_def vs.tables_ok_def vs.put_table insert_schema_version_fields db_ok_def)
  moreover have "ids_ok ?db"
    using assms by (auto simp: ids_ok_def insert_schema_version_fields db_ok_def max_def)
  moreover have "cache_ok e ?db"
    using assms by (auto simp: cache_ok_def insert_schema_version_fields db_ok_def split: if_splits)
  moreover have "index_ok e ?db"
    using assms by (auto simp: index_ok_def index_insert insert_schema_version_fields db_ok_def)
  moreover have "dict_ok (schemas ?db)"
    using assms by (simp add: insert_schema_version_fields db_ok_def)
  moreover have "dict_ok (subjects ?db)"
    using assms by (simp add: db_ok_def subjects_ok_insert)
  ultimately show ?thesis by (simp add: db_ok_def)
qed

lemma db_ok_delete_subject [inv_intros]:
  assumes ok: "db_ok e db" and del: "delete_subject e s v db = Inr db'"
  shows "db_ok e db'"
proof -
  have "versions_ok db'"
  proof (rule versions_okI)
    show "vs.tables_ok db'" using db_ok_vs [OF ok] del by (rule vs.tables_ok_soft)
  next
    fix s' w sv
    assume "dict_get (find_subject_schemas s' True db') w = Some sv"
    then show "dict_get (schemas db') (sv_schema_id sv) \<noteq> None"
      using ok
      by (auto simp: delete_subject_versions [OF del] delete_subject_rest [OF del] dict_get_map_values
          db_ok_def dest: versions_okD split: if_splits)
  qed
  moreover have "dict_ok (subjects db')"
    using delete_subject_subjects [OF del] ok by (auto simp: db_ok_def)
  ultimately show ?thesis
    using ok delete_subject_rest [OF del]
    by (auto simp: db_ok_def ids_ok_def cache_ok_def index_ok_def index_delete_subject [OF del])
qed

lemma db_ok_delete_subject_schema [inv_intros]:
  assumes ok: "db_ok e db" and del: "delete_subject_schema e s v db = Inr db'"
  shows "db_ok e db'"
proof -
  have "versions_ok db'"
  proof (rule versions_okI)
    show "vs.tables_ok db'" using db_ok_vs [OF ok] del by (rule vs.tables_ok_drop_version)
  next
    fix s' w sv
    assume "dict_get (find_subject_schemas s' True db') w = Some sv"
    then show "dict_get (schemas db') (sv_schema_id sv) \<noteq> None"
      using ok
      by (auto simp: delete_subject_schema_versions [OF del] delete_subject_schema_rest [OF del] dict_get_map_values
          db_ok_def dest: versions_okD split: if_splits)
  qed
  moreover have "dict_ok (subjects db')"
    using delete_subject_schema_subjects [OF del] ok by (auto simp: db_ok_def)
  ultimately show ?thesis
    using ok delete_subject_schema_rest [OF del]
    by (auto simp: db_ok_def ids_ok_def cache_ok_def index_ok_def index_delete_subject_schema [OF del])
qed

lemma db_ok_delete_subject_hard [inv_intros]:
  assumes ok: "db_ok e db" and del: "delete_subject_hard s db = Inr db'"
  shows "db_ok e db'"
proof -
  have "versions_ok db'"
  proof (rule versions_okI)
    show "vs.tables_ok db'" using db_ok_vs [OF ok] del by (rule vs.tables_ok_drop_subject)
  next
    fix s' w sv
    assume "dict_get (find_subject_schemas s' True db') w = Some sv"
    then show "dict_get (schemas db') (sv_schema_id sv) \<noteq> None"
      using ok
      by (auto simp: delete_subject_hard_versions [OF del] delete_subject_hard_rest [OF del] dict_get_map_values
          db_ok_def dest: versions_okD split: if_splits)
  qed
  moreover have "dict_ok (subjects db')"
    using delete_subject_hard_subjects [OF del] ok by (auto simp: db_ok_def)
  ultimately show ?thesis
    using ok delete_subject_hard_rest [OF del]
    by (auto simp: db_ok_def ids_ok_def cache_ok_def index_ok_def index_delete_subject_hard [OF del])
qed

lemma db_ok_get_schema_id [inv_intros]:
  assumes "db_ok e db"
  shows "db_ok e (snd (get_schema_id t db))"
  using assms
  by (auto simp: get_schema_id_def db_ok_def versions_ok_def ids_ok_def cache_ok_def index_ok_def Let_def
      find_subject_schemas_def get_schema_id_if_exists_def split: option.splits)

lemma insert_subject_versions [simp]:
  "find_subject_schemas s' b (insert_subject s db) = find_subject_schemas s' b db"
  by (auto simp: find_subject_schemas_def insert_subject_def empty_subject_data_def split: option.splits)

lemma set_subject_compatibility_versions [simp]:
  "find_subject_schemas s' b (set_subject_compatibility s c db) = find_subject_schemas s' b db"
  by (auto simp: find_subject_schemas_def set_subject_compatibility_def split: option.splits)

lemma delete_subject_compatibility_eq: "delete_subject_compatibility s db = set_subject_compatibility s JNull db"
  by (simp add: delete_subject_compatibility_def set_subject_compatibility_def)

lemma set_subject_compatibility_frame [simp]:
  "schemas (set_subject_compatibility s c db) = schemas db"
  "global_schema_id (set_subject_compatibility s c db) = global_schema_id db"
  "referenced_by (set_subject_compatibility s c db) = referenced_by db"
  "hash_to_schema (set_subject_compatibility s c db) = hash_to_schema db"
  "hash_to_schema_id_on_subject (set_subject_compatibility s c db) = hash_to_schema_id_on_subject db"
  "get_schema_id_if_exists e s' t (set_subject_compatibility s c db) = get_schema_id_if_exists e s' t db"
  by (auto simp: set_subject_compatibility_def split: option.splits)

lemma db_ok_insert_subject [inv_intros]: "db_ok e db \<Longrightarrow> db_ok e (insert_subject s db)"
  by (simp add: db_ok_def versions_ok_def ids_ok_def cache_ok_def index_ok_def) (simp add: insert_subject_def dict_ok_setdefault)

lemma db_ok_set_subject_compatibility [inv_intros]: "db_ok e db \<Longrightarrow> db_ok e (set_subject_compatibility s c db)"
  by (simp add: db_ok_def versions_ok_def ids_ok_def cache_ok_def index_ok_def)
     (auto simp: set_subject_compatibility_def split: option.splits)

section \<open>Schema ids\<close>

lemma get_schema_id_from_storage_Some:
  assumes "dict_ok (schemas db)" and "get_schema_id_from_storage s db = Some i"
  shows "\<exists>t. dict_get (schemas db) i = Some t \<and> ts_eq t s"
  using assms by (auto simp: get_schema_id_from_storage_def find_Some_iff dict_get_eq_Some) (metis nth_mem)

lemma get_schema_id_from_storage_None:
  "get_schema_id_from_storage s db = None \<Longrightarrow> dict_get (schemas db) i = Some t \<Longrightarrow> \<not> ts_eq t s"
  by (auto simp: get_schema_id_from_storage_def find_None_iff dest: map_of_SomeD)

lemma get_schema_id_cases:
  assumes "db_ok e db" and "get_schema_id s db = (i, db')"
  obtains (existing) t where "dict_get (schemas db) i = Some t" "ts_eq t s" "db' = db"
  | (fresh) "dict_get (schemas db) i = None" "i = global_schema_id db + 1"
      "db' = db\<lparr>global_schema_id := i\<rparr>" "\<And>j t. dict_get (schemas db) j = Some t \<Longrightarrow> \<not> ts_eq t s"
proof (cases "get_schema_id_from_storage s db")
  case None
  with assms(2) have "i = global_schema_id db + 1" "db' = db\<lparr>global_schema_id := i\<rparr>"
    by (auto simp: get_schema_id_def Let_def)
  moreover from this assms(1) have "dict_get (schemas db) i = None"
    by (force simp: db_ok_def ids_ok_def)
  ultimately show ?thesis using fresh get_schema_id_from_storage_None [OF None] by blast
next
  case (Some j)
  with assms(2) have j: "j = i" and db': "db' = db" by (auto simp: get_schema_id_def)
  from assms(1) have "dict_ok (schemas db)" by (simp add: db_ok_def)
  from get_schema_id_from_storage_Some [OF this Some] obtain t
    where "dict_get (schemas db) i = Some t" "ts_eq t s" unfolding j by blast
  then show ?thesis using db' by (rule existing)
qed

section \<open>References\<close>

definition referents :: "string \<Rightarrow> version \<Rightarrow> database \<Rightarrow> int set" where
  "referents s v db = (case get_referenced_by s v db of None \<Rightarrow> {} | Some rs \<Rightarrow> rs)"

lemma referents_cong: "referenced_by db = referenced_by db' \<Longrightarrow> referents s v db = referents s v db'"
  by (simp add: referents_def get_referenced_by_def)

lemma referents_insert_referenced_by:
  "referents s' v' (insert_referenced_by s v i db) =
     (if (s', v') = (s, v) then insert i (referents s v db) else referents s' v' db)"
  by (auto simp: referents_def get_referenced_by_def insert_referenced_by_def split: option.splits)

lemma referents_insert_fold:
  "referents s v (fold (\<lambda>r. insert_referenced_by (ref_subject r) (ref_version r) i) rs db) =
     (if \<exists>r \<in> set rs. ref_subject r = s \<and> ref_version r = v then insert i (referents s v db)
      else referents s v db)"
  by (induction rs arbitrary: db) (auto simp: referents_insert_referenced_by)

lemma referents_remove_reference:
  "referents s v (remove_reference i r db) =
     (if ref_subject r = s \<and> ref_version r = v then referents s v db - {i} else referents s v db)"
  by (auto simp: referents_def get_referenced_by_def remove_reference_def Let_def split: option.splits)

definition refers_to :: "schema_version \<Rightarrow> string \<Rightarrow> version \<Rightarrow> bool" where
  "refers_to sv s v \<longleftrightarrow> (\<exists>rs r. sv_references sv = Some rs \<and> r \<in> set rs \<and> ref_subject r = s \<and> ref_version r = v)"

lemma referents_remove_references_of:
  "referents s v (remove_references_of sv db) =
     (if refers_to sv s v then referents s v db - {sv_schema_id sv} else referents s v db)"
proof -
  have "referents s v (fold (remove_reference i) rs db) =
      (if \<exists>r \<in> set rs. ref_subject r = s \<and> ref_version r = v then referents s v db - {i} else referents s v db)"
    for i rs by (induction rs arbitrary: db) (auto simp: referents_remove_reference)
  then show ?thesis
    by (auto simp: remove_references_of_def remove_referenced_by_def refers_to_def split: option.splits)
qed

lemma referents_insert:
  "referents s' v' (insert_schema_version e s i v d t r db) =
     (if \<not> d \<and> (\<exists>rs x. r = Some rs \<and> x \<in> set rs \<and> ref_subject x = s' \<and> ref_version x = v')
      then insert i (referents s' v' db) else referents s' v' db)"
proof -
  have fr: "referents s' v' (set_schema_id_on_subject e a b c db') = referents s' v' db'"
    "referents s' v' (delete_from_schema_id_on_subject e a b db') = referents s' v' db'"
    "referents s' v' (set_version a x sv db') = referents s' v' db'"
    "referents s' v' (insert_subject a db') = referents s' v' db'"
    "referents s' v' (snd (get_from_hash_cache e b db')) = referents s' v' db'"
    "referents s' v' (db'\<lparr>schemas := y\<rparr>) = referents s' v' db'"
    "referents s' v' (db'\<lparr>global_schema_id := g\<rparr>) = referents s' v' db'" for a b c x sv y g db'
    by (rule referents_cong, simp)+
  show ?thesis
    by (auto simp: insert_schema_version_def Let_def case_prod_unfold fr referents_insert_fold split: option.splits)
qed

lemma referents_delete_subject:
  "delete_subject e s v db = Inr db' \<Longrightarrow> referents s' v' db' = referents s' v' db"
  by (rule referents_cong) (rule delete_subject_rest(3))

lemma referents_delete_subject_schema:
  assumes "delete_subject_schema e s v db = Inr db'"
  shows "referents s' v' db' =
     (case dict_get (find_subject_schemas s True db) v of
        Some sv \<Rightarrow> if refers_to sv s' v' then referents s' v' db - {sv_schema_id sv} else referents s' v' db
      | None \<Rightarrow> referents s' v' db)"
proof -
  have fr: "referents s' v' (delete_from_schema_id_on_subject e a b db1) = referents s' v' db1"
    "referents s' v' (db1\<lparr>subjects := y\<rparr>) = referents s' v' db1" for a b y db1
    by (rule referents_cong, simp)+
  show ?thesis
    using assms
    by (auto simp: delete_subject_schema_def Let_def find_subject_schemas_all fr referents_remove_references_of
        split: option.splits)
qed

end
