(* ===== verification/Key_Format.thy ===== *)
theory Key_Format
  imports Schema_Typing "HOL-Library.List_Lexorder" "HOL-Library.Char_ord"
begin

text \<open>
  \<open>karapace/core/key_format.py\<close>: the order of the fields in the key of a record of the schemas
  topic. A key is a JSON object; \<open>format_key\<close> returns the object whose fields, in order, are then
  written as compact JSON.
\<close>

type_synonym record_key = "(string, json) dict"

definition SCHEMA_KEY_ORDER :: "string list" where
  "SCHEMA_KEY_ORDER = [''keytype'', ''subject'', ''version'', ''magic'']"

definition CONFIG_KEY_ORDER :: "string list" where
  "CONFIG_KEY_ORDER = [''keytype'', ''subject'', ''magic'']"

definition NOOP_KEY_ORDER :: "string list" where
  "NOOP_KEY_ORDER = [''keytype'', ''magic'']"

definition KEY_ORDER :: "(string list, string list) dict" where
  "KEY_ORDER = [(sort SCHEMA_KEY_ORDER, SCHEMA_KEY_ORDER), (sort CONFIG_KEY_ORDER, CONFIG_KEY_ORDER),
     (sort NOOP_KEY_ORDER, NOOP_KEY_ORDER)]"

definition CANONICAL_KEY_ORDERS :: "string list list" where
  "CANONICAL_KEY_ORDERS = [SCHEMA_KEY_ORDER, CONFIG_KEY_ORDER, NOOP_KEY_ORDER]"

datatype keymode = CANONICAL | DEPRECATED_KARAPACE

definition is_key_in_canonical_format :: "record_key \<Rightarrow> bool" where
  "is_key_in_canonical_format key \<longleftrightarrow> dict_keys key \<in> set CANONICAL_KEY_ORDERS"

definition list_index :: "'a list \<Rightarrow> 'a \<Rightarrow> nat" where
  "list_index xs x = length (takeWhile (\<lambda>y. y \<noteq> x) xs)"

text \<open>The dictionary \<open>corrected_key\<close> built by \<open>format_key\<close>.\<close>

definition corrected_key :: "record_key \<Rightarrow> record_key res" where
  "corrected_key key =
     rbind (of_option KeyError (dict_get key ''keytype'')) (\<lambda>keytype.
       let k = [(''keytype'', keytype)];
           k = (case dict_get key ''subject'' of None \<Rightarrow> k | Some x \<Rightarrow> dict_set k ''subject'' x);
           k = (case dict_get key ''version'' of None \<Rightarrow> k | Some x \<Rightarrow> dict_set k ''version'' x)
       in rbind (of_option KeyError (dict_get key ''magic'')) (\<lambda>magic. Inr (dict_set k ''magic'' magic)))"

definition format_key :: "keymode \<Rightarrow> keymode option \<Rightarrow> record_key \<Rightarrow> record_key res" where
  "format_key self_keymode keymode key =
     (let mode = (case keymode of None \<Rightarrow> self_keymode | Some m \<Rightarrow> m)
      in if mode = DEPRECATED_KARAPACE then Inr key
         else rbind (corrected_key key) (\<lambda>k.
              rbind (of_option KeyError (dict_get KEY_ORDER (sort (dict_keys k)))) (\<lambda>fixed_order.
                Inr (sort_key (\<lambda>(name, _). list_index fixed_order name) k))))"

section \<open>Properties\<close>

lemmas key_order_defs = SCHEMA_KEY_ORDER_def CONFIG_KEY_ORDER_def NOOP_KEY_ORDER_def

lemma sorted_orders:
  "sort SCHEMA_KEY_ORDER = [''keytype'', ''magic'', ''subject'', ''version'']"
  "sort CONFIG_KEY_ORDER = [''keytype'', ''magic'', ''subject'']"
  "sort NOOP_KEY_ORDER = [''keytype'', ''magic'']"
  by (simp_all add: key_order_defs)

lemma corrected_key_shapes:
  assumes "corrected_key key = Inr k"
  obtains kt m where "dict_get key ''keytype'' = Some kt" "dict_get key ''magic'' = Some m"
    "k = [(''keytype'', kt)] @ (case dict_get key ''subject'' of None \<Rightarrow> [] | Some s \<Rightarrow> [(''subject'', s)]) @
         (case dict_get key ''version'' of None \<Rightarrow> [] | Some v \<Rightarrow> [(''version'', v)]) @ [(''magic'', m)]"
  using assms by (auto simp: corrected_key_def Let_def split: option.splits)

lemma format_key_canonical_eq:
  "format_key CANONICAL None key =
     (case (dict_get key ''keytype'', dict_get key ''magic'') of
        (Some kt, Some m) \<Rightarrow>
          (case (dict_get key ''subject'', dict_get key ''version'') of
             (Some s, Some v) \<Rightarrow> Inr [(''keytype'', kt), (''subject'', s), (''version'', v), (''magic'', m)]
           | (Some s, None) \<Rightarrow> Inr [(''keytype'', kt), (''subject'', s), (''magic'', m)]
           | (None, None) \<Rightarrow> Inr [(''keytype'', kt), (''magic'', m)]
           | (None, Some v) \<Rightarrow> Inl KeyError)
      | _ \<Rightarrow> Inl KeyError)"
  by (auto simp: format_key_def corrected_key_def KEY_ORDER_def sorted_orders Let_def split: option.splits)
     (simp_all add: list_index_def key_order_defs)

text \<open>
  In canonical mode the key written to the topic is in canonical format, and it carries the
  same values for the four key fields as the key it was given.
\<close>

theorem format_key_canonical:
  assumes "format_key CANONICAL None key = Inr k"
  shows "is_key_in_canonical_format k \<and>
         (\<forall>f \<in> {''keytype'', ''subject'', ''version'', ''magic''}. dict_get k f = dict_get key f)"
  using assms
  by (auto simp: format_key_canonical_eq is_key_in_canonical_format_def CANONICAL_KEY_ORDERS_def key_order_defs
      split: option.splits)

theorem format_key_canonical_witness:
  "is_key_in_canonical_format
     [(''keytype'', JStr ''SCHEMA''), (''subject'', JStr ''a''), (''version'', JInt 1), (''magic'', JInt 1)]"
proof -
  have "format_key CANONICAL None
      [(''subject'', JStr ''a''), (''version'', JInt 1), (''magic'', JInt 1), (''keytype'', JStr ''SCHEMA'')] =
      Inr [(''keytype'', JStr ''SCHEMA''), (''subject'', JStr ''a''), (''version'', JInt 1), (''magic'', JInt 1)]"
    by (simp add: format_key_canonical_eq)
  from format_key_canonical [OF this] show ?thesis by blast
qed

end
