(* ===== verification/Schema_Reader.thy ===== *)
theory Schema_Reader
  imports Memory_Database Key_Format
begin

text \<open>
  \<open>karapace/core/schema_reader.py\<close> with \<open>offset_watcher.py\<close> and \<open>kafka_error_handler.py\<close>: the
  thread that replays the schemas topic into the database. A handler may change the state before it
  raises, so a handler maps a state to a result and a state.

  The bytes of a record are represented by what \<open>json_decode\<close> makes of them. Three fields that
  Karapace and Confluent always write with one JSON type are read at that type only: a subject that
  is not a string and an id that is not an integer are a \<open>TypeError\<close>, and \<open>deleted\<close> is read by its
  truth value. Logging, metrics and wall-clock progress reports are left out. The recursion of
  \<open>resolve_references\<close> is bounded by a depth, as Python bounds it: a deeper one is a
  \<open>RecursionError\<close>.
\<close>

section \<open>OffsetWatcher\<close>

text \<open>The state of an \<open>OffsetWatcher\<close> is the greatest offset seen.\<close>

definition OFFSET_UNINITIALIZED :: int where
  "OFFSET_UNINITIALIZED = -2"

definition init_offset_watcher :: int where
  "init_offset_watcher = -1"

definition offset_seen :: "int \<Rightarrow> int \<Rightarrow> int" where
  "offset_seen new_offset greatest = max greatest new_offset"

definition wait_for_offset :: "int \<Rightarrow> int \<Rightarrow> bool" where
  "wait_for_offset expected greatest \<longleftrightarrow> expected \<le> greatest"

section \<open>State\<close>

datatype raw = RawEmpty | RawBad | RawJson json

record kafka_message =
  km_offset :: int
  km_key :: "raw option"
  km_value :: "raw option"
  km_error :: "exn option"

definition MAX_MESSAGES_TO_CONSUME_ON_STARTUP :: int where
  "MAX_MESSAGES_TO_CONSUME_ON_STARTUP = 1000"

definition MAX_MESSAGES_TO_CONSUME_AFTER_STARTUP :: int where
  "MAX_MESSAGES_TO_CONSUME_AFTER_STARTUP = 1"

record reader =
  rd_database :: database
  rd_compatibility :: json
  rd_keymode :: keymode
  rd_strict_mode :: bool
  rd_offset :: int
  rd_highest_offset :: int
  rd_ready :: bool
  rd_max_messages :: int
  rd_greatest_offset :: int
  rd_stopped :: bool
  rd_unexpected_errors :: nat

definition init_reader :: "json \<Rightarrow> bool \<Rightarrow> reader" where
  "init_reader compatibility strict_mode =
     \<lparr>rd_database = init_database, rd_compatibility = compatibility, rd_keymode = CANONICAL,
      rd_strict_mode = strict_mode, rd_offset = OFFSET_UNINITIALIZED,
      rd_highest_offset = OFFSET_UNINITIALIZED, rd_ready = False,
      rd_max_messages = MAX_MESSAGES_TO_CONSUME_ON_STARTUP,
      rd_greatest_offset = init_offset_watcher, rd_stopped = False, rd_unexpected_errors = 0\<rparr>"

type_synonym handler = "reader \<Rightarrow> unit res \<times> reader"

text \<open>Handlers whose failures leave the state alone.\<close>

definition with_result :: "'x res \<Rightarrow> ('x \<Rightarrow> handler) \<Rightarrow> handler" where
  "with_result m f rd = (case m of Inl x \<Rightarrow> (Inl x, rd) | Inr y \<Rightarrow> f y rd)"

lemma with_result_simps [simp]:
  "with_result (Inl x) f rd = (Inl x, rd)" "with_result (Inr y) f rd = f y rd"
  by (simp_all add: with_result_def)

definition set_database :: "database \<Rightarrow> handler" where
  "set_database db rd = (Inr (), rd\<lparr>rd_database := db\<rparr>)"

fun as_subject :: "json \<Rightarrow> string res" where
  "as_subject (JStr s) = Inr s"
| "as_subject _ = Inl TypeError"

fun as_schema_id :: "json \<Rightarrow> int res" where
  "as_schema_id (JInt i) = Inr i"
| "as_schema_id (JBool b) = Inr (of_bool b)"
| "as_schema_id _ = Inl TypeError"

section \<open>References\<close>

definition resolve_reference ::
    "(typed_schema \<Rightarrow> typed_schema res) \<Rightarrow> database \<Rightarrow> any_reference \<Rightarrow> (reference \<times> dependency) res" where
  "resolve_reference resolve_and_validate db reference =
     (let subject = (case reference of Resolved r \<Rightarrow> ref_subject r | Latest l \<Rightarrow> lref_subject l);
          subject_data = find_subject_schemas subject False db
      in if subject_data = [] then Inl InvalidReferences
         else rbind (case reference of
                       Resolved r \<Rightarrow> Inr r
                     | Latest l \<Rightarrow> rbind (max_key subject_data) (\<lambda>m. Inr (lref_resolve l m))) (\<lambda>r.
              case dict_get subject_data (ref_version r) of
                None \<Rightarrow> Inl InvalidReferences
              | Some schema_version \<Rightarrow>
                  rbind (resolve_and_validate (sv_schema schema_version)) (\<lambda>validated.
                    Inr (r, dependency_of r validated))))"

definition resolve_references_with ::
    "(typed_schema \<Rightarrow> typed_schema res) \<Rightarrow> database \<Rightarrow> any_reference list \<Rightarrow>
     (reference list \<times> (string, dependency) dict) res" where
  "resolve_references_with resolve_and_validate db references =
     rfold (\<lambda>reference (resolved, dependencies).
       rbind (resolve_reference resolve_and_validate db reference) (\<lambda>(r, dependency).
         Inr (resolved @ [r], dict_set dependencies (ref_name r) dependency))) references ([], [])"

fun resolve_and_validate ::
    "('a, 'n, 'p, 'z) ext_scheme \<Rightarrow> nat \<Rightarrow> database \<Rightarrow> typed_schema \<Rightarrow> typed_schema res" where
  "resolve_and_validate e 0 db schema = Inl RecursionError"
| "resolve_and_validate e (Suc depth) db schema =
     rbind (case ts_references schema of
              Some (r # rs) \<Rightarrow>
                rbind (resolve_references_with (resolve_and_validate e depth db) db (map Resolved (r # rs)))
                  (\<lambda>(references, dependencies). Inr (Some references, Some dependencies))
            | _ \<Rightarrow> Inr (ts_references schema, ts_dependencies schema)) (\<lambda>(references, dependencies).
     rbind (validated_parse e (ts_type schema) (ts_str schema) references dependencies) (\<lambda>p.
       Inr (pts_typed p)))"

definition resolve_references ::
    "('a, 'n, 'p, 'z) ext_scheme \<Rightarrow> nat \<Rightarrow> database \<Rightarrow> any_reference list \<Rightarrow>
     (reference list \<times> (string, dependency) dict) res" where
  "resolve_references e depth db = resolve_references_with (resolve_and_validate e depth db) db"

section \<open>Message handlers\<close>

type_synonym message_value = "(string, json) dict option"

definition handle_msg_config :: "record_key \<Rightarrow> message_value \<Rightarrow> handler" where
  "handle_msg_config key v rd =
     (case dict_get key ''subject'' of
        Some subject_json \<Rightarrow>
          if subject_json \<noteq> JNull
          then with_result (as_subject subject_json) (\<lambda>subject rd.
            let db = rd_database rd;
                db = (if find_subject subject db = None then insert_subject subject db else db);
                rd = rd\<lparr>rd_database := db\<rparr>
            in case v of
                 Some (x # xs) \<Rightarrow>
                   with_result (of_option KeyError (dict_get (x # xs) ''compatibilityLevel''))
                     (\<lambda>c. set_database (set_subject_compatibility subject c db)) rd
               | _ \<Rightarrow> set_database (delete_subject_compatibility subject db) rd) rd
          else (case v of
                  Some d \<Rightarrow> with_result (of_option KeyError (dict_get d ''compatibilityLevel''))
                              (\<lambda>c rd. (Inr (), rd\<lparr>rd_compatibility := c\<rparr>)) rd
                | None \<Rightarrow> (Inr (), rd))
      | None \<Rightarrow>
          (case v of
             Some d \<Rightarrow> with_result (of_option KeyError (dict_get d ''compatibilityLevel''))
                         (\<lambda>c rd. (Inr (), rd\<lparr>rd_compatibility := c\<rparr>)) rd
           | None \<Rightarrow> (Inr (), rd)))"

definition handle_msg_delete_subject ::
    "('a, 'n, 'p, 'z) ext_scheme \<Rightarrow> record_key \<Rightarrow> message_value \<Rightarrow> handler" where
  "handle_msg_delete_subject e key v rd =
     (case v of
        None \<Rightarrow> (Inl ValueError, rd)
      | Some d \<Rightarrow>
          with_result (of_option KeyError (dict_get d ''subject'')) (\<lambda>sj.
          with_result (rbind (of_option KeyError (dict_get d ''version'')) version_of_json) (\<lambda>version.
          with_result (as_subject sj) (\<lambda>subject rd.
            if find_subject subject (rd_database rd) = None then (Inr (), rd)
            else with_result (delete_subject e subject version (rd_database rd)) set_database rd))) rd)"

definition handle_msg_schema_hard_delete ::
    "('a, 'n, 'p, 'z) ext_scheme \<Rightarrow> record_key \<Rightarrow> handler" where
  "handle_msg_schema_hard_delete e key =
     with_result (of_option KeyError (dict_get key ''subject'')) (\<lambda>sj.
     with_result (rbind (of_option KeyError (dict_get key ''version'')) version_of_json) (\<lambda>version.
     with_result (as_subject sj) (\<lambda>subject rd.
       if find_subject subject (rd_database rd) = None then (Inr (), rd)
       else if dict_get (find_subject_schemas subject True (rd_database rd)) version = None then (Inr (), rd)
       else with_result (delete_subject_schema e subject version (rd_database rd)) (\<lambda>db rd.
              let rd = rd\<lparr>rd_database := db\<rparr>
              in if find_subject_schemas subject True db = []
                 then with_result (delete_subject_hard subject db) set_database rd
                 else (Inr (), rd)) rd)))"

text \<open>The text of an Avro or JSON schema: decoded and written again with sorted keys.\<close>

definition reencode_json :: "('a, 'n, 'p, 'z) ext_scheme \<Rightarrow> json \<Rightarrow> string res" where
  "reencode_json e j =
     (case j of JStr s \<Rightarrow> rbind (json_decode e s) (\<lambda>x. Inr (std_dumps e x)) | _ \<Rightarrow> Inl AttributeError)"

definition read_references ::
    "('a, 'n, 'p, 'z) ext_scheme \<Rightarrow> nat \<Rightarrow> database \<Rightarrow> json option \<Rightarrow>
     (reference list option \<times> (string, dependency) dict option) res" where
  "read_references e depth db j =
     (case j of
        None \<Rightarrow> Inr (None, None)
      | Some x \<Rightarrow>
          if \<not> truthy x then Inr (None, None)
          else (case x of
                  JArr js \<Rightarrow>
                    rbind (rfold (\<lambda>d acc. rbind (reference_from_mapping d) (\<lambda>r. Inr (acc @ [r]))) js []) (\<lambda>candidates.
                    rbind (resolve_references e depth db candidates) (\<lambda>(rs, ds). Inr (Some rs, Some ds)))
                | _ \<Rightarrow> Inl TypeError))"

text \<open>The typed schema that a \<open>SCHEMA\<close> record describes, with its resolved references.\<close>

definition read_typed_schema ::
    "('a, 'n, 'p, 'z) ext_scheme \<Rightarrow> nat \<Rightarrow> database \<Rightarrow> schema_type \<Rightarrow> json \<Rightarrow> json option \<Rightarrow>
     (typed_schema \<times> reference list option) res" where
  "read_typed_schema e depth db t schema_json references_json =
     (case t of
        JSONSCHEMA \<Rightarrow>
          rbind (except_raise {JSONDecodeError} InvalidSchema (reencode_json e schema_json)) (\<lambda>s.
          rbind (except_raise {InvalidSchema, JSONDecodeError} InvalidSchema
                   (mk_typed_schema e t s None None None)) (\<lambda>ts. Inr (ts, None)))
      | AVRO \<Rightarrow>
          rbind (except_raise {InvalidReferences} InvalidSchema (read_references e depth db references_json))
            (\<lambda>(references, dependencies).
          rbind (except_raise {JSONDecodeError} InvalidSchema (reencode_json e schema_json)) (\<lambda>s.
          rbind (except_raise {InvalidSchema, JSONDecodeError} InvalidSchema
                   (mk_typed_schema e t s None references dependencies)) (\<lambda>ts. Inr (ts, references))))
      | PROTOBUF \<Rightarrow>
          rbind (except_raise {InvalidReferences} InvalidSchema (read_references e depth db references_json))
            (\<lambda>(references, dependencies).
          rbind (except_raise {InvalidSchema, ProtobufException} InvalidSchema
                   (case schema_json of
                      JStr s \<Rightarrow> parse_protobuf_schema_definition e s references dependencies False False False
                    | _ \<Rightarrow> Inl ProtobufException)) (\<lambda>p.
          rbind (except_raise {InvalidSchema, JSONDecodeError} InvalidSchema
                   (mk_typed_schema e t (protobuf_str e p) (Some p) references dependencies)) (\<lambda>ts.
            Inr (ts, references)))))"

definition handle_msg_schema ::
    "('a, 'n, 'p, 'z) ext_scheme \<Rightarrow> nat \<Rightarrow> record_key \<Rightarrow> message_value \<Rightarrow> handler" where
  "handle_msg_schema e depth key v rd =
     (case v of
        Some (x # xs) \<Rightarrow>
          let d = x # xs;
              schema_type = (case dict_get d ''schemaType'' of None \<Rightarrow> JStr ''AVRO'' | Some j \<Rightarrow> j);
              deleted = (case dict_get d ''deleted'' of None \<Rightarrow> False | Some j \<Rightarrow> truthy j)
          in with_result (of_option KeyError (dict_get d ''schema'')) (\<lambda>schema_json.
             with_result (of_option KeyError (dict_get d ''subject'')) (\<lambda>subject_json.
             with_result (of_option KeyError (dict_get d ''id'')) (\<lambda>id_json.
             with_result (rbind (of_option KeyError (dict_get d ''version'')) version_of_json) (\<lambda>version.
             with_result (except_raise {ValueError} InvalidSchema (schema_type_of schema_type)) (\<lambda>t.
             with_result (read_typed_schema e depth (rd_database rd) t schema_json
                            (dict_get d ''references'')) (\<lambda>(typed_schema, references).
             with_result (as_schema_id id_json) (\<lambda>schema_id.
             with_result (as_subject subject_json) (\<lambda>subject rd.
               set_database (insert_schema_version e subject schema_id version deleted typed_schema references
                 (rd_database rd)) rd)))))))) rd
      | _ \<Rightarrow> handle_msg_schema_hard_delete e key rd)"

datatype message_type = MT_config | MT_schema | MT_delete_subject | MT_no_operation

definition message_type_of :: "json \<Rightarrow> message_type res" where
  "message_type_of j =
     (if j = JStr ''CONFIG'' then Inr MT_config
      else if j = JStr ''SCHEMA'' then Inr MT_schema
      else if j = JStr ''DELETE_SUBJECT'' then Inr MT_delete_subject
      else if j = JStr ''NOOP'' then Inr MT_no_operation
      else Inl ValueError)"

definition handle_msg ::
    "('a, 'n, 'p, 'z) ext_scheme \<Rightarrow> nat \<Rightarrow> record_key \<Rightarrow> message_value \<Rightarrow> handler" where
  "handle_msg e depth key v rd =
     (case dict_get key ''keytype'' of
        None \<Rightarrow> (Inl InvalidSchema, rd)
      | Some keytype \<Rightarrow>
          let (r, rd') =
                with_result (message_type_of keytype) (\<lambda>mt. case mt of
                    MT_config \<Rightarrow> handle_msg_config key v
                  | MT_schema \<Rightarrow> handle_msg_schema e depth key v
                  | MT_delete_subject \<Rightarrow> handle_msg_delete_subject e key v
                  | MT_no_operation \<Rightarrow> (\<lambda>rd. (Inr (), rd))) rd
          in (except_raise {KeyError, ValueError, JSONDecodeError} InvalidSchema r, rd'))"

section \<open>Consuming the topic\<close>

text \<open>\<open>KafkaErrorHandler.handle_error\<close> at the schema reader.\<close>

definition handle_schema_reader_error :: handler where
  "handle_schema_reader_error rd =
     (if rd_strict_mode rd then (Inl CorruptKafkaRecordException, rd) else (Inr (), rd))"

text \<open>\<open>_parse_message_value\<close> on bytes that are present and not empty.\<close>

fun parse_message_value :: "raw \<Rightarrow> message_value res" where
  "parse_message_value (RawJson (JObj d)) = Inr (Some d)"
| "parse_message_value (RawJson JNull) = Inr None"
| "parse_message_value (RawJson (JStr [])) = Inr None"
| "parse_message_value (RawJson _) = Inl TypeError"
| "parse_message_value _ = Inl JSONDecodeError"

definition blank :: "raw option \<Rightarrow> bool" where
  "blank x \<longleftrightarrow> x = None \<or> x = Some RawEmpty"

text \<open>
  The body of the loop of \<open>consume_messages\<close>. An exception that no \<open>except\<close> clause of the body
  catches is returned; \<open>finally\<close> moves the offset even then.
\<close>

definition detect_keymode :: "record_key \<Rightarrow> reader \<Rightarrow> reader" where
  "detect_keymode key rd =
     (if rd_keymode rd = CANONICAL \<and> \<not> is_key_in_canonical_format key
      then rd\<lparr>rd_keymode := DEPRECATED_KARAPACE\<rparr> else rd)"

definition process_message ::
    "('a, 'n, 'p, 'z) ext_scheme \<Rightarrow> nat \<Rightarrow> bool \<Rightarrow> int \<Rightarrow> record_key \<Rightarrow> message_value \<Rightarrow> handler" where
  "process_message e depth watch_offsets offset key v rd =
     (let (r, rd) = handle_msg e depth key v rd
      in case r of
           Inl x \<Rightarrow>
             if x \<in> {InvalidSchema, InvalidVersion, TypeError}
             then (let (r', rd) = handle_schema_reader_error rd in (r', rd\<lparr>rd_offset := offset\<rparr>))
             else (Inl x, rd\<lparr>rd_offset := offset\<rparr>)
         | Inr _ \<Rightarrow>
             let rd = rd\<lparr>rd_offset := offset\<rparr>
             in (Inr (), if rd_ready rd \<and> watch_offsets
                         then rd\<lparr>rd_greatest_offset := offset_seen offset (rd_greatest_offset rd)\<rparr> else rd))"

definition consume_message ::
    "('a, 'n, 'p, 'z) ext_scheme \<Rightarrow> nat \<Rightarrow> bool \<Rightarrow> kafka_message \<Rightarrow> handler" where
  "consume_message e depth watch_offsets msg rd =
     (case km_error msg of
        Some AuthorizationFailedError \<Rightarrow>
          (if rd_strict_mode rd then Inl ShutdownException else Inr (), rd)
      | Some x \<Rightarrow> (Inl x, rd)
      | None \<Rightarrow>
          if blank (km_key msg) \<and> blank (km_value msg) then (Inr (), rd\<lparr>rd_offset := km_offset msg\<rparr>)
          else case km_key msg of
            Some (RawJson (JObj key)) \<Rightarrow>
              let rd = detect_keymode key rd
              in if blank (km_value msg) then process_message e depth watch_offsets (km_offset msg) key None rd
                 else (case parse_message_value (the (km_value msg)) of
                         Inl _ \<Rightarrow> handle_schema_reader_error (rd\<lparr>rd_offset := km_offset msg\<rparr>)
                       | Inr v \<Rightarrow> process_message e depth watch_offsets (km_offset msg) key v rd)
          | Some (RawJson _) \<Rightarrow> (Inl AssertionError, rd)
          | _ \<Rightarrow> handle_schema_reader_error (rd\<lparr>rd_offset := km_offset msg\<rparr>))"

fun consume_messages ::
    "('a, 'n, 'p, 'z) ext_scheme \<Rightarrow> nat \<Rightarrow> bool \<Rightarrow> kafka_message list \<Rightarrow> handler" where
  "consume_messages e depth watch_offsets [] rd = (Inr (), rd)"
| "consume_messages e depth watch_offsets (msg # msgs) rd =
     (case consume_message e depth watch_offsets msg rd of
        (Inl x, rd') \<Rightarrow> (Inl x, rd')
      | (Inr _, rd') \<Rightarrow> consume_messages e depth watch_offsets msgs rd')"

section \<open>Readiness and the reader loop\<close>

text \<open>The argument is the end offset the broker reports, \<^const>\<open>None\<close> when the request fails.\<close>

definition is_ready :: "int option \<Rightarrow> reader \<Rightarrow> bool \<times> reader" where
  "is_ready end_offset rd =
     (case end_offset of
        None \<Rightarrow> (False, rd)
      | Some n \<Rightarrow>
          let rd = rd\<lparr>rd_highest_offset := n - 1\<rparr>;
              ready = (rd_highest_offset rd \<le> rd_offset rd)
          in (ready, if ready then rd\<lparr>rd_max_messages := MAX_MESSAGES_TO_CONSUME_AFTER_STARTUP\<rparr> else rd))"

definition update_is_ready_flag :: "int option \<Rightarrow> reader \<Rightarrow> reader" where
  "update_is_ready_flag end_offset rd =
     (if \<not> rd_ready rd
      then let (new_ready_flag, rd) = is_ready end_offset rd in rd\<lparr>rd_ready := new_ready_flag\<rparr>
      else rd)"

definition set_not_ready :: "reader \<Rightarrow> reader" where
  "set_not_ready rd = rd\<lparr>rd_ready := False\<rparr>"

definition highest_offset :: "reader \<Rightarrow> int" where
  "highest_offset rd = max (rd_highest_offset rd) (rd_greatest_offset rd)"

definition get_beginning_offset :: "int option \<Rightarrow> int" where
  "get_beginning_offset beginning =
     (case beginning of None \<Rightarrow> OFFSET_UNINITIALIZED | Some b \<Rightarrow> b - 1)"

text \<open>\<open>primary\<close> is \<open>get_master_info().primary\<close>, \<^const>\<open>None\<close> without a master coordinator.\<close>

definition handle_messages ::
    "('a, 'n, 'p, 'z) ext_scheme \<Rightarrow> nat \<Rightarrow> int option \<Rightarrow> bool option \<Rightarrow> kafka_message list \<Rightarrow> handler" where
  "handle_messages e depth end_offset primary msgs rd =
     consume_messages e depth (primary = Some True) msgs (update_is_ready_flag end_offset rd)"

text \<open>
  One iteration of the final loop of \<open>run\<close>. The broker's answers and the records returned by
  \<open>consume\<close> are the inputs.
\<close>

record poll =
  poll_beginning :: "int option"
  poll_end :: "int option"
  poll_primary :: "bool option"
  poll_messages :: "kafka_message list"

definition run_iteration ::
    "('a, 'n, 'p, 'z) ext_scheme \<Rightarrow> nat \<Rightarrow> poll \<Rightarrow> reader \<Rightarrow> reader" where
  "run_iteration e depth p rd =
     (if rd_stopped rd then rd
      else
        let rd = (if rd_offset rd = OFFSET_UNINITIALIZED
                  then rd\<lparr>rd_offset := get_beginning_offset (poll_beginning p)\<rparr> else rd);
            (r, rd) = handle_messages e depth (poll_end p) (poll_primary p) (poll_messages p) rd
        in case r of
             Inr _ \<Rightarrow> rd\<lparr>rd_unexpected_errors := 0\<rparr>
           | Inl x \<Rightarrow>
               if x \<in> {ShutdownException, CorruptKafkaRecordException} then rd\<lparr>rd_stopped := True\<rparr>
               else rd\<lparr>rd_unexpected_errors := Suc (rd_unexpected_errors rd)\<rparr>)"

definition UNHEALTHY_CONSECUTIVE_ERRORS :: nat where
  "UNHEALTHY_CONSECUTIVE_ERRORS = 3"

end
