(* ===== verification/Database_Properties.thy ===== *)
theory Database_Properties
  imports Memory_Database
begin

text \<open>
  Properties of the in-memory database: the invariant in every reachable state, the allocation of
  schema ids, registration and lookup, the deletions as updates of a flat table (a refinement), the
  table of references, and cases where two tables of the database part.
\<close>

section \<open>A concrete choice of the external functions\<close>

text \<open>For evaluation: every text is its own JSON value and its own hash, and parses.\<close>

definition sample_ext :: "(unit, unit, unit) ext" where
  "sample_ext =
     \<lparr>sha1 = (\<lambda>s. s), loads = (\<lambda>s. Some (JStr s)),
      dumps = (\<lambda>_ j. case j of JStr s \<Rightarrow> s | _ \<Rightarrow> []), std_dumps = (\<lambda>j. case j of JStr s \<Rightarrow> s | _ \<Rightarrow> []),
      avro_names = (\<lambda>_. ()), make_avsc_object = (\<lambda>_ _ _ _. Inr ((), ())), avro_str = (\<lambda>_. []),
      avro_parse = (\<lambda>_ _ _. Inr ()), check_schema = (\<lambda>_. True), protobuf_schema = (\<lambda>_ _ _ _. Inr ()),
      verify_dependencies = (\<lambda>_. True), protobuf_str = (\<lambda>_. []), format_protobuf = (\<lambda>s _. Inr s)\<rparr>"

section \<open>Reachable states\<close>

text \<open>Every call that changes the database, as a step.\<close>

inductive db_step :: "('a, 'n, 'p, 'z) ext_scheme \<Rightarrow> database \<Rightarrow> database \<Rightarrow> bool"
  for e :: "('a, 'n, 'p, 'z) ext_scheme" where
  take_id: "db_step e db (snd (get_schema_id t db))"
| insert: "db_step e db (insert_schema_version e s i v d t r db)"
| new_subject: "db_step e db (insert_subject s db)"
| compatibility: "db_step e db (set_subject_compatibility s c db)"
| no_compatibility: "db_step e db (delete_subject_compatibility s db)"
| soft: "delete_subject e s v db = Inr db' \<Longrightarrow> db_step e db db'"
| hard_version: "delete_subject_schema e s v db = Inr db' \<Longrightarrow> db_step e db db'"
| hard: "delete_subject_hard s db = Inr db' \<Longrightarrow> db_step e db db'"

inductive db_reachable :: "('a, 'n, 'p, 'z) ext_scheme \<Rightarrow> database \<Rightarrow> bool"
  for e :: "('a, 'n, 'p, 'z) ext_scheme" where
  init: "db_reachable e init_database"
| step: "db_reachable e db \<Longrightarrow> db_step e db db' \<Longrightarrow> db_reachable e db'"

lemma db_ok_step:
  assumes "db_step e db db'" and "db_ok e db"
  shows "db_ok e db'"
  using assms(1)
proof cases
  case (soft s v)
  from assms(2) this show ?thesis by (rule db_ok_delete_subject)
next
  case (hard_version s v)
  from assms(2) this show ?thesis by (rule db_ok_delete_subject_schema)
next
  case (hard s)
  from assms(2) this show ?thesis by (rule db_ok_delete_subject_hard)
qed (simp_all add: assms(2) delete_subject_compatibility_eq db_ok_insert db_ok_get_schema_id db_ok_insert_subject
       db_ok_set_subject_compatibility)

lemma reachable_db_ok: "db_reachable e db \<Longrightarrow> db_ok e db"
  by (induction rule: db_reachable.induct) (blast intro: db_ok_init db_ok_step)+

text \<open>
  C6: In every state the database can reach, dictionaries have distinct keys, every version is filed
  under its own subject and number with an allocated schema id, allocated ids do not exceed the id
  counter, the schema cache maps fingerprints to schemas with that fingerprint, and the fingerprint
  index holds only allocated ids.
\<close>

theorem db_reachable_ok:
  assumes "db_reachable e db"
  shows "db_ok e db"
  using assms by (rule reachable_db_ok)

theorem db_reachable_ok_witness:
  "db_ok sample_ext (insert_schema_version sample_ext ''s'' 1 (Version 1) False (TypedSchema AVRO ''t'' None None) None
     init_database)"
  by (rule db_reachable_ok [OF db_reachable.step [OF db_reachable.init db_step.insert]])

section \<open>Schema ids\<close>

text \<open>
  \<open>get_schema_id\<close> never gives one id to two schemas: an id it returns is either the id of a
  stored schema equal to the given one, or greater than every allocated id; and the second only
  when no equal schema is stored.
\<close>

theorem get_schema_id_spec:
  assumes "db_reachable e db" and "get_schema_id s db = (i, db')"
  shows "(\<exists>t. dict_get (schemas db) i = Some t \<and> ts_eq t s) \<or>
         ((\<forall>j t. dict_get (schemas db) j = Some t \<longrightarrow> j < i \<and> \<not> ts_eq t s) \<and> global_schema_id db' = i)"
proof -
  from assms(1) have ok: "db_ok e db" by (rule reachable_db_ok)
  then have le: "dict_get (schemas db) j = Some t \<Longrightarrow> j \<le> global_schema_id db" for j t
    by (force simp: db_ok_def ids_ok_def)
  from ok assms(2) show ?thesis
  proof (cases rule: get_schema_id_cases)
    case (existing t)
    then show ?thesis by blast
  next
    case fresh
    then show ?thesis using le by force
  qed
qed

theorem get_schema_id_spec_witness:
  "\<exists>t. dict_get (schemas (insert_schema_version sample_ext ''s'' 1 (Version 1) False (TypedSchema AVRO ''t'' None None)
      None init_database)) 1 = Some t \<and> ts_eq t (TypedSchema AVRO ''t'' None None)"
proof -
  let ?t = "TypedSchema AVRO ''t'' None None"
  let ?db = "insert_schema_version sample_ext ''s'' 1 (Version 1) False ?t None init_database"
  have "db_reachable sample_ext ?db" by (rule db_reachable.step [OF db_reachable.init db_step.insert])
  moreover have "schemas ?db = [(1, ?t)]"
    by (simp add: insert_schema_version_fields init_database_def dedup_def)
  then have "get_schema_id ?t ?db = (1, ?db)"
    by (simp add: get_schema_id_def get_schema_id_from_storage_def)
  ultimately show ?thesis using get_schema_id_spec \<open>schemas ?db = _\<close> by fastforce
qed

section \<open>Registration and lookup\<close>

text \<open>
  After a live version is inserted, it is found under its subject and number, its id resolves to
  a schema with the fingerprint of the inserted one, and the subject's index answers that id for it;
  inserting it as deleted takes it out of the index.
\<close>

theorem insert_then_lookup:
  assumes "db_reachable e db"
  shows "let db' = insert_schema_version e s i v d t r db in
     (\<exists>u. fingerprint e u = fingerprint e t \<and>
        dict_get (find_subject_schemas s True db') v =
          Some \<lparr>sv_subject = s, sv_version = v, sv_deleted = d, sv_schema_id = i, sv_schema = u, sv_references = r\<rparr> \<and>
        find_schema i db' = Inr u) \<and>
     get_schema_id_if_exists e s t db' = (if d then None else Some i)"
proof -
  from reachable_db_ok [OF assms] have "cache_ok e db" by (simp add: db_ok_def)
  then show ?thesis
    by (auto simp: Let_def insert_schema_version_same find_schema_def insert_schema_version_fields index_insert
        intro!: exI [of _ "dedup e t db"])
qed

theorem insert_then_lookup_witness:
  "get_schema_id_if_exists sample_ext ''s'' (TypedSchema AVRO ''t'' None None)
     (insert_schema_version sample_ext ''s'' 7 (Version 1) False (TypedSchema AVRO ''t'' None None) None init_database) = Some 7"
  using insert_then_lookup [OF db_reachable.init, of sample_ext "''s''" 7 "Version 1" False] by (simp add: Let_def)

section \<open>Refinement to a flat table\<close>

text \<open>
  The abstract store: a partial map from subject and version to the schema id and the deletion mark.
\<close>

type_synonym flat = "string \<times> version \<Rightarrow> (int \<times> bool) option"

definition flat_of :: "database \<Rightarrow> flat" where
  "flat_of db = (\<lambda>(s, v). map_option (\<lambda>sv. (sv_schema_id sv, sv_deleted sv)) (dict_get (find_subject_schemas s True db) v))"

definition flat_soft_delete :: "string \<Rightarrow> version \<Rightarrow> flat \<Rightarrow> flat" where
  "flat_soft_delete s v f =
     (\<lambda>(s', w). if s' = s \<and> w \<le> v then map_option (\<lambda>(i, d). (i, True)) (f (s', w)) else f (s', w))"

lemma flat_insert: "flat_of (insert_schema_version e s i v d t r db) = (flat_of db)((s, v) \<mapsto> (i, d))"
  by (auto simp: flat_of_def vs.put_table fun_eq_iff)

lemma flat_soft:
  assumes "db_ok e db" and "delete_subject e s v db = Inr db'"
  shows "flat_of db' = flat_soft_delete s v (flat_of db)"
  using db_ok_vs [OF assms(1)]
  by (auto simp: flat_of_def flat_soft_delete_def fun_eq_iff vs.soft_table [OF assms(2)] dict_get_map_values
      vs.tables_ok_def mark_deleted_def option.map_comp comp_def intro!: option.map_cong0 split: if_splits)

lemma flat_drop_version:
  "delete_subject_schema e s v db = Inr db' \<Longrightarrow> flat_of db' = (flat_of db)((s, v) := None)"
  by (auto simp: flat_of_def fun_eq_iff vs.drop_version_table)

lemma flat_drop_subject:
  "delete_subject_hard s db = Inr db' \<Longrightarrow> flat_of db' = (\<lambda>(s', w). if s' = s then None else flat_of db (s', w))"
  by (auto simp: flat_of_def fun_eq_iff vs.drop_subject_table)

text \<open>
  C8: The database implements the flat table: insertion is an update at one subject and version, soft
  deletion marks the versions up to the given one, the two hard deletions remove entries; nothing
  else changes.
\<close>

theorem database_refines_flat:
  assumes "db_reachable e db"
  shows "flat_of (insert_schema_version e s i v d t r db) = (flat_of db)((s, v) \<mapsto> (i, d)) \<and>
    (\<forall>db'. delete_subject e s v db = Inr db' \<longrightarrow> flat_of db' = flat_soft_delete s v (flat_of db)) \<and>
    (\<forall>db'. delete_subject_schema e s v db = Inr db' \<longrightarrow> flat_of db' = (flat_of db)((s, v) := None)) \<and>
    (\<forall>db'. delete_subject_hard s db = Inr db' \<longrightarrow>
       flat_of db' = (\<lambda>(s', w). if s' = s then None else flat_of db (s', w)))"
  using flat_insert flat_soft [OF reachable_db_ok [OF assms]] flat_drop_version flat_drop_subject by blast

theorem database_refines_flat_witness:
  "flat_of (insert_schema_version sample_ext ''s'' 3 (Version 1) False (TypedSchema AVRO ''t'' None None) None init_database)
     (''s'', Version 1) = Some (3, False)"
  using database_refines_flat [OF db_reachable.init, of sample_ext "''s''" 3 "Version 1" False] by simp

section \<open>Queries\<close>

lemma find_subject_schemas_live_get:
  assumes "versions_ok db"
  shows "dict_get (find_subject_schemas s False db) v =
     (case dict_get (find_subject_schemas s True db) v of
        None \<Rightarrow> None | Some sv \<Rightarrow> if sv_deleted sv then None else Some sv)"
  using assms by (auto simp: find_subject_schemas_live dict_get_filter versions_ok_def split: option.splits)

lemma flat_of_eq_Some:
  "flat_of db (s, v) = Some (i, d) \<longleftrightarrow>
     (\<exists>sv. dict_get (find_subject_schemas s True db) v = Some sv \<and> sv_schema_id sv = i \<and> sv_deleted sv = d)"
  by (auto simp: flat_of_def)

lemma live_versions_exist:
  assumes "versions_ok db"
  shows "find_subject_schemas s False db \<noteq> [] \<longleftrightarrow>
     (\<exists>v sv. dict_get (find_subject_schemas s True db) v = Some sv \<and> \<not> sv_deleted sv)"
proof -
  have "dict_ok (find_subject_schemas s True db)" using assms by (simp add: versions_ok_def)
  then show ?thesis by (force simp: find_subject_schemas_live filter_empty_conv dict_get_eq_Some)
qed

lemma find_subject_schemas_known: "find_subject_schemas s b db \<noteq> [] \<Longrightarrow> s \<in> set (dict_keys (subjects db))"
  by (cases "dict_get (subjects db) s")
     (auto simp: find_subject_schemas_def map_of_eq_None_iff dest: map_of_SomeD intro: rev_image_eqI)

lemma subjects_for_schema_iff:
  assumes "versions_ok db" and "dict_ok (subjects db)"
  shows "s \<in> set (subjects_for_schema i db) \<longleftrightarrow>
     (\<exists>v sv. dict_get (find_subject_schemas s True db) v = Some sv \<and> \<not> sv_deleted sv \<and> sv_schema_id sv = i)"
proof -
  have vals: "sv \<in> set (dict_values (sd_schemas sd)) \<longleftrightarrow> (\<exists>v. dict_get (sd_schemas sd) v = Some sv)"
    if "dict_get (subjects db) s = Some sd" for sd sv
  proof -
    have "dict_ok (find_subject_schemas s True db)" using assms(1) by (simp add: versions_ok_def)
    with that have "dict_ok (sd_schemas sd)" by (simp add: find_subject_schemas_all)
    then show ?thesis by (rule dict_values_eq)
  qed
  have "s \<in> set (subjects_for_schema i db) \<longleftrightarrow>
      (\<exists>sd. dict_get (subjects db) s = Some sd \<and>
         (\<exists>sv \<in> set (dict_values (sd_schemas sd)). \<not> sv_deleted sv \<and> sv_schema_id sv = i))"
    by (force simp: subjects_for_schema_def list_ex_iff dict_get_eq_Some [OF assms(2)])
  also have "\<dots> \<longleftrightarrow> (\<exists>v sv. dict_get (find_subject_schemas s True db) v = Some sv \<and> \<not> sv_deleted sv \<and> sv_schema_id sv = i)"
    using vals by (cases "dict_get (subjects db) s") (simp_all add: find_subject_schemas_all del: set_map, blast)
  finally show ?thesis .
qed

text \<open>
  \<open>find_subjects\<close> without deleted ones lists exactly the subjects with a live version, and
  \<open>subjects_for_schema\<close> exactly those with a live version of the given schema id.
\<close>

theorem live_subjects_spec:
  assumes "db_reachable e db"
  shows "(s \<in> set (find_subjects False db) \<longleftrightarrow> (\<exists>v j. flat_of db (s, v) = Some (j, False))) \<and>
         (s \<in> set (subjects_for_schema i db) \<longleftrightarrow> (\<exists>v. flat_of db (s, v) = Some (i, False)))"
proof -
  from reachable_db_ok [OF assms] have ok: "versions_ok db" and sub: "dict_ok (subjects db)"
    by (simp_all add: db_ok_def)
  have "s \<in> set (find_subjects False db) \<longleftrightarrow> find_subject_schemas s False db \<noteq> []"
    using find_subject_schemas_known [of s False db] by (auto simp: find_subjects_def)
  then show ?thesis
    using live_versions_exist [OF ok, of s] subjects_for_schema_iff [OF ok sub, of s i]
    by (auto simp: flat_of_eq_Some)
qed

theorem live_subjects_spec_witness:
  "''s'' \<in> set (subjects_for_schema 3 (insert_schema_version sample_ext ''s'' 3 (Version 1) False
     (TypedSchema AVRO ''t'' None None) None init_database))"
proof -
  let ?db = "insert_schema_version sample_ext ''s'' 3 (Version 1) False (TypedSchema AVRO ''t'' None None) None init_database"
  have "db_reachable sample_ext ?db" by (rule db_reachable.step [OF db_reachable.init db_step.insert])
  moreover have "flat_of ?db (''s'', Version 1) = Some (3, False)" by (simp add: flat_of_def vs.put_table)
  ultimately show ?thesis using live_subjects_spec [of sample_ext ?db "''s''" 3] by blast
qed

text \<open>
  The option \<open>include_deleted\<close> of \<open>find_schemas\<close> works the wrong way round: with it the deleted
  versions are left out, without it they are returned.
\<close>

theorem find_schemas_inverted:
  "find_schemas True False db =
     map (\<lambda>(s, sd). (s, filter (\<lambda>sv. \<not> sv_deleted sv) (dict_values (sd_schemas sd)))) (subjects db) \<and>
   find_schemas False False db = map (\<lambda>(s, sd). (s, dict_values (sd_schemas sd))) (subjects db)"
  by (simp add: find_schemas_def)

text \<open>
  C26: The cache by fingerprint forgets the schema type: a JSON Schema registered after an Avro schema
  with the same text is stored, and returned by its id, as an Avro schema.
\<close>

theorem cached_schema_loses_type:
  "find_schema 2
     (insert_schema_version e ''b'' 2 (Version 1) False (TypedSchema JSONSCHEMA x None None) None
       (insert_schema_version e ''a'' 1 (Version 1) False (TypedSchema AVRO x None None) None init_database)) =
   Inr (TypedSchema AVRO x None None)"
  by (simp add: find_schema_def insert_schema_version_fields dedup_def fingerprint_ignores_type [of e JSONSCHEMA x None None AVRO None]
      init_database_def setdefault_def)

section \<open>References\<close>

text \<open>Every reference of a live version is recorded with the id of the schema that holds it.\<close>

definition refs_ok :: "database \<Rightarrow> bool" where
  "refs_ok db \<longleftrightarrow> (\<forall>s v sv s' v'.
     dict_get (find_subject_schemas s True db) v = Some sv \<longrightarrow> \<not> sv_deleted sv \<longrightarrow> refers_to sv s' v' \<longrightarrow>
     sv_schema_id sv \<in> referents s' v' db)"

definition id_in_use_elsewhere :: "string \<Rightarrow> version \<Rightarrow> database \<Rightarrow> bool" where
  "id_in_use_elsewhere s v db \<longleftrightarrow> (\<exists>sv s' v' sv'. dict_get (find_subject_schemas s True db) v = Some sv \<and>
     dict_get (find_subject_schemas s' True db) v' = Some sv' \<and> (s', v') \<noteq> (s, v) \<and>
     sv_schema_id sv' = sv_schema_id sv)"

lemma refers_to_mark_deleted [simp]: "refers_to (mark_deleted v sv) s w = refers_to sv s w"
  by (simp add: refers_to_def)

text \<open>
  C23: The table of references is complete for live versions, and the operations keep it so: insertion
  and soft deletion always, the removal of one version when no other version carries its schema id.
\<close>

theorem references_kept:
  assumes "refs_ok db"
  shows "refs_ok (insert_schema_version e s i v d t r db) \<and>
    (\<forall>db'. delete_subject e s v db = Inr db' \<longrightarrow> refs_ok db') \<and>
    (\<forall>db'. delete_subject_schema e s v db = Inr db' \<longrightarrow> \<not> id_in_use_elsewhere s v db \<longrightarrow> refs_ok db')"
proof (intro conjI allI impI)
  show "refs_ok (insert_schema_version e s i v d t r db)"
    using assms by (auto simp: refs_ok_def vs.put_table referents_insert refers_to_def split: if_splits)
next
  fix db' assume del: "delete_subject e s v db = Inr db'"
  show "refs_ok db'"
    using assms
    by (auto simp: refs_ok_def vs.soft_table [OF del] dict_get_map_values referents_delete_subject [OF del] split: if_splits)
next
  fix db' assume del: "delete_subject_schema e s v db = Inr db'" and unique: "\<not> id_in_use_elsewhere s v db"
  show "refs_ok db'"
    unfolding refs_ok_def
  proof (intro allI impI)
    fix s1 v1 sv1 s' v'
    assume sv1: "dict_get (find_subject_schemas s1 True db') v1 = Some sv1" "\<not> sv_deleted sv1" "refers_to sv1 s' v'"
    then have "(s1, v1) \<noteq> (s, v)" and in_db: "dict_get (find_subject_schemas s1 True db) v1 = Some sv1"
      by (auto simp: vs.drop_version_table [OF del] split: if_splits)
    with unique have "dict_get (find_subject_schemas s True db) v = Some sv \<Longrightarrow> sv_schema_id sv1 \<noteq> sv_schema_id sv" for sv
      by (auto simp: id_in_use_elsewhere_def)
    then show "sv_schema_id sv1 \<in> referents s' v' db'"
      using assms in_db sv1(2,3)
      by (auto simp: referents_delete_subject_schema [OF del] refs_ok_def split: option.split)
  qed
qed

theorem references_kept_witness:
  "refs_ok (insert_schema_version sample_ext ''s'' 3 (Version 1) False (TypedSchema AVRO ''t'' None None)
     (Some [Reference ''n'' ''x'' (Version 1)]) init_database)"
proof -
  have "refs_ok init_database" by (simp add: refs_ok_def find_subject_schemas_def init_database_def)
  from references_kept [OF this] show ?thesis by blast
qed

text \<open>Two subjects with the same schema, which refers to a third; the second one soft deleted.\<close>

definition target_reference :: "reference list option" where
  "target_reference = Some [Reference ''n'' ''target'' (Version 1)]"

definition shared_schema_db :: "('a, 'n, 'p, 'z) ext_scheme \<Rightarrow> typed_schema \<Rightarrow> database" where
  "shared_schema_db e t =
     insert_schema_version e ''b'' 2 (Version 1) True t target_reference
      (insert_schema_version e ''b'' 2 (Version 1) False t target_reference
      (insert_schema_version e ''a'' 2 (Version 1) False t target_reference init_database))"

text \<open>
  The hypothesis on shared ids is needed: referents are stored as schema ids, so when two subjects
  register the same schema, deleting it permanently from one drops the reference that the other
  still has, and the referenced version becomes deletable.
\<close>

theorem shared_id_loses_reference:
  "\<exists>db'. delete_subject_schema e ''b'' (Version 1) (shared_schema_db e t) = Inr db' \<and>
    flat_of db' (''a'', Version 1) = Some (2, False) \<and>
    referents ''target'' (Version 1) (shared_schema_db e t) = {2} \<and> referents ''target'' (Version 1) db' = {}"
proof -
  have "find_subject ''b'' (shared_schema_db e t) \<noteq> None"
    by (simp add: shared_schema_db_def find_subject_def insert_schema_version_subjects)
  from vs.drop_version_known [OF this, of e "Version 1"]
  obtain db' where del: "delete_subject_schema e ''b'' (Version 1) (shared_schema_db e t) = Inr db'" by blast
  have "flat_of db' (''a'', Version 1) = Some (2, False)"
    by (simp add: flat_of_def vs.drop_version_table [OF del]) (simp add: shared_schema_db_def vs.put_table)
  moreover have ref: "referents ''target'' (Version 1) (shared_schema_db e t) = {2}"
    by (simp add: shared_schema_db_def target_reference_def referents_insert)
       (simp add: referents_def get_referenced_by_def init_database_def)
  moreover have "referents ''target'' (Version 1) db' = {}"
    unfolding referents_delete_subject_schema [OF del] ref
    by (simp add: shared_schema_db_def vs.put_table target_reference_def refers_to_def)
  ultimately show ?thesis using del by blast
qed

end
