(* ===== verification/Reader_Properties.thy ===== *)
theory Reader_Properties
  imports Schema_Reader Database_Properties
begin

text \<open>
  Lemmas about the schema reader: every predicate that the database operations keep is kept by the
  handlers, by \<open>consume_messages\<close> and by the reader loop (a locale, interpreted for the database
  invariant and for the growth of the id counter and of the schema table); then the offset, the key
  mode, and the loss of records after an uncaught exception.
\<close>

section \<open>Predicates of the database that replay keeps\<close>

lemma set_database_simps [simp]:
  "snd (set_database db rd) = rd\<lparr>rd_database := db\<rparr>" "fst (set_database db rd) = Inr ()"
  by (simp_all add: set_database_def)

locale database_invariant =
  fixes e :: "('a, 'n, 'p, 'z) ext_scheme" and I :: "database \<Rightarrow> bool"
  assumes I_insert: "I db \<Longrightarrow> I (insert_schema_version e s i v d t r db)"
    and I_delete_subject: "I db \<Longrightarrow> delete_subject e s v db = Inr db' \<Longrightarrow> I db'"
    and I_delete_subject_schema: "I db \<Longrightarrow> delete_subject_schema e s v db = Inr db' \<Longrightarrow> I db'"
    and I_delete_subject_hard: "I db \<Longrightarrow> delete_subject_hard s db = Inr db' \<Longrightarrow> I db'"
    and I_insert_subject: "I db \<Longrightarrow> I (insert_subject s db)"
    and I_set_compatibility: "I db \<Longrightarrow> I (set_subject_compatibility s c db)"
begin

abbreviation J :: "reader \<Rightarrow> bool" where
  "J rd \<equiv> I (rd_database rd)"

lemma J_with_result:
  "(\<And>y. m = Inr y \<Longrightarrow> J (snd (f y rd))) \<Longrightarrow> J rd \<Longrightarrow> J (snd (with_result m f rd))"
  by (cases m) auto

lemma J_handle_msg_config: "J rd \<Longrightarrow> J (snd (handle_msg_config key v rd))"
  by (auto simp: handle_msg_config_def Let_def delete_subject_compatibility_eq
      split: option.splits list.splits intro!: J_with_result I_insert_subject I_set_compatibility)

lemma J_set_database: "I db \<Longrightarrow> J (snd (set_database db rd))"
  by simp

lemma J_handle_msg_delete_subject: "J rd \<Longrightarrow> J (snd (handle_msg_delete_subject e key v rd))"
  unfolding handle_msg_delete_subject_def
  by (auto split: option.split intro!: J_with_result J_set_database dest: I_delete_subject)

lemma J_handle_msg_schema_hard_delete: "J rd \<Longrightarrow> J (snd (handle_msg_schema_hard_delete e key rd))"
  unfolding handle_msg_schema_hard_delete_def Let_def
  by (auto intro!: J_with_result J_set_database dest!: I_delete_subject_schema [rotated] I_delete_subject_hard [rotated])

lemma J_insert_handler:
  "J rd \<Longrightarrow> J (snd (set_database (insert_schema_version e s i v d t r (rd_database rd)) rd))"
  by (simp add: I_insert)

lemma J_handle_msg_schema: "J rd \<Longrightarrow> J (snd (handle_msg_schema e depth key v rd))"
proof -
  assume J: "J rd"
  consider "v = None" | "v = Some []" | x xs where "v = Some (x # xs)"
    by (metis list.exhaust option.exhaust)
  then show ?thesis
  proof cases
    case 3
    show ?thesis
      unfolding 3 handle_msg_schema_def Let_def case_prod_unfold option.case list.case
      using J by (intro J_with_result J_insert_handler)
  qed (simp_all add: J handle_msg_schema_def J_handle_msg_schema_hard_delete)
qed

lemma J_handle_msg: "J rd \<Longrightarrow> J (snd (handle_msg e depth key v rd))"
  by (auto simp: handle_msg_def case_prod_unfold Let_def split: option.splits message_type.splits
      intro!: J_with_result J_handle_msg_config J_handle_msg_schema J_handle_msg_delete_subject)

lemma J_process_message: "J rd \<Longrightarrow> J (snd (process_message e depth w off key v rd))"
  using J_handle_msg [of rd depth key v]
  by (auto simp: process_message_def handle_schema_reader_error_def case_prod_unfold Let_def split: sum.splits)

lemma J_consume_message: "J rd \<Longrightarrow> J (snd (consume_message e depth w msg rd))"
proof -
  assume J: "J rd"
  then have "J (detect_keymode key rd)" for key by (simp add: detect_keymode_def)
  with J J_process_message [OF this] show ?thesis
    by (auto simp: consume_message_def handle_schema_reader_error_def Let_def
        split: option.splits exn.splits raw.splits json.splits sum.splits)
qed

lemma J_consume_messages: "J rd \<Longrightarrow> J (snd (consume_messages e depth w msgs rd))"
proof (induction msgs arbitrary: rd)
  case (Cons msg msgs)
  from J_consume_message [OF Cons.prems, of depth w msg] Cons.IH show ?case
    by (auto split: prod.splits sum.splits)
qed simp

lemma J_handle_messages: "J rd \<Longrightarrow> J (snd (handle_messages e depth a b c rd))"
  unfolding handle_messages_def
  by (rule J_consume_messages) (auto simp: update_is_ready_flag_def is_ready_def Let_def split: option.splits)

lemma J_run_iteration: "J rd \<Longrightarrow> J (run_iteration e depth p rd)"
  using J_handle_messages [of "if rd_offset rd = OFFSET_UNINITIALIZED
      then rd\<lparr>rd_offset := get_beginning_offset (poll_beginning p)\<rparr> else rd" depth]
  by (auto simp: run_iteration_def case_prod_unfold Let_def split: sum.splits)

lemma J_runs: "J rd \<Longrightarrow> J (fold (run_iteration e depth) ps rd)"
  by (induction ps arbitrary: rd) (auto intro: J_run_iteration)

end

interpretation okdb: database_invariant e "db_ok e" for e :: "('a, 'n, 'p, 'z) ext_scheme"
  by unfold_locales
     (auto intro: db_ok_insert db_ok_delete_subject db_ok_delete_subject_schema db_ok_delete_subject_hard
        db_ok_insert_subject db_ok_set_subject_compatibility)

interpretation counter: database_invariant e "\<lambda>db. g \<le> global_schema_id db"
  for e :: "('a, 'n, 'p, 'z) ext_scheme" and g :: int
proof unfold_locales
qed (simp_all add: insert_schema_version_fields delete_subject_rest(2) delete_subject_schema_rest(2)
       delete_subject_hard_rest(2) max_def)

interpretation allocated: database_invariant e "\<lambda>db. dict_get (schemas db) i \<noteq> None"
  for e :: "('a, 'n, 'p, 'z) ext_scheme" and i :: int
proof unfold_locales
qed (simp_all add: insert_schema_version_fields delete_subject_rest(1) delete_subject_schema_rest(1)
       delete_subject_hard_rest(1))

section \<open>Properties of replay\<close>

abbreviation replay ::
    "('a, 'n, 'p, 'z) ext_scheme \<Rightarrow> nat \<Rightarrow> poll list \<Rightarrow> reader \<Rightarrow> reader" where
  "replay e depth ps rd \<equiv> fold (run_iteration e depth) ps rd"

text \<open>
  C7: Whatever records the topic holds, in whatever batches they arrive, well-formed or corrupt, the
  database that the reader builds from an empty one satisfies the database invariant.
\<close>

theorem replay_keeps_invariant: "db_ok e (rd_database (replay e depth ps (init_reader c strict)))"
  by (rule okdb.J_runs) (simp add: init_reader_def db_ok_init)

text \<open>
  C13: Schema ids are not reused: an id that was ever allocated stays allocated however the reader goes
  on, and a later \<open>get_schema_id\<close> for a schema that is not stored returns a different id.
\<close>

theorem ids_never_reused:
  assumes "rd = replay e depth ps (init_reader c strict)" and "rd' = replay e depth qs rd"
    and "dict_get (schemas (rd_database rd)) i \<noteq> None"
  shows "dict_get (schemas (rd_database rd')) i \<noteq> None \<and>
    (get_schema_id_from_storage t (rd_database rd') = None \<longrightarrow> i < fst (get_schema_id t (rd_database rd')))"
proof -
  have alloc: "dict_get (schemas (rd_database rd')) i \<noteq> None"
    unfolding assms(2) using assms(3) by (rule allocated.J_runs)
  have "db_ok e (rd_database rd')"
    unfolding assms(1,2) by (intro okdb.J_runs) (simp add: init_reader_def db_ok_init)
  with alloc have "i \<le> global_schema_id (rd_database rd')" by (simp add: db_ok_def ids_ok_def)
  with alloc show ?thesis by (simp add: get_schema_id_def Let_def)
qed

section \<open>What a handler may change\<close>

text \<open>Only the database and the global compatibility level.\<close>

definition only_data :: "reader \<Rightarrow> reader \<Rightarrow> bool" where
  "only_data rd rd' \<longleftrightarrow>
     rd_keymode rd' = rd_keymode rd \<and> rd_strict_mode rd' = rd_strict_mode rd \<and> rd_offset rd' = rd_offset rd \<and>
     rd_highest_offset rd' = rd_highest_offset rd \<and> rd_ready rd' = rd_ready rd \<and>
     rd_max_messages rd' = rd_max_messages rd \<and> rd_greatest_offset rd' = rd_greatest_offset rd \<and>
     rd_stopped rd' = rd_stopped rd \<and> rd_unexpected_errors rd' = rd_unexpected_errors rd"

lemma only_data_refl: "only_data rd rd"
  by (simp add: only_data_def)

lemma only_data_updates:
  "only_data rd0 rd \<Longrightarrow> only_data rd0 (rd\<lparr>rd_database := db\<rparr>)"
  "only_data rd0 rd \<Longrightarrow> only_data rd0 (rd\<lparr>rd_compatibility := c\<rparr>)"
  "only_data rd0 rd \<Longrightarrow> only_data rd0 (snd (set_database db rd))"
  by (auto simp: only_data_def)

lemma only_data_with_result:
  "(\<And>y. m = Inr y \<Longrightarrow> only_data rd0 (snd (f y rd))) \<Longrightarrow> only_data rd0 rd \<Longrightarrow> only_data rd0 (snd (with_result m f rd))"
  by (cases m) auto

lemmas only_data_intros = only_data_updates only_data_with_result only_data_refl

lemma only_data_handlers:
  "only_data rd (snd (handle_msg_config key v rd))"
  "only_data rd (snd (handle_msg_delete_subject e key v rd))"
  "only_data rd (snd (handle_msg_schema_hard_delete e key rd))"
proof -
  show "only_data rd (snd (handle_msg_config key v rd))"
    unfolding handle_msg_config_def Let_def
    by (auto split: option.split list.split intro!: only_data_intros simp del: set_database_simps)
  show "only_data rd (snd (handle_msg_delete_subject e key v rd))"
    unfolding handle_msg_delete_subject_def
    by (auto split: option.split intro!: only_data_intros simp del: set_database_simps)
  show "only_data rd (snd (handle_msg_schema_hard_delete e key rd))"
    unfolding handle_msg_schema_hard_delete_def Let_def
    by (auto intro!: only_data_intros simp del: set_database_simps)
qed

lemma only_data_handle_msg_schema: "only_data rd (snd (handle_msg_schema e depth key v rd))"
proof -
  consider "v = None" | "v = Some []" | x xs where "v = Some (x # xs)"
    by (metis list.exhaust option.exhaust)
  then show ?thesis
  proof cases
    case 3
    show ?thesis
      unfolding 3 handle_msg_schema_def Let_def case_prod_unfold option.case list.case
      by (intro only_data_intros)
  qed (simp_all add: handle_msg_schema_def only_data_handlers)
qed

lemma only_data_handle_msg: "only_data rd (snd (handle_msg e depth key v rd))"
  by (auto simp: handle_msg_def case_prod_unfold Let_def only_data_refl only_data_handlers only_data_handle_msg_schema
      split: option.splits message_type.splits intro!: only_data_with_result)

lemmas handle_msg_keeps = only_data_handle_msg [unfolded only_data_def]

text \<open>A poll that returns one record, registering an Avro schema.\<close>

definition sample_poll :: poll where
  "sample_poll =
     \<lparr>poll_beginning = Some 0, poll_end = Some 1, poll_primary = Some True,
      poll_messages = [\<lparr>km_offset = 0,
        km_key = Some (RawJson (JObj [(''keytype'', JStr ''SCHEMA''), (''subject'', JStr ''s''), (''version'', JInt 1), (''magic'', JInt 1)])),
        km_value = Some (RawJson (JObj [(''subject'', JStr ''s''), (''version'', JInt 1), (''id'', JInt 1), (''schema'', JStr ''t'')])),
        km_error = None\<rparr>]\<rparr>"

lemma sample_replay: "schemas (rd_database (replay sample_ext 5 [sample_poll] (init_reader JNull False))) =
    [(1, TypedSchema AVRO ''t'' None None)]"
  by (simp add: sample_poll_def run_iteration_def init_reader_def handle_messages_def update_is_ready_flag_def is_ready_def
      consume_message_def blank_def process_message_def handle_msg_def message_type_of_def handle_msg_schema_def
      read_typed_schema_def read_references_def reencode_json_def json_decode_def json_encode_def mk_typed_schema_def
      schema_type_of_def sample_ext_def set_database_def insert_schema_version_fields dedup_def init_database_def
      detect_keymode_def is_key_in_canonical_format_def CANONICAL_KEY_ORDERS_def key_order_defs
      get_beginning_offset_def OFFSET_UNINITIALIZED_def mk_version_def MINUS_1_VERSION_TAG_def except_raise_def Let_def)

theorem ids_never_reused_witness:
  "1 < fst (get_schema_id (TypedSchema AVRO ''u'' None None)
     (rd_database (replay sample_ext 5 [] (replay sample_ext 5 [sample_poll] (init_reader JNull False)))))"
proof -
  have "get_schema_id_from_storage (TypedSchema AVRO ''u'' None None)
      (rd_database (replay sample_ext 5 [] (replay sample_ext 5 [sample_poll] (init_reader JNull False)))) = None"
    unfolding get_schema_id_from_storage_def fold_simps(1) sample_replay by (simp add: ts_eq_def)
  moreover have "dict_get (schemas (rd_database (replay sample_ext 5 [sample_poll] (init_reader JNull False)))) 1 \<noteq> None"
    unfolding sample_replay by simp
  ultimately show ?thesis using ids_never_reused [OF refl refl] by blast
qed

section \<open>Key mode and offsets\<close>

definition msg_key :: "kafka_message \<Rightarrow> record_key option" where
  "msg_key msg =
     (case (km_error msg, km_key msg) of (None, Some (RawJson (JObj key))) \<Rightarrow> Some key | _ \<Rightarrow> None)"

lemma process_message_frame:
  "rd_keymode (snd (process_message e depth w off key v rd)) = rd_keymode rd"
  "rd_offset (snd (process_message e depth w off key v rd)) = off"
  using handle_msg_keeps [where rd = rd and e = e and depth = depth and key = key and v = v]
  by (auto simp: process_message_def handle_schema_reader_error_def case_prod_unfold Let_def split: sum.split)

lemma consume_message_keymode:
  "rd_keymode (snd (consume_message e depth w msg rd)) =
     (case msg_key msg of None \<Rightarrow> rd_keymode rd | Some key \<Rightarrow> rd_keymode (detect_keymode key rd))"
proof -
  have *: "rd_keymode (detect_keymode k (rd\<lparr>rd_offset := off\<rparr>)) = rd_keymode (detect_keymode k rd)" for k off
    by (simp add: detect_keymode_def)
  show ?thesis
    by (auto simp: consume_message_def msg_key_def process_message_frame handle_schema_reader_error_def blank_def Let_def
        split: option.split exn.split raw.split json.split sum.split)
qed

lemma consume_message_offset:
  assumes "consume_message e depth w msg rd = (Inr x, rd')" and "km_error msg = None"
  shows "rd_offset rd' = km_offset msg"
  using assms process_message_frame(2) [of e depth w "km_offset msg"]
  by (auto simp: consume_message_def handle_schema_reader_error_def Let_def
      split: option.splits exn.splits raw.splits json.splits sum.splits if_splits) (metis snd_conv)+

text \<open>
  After a batch consumed without an exception the reader writes keys in canonical order exactly
  when it did so before and every key of the batch was in canonical order: one record with another
  key order switches the node to the deprecated order for good.
\<close>

theorem keymode_after_batch:
  assumes "consume_messages e depth w msgs rd = (Inr (), rd')"
  shows "rd_keymode rd' = CANONICAL \<longleftrightarrow> rd_keymode rd = CANONICAL \<and>
    (\<forall>msg \<in> set msgs. \<forall>key. msg_key msg = Some key \<longrightarrow> is_key_in_canonical_format key)"
  using assms
proof (induction msgs arbitrary: rd)
  case (Cons msg msgs)
  obtain r rd1 where c: "consume_message e depth w msg rd = (r, rd1)" by force
  with Cons.prems have "consume_messages e depth w msgs rd1 = (Inr (), rd')" by (auto split: sum.splits)
  from Cons.IH [OF this] consume_message_keymode [of e depth w msg rd] c show ?case
    by (auto simp: detect_keymode_def split: option.splits if_splits)
qed simp

definition noop_message :: kafka_message where
  "noop_message = \<lparr>km_offset = 4, km_key = Some (RawJson (JObj [(''magic'', JInt 0), (''keytype'', JStr ''NOOP'')])),
     km_value = None, km_error = None\<rparr>"

lemma noop_message_consumed:
  "consume_messages sample_ext 5 False [noop_message] (init_reader JNull False) =
     (Inr (), snd (consume_messages sample_ext 5 False [noop_message] (init_reader JNull False)))"
  by (simp add: noop_message_def consume_message_def blank_def process_message_def handle_msg_def message_type_of_def
      except_raise_def Let_def)

theorem keymode_after_batch_witness:
  "rd_keymode (snd (consume_messages sample_ext 5 False [noop_message] (init_reader JNull False))) = DEPRECATED_KARAPACE"
proof -
  have "msg_key noop_message = Some [(''magic'', JInt 0), (''keytype'', JStr ''NOOP'')]"
    by (simp add: msg_key_def noop_message_def)
  then show ?thesis
    using keymode_after_batch [OF noop_message_consumed]
    by (auto simp: is_key_in_canonical_format_def CANONICAL_KEY_ORDERS_def key_order_defs intro: keymode.exhaust)
qed

text \<open>
  After a batch consumed without an exception the reader's offset is the offset of the last
  record of the batch, whether or not the records could be applied.
\<close>

theorem offset_after_batch:
  assumes "consume_messages e depth w msgs rd = (Inr (), rd')" and "\<forall>msg \<in> set msgs. km_error msg = None"
    and "msgs \<noteq> []"
  shows "rd_offset rd' = km_offset (last msgs)"
  using assms
proof (induction msgs arbitrary: rd)
  case (Cons msg msgs)
  obtain r rd1 where c: "consume_message e depth w msg rd = (r, rd1)" by force
  with Cons.prems(1) have rest: "consume_messages e depth w msgs rd1 = (Inr (), rd')" and "\<exists>x. r = Inr x"
    by (auto split: sum.splits)
  with consume_message_offset [of e depth w msg rd] c Cons.prems(2) have "rd_offset rd1 = km_offset msg" by auto
  with Cons.IH [OF rest] Cons.prems(2) rest show ?case by (cases "msgs = []") auto
qed simp

theorem offset_after_batch_witness:
  "rd_offset (snd (consume_messages sample_ext 5 False [noop_message] (init_reader JNull False))) = 4"
  using offset_after_batch [OF noop_message_consumed] by (simp add: noop_message_def)

text \<open>
  A record whose key is JSON but not an object raises an \<open>AssertionError\<close> that no handler of the
  loop over the batch catches: the database is left as it was before that record, the iteration
  ends, and the later records of the batch, already taken from the consumer, are not applied.
\<close>

theorem record_with_odd_key_drops_batch:
  "rd_database (run_iteration e depth
     (p\<lparr>poll_messages := \<lparr>km_offset = off, km_key = Some (RawJson (JArr xs)), km_value = v, km_error = None\<rparr> # msgs\<rparr>) rd) =
   rd_database rd"
  by (simp add: run_iteration_def handle_messages_def consume_message_def blank_def update_is_ready_flag_def is_ready_def
      Let_def split: option.split)

end
