(* ===== verification/Json_Schema_Utils.thy ===== *)
theory Json_Schema_Utils
  imports Schema_Typing "HOL-Library.List_Lexorder" "HOL-Library.Char_ord"
begin

text \<open>
  \<open>karapace/core/compatibility/jsonschema/types.py\<close> and \<open>utils.py\<close>: the keywords and types of JSON
  Schema, and the predicates on schemas that the compatibility checks use. A schema is the Python
  value that \<open>json.loads\<close> returns; Python's \<open>None\<close> is \<^const>\<open>JNull\<close>, so \<open>schema.get(k)\<close> is
  \<^const>\<open>JNull\<close> when the key is absent or maps to \<open>null\<close>, as in Python.
\<close>

section \<open>types.py\<close>

datatype keyword =
    REF | TYPE_KEYWORD | MAX_LENGTH | MIN_LENGTH | PATTERN | MAXIMUM | MINIMUM | EXCLUSIVE_MAXIMUM
  | EXCLUSIVE_MINIMUM | MULTIPLE | MAX_PROPERTIES | MIN_PROPERTIES | ADDITIONAL_PROPERTIES
  | DEPENDENCIES | DEPENDENT_SCHEMAS | PROPERTY_NAMES | PATTERN_PROPERTIES | PROPERTIES | REQUIRED
  | DEFAULT | ITEMS | MAX_ITEMS | MIN_ITEMS | UNIQUE_ITEMS | ADDITIONAL_ITEMS | ENUM

fun keyword_value :: "keyword \<Rightarrow> string" where
  "keyword_value REF = ''$ref''"
| "keyword_value TYPE_KEYWORD = ''type''"
| "keyword_value MAX_LENGTH = ''maxLength''"
| "keyword_value MIN_LENGTH = ''minLength''"
| "keyword_value PATTERN = ''pattern''"
| "keyword_value MAXIMUM = ''maximum''"
| "keyword_value MINIMUM = ''minimum''"
| "keyword_value EXCLUSIVE_MAXIMUM = ''exclusiveMaximum''"
| "keyword_value EXCLUSIVE_MINIMUM = ''exclusiveMinimum''"
| "keyword_value MULTIPLE = ''multiple''"
| "keyword_value MAX_PROPERTIES = ''maxProperties''"
| "keyword_value MIN_PROPERTIES = ''minProperties''"
| "keyword_value ADDITIONAL_PROPERTIES = ''additionalProperties''"
| "keyword_value DEPENDENCIES = ''dependencies''"
| "keyword_value DEPENDENT_SCHEMAS = ''dependentSchemas''"
| "keyword_value PROPERTY_NAMES = ''propertyNames''"
| "keyword_value PATTERN_PROPERTIES = ''patternProperties''"
| "keyword_value PROPERTIES = ''properties''"
| "keyword_value REQUIRED = ''required''"
| "keyword_value DEFAULT = ''default''"
| "keyword_value ITEMS = ''items''"
| "keyword_value MAX_ITEMS = ''maxItems''"
| "keyword_value MIN_ITEMS = ''minItems''"
| "keyword_value UNIQUE_ITEMS = ''uniqueItems''"
| "keyword_value ADDITIONAL_ITEMS = ''additionalItems''"
| "keyword_value ENUM = ''enum''"

datatype instance_type =
    NULL_T | BOOLEAN_T | NUMBER_T | STRING_T | INTEGER_T | OBJECT_T | ARRAY_T

fun instance_value :: "instance_type \<Rightarrow> string" where
  "instance_value NULL_T = ''null''"
| "instance_value BOOLEAN_T = ''boolean''"
| "instance_value NUMBER_T = ''number''"
| "instance_value STRING_T = ''string''"
| "instance_value INTEGER_T = ''integer''"
| "instance_value OBJECT_T = ''object''"
| "instance_value ARRAY_T = ''array''"

text \<open>\<open>Instance(value)\<close>.\<close>

definition instance_of :: "json \<Rightarrow> instance_type res" where
  "instance_of j = of_option ValueError
     (find (\<lambda>t. j = JStr (instance_value t)) [NULL_T, BOOLEAN_T, NUMBER_T, STRING_T, INTEGER_T, OBJECT_T, ARRAY_T])"

datatype subschema_type = ANY_OF | ALL_OF | ONE_OF | NOT

fun subschema_value :: "subschema_type \<Rightarrow> string" where
  "subschema_value ANY_OF = ''anyOf''"
| "subschema_value ALL_OF = ''allOf''"
| "subschema_value ONE_OF = ''oneOf''"
| "subschema_value NOT = ''not''"

text \<open>The values of \<open>JSONSCHEMA_TYPES\<close>.\<close>

datatype jtype = TInstance instance_type | TSubschema subschema_type | TKeyword keyword | TBooleanSchema

datatype incompatibility =
    type_changed | type_narrowed | max_length_added | max_length_decreased | min_length_added
  | min_length_increased | pattern_added | pattern_changed | maximum_added | maximum_decreased
  | minimum_added | minimum_increased | maximum_exclusive_added | maximum_exclusive_decreased
  | minimum_exclusive_added | minimum_exclusive_increased | multiple_added | multiple_expanded
  | multiple_changed | enum_array_narrowed | combined_type_changed | product_type_extended
  | sum_type_narrowed | combined_type_subschemas_changed | max_properties_added
  | min_properties_added | max_properties_decreased | min_properties_increased
  | additional_properties_narrowed | dependency_array_added | dependency_array_extended
  | dependency_schema_added | property_removed_not_covered_by_partially_open_content_model
  | property_removed_from_closed_content_model | property_added_to_open_content_model
  | property_added_not_covered_by_partially_open_content_model
  | required_property_added_to_unopen_content_model | required_attribute_added | max_items_added
  | max_items_decreased | min_items_added | min_items_increased | unique_items_added
  | additional_items_removed | additional_items_narrowed
  | item_removed_not_covered_by_partially_open_content_model
  | item_removed_from_closed_content_model | item_added_to_open_content_model
  | item_added_not_covered_by_partially_open_content_model | schema_added | schema_removed
  | not_type_narrowed

section \<open>Python operations on JSON values\<close>

text \<open>\<open>x.get(k)\<close>, \<open>x.get(k, default)\<close>, \<open>x[k]\<close>; only dictionaries have \<open>get\<close>.\<close>

definition dict_field :: "(string, json) dict \<Rightarrow> string \<Rightarrow> json" where
  "dict_field d k = (case dict_get d k of None \<Rightarrow> JNull | Some x \<Rightarrow> x)"

fun as_list :: "json \<Rightarrow> json list option" where
  "as_list (JArr xs) = Some xs"
| "as_list _ = None"

fun py_get_default :: "json \<Rightarrow> string \<Rightarrow> json \<Rightarrow> json res" where
  "py_get_default (JObj d) k v = Inr (case dict_get d k of None \<Rightarrow> v | Some x \<Rightarrow> x)"
| "py_get_default _ k v = Inl AttributeError"

definition py_get :: "json \<Rightarrow> string \<Rightarrow> json res" where
  "py_get x k = py_get_default x k JNull"

text \<open>\<open>x.items()\<close>.\<close>

fun py_items :: "json \<Rightarrow> (string, json) dict res" where
  "py_items (JObj d) = Inr d"
| "py_items _ = Inl AttributeError"

text \<open>Numbers: \<open>bool\<close> is a subclass of \<open>int\<close>.\<close>

fun py_number :: "json \<Rightarrow> rat option" where
  "py_number (JBool b) = Some (of_bool b)"
| "py_number (JInt i) = Some (of_int i)"
| "py_number (JFloat r) = Some r"
| "py_number _ = None"

text \<open>\<open>==\<close>: numbers by value, lists by element, dictionaries as maps.\<close>

fun py_eq :: "json \<Rightarrow> json \<Rightarrow> bool" where
  "py_eq JNull JNull = True"
| "py_eq (JStr a) (JStr b) = (a = b)"
| "py_eq (JArr xs) (JArr ys) = list_all2 py_eq xs ys"
| "py_eq (JObj c) (JObj d) =
     (length c = length d \<and>
      (\<forall>(k, x) \<in> set c. case dict_get d k of None \<Rightarrow> False | Some y \<Rightarrow> py_eq x y))"
| "py_eq a b = (case (py_number a, py_number b) of (Some p, Some q) \<Rightarrow> p = q | _ \<Rightarrow> False)"

text \<open>\<open>a > b\<close>: numbers, strings and (lexicographically) lists; anything else is a \<open>TypeError\<close>.\<close>

fun py_gt :: "json \<Rightarrow> json \<Rightarrow> bool res" where
  "py_gt (JStr a) (JStr b) = Inr (b < a)"
| "py_gt (JArr []) (JArr ys) = Inr False"
| "py_gt (JArr (x # xs)) (JArr []) = Inr True"
| "py_gt (JArr (x # xs)) (JArr (y # ys)) =
     (if py_eq x y then py_gt (JArr xs) (JArr ys) else py_gt x y)"
| "py_gt a b = (case (py_number a, py_number b) of (Some p, Some q) \<Rightarrow> Inr (q < p) | _ \<Rightarrow> Inl TypeError)"

text \<open>\<open>a % b\<close> on numbers: the sign of the divisor, \<open>ZeroDivisionError\<close> for zero.\<close>

definition py_mod :: "json \<Rightarrow> json \<Rightarrow> rat res" where
  "py_mod a b =
     (case (py_number a, py_number b) of
        (Some p, Some q) \<Rightarrow> if q = 0 then Inl ZeroDivisionError else Inr (p - q * of_int \<lfloor>p / q\<rfloor>)
      | _ \<Rightarrow> Inl TypeError)"

text \<open>\<open>len(x)\<close>.\<close>

fun py_len :: "json \<Rightarrow> nat res" where
  "py_len (JStr s) = Inr (length s)"
| "py_len (JArr xs) = Inr (length xs)"
| "py_len (JObj d) = Inr (length d)"
| "py_len _ = Inl TypeError"

fun hashable :: "json \<Rightarrow> bool" where
  "hashable (JArr xs) = False"
| "hashable (JObj d) = False"
| "hashable _ = True"

text \<open>\<open>set(x)\<close> as the list of its elements, in the order of \<open>x\<close>, without repetition.\<close>

fun py_distinct :: "json list \<Rightarrow> json list" where
  "py_distinct [] = []"
| "py_distinct (x # xs) = x # filter (\<lambda>y. \<not> py_eq x y) (py_distinct xs)"

fun py_set :: "json \<Rightarrow> json list res" where
  "py_set (JArr xs) = (if list_all hashable xs then Inr (py_distinct xs) else Inl TypeError)"
| "py_set (JObj d) = Inr (py_distinct (map (\<lambda>(k, v). JStr k) d))"
| "py_set (JStr s) = Inr (py_distinct (map (\<lambda>c. JStr [c]) s))"
| "py_set _ = Inl TypeError"

definition py_set_diff :: "json list \<Rightarrow> json list \<Rightarrow> json list" where
  "py_set_diff xs ys = filter (\<lambda>x. \<not> list_ex (py_eq x) ys) xs"

section \<open>utils.py\<close>

text \<open>
  \<open>normalize_schema_rec\<close>. The reference resolver belongs to the \<open>jsonschema\<close> package: \<open>id_of\<close> is
  \<open>validator.ID_OF\<close> and \<open>resolve scopes ref\<close> is \<open>resolver.resolve(ref)\<close> when the resolver's scope
  stack is \<open>scopes\<close> (innermost first). \<open>normalized.update(x)\<close> needs a mapping. A recursion deeper
  than \<open>depth\<close> is a \<open>RecursionError\<close>, as in Python.
\<close>

type_synonym resolver = "string list \<Rightarrow> json \<Rightarrow> (string \<times> json) res"

fun as_mapping :: "json \<Rightarrow> (string, json) dict res" where
  "as_mapping (JObj d) = Inr d"
| "as_mapping (JArr []) = Inr []"
| "as_mapping (JStr []) = Inr []"
| "as_mapping _ = Inl TypeError"

fun normalize_schema_rec ::
    "nat \<Rightarrow> (json \<Rightarrow> string) \<Rightarrow> resolver \<Rightarrow> string list \<Rightarrow> json \<Rightarrow> json res" where
  "normalize_schema_rec 0 id_of resolve scopes original_schema = Inl RecursionError"
| "normalize_schema_rec (Suc depth) id_of resolve scopes original_schema =
     (case original_schema of
        JObj d \<Rightarrow>
          let scope = id_of original_schema;
              ref = dict_field d (keyword_value REF);
              scopes = (if scope \<noteq> [] then scope # scopes else scopes)
          in if ref \<noteq> JNull
             then rbind (resolve scopes ref) (\<lambda>(resolved_scope, resolved_schema).
                  rbind (normalize_schema_rec depth id_of resolve (resolved_scope # scopes) resolved_schema) (\<lambda>x.
                  rbind (as_mapping x) (\<lambda>m. Inr (JObj m))))
             else rbind (rfold (\<lambda>(keyword, x) acc.
                    rbind (normalize_schema_rec depth id_of resolve scopes x) (\<lambda>y. Inr (acc @ [(keyword, y)]))) d [])
                    (\<lambda>m. Inr (JObj m))
      | JArr xs \<Rightarrow>
          rbind (rfold (\<lambda>x acc.
            rbind (normalize_schema_rec depth id_of resolve scopes x) (\<lambda>y. Inr (acc @ [y]))) xs [])
            (\<lambda>ys. Inr (JArr ys))
      | _ \<Rightarrow> Inr original_schema)"

text \<open>\<open>schema.get(type_.value)\<close>, asserted to be a list when it is not \<open>None\<close>.\<close>

definition get_subschemas :: "(string, json) dict \<Rightarrow> subschema_type \<Rightarrow> json list option res" where
  "get_subschemas d t =
     (let subschema = dict_field d (subschema_value t)
      in if subschema = JNull then Inr None
         else case as_list subschema of Some xs \<Rightarrow> Inr (Some xs) | None \<Rightarrow> Inl AssertionError)"

definition maybe_get_subschemas_and_type :: "json \<Rightarrow> (json list \<times> subschema_type) option res" where
  "maybe_get_subschemas_and_type schema =
     (case schema of
        JObj d \<Rightarrow>
          (case as_list (dict_field d (keyword_value TYPE_KEYWORD)) of
             Some subtypes \<Rightarrow>
               Inr (Some (map (\<lambda>subtype. JObj (dict_set d (keyword_value TYPE_KEYWORD) subtype)) subtypes, ANY_OF))
           | None \<Rightarrow>
               rbind (rfold (\<lambda>t acc.
                   case acc of
                     Some _ \<Rightarrow> Inr acc
                   | None \<Rightarrow>
                       rbind (get_subschemas d t) (\<lambda>found. Inr (map_option (\<lambda>subschemas. (subschemas, t)) found)))
                   [ALL_OF, ANY_OF, ONE_OF] None) (\<lambda>acc.
               Inr (case acc of
                      Some x \<Rightarrow> Some x
                    | None \<Rightarrow>
                        let subschema = dict_field d (subschema_value NOT)
                        in if subschema \<noteq> JNull then Some ([subschema], NOT) else None)))
      | _ \<Rightarrow> Inr None)"

definition is_tuple :: "json \<Rightarrow> bool" where
  "is_tuple schema =
     (case schema of JObj d \<Rightarrow> as_list (dict_field d (keyword_value ITEMS)) \<noteq> None | _ \<Rightarrow> False)"

definition is_true_schema :: "json \<Rightarrow> bool" where
  "is_true_schema schema \<longleftrightarrow> schema = JBool True"

definition is_false_schema :: "json \<Rightarrow> bool" where
  "is_false_schema schema \<longleftrightarrow> schema = JBool False"

text \<open>\<open>float("inf")\<close> is not a JSON value of the model, so any present \<open>maxLength\<close> differs from it.\<close>

definition is_string_and_constrained :: "json \<Rightarrow> bool" where
  "is_string_and_constrained schema =
     (case schema of
        JObj d \<Rightarrow>
          dict_field d (keyword_value TYPE_KEYWORD) = JStr (instance_value STRING_T) \<and>
          (dict_get d (keyword_value MAX_LENGTH) \<noteq> None \<or>
           (case dict_get d (keyword_value MIN_LENGTH) of None \<Rightarrow> False | Some v \<Rightarrow> \<not> py_eq v (JInt 0)) \<or>
           dict_field d (keyword_value PATTERN) \<noteq> JNull)
      | _ \<Rightarrow> False)"

definition is_object_content_model_open :: "json \<Rightarrow> bool res" where
  "is_object_content_model_open schema =
     (case schema of
        JObj d \<Rightarrow>
          rbind (py_get_default schema (keyword_value PATTERN_PROPERTIES) (JArr [])) (\<lambda>patterns.
          rbind (py_len patterns) (\<lambda>n.
          rbind (py_get_default schema (keyword_value ADDITIONAL_PROPERTIES) (JBool True)) (\<lambda>additional.
            Inr (n = 0 \<and> is_true_schema additional))))
      | _ \<Rightarrow> Inr False)"

definition is_array_content_model_open :: "json \<Rightarrow> bool" where
  "is_array_content_model_open schema =
     (case schema of
        JObj d \<Rightarrow>
          is_tuple schema \<and>
          (case dict_get d (keyword_value ADDITIONAL_ITEMS) of
             None \<Rightarrow> True | Some v \<Rightarrow> py_eq v (JBool True) \<or> v = JNull)
      | _ \<Rightarrow> False)"

definition is_tuple_without_additional_items :: "json \<Rightarrow> bool" where
  "is_tuple_without_additional_items schema =
     (case schema of
        JObj d \<Rightarrow>
          is_tuple schema \<and>
          is_false_schema (case dict_get d (keyword_value ADDITIONAL_ITEMS) of None \<Rightarrow> JBool True | Some v \<Rightarrow> v)
      | _ \<Rightarrow> False)"

definition gt :: "json \<Rightarrow> json \<Rightarrow> bool res" where
  "gt left right = (if left \<noteq> JNull \<and> right \<noteq> JNull then py_gt left right else Inr False)"

definition lt :: "json \<Rightarrow> json \<Rightarrow> bool res" where
  "lt left right = gt right left"

definition ne :: "json \<Rightarrow> json \<Rightarrow> bool res" where
  "ne writer reader = Inr (reader \<noteq> JNull \<and> writer \<noteq> JNull \<and> \<not> py_eq reader writer)"

definition introduced_constraint :: "json \<Rightarrow> json \<Rightarrow> bool" where
  "introduced_constraint reader writer \<longleftrightarrow> writer = JNull \<and> reader \<noteq> JNull"

text \<open>\<open>re_match\<close> is Python's \<open>re.match\<close>, which may reject the pattern.\<close>

fun first_match ::
    "(string \<Rightarrow> string \<Rightarrow> bool res) \<Rightarrow> string \<Rightarrow> (string, json) dict \<Rightarrow> json option res" where
  "first_match re_match name [] = Inr None"
| "first_match re_match name ((pattern, pattern_schema) # ps) =
     rbind (re_match pattern name) (\<lambda>m. if m then Inr (Some pattern_schema) else first_match re_match name ps)"

definition schema_from_partially_open_content_model ::
    "(string \<Rightarrow> string \<Rightarrow> bool res) \<Rightarrow> json \<Rightarrow> string \<Rightarrow> json res" where
  "schema_from_partially_open_content_model re_match schema target_property_name =
     rbind (py_get_default schema (keyword_value PATTERN_PROPERTIES) (JObj [])) (\<lambda>patterns.
     rbind (py_items patterns) (\<lambda>ps.
     rbind (first_match re_match target_property_name ps) (\<lambda>found.
       case found of
         Some s \<Rightarrow> Inr s
       | None \<Rightarrow> py_get schema (keyword_value ADDITIONAL_PROPERTIES))))"

definition get_type_of :: "json \<Rightarrow> jtype res" where
  "get_type_of schema =
     (case schema of
        JNull \<Rightarrow> Inr (TInstance NULL_T)
      | JStr _ \<Rightarrow> Inl RuntimeError
      | JBool _ \<Rightarrow> Inr TBooleanSchema
      | JArr _ \<Rightarrow> Inl RuntimeError
      | JObj d \<Rightarrow>
          rbind (maybe_get_subschemas_and_type schema) (\<lambda>sub.
            case sub of
              Some (_, t) \<Rightarrow> Inr (TSubschema t)
            | None \<Rightarrow>
                (let type_value = dict_field d (keyword_value TYPE_KEYWORD)
                 in if truthy type_value then rbind (instance_of type_value) (\<lambda>t. Inr (TInstance t))
                    else if dict_get d (keyword_value ENUM) \<noteq> None then Inr (TKeyword ENUM)
                    else Inr (TInstance OBJECT_T)))
      | _ \<Rightarrow> Inl ValueError)"

fun get_name_of :: "jtype \<Rightarrow> string" where
  "get_name_of (TInstance t) = instance_value t"
| "get_name_of (TSubschema t) = subschema_value t"
| "get_name_of (TKeyword t) = keyword_value t"
| "get_name_of TBooleanSchema = []"

definition is_simple_subschema :: "json \<Rightarrow> bool res" where
  "is_simple_subschema schema =
     (if schema = JNull then Inr False
      else rbind (maybe_get_subschemas_and_type schema) (\<lambda>sub.
        Inr (case sub of Some (xs, _) \<Rightarrow> length xs = 1 | None \<Rightarrow> False)))"

end
