(* ===== verification/Compare_Result.thy ===== *)
theory Compare_Result
  imports Schema_Models
begin

text \<open>
  \<open>karapace/core/protobuf/compare_result.py\<close>: the list of modifications that a comparison of two
  Protobuf schemas collects, with the path of the element under comparison.
\<close>

datatype modification =
    PACKAGE_ALTER | SYNTAX_ALTER | MESSAGE_ADD | MESSAGE_DROP | MESSAGE_MOVE | ENUM_CONSTANT_ADD
  | ENUM_CONSTANT_ALTER | ENUM_CONSTANT_DROP | ENUM_ADD | ENUM_DROP | TYPE_ALTER | FIELD_ADD
  | FIELD_DROP | FIELD_MOVE | FIELD_LABEL_ALTER | FIELD_NAME_ALTER | FIELD_KIND_ALTER
  | FIELD_TYPE_ALTER | FIELD_TAG_ALTER | ONE_OF_ADD | ONE_OF_DROP | ONE_OF_MOVE | ONE_OF_FIELD_ADD
  | ONE_OF_FIELD_DROP | ONE_OF_FIELD_MOVE | FEW_FIELDS_CONVERTED_TO_ONE_OF

definition modification_is_compatible :: "modification \<Rightarrow> bool" where
  "modification_is_compatible m \<longleftrightarrow>
     m \<notin> {MESSAGE_MOVE, MESSAGE_DROP, FIELD_LABEL_ALTER, FIELD_KIND_ALTER, FIELD_TYPE_ALTER, FIELD_TAG_ALTER,
          ONE_OF_FIELD_DROP, FEW_FIELDS_CONVERTED_TO_ONE_OF}"

record modification_record =
  mr_modification :: modification
  mr_path :: string

record compare_result =
  cr_result :: "modification_record list"
  cr_path :: "string list"
  cr_canonical_name :: "string list"

definition init_compare_result :: compare_result where
  "init_compare_result = \<lparr>cr_result = [], cr_path = [], cr_canonical_name = []\<rparr>"

definition push_path :: "string \<Rightarrow> bool \<Rightarrow> compare_result \<Rightarrow> compare_result" where
  "push_path name_element canonical cr =
     (let cr = (if canonical then cr\<lparr>cr_canonical_name := cr_canonical_name cr @ [name_element]\<rparr> else cr)
      in cr\<lparr>cr_path := cr_path cr @ [name_element]\<rparr>)"

text \<open>\<open>list.pop()\<close> raises \<open>IndexError\<close> on an empty list.\<close>

definition pop_path :: "bool \<Rightarrow> compare_result \<Rightarrow> compare_result res" where
  "pop_path canonical cr =
     rbind (if canonical
            then if cr_canonical_name cr = [] then Inl IndexError
                 else Inr (cr\<lparr>cr_canonical_name := butlast (cr_canonical_name cr)\<rparr>)
            else Inr cr) (\<lambda>cr.
       if cr_path cr = [] then Inl IndexError else Inr (cr\<lparr>cr_path := butlast (cr_path cr)\<rparr>))"

definition add_modification :: "modification \<Rightarrow> compare_result \<Rightarrow> compare_result" where
  "add_modification m cr =
     cr\<lparr>cr_result := cr_result cr @ [\<lparr>mr_modification = m, mr_path = join_with ''.'' (cr_path cr)\<rparr>]\<rparr>"

definition cr_is_compatible :: "compare_result \<Rightarrow> bool" where
  "cr_is_compatible cr \<longleftrightarrow> list_all (\<lambda>r. modification_is_compatible (mr_modification r)) (cr_result cr)"

lemma pop_push_path: "pop_path canonical (push_path x canonical cr) = Inr cr"
  by (simp add: pop_path_def push_path_def Let_def)

lemma add_modification_compatible:
  "cr_is_compatible (add_modification m cr) \<longleftrightarrow> cr_is_compatible cr \<and> modification_is_compatible m"
  by (simp add: cr_is_compatible_def add_modification_def)

end
