(* ===== verification/Json_Schema_Checks.thy ===== *)
theory Json_Schema_Checks
  imports Json_Schema_Utils Compare_Result
begin

text \<open>
  \<open>karapace/core/compatibility/jsonschema/checks.py\<close>: whether a reader schema accepts what a writer
  schema produces. The mutual recursion through \<open>compatibility_rec\<close> is open: each check takes the
  recursive call as an argument \<open>rec\<close>, and \<open>compatibility_rec\<close> ties the knot with a depth, beyond
  which Python raises \<open>RecursionError\<close>.

  Parameters (record \<open>jsx\<close>): \<open>merge\<close> of \<open>avro.compatibility\<close>, the size of the dictionary returned
  by \<open>networkx\<close>'s \<open>maximum_matching\<close> on the edges between reader and writer positions, \<open>re.match\<close>,
  and the iteration order of a set of strings. A message is kept as its format string with its
  arguments. The values of \<open>properties\<close>, \<open>dependencies\<close>, \<open>dependentSchemas\<close> are read as objects
  and \<open>required\<close> as an array; another JSON type is a \<open>TypeError\<close>.
\<close>

section \<open>Results\<close>

text \<open>The result class of \<open>avro.compatibility\<close>, with the attributes the checks use.\<close>

datatype compatibility_type = Compatible | Incompatible | RecursionInProgress

datatype incompat = Json incompatibility | AvroTypeMismatch | Modification modification

datatype message_arg = ArgJson json | ArgType jtype | ArgStr string | ArgNat nat | ArgSet "json list"
  | ArgModification modification

datatype message = Msg (msg_format: string) (msg_args: "message_arg list")

record compat_result =
  compat :: compatibility_type
  incompatibilities :: "incompat list"
  locations :: "string set"
  messages :: "message set"

definition compatible_result :: compat_result where
  "compatible_result = \<lparr>compat = Compatible, incompatibilities = [], locations = {}, messages = {}\<rparr>"

record jsx =
  merge :: "compat_result \<Rightarrow> compat_result \<Rightarrow> compat_result"
  matching_size :: "(nat \<times> nat) list \<Rightarrow> nat"
  re_match :: "string \<Rightarrow> string \<Rightarrow> bool res"
  set_order :: "string list \<Rightarrow> string list"

definition is_incompatible :: "compat_result \<Rightarrow> bool" where
  "is_incompatible result \<longleftrightarrow> compat result = Incompatible"

definition is_compatible :: "compat_result \<Rightarrow> bool" where
  "is_compatible result \<longleftrightarrow> compat result = Compatible"

fun join_slash :: "string list \<Rightarrow> string" where
  "join_slash [] = []"
| "join_slash [x] = x"
| "join_slash (x # y # ys) = x @ ''/'' @ join_slash (y # ys)"

text \<open>\<open>locations[1:]\<close> drops one character of the joined string.\<close>

definition joined_location :: "string list \<Rightarrow> string" where
  "joined_location location =
     (if length location > 1 then tl (join_slash location) else join_slash location)"

definition type_mismatch :: "jtype \<Rightarrow> jtype \<Rightarrow> string list \<Rightarrow> compat_result" where
  "type_mismatch reader_type writer_type location =
     \<lparr>compat = Incompatible, incompatibilities = [Json type_changed], locations = {joined_location location},
      messages = {Msg ''type {} is not compatible with type {}'' [ArgType reader_type, ArgType writer_type]}\<rparr>"

definition incompatible_schema :: "incompat \<Rightarrow> message \<Rightarrow> string list \<Rightarrow> compat_result" where
  "incompatible_schema incompat_type message location =
     \<lparr>compat = Incompatible, incompatibilities = [incompat_type], locations = {joined_location location},
      messages = {message}\<rparr>"

definition add_incompatibility ::
    "incompatibility \<Rightarrow> message \<Rightarrow> string list \<Rightarrow> compat_result \<Rightarrow> compat_result" where
  "add_incompatibility incompat_type message location result =
     \<lparr>compat = Incompatible,
      incompatibilities = incompatibilities result @ [Json incompat_type],
      locations = insert (join_slash (if length location > 1 then tl location else location)) (locations result),
      messages = insert message (messages result)\<rparr>"

section \<open>Assertion checks\<close>

definition INTRODUCED_INCOMPATIBILITY_MSG_FMT :: string where
  "INTRODUCED_INCOMPATIBILITY_MSG_FMT = ''Introduced incompatible assertion {assert_name} with value {introduced_value}''"

definition RESTRICTED_INCOMPATIBILITY_MSG_FMT :: string where
  "RESTRICTED_INCOMPATIBILITY_MSG_FMT = ''More restrictive assertion {assert_name} from {writer_value} to {reader_value}''"

definition MODIFIED_INCOMPATIBILITY_MSG_FMT :: string where
  "MODIFIED_INCOMPATIBILITY_MSG_FMT = ''Assertion of {assert_name} changed from {writer_value} to {reader_value}''"

record assertion_check =
  ac_keyword :: keyword
  error_when_introducing :: incompatibility
  error_when_restricting :: incompatibility
  error_msg_when_introducing :: string
  error_msg_when_restricting :: string
  comparison :: "json \<Rightarrow> json \<Rightarrow> bool res"

definition bound_check ::
    "keyword \<Rightarrow> incompatibility \<Rightarrow> incompatibility \<Rightarrow> (json \<Rightarrow> json \<Rightarrow> bool res) \<Rightarrow> assertion_check" where
  "bound_check k introducing restricting cmp =
     \<lparr>ac_keyword = k, error_when_introducing = introducing, error_when_restricting = restricting,
      error_msg_when_introducing = INTRODUCED_INCOMPATIBILITY_MSG_FMT,
      error_msg_when_restricting = RESTRICTED_INCOMPATIBILITY_MSG_FMT, comparison = cmp\<rparr>"

definition MAX_LENGTH_CHECK :: assertion_check where
  "MAX_LENGTH_CHECK = bound_check MAX_LENGTH max_length_added max_length_decreased lt"

definition MIN_LENGTH_CHECK :: assertion_check where
  "MIN_LENGTH_CHECK = bound_check MIN_LENGTH min_length_added min_length_increased gt"

definition PATTERN_CHECK :: assertion_check where
  "PATTERN_CHECK =
     \<lparr>ac_keyword = PATTERN, error_when_introducing = pattern_added, error_when_restricting = pattern_changed,
      error_msg_when_introducing = INTRODUCED_INCOMPATIBILITY_MSG_FMT,
      error_msg_when_restricting = MODIFIED_INCOMPATIBILITY_MSG_FMT, comparison = ne\<rparr>"

definition MAXIMUM_CHECK :: assertion_check where
  "MAXIMUM_CHECK = bound_check MAXIMUM maximum_added maximum_decreased lt"

definition MINIMUM_CHECK :: assertion_check where
  "MINIMUM_CHECK = bound_check MINIMUM minimum_added minimum_increased gt"

definition EXCLUSIVE_MAXIMUM_CHECK :: assertion_check where
  "EXCLUSIVE_MAXIMUM_CHECK =
     bound_check EXCLUSIVE_MAXIMUM maximum_exclusive_added maximum_exclusive_decreased lt"

definition EXCLUSIVE_MINIMUM_CHECK :: assertion_check where
  "EXCLUSIVE_MINIMUM_CHECK =
     bound_check EXCLUSIVE_MINIMUM minimum_exclusive_added minimum_exclusive_increased gt"

definition MAX_PROPERTIES_CHECK :: assertion_check where
  "MAX_PROPERTIES_CHECK = bound_check MAX_PROPERTIES max_properties_added max_properties_decreased lt"

definition MIN_PROPERTIES_CHECK :: assertion_check where
  "MIN_PROPERTIES_CHECK = bound_check MIN_PROPERTIES min_properties_added min_properties_increased gt"

definition MAX_ITEMS_CHECK :: assertion_check where
  "MAX_ITEMS_CHECK = bound_check MAX_ITEMS max_items_added max_items_decreased lt"

definition MIN_ITEMS_CHECK :: assertion_check where
  "MIN_ITEMS_CHECK = bound_check MIN_ITEMS min_items_added min_items_increased gt"

definition introduced_message :: "string \<Rightarrow> keyword \<Rightarrow> json \<Rightarrow> message" where
  "introduced_message fmt k introduced_value = Msg fmt [ArgStr (keyword_value k), ArgJson introduced_value]"

definition check_assertion_compatibility ::
    "json \<Rightarrow> json \<Rightarrow> assertion_check \<Rightarrow> string list \<Rightarrow> compat_result res" where
  "check_assertion_compatibility reader_schema writer_schema ac location =
     rbind (py_get reader_schema (keyword_value (ac_keyword ac))) (\<lambda>reader_value.
     rbind (py_get writer_schema (keyword_value (ac_keyword ac))) (\<lambda>writer_value.
       let result = (if introduced_constraint reader_value writer_value
                     then add_incompatibility (error_when_introducing ac)
                            (introduced_message (error_msg_when_introducing ac) (ac_keyword ac) writer_value)
                            location compatible_result
                     else compatible_result)
       in rbind (comparison ac reader_value writer_value) (\<lambda>c.
            Inr (if c
                 then add_incompatibility (error_when_restricting ac)
                        (Msg (error_msg_when_restricting ac)
                           [ArgStr (keyword_value (ac_keyword ac)), ArgJson writer_value, ArgJson reader_value])
                        location result
                 else result))))"

text \<open>The loop over a list of assertion checks, merging their results.\<close>

definition check_assertions ::
    "jsx \<Rightarrow> assertion_check list \<Rightarrow> json \<Rightarrow> json \<Rightarrow> string list \<Rightarrow> compat_result \<Rightarrow> compat_result res" where
  "check_assertions j checks reader_schema writer_schema location result =
     rfold (\<lambda>ac result.
       rbind (check_assertion_compatibility reader_schema writer_schema ac location) (\<lambda>check_result.
         Inr (merge j result check_result))) checks result"

text \<open>\<open>assert get_type_of(schema) == t\<close>.\<close>

definition assert_type :: "json \<Rightarrow> jtype list \<Rightarrow> jtype res" where
  "assert_type schema ts =
     rbind (get_type_of schema) (\<lambda>t. if t \<in> set ts then Inr t else Inl AssertionError)"

section \<open>Scalars\<close>

definition compatibility_enum :: "jsx \<Rightarrow> json \<Rightarrow> json \<Rightarrow> string list \<Rightarrow> compat_result res" where
  "compatibility_enum j reader_schema writer_schema location =
     rbind (of_option AssertionError (jget reader_schema (keyword_value ENUM))) (\<lambda>reader_options.
     rbind (of_option AssertionError (jget writer_schema (keyword_value ENUM))) (\<lambda>writer_options.
     rbind (py_set writer_options) (\<lambda>ws.
     rbind (py_set reader_options) (\<lambda>rs.
       let removed = py_set_diff ws rs
       in if removed = [] then Inr compatible_result
          else if \<not> list_all (\<lambda>x. case x of JStr _ \<Rightarrow> True | _ \<Rightarrow> False) removed then Inl TypeError
          else Inr (incompatible_schema (Json enum_array_narrowed)
                 (Msg ''some of enum options are no longer valid {options}'' [ArgSet removed])
                 (location @ [keyword_value ENUM]))))))"

text \<open>The checks of the keyword \<open>multiple\<close>.\<close>

definition check_multiple :: "json \<Rightarrow> json \<Rightarrow> string list \<Rightarrow> compat_result \<Rightarrow> compat_result res" where
  "check_multiple reader_multiple writer_multiple location result =
     (let result = (if introduced_constraint reader_multiple writer_multiple
                    then add_incompatibility multiple_added
                           (introduced_message INTRODUCED_INCOMPATIBILITY_MSG_FMT MULTIPLE writer_multiple)
                           location result
                    else result)
      in rbind (ne reader_multiple writer_multiple) (\<lambda>differ.
           if differ
           then rbind (py_gt reader_multiple writer_multiple) (\<lambda>greater.
                  if greater
                  then Inr (add_incompatibility multiple_expanded
                         (Msg ''Multiple must not increase ({} > {})''
                            [ArgJson reader_multiple, ArgJson writer_multiple]) location result)
                  else rbind (py_mod writer_multiple reader_multiple) (\<lambda>m.
                         Inr (if m \<noteq> 0
                              then add_incompatibility multiple_changed
                                     (Msg ''{} must be an integer multiple of {} ({} % {} = 0)''
                                        [ArgJson reader_multiple, ArgJson writer_multiple,
                                         ArgJson writer_multiple, ArgJson reader_multiple]) location result
                              else result)))
           else Inr result))"

definition compatibility_numerical :: "jsx \<Rightarrow> json \<Rightarrow> json \<Rightarrow> string list \<Rightarrow> compat_result res" where
  "compatibility_numerical j reader_schema writer_schema location =
     rbind (assert_type reader_schema [TInstance NUMBER_T, TInstance INTEGER_T]) (\<lambda>reader_type.
     rbind (assert_type writer_schema [TInstance NUMBER_T, TInstance INTEGER_T]) (\<lambda>writer_type.
     rbind (check_assertions j [MAXIMUM_CHECK, MINIMUM_CHECK, EXCLUSIVE_MAXIMUM_CHECK, EXCLUSIVE_MINIMUM_CHECK]
              reader_schema writer_schema location compatible_result) (\<lambda>result.
     rbind (py_get reader_schema (keyword_value MULTIPLE)) (\<lambda>reader_multiple.
     rbind (py_get writer_schema (keyword_value MULTIPLE)) (\<lambda>writer_multiple.
     rbind (check_multiple reader_multiple writer_multiple location result) (\<lambda>result.
       Inr (if reader_type = TInstance INTEGER_T \<and> writer_type = TInstance NUMBER_T
            then add_incompatibility type_narrowed
                   (Msg ''Writer produces numbers while reader only accepted integers'' []) location result
            else result)))))))"

definition compatibility_string :: "jsx \<Rightarrow> json \<Rightarrow> json \<Rightarrow> string list \<Rightarrow> compat_result res" where
  "compatibility_string j reader_schema writer_schema location =
     rbind (assert_type reader_schema [TInstance STRING_T]) (\<lambda>_.
     rbind (assert_type writer_schema [TInstance STRING_T]) (\<lambda>_.
       check_assertions j [MAX_LENGTH_CHECK, MIN_LENGTH_CHECK, PATTERN_CHECK]
         reader_schema writer_schema location compatible_result))"

section \<open>Arrays\<close>

type_synonym rec_check = "json \<Rightarrow> json \<Rightarrow> string list \<Rightarrow> compat_result res"

fun items_list :: "json \<Rightarrow> json list" where
  "items_list (JArr xs) = xs"
| "items_list _ = []"

text \<open>
  \<open>dict.get\<close> with an \<open>Enum\<close> member for key: the keys of a schema are strings, so nothing is found.
\<close>

fun py_get_enum_key :: "json \<Rightarrow> keyword \<Rightarrow> json res" where
  "py_get_enum_key (JObj d) k = Inr JNull"
| "py_get_enum_key _ k = Inl AttributeError"

text \<open>\<open>if is_incompatible(rec_result): result = merge(result, rec_result)\<close>.\<close>

definition merge_if_incompatible :: "jsx \<Rightarrow> compat_result \<Rightarrow> compat_result \<Rightarrow> compat_result" where
  "merge_if_incompatible j result rec_result =
     (if is_incompatible rec_result then merge j result rec_result else result)"

text \<open>\<open>if is_incompatible(rec_result): add_incompatibility(result, ...)\<close>.\<close>

definition add_if_incompatible ::
    "compat_result \<Rightarrow> incompatibility \<Rightarrow> message \<Rightarrow> string list \<Rightarrow> compat_result \<Rightarrow> compat_result" where
  "add_if_incompatible rec_result incompat_type message location result =
     (if is_incompatible rec_result then add_incompatibility incompat_type message location result else result)"

text \<open>
  The element-wise comparison. \<open>zip\<close> asks the reader's iterator first, so when the writer's tuple is
  shorter one more reader item has been consumed, and the rest starts after it.
\<close>

definition check_item_pairs ::
    "jsx \<Rightarrow> rec_check \<Rightarrow> (json \<times> json) list \<Rightarrow> string list \<Rightarrow> compat_result \<Rightarrow> compat_result res" where
  "check_item_pairs j rec pairs location result =
     rfold (\<lambda>(pos, reader_item, writer_item) result.
       rbind (rec reader_item writer_item (location @ [''items'', show_nat pos])) (\<lambda>rec_result.
         Inr (merge_if_incompatible j result rec_result))) (enumerate 0 pairs) result"

definition check_more_writer_items ::
    "rec_check \<Rightarrow> bool \<Rightarrow> json list \<Rightarrow> nat \<Rightarrow> string list \<Rightarrow> compat_result \<Rightarrow> compat_result res" where
  "check_more_writer_items rec reader_restricts_additional_items more_items pos location_additional_items result =
     (if is_false_schema (JBool reader_restricts_additional_items)
      then Inr (add_incompatibility item_removed_from_closed_content_model
             (Msg ''Elements starting from index {pos} are not allowed'' [ArgNat pos])
             location_additional_items result)
      else rfold (\<lambda>(pos, writer_item) result.
             rbind (rec (JBool reader_restricts_additional_items) writer_item location_additional_items) (\<lambda>rec_result.
               Inr (add_if_incompatible rec_result item_removed_not_covered_by_partially_open_content_model
                      (Msg ''Item in position {pos} is not compatible'' [ArgNat pos])
                      location_additional_items result))) (enumerate pos more_items) result)"

definition check_more_reader_items ::
    "rec_check \<Rightarrow> json \<Rightarrow> json list \<Rightarrow> nat \<Rightarrow> string list \<Rightarrow> compat_result \<Rightarrow> compat_result res" where
  "check_more_reader_items rec writer_additional_items more_items pos location result =
     rfold (\<lambda>(pos, reader_item) result.
       let location_reader_item = location @ [''items'', show_nat pos]
       in rbind (rec reader_item writer_additional_items location_reader_item) (\<lambda>rec_result.
            Inr (add_if_incompatible rec_result item_added_not_covered_by_partially_open_content_model
                   (Msg ''New element schema incompatible with the other version'' [])
                   location_reader_item result))) (enumerate pos more_items) result"

text \<open>The value of the loop variable \<open>pos\<close> after \<open>for pos, x in enumerate(xs, start=pos)\<close>.\<close>

definition pos_after :: "nat \<Rightarrow> 'x list \<Rightarrow> nat" where
  "pos_after pos xs = (if xs = [] then pos else pos + length xs - 1)"

definition compatibility_array :: "jsx \<Rightarrow> rec_check \<Rightarrow> rec_check" where
  "compatibility_array j rec reader_schema writer_schema location =
     rbind (assert_type reader_schema [TInstance ARRAY_T]) (\<lambda>reader_type.
     rbind (assert_type writer_schema [TInstance ARRAY_T]) (\<lambda>writer_type.
     rbind (py_get reader_schema (keyword_value ITEMS)) (\<lambda>reader_items.
     rbind (py_get writer_schema (keyword_value ITEMS)) (\<lambda>writer_items.
     if is_tuple reader_schema \<noteq> is_tuple writer_schema then Inr (type_mismatch reader_type writer_type location)
     else
     let tuples = is_tuple reader_schema;
         rs = items_list reader_items;
         ws = items_list writer_items;
         pairs = (if tuples then zip rs ws else [(reader_items, writer_items)]);
         reader_requires_more_items = (tuples \<and> length rs > length ws);
         writer_has_more_items = (tuples \<and> length ws > length rs);
         pos = pos_after 0 pairs;
         location_additional_items = location @ [keyword_value ADDITIONAL_ITEMS]
     in
     rbind (check_item_pairs j rec pairs location compatible_result) (\<lambda>result.
     rbind (py_get_default reader_schema (keyword_value ADDITIONAL_ITEMS) (JBool True)) (\<lambda>reader_additional_items.
     rbind (py_get_default writer_schema (keyword_value ADDITIONAL_ITEMS) (JBool True)) (\<lambda>writer_additional_items.
     rbind (if writer_has_more_items \<and> \<not> is_true_schema reader_additional_items
            then check_more_writer_items rec (\<not> is_true_schema reader_additional_items) (drop (length rs) ws) pos
                   location_additional_items result
            else Inr result) (\<lambda>result.
     rbind (if reader_requires_more_items
            then rbind (if \<not> is_true_schema writer_additional_items
                        then check_more_reader_items rec writer_additional_items (drop (Suc (length ws)) rs) pos
                               location result
                        else Inr result) (\<lambda>result.
                 Inr (add_incompatibility item_added_to_open_content_model
                        (Msg ''Elements starting from index {pos} are now required''
                           [ArgNat (if is_true_schema writer_additional_items then pos
                                    else pos_after pos (drop (Suc (length ws)) rs))]) location result))
            else Inr result) (\<lambda>result.
     let result = (if is_tuple_without_additional_items reader_schema \<and>
                      \<not> is_tuple_without_additional_items writer_schema
                   then add_incompatibility additional_items_removed
                          (Msg ''Additional items are not longer allowed'' []) location_additional_items result
                   else result)
     in
     rbind (py_get_enum_key reader_schema ITEMS) (\<lambda>reader_additional_items.
     rbind (py_get_enum_key writer_schema ITEMS) (\<lambda>writer_additional_items.
     let result = (if introduced_constraint reader_additional_items writer_additional_items
                   then add_incompatibility additional_items_removed
                          (Msg ''Items are now restricted, old values may not be valid anymore'' [])
                          location_additional_items result
                   else result)
     in
     rbind (rec reader_additional_items writer_additional_items location_additional_items) (\<lambda>rec_result.
     rbind (check_assertions j [MAX_ITEMS_CHECK, MIN_ITEMS_CHECK] reader_schema writer_schema location
              (merge j result rec_result)) (\<lambda>result.
     rbind (py_get_enum_key reader_schema UNIQUE_ITEMS) (\<lambda>reader_unique_items.
     rbind (py_get_enum_key reader_schema UNIQUE_ITEMS) (\<lambda>writer_unique_items.
       Inr (if introduced_constraint reader_unique_items writer_unique_items
            then add_incompatibility unique_items_added
                   (introduced_message INTRODUCED_INCOMPATIBILITY_MSG_FMT UNIQUE_ITEMS writer_unique_items)
                   location result
            else result))))))))))))))))"

section \<open>Objects\<close>

text \<open>\<open>set(properties) if properties else set()\<close>.\<close>

definition property_names :: "json \<Rightarrow> string list res" where
  "property_names properties =
     (if \<not> truthy properties then Inr []
      else case properties of JObj d \<Rightarrow> Inr (remdups (dict_keys d)) | _ \<Rightarrow> Inl TypeError)"

text \<open>\<open>properties[name]\<close> for a property that is present.\<close>

definition property_schema :: "json \<Rightarrow> string \<Rightarrow> json res" where
  "property_schema properties name = of_option KeyError (jget properties name)"

text \<open>\<open>key in x\<close>.\<close>

fun py_in :: "string \<Rightarrow> json \<Rightarrow> bool res" where
  "py_in k (JArr xs) = Inr (list_ex (py_eq (JStr k)) xs)"
| "py_in k (JObj d) = Inr (dict_get d k \<noteq> None)"
| "py_in k (JStr s) = Inr (list_ex (\<lambda>n. take (length k) (drop n s) = k) [0..<Suc (length s)])"
| "py_in k _ = Inl TypeError"

definition check_common_property ::
    "jsx \<Rightarrow> rec_check \<Rightarrow> json \<Rightarrow> json \<Rightarrow> string list \<Rightarrow> string \<Rightarrow> compat_result \<Rightarrow> compat_result res" where
  "check_common_property j rec reader_properties writer_properties properties_location common_property result =
     (let this_property_location = properties_location @ [common_property]
      in
      rbind (property_schema reader_properties common_property) (\<lambda>reader_property.
      rbind (property_schema writer_properties common_property) (\<lambda>writer_property.
      rbind (py_get reader_property (keyword_value REQUIRED)) (\<lambda>is_required_by_reader.
      rbind (py_get writer_property (keyword_value REQUIRED)) (\<lambda>is_required_by_writer.
      let result = (if \<not> truthy is_required_by_writer \<and> truthy is_required_by_reader
                    then add_incompatibility required_attribute_added
                           (Msg ''Property {common_property} became required'' [ArgStr common_property])
                           this_property_location result
                    else result)
      in
      rbind (rec reader_property writer_property this_property_location) (\<lambda>rec_result.
        Inr (merge_if_incompatible j result rec_result)))))))"

definition check_property_unknown_to_reader ::
    "jsx \<Rightarrow> rec_check \<Rightarrow> json \<Rightarrow> json \<Rightarrow> string list \<Rightarrow> string \<Rightarrow> compat_result \<Rightarrow> compat_result res" where
  "check_property_unknown_to_reader j rec reader_schema writer_properties properties_location name result =
     rbind (schema_from_partially_open_content_model (re_match j) reader_schema name) (\<lambda>schema_for_property.
       if schema_for_property = JNull
       then Inr (add_incompatibility property_removed_from_closed_content_model
              (Msg ''The property {} is not accepted anymore'' [ArgStr name]) properties_location result)
       else
         rbind (property_schema writer_properties name) (\<lambda>writer_property.
         rbind (rec schema_for_property writer_property properties_location) (\<lambda>rec_result.
           Inr (if is_incompatible rec_result
                then add_incompatibility property_removed_not_covered_by_partially_open_content_model
                       (Msg ''property {} is not compatible'' [ArgStr name]) properties_location
                       (merge j result rec_result)
                else result))))"

definition required_without_default :: "json \<Rightarrow> json \<Rightarrow> string \<Rightarrow> bool res" where
  "required_without_default reader_schema reader_properties name =
     rbind (py_get_default reader_schema (keyword_value REQUIRED) (JArr [])) (\<lambda>required.
     rbind (py_in name required) (\<lambda>is_required.
       if \<not> is_required then Inr False
       else rbind (py_get_default reader_properties (keyword_value REQUIRED) (JArr [])) (\<lambda>x.
            rbind (py_in (keyword_value DEFAULT) x) (\<lambda>has_default. Inr (\<not> has_default)))))"

definition check_property_unknown_to_writer ::
    "jsx \<Rightarrow> rec_check \<Rightarrow> json \<Rightarrow> json \<Rightarrow> json \<Rightarrow> string list \<Rightarrow> string \<Rightarrow> compat_result \<Rightarrow> compat_result res" where
  "check_property_unknown_to_writer j rec reader_schema writer_schema reader_properties properties_location name result =
     rbind (schema_from_partially_open_content_model (re_match j) writer_schema name) (\<lambda>schema_for_property.
     rbind (if schema_for_property \<noteq> JNull \<and> \<not> is_false_schema schema_for_property
            then rbind (property_schema reader_properties name) (\<lambda>reader_property.
                 rbind (rec reader_property schema_for_property properties_location) (\<lambda>rec_result.
                   Inr (add_if_incompatible rec_result property_added_not_covered_by_partially_open_content_model
                          (Msg ''incompatible schemas'' []) properties_location result)))
            else Inr result) (\<lambda>result.
     rbind (required_without_default reader_schema reader_properties name) (\<lambda>new_property_is_required_without_default.
       Inr (if new_property_is_required_without_default
            then add_incompatibility required_property_added_to_unopen_content_model
                   (Msg ''Property {} added without a default'' [ArgStr name]) properties_location result
            else result))))"

definition check_properties ::
    "jsx \<Rightarrow> rec_check \<Rightarrow> json \<Rightarrow> json \<Rightarrow> string list \<Rightarrow> compat_result \<Rightarrow> compat_result res" where
  "check_properties j rec reader_schema writer_schema location result =
     (let properties_location = location @ [keyword_value PROPERTIES]
      in
      rbind (py_get reader_schema (keyword_value PROPERTIES)) (\<lambda>reader_properties.
      rbind (py_get writer_schema (keyword_value PROPERTIES)) (\<lambda>writer_properties.
      rbind (property_names reader_properties) (\<lambda>reader_property_set.
      rbind (property_names writer_properties) (\<lambda>writer_property_set.
      let properties_unknown_to_writer =
            set_order j (filter (\<lambda>p. p \<notin> set writer_property_set) reader_property_set);
          properties_unknown_to_reader =
            set_order j (filter (\<lambda>p. p \<notin> set reader_property_set) writer_property_set);
          common = set_order j (filter (\<lambda>p. p \<in> set writer_property_set) reader_property_set)
      in
      rbind (rfold (check_common_property j rec reader_properties writer_properties properties_location)
               common result) (\<lambda>result.
      rbind (if properties_unknown_to_reader \<noteq> [] then is_object_content_model_open reader_schema else Inr True)
        (\<lambda>reader_open.
        if properties_unknown_to_reader \<noteq> [] \<and> \<not> reader_open
        then rfold (check_property_unknown_to_reader j rec reader_schema writer_properties properties_location)
               properties_unknown_to_reader result
        else if properties_unknown_to_writer \<noteq> []
        then rbind (is_object_content_model_open writer_schema) (\<lambda>is_writer_open_model.
               if is_writer_open_model
               then Inr (add_incompatibility property_added_to_open_content_model
                      (Msg ''Restricting acceptable values of properties is an incompatible change. The following properties {properties} accepted any value because of the lack of validation (the object schema had neither patternProperties nor additionalProperties), now these values are restricted.''
                         [ArgSet (map JStr properties_unknown_to_writer)]) properties_location result)
               else rfold (check_property_unknown_to_writer j rec reader_schema writer_schema reader_properties
                             properties_location) properties_unknown_to_writer result)
        else Inr result)))))))"

definition check_dependencies :: "json \<Rightarrow> json \<Rightarrow> string list \<Rightarrow> compat_result \<Rightarrow> compat_result res" where
  "check_dependencies reader_schema writer_schema location result =
     rbind (py_get_default reader_schema (keyword_value DEPENDENCIES) (JObj [])) (\<lambda>reader_dependencies.
     rbind (py_get_default writer_schema (keyword_value DEPENDENCIES) (JObj [])) (\<lambda>writer_dependencies.
     rbind (py_items writer_dependencies) (\<lambda>items.
       rfold (\<lambda>(name, writer_attribute_dependencies) result.
         rbind (py_get reader_dependencies name) (\<lambda>reader_attribute_dependencies.
         let result = (if \<not> truthy reader_attribute_dependencies
                       then add_incompatibility dependency_array_added
                              (Msg ''incompatible dependency array'' []) location result
                       else result)
         in
         rbind (py_set writer_attribute_dependencies) (\<lambda>ws.
         rbind (py_set reader_attribute_dependencies) (\<lambda>rs.
         let new_dependencies = py_set_diff ws rs
         in Inr (if new_dependencies \<noteq> []
                 then add_incompatibility dependency_array_extended
                        (Msg ''new dependencies {new_dependencies}'' [ArgSet new_dependencies]) location result
                 else result))))) items result)))"

definition check_dependent_schemas ::
    "jsx \<Rightarrow> rec_check \<Rightarrow> json \<Rightarrow> json \<Rightarrow> string list \<Rightarrow> compat_result \<Rightarrow> compat_result res" where
  "check_dependent_schemas j rec reader_schema writer_schema location result =
     rbind (py_get_default reader_schema (keyword_value DEPENDENT_SCHEMAS) (JObj [])) (\<lambda>reader_dependent_schemas.
     rbind (py_get_default writer_schema (keyword_value DEPENDENT_SCHEMAS) (JObj [])) (\<lambda>writer_dependent_schemas.
     rbind (py_items writer_dependent_schemas) (\<lambda>items.
       rfold (\<lambda>(name, writer_dependent_schema) result.
         rbind (py_get reader_dependent_schemas name) (\<lambda>reader_dependent_schema.
         let result = (if introduced_constraint reader_dependent_schema writer_dependent_schemas
                       then add_incompatibility dependency_schema_added
                              (Msg ''new dependency schema {}'' [ArgStr name]) location result
                       else result)
         in
         rbind (rec reader_dependent_schema writer_dependent_schema location) (\<lambda>rec_result.
           Inr (merge j result rec_result)))) items result)))"

definition check_additional_properties ::
    "jsx \<Rightarrow> rec_check \<Rightarrow> json \<Rightarrow> json \<Rightarrow> string list \<Rightarrow> compat_result \<Rightarrow> compat_result res" where
  "check_additional_properties j rec reader_schema writer_schema location result =
     rbind (py_get reader_schema (keyword_value ADDITIONAL_PROPERTIES)) (\<lambda>reader_additional_properties.
     rbind (py_get writer_schema (keyword_value ADDITIONAL_PROPERTIES)) (\<lambda>writer_additional_properties.
     let location_additional_properties = location @ [keyword_value ADDITIONAL_PROPERTIES];
         result = (if introduced_constraint reader_additional_properties writer_additional_properties
                   then add_incompatibility additional_properties_narrowed
                          (Msg ''additionalProperties instroduced'' []) location_additional_properties result
                   else result)
     in if truthy reader_additional_properties \<and> truthy writer_additional_properties
        then rbind (rec reader_additional_properties writer_additional_properties location_additional_properties)
               (\<lambda>rec_result. Inr (merge j result rec_result))
        else Inr result))"

definition compatibility_object :: "jsx \<Rightarrow> rec_check \<Rightarrow> rec_check" where
  "compatibility_object j rec reader_schema writer_schema location =
     rbind (assert_type reader_schema [TInstance OBJECT_T]) (\<lambda>_.
     rbind (assert_type writer_schema [TInstance OBJECT_T]) (\<lambda>_.
     rbind (check_properties j rec reader_schema writer_schema location compatible_result) (\<lambda>result.
     rbind (check_dependencies reader_schema writer_schema location result) (\<lambda>result.
     rbind (check_dependent_schemas j rec reader_schema writer_schema location result) (\<lambda>result.
     rbind (check_assertions j [MAX_PROPERTIES_CHECK, MIN_PROPERTIES_CHECK] reader_schema writer_schema
              location result) (\<lambda>result.
       check_additional_properties j rec reader_schema writer_schema location result))))))"

section \<open>Combined schemas\<close>

definition has_subschema :: "jtype \<Rightarrow> bool" where
  "has_subschema t \<longleftrightarrow> t \<in> {TSubschema ALL_OF, TSubschema ANY_OF, TSubschema ONE_OF}"

text \<open>
  An edge for every compatible pair of positions; \<open>maximum_matching\<close> returns both directions of
  each matched edge.
\<close>

definition compatible_edges ::
    "rec_check \<Rightarrow> jtype \<Rightarrow> json list \<Rightarrow> json list \<Rightarrow> string list \<Rightarrow> (nat \<times> nat) list res" where
  "compatible_edges rec reader_type reader_schema writer_schema location =
     rfold (\<lambda>((reader_pos, reader_subschema), (writer_pos, writer_subschema)) edges.
       rbind (rec reader_subschema writer_subschema (location @ [get_name_of reader_type, show_nat writer_pos]))
         (\<lambda>rec_result. Inr (if is_compatible rec_result then edges @ [(reader_pos, writer_pos)] else edges)))
       (List.product (enumerate 0 reader_schema) (enumerate 0 writer_schema)) []"

definition count_uniquely_compatible_schemas ::
    "jsx \<Rightarrow> rec_check \<Rightarrow> jtype \<Rightarrow> json list \<Rightarrow> json list \<Rightarrow> string list \<Rightarrow> nat res" where
  "count_uniquely_compatible_schemas j rec reader_type reader_schema writer_schema location =
     rbind (compatible_edges rec reader_type reader_schema writer_schema location) (\<lambda>edges.
       if matching_size j edges mod 2 = 0 then Inr (matching_size j edges div 2) else Inl AssertionError)"

definition check_simple_subschema ::
    "rec_check \<Rightarrow> json \<Rightarrow> json \<Rightarrow> jtype \<Rightarrow> jtype \<Rightarrow> string list \<Rightarrow> compat_result res" where
  "check_simple_subschema rec reader_schema writer_schema original_reader_type original_writer_type location =
     rbind (rec reader_schema writer_schema location) (\<lambda>rec_result.
       Inr (if is_compatible rec_result then rec_result
            else type_mismatch original_reader_type original_writer_type location))"

fun first_compatible :: "rec_check \<Rightarrow> json list \<Rightarrow> json \<Rightarrow> string list \<Rightarrow> compat_result option res" where
  "first_compatible rec [] writer_schema location = Inr None"
| "first_compatible rec (s # ss) writer_schema location =
     rbind (rec s writer_schema location) (\<lambda>rec_result.
       if is_compatible rec_result then Inr (Some rec_result) else first_compatible rec ss writer_schema location)"

text \<open>The subschemas and the type of one side, at the start of \<open>compatibility_subschemas\<close>.\<close>

definition subschemas_of :: "json \<Rightarrow> (json list option \<times> jtype) res" where
  "subschemas_of schema =
     rbind (maybe_get_subschemas_and_type schema) (\<lambda>sub.
       case sub of
         Some (xs, t) \<Rightarrow> Inr (Some xs, TSubschema t)
       | None \<Rightarrow> rbind (get_type_of schema) (\<lambda>t. Inr (None, t)))"

definition compare_subschemas ::
    "jsx \<Rightarrow> rec_check \<Rightarrow> jtype \<Rightarrow> jtype \<Rightarrow> json list \<Rightarrow> json list \<Rightarrow> string list \<Rightarrow> compat_result res" where
  "compare_subschemas j rec reader_type writer_type reader_subschemas writer_subschemas subschema_location =
     (let len_reader_subschemas = length reader_subschemas;
          len_writer_subschemas = length writer_subschemas
      in
      if reader_type \<notin> {TSubschema ANY_OF, writer_type}
      then Inr (incompatible_schema (Json combined_type_changed)
             (Msg ''incompatible subschema change, from {reader_type} to {writer_type}''
                [ArgType reader_type, ArgType writer_type]) subschema_location)
      else if reader_type = TSubschema ALL_OF \<and> len_writer_subschemas < len_reader_subschemas
      then Inr (incompatible_schema (Json product_type_extended)
             (Msg ''Not all required schemas were provided, number of required schemas increased from {} to {}''
                [ArgNat len_writer_subschemas, ArgNat len_reader_subschemas]) subschema_location)
      else if reader_type \<in> {TSubschema ANY_OF, TSubschema ONE_OF} \<and> len_writer_subschemas > len_reader_subschemas
      then Inr (incompatible_schema (Json sum_type_narrowed)
             (Msg ''Not all schemas are accepted, number of schemas reduced from {} to {}''
                [ArgNat len_writer_subschemas, ArgNat len_reader_subschemas]) subschema_location)
      else
        let qty_of_required_compatible_subschemas =
              (if reader_type = TSubschema ALL_OF then len_reader_subschemas else len_writer_subschemas)
        in rbind (count_uniquely_compatible_schemas j rec reader_type reader_subschemas writer_subschemas
                    subschema_location) (\<lambda>compatible_schemas_count.
             Inr (if compatible_schemas_count < qty_of_required_compatible_subschemas
                  then incompatible_schema (Json combined_type_subschemas_changed)
                         (Msg ''subschemas are incompatible'' []) subschema_location
                  else compatible_result)))"

definition compatibility_subschemas :: "jsx \<Rightarrow> rec_check \<Rightarrow> rec_check" where
  "compatibility_subschemas j rec reader_schema writer_schema location =
     rbind (subschemas_of reader_schema) (\<lambda>(reader_subschemas, reader_type).
     rbind (subschemas_of writer_schema) (\<lambda>(writer_subschemas, writer_type).
     let reader_has_subschema = (reader_subschemas \<noteq> None \<and> has_subschema reader_type);
         writer_has_subschema = (writer_subschemas \<noteq> None \<and> has_subschema writer_type);
         subschema_location = location @ [get_name_of reader_type]
     in
     rbind (if reader_has_subschema \<and> \<not> writer_has_subschema then is_simple_subschema reader_schema else Inr False)
       (\<lambda>is_reader_special_case.
     rbind (if \<not> reader_has_subschema \<and> writer_has_subschema then is_simple_subschema writer_schema else Inr False)
       (\<lambda>is_writer_special_case.
     if is_reader_special_case
     then (case reader_subschemas of
             Some (s # ss) \<Rightarrow> check_simple_subschema rec s writer_schema reader_type writer_type subschema_location
           | _ \<Rightarrow> Inl AssertionError)
     else if is_writer_special_case
     then (case writer_subschemas of
             Some (s # ss) \<Rightarrow> check_simple_subschema rec reader_schema s reader_type writer_type subschema_location
           | _ \<Rightarrow> Inl AssertionError)
     else if reader_type \<in> {TSubschema ANY_OF, TSubschema ONE_OF} \<and> \<not> writer_has_subschema
     then (case reader_subschemas of
             Some ss \<Rightarrow>
               rbind (first_compatible rec ss writer_schema subschema_location) (\<lambda>found.
                 Inr (case found of Some r \<Rightarrow> r | None \<Rightarrow> type_mismatch reader_type writer_type subschema_location))
           | None \<Rightarrow> Inl AssertionError)
     else (case (reader_subschemas, writer_subschemas) of
             (Some rs, Some ws) \<Rightarrow>
               compare_subschemas j rec reader_type writer_type rs ws subschema_location
           | _ \<Rightarrow> Inr (type_mismatch reader_type writer_type subschema_location))))))"

section \<open>compatibility_rec\<close>

definition is_number_type :: "jtype \<Rightarrow> bool" where
  "is_number_type t \<longleftrightarrow> t \<in> {TInstance NUMBER_T, TInstance INTEGER_T}"

definition object_schema :: json where
  "object_schema = JObj [(keyword_value TYPE_KEYWORD, JStr (instance_value OBJECT_T))]"

definition compatibility_step :: "jsx \<Rightarrow> rec_check \<Rightarrow> rec_check" where
  "compatibility_step j rec reader_schema writer_schema location =
     (if introduced_constraint reader_schema writer_schema
      then Inr (incompatible_schema (Json schema_added)
             (Msg ''schema added, previously used values may not be valid anymore'' []) location)
      else if reader_schema = JNull \<and> writer_schema \<noteq> JNull
      then Inr (incompatible_schema (Json schema_removed) (Msg ''schema removed'' []) location)
      else
      rbind (get_type_of reader_schema) (\<lambda>reader_type.
      rbind (get_type_of writer_schema) (\<lambda>writer_type.
      let both_are_numbers = (is_number_type reader_type \<and> is_number_type writer_type);
          either_has_subschema = (has_subschema reader_type \<or> has_subschema writer_type);
          reader_is_true_schema = is_true_schema reader_schema;
          writer_is_true_schema = is_true_schema writer_schema;
          both_are_object =
            ((reader_type = TInstance OBJECT_T \<or> reader_is_true_schema) \<and>
             (writer_type = TInstance OBJECT_T \<or> writer_is_true_schema))
      in
      if \<not> both_are_numbers \<and> \<not> either_has_subschema \<and> \<not> both_are_object \<and> reader_type \<noteq> writer_type
      then Inr (type_mismatch reader_type writer_type location)
      else if both_are_numbers then compatibility_numerical j reader_schema writer_schema location
      else if either_has_subschema then compatibility_subschemas j rec reader_schema writer_schema location
      else if both_are_object
      then compatibility_object j rec (if reader_is_true_schema then object_schema else reader_schema)
             (if writer_is_true_schema then object_schema else writer_schema) location
      else case reader_type of
          TBooleanSchema \<Rightarrow> Inr compatible_result
        | TSubschema NOT \<Rightarrow>
            (case (jget reader_schema (subschema_value NOT), jget writer_schema (subschema_value NOT)) of
               (Some r, Some w) \<Rightarrow> rec r w (location @ [subschema_value NOT])
             | _ \<Rightarrow> Inl KeyError)
        | TInstance BOOLEAN_T \<Rightarrow> Inr compatible_result
        | TInstance STRING_T \<Rightarrow> compatibility_string j reader_schema writer_schema location
        | TInstance ARRAY_T \<Rightarrow> compatibility_array j rec reader_schema writer_schema location
        | TKeyword ENUM \<Rightarrow> compatibility_enum j reader_schema writer_schema location
        | TInstance NULL_T \<Rightarrow> Inr compatible_result
        | _ \<Rightarrow> Inl ValueError)))"

fun compatibility_rec :: "jsx \<Rightarrow> nat \<Rightarrow> rec_check" where
  "compatibility_rec j 0 reader_schema writer_schema location = Inl RecursionError"
| "compatibility_rec j (Suc depth) reader_schema writer_schema location =
     compatibility_step j (compatibility_rec j depth) reader_schema writer_schema location"

text \<open>\<open>compatibility\<close> on two validators: a validator is its schema with its reference resolver.\<close>

record validator =
  va_schema :: json
  va_id_of :: "json \<Rightarrow> string"
  va_resolve :: resolver
  va_scopes :: "string list"

definition normalize_schema :: "nat \<Rightarrow> validator \<Rightarrow> json res" where
  "normalize_schema depth v =
     normalize_schema_rec depth (va_id_of v) (va_resolve v) (va_scopes v) (va_schema v)"

definition compatibility :: "jsx \<Rightarrow> nat \<Rightarrow> validator \<Rightarrow> validator \<Rightarrow> compat_result res" where
  "compatibility j depth reader writer =
     rbind (normalize_schema depth reader) (\<lambda>reader_schema.
     rbind (normalize_schema depth writer) (\<lambda>writer_schema.
       compatibility_rec j depth reader_schema writer_schema []))"

end
