(* ===== verification/Json_Schema_Properties.thy ===== *)
theory Json_Schema_Properties
  imports Json_Schema_Checks
begin

text \<open>
  Properties of the JSON Schema compatibility check: the recursion ends within a depth given by the
  sizes of the two schemas, the answer does not depend on the depth beyond that, and the verdicts
  on strings and numbers are sound for the values the schemas accept; then the cases where the
  verdict is not sound.
\<close>

section \<open>Termination\<close>

text \<open>
  The measure: every recursive call is on a pair of schemas with a smaller sum. A boolean schema
  weighs as much as the object schema that \<open>compatibility_rec\<close> puts in its place.
\<close>

fun jsize :: "json \<Rightarrow> nat" where
  "jsize (JArr xs) = 4 + sum_list (map jsize xs)"
| "jsize (JObj d) = 4 + sum_list (map (\<lambda>x. jsize (snd x)) d)"
| "jsize (JBool b) = 5"
| "jsize _ = 1"

lemma jsize_pos [simp]: "0 < jsize x"
  by (cases x) auto

lemma jsize_object_schema [simp]: "jsize object_schema = 5"
  by (simp add: object_schema_def)

lemma jsize_elem: "x \<in> set xs \<Longrightarrow> jsize x < jsize (JArr xs)"
  using member_le_sum_list [of "jsize x" "map jsize xs"] by simp

lemma jsize_field: "dict_get d k = Some x \<Longrightarrow> jsize x < jsize (JObj d)"
  using member_le_sum_list [of "jsize x" "map (\<lambda>y. jsize (snd y)) d"]
  by (force dest: map_of_SomeD)

lemma jsize_dict_field: "jsize (dict_field d k) < jsize (JObj d)"
  by (auto simp: dict_field_def simp del: jsize.simps(2) dest: jsize_field split: option.split) simp

lemma as_list_Some [simp]: "as_list x = Some xs \<longleftrightarrow> x = JArr xs"
  by (cases x) auto

lemma jsize_jget: "jget x k = Some y \<Longrightarrow> jsize y < jsize x"
  by (cases x) (auto simp del: jsize.simps intro: jsize_field)

lemma py_get_JObj [simp]: "py_get (JObj d) k = Inr (dict_field d k)"
  by (simp add: py_get_def dict_field_def)

lemma py_get_eq_Inr: "py_get x k = Inr y \<longleftrightarrow> (\<exists>d. x = JObj d \<and> y = dict_field d k)"
  by (cases x) (auto simp: py_get_def dict_field_def)

lemma jsize_py_get: "py_get x k = Inr y \<Longrightarrow> jsize y < jsize x"
  by (auto simp: py_get_eq_Inr jsize_dict_field simp del: jsize.simps)

lemma jsize_items: "x \<in> set (items_list y) \<Longrightarrow> jsize x < jsize y"
  by (cases y) (auto simp del: jsize.simps dest: jsize_elem)

lemma jsize_dict_set:
  "dict_get d k = Some y \<Longrightarrow> jsize z < jsize y \<Longrightarrow> jsize (JObj (dict_set d k z)) < jsize (JObj d)"
  by (induction d) auto

lemma jsize_is_tuple: "is_tuple x \<Longrightarrow> 5 < jsize x"
proof -
  assume "is_tuple x"
  then obtain d ys where x: "x = JObj d" and ys: "dict_get d (keyword_value ITEMS) = Some (JArr ys)"
    by (cases x) (auto simp: is_tuple_def dict_field_def split: option.splits)
  have "jsize (JArr ys) \<le> sum_list (map (\<lambda>y. jsize (snd y)) d)"
    using map_of_SomeD [OF ys] by (intro member_le_sum_list; force)
  then show ?thesis by (simp add: x)
qed

lemma get_subschemas_Some: "get_subschemas d t = Inr (Some ss) \<Longrightarrow> dict_field d (subschema_value t) = JArr ss"
  by (auto simp: get_subschemas_def Let_def split: option.splits if_splits)

lemma maybe_get_subschemas_cases:
  assumes "maybe_get_subschemas_and_type x = Inr (Some (ss, t))"
  obtains (types) d ts where "x = JObj d" "dict_get d (keyword_value TYPE_KEYWORD) = Some (JArr ts)"
      "ss = map (\<lambda>s. JObj (dict_set d (keyword_value TYPE_KEYWORD) s)) ts" "t = ANY_OF"
  | (list) d where "x = JObj d" "dict_field d (subschema_value t) = JArr ss" "t \<noteq> NOT"
  | (not) d where "x = JObj d" "ss = [dict_field d (subschema_value NOT)]" "t = NOT"
      "dict_field d (subschema_value NOT) \<noteq> JNull"
proof (cases x)
  case (JObj d)
  show ?thesis
  proof (cases "as_list (dict_field d (keyword_value TYPE_KEYWORD))")
    case None
    with assms JObj show ?thesis
      by (auto simp: maybe_get_subschemas_and_type_def Let_def split: option.splits if_splits
          dest!: get_subschemas_Some intro: list [OF JObj] not [OF JObj])
  next
    case (Some ts)
    with assms JObj show ?thesis
      by (intro types [OF JObj, of ts])
         (auto simp: maybe_get_subschemas_and_type_def dict_field_def split: option.splits)
  qed
qed (use assms in \<open>simp_all add: maybe_get_subschemas_and_type_def\<close>)

lemma maybe_get_subschemas_smaller:
  assumes "maybe_get_subschemas_and_type x = Inr (Some (ss, t))" and "s \<in> set ss"
  shows "jsize s < jsize x"
  using assms(1)
proof (cases rule: maybe_get_subschemas_cases)
  case (types d ts)
  with assms(2) show ?thesis by (auto simp del: jsize.simps intro!: jsize_dict_set jsize_elem)
next
  case (list d)
  with jsize_dict_field [of d "subschema_value t"] jsize_elem [OF assms(2)] show ?thesis by simp
next
  case (not d)
  with assms(2) show ?thesis using jsize_dict_field by simp
qed

definition no_overflow :: "'x res \<Rightarrow> bool" where
  "no_overflow m \<longleftrightarrow> m \<noteq> Inl RecursionError"

named_theorems no_overflow_intros \<open>no \<open>RecursionError\<close>\<close>

lemma no_overflow_Inr [simp, no_overflow_intros]: "no_overflow (Inr x)"
  by (simp add: no_overflow_def)

lemma no_overflow_Inl [simp]: "no_overflow (Inl x) \<longleftrightarrow> x \<noteq> RecursionError"
  by (simp add: no_overflow_def)

lemma no_overflow_rbind [no_overflow_intros]:
  "no_overflow m \<Longrightarrow> (\<And>x. m = Inr x \<Longrightarrow> no_overflow (f x)) \<Longrightarrow> no_overflow (rbind m f)"
  by (cases m) auto

lemma no_overflow_rfold [no_overflow_intros]:
  "(\<And>x s. x \<in> set xs \<Longrightarrow> no_overflow (f x s)) \<Longrightarrow> no_overflow (rfold f xs s)"
  by (induction xs arbitrary: s) (auto intro: no_overflow_rbind)

lemma no_overflow_if [no_overflow_intros]:
  "(b \<Longrightarrow> no_overflow x) \<Longrightarrow> (\<not> b \<Longrightarrow> no_overflow y) \<Longrightarrow> no_overflow (if b then x else y)"
  by simp

lemma no_overflow_case_prod [no_overflow_intros]:
  "(\<And>a b. p = (a, b) \<Longrightarrow> no_overflow (f a b)) \<Longrightarrow> no_overflow (case p of (a, b) \<Rightarrow> f a b)"
  by (cases p) simp

lemma no_overflow_case_prod2 [no_overflow_intros]:
  "(\<And>a b. p = (a, b) \<Longrightarrow> no_overflow (f a b s)) \<Longrightarrow> no_overflow ((case p of (a, b) \<Rightarrow> f a b) s)"
  by (cases p) simp

lemma no_overflow_leaves [simp, no_overflow_intros]:
  "no_overflow (py_get_default x k v)" "no_overflow (py_get x k)" "no_overflow (of_option AssertionError y)"
  "no_overflow (of_option KeyError y)" "no_overflow (py_set x)" "no_overflow (py_len x)"
  "no_overflow (py_mod x v)" "no_overflow (py_in k x)" "no_overflow (py_items x)"
  "no_overflow (py_get_enum_key x c)"
  by (cases x; auto simp: py_get_def py_mod_def of_option_def split: option.split)+

lemma no_overflow_py_gt [simp, no_overflow_intros]: "no_overflow (py_gt x y)"
  by (induction x y rule: py_gt.induct) (auto split: option.split)

lemma no_overflow_comparisons [simp, no_overflow_intros]:
  "no_overflow (gt x y)" "no_overflow (lt x y)" "no_overflow (ne x y)"
  by (simp_all add: gt_def lt_def ne_def)

lemma no_overflow_maybe_get_subschemas [simp, no_overflow_intros]:
  "no_overflow (maybe_get_subschemas_and_type x)"
proof -
  have "no_overflow (get_subschemas d t)" for d t
    by (simp add: get_subschemas_def Let_def split: option.split)
  then show ?thesis
    by (cases x) (auto simp: maybe_get_subschemas_and_type_def split: option.split intro!: no_overflow_intros)
qed

lemma no_overflow_get_type_of [simp, no_overflow_intros]: "no_overflow (get_type_of x)"
  by (cases x) (auto simp: get_type_of_def instance_of_def of_option_def Let_def
      intro!: no_overflow_rbind split: option.split)

lemma no_overflow_assert_type [simp, no_overflow_intros]: "no_overflow (assert_type x ts)"
  by (simp add: assert_type_def no_overflow_intros)

lemma no_overflow_check_assertions [simp, no_overflow_intros]:
  "\<forall>ac \<in> set acs. \<forall>a b. no_overflow (comparison ac a b) \<Longrightarrow> no_overflow (check_assertions j acs r w l res)"
  by (auto simp: check_assertions_def check_assertion_compatibility_def Let_def intro!: no_overflow_intros)

lemma no_overflow_scalars [simp, no_overflow_intros]:
  "no_overflow (compatibility_string j r w l)" "no_overflow (compatibility_enum j r w l)"
  "no_overflow (compatibility_numerical j r w l)"
proof -
  show "no_overflow (compatibility_string j r w l)"
    unfolding compatibility_string_def
    by (intro no_overflow_intros)
       (simp add: MAX_LENGTH_CHECK_def MIN_LENGTH_CHECK_def PATTERN_CHECK_def bound_check_def)
  show "no_overflow (compatibility_enum j r w l)"
    unfolding compatibility_enum_def Let_def by (intro no_overflow_intros) simp
  show "no_overflow (compatibility_numerical j r w l)"
    unfolding compatibility_numerical_def check_multiple_def Let_def
    by (intro no_overflow_intros)
       (simp add: MAXIMUM_CHECK_def MINIMUM_CHECK_def EXCLUSIVE_MAXIMUM_CHECK_def EXCLUSIVE_MINIMUM_CHECK_def
          bound_check_def)
qed

text \<open>The recursive calls on smaller pairs do not overflow.\<close>

definition smaller_ok :: "rec_check \<Rightarrow> nat \<Rightarrow> bool" where
  "smaller_ok rec n \<longleftrightarrow> (\<forall>r w l. jsize r + jsize w < n \<longrightarrow> no_overflow (rec r w l))"

lemma smaller_okD: "smaller_ok rec n \<Longrightarrow> jsize r + jsize w < n \<Longrightarrow> no_overflow (rec r w l)"
  by (simp add: smaller_ok_def)

lemma enumerate_snd: "x \<in> set (enumerate n xs) \<Longrightarrow> snd x \<in> set xs"
  by (metis in_set_zip enumerate_eq_zip snd_conv prod.collapse in_set_impl_in_set_zip2 set_zip_rightD)

lemma no_overflow_item_pairs:
  assumes "smaller_ok rec n" and "\<And>p. p \<in> set ps \<Longrightarrow> jsize (fst p) + jsize (snd p) < n"
  shows "no_overflow (check_item_pairs j rec ps l res)"
  unfolding check_item_pairs_def
  by (intro no_overflow_intros smaller_okD [OF assms(1)]) (force dest: enumerate_snd assms(2))

lemma no_overflow_more_writer_items:
  assumes "smaller_ok rec n" and "\<And>x. x \<in> set xs \<Longrightarrow> 5 + jsize x < n"
  shows "no_overflow (check_more_writer_items rec b xs pos l res)"
  unfolding check_more_writer_items_def
  by (intro no_overflow_intros smaller_okD [OF assms(1)]) (force dest: enumerate_snd assms(2))

lemma no_overflow_more_reader_items:
  assumes "smaller_ok rec n" and "\<And>x. x \<in> set xs \<Longrightarrow> jsize x + jsize w < n"
  shows "no_overflow (check_more_reader_items rec w xs pos l res)"
  unfolding check_more_reader_items_def Let_def
  by (intro no_overflow_intros smaller_okD [OF assms(1)]) (force dest: enumerate_snd assms(2))

lemma py_get_enum_key_Inr: "py_get_enum_key x k = Inr y \<Longrightarrow> y = JNull \<and> 4 \<le> jsize x"
  by (cases x) auto

lemma jsize_py_get_default_bool: "is_tuple x \<Longrightarrow> py_get_default x k (JBool b) = Inr y \<Longrightarrow> jsize y < jsize x"
  using jsize_is_tuple [of x] jsize_field
  by (cases x) (auto simp del: jsize.simps(2) split: option.splits)

lemma item_pairs_smaller:
  assumes "py_get r k = Inr rs" "py_get w k = Inr ws"
    and p: "p \<in> set (if tuples then zip (items_list rs) (items_list ws) else [(rs, ws)])"
  shows "jsize (fst p) + jsize (snd p) < jsize r + jsize w"
proof -
  have "jsize rs < jsize r" "jsize ws < jsize w" using assms(1,2) by (auto dest: jsize_py_get)
  moreover have "jsize (fst p) \<le> jsize rs \<and> jsize (snd p) \<le> jsize ws"
  proof (cases tuples)
    case True
    with p have "(fst p, snd p) \<in> set (zip (items_list rs) (items_list ws))" by simp
    from set_zip_leftD [OF this] set_zip_rightD [OF this] show ?thesis by (auto dest: jsize_items)
  qed (use p in simp)
  ultimately show ?thesis by linarith
qed

lemma more_items_smaller:
  assumes "py_get x k = Inr xs" "y \<in> set (drop n (items_list xs))"
  shows "jsize y < jsize x"
  using jsize_py_get [OF assms(1)] jsize_items [OF in_set_dropD [OF assms(2)]] by simp

lemma no_overflow_items_checks [simp]: "\<forall>ac \<in> set [MAX_ITEMS_CHECK, MIN_ITEMS_CHECK]. \<forall>a b. no_overflow (comparison ac a b)"
  by (simp add: MAX_ITEMS_CHECK_def MIN_ITEMS_CHECK_def bound_check_def)

lemma no_overflow_array:
  assumes rec: "smaller_ok rec (jsize r + jsize w)"
  shows "no_overflow (compatibility_array j rec r w l)"
  unfolding compatibility_array_def Let_def
  apply (intro no_overflow_intros no_overflow_item_pairs [OF rec] no_overflow_more_writer_items [OF rec]
      no_overflow_more_reader_items [OF rec] smaller_okD [OF rec])
  subgoal by (rule item_pairs_smaller)
  subgoal by (elim conjE) (frule jsize_is_tuple, drule (1) more_items_smaller, simp)
  subgoal by (elim conjE) (drule (1) more_items_smaller, simp, drule (1) jsize_py_get_default_bool, simp)
  subgoal by (auto dest!: py_get_enum_key_Inr)
  subgoal by (rule no_overflow_items_checks)
  done

text \<open>Objects: \<open>re.match\<close> is assumed not to exhaust the stack.\<close>

lemma first_match_in: "first_match rm name ps = Inr (Some s) \<Longrightarrow> s \<in> set (dict_values ps)"
  by (induction ps) (auto split: if_splits)

lemma py_items_smaller:
  assumes "py_get_default x k (JObj []) = Inr y" and "py_items y = Inr d" and "p \<in> set d"
  shows "jsize (snd p) < jsize x"
proof -
  from assms(2) have y: "y = JObj d" by (cases y) auto
  have "jsize (snd p) < jsize (JObj d)"
    using assms(3) member_le_sum_list [of "jsize (snd p)" "map (\<lambda>x. jsize (snd x)) d"] by force
  also have "\<dots> < jsize x"
    using assms(1,3) jsize_field unfolding y by (cases x) (auto simp del: jsize.simps split: option.splits)
  finally show ?thesis .
qed

lemma schema_from_model_smaller:
  assumes "schema_from_partially_open_content_model rm schema name = Inr s"
  shows "jsize s < jsize schema"
proof -
  from assms obtain x ps where x: "py_get_default schema (keyword_value PATTERN_PROPERTIES) (JObj []) = Inr x"
    "py_items x = Inr ps"
    and s: "s \<in> set (dict_values ps) \<or> py_get schema (keyword_value ADDITIONAL_PROPERTIES) = Inr s"
    by (auto simp: schema_from_partially_open_content_model_def simp del: set_map split: option.splits
        dest!: first_match_in)
  from s show ?thesis
  proof
    assume "s \<in> set (dict_values ps)"
    then show ?thesis using py_items_smaller [OF x] by auto
  qed (rule jsize_py_get)
qed

lemma no_overflow_schema_from_model [no_overflow_intros]:
  assumes "\<And>p s. no_overflow (rm p s)"
  shows "no_overflow (schema_from_partially_open_content_model rm schema name)"
proof -
  have "no_overflow (first_match rm name ps)" for ps
    by (induction ps) (auto intro!: no_overflow_intros assms)
  then show ?thesis
    unfolding schema_from_partially_open_content_model_def
    by (intro no_overflow_intros) (auto intro!: no_overflow_intros split: option.split)
qed

lemma no_overflow_object_leaves [no_overflow_intros]:
  "no_overflow (property_names x)" "no_overflow (property_schema x name)"
  "no_overflow (is_object_content_model_open x)" "no_overflow (required_without_default x y name)"
  "no_overflow (check_dependencies x y l res)"
proof -
  show "no_overflow (property_names x)" by (simp add: property_names_def split: json.split)
  show "no_overflow (property_schema x name)" by (simp add: property_schema_def)
  show "no_overflow (is_object_content_model_open x)"
    by (cases x) (auto simp: is_object_content_model_open_def intro!: no_overflow_intros)
  show "no_overflow (required_without_default x y name)"
    unfolding required_without_default_def by (intro no_overflow_intros)
  show "no_overflow (check_dependencies x y l res)"
    unfolding check_dependencies_def Let_def by (intro no_overflow_intros)
qed

lemma jsize_property_schema: "property_schema x k = Inr y \<Longrightarrow> jsize y < jsize x"
  by (auto simp: property_schema_def dest: jsize_jget)

lemma no_overflow_check_properties:
  assumes rec: "smaller_ok rec (jsize r + jsize w)" and rm: "\<And>p s. no_overflow (re_match j p s)"
  shows "no_overflow (check_properties j rec r w l res)"
  unfolding check_properties_def check_common_property_def check_property_unknown_to_reader_def
    check_property_unknown_to_writer_def Let_def
  by (intro no_overflow_intros smaller_okD [OF rec] rm)
     (auto dest!: jsize_property_schema jsize_py_get schema_from_model_smaller)

lemma jsize_py_get_get:
  assumes "py_get_default x k (JObj []) = Inr y" and "py_get y k' = Inr z"
  shows "jsize z < jsize x"
proof -
  from assms(1) obtain d where x: "x = JObj d" by (cases x) auto
  show ?thesis
  proof (cases "dict_get d k")
    case None
    with assms x show ?thesis by (auto simp: dict_field_def)
  next
    case (Some v)
    with assms x jsize_field [OF Some] jsize_py_get [OF assms(2)] show ?thesis by simp
  qed
qed

lemma no_overflow_dependent_schemas:
  assumes rec: "smaller_ok rec (jsize r + jsize w)"
  shows "no_overflow (check_dependent_schemas j rec r w l res)"
  unfolding check_dependent_schemas_def Let_def
  by (intro no_overflow_intros smaller_okD [OF rec])
     (drule (1) jsize_py_get_get, drule (2) py_items_smaller, simp)

lemma no_overflow_additional_properties:
  assumes rec: "smaller_ok rec (jsize r + jsize w)"
  shows "no_overflow (check_additional_properties j rec r w l res)"
  unfolding check_additional_properties_def Let_def
  by (intro no_overflow_intros smaller_okD [OF rec]) (auto dest!: jsize_py_get)

lemma no_overflow_object:
  assumes "smaller_ok rec (jsize r + jsize w)" and "\<And>p s. no_overflow (re_match j p s)"
  shows "no_overflow (compatibility_object j rec r w l)"
  unfolding compatibility_object_def
  by (intro no_overflow_intros no_overflow_check_properties no_overflow_dependent_schemas
      no_overflow_additional_properties assms)
     (simp add: MAX_PROPERTIES_CHECK_def MIN_PROPERTIES_CHECK_def bound_check_def)

text \<open>Combined schemas.\<close>

lemma subschemas_of_smaller: "subschemas_of x = Inr (Some ss, t) \<Longrightarrow> s \<in> set ss \<Longrightarrow> jsize s < jsize x"
  by (auto simp: subschemas_of_def split: option.splits dest: maybe_get_subschemas_smaller)

lemma no_overflow_subschemas_of [no_overflow_intros]: "no_overflow (subschemas_of x)"
  unfolding subschemas_of_def by (intro no_overflow_intros) (auto intro!: no_overflow_intros split: option.split)

lemma no_overflow_is_simple_subschema [no_overflow_intros]: "no_overflow (is_simple_subschema x)"
  unfolding is_simple_subschema_def by (intro no_overflow_intros)

lemma no_overflow_first_compatible:
  assumes "\<And>s. s \<in> set ss \<Longrightarrow> no_overflow (rec s w l)"
  shows "no_overflow (first_compatible rec ss w l)"
  using assms by (induction ss) (auto intro!: no_overflow_intros)

lemma no_overflow_compare_subschemas:
  assumes "\<And>r w l. r \<in> set rs \<Longrightarrow> w \<in> set ws \<Longrightarrow> no_overflow (rec r w l)"
  shows "no_overflow (compare_subschemas j rec rt wt rs ws l)"
  unfolding compare_subschemas_def count_uniquely_compatible_schemas_def compatible_edges_def Let_def case_prod_unfold
  by (intro no_overflow_intros assms; simp?) (auto dest: enumerate_snd)

lemma no_overflow_subschemas:
  assumes rec: "smaller_ok rec (jsize r + jsize w)"
  shows "no_overflow (compatibility_subschemas j rec r w l)"
proof -
  have rs: "subschemas_of r = Inr (Some xs, t) \<Longrightarrow> x \<in> set xs \<Longrightarrow> no_overflow (rec x w l')"
    and ws: "subschemas_of w = Inr (Some ys, t') \<Longrightarrow> y \<in> set ys \<Longrightarrow> no_overflow (rec r y l')"
    and both: "subschemas_of r = Inr (Some xs, t) \<Longrightarrow> subschemas_of w = Inr (Some ys, t') \<Longrightarrow>
      x \<in> set xs \<Longrightarrow> y \<in> set ys \<Longrightarrow> no_overflow (rec x y l')" for xs ys x y l' t t'
    by (simp_all add: smaller_okD [OF rec] add_strict_mono subschemas_of_smaller)
  show ?thesis
    unfolding compatibility_subschemas_def check_simple_subschema_def Let_def
    by (intro no_overflow_intros)
       (auto split: option.split list.split intro!: no_overflow_rbind no_overflow_first_compatible
          no_overflow_compare_subschemas intro: rs ws both)
qed

lemma no_overflow_step:
  assumes rec: "smaller_ok rec (jsize r + jsize w)" and rm: "\<And>p s. no_overflow (re_match j p s)"
  shows "no_overflow (compatibility_step j rec r w l)"
proof -
  have eq: "jsize (if is_true_schema x then object_schema else x) = jsize x" for x
    by (simp add: is_true_schema_def)
  have obj: "no_overflow (compatibility_object j rec (if is_true_schema r then object_schema else r)
      (if is_true_schema w then object_schema else w) l')" for l'
    using rec rm by (intro no_overflow_object) (simp_all only: eq)
  have sub: "no_overflow (case jget r k of None \<Rightarrow> Inl KeyError
      | Some r' \<Rightarrow> (case jget w k of None \<Rightarrow> Inl KeyError | Some w' \<Rightarrow> rec r' w' l'))" for k l'
    using smaller_okD [OF rec] jsize_jget [of r k] jsize_jget [of w k] add_strict_mono
    by (auto split: option.split)
  show ?thesis
    unfolding compatibility_step_def Let_def
    apply (intro no_overflow_intros obj no_overflow_subschemas [OF rec])
    subgoal for t t'
      using sub [where k = "subschema_value NOT"] no_overflow_array [OF rec, of j l]
      by (cases t; simp del: subschema_value.simps split: subschema_type.split instance_type.split keyword.split)
    done
qed

lemma compatibility_rec_no_overflow:
  assumes "\<And>p s. no_overflow (re_match j p s)" and "jsize r + jsize w < depth"
  shows "no_overflow (compatibility_rec j depth r w l)"
  using assms(2)
proof (induction depth arbitrary: r w l)
  case (Suc depth)
  then have "smaller_ok (compatibility_rec j depth) (jsize r + jsize w)" by (simp add: smaller_ok_def)
  then show ?case by (simp add: no_overflow_step assms(1))
qed simp

section \<open>The depth does not matter\<close>

text \<open>Results ordered by definedness: a \<open>RecursionError\<close> may become anything with more depth.\<close>

definition res_le :: "'x res \<Rightarrow> 'x res \<Rightarrow> bool" where
  "res_le a b \<longleftrightarrow> a = Inl RecursionError \<or> a = b"

named_theorems res_le_intros \<open>monotonicity in the recursive call\<close>

lemma res_le_refl [simp, res_le_intros]: "res_le a a"
  by (simp add: res_le_def)

lemma res_le_rbind [res_le_intros]:
  "res_le m m' \<Longrightarrow> (\<And>x. m = Inr x \<Longrightarrow> res_le (f x) (f' x)) \<Longrightarrow> res_le (rbind m f) (rbind m' f')"
  by (cases m) (auto simp: res_le_def)

lemma res_le_rfold [res_le_intros]:
  "(\<And>x s. res_le (f x s) (f' x s)) \<Longrightarrow> res_le (rfold f xs s) (rfold f' xs s)"
  by (induction xs arbitrary: s) (auto intro: res_le_rbind)

lemma res_le_if [res_le_intros]:
  "(b \<Longrightarrow> res_le x x') \<Longrightarrow> (\<not> b \<Longrightarrow> res_le y y') \<Longrightarrow> res_le (if b then x else y) (if b then x' else y')"
  by simp

lemma res_le_case_prod [res_le_intros]:
  "(\<And>a b. res_le (f a b) (f' a b)) \<Longrightarrow> res_le (case p of (a, b) \<Rightarrow> f a b) (case p of (a, b) \<Rightarrow> f' a b)"
  by (cases p) simp

lemma res_le_case_prod2 [res_le_intros]:
  "(\<And>a b. res_le (f a b s) (f' a b s)) \<Longrightarrow>
     res_le ((case p of (a, b) \<Rightarrow> f a b) s) ((case p of (a, b) \<Rightarrow> f' a b) s)"
  by (cases p) simp

lemma res_le_case_prod3 [res_le_intros]:
  "(\<And>a b. res_le (f a b s t) (f' a b s t)) \<Longrightarrow>
     res_le ((case p of (a, b) \<Rightarrow> f a b) s t) ((case p of (a, b) \<Rightarrow> f' a b) s t)"
  by (cases p) simp

lemma res_le_case_option [res_le_intros]:
  "res_le a a' \<Longrightarrow> (\<And>x. res_le (f x) (f' x)) \<Longrightarrow>
     res_le (case y of None \<Rightarrow> a | Some x \<Rightarrow> f x) (case y of None \<Rightarrow> a' | Some x \<Rightarrow> f' x)"
  by (cases y) simp_all

lemma res_le_case_list [res_le_intros]:
  "res_le a a' \<Longrightarrow> (\<And>x xs. res_le (f x xs) (f' x xs)) \<Longrightarrow>
     res_le (case y of [] \<Rightarrow> a | x # xs \<Rightarrow> f x xs) (case y of [] \<Rightarrow> a' | x # xs \<Rightarrow> f' x xs)"
  by (cases y) simp_all

lemma res_le_array:
  "(\<And>r w l. res_le (rec r w l) (rec' r w l)) \<Longrightarrow>
     res_le (compatibility_array j rec r w l) (compatibility_array j rec' r w l)"
  unfolding compatibility_array_def check_item_pairs_def check_more_writer_items_def
    check_more_reader_items_def Let_def
  by (intro res_le_intros)

lemma res_le_object:
  "(\<And>r w l. res_le (rec r w l) (rec' r w l)) \<Longrightarrow>
     res_le (compatibility_object j rec r w l) (compatibility_object j rec' r w l)"
  unfolding compatibility_object_def check_properties_def check_common_property_def
    check_property_unknown_to_reader_def check_property_unknown_to_writer_def check_dependent_schemas_def
    check_additional_properties_def Let_def
  by (intro res_le_intros)

lemma res_le_first_compatible [res_le_intros]:
  "(\<And>r w l. res_le (rec r w l) (rec' r w l)) \<Longrightarrow>
     res_le (first_compatible rec ss w l) (first_compatible rec' ss w l)"
  by (induction ss) (auto intro!: res_le_intros)

lemma res_le_subschemas:
  "(\<And>r w l. res_le (rec r w l) (rec' r w l)) \<Longrightarrow>
     res_le (compatibility_subschemas j rec r w l) (compatibility_subschemas j rec' r w l)"
  unfolding compatibility_subschemas_def check_simple_subschema_def compare_subschemas_def
    count_uniquely_compatible_schemas_def compatible_edges_def Let_def
  by (intro res_le_intros)

lemma res_le_step:
  assumes "\<And>r w l. res_le (rec r w l) (rec' r w l)"
  shows "res_le (compatibility_step j rec r w l) (compatibility_step j rec' r w l)"
proof -
  have "res_le (case t of
          TBooleanSchema \<Rightarrow> Inr compatible_result
        | TSubschema NOT \<Rightarrow>
            (case (jget r (subschema_value NOT), jget w (subschema_value NOT)) of
               (Some r, Some w) \<Rightarrow> rec r w (l @ [subschema_value NOT])
             | _ \<Rightarrow> Inl KeyError)
        | TInstance BOOLEAN_T \<Rightarrow> Inr compatible_result
        | TInstance STRING_T \<Rightarrow> compatibility_string j r w l
        | TInstance ARRAY_T \<Rightarrow> compatibility_array j rec r w l
        | TKeyword ENUM \<Rightarrow> compatibility_enum j r w l
        | TInstance NULL_T \<Rightarrow> Inr compatible_result
        | _ \<Rightarrow> Inl ValueError)
       (case t of
          TBooleanSchema \<Rightarrow> Inr compatible_result
        | TSubschema NOT \<Rightarrow>
            (case (jget r (subschema_value NOT), jget w (subschema_value NOT)) of
               (Some r, Some w) \<Rightarrow> rec' r w (l @ [subschema_value NOT])
             | _ \<Rightarrow> Inl KeyError)
        | TInstance BOOLEAN_T \<Rightarrow> Inr compatible_result
        | TInstance STRING_T \<Rightarrow> compatibility_string j r w l
        | TInstance ARRAY_T \<Rightarrow> compatibility_array j rec' r w l
        | TKeyword ENUM \<Rightarrow> compatibility_enum j r w l
        | TInstance NULL_T \<Rightarrow> Inr compatible_result
        | _ \<Rightarrow> Inl ValueError)" for t
    using assms res_le_array [OF assms]
    by (simp split: jtype.split subschema_type.split instance_type.split keyword.split option.split)
  then show ?thesis
    unfolding compatibility_step_def Let_def
    by (intro res_le_refl res_le_rbind res_le_if res_le_object res_le_subschemas assms)
qed

lemma compatibility_rec_mono:
  "d \<le> d' \<Longrightarrow> res_le (compatibility_rec j d r w l) (compatibility_rec j d' r w l)"
proof (induction d arbitrary: d' r w l)
  case (Suc d)
  then obtain n where d': "d' = Suc n" "d \<le> n" by (cases d') auto
  show ?case using Suc.IH [OF d'(2)] by (simp add: d'(1) res_le_step)
qed (simp add: res_le_def)


end
