(* ===== verification/Json_Schema_Soundness.thy ===== *)
theory Json_Schema_Soundness
  imports Json_Schema_Properties
begin

text \<open>
  What a compatible verdict of the JSON Schema check means for values: the string and number
  keywords are read with their JSON Schema meaning, and every value that the writer schema accepts
  is accepted by the reader schema. Then schemas for which the verdict does not have that meaning.
\<close>

section \<open>The laws of merge\<close>

text \<open>
  \<open>avro.compatibility.merge\<close> combines two results, \<open>regressing to the incompatible state if any
  incompatibilities are encountered\<close>.
\<close>

definition merge_law :: "jsx \<Rightarrow> bool" where
  "merge_law j \<longleftrightarrow> (\<forall>a b. is_compatible (merge j a b) \<longleftrightarrow> is_compatible a \<and> is_compatible b)"

text \<open>A concrete choice of the external functions, for evaluation.\<close>

definition sample_jsx :: jsx where
  "sample_jsx =
     \<lparr>merge = (\<lambda>a b.
        \<lparr>compat = (if is_compatible a then compat b else compat a),
         incompatibilities = incompatibilities a @ incompatibilities b,
         locations = (if is_compatible a then locations b else locations a \<union> locations b),
         messages = (if is_compatible a then messages b else messages a \<union> messages b)\<rparr>),
      matching_size = (\<lambda>edges. 2 * min (length (remdups (map fst edges))) (length (remdups (map snd edges)))),
      re_match = (\<lambda>p s. Inr (take (length p) s = p)),
      set_order = (\<lambda>xs. xs)\<rparr>"

lemma sample_jsx_laws [simp]: "merge_law sample_jsx" "re_match sample_jsx p s \<noteq> Inl RecursionError"
  by (simp_all add: merge_law_def sample_jsx_def is_compatible_def)


lemma compatible_simps [simp]:
  "is_compatible compatible_result" "\<not> is_compatible (add_incompatibility i m l res)"
  "\<not> is_compatible (type_mismatch t t' l)" "\<not> is_compatible (incompatible_schema c m l)"
  by (simp_all add: is_compatible_def compatible_result_def add_incompatibility_def type_mismatch_def
      incompatible_schema_def)

lemma check_assertions_compatible:
  assumes "merge_law j" and "check_assertions j acs r w l res0 = Inr res" and "is_compatible res"
  shows "is_compatible res0 \<and>
         (\<forall>ac \<in> set acs. \<exists>cr. check_assertion_compatibility r w ac l = Inr cr \<and> is_compatible cr)"
  using assms(2,3)
proof (induction acs arbitrary: res0)
  case (Cons ac acs)
  from Cons.prems obtain cr where cr: "check_assertion_compatibility r w ac l = Inr cr"
    and rest: "check_assertions j acs r w l (merge j res0 cr) = Inr res"
    by (auto simp: check_assertions_def)
  from Cons.IH [OF rest Cons.prems(2)] cr assms(1) show ?case by (auto simp: merge_law_def)
qed (simp add: check_assertions_def)

lemma check_assertion_compatible:
  assumes "check_assertion_compatibility (JObj r) (JObj w) ac l = Inr cr" and "is_compatible cr"
  shows "\<not> introduced_constraint (dict_field r (keyword_value (ac_keyword ac))) (dict_field w (keyword_value (ac_keyword ac)))
    \<and> comparison ac (dict_field r (keyword_value (ac_keyword ac))) (dict_field w (keyword_value (ac_keyword ac))) = Inr False"
  using assms
  by (auto simp: check_assertion_compatibility_def Let_def split: if_splits) (metis compatible_simps(1,2))

section \<open>Numeric bounds\<close>

definition numeric_or_absent :: "json \<Rightarrow> bool" where
  "numeric_or_absent v \<longleftrightarrow> v = JNull \<or> py_number v \<noteq> None"

definition at_most :: "json \<Rightarrow> rat \<Rightarrow> bool" where
  "at_most v x = (case py_number v of Some q \<Rightarrow> x \<le> q | None \<Rightarrow> True)"

definition at_least :: "json \<Rightarrow> rat \<Rightarrow> bool" where
  "at_least v x = (case py_number v of Some q \<Rightarrow> q \<le> x | None \<Rightarrow> True)"

definition less_than :: "json \<Rightarrow> rat \<Rightarrow> bool" where
  "less_than v x = (case py_number v of Some q \<Rightarrow> x < q | None \<Rightarrow> True)"

definition greater_than :: "json \<Rightarrow> rat \<Rightarrow> bool" where
  "greater_than v x = (case py_number v of Some q \<Rightarrow> q < x | None \<Rightarrow> True)"

lemma py_gt_number: "py_number x = Some p \<Longrightarrow> py_number y = Some q \<Longrightarrow> py_gt x y = Inr (q < p)"
  by (cases x; cases y) auto

lemma upper_bounds_sound:
  assumes "\<not> introduced_constraint r w" and "lt r w = Inr False" and "numeric_or_absent r" "numeric_or_absent w"
  shows "at_most w x \<Longrightarrow> at_most r x" and "less_than w x \<Longrightarrow> less_than r x"
  using assms
  by (auto simp: introduced_constraint_def lt_def gt_def numeric_or_absent_def at_most_def less_than_def
      py_gt_number split: option.splits if_splits)

lemma lower_bounds_sound:
  assumes "\<not> introduced_constraint r w" and "gt r w = Inr False" and "numeric_or_absent r" "numeric_or_absent w"
  shows "at_least w x \<Longrightarrow> at_least r x" and "greater_than w x \<Longrightarrow> greater_than r x"
  using assms
  by (auto simp: introduced_constraint_def gt_def numeric_or_absent_def at_least_def greater_than_def
      py_gt_number split: option.splits if_splits)

section \<open>Strings\<close>

text \<open>
  The strings that the keywords of a string schema accept; \<open>search\<close> is the matching of a regular
  expression.
\<close>

definition accepts_string :: "(string \<Rightarrow> string \<Rightarrow> bool) \<Rightarrow> (string, json) dict \<Rightarrow> string \<Rightarrow> bool" where
  "accepts_string search d s \<longleftrightarrow>
     at_most (dict_field d ''maxLength'') (of_nat (length s)) \<and>
     at_least (dict_field d ''minLength'') (of_nat (length s)) \<and>
     (case dict_field d ''pattern'' of JStr p \<Rightarrow> search p s | _ \<Rightarrow> True)"

text \<open>The types the Draft 7 meta-schema gives to the keywords.\<close>

definition string_keywords_ok :: "(string, json) dict \<Rightarrow> bool" where
  "string_keywords_ok d \<longleftrightarrow> numeric_or_absent (dict_field d ''maxLength'') \<and>
     numeric_or_absent (dict_field d ''minLength'') \<and>
     (dict_field d ''pattern'' = JNull \<or> (\<exists>p. dict_field d ''pattern'' = JStr p))"




section \<open>Numbers\<close>

text \<open>The numbers that a schema of type \<open>number\<close> or \<open>integer\<close> accepts, as far as its bounds go.\<close>

definition accepts_number :: "(string, json) dict \<Rightarrow> rat \<Rightarrow> bool" where
  "accepts_number d x \<longleftrightarrow>
     (dict_field d ''type'' = JStr ''integer'' \<longrightarrow> x \<in> \<int>) \<and>
     at_most (dict_field d ''maximum'') x \<and> at_least (dict_field d ''minimum'') x \<and>
     less_than (dict_field d ''exclusiveMaximum'') x \<and> greater_than (dict_field d ''exclusiveMinimum'') x"

definition number_keywords_ok :: "(string, json) dict \<Rightarrow> bool" where
  "number_keywords_ok d \<longleftrightarrow> dict_field d ''type'' \<in> {JStr ''integer'', JStr ''number''} \<and>
     (\<forall>k \<in> {''maximum'', ''minimum'', ''exclusiveMaximum'', ''exclusiveMinimum''}. numeric_or_absent (dict_field d k))"

lemma get_type_of_instance:
  "get_type_of (JObj d) = Inr (TInstance t) \<Longrightarrow> truthy (dict_field d ''type'') \<Longrightarrow>
     dict_field d ''type'' = JStr (instance_value t)"
  by (auto simp: get_type_of_def instance_of_def Let_def find_Some_iff split: option.splits if_splits)

lemma assert_type_Inr: "assert_type x ts = Inr t \<longleftrightarrow> get_type_of x = Inr t \<and> t \<in> set ts"
  by (auto simp: assert_type_def split: if_splits)

lemma check_multiple_compatible:
  "check_multiple rm wm l res0 = Inr res1 \<Longrightarrow> is_compatible res1 \<Longrightarrow> is_compatible res0"
  by (cases "introduced_constraint rm wm"; cases "py_gt rm wm"; cases "py_mod wm rm")
     (auto simp: check_multiple_def ne_def Let_def split: if_splits)

lemma compatibility_numerical_compatible:
  assumes "compatibility_numerical j (JObj r) (JObj w) l = Inr res" and "is_compatible res"
  shows "\<exists>rt wt res0. get_type_of (JObj r) = Inr rt \<and> get_type_of (JObj w) = Inr wt \<and>
    \<not> (rt = TInstance INTEGER_T \<and> wt = TInstance NUMBER_T) \<and> is_number_type rt \<and> is_number_type wt \<and>
    is_compatible res0 \<and>
    check_assertions j [MAXIMUM_CHECK, MINIMUM_CHECK, EXCLUSIVE_MAXIMUM_CHECK, EXCLUSIVE_MINIMUM_CHECK]
      (JObj r) (JObj w) l compatible_result = Inr res0"
proof -
  from assms(1) obtain rt wt res0 res1 where r:
    "get_type_of (JObj r) = Inr rt" "get_type_of (JObj w) = Inr wt" "is_number_type rt" "is_number_type wt"
    "check_assertions j [MAXIMUM_CHECK, MINIMUM_CHECK, EXCLUSIVE_MAXIMUM_CHECK, EXCLUSIVE_MINIMUM_CHECK]
      (JObj r) (JObj w) l compatible_result = Inr res0"
    "check_multiple (dict_field r ''multiple'') (dict_field w ''multiple'') l res0 = Inr res1"
    and fin: "(if rt = TInstance INTEGER_T \<and> wt = TInstance NUMBER_T
                 then add_incompatibility type_narrowed
                        (Msg ''Writer produces numbers while reader only accepted integers'' []) l res1 else res1) = res"
    by (auto simp only: compatibility_numerical_def rbind_eq_Inr assert_type_Inr py_get_JObj sum.inject
        is_number_type_def list.set keyword_value.simps)
  have "is_compatible res1" "\<not> (rt = TInstance INTEGER_T \<and> wt = TInstance NUMBER_T)"
    using assms(2) unfolding fin [symmetric] by (auto split: if_splits)
  then show ?thesis using r check_multiple_compatible [OF r(6)] by blast
qed

text \<open>
  C22: When the check finds two number schemas compatible, every number that the writer's type and
  bounds accept is accepted by those of the reader.
\<close>

theorem compatibility_numerical_sound:
  assumes "merge_law j"
    and "compatibility_numerical j (JObj r) (JObj w) l = Inr res" and "is_compatible res"
    and "number_keywords_ok r" and "number_keywords_ok w"
    and "accepts_number w x"
  shows "accepts_number r x"
proof -
  from compatibility_numerical_compatible [OF assms(2,3)] obtain rt wt res0
    where types: "get_type_of (JObj r) = Inr rt" "get_type_of (JObj w) = Inr wt"
      "\<not> (rt = TInstance INTEGER_T \<and> wt = TInstance NUMBER_T)"
      "is_number_type rt" "is_number_type wt" and res0: "is_compatible res0"
      "check_assertions j [MAXIMUM_CHECK, MINIMUM_CHECK, EXCLUSIVE_MAXIMUM_CHECK, EXCLUSIVE_MINIMUM_CHECK]
         (JObj r) (JObj w) l compatible_result = Inr res0" by blast
  from check_assertions_compatible [OF assms(1) res0(2,1)]
  have checks: "\<And>ac. ac \<in> {MAXIMUM_CHECK, MINIMUM_CHECK, EXCLUSIVE_MAXIMUM_CHECK, EXCLUSIVE_MINIMUM_CHECK} \<Longrightarrow>
      \<not> introduced_constraint (dict_field r (keyword_value (ac_keyword ac))) (dict_field w (keyword_value (ac_keyword ac))) \<and>
      comparison ac (dict_field r (keyword_value (ac_keyword ac))) (dict_field w (keyword_value (ac_keyword ac))) = Inr False"
    using check_assertion_compatible by (metis insert_iff list.set empty_iff)
  have "dict_field r ''type'' = JStr ''integer'' \<longrightarrow> dict_field w ''type'' = JStr ''integer''"
    using types assms(4,5) get_type_of_instance [of r] get_type_of_instance [of w]
    by (auto simp: number_keywords_ok_def is_number_type_def)
  moreover from checks [of MAXIMUM_CHECK] checks [of MINIMUM_CHECK] assms(4-6)
  have "at_most (dict_field r ''maximum'') x" "at_least (dict_field r ''minimum'') x"
    by (auto simp: MAXIMUM_CHECK_def MINIMUM_CHECK_def bound_check_def number_keywords_ok_def accepts_number_def
        intro: upper_bounds_sound(1) lower_bounds_sound(1))
  moreover from checks [of EXCLUSIVE_MAXIMUM_CHECK] checks [of EXCLUSIVE_MINIMUM_CHECK] assms(4-6)
  have "less_than (dict_field r ''exclusiveMaximum'') x" "greater_than (dict_field r ''exclusiveMinimum'') x"
    by (auto simp: EXCLUSIVE_MAXIMUM_CHECK_def EXCLUSIVE_MINIMUM_CHECK_def bound_check_def number_keywords_ok_def
        accepts_number_def intro: upper_bounds_sound(2) lower_bounds_sound(2))
  ultimately show ?thesis using assms(6) by (simp add: accepts_number_def)
qed

theorem compatibility_numerical_sound_witness:
  "accepts_number [(''type'', JStr ''number''), (''maximum'', JInt 5)] 2"
proof -
  let ?r = "[(''type'', JStr ''number''), (''maximum'', JInt 5)]"
  let ?w = "[(''type'', JStr ''integer''), (''maximum'', JInt 3)]"
  have "compatibility_numerical sample_jsx (JObj ?r) (JObj ?w) [] = Inr compatible_result"
    by (simp add: compatibility_numerical_def check_multiple_def assert_type_def get_type_of_def maybe_get_subschemas_and_type_def
        get_subschemas_def dict_field_def instance_of_def check_assertions_def check_assertion_compatibility_def
        MAXIMUM_CHECK_def MINIMUM_CHECK_def EXCLUSIVE_MAXIMUM_CHECK_def EXCLUSIVE_MINIMUM_CHECK_def
        bound_check_def lt_def gt_def ne_def introduced_constraint_def sample_jsx_def compatible_result_def
        is_compatible_def)
  from compatibility_numerical_sound [OF sample_jsx_laws(1) this, where x = 2]
  show ?thesis
    by (simp add: number_keywords_ok_def numeric_or_absent_def accepts_number_def at_most_def at_least_def
        less_than_def greater_than_def dict_field_def)
qed

section \<open>Where a compatible verdict is not sound\<close>

text \<open>The definitions that evaluate the check on a concrete pair of schemas.\<close>

lemmas check_evaluation = compatibility_step_def compatibility_object_def compatibility_array_def
  compatibility_string_def compatibility_numerical_def check_multiple_def assert_type_def get_type_of_def
  maybe_get_subschemas_and_type_def get_subschemas_def dict_field_def py_get_def instance_of_def is_true_schema_def
  is_false_schema_def is_tuple_def is_tuple_without_additional_items_def check_assertions_def
  check_assertion_compatibility_def MAX_LENGTH_CHECK_def MIN_LENGTH_CHECK_def PATTERN_CHECK_def
  MAXIMUM_CHECK_def MINIMUM_CHECK_def EXCLUSIVE_MAXIMUM_CHECK_def EXCLUSIVE_MINIMUM_CHECK_def MAX_ITEMS_CHECK_def
  MIN_ITEMS_CHECK_def MAX_PROPERTIES_CHECK_def MIN_PROPERTIES_CHECK_def bound_check_def lt_def gt_def ne_def
  introduced_constraint_def is_number_type_def has_subschema_def check_properties_def check_dependencies_def
  check_dependent_schemas_def check_additional_properties_def check_common_property_def property_names_def
  property_schema_def check_item_pairs_def pos_after_def merge_if_incompatible_def sample_jsx_def
  compatible_result_def is_compatible_def is_incompatible_def type_mismatch_def incompatible_schema_def

text \<open>
  The check compares negated schemas in the wrong direction: a reader that accepts everything
  but strings is found compatible with a writer that accepts everything but strings of at most five
  characters, although that writer produces longer strings.
\<close>

theorem negation_is_not_reversed:
  "compatibility_rec sample_jsx 9
     (JObj [(''not'', JObj [(''type'', JStr ''string'')])])
     (JObj [(''not'', JObj [(''type'', JStr ''string''), (''maxLength'', JInt 5)])]) [] = Inr compatible_result"
  by (simp add: check_evaluation eval_nat_numeral)

text \<open>
  Constraints the check does not look at: \<open>multipleOf\<close> (the keyword is spelled \<open>multiple\<close>),
  \<open>uniqueItems\<close> (looked up with the enum member instead of its value), the object keyword
  \<open>required\<close> on a property both sides know, and the schema \<open>false\<close>. Adding each of them to the
  reader is found compatible.
\<close>

theorem ignored_constraints:
  "compatibility_rec sample_jsx 9
     (JObj [(''type'', JStr ''integer''), (''multipleOf'', JInt 2)]) (JObj [(''type'', JStr ''integer'')]) [] =
     Inr compatible_result \<and>
   compatibility_rec sample_jsx 9
     (JObj [(''type'', JStr ''array''), (''uniqueItems'', JBool True)]) (JObj [(''type'', JStr ''array'')]) [] =
     Inr compatible_result \<and>
   compatibility_rec sample_jsx 9
     (JObj [(''properties'', JObj [(''a'', JObj [])]), (''required'', JArr [JStr ''a''])])
     (JObj [(''properties'', JObj [(''a'', JObj [])])]) [] = Inr compatible_result \<and>
   compatibility_rec sample_jsx 9 (JBool False) (JBool True) [] = Inr compatible_result"
  by (simp add: check_evaluation eval_nat_numeral)

text \<open>
  The check raises instead of answering on valid schemas: a property whose schema is \<open>true\<close>, and
  a dependency of the writer that the reader does not have.
\<close>

theorem check_raises_on_valid_schemas:
  "compatibility_rec sample_jsx 9
     (JObj [(''properties'', JObj [(''a'', JBool True)])]) (JObj [(''properties'', JObj [(''a'', JBool True)])]) [] =
     Inl AttributeError \<and>
   compatibility_rec sample_jsx 9
     (JObj []) (JObj [(''dependencies'', JObj [(''a'', JArr [JStr ''b''])])]) [] = Inl TypeError"
  by (simp add: check_evaluation eval_nat_numeral)

section \<open>Recursive references\<close>

definition list_schema :: json where
  "list_schema = JObj [(''properties'', JObj [(''next'', JObj [(''$ref'', JStr ''#'')])])]"

text \<open>
  A schema that refers to itself is never normalised: whatever the depth, the resolution of
  \<open>$ref\<close> ends in a \<open>RecursionError\<close> when the resolver returns a schema with the same reference
  under a property.
\<close>

theorem recursive_reference_overflows:
  "normalize_schema_rec depth (\<lambda>_. []) (\<lambda>scopes ref. Inr ([], list_schema)) scopes list_schema = Inl RecursionError"
proof (induction depth arbitrary: scopes rule: less_induct)
  case (less depth)
  show ?case
  proof (cases "depth \<le> 3")
    case True
    then have "depth \<in> {0, Suc 0, Suc (Suc 0), Suc (Suc (Suc 0))}" by auto
    then show ?thesis by (auto simp: list_schema_def dict_field_def)
  next
    case False
    then obtain d where d: "depth = Suc (Suc (Suc d))" by (metis Suc_n_not_le_n less_eq_Suc_le not_less_eq_eq numeral_3_eq_3 Suc_le_D)
    have "normalize_schema_rec d (\<lambda>_. []) (\<lambda>scopes ref. Inr ([], list_schema)) ([] # scopes) list_schema = Inl RecursionError"
      by (rule less.IH) (simp add: d)
    then show ?thesis by (simp add: d list_schema_def dict_field_def)
  qed
qed

fun ref_free :: "json \<Rightarrow> bool" where
  "ref_free (JObj d) \<longleftrightarrow> dict_field d ''$ref'' = JNull \<and> (\<forall>x \<in> set d. ref_free (snd x))"
| "ref_free (JArr xs) \<longleftrightarrow> (\<forall>x \<in> set xs. ref_free x)"
| "ref_free _ \<longleftrightarrow> True"

lemma rfold_rebuild:
  "(\<And>x acc. x \<in> set xs \<Longrightarrow> f x acc = Inr (acc @ [x])) \<Longrightarrow> rfold f xs acc = Inr (acc @ xs)"
  by (induction xs arbitrary: acc) auto

text \<open>
  Normalisation only resolves references: a schema without \<open>$ref\<close> is returned unchanged, for
  every resolver, once the depth exceeds its size.
\<close>

theorem normalize_ref_free:
  assumes "ref_free x" and "jsize x \<le> depth"
  shows "normalize_schema_rec depth id_of resolve scopes x = Inr x"
  using assms
proof (induction depth arbitrary: scopes x)
  case 0
  then show ?case using jsize_pos [of x] by simp
next
  case (Suc depth)
  show ?case
  proof (cases x)
    case (JArr xs)
    have "jsize y \<le> depth" if "y \<in> set xs" for y
      using jsize_elem [OF that] Suc.prems(2) JArr by simp
    with Suc JArr show ?thesis
      using rfold_rebuild [of xs "\<lambda>x acc. rbind (normalize_schema_rec depth id_of resolve scopes x) (\<lambda>y. Inr (acc @ [y]))" "[]"]
      by simp
  next
    case (JObj d)
    have "jsize (snd y) \<le> depth" if "y \<in> set d" for y
    proof -
      have "jsize (snd y) \<le> sum_list (map (\<lambda>z. jsize (snd z)) d)" using that by (intro member_le_sum_list) auto
      then show ?thesis using Suc.prems(2) JObj by simp
    qed
    with Suc JObj show ?thesis
      using rfold_rebuild [of d "\<lambda>(k, x) acc. rbind (normalize_schema_rec depth id_of resolve s x) (\<lambda>y. Inr (acc @ [(k, y)]))" "[]" for s]
      by (simp add: Let_def case_prod_unfold)
  qed simp_all
qed

theorem normalize_ref_free_witness:
  "normalize_schema_rec 9 (\<lambda>_. []) (\<lambda>_ _. Inl RuntimeError) [] (JObj [(''type'', JStr ''string'')]) =
     Inr (JObj [(''type'', JStr ''string'')])"
  using normalize_ref_free [of "JObj [(''type'', JStr ''string'')]" 9 "\<lambda>_. []" "\<lambda>_ _. Inl RuntimeError" "[]"]
  by (simp add: dict_field_def)

end
