(* ===== verification/Compatibility.thy ===== *)
theory Compatibility
  imports Json_Schema_Soundness
begin

text \<open>
  \<open>karapace/core/compatibility/__init__.py\<close> and \<open>schema_compatibility.py\<close>: the compatibility modes
  and the dispatch of the check on schema type and mode; \<open>compatibility/protobuf/checks.py\<close>: the
  verdict drawn from the modifications found by \<open>ProtobufSchema.compare\<close>.
\<close>

section \<open>Modes\<close>

datatype compatibility_mode =
    BACKWARD | BACKWARD_TRANSITIVE | FORWARD | FORWARD_TRANSITIVE | FULL | FULL_TRANSITIVE | NONE

fun compatibility_mode_value :: "compatibility_mode \<Rightarrow> string" where
  "compatibility_mode_value BACKWARD = ''BACKWARD''"
| "compatibility_mode_value BACKWARD_TRANSITIVE = ''BACKWARD_TRANSITIVE''"
| "compatibility_mode_value FORWARD = ''FORWARD''"
| "compatibility_mode_value FORWARD_TRANSITIVE = ''FORWARD_TRANSITIVE''"
| "compatibility_mode_value FULL = ''FULL''"
| "compatibility_mode_value FULL_TRANSITIVE = ''FULL_TRANSITIVE''"
| "compatibility_mode_value NONE = ''NONE''"

text \<open>\<open>CompatibilityModes(value)\<close>.\<close>

definition compatibility_mode_of :: "json \<Rightarrow> compatibility_mode res" where
  "compatibility_mode_of v = of_option ValueError
     (find (\<lambda>m. v = JStr (compatibility_mode_value m))
        [BACKWARD, BACKWARD_TRANSITIVE, FORWARD, FORWARD_TRANSITIVE, FULL, FULL_TRANSITIVE, NONE])"

definition is_transitive :: "compatibility_mode \<Rightarrow> bool" where
  "is_transitive m \<longleftrightarrow> m \<in> {BACKWARD_TRANSITIVE, FORWARD_TRANSITIVE, FULL_TRANSITIVE}"

section \<open>Checks per schema type\<close>

text \<open>
  Beside the parameters of the JSON Schema check: the Avro checker, the reference resolver that the
  \<open>jsonschema\<close> package gives a schema, the recursion depth, and \<open>writer.compare(reader, result)\<close> of
  the Protobuf schemas.
\<close>

record ('a, 'p) cx = jsx +
  avro_checker :: "'a \<Rightarrow> 'a \<Rightarrow> compat_result res"
  id_of :: "json \<Rightarrow> string"
  resolver_of :: "json \<Rightarrow> resolver"
  scopes_of :: "json \<Rightarrow> string list"
  check_depth :: nat
  protobuf_compare :: "'p \<Rightarrow> 'p \<Rightarrow> compare_result \<Rightarrow> compare_result res"

definition check_avro_compatibility :: "('a, 'p, 'z) cx_scheme \<Rightarrow> 'a \<Rightarrow> 'a \<Rightarrow> compat_result res" where
  "check_avro_compatibility c reader_schema writer_schema = avro_checker c reader_schema writer_schema"

definition validator_of :: "('a, 'p, 'z) cx_scheme \<Rightarrow> json \<Rightarrow> validator" where
  "validator_of c schema =
     \<lparr>va_schema = schema, va_id_of = id_of c, va_resolve = resolver_of c schema, va_scopes = scopes_of c schema\<rparr>"

definition check_jsonschema_compatibility :: "('a, 'p, 'z) cx_scheme \<Rightarrow> json \<Rightarrow> json \<Rightarrow> compat_result res" where
  "check_jsonschema_compatibility c reader writer =
     compatibility (jsx.truncate c) (check_depth c) (validator_of c reader) (validator_of c writer)"

definition mr_message :: "modification_record \<Rightarrow> message" where
  "mr_message r =
     (if modification_is_compatible (mr_modification r)
      then Msg ''Compatible modification {} found'' [ArgModification (mr_modification r)]
      else Msg ''Incompatible modification {} found'' [ArgModification (mr_modification r)])"

definition protobuf_verdict :: "compare_result \<Rightarrow> compat_result" where
  "protobuf_verdict result =
     (if cr_is_compatible result then compatible_result
      else let incompatible = filter (\<lambda>r. \<not> modification_is_compatible (mr_modification r)) (cr_result result)
           in \<lparr>compat = Incompatible,
               incompatibilities = map (\<lambda>r. Modification (mr_modification r)) incompatible,
               locations = set (map mr_path incompatible),
               messages = set (map mr_message incompatible)\<rparr>)"

definition check_protobuf_schema_compatibility :: "('a, 'p, 'z) cx_scheme \<Rightarrow> 'p \<Rightarrow> 'p \<Rightarrow> compat_result res" where
  "check_protobuf_schema_compatibility c reader writer =
     rbind (protobuf_compare c writer reader init_compare_result) (\<lambda>result. Inr (protobuf_verdict result))"

section \<open>check_compatibility\<close>

text \<open>The branches on the mode, the same for each schema type; \<open>NONE\<close> has returned before.\<close>

definition check_by_mode ::
    "('a, 'p, 'z) cx_scheme \<Rightarrow> ('s \<Rightarrow> 's \<Rightarrow> compat_result res) \<Rightarrow> compatibility_mode \<Rightarrow> 's \<Rightarrow> 's \<Rightarrow> compat_result res" where
  "check_by_mode c check mode old new =
     (case mode of
        BACKWARD \<Rightarrow> check new old
      | BACKWARD_TRANSITIVE \<Rightarrow> check new old
      | FORWARD \<Rightarrow> check old new
      | FORWARD_TRANSITIVE \<Rightarrow> check old new
      | FULL \<Rightarrow> rbind (check new old) (\<lambda>result. rbind (check old new) (\<lambda>r. Inr (merge c result r)))
      | FULL_TRANSITIVE \<Rightarrow> rbind (check new old) (\<lambda>result. rbind (check old new) (\<lambda>r. Inr (merge c result r)))
      | NONE \<Rightarrow> Inl UnboundLocalError)"

definition check_compatibility ::
    "('a, 'p, 'z) cx_scheme \<Rightarrow> ('a, 'p) parsed_typed_schema \<Rightarrow> ('a, 'p) parsed_typed_schema \<Rightarrow>
     compatibility_mode \<Rightarrow> compat_result res" where
  "check_compatibility c old_schema new_schema mode =
     (if mode = NONE then Inr compatible_result
      else if ts_type (pts_typed old_schema) \<noteq> ts_type (pts_typed new_schema)
      then Inr (incompatible_schema AvroTypeMismatch
             (Msg ''Comparing different schema types: {} with {}''
                [ArgStr (schema_type_value (ts_type (pts_typed old_schema))),
                 ArgStr (schema_type_value (ts_type (pts_typed new_schema)))]) [])
      else case ts_type (pts_typed old_schema) of
        AVRO \<Rightarrow>
          (case (pts_schema old_schema, pts_schema new_schema) of
             (PAvro old, PAvro new) \<Rightarrow> check_by_mode c (check_avro_compatibility c) mode old new
           | _ \<Rightarrow> Inl AssertionError)
      | JSONSCHEMA \<Rightarrow>
          (case (pts_schema old_schema, pts_schema new_schema) of
             (PJson old, PJson new) \<Rightarrow> check_by_mode c (check_jsonschema_compatibility c) mode old new
           | _ \<Rightarrow> Inl AssertionError)
      | PROTOBUF \<Rightarrow>
          (case (pts_schema old_schema, pts_schema new_schema) of
             (PProto old, PProto new) \<Rightarrow> check_by_mode c (check_protobuf_schema_compatibility c) mode old new
           | _ \<Rightarrow> Inl AssertionError))"

section \<open>Properties\<close>

lemma check_by_mode_FULL:
  assumes "merge_law (jsx.truncate c)" and "check_by_mode c check FULL old new = Inr res"
  shows "is_compatible res \<longleftrightarrow>
    (\<exists>b. check_by_mode c check BACKWARD old new = Inr b \<and> is_compatible b) \<and>
    (\<exists>f. check_by_mode c check FORWARD old new = Inr f \<and> is_compatible f)"
  using assms by (auto simp: check_by_mode_def merge_law_def jsx.truncate_def)

text \<open>
  C24: In mode \<open>FULL\<close> a new schema is found compatible exactly when it is both backward and forward
  compatible with the old one.
\<close>

theorem full_is_backward_and_forward:
  assumes "merge_law (jsx.truncate c)" and "check_compatibility c old new FULL = Inr res"
  shows "is_compatible res \<longleftrightarrow>
    (\<exists>b. check_compatibility c old new BACKWARD = Inr b \<and> is_compatible b) \<and>
    (\<exists>f. check_compatibility c old new FORWARD = Inr f \<and> is_compatible f)"
  using assms
  by (cases "pts_schema old"; cases "pts_schema new"; cases "ts_type (pts_typed old)")
     (auto simp: check_compatibility_def check_by_mode_FULL split: if_splits)

text \<open>
  Forward compatibility is backward compatibility with the two schemas exchanged: both checks
  raise the same exception or give the same verdict.
\<close>

theorem forward_is_backward_exchanged:
  "map_sum id is_compatible (check_compatibility c old new FORWARD) =
   map_sum id is_compatible (check_compatibility c new old BACKWARD)"
  by (cases "pts_schema old"; cases "pts_schema new"; cases "ts_type (pts_typed old)";
      cases "ts_type (pts_typed new)")
     (simp_all add: check_compatibility_def check_by_mode_def)

text \<open>
  The Protobuf verdict: compatible exactly when every recorded modification is a compatible one;
  otherwise the incompatibilities reported are the incompatible modifications, in order.
\<close>

theorem protobuf_verdict_spec:
  "(is_compatible (protobuf_verdict cr) \<longleftrightarrow>
      list_all (\<lambda>r. modification_is_compatible (mr_modification r)) (cr_result cr)) \<and>
   incompatibilities (protobuf_verdict cr) =
     map Modification (filter (\<lambda>m. \<not> modification_is_compatible m) (map mr_modification (cr_result cr)))"
  by (auto simp: protobuf_verdict_def cr_is_compatible_def list_all_iff compatible_result_def is_compatible_def Let_def
      filter_map comp_def filter_empty_conv)

theorem full_is_backward_and_forward_witness:
  "\<exists>res. check_compatibility
     (jsx.extend sample_jsx (cx.fields (\<lambda>r w. Inr compatible_result) (\<lambda>_. []) (\<lambda>_ _ _. Inl RuntimeError) (\<lambda>_. []) 20
        (\<lambda>_ _ cr. Inr cr)) :: (unit, unit) cx)
     \<lparr>pts_typed = TypedSchema AVRO [] None None, pts_schema = PAvro ()\<rparr>
     \<lparr>pts_typed = TypedSchema AVRO [] None None, pts_schema = PAvro ()\<rparr> BACKWARD = Inr res \<and> is_compatible res"
proof -
  let ?c = "jsx.extend sample_jsx (cx.fields (\<lambda>r w. Inr compatible_result) (\<lambda>_. []) (\<lambda>_ _ _. Inl RuntimeError)
      (\<lambda>_. []) 20 (\<lambda>_ _ cr. Inr cr)) :: (unit, unit) cx"
  let ?s = "\<lparr>pts_typed = TypedSchema AVRO [] None None, pts_schema = PAvro ()\<rparr>"
  have law: "merge_law (jsx.truncate ?c)"
    by (simp add: merge_law_def jsx.truncate_def jsx.extend_def sample_jsx_def is_compatible_def)
  have run: "check_compatibility ?c ?s ?s FULL = Inr (merge ?c compatible_result compatible_result)"
    by (simp add: check_compatibility_def check_by_mode_def check_avro_compatibility_def jsx.defs cx.defs)
  have "is_compatible (merge ?c compatible_result compatible_result)"
    using law by (simp add: merge_law_def jsx.truncate_def)
  with full_is_backward_and_forward [OF law run] show ?thesis by blast
qed

end
