(* ===== verification/Schema_Registry.thy ===== *)
theory Schema_Registry
  imports Reader_Properties Compatibility
begin

text \<open>
  \<open>karapace/core/schema_registry.py\<close> and \<open>messaging.py\<close>: the operations of the registry on the
  primary node. They read the in-memory database, decide, and append records to the schemas topic;
  the database changes only when the schema reader consumes a record (and when an id is taken from
  the counter).

  The state is the reader (which owns the database and the runtime configuration) and the topic. A
  send appends one record and returns when the reader has consumed it, which is modelled as one
  iteration of the reader on that record; records of other producers do not interleave. The asyncio
  lock \<open>schema_lock\<close> makes each operation one step. The broker may refuse a record as too large.
\<close>

section \<open>State and actions\<close>

record registry =
  rg_reader :: reader
  rg_log :: "kafka_message list"

abbreviation rg_db :: "registry \<Rightarrow> database" where
  "rg_db rg \<equiv> rd_database (rg_reader rg)"

type_synonym 'x action = "registry \<Rightarrow> 'x res \<times> registry"

definition abind :: "'x action \<Rightarrow> ('x \<Rightarrow> 'y action) \<Rightarrow> 'y action" where
  "abind m f rg = (case m rg of (Inl x, rg') \<Rightarrow> (Inl x, rg') | (Inr y, rg') \<Rightarrow> f y rg')"

definition areturn :: "'x \<Rightarrow> 'x action" where
  "areturn x rg = (Inr x, rg)"

definition aresult :: "'x res \<Rightarrow> 'x action" where
  "aresult m rg = (m, rg)"

text \<open>Parameters: the parsers, the compatibility checkers, the recursion depth, the broker's size limit.\<close>

record ('a, 'n, 'p) env =
  ev_ext :: "('a, 'n, 'p) ext"
  ev_cx :: "('a, 'p) cx"
  ev_depth :: nat
  ev_too_large :: "record_key \<Rightarrow> message_value \<Rightarrow> bool"

section \<open>Producer\<close>

definition message_of :: "int \<Rightarrow> record_key \<Rightarrow> message_value \<Rightarrow> kafka_message" where
  "message_of offset key v =
     \<lparr>km_offset = offset, km_key = Some (RawJson (JObj key)),
      km_value = Some (case v of None \<Rightarrow> RawEmpty | Some d \<Rightarrow> RawJson (JObj d)), km_error = None\<rparr>"

definition next_offset :: "registry \<Rightarrow> int" where
  "next_offset rg = int (length (rg_log rg))"

definition poll_of :: "kafka_message \<Rightarrow> poll" where
  "poll_of msg =
     \<lparr>poll_beginning = Some 0, poll_end = Some (km_offset msg + 1), poll_primary = Some True, poll_messages = [msg]\<rparr>"

definition send_kafka_message :: "('a, 'n, 'p) env \<Rightarrow> record_key \<Rightarrow> message_value \<Rightarrow> unit action" where
  "send_kafka_message ev key v rg =
     (if ev_too_large ev key v then (Inl SchemaTooLargeException, rg)
      else
        let msg = message_of (next_offset rg) key v;
            rd = run_iteration (ev_ext ev) (ev_depth ev) (poll_of msg) (rg_reader rg);
            rg' = rg\<lparr>rg_reader := rd, rg_log := rg_log rg @ [msg]\<rparr>
        in (if wait_for_offset (km_offset msg) (rd_greatest_offset rd) then Inr () else Inl RuntimeError, rg'))"

definition send_message :: "('a, 'n, 'p) env \<Rightarrow> record_key \<Rightarrow> message_value \<Rightarrow> unit action" where
  "send_message ev key v rg =
     (case format_key (rd_keymode (rg_reader rg)) None key of
        Inl x \<Rightarrow> (Inl x, rg)
      | Inr key' \<Rightarrow> send_kafka_message ev key' v rg)"

section \<open>Messages\<close>

definition schema_key :: "string \<Rightarrow> version \<Rightarrow> record_key" where
  "schema_key subject version =
     [(''subject'', JStr subject), (''version'', JInt (version_value version)), (''magic'', JInt 1),
      (''keytype'', JStr ''SCHEMA'')]"

text \<open>The value of a \<open>SCHEMA\<close> record; \<open>schema_str\<close> is \<open>str(schema)\<close>.\<close>

definition schema_value ::
    "string \<Rightarrow> version \<Rightarrow> int \<Rightarrow> bool \<Rightarrow> schema_type \<Rightarrow> string \<Rightarrow> reference list option \<Rightarrow> (string, json) dict" where
  "schema_value subject version schema_id deleted t schema_str references =
     (let d = [(''subject'', JStr subject), (''version'', JInt (version_value version)), (''id'', JInt schema_id),
               (''schema'', JStr schema_str), (''deleted'', JBool deleted)];
          d = (case references of
                 Some (r # rs) \<Rightarrow> d @ [(''references'', JArr (map ref_to_dict (r # rs)))]
               | _ \<Rightarrow> d)
      in if t \<noteq> AVRO then d @ [(''schemaType'', JStr (schema_type_value t))] else d)"

definition send_schema_message ::
    "('a, 'n, 'p) env \<Rightarrow> string \<Rightarrow> (schema_type \<times> string) option \<Rightarrow> int \<Rightarrow> version \<Rightarrow> bool \<Rightarrow>
     reference list option \<Rightarrow> unit action" where
  "send_schema_message ev subject schema schema_id version deleted references =
     send_message ev (schema_key subject version)
       (case schema of
          None \<Rightarrow> None
        | Some (t, s) \<Rightarrow> Some (schema_value subject version schema_id deleted t s references))"

definition send_config_message :: "('a, 'n, 'p) env \<Rightarrow> compatibility_mode \<Rightarrow> string option \<Rightarrow> unit action" where
  "send_config_message ev level subject =
     send_message ev
       [(''subject'', case subject of None \<Rightarrow> JNull | Some s \<Rightarrow> JStr s), (''magic'', JInt 0), (''keytype'', JStr ''CONFIG'')]
       (Some [(''compatibilityLevel'', JStr (compatibility_mode_value level))])"

definition send_config_subject_delete_message :: "('a, 'n, 'p) env \<Rightarrow> string \<Rightarrow> unit action" where
  "send_config_subject_delete_message ev subject =
     send_message ev [(''subject'', JStr subject), (''magic'', JInt 0), (''keytype'', JStr ''CONFIG'')] None"

definition send_delete_subject_message :: "('a, 'n, 'p) env \<Rightarrow> string \<Rightarrow> version \<Rightarrow> unit action" where
  "send_delete_subject_message ev subject version =
     send_message ev
       [(''subject'', JStr subject), (''magic'', JInt 0), (''keytype'', JStr ''DELETE_SUBJECT'')]
       (Some [(''subject'', JStr subject), (''version'', JInt (version_value version))])"

section \<open>Queries\<close>

definition subjects_list :: "bool \<Rightarrow> database \<Rightarrow> string list" where
  "subjects_list include_deleted db = find_subjects include_deleted db"

definition get_schemas :: "string \<Rightarrow> bool \<Rightarrow> database \<Rightarrow> schema_version list" where
  "get_schemas subject include_deleted db = dict_values (find_subject_schemas subject include_deleted db)"

definition schemas_list :: "bool \<Rightarrow> bool \<Rightarrow> database \<Rightarrow> (string, schema_version list) dict" where
  "schemas_list include_deleted latest_only db = find_schemas include_deleted latest_only db"

text \<open>\<open>schemas_get\<close>, with the \<open>max_id\<close> it attaches to the schema.\<close>

definition schemas_get :: "int \<Rightarrow> bool \<Rightarrow> database \<Rightarrow> (typed_schema \<times> int option) option" where
  "schemas_get schema_id fetch_max_id db =
     (case find_schema schema_id db of
        Inr schema \<Rightarrow> Some (schema, if fetch_max_id then Some (global_schema_id db) else None)
      | Inl _ \<Rightarrow> None)"

definition subject_get :: "string \<Rightarrow> bool \<Rightarrow> database \<Rightarrow> versions res" where
  "subject_get subject include_deleted db =
     (if find_subject subject db = None then Inl SubjectNotFoundException
      else let schemas = find_subject_schemas subject include_deleted db
           in if schemas = [] then Inl SchemasNotFoundException else Inr schemas)"

definition get_compatibility_mode :: "string \<Rightarrow> reader \<Rightarrow> compatibility_mode res" where
  "get_compatibility_mode subject rd =
     (let compatibility = get_subject_compatibility subject (rd_database rd)
      in compatibility_mode_of (if compatibility = JNull then rd_compatibility rd else compatibility))"

text \<open>The lookup shared by \<open>subject_version_get\<close> and \<open>subject_version_referencedby_get\<close>.\<close>

definition resolve_version :: "string \<Rightarrow> version \<Rightarrow> bool \<Rightarrow> database \<Rightarrow> (version \<times> schema_version) res" where
  "resolve_version subject version include_deleted db =
     rbind (subject_get subject include_deleted db) (\<lambda>schema_versions.
     rbind (from_schema_versions schema_versions version) (\<lambda>resolved_version.
       case dict_get schema_versions resolved_version of
         None \<Rightarrow> Inl VersionNotFoundException
       | Some schema_data \<Rightarrow> Inr (resolved_version, schema_data)))"

definition subject_version_get :: "string \<Rightarrow> version \<Rightarrow> bool \<Rightarrow> database \<Rightarrow> (string, json) dict res" where
  "subject_version_get subject version include_deleted db =
     rbind (resolve_version subject version include_deleted db) (\<lambda>(resolved_version, schema_data).
       let schema = sv_schema schema_data;
           ret = [(''subject'', JStr subject), (''version'', JInt (version_value resolved_version)),
                  (''id'', JInt (sv_schema_id schema_data)), (''schema'', JStr (ts_str schema))];
           ret = (case ts_references schema of
                    None \<Rightarrow> ret
                  | Some rs \<Rightarrow> ret @ [(''references'', JArr (map ref_to_dict rs))]);
           ret = (if ts_type schema \<noteq> AVRO
                  then ret @ [(''schemaType'', JStr (schema_type_value (ts_type schema)))] else ret);
           compatibility = get_subject_compatibility subject db
       in Inr (if truthy compatibility then ret @ [(''compatibility'', compatibility)] else ret))"

definition subject_version_referencedby_get :: "string \<Rightarrow> version \<Rightarrow> bool \<Rightarrow> database \<Rightarrow> int set res" where
  "subject_version_referencedby_get subject version include_deleted db =
     rbind (resolve_version subject version include_deleted db) (\<lambda>(resolved_version, schema_data).
       Inr (case get_referenced_by (sv_subject schema_data) (sv_version schema_data) db of
              None \<Rightarrow> {} | Some rs \<Rightarrow> rs))"

text \<open>Sorted by subject, then by version.\<close>

definition get_subject_versions_for_schema :: "int \<Rightarrow> bool \<Rightarrow> database \<Rightarrow> (string \<times> version) list" where
  "get_subject_versions_for_schema schema_id include_deleted db =
     sort_key fst (sort_key snd
       (map (\<lambda>sv. (sv_subject sv, sv_version sv))
          (find_schema_versions_by_schema_id schema_id include_deleted db)))"

definition get_live_versions_sorted :: "versions \<Rightarrow> version list" where
  "get_live_versions_sorted all_schema_versions =
     sort (dict_keys (filter (\<lambda>(v, sv). \<not> sv_deleted sv) all_schema_versions))"

text \<open>\<open>get_master\<close>: a node whose reader is not ready does not act as primary.\<close>

record primary_info =
  pi_primary :: bool
  pi_url :: "string option"

definition get_master :: "primary_info \<Rightarrow> reader \<Rightarrow> primary_info" where
  "get_master info rd = (if \<not> rd_ready rd then \<lparr>pi_primary = False, pi_url = pi_url info\<rparr> else info)"

section \<open>Compatibility of a new schema\<close>

definition registry_resolve_references ::
    "('a, 'n, 'p) env \<Rightarrow> database \<Rightarrow> any_reference list option \<Rightarrow>
     (reference list option \<times> (string, dependency) dict option) res" where
  "registry_resolve_references ev db references =
     (case references of
        Some (r # rs) \<Rightarrow>
          rbind (resolve_references (ev_ext ev) (ev_depth ev) db (r # rs)) (\<lambda>(a, b). Inr (Some a, Some b))
      | _ \<Rightarrow> Inr (None, None))"

definition resolve_and_parse ::
    "('a, 'n, 'p) env \<Rightarrow> database \<Rightarrow> typed_schema \<Rightarrow> ('a, 'p) parsed_typed_schema res" where
  "resolve_and_parse ev db schema =
     rbind (registry_resolve_references ev db (map_option (map Resolved) (ts_references schema)))
       (\<lambda>(references, dependencies).
         parsed_parse (ev_ext ev) (ts_type schema) (ts_str schema) references dependencies)"

text \<open>The loop over the old versions, which returns at the first incompatible one.\<close>

fun check_old_versions ::
    "('a, 'n, 'p) env \<Rightarrow> database \<Rightarrow> versions \<Rightarrow> ('a, 'p) parsed_typed_schema \<Rightarrow> compatibility_mode \<Rightarrow>
     version list \<Rightarrow> compat_result \<Rightarrow> compat_result res" where
  "check_old_versions ev db svs new mode [] result = Inr result"
| "check_old_versions ev db svs new mode (v # vs) result =
     rbind (of_option KeyError (dict_get svs v)) (\<lambda>sv.
     rbind (resolve_and_parse ev db (sv_schema sv)) (\<lambda>old_parsed_schema.
     rbind (check_compatibility (ev_cx ev) old_parsed_schema new mode) (\<lambda>result.
       if is_incompatible result then Inr result else check_old_versions ev db svs new mode vs result)))"

definition old_versions_to_check :: "compatibility_mode \<Rightarrow> version list \<Rightarrow> version list" where
  "old_versions_to_check mode live_versions =
     (if live_versions = [] then []
      else if is_transitive mode then live_versions else [last live_versions])"

definition check_schema_compatibility ::
    "('a, 'n, 'p) env \<Rightarrow> ('a, 'p) parsed_typed_schema \<Rightarrow> string \<Rightarrow> reader \<Rightarrow> compat_result res" where
  "check_schema_compatibility ev new_schema subject rd =
     rbind (get_compatibility_mode subject rd) (\<lambda>compatibility_mode.
       let all_schema_versions = find_subject_schemas subject True (rd_database rd);
           live_versions = get_live_versions_sorted all_schema_versions
       in check_old_versions ev (rd_database rd) all_schema_versions new_schema compatibility_mode
            (old_versions_to_check compatibility_mode live_versions) compatible_result)"

section \<open>Registering a schema\<close>

definition take_schema_id :: "typed_schema \<Rightarrow> int action" where
  "take_schema_id schema rg =
     (let (i, db) = get_schema_id schema (rg_db rg)
      in (Inr i, rg\<lparr>rg_reader := (rg_reader rg)\<lparr>rd_database := db\<rparr>\<rparr>))"

text \<open>\<open>ParsedTypedSchema.__str__\<close>.\<close>

definition pts_str :: "('a, 'n, 'p, 'z) ext_scheme \<Rightarrow> ('a, 'p) parsed_typed_schema \<Rightarrow> string" where
  "pts_str e p =
     (case (ts_type (pts_typed p), pts_schema p) of
        (PROTOBUF, PProto q) \<Rightarrow> protobuf_str e q
      | _ \<Rightarrow> ts_str (pts_typed p))"

text \<open>Take an id, publish the version, return the id.\<close>

definition publish_version ::
    "('a, 'n, 'p) env \<Rightarrow> string \<Rightarrow> ('a, 'p) parsed_typed_schema \<Rightarrow> reference list option \<Rightarrow> version \<Rightarrow> int action" where
  "publish_version ev subject new_schema references version =
     abind (take_schema_id (pts_typed new_schema)) (\<lambda>schema_id.
     abind (send_schema_message ev subject
              (Some (ts_type (pts_typed new_schema), pts_str (ev_ext ev) new_schema)) schema_id version False references)
       (\<lambda>_. areturn schema_id))"

definition write_new_schema_local ::
    "('a, 'n, 'p) env \<Rightarrow> string \<Rightarrow> ('a, 'p) parsed_typed_schema \<Rightarrow> reference list option \<Rightarrow> int action" where
  "write_new_schema_local ev subject new_schema new_schema_references rg =
     (let db = rg_db rg
      in case get_schema_id_if_exists (ev_ext ev) subject (pts_typed new_schema) db of
           Some i \<Rightarrow> (Inr i, rg)
         | None \<Rightarrow>
             let all_schema_versions = find_subject_schemas subject True db
             in if all_schema_versions = []
                then publish_version ev subject new_schema new_schema_references (Version 1) rg
                else if get_live_versions_sorted all_schema_versions = []
                then abind (aresult (get_next_version subject db))
                       (publish_version ev subject new_schema new_schema_references) rg
                else abind (aresult (check_schema_compatibility ev new_schema subject (rg_reader rg))) (\<lambda>result.
                       if is_incompatible result
                       then abind (aresult (get_compatibility_mode subject (rg_reader rg)))
                              (\<lambda>_. aresult (Inl IncompatibleSchema))
                       else abind (aresult (get_next_version subject db))
                              (publish_version ev subject new_schema new_schema_references)) rg)"

section \<open>Deletion\<close>

definition check_not_referenced :: "string \<Rightarrow> version \<Rightarrow> database \<Rightarrow> unit res" where
  "check_not_referenced subject version db =
     (case get_referenced_by subject version db of
        None \<Rightarrow> Inr ()
      | Some rs \<Rightarrow> if rs \<noteq> {} then Inl (ReferenceExistsException rs version) else Inr ())"

fun send_tombstones :: "('a, 'n, 'p) env \<Rightarrow> string \<Rightarrow> versions \<Rightarrow> unit action" where
  "send_tombstones ev subject [] = areturn ()"
| "send_tombstones ev subject ((v, sv) # svs) =
     abind (send_schema_message ev subject None (sv_schema_id sv) v True (sv_references sv))
       (\<lambda>_. send_tombstones ev subject svs)"

definition subject_delete_permanently ::
    "('a, 'n, 'p) env \<Rightarrow> string \<Rightarrow> versions \<Rightarrow> version list action" where
  "subject_delete_permanently ev subject schema_versions rg =
     abind (aresult (rfold (\<lambda>(v, sv) _. check_not_referenced subject (sv_version sv) (rg_db rg)) schema_versions ()))
       (\<lambda>_. abind (send_tombstones ev subject schema_versions) (\<lambda>_. areturn (dict_keys schema_versions))) rg"

definition subject_delete_softly :: "('a, 'n, 'p) env \<Rightarrow> string \<Rightarrow> version list action" where
  "subject_delete_softly ev subject rg =
     abind (aresult
        (case subject_get subject False (rg_db rg) of
           Inl SchemasNotFoundException \<Rightarrow> rbind (versioner_V (TagInt MINUS_1_VERSION_TAG)) (\<lambda>v. Inr (v, []))
         | Inl x \<Rightarrow> Inl x
         | Inr live \<Rightarrow> Inr (last (dict_keys live), dict_keys live))) (\<lambda>(latest_version_id, version_list).
     abind (aresult (check_not_referenced subject latest_version_id (rg_db rg))) (\<lambda>_.
     abind (send_delete_subject_message ev subject latest_version_id) (\<lambda>_. areturn version_list))) rg"

definition subject_delete_local :: "('a, 'n, 'p) env \<Rightarrow> string \<Rightarrow> bool \<Rightarrow> version list action" where
  "subject_delete_local ev subject permanent rg =
     abind (aresult (subject_get subject True (rg_db rg))) (\<lambda>schema_versions.
       let can_permanent_delete = (filter (\<lambda>(v, sv). \<not> sv_deleted sv) schema_versions = []);
           already_soft_deleted =
             (length schema_versions = length (filter (\<lambda>(v, sv). sv_deleted sv) schema_versions))
       in if permanent \<and> \<not> can_permanent_delete then aresult (Inl SubjectNotSoftDeletedException)
          else if \<not> permanent \<and> already_soft_deleted then aresult (Inl SubjectSoftDeletedException)
          else if permanent then subject_delete_permanently ev subject schema_versions
          else subject_delete_softly ev subject) rg"

definition subject_version_delete_local ::
    "('a, 'n, 'p) env \<Rightarrow> string \<Rightarrow> version \<Rightarrow> bool \<Rightarrow> version action" where
  "subject_version_delete_local ev subject version permanent rg =
     abind (aresult (subject_get subject True (rg_db rg))) (\<lambda>schema_versions.
     let schema_versions = (if \<not> permanent \<and> is_latest version
                            then filter (\<lambda>(v, sv). \<not> sv_deleted sv) schema_versions else schema_versions)
     in
     abind (aresult (from_schema_versions schema_versions version)) (\<lambda>resolved_version.
       case dict_get schema_versions resolved_version of
         None \<Rightarrow> aresult (Inl VersionNotFoundException)
       | Some schema_version \<Rightarrow>
           if sv_deleted schema_version \<and> \<not> permanent then aresult (Inl SchemaVersionSoftDeletedException)
           else if permanent \<and> \<not> sv_deleted schema_version then aresult (Inl SchemaVersionNotSoftDeletedException)
           else
             abind (aresult (check_not_referenced subject resolved_version (rg_db rg))) (\<lambda>_.
             abind (send_schema_message ev subject
                      (if permanent then None
                       else Some (ts_type (sv_schema schema_version), ts_str (sv_schema schema_version)))
                      (sv_schema_id schema_version) resolved_version True (sv_references schema_version))
               (\<lambda>_. areturn resolved_version)))) rg"

end
