(* ===== verification/Registry_Recovery.thy ===== *)
theory Registry_Recovery
  imports Registry_Properties
begin

text \<open>
  The topic determines the database. Two readers whose databases agree up to the id counter agree
  after every record, so a node that replays the topic from the beginning, in batches of any size,
  rebuilds the subjects, versions, ids, references and settings that the primary has.
\<close>

section \<open>Databases up to the id counter\<close>

definition db_view :: "database \<Rightarrow> database" where
  "db_view db = db\<lparr>global_schema_id := 0\<rparr>"

lemma db_view_eq_iff:
  "db_view db = db_view db' \<longleftrightarrow>
     subjects db = subjects db' \<and> schemas db = schemas db' \<and> referenced_by db = referenced_by db' \<and>
     hash_to_schema db = hash_to_schema db' \<and> hash_to_schema_id_on_subject db = hash_to_schema_id_on_subject db'"
  by (cases db; cases db') (auto simp: db_view_def)

lemma db_view_eq_counter: "db_view db = db_view db' \<Longrightarrow> db' = db\<lparr>global_schema_id := global_schema_id db'\<rparr>"
  by (cases db; cases db') (auto simp: db_view_def)

named_theorems counter_laws \<open>operations on a database whose counter was replaced\<close>

lemma queries_counter [counter_laws]:
  "find_subject s (db\<lparr>global_schema_id := g\<rparr>) = find_subject s db"
  "find_subject_schemas s b (db\<lparr>global_schema_id := g\<rparr>) = find_subject_schemas s b db"
  by (simp_all add: find_subject_def find_subject_schemas_def)

lemma helpers_counter [counter_laws]:
  "insert_subject s (db\<lparr>global_schema_id := g\<rparr>) = (insert_subject s db)\<lparr>global_schema_id := g\<rparr>"
  "set_subject_compatibility s c (db\<lparr>global_schema_id := g\<rparr>) = (set_subject_compatibility s c db)\<lparr>global_schema_id := g\<rparr>"
  "delete_subject_compatibility s (db\<lparr>global_schema_id := g\<rparr>) = (delete_subject_compatibility s db)\<lparr>global_schema_id := g\<rparr>"
  "set_schema_id_on_subject e s t i (db\<lparr>global_schema_id := g\<rparr>) = (set_schema_id_on_subject e s t i db)\<lparr>global_schema_id := g\<rparr>"
  "delete_from_schema_id_on_subject e s t (db\<lparr>global_schema_id := g\<rparr>) =
     (delete_from_schema_id_on_subject e s t db)\<lparr>global_schema_id := g\<rparr>"
  "set_version s v sv (db\<lparr>global_schema_id := g\<rparr>) = (set_version s v sv db)\<lparr>global_schema_id := g\<rparr>"
  "insert_referenced_by s v i (db\<lparr>global_schema_id := g\<rparr>) = (insert_referenced_by s v i db)\<lparr>global_schema_id := g\<rparr>"
  "remove_reference i r (db\<lparr>global_schema_id := g\<rparr>) = (remove_reference i r db)\<lparr>global_schema_id := g\<rparr>"
  by (auto simp: insert_subject_def set_subject_compatibility_def delete_subject_compatibility_def set_schema_id_on_subject_def
      delete_from_schema_id_on_subject_def set_version_def insert_referenced_by_def remove_reference_def Let_def
      split: option.splits)

lemma fold_counter:
  "(\<And>x db g. f x (db\<lparr>global_schema_id := g\<rparr>) = (f x db)\<lparr>global_schema_id := g\<rparr>) \<Longrightarrow>
     fold f xs (db\<lparr>global_schema_id := g\<rparr>) = (fold f xs db)\<lparr>global_schema_id := g\<rparr>"
  by (induction xs arbitrary: db) simp_all

lemma folds_counter [counter_laws]:
  "fold (\<lambda>r. insert_referenced_by (ref_subject r) (ref_version r) i) rs (db\<lparr>global_schema_id := g\<rparr>) =
     (fold (\<lambda>r. insert_referenced_by (ref_subject r) (ref_version r) i) rs db)\<lparr>global_schema_id := g\<rparr>"
  "fold (\<lambda>sv. delete_from_schema_id_on_subject e s (sv_schema sv)) svs (db\<lparr>global_schema_id := g\<rparr>) =
     (fold (\<lambda>sv. delete_from_schema_id_on_subject e s (sv_schema sv)) svs db)\<lparr>global_schema_id := g\<rparr>"
  "remove_references_of sv (db\<lparr>global_schema_id := g\<rparr>) = (remove_references_of sv db)\<lparr>global_schema_id := g\<rparr>"
  "fold remove_references_of svs (db\<lparr>global_schema_id := g\<rparr>) = (fold remove_references_of svs db)\<lparr>global_schema_id := g\<rparr>"
proof -
  show *: "remove_references_of sv (db\<lparr>global_schema_id := g\<rparr>) = (remove_references_of sv db)\<lparr>global_schema_id := g\<rparr>"
    for sv db g
    by (auto simp: remove_references_of_def remove_referenced_by_def counter_laws intro!: fold_counter split: option.split)
  show "fold remove_references_of svs (db\<lparr>global_schema_id := g\<rparr>) = (fold remove_references_of svs db)\<lparr>global_schema_id := g\<rparr>"
    by (rule fold_counter) (rule *)
qed (auto intro!: fold_counter simp: counter_laws)

lemma insert_schema_version_counter:
  "insert_schema_version e s i v d t r (db\<lparr>global_schema_id := g\<rparr>) =
     (insert_schema_version e s i v d t r db)\<lparr>global_schema_id := max g i\<rparr>"
proof -
  have 1: "snd (get_from_hash_cache e t (db\<lparr>global_schema_id := g\<rparr>)) = (snd (get_from_hash_cache e t db))\<lparr>global_schema_id := g\<rparr>"
    and 2: "fst (get_from_hash_cache e t (db\<lparr>global_schema_id := g\<rparr>)) = fst (get_from_hash_cache e t db)" for g db
    by (simp_all add: get_from_hash_cache_def split: option.split)
  have 3: "db\<lparr>global_schema_id := g, schemas := z\<rparr> = db\<lparr>schemas := z, global_schema_id := g\<rparr>" for db g z
    by simp
  show ?thesis
    unfolding insert_schema_version_def Let_def case_prod_unfold
    by (cases r) (simp_all add: 1 2 counter_laws 3)
qed

definition res_view :: "database res \<Rightarrow> database res" where
  "res_view m = (case m of Inl x \<Rightarrow> Inl x | Inr db \<Rightarrow> Inr (db_view db))"

lemma deletions_counter [counter_laws]:
  "res_view (delete_subject e s v (db\<lparr>global_schema_id := g\<rparr>)) = res_view (delete_subject e s v db)"
  "res_view (delete_subject_schema e s v (db\<lparr>global_schema_id := g\<rparr>)) = res_view (delete_subject_schema e s v db)"
  "res_view (delete_subject_hard s (db\<lparr>global_schema_id := g\<rparr>)) = res_view (delete_subject_hard s db)"
proof -
  have *: "db\<lparr>global_schema_id := g, subjects := z\<rparr> = db\<lparr>subjects := z, global_schema_id := g\<rparr>" for db g z
    by simp
  show "res_view (delete_subject e s v (db\<lparr>global_schema_id := g\<rparr>)) = res_view (delete_subject e s v db)"
    by (auto simp: delete_subject_def res_view_def db_view_def * counter_laws split: option.split)
  show "res_view (delete_subject_schema e s v (db\<lparr>global_schema_id := g\<rparr>)) = res_view (delete_subject_schema e s v db)"
    by (auto simp: delete_subject_schema_def res_view_def db_view_def * counter_laws Let_def split: option.split)
  show "res_view (delete_subject_hard s (db\<lparr>global_schema_id := g\<rparr>)) = res_view (delete_subject_hard s db)"
    by (auto simp: delete_subject_hard_def res_view_def db_view_def * counter_laws Let_def
        delete_subject_from_schema_id_on_subject_def split: option.split)
qed

lemma resolve_references_with_cong:
  assumes "db_view db = db_view db'" and "\<And>s. f s = f' s"
  shows "resolve_references_with f db = resolve_references_with f' db'"
proof -
  have queries: "find_subject_schemas s b db = find_subject_schemas s b db'" for s b
    using assms(1) by (simp add: db_view_eq_iff find_subject_schemas_def)
  have f: "f = f'" using assms(2) by auto
  show ?thesis unfolding resolve_references_with_def resolve_reference_def f queries ..
qed

lemma resolve_and_validate_view:
  "db_view db = db_view db' \<Longrightarrow> resolve_and_validate e depth db s = resolve_and_validate e depth db' s"
proof (induction depth arbitrary: s)
  case (Suc depth)
  have "resolve_references_with (resolve_and_validate e depth db) db =
      resolve_references_with (resolve_and_validate e depth db') db'"
    by (rule resolve_references_with_cong [OF Suc.prems Suc.IH [OF Suc.prems]])
  note eq = this
  show ?case unfolding resolve_and_validate.simps eq ..
qed simp

lemma resolve_references_view:
  "db_view db = db_view db' \<Longrightarrow> resolve_references e depth db = resolve_references e depth db'"
  unfolding resolve_references_def by (intro resolve_references_with_cong resolve_and_validate_view)

lemma read_typed_schema_view:
  assumes "db_view db = db_view db'"
  shows "read_typed_schema e depth db t s r = read_typed_schema e depth db' t s r"
  unfolding read_typed_schema_def read_references_def resolve_references_view [OF assms] ..

section \<open>Readers that agree\<close>

text \<open>Everything a record can depend on or change, except the id counter.\<close>

definition rsim :: "reader \<Rightarrow> reader \<Rightarrow> bool" where
  "rsim rd rd' \<longleftrightarrow> db_view (rd_database rd) = db_view (rd_database rd') \<and> rd_compatibility rd = rd_compatibility rd' \<and>
     rd_keymode rd = rd_keymode rd' \<and> rd_strict_mode rd = rd_strict_mode rd'"

fun agree :: "'x res \<times> reader \<Rightarrow> 'x res \<times> reader \<Rightarrow> bool" where
  "agree (r, rd) (r', rd') \<longleftrightarrow> r = r' \<and> rsim rd rd'"

lemma agree_iff: "agree p q \<longleftrightarrow> fst p = fst q \<and> rsim (snd p) (snd q)"
  by (cases p; cases q) simp

lemma rsim_refl [simp]: "rsim rd rd"
  by (simp add: rsim_def)

lemma rsim_sym: "rsim rd rd' \<Longrightarrow> rsim rd' rd"
  by (simp add: rsim_def)

lemma rsim_trans [trans]: "rsim a b \<Longrightarrow> rsim b c \<Longrightarrow> rsim a c"
  by (simp add: rsim_def)

lemma rsim_queries:
  assumes "rsim rd rd'"
  shows "find_subject s (rd_database rd') = find_subject s (rd_database rd)"
    and "find_subject_schemas s b (rd_database rd') = find_subject_schemas s b (rd_database rd)"
    and "read_typed_schema e depth (rd_database rd') t j r = read_typed_schema e depth (rd_database rd) t j r"
  using assms read_typed_schema_view [of "rd_database rd'" "rd_database rd"]
  by (auto simp: rsim_def db_view_eq_iff find_subject_def find_subject_schemas_def)

lemma rsim_set_database:
  "rsim rd rd' \<Longrightarrow> db_view db = db_view db' \<Longrightarrow> agree (set_database db rd) (set_database db' rd')"
  by (simp add: set_database_def rsim_def)

lemma agree_with_result:
  "m = m' \<Longrightarrow> rsim rd rd' \<Longrightarrow> (\<And>y. m = Inr y \<Longrightarrow> agree (f y rd) (f' y rd')) \<Longrightarrow>
     agree (with_result m f rd) (with_result m' f' rd')"
  by (cases m) auto

lemma agree_cases:
  "(x = None \<Longrightarrow> agree a a') \<Longrightarrow> (\<And>y. x = Some y \<Longrightarrow> agree (b y) (b' y)) \<Longrightarrow>
     agree (case x of None \<Rightarrow> a | Some y \<Rightarrow> b y) (case x of None \<Rightarrow> a' | Some y \<Rightarrow> b' y)"
  "(zs = [] \<Longrightarrow> agree a a') \<Longrightarrow> (\<And>z rest. zs = z # rest \<Longrightarrow> agree (c z rest) (c' z rest)) \<Longrightarrow>
     agree (case zs of [] \<Rightarrow> a | z # rest \<Rightarrow> c z rest) (case zs of [] \<Rightarrow> a' | z # rest \<Rightarrow> c' z rest)"
  "p = p' \<Longrightarrow> (p' \<Longrightarrow> agree a a') \<Longrightarrow> (\<not> p' \<Longrightarrow> agree d d') \<Longrightarrow> agree (if p then a else d) (if p' then a' else d')"
  by (simp_all split: option.split list.split)

text \<open>Continuing with the database that a deletion returns.\<close>

lemma agree_with_database:
  assumes "res_view m = res_view m'" and "rsim rd rd'"
    and "\<And>db db'. db_view db = db_view db' \<Longrightarrow> agree (f db rd) (f' db' rd')"
  shows "agree (with_result m f rd) (with_result m' f' rd')"
  using assms by (cases m; cases m') (auto simp: res_view_def)

lemma view_ops:
  assumes "db_view db = db_view db'"
  shows "db_view (insert_schema_version e s i v d t r db) = db_view (insert_schema_version e s i v d t r db')"
    and "db_view (insert_subject s db) = db_view (insert_subject s db')"
    and "db_view (set_subject_compatibility s c db) = db_view (set_subject_compatibility s c db')"
    and "db_view (delete_subject_compatibility s db) = db_view (delete_subject_compatibility s db')"
    and "res_view (delete_subject e s v db) = res_view (delete_subject e s v db')"
    and "res_view (delete_subject_schema e s v db) = res_view (delete_subject_schema e s v db')"
    and "res_view (delete_subject_hard s db) = res_view (delete_subject_hard s db')"
    and "find_subject s db = find_subject s db'"
    and "find_subject_schemas s b db = find_subject_schemas s b db'"
proof -
  obtain g where g: "db' = db\<lparr>global_schema_id := g\<rparr>" using db_view_eq_counter [OF assms] by blast
  have [simp]: "db_view (db\<lparr>global_schema_id := g\<rparr>) = db_view db" for db g by (simp add: db_view_def)
  show "db_view (insert_schema_version e s i v d t r db) = db_view (insert_schema_version e s i v d t r db')"
    by (simp add: g insert_schema_version_counter)
  show "db_view (insert_subject s db) = db_view (insert_subject s db')"
    "db_view (set_subject_compatibility s c db) = db_view (set_subject_compatibility s c db')"
    "db_view (delete_subject_compatibility s db) = db_view (delete_subject_compatibility s db')"
    "res_view (delete_subject e s v db) = res_view (delete_subject e s v db')"
    "res_view (delete_subject_schema e s v db) = res_view (delete_subject_schema e s v db')"
    "res_view (delete_subject_hard s db) = res_view (delete_subject_hard s db')"
    "find_subject s db = find_subject s db'"
    "find_subject_schemas s b db = find_subject_schemas s b db'"
    by (simp_all add: g counter_laws)
qed

section \<open>Handlers\<close>

lemma rsim_view: "rsim rd rd' \<Longrightarrow> db_view (rd_database rd) = db_view (rd_database rd')"
  by (simp add: rsim_def)

lemma agree_handle_msg_config:
  assumes "rsim rd rd'"
  shows "agree (handle_msg_config key v rd) (handle_msg_config key v rd')"
proof -
  have 1: "rsim (rd\<lparr>rd_compatibility := c\<rparr>) (rd'\<lparr>rd_compatibility := c\<rparr>)" for c
    using assms by (simp add: rsim_def)
  have 2: "db_view (if find_subject s (rd_database rd) = None then insert_subject s (rd_database rd) else rd_database rd) =
      db_view (if find_subject s (rd_database rd') = None then insert_subject s (rd_database rd') else rd_database rd')" for s
    by (simp add: view_ops(2,8) [OF rsim_view [OF assms]] rsim_view [OF assms])
  have 3: "rsim (rd\<lparr>rd_database := db\<rparr>) (rd'\<lparr>rd_database := db'\<rparr>)" if "db_view db = db_view db'" for db db'
    using assms that by (simp add: rsim_def)
  show ?thesis
    unfolding handle_msg_config_def Let_def
    by (intro agree_cases agree_with_result refl rsim_set_database assms 1 2 3
        view_ops(3,4)) (auto simp: assms 1)
qed

lemma agree_handle_msg_delete_subject:
  assumes "rsim rd rd'"
  shows "agree (handle_msg_delete_subject e key v rd) (handle_msg_delete_subject e key v rd')"
  using assms unfolding handle_msg_delete_subject_def
  by (auto split: option.split intro!: agree_with_result agree_with_database rsim_set_database view_ops(5) rsim_view
      simp: rsim_queries(1) [OF assms] simp del: set_database_simps)

lemma agree_handle_msg_schema_hard_delete:
  assumes "rsim rd rd'"
  shows "agree (handle_msg_schema_hard_delete e key rd) (handle_msg_schema_hard_delete e key rd')"
proof -
  have 3: "rsim (rd\<lparr>rd_database := db\<rparr>) (rd'\<lparr>rd_database := db'\<rparr>)" if "db_view db = db_view db'" for db db'
    using assms that by (simp add: rsim_def)
  have 4: "agree (if find_subject_schemas s True db = []
        then with_result (delete_subject_hard s db) set_database (rd\<lparr>rd_database := db\<rparr>) else (Inr (), rd\<lparr>rd_database := db\<rparr>))
      (if find_subject_schemas s True db' = []
        then with_result (delete_subject_hard s db') set_database (rd'\<lparr>rd_database := db'\<rparr>) else (Inr (), rd'\<lparr>rd_database := db'\<rparr>))"
    if "db_view db = db_view db'" for db db' s
    unfolding view_ops(9) [OF that]
    by (auto intro!: agree_with_database rsim_set_database 3 view_ops(7) that)
  show ?thesis
    unfolding handle_msg_schema_hard_delete_def Let_def
    by (rule agree_with_result agree_with_database agree_cases 4 view_ops(6) rsim_view assms refl |
        simp add: rsim_queries [OF assms] assms)+
qed

lemma agree_handle_msg_schema:
  assumes "rsim rd rd'"
  shows "agree (handle_msg_schema e depth key v rd) (handle_msg_schema e depth key v rd')"
proof -
  consider "v = None" | "v = Some []" | x xs where "v = Some (x # xs)"
    by (metis list.exhaust option.exhaust)
  then show ?thesis
  proof cases
    case 3
    show ?thesis
      unfolding 3 handle_msg_schema_def Let_def case_prod_unfold option.case list.case rsim_queries(3) [OF assms]
      by (intro agree_with_result refl assms rsim_set_database view_ops(1) rsim_view)
  qed (simp_all add: handle_msg_schema_def agree_handle_msg_schema_hard_delete assms)
qed

lemma agree_handle_msg:
  assumes "rsim rd rd'"
  shows "agree (handle_msg e depth key v rd) (handle_msg e depth key v rd')"
proof (cases "dict_get key ''keytype''")
  case (Some keytype)
  have "agree (with_result (message_type_of keytype) (\<lambda>mt. case mt of
                    MT_config \<Rightarrow> handle_msg_config key v
                  | MT_schema \<Rightarrow> handle_msg_schema e depth key v
                  | MT_delete_subject \<Rightarrow> handle_msg_delete_subject e key v
                  | MT_no_operation \<Rightarrow> (\<lambda>rd. (Inr (), rd))) rd)
      (with_result (message_type_of keytype) (\<lambda>mt. case mt of
                    MT_config \<Rightarrow> handle_msg_config key v
                  | MT_schema \<Rightarrow> handle_msg_schema e depth key v
                  | MT_delete_subject \<Rightarrow> handle_msg_delete_subject e key v
                  | MT_no_operation \<Rightarrow> (\<lambda>rd. (Inr (), rd))) rd')"
    using assms
    by (intro agree_with_result)
       (auto split: message_type.split intro: agree_handle_msg_config agree_handle_msg_schema agree_handle_msg_delete_subject)
  with Some show ?thesis by (auto simp: handle_msg_def Let_def agree_iff case_prod_unfold)
qed (use assms in \<open>simp add: handle_msg_def\<close>)

lemma rsim_updates [simp]:
  "rsim (rd\<lparr>rd_offset := a\<rparr>) rd' = rsim rd rd'" "rsim rd (rd'\<lparr>rd_offset := a\<rparr>) = rsim rd rd'"
  "rsim (rd\<lparr>rd_greatest_offset := a\<rparr>) rd' = rsim rd rd'" "rsim rd (rd'\<lparr>rd_greatest_offset := a\<rparr>) = rsim rd rd'"
  "rsim (rd\<lparr>rd_unexpected_errors := n\<rparr>) rd' = rsim rd rd'" "rsim rd (rd'\<lparr>rd_unexpected_errors := n\<rparr>) = rsim rd rd'"
  "rsim (rd\<lparr>rd_stopped := b\<rparr>) rd' = rsim rd rd'" "rsim rd (rd'\<lparr>rd_stopped := b\<rparr>) = rsim rd rd'"
  by (simp_all add: rsim_def)

lemma rsim_update_is_ready_flag [simp]:
  "rsim (update_is_ready_flag n rd) rd' = rsim rd rd'" "rsim rd (update_is_ready_flag n rd') = rsim rd rd'"
  by (auto simp: rsim_def update_is_ready_flag_def is_ready_def Let_def split: option.split)

lemma rsim_detect_keymode: "rsim rd rd' \<Longrightarrow> rsim (detect_keymode key rd) (detect_keymode key rd')"
  by (simp add: rsim_def detect_keymode_def)

lemma agree_handle_schema_reader_error:
  "rsim rd rd' \<Longrightarrow> agree (handle_schema_reader_error rd) (handle_schema_reader_error rd')"
  by (simp add: handle_schema_reader_error_def rsim_def)

lemma agree_process_message:
  assumes "rsim rd rd'"
  shows "agree (process_message e depth w off key v rd) (process_message e depth w' off key v rd')"
proof -
  from agree_handle_msg [OF assms, of e depth key v]
  have "fst (handle_msg e depth key v rd) = fst (handle_msg e depth key v rd')"
    and sim: "rsim (snd (handle_msg e depth key v rd)) (snd (handle_msg e depth key v rd'))"
    by (simp_all add: agree_iff)
  with agree_handle_schema_reader_error [OF sim] show ?thesis
    by (auto simp: process_message_def case_prod_unfold Let_def agree_iff split: sum.split)
qed

lemma agree_consume_message:
  assumes "rsim rd rd'"
  shows "agree (consume_message e depth w msg rd) (consume_message e depth w' msg rd')"
proof -
  have strict: "rd_strict_mode rd = rd_strict_mode rd'" using assms by (simp add: rsim_def)
  show ?thesis
    unfolding consume_message_def Let_def
    using assms agree_process_message [OF rsim_detect_keymode [OF assms], of e depth w _ _ _ _ w']
      agree_handle_schema_reader_error
    by (auto simp: strict rsim_detect_keymode split: option.split exn.split raw.split json.split sum.split)
qed

lemma agree_consume_messages:
  "rsim rd rd' \<Longrightarrow> agree (consume_messages e depth w msgs rd) (consume_messages e depth w' msgs rd')"
proof (induction msgs arbitrary: rd rd')
  case (Cons msg msgs)
  from agree_consume_message [OF Cons.prems, of e depth w msg w'] Cons.IH show ?case
    by (auto simp: agree_iff split: prod.splits sum.splits)
qed simp

lemma consume_messages_append:
  "consume_messages e depth w (xs @ ys) rd =
     (case consume_messages e depth w xs rd of
        (Inl x, rd') \<Rightarrow> (Inl x, rd') | (Inr _, rd') \<Rightarrow> consume_messages e depth w ys rd')"
  by (induction xs arbitrary: rd) (auto split: prod.split sum.split)

section \<open>Batches\<close>

lemma process_message_stopped [simp]: "rd_stopped (snd (process_message e depth w off key v rd)) = rd_stopped rd"
  using handle_msg_keeps [where rd = rd and e = e and depth = depth and key = key and v = v]
  by (auto simp: process_message_def handle_schema_reader_error_def case_prod_unfold Let_def split: sum.split)

lemma consume_message_stopped [simp]: "rd_stopped (snd (consume_message e depth w msg rd)) = rd_stopped rd"
  by (auto simp: consume_message_def handle_schema_reader_error_def detect_keymode_def Let_def
      split: option.split exn.split raw.split json.split sum.split)

lemma consume_messages_stopped [simp]: "rd_stopped (snd (consume_messages e depth w msgs rd)) = rd_stopped rd"
proof (induction msgs arbitrary: rd)
  case (Cons msg msgs)
  obtain r rd1 where c: "consume_message e depth w msg rd = (r, rd1)" by force
  from consume_message_stopped [of e depth w msg rd] have "rd_stopped rd1 = rd_stopped rd" unfolding c by simp
  with c Cons.IH [of rd1] show ?case by (simp split: sum.split)
qed simp

lemma update_is_ready_flag_stopped [simp]: "rd_stopped (update_is_ready_flag n rd) = rd_stopped rd"
  by (auto simp: update_is_ready_flag_def is_ready_def Let_def split: option.split)

lemma run_iteration_batch:
  assumes "consume_messages e depth w (poll_messages p) rd' = (Inr (), rd1)" and "rsim rd rd'" and "\<not> rd_stopped rd"
  shows "rsim (run_iteration e depth p rd) rd1 \<and> \<not> rd_stopped (run_iteration e depth p rd)"
proof -
  define rd0 where "rd0 = (if rd_offset rd = OFFSET_UNINITIALIZED
      then rd\<lparr>rd_offset := get_beginning_offset (poll_beginning p)\<rparr> else rd)"
  have "rsim rd0 rd'" and live: "\<not> rd_stopped rd0" using assms(2,3) by (simp_all add: rd0_def)
  then have "rsim (update_is_ready_flag (poll_end p) rd0) rd'" by simp
  from agree_consume_messages [OF this, of e depth _ "poll_messages p" w, unfolded assms(1)]
  have "agree (handle_messages e depth (poll_end p) (poll_primary p) (poll_messages p) rd0) (Inr (), rd1)"
    unfolding handle_messages_def .
  moreover have "\<not> rd_stopped (snd (handle_messages e depth (poll_end p) (poll_primary p) (poll_messages p) rd0))"
    using live by (simp add: handle_messages_def)
  ultimately obtain rd2 where "handle_messages e depth (poll_end p) (poll_primary p) (poll_messages p) rd0 = (Inr (), rd2)"
    and "rsim rd2 rd1" and "\<not> rd_stopped rd2" by (metis agree_iff fst_conv prod.collapse snd_conv)
  with assms(3) show ?thesis unfolding run_iteration_def rd0_def [symmetric] Let_def by simp
qed

text \<open>A log that is consumed without an exception gives the same state in batches of any size.\<close>

lemma replay_batches:
  assumes "consume_messages e depth w (concat (map poll_messages ps)) rd' = (Inr (), rd1)" and "rsim rd rd'"
    and "\<not> rd_stopped rd"
  shows "rsim (replay e depth ps rd) rd1"
  using assms
proof (induction ps arbitrary: rd rd')
  case (Cons p ps)
  from Cons.prems(1) obtain rd2 where first: "consume_messages e depth w (poll_messages p) rd' = (Inr (), rd2)"
    and rest: "consume_messages e depth w (concat (map poll_messages ps)) rd2 = (Inr (), rd1)"
    by (auto simp: consume_messages_append split: prod.splits sum.splits)
  from run_iteration_batch [OF first Cons.prems(2,3)] Cons.IH [OF rest] show ?case by simp
qed simp

section \<open>The registry\<close>

text \<open>
  The state of the primary matches its log: consuming the log from the beginning succeeds and gives
  the state of the reader; the greatest offset seen is not beyond the log.
\<close>

definition matches_log :: "('a, 'n, 'p) env \<Rightarrow> json \<Rightarrow> bool \<Rightarrow> registry \<Rightarrow> bool" where
  "matches_log ev level strict rg \<longleftrightarrow>
     (\<exists>rd. consume_messages (ev_ext ev) (ev_depth ev) True (rg_log rg) (init_reader level strict) = (Inr (), rd) \<and>
        rsim (rg_reader rg) rd) \<and> rd_greatest_offset (rg_reader rg) < next_offset rg"

lemma process_message_seen:
  assumes "rd_greatest_offset (snd (process_message e depth w off key v rd)) \<noteq> rd_greatest_offset rd"
  shows "fst (process_message e depth w off key v rd) = Inr () \<and>
    rd_greatest_offset (snd (process_message e depth w off key v rd)) = max (rd_greatest_offset rd) off"
  using assms handle_msg_keeps [where rd = rd and e = e and depth = depth and key = key and v = v]
  by (auto simp: process_message_def handle_schema_reader_error_def offset_seen_def case_prod_unfold Let_def
      split: sum.splits if_splits)

lemma detect_keymode_greatest [simp]: "rd_greatest_offset (detect_keymode key rd) = rd_greatest_offset rd"
  by (simp add: detect_keymode_def)

lemma consume_message_seen:
  assumes "rd_greatest_offset (snd (consume_message e depth w msg rd)) \<noteq> rd_greatest_offset rd"
  shows "fst (consume_message e depth w msg rd) = Inr () \<and>
    rd_greatest_offset (snd (consume_message e depth w msg rd)) = max (rd_greatest_offset rd) (km_offset msg)"
proof -
  have *: "fst (process_message e depth w off key v (detect_keymode k rd)) = Inr () \<and>
    rd_greatest_offset (snd (process_message e depth w off key v (detect_keymode k rd))) = max (rd_greatest_offset rd) off"
    if "rd_greatest_offset (snd (process_message e depth w off key v (detect_keymode k rd))) \<noteq> rd_greatest_offset rd" for off key v k
    using process_message_seen [of e depth w off key v "detect_keymode k rd"] that by simp
  show ?thesis
    using assms unfolding consume_message_def Let_def handle_schema_reader_error_def
    by (auto split: option.splits exn.splits raw.splits json.splits sum.splits if_splits dest!: *)
qed

lemma update_is_ready_flag_greatest [simp]:
  "rd_greatest_offset (update_is_ready_flag n rd) = rd_greatest_offset rd"
  by (auto simp: update_is_ready_flag_def is_ready_def Let_def split: option.split)

lemma update_is_ready_flag_database [simp]: "rd_database (update_is_ready_flag n rd) = rd_database rd"
  by (auto simp: update_is_ready_flag_def is_ready_def Let_def split: option.split)

lemma consume_single:
  "consume_messages e depth w [msg] rd = (case consume_message e depth w msg rd of (r, rd') \<Rightarrow> (rbind r (\<lambda>_. Inr ()), rd'))"
  by (auto split: prod.split sum.split)

text \<open>A record whose offset the reader has seen was applied without an exception.\<close>

lemma run_iteration_seen:
  assumes "rd_greatest_offset (run_iteration e depth (poll_of msg) rd) \<noteq> rd_greatest_offset rd"
  obtains rd0 rd2 where "rsim rd0 rd" "rd_database rd0 = rd_database rd" "rd_greatest_offset rd0 = rd_greatest_offset rd"
    "consume_message e depth True msg rd0 = (Inr (), rd2)"
    "run_iteration e depth (poll_of msg) rd = rd2\<lparr>rd_unexpected_errors := 0\<rparr>"
    "rd_greatest_offset rd2 = max (rd_greatest_offset rd) (km_offset msg)"
proof -
  define rd0 where "rd0 = update_is_ready_flag (Some (km_offset msg + 1)) (if rd_offset rd = OFFSET_UNINITIALIZED
      then rd\<lparr>rd_offset := get_beginning_offset (Some 0)\<rparr> else rd)"
  have sim: "rsim rd0 rd" and greatest: "rd_greatest_offset rd0 = rd_greatest_offset rd" by (simp_all add: rd0_def)
  have data: "rd_database rd0 = rd_database rd" by (simp add: rd0_def)
  obtain r rd2 where c: "consume_message e depth True msg rd0 = (r, rd2)" by force
  have run: "run_iteration e depth (poll_of msg) rd =
      (if rd_stopped rd then rd else case r of Inr _ \<Rightarrow> rd2\<lparr>rd_unexpected_errors := 0\<rparr>
       | Inl x \<Rightarrow> if x \<in> {ShutdownException, CorruptKafkaRecordException} then rd2\<lparr>rd_stopped := True\<rparr>
               else rd2\<lparr>rd_unexpected_errors := Suc (rd_unexpected_errors rd2)\<rparr>)"
    unfolding run_iteration_def handle_messages_def poll_of_def Let_def poll.simps rd0_def [symmetric] consume_single
    by (cases r) (simp_all add: rd0_def [symmetric] consume_single c del: consume_messages.simps)
  with assms greatest have "rd_greatest_offset rd2 \<noteq> rd_greatest_offset rd0" by (auto split: sum.splits if_splits)
  with consume_message_seen [of e depth True msg rd0] c greatest
  have "r = Inr ()" "rd_greatest_offset rd2 = max (rd_greatest_offset rd) (km_offset msg)" by simp_all
  moreover from assms run have "\<not> rd_stopped rd" by auto
  ultimately show thesis using that [OF sim data greatest] c run by auto
qed

lemma send_keeps_log:
  assumes "matches_log ev level strict rg" and "send_kafka_message ev key v rg = (r, rg')" and "r \<noteq> Inl RuntimeError"
  shows "matches_log ev level strict rg'"
proof (cases "ev_too_large ev key v")
  case False
  define msg where "msg = message_of (next_offset rg) key v"
  let ?rd = "run_iteration (ev_ext ev) (ev_depth ev) (poll_of msg) (rg_reader rg)"
  have offset: "km_offset msg = next_offset rg" by (simp add: msg_def message_of_def)
  from assms(2,3) False have rg': "rg' = rg\<lparr>rg_reader := ?rd, rg_log := rg_log rg @ [msg]\<rparr>"
    and seen: "next_offset rg \<le> rd_greatest_offset ?rd"
    by (auto simp: send_kafka_message_def Let_def msg_def message_of_def wait_for_offset_def split: if_splits)
  from assms(1) obtain rdL
    where log: "consume_messages (ev_ext ev) (ev_depth ev) True (rg_log rg) (init_reader level strict) = (Inr (), rdL)"
      and sim: "rsim (rg_reader rg) rdL" and less: "rd_greatest_offset (rg_reader rg) < next_offset rg"
    by (auto simp: matches_log_def)
  from seen less have "rd_greatest_offset ?rd \<noteq> rd_greatest_offset (rg_reader rg)" by simp
  then obtain rd0 rd2 where rd0: "rsim rd0 (rg_reader rg)"
    and "rd_database rd0 = rg_db rg" and "rd_greatest_offset rd0 = rd_greatest_offset (rg_reader rg)"
    and c: "consume_message (ev_ext ev) (ev_depth ev) True msg rd0 = (Inr (), rd2)"
    and rd2: "?rd = rd2\<lparr>rd_unexpected_errors := 0\<rparr>"
    and greatest: "rd_greatest_offset rd2 = max (rd_greatest_offset (rg_reader rg)) (km_offset msg)"
    by (rule run_iteration_seen)
  from agree_consume_message [OF rsim_trans [OF rd0 sim], of "ev_ext ev" "ev_depth ev" True msg True] c
  obtain rd3 where "consume_message (ev_ext ev) (ev_depth ev) True msg rdL = (Inr (), rd3)" and "rsim rd2 rd3"
    by (cases "consume_message (ev_ext ev) (ev_depth ev) True msg rdL") auto
  with log rd2 greatest less offset rg' show ?thesis
    by (auto simp: matches_log_def consume_messages_append next_offset_def)
qed (use assms in \<open>auto simp: send_kafka_message_def\<close>)

section \<open>Requests\<close>

text \<open>The operations that change the registry, as the primary performs them one after another.\<close>

datatype ('a, 'p) request =
    RegisterSchema string "('a, 'p) parsed_typed_schema" "reference list option"
  | DeleteSubject string bool
  | DeleteVersion string version bool
  | SetConfig compatibility_mode "string option"
  | DeleteConfig string

fun perform :: "('a, 'n, 'p) env \<Rightarrow> ('a, 'p) request \<Rightarrow> unit action" where
  "perform ev (RegisterSchema s new refs) = abind (write_new_schema_local ev s new refs) (\<lambda>_. areturn ())"
| "perform ev (DeleteSubject s permanent) = abind (subject_delete_local ev s permanent) (\<lambda>_. areturn ())"
| "perform ev (DeleteVersion s v permanent) = abind (subject_version_delete_local ev s v permanent) (\<lambda>_. areturn ())"
| "perform ev (SetConfig level s) = send_config_message ev level s"
| "perform ev (DeleteConfig s) = send_config_subject_delete_message ev s"

text \<open>
  States after requests that did not end in a \<open>RuntimeError\<close>, the outcome of a send whose record the
  reader did not confirm.
\<close>

inductive reg_reachable :: "('a, 'n, 'p) env \<Rightarrow> json \<Rightarrow> bool \<Rightarrow> registry \<Rightarrow> bool" for ev level strict where
  init: "reg_reachable ev level strict (init_registry ev level strict)"
| step: "reg_reachable ev level strict rg \<Longrightarrow> perform ev rq rg = (r, rg') \<Longrightarrow> r \<noteq> Inl RuntimeError \<Longrightarrow>
     reg_reachable ev level strict rg'"

text \<open>A predicate that sending a record and taking an id keep is kept by every request.\<close>

locale registry_invariant =
  fixes ev :: "('a, 'n, 'p) env" and I :: "registry \<Rightarrow> bool"
  assumes I_send: "I rg \<Longrightarrow> send_kafka_message ev key v rg = (r, rg') \<Longrightarrow> r \<noteq> Inl RuntimeError \<Longrightarrow> I rg'"
    and I_take: "I rg \<Longrightarrow> I (snd (take_schema_id s rg))"
begin

definition fine :: "'x res \<times> registry \<Rightarrow> bool" where
  "fine p \<longleftrightarrow> fst p \<noteq> Inl RuntimeError \<longrightarrow> I (snd p)"

lemma fine_pure: "I rg \<Longrightarrow> fine (aresult m rg)" "I rg \<Longrightarrow> fine (areturn x rg)" "I rg \<Longrightarrow> fine (m, rg)"
  by (simp_all add: fine_def aresult_def areturn_def)

lemma fine_abind: "fine (m rg) \<Longrightarrow> (\<And>x rg1. I rg1 \<Longrightarrow> fine (f x rg1)) \<Longrightarrow> fine (abind m f rg)"
  by (cases "m rg"; cases "fst (m rg)") (auto simp: fine_def abind_def)

lemma fine_if: "fine (m rg) \<Longrightarrow> fine (n rg) \<Longrightarrow> fine ((if b then m else n) rg)"
  by simp

lemma fine_send_message: "I rg \<Longrightarrow> fine (send_message ev key v rg)"
  using I_send [of rg] by (auto simp: fine_def send_message_def split: sum.split) (metis prod.collapse)

lemma fine_sends:
  "I rg \<Longrightarrow> fine (send_schema_message ev s t i v d r rg)" "I rg \<Longrightarrow> fine (send_config_message ev level so rg)"
  "I rg \<Longrightarrow> fine (send_config_subject_delete_message ev s rg)" "I rg \<Longrightarrow> fine (send_delete_subject_message ev s v rg)"
  by (simp_all add: send_schema_message_def send_config_message_def send_config_subject_delete_message_def
      send_delete_subject_message_def fine_send_message)

lemma fine_take: "I rg \<Longrightarrow> fine (take_schema_id s rg)"
  by (simp add: fine_def I_take)

lemma fine_send_tombstones: "I rg \<Longrightarrow> fine (send_tombstones ev s svs rg)"
proof (induction svs arbitrary: rg)
  case (Cons p svs)
  then show ?case by (cases p) (auto intro!: fine_abind fine_sends)
qed (simp add: fine_pure)

lemma fine_publish_version: "I rg \<Longrightarrow> fine (publish_version ev s new refs v rg)"
  unfolding publish_version_def by (intro fine_abind fine_take fine_sends fine_pure)

lemma fine_write_new_schema: "I rg \<Longrightarrow> fine (write_new_schema_local ev s new refs rg)"
  unfolding write_new_schema_local_def Let_def
  by (auto split: option.split intro!: fine_abind fine_publish_version fine_pure)

lemma fine_subject_delete: "I rg \<Longrightarrow> fine (subject_delete_local ev s permanent rg)"
  unfolding subject_delete_local_def subject_delete_permanently_def subject_delete_softly_def Let_def
  by (auto intro!: fine_abind fine_sends fine_pure fine_send_tombstones)

lemma fine_version_delete: "I rg \<Longrightarrow> fine (subject_version_delete_local ev s v permanent rg)"
  unfolding subject_version_delete_local_def Let_def
  by (auto split: option.split intro!: fine_abind fine_sends fine_pure)

lemma I_perform: "I rg \<Longrightarrow> perform ev rq rg = (r, rg') \<Longrightarrow> r \<noteq> Inl RuntimeError \<Longrightarrow> I rg'"
proof -
  assume "I rg"
  then have "fine (perform ev rq rg)"
    by (cases rq) (auto intro!: fine_abind fine_write_new_schema fine_subject_delete fine_version_delete fine_sends fine_pure)
  then show "perform ev rq rg = (r, rg') \<Longrightarrow> r \<noteq> Inl RuntimeError \<Longrightarrow> I rg'" by (simp add: fine_def)
qed

lemma I_reachable: "reg_reachable ev level strict rg \<Longrightarrow> I (init_registry ev level strict) \<Longrightarrow> I rg"
  by (induction rule: reg_reachable.induct) (auto intro: I_perform)

end

interpretation logged: registry_invariant ev "matches_log ev level strict"
  for ev :: "('a, 'n, 'p) env" and level :: json and strict :: bool
proof unfold_locales
  fix rg :: registry and s
  assume m: "matches_log ev level strict rg"
  have "rsim ((rg_reader rg)\<lparr>rd_database := snd (get_schema_id s (rg_db rg))\<rparr>) (rg_reader rg)"
    by (auto simp: rsim_def db_view_def get_schema_id_def Let_def split: option.split)
  then show "matches_log ev level strict (snd (take_schema_id s rg))"
    using m by (auto simp: matches_log_def take_schema_id_def next_offset_def case_prod_unfold Let_def intro: rsim_trans)
qed (rule send_keeps_log)

interpretation okreg: registry_invariant ev "\<lambda>rg. db_ok (ev_ext ev) (rg_db rg)" for ev :: "('a, 'n, 'p) env"
proof unfold_locales
  fix rg rg' :: registry and s key v r
  assume ok: "db_ok (ev_ext ev) (rg_db rg)"
  then show "db_ok (ev_ext ev) (rg_db (snd (take_schema_id s rg)))"
    by (simp add: take_schema_id_def case_prod_unfold Let_def db_ok_get_schema_id)
  assume "send_kafka_message ev key v rg = (r, rg')"
  with ok show "db_ok (ev_ext ev) (rg_db rg')"
    by (auto simp: send_kafka_message_def Let_def split: if_splits intro: okdb.J_run_iteration)
qed

lemma started_matches: "matches_log ev level strict (init_registry ev level strict)"
  by (simp add: matches_log_def init_registry_def next_offset_def started_reader_def run_iteration_def handle_messages_def
      init_reader_def update_is_ready_flag_def is_ready_def get_beginning_offset_def rsim_def init_offset_watcher_def
      OFFSET_UNINITIALIZED_def)

text \<open>
  C2: A node that starts with an empty database and replays the topic, in batches of any size, has the
  same subjects, versions, schemas, references, indexes and settings as the primary that wrote the
  topic; only the id counter may differ (the primary may have taken an id that it did not publish).
\<close>

theorem follower_rebuilds_primary:
  assumes "reg_reachable ev level strict rg" and "concat (map poll_messages ps) = rg_log rg"
    and "rd = replay (ev_ext ev) (ev_depth ev) ps (init_reader level strict)"
  shows "db_view (rd_database rd) = db_view (rg_db rg) \<and> rd_compatibility rd = rd_compatibility (rg_reader rg) \<and>
    rd_keymode rd = rd_keymode (rg_reader rg)"
proof -
  have "matches_log ev level strict rg" by (rule logged.I_reachable [OF assms(1) started_matches])
  then obtain rd1
    where log: "consume_messages (ev_ext ev) (ev_depth ev) True (concat (map poll_messages ps)) (init_reader level strict) = (Inr (), rd1)"
      and sim: "rsim (rg_reader rg) rd1" by (auto simp: matches_log_def assms(2))
  have "rsim rd rd1" unfolding assms(3) by (rule replay_batches [OF log]) (simp_all add: init_reader_def)
  with sim show ?thesis by (simp add: rsim_def)
qed

lemma sample_registry_reachable: "reg_reachable sample_env (JStr ''BACKWARD'') False sample_registry"
proof (rule reg_reachable.step [OF reg_reachable.init])
  have "fst (perform sample_env (RegisterSchema ''s'' (sample_schema ''a'') None)
      (init_registry sample_env (JStr ''BACKWARD'') False)) = Inr ()" by code_simp
  moreover have "snd (perform sample_env (RegisterSchema ''s'' (sample_schema ''a'') None)
      (init_registry sample_env (JStr ''BACKWARD'') False)) = sample_registry"
    by (auto simp: sample_registry_def abind_def areturn_def split: prod.split sum.split)
  ultimately show "perform sample_env (RegisterSchema ''s'' (sample_schema ''a'') None)
      (init_registry sample_env (JStr ''BACKWARD'') False) = (Inr (), sample_registry)" by (metis prod.collapse)
qed simp

theorem follower_rebuilds_primary_witness:
  "rd_keymode (replay sample_ext 5 [\<lparr>poll_beginning = Some 0, poll_end = None, poll_primary = None,
     poll_messages = rg_log sample_registry\<rparr>] (init_reader (JStr ''BACKWARD'') False)) =
   rd_keymode (rg_reader sample_registry)"
proof -
  have "concat (map poll_messages [\<lparr>poll_beginning = Some 0, poll_end = None, poll_primary = None,
     poll_messages = rg_log sample_registry\<rparr>]) = rg_log sample_registry" by simp
  from follower_rebuilds_primary [OF sample_registry_reachable this refl] show ?thesis
    unfolding sample_env_def env.simps by blast
qed

end
