(* ===== verification/Registry_Effects.thy ===== *)
theory Registry_Effects
  imports Registry_Recovery
begin

text \<open>
  What the operations of the registry do to the table of versions: a registered schema is found
  under its subject and registering it again changes nothing, deletions require that nothing refers
  to the version and that a permanent deletion follows a soft one, and their effect on the table.
\<close>

section \<open>A confirmed record was applied\<close>

lemma consume_sent:
  "consume_message e depth w (message_of off key v) rd = process_message e depth w off key v (detect_keymode key rd)"
  by (auto simp: consume_message_def message_of_def blank_def Let_def split: option.split)

lemma process_message_ok:
  assumes "process_message e depth w off key v rd = (Inr (), rd2)" and "rd_greatest_offset rd2 \<noteq> rd_greatest_offset rd"
  shows "\<exists>rd1. handle_msg e depth key v rd = (Inr (), rd1) \<and> rd_database rd2 = rd_database rd1"
  using assms handle_msg_keeps [where rd = rd and e = e and depth = depth and key = key and v = v]
  by (auto simp: process_message_def handle_schema_reader_error_def case_prod_unfold Let_def prod_eq_iff
      split: sum.splits if_splits)

lemma send_message_applied:
  assumes "matches_log ev level strict rg" and "send_message ev key v rg = (Inr (), rg')"
  obtains key' rd0 rd1 where "format_key (rd_keymode (rg_reader rg)) None key = Inr key'"
    "rd_database rd0 = rg_db rg" "handle_msg (ev_ext ev) (ev_depth ev) key' v rd0 = (Inr (), rd1)" "rg_db rg' = rd_database rd1"
proof -
  from assms(2) obtain key' where key': "format_key (rd_keymode (rg_reader rg)) None key = Inr key'"
    and send: "send_kafka_message ev key' v rg = (Inr (), rg')"
    by (auto simp: send_message_def split: sum.splits)
  define msg where "msg = message_of (next_offset rg) key' v"
  let ?rd = "run_iteration (ev_ext ev) (ev_depth ev) (poll_of msg) (rg_reader rg)"
  have offset: "km_offset msg = next_offset rg" by (simp add: msg_def message_of_def)
  from send have rg': "rg_reader rg' = ?rd" and seen: "next_offset rg \<le> rd_greatest_offset ?rd"
    by (auto simp: send_kafka_message_def Let_def msg_def message_of_def wait_for_offset_def split: if_splits)
  have less: "rd_greatest_offset (rg_reader rg) < next_offset rg" using assms(1) by (simp add: matches_log_def)
  with seen have "rd_greatest_offset ?rd \<noteq> rd_greatest_offset (rg_reader rg)" by simp
  then obtain rd0 rd2 where "rsim rd0 (rg_reader rg)" and rd0: "rd_database rd0 = rg_db rg" "rd_greatest_offset rd0 = rd_greatest_offset (rg_reader rg)"
    and c: "consume_message (ev_ext ev) (ev_depth ev) True msg rd0 = (Inr (), rd2)"
    and rd2: "?rd = rd2\<lparr>rd_unexpected_errors := 0\<rparr>"
    and greatest: "rd_greatest_offset rd2 = max (rd_greatest_offset (rg_reader rg)) (km_offset msg)"
    by (rule run_iteration_seen)
  have "rd_greatest_offset rd2 \<noteq> rd_greatest_offset (detect_keymode key' rd0)"
    using greatest less offset rd0(2) by simp
  with c obtain rd1 where "handle_msg (ev_ext ev) (ev_depth ev) key' v (detect_keymode key' rd0) = (Inr (), rd1)"
    and "rd_database rd2 = rd_database rd1"
    unfolding msg_def consume_sent by (metis process_message_ok)
  moreover have "rd_database (detect_keymode key' rd0) = rg_db rg" using rd0(1) by (simp add: detect_keymode_def)
  ultimately show thesis using that key' rg' rd2 by simp
qed

lemma format_key_fields:
  assumes "format_key m None key = Inr key'" and "f \<in> {''keytype'', ''subject'', ''version'', ''magic''}"
  shows "dict_get key' f = dict_get key f"
proof (cases m)
  case CANONICAL
  with assms show ?thesis by (auto simp: format_key_canonical_eq split: option.splits)
next
  case DEPRECATED_KARAPACE
  with assms show ?thesis by (simp add: format_key_def)
qed

lemma handle_msg_schema_type:
  "dict_get key ''keytype'' = Some (JStr ''SCHEMA'') \<Longrightarrow>
     handle_msg e depth key v rd = (Inr (), rd1) \<longleftrightarrow> handle_msg_schema e depth key v rd = (Inr (), rd1)"
  by (auto simp: handle_msg_def message_type_of_def case_prod_unfold Let_def prod_eq_iff)

lemma with_result_Inr: "with_result m f rd = (Inr x, rd') \<longleftrightarrow> (\<exists>y. m = Inr y \<and> f y rd = (Inr x, rd'))"
  by (cases m) auto

lemma set_database_eq: "set_database db rd = (Inr (), rd') \<longleftrightarrow> rd' = rd\<lparr>rd_database := db\<rparr>"
  by (auto simp: set_database_def)

lemma schema_key_fields:
  assumes "format_key m None (schema_key s v) = Inr key"
  shows "dict_get key ''keytype'' = Some (JStr ''SCHEMA'')" "dict_get key ''subject'' = Some (JStr s)"
    "dict_get key ''version'' = Some (JInt (version_value v))"
  using format_key_fields [OF assms] by (simp_all add: schema_key_def)

lemma schema_value_fields:
  "dict_get (schema_value s v i d t str refs) ''schema'' = Some (JStr str)"
  "dict_get (schema_value s v i d t str refs) ''subject'' = Some (JStr s)"
  "dict_get (schema_value s v i d t str refs) ''id'' = Some (JInt i)"
  "dict_get (schema_value s v i d t str refs) ''version'' = Some (JInt (version_value v))"
  "dict_get (schema_value s v i d t str refs) ''deleted'' = Some (JBool d)"
  "dict_get (schema_value s v i d t str refs) ''references'' =
     (case refs of Some (r # rs) \<Rightarrow> Some (JArr (map ref_to_dict (r # rs))) | _ \<Rightarrow> None)"
  "(case dict_get (schema_value s v i d t str refs) ''schemaType'' of None \<Rightarrow> JStr ''AVRO'' | Some j \<Rightarrow> j) =
     JStr (schema_type_value t)"
  "\<exists>x xs. schema_value s v i d t str refs = x # xs"
  by (cases t; simp add: schema_value_def Let_def split: option.split list.split)+

lemma schema_type_round_trip [simp]: "schema_type_of (JStr (schema_type_value t)) = Inr t"
  by (cases t) (simp_all add: schema_type_of_def)

text \<open>A \<open>SCHEMA\<close> record with a value inserts the version it describes.\<close>

lemma schema_record_applied:
  assumes "matches_log ev level strict rg"
    and "send_schema_message ev s (Some (t, str)) i v d refs rg = (Inr (), rg')"
  obtains ts refs' where
    "read_typed_schema (ev_ext ev) (ev_depth ev) (rg_db rg) t (JStr str)
       (case refs of Some (r # rs) \<Rightarrow> Some (JArr (map ref_to_dict (r # rs))) | _ \<Rightarrow> None) = Inr (ts, refs')"
    "rg_db rg' = insert_schema_version (ev_ext ev) s i v d ts refs' (rg_db rg)"
proof -
  let ?written = "schema_value s v i d t str refs"
  from assms(2) have "send_message ev (schema_key s v) (Some ?written) rg = (Inr (), rg')"
    by (simp add: send_schema_message_def)
  then obtain key rd0 rd1 where key: "format_key (rd_keymode (rg_reader rg)) None (schema_key s v) = Inr key"
    and rd0: "rd_database rd0 = rg_db rg" and rg': "rg_db rg' = rd_database rd1"
    and h: "handle_msg (ev_ext ev) (ev_depth ev) key (Some ?written) rd0 = (Inr (), rd1)"
    by (rule send_message_applied [OF assms(1)])
  obtain x xs where cons: "?written = x # xs" using schema_value_fields(8) by blast
  from h [unfolded handle_msg_schema_type [OF schema_key_fields(1) [OF key]]]
  have "handle_msg_schema (ev_ext ev) (ev_depth ev) key (Some (x # xs)) rd0 = (Inr (), rd1)" unfolding cons .
  then show thesis
    unfolding handle_msg_schema_def Let_def option.case list.case
    using rd0 rg' schema_value_fields [of s v i d t str refs, unfolded cons]
    by (cases v) (auto simp: with_result_Inr set_database_eq except_raise_Inr intro: that)
qed

lemma flat_of_unknown:
  "find_subject s db = None \<Longrightarrow> flat_of db (s, v) = None"
  "dict_get (find_subject_schemas s True db) v = None \<Longrightarrow> flat_of db (s, v) = None"
  by (auto simp: flat_of_def find_subject_def find_subject_schemas_def split: option.splits if_splits)

lemma hard_delete_flat:
  assumes "handle_msg_schema_hard_delete e key rd = (Inr (), rd1)" and "dict_get key ''subject'' = Some (JStr s)"
    and "dict_get key ''version'' = Some (JInt (version_value v))"
  shows "flat_of (rd_database rd1) = (flat_of (rd_database rd))((s, v) := None)"
proof -
  have noop: "(flat_of db)((s, v) := None) = flat_of db" if "flat_of db (s, v) = None" for db
    using that by (simp add: fun_upd_idem)
  have last: "flat_of db'' = flat_of db'" if "find_subject_schemas s True db' = []" "delete_subject_hard s db' = Inr db''" for db' db''
    using flat_drop_subject [OF that(2)] that(1) by (auto simp: fun_eq_iff flat_of_def)
  have same: "db' = db''" if "rd\<lparr>rd_database := db'\<rparr> = rd\<lparr>rd_database := db''\<rparr>" for db' db''
    using that by (cases rd) simp
  from assms show ?thesis
    unfolding handle_msg_schema_hard_delete_def Let_def
    by (cases v)
       (auto simp: with_result_Inr set_database_eq noop flat_of_unknown last [symmetric] flat_drop_version [symmetric]
         dest!: same split: if_splits)
qed

lemma tombstone_applied:
  assumes "matches_log ev level strict rg" and "send_schema_message ev s None i v d refs rg = (Inr (), rg')"
  shows "flat_of (rg_db rg') = (flat_of (rg_db rg))((s, v) := None)"
proof -
  from assms(2) have "send_message ev (schema_key s v) None rg = (Inr (), rg')" by (simp add: send_schema_message_def)
  then obtain key rd0 rd1 where key: "format_key (rd_keymode (rg_reader rg)) None (schema_key s v) = Inr key"
    and rd0: "rd_database rd0 = rg_db rg" and rg': "rg_db rg' = rd_database rd1"
    and h: "handle_msg (ev_ext ev) (ev_depth ev) key None rd0 = (Inr (), rd1)"
    by (rule send_message_applied [OF assms(1)])
  from h [unfolded handle_msg_schema_type [OF schema_key_fields(1) [OF key]]]
  have "handle_msg_schema_hard_delete (ev_ext ev) key rd0 = (Inr (), rd1)" by (simp add: handle_msg_schema_def)
  from hard_delete_flat [OF this schema_key_fields(2,3) [OF key]] show ?thesis by (simp add: rd0 rg')
qed

section \<open>Registration\<close>

lemma reachable_log: "reg_reachable ev level strict rg \<Longrightarrow> matches_log ev level strict rg"
  by (rule logged.I_reachable [OF _ started_matches])

lemma started_reader_database: "rd_database (started_reader e depth level strict) = init_database"
  by (simp add: started_reader_def run_iteration_def handle_messages_def init_reader_def update_is_ready_flag_def
      is_ready_def get_beginning_offset_def OFFSET_UNINITIALIZED_def)

lemma reachable_db: "reg_reachable ev level strict rg \<Longrightarrow> db_ok (ev_ext ev) (rg_db rg)"
  by (rule okreg.I_reachable) (simp_all add: init_registry_def started_reader_database db_ok_init)

lemma take_schema_id_frame:
  "fst (take_schema_id s rg) = Inr (fst (get_schema_id s (rg_db rg)))"
  "rg_db (snd (take_schema_id s rg)) = snd (get_schema_id s (rg_db rg))"
  by (simp_all add: take_schema_id_def case_prod_unfold Let_def)

lemma get_schema_id_frame [simp]:
  "find_subject_schemas s b (snd (get_schema_id t db)) = find_subject_schemas s b db"
  "flat_of (snd (get_schema_id t db)) = flat_of db"
  by (auto simp: get_schema_id_def find_subject_schemas_def flat_of_def Let_def split: option.split)

lemma publish_version_cases:
  assumes "publish_version ev s new refs v rg = (Inr i, rg')"
  obtains rg1 where "take_schema_id (pts_typed new) rg = (Inr i, rg1)"
    "send_schema_message ev s (Some (ts_type (pts_typed new), pts_str (ev_ext ev) new)) i v False refs rg1 = (Inr (), rg')"
  using assms by (auto simp: publish_version_def abind_eq_Inr)

lemma publish_version_flat:
  assumes "matches_log ev level strict rg" and "publish_version ev s new refs v rg = (Inr i, rg')"
  shows "flat_of (rg_db rg') = (flat_of (rg_db rg))((s, v) \<mapsto> (i, False))"
proof -
  from assms(2) obtain rg1 where take: "take_schema_id (pts_typed new) rg = (Inr i, rg1)"
    and send: "send_schema_message ev s (Some (ts_type (pts_typed new), pts_str (ev_ext ev) new)) i v False refs rg1 = (Inr (), rg')"
    by (rule publish_version_cases)
  from logged.I_take [OF assms(1), of "pts_typed new"] take have "matches_log ev level strict rg1" by simp
  then obtain ts refs' where "rg_db rg' = insert_schema_version (ev_ext ev) s i v False ts refs' (rg_db rg1)"
    by (rule schema_record_applied [OF _ send])
  moreover have "flat_of (rg_db rg1) = flat_of (rg_db rg)"
    using take_schema_id_frame(2) [of "pts_typed new" rg] take by simp
  ultimately show ?thesis by (simp add: flat_insert)
qed

text \<open>
  C14: A successful registration of a schema that the subject does not have adds exactly one entry to
  the table of versions: a live version with the returned id, whose number is greater than every
  number the subject has used, deleted versions included; nothing else changes.
\<close>

theorem registration_adds_one_version:
  assumes "reg_reachable ev level strict rg" and "write_new_schema_local ev s new refs rg = (Inr i, rg')"
    and "get_schema_id_if_exists (ev_ext ev) s (pts_typed new) (rg_db rg) = None"
  shows "\<exists>v. flat_of (rg_db rg') = (flat_of (rg_db rg))((s, v) \<mapsto> (i, False)) \<and>
    (\<forall>w. flat_of (rg_db rg) (s, w) \<noteq> None \<longrightarrow> w < v)"
proof -
  note flat = publish_version_flat [OF reachable_log [OF assms(1)]]
  from assms(2) show ?thesis
  proof (cases rule: write_new_schema_cases)
    case first
    with flat [OF first(2)] show ?thesis by (auto simp: flat_of_def intro!: exI [of _ "Version 1"])
  next
    case (revived v)
    with flat [OF revived(4)] show ?thesis
      by (auto simp: flat_of_def intro!: exI [of _ v] get_next_version_greater [of s "rg_db rg"])
  next
    case (next_version v res)
    with flat [OF next_version(4)] show ?thesis
      by (auto simp: flat_of_def intro!: exI [of _ v] get_next_version_greater [of s "rg_db rg"])
  qed (use assms(3) in simp)
qed

lemma sample_registry_flat: "flat_of (rg_db sample_registry) (''s'', Version 1) = Some (1, False)"
  by code_simp

theorem registration_adds_one_version_witness:
  "\<exists>v. Version 1 < v \<and> flat_of (rg_db (snd (write_new_schema_local sample_env ''s'' (sample_schema ''b'') None sample_registry)))
     (''s'', v) = Some (2, False)"
proof -
  have run: "write_new_schema_local sample_env ''s'' (sample_schema ''b'') None sample_registry =
      (Inr 2, snd (write_new_schema_local sample_env ''s'' (sample_schema ''b'') None sample_registry))"
    by (metis sample_registry_eval prod.collapse)
  have "get_schema_id_if_exists (ev_ext sample_env) ''s'' (pts_typed (sample_schema ''b'')) (rg_db sample_registry) = None"
    using sample_registry_fresh by (simp add: sample_env_def sample_schema_def)
  from registration_adds_one_version [OF sample_registry_reachable run this]
  obtain v where "flat_of (rg_db (snd (write_new_schema_local sample_env ''s'' (sample_schema ''b'') None sample_registry))) =
      (flat_of (rg_db sample_registry))((''s'', v) \<mapsto> (2, False))"
    and "flat_of (rg_db sample_registry) (''s'', Version 1) \<noteq> None \<longrightarrow> Version 1 < v" by blast
  with sample_registry_flat show ?thesis by (auto intro!: exI [of _ v])
qed

text \<open>
  A text that the JSON codec reproduces: reading it, writing it with \<open>json.dumps\<close> as the reader does
  and normalising the result gives the text back. The normal form of a schema is such a text.
\<close>

definition canonical_text :: "('a, 'n, 'p, 'z) ext_scheme \<Rightarrow> string \<Rightarrow> bool" where
  "canonical_text e t =
     (case loads e t of
        None \<Rightarrow> False
      | Some x \<Rightarrow> (case loads e (std_dumps e x) of None \<Rightarrow> False | Some y \<Rightarrow> dumps e True y = t))"

lemma read_canonical:
  assumes "canonical_text e str" and "t \<noteq> PROTOBUF"
  shows "read_typed_schema e depth db t (JStr str) None = Inr (TypedSchema t str None None, None)"
  using assms
  by (cases t) (auto simp: canonical_text_def read_typed_schema_def read_references_def reencode_json_def json_decode_def
      json_encode_def mk_typed_schema_def except_raise_def split: option.splits)

lemma publish_version_index:
  assumes "matches_log ev level strict rg" and "db_ok (ev_ext ev) (rg_db rg)"
    and "publish_version ev s new None v rg = (Inr i, rg')"
    and "ts_type (pts_typed new) \<noteq> PROTOBUF" and "canonical_text (ev_ext ev) (ts_str (pts_typed new))"
    and "ts_references (pts_typed new) = None"
  shows "get_schema_id_if_exists (ev_ext ev) s (pts_typed new) (rg_db rg') = Some i"
proof -
  from assms(3) obtain rg1 where take: "take_schema_id (pts_typed new) rg = (Inr i, rg1)"
    and send: "send_schema_message ev s (Some (ts_type (pts_typed new), pts_str (ev_ext ev) new)) i v False None rg1 = (Inr (), rg')"
    by (rule publish_version_cases)
  from logged.I_take [OF assms(1), of "pts_typed new"] take have log: "matches_log ev level strict rg1" by simp
  have str: "pts_str (ev_ext ev) new = ts_str (pts_typed new)"
    using assms(4) by (simp add: pts_str_def split: schema_type.split parsed.split)
  from log obtain ts refs where read: "read_typed_schema (ev_ext ev) (ev_depth ev) (rg_db rg1) (ts_type (pts_typed new))
      (JStr (pts_str (ev_ext ev) new)) None = Inr (ts, refs)"
    and rg': "rg_db rg' = insert_schema_version (ev_ext ev) s i v False ts refs (rg_db rg1)"
    by (rule schema_record_applied [OF _ send, simplified])
  have ts: "ts = TypedSchema (ts_type (pts_typed new)) (ts_str (pts_typed new)) None None"
    using read unfolding str read_canonical [OF assms(5,4)] by simp
  have "fingerprint (ev_ext ev) ts = fingerprint (ev_ext ev) (pts_typed new)"
    using assms(6) by (simp add: ts fingerprint_def fingerprint_str_def)
  moreover have "cache_ok (ev_ext ev) (rg_db rg1)"
    using db_ok_get_schema_id [OF assms(2), of "pts_typed new"] take_schema_id_frame(2) [of "pts_typed new" rg] take
    by (simp add: db_ok_def)
  ultimately show ?thesis by (simp add: rg' index_insert)
qed



section \<open>Deletion\<close>

lemma check_not_referenced_ok: "check_not_referenced s v db = Inr () \<longleftrightarrow> referents s v db = {}"
  by (auto simp: check_not_referenced_def referents_def split: option.splits)

lemma version_delete_cases:
  assumes "subject_version_delete_local ev s v permanent rg = (Inr w, rg')" and "versions_ok (rg_db rg)"
  obtains sv where "dict_get (find_subject_schemas s True (rg_db rg)) w = Some sv" "sv_deleted sv = permanent"
    "referents s w (rg_db rg) = {}"
    "send_schema_message ev s (if permanent then None else Some (ts_type (sv_schema sv), ts_str (sv_schema sv)))
       (sv_schema_id sv) w True (sv_references sv) rg = (Inr (), rg')"
proof -
  let ?all = "find_subject_schemas s True (rg_db rg)"
  let ?svs = "if \<not> permanent \<and> is_latest v then filter (\<lambda>(v, sv). \<not> sv_deleted sv) ?all else ?all"
  from assms(1) obtain sv where sv: "dict_get ?svs w = Some sv" and "sv_deleted sv = permanent"
    and "referents s w (rg_db rg) = {}"
    and "send_schema_message ev s (if permanent then None else Some (ts_type (sv_schema sv), ts_str (sv_schema sv)))
       (sv_schema_id sv) w True (sv_references sv) rg = (Inr (), rg')"
    unfolding subject_version_delete_local_def subject_get_def Let_def
    by (auto simp: abind_eq_Inr check_not_referenced_ok split: option.splits if_splits)
  moreover have "dict_get ?all w = Some sv"
    using sv assms(2) by (auto simp: dict_get_filter versions_ok_def split: if_splits option.splits)
  ultimately show thesis using that by blast
qed



text \<open>Tombstones for all versions of a subject empty it.\<close>

lemma tombstones_applied:
  assumes "matches_log ev level strict rg" and "send_tombstones ev s svs rg = (Inr (), rg')"
  shows "flat_of (rg_db rg') = (\<lambda>(s', v). if s' = s \<and> v \<in> set (dict_keys svs) then None else flat_of (rg_db rg) (s', v))"
  using assms
proof (induction svs arbitrary: rg)
  case (Cons p svs)
  obtain v sv where p: "p = (v, sv)" by force
  with Cons.prems(2) obtain rg1 where send: "send_schema_message ev s None (sv_schema_id sv) v True (sv_references sv) rg = (Inr (), rg1)"
    and rest: "send_tombstones ev s svs rg1 = (Inr (), rg')" by (auto simp: abind_eq_Inr)
  have "matches_log ev level strict rg1"
    using logged.fine_sends(1) [OF Cons.prems(1), of s None "sv_schema_id sv" v True "sv_references sv"] send
    by (simp add: logged.fine_def)
  from Cons.IH [OF this rest] tombstone_applied [OF Cons.prems(1) send] show ?case by (auto simp: p fun_eq_iff)
qed auto

lemma rfold_unit_check: "rfold (\<lambda>x _. f x) xs () = Inr () \<longleftrightarrow> (\<forall>x \<in> set xs. f x = Inr ())"
  by (induction xs) auto


text \<open>The sample registry with its only version soft deleted.\<close>

definition sample_deleted :: registry where
  "sample_deleted = snd (perform sample_env (DeleteSubject ''s'' False) sample_registry)"

lemma sample_deleted_reachable: "reg_reachable sample_env (JStr ''BACKWARD'') False sample_deleted"
proof (rule reg_reachable.step [OF sample_registry_reachable])
  have "fst (perform sample_env (DeleteSubject ''s'' False) sample_registry) = Inr ()" by code_simp
  then show "perform sample_env (DeleteSubject ''s'' False) sample_registry = (Inr (), sample_deleted)"
    unfolding sample_deleted_def by (metis prod.collapse)
qed simp


lemma delete_subject_record_applied:
  assumes "matches_log ev level strict rg" and "send_delete_subject_message ev s v rg = (Inr (), rg')"
    and "find_subject s (rg_db rg) \<noteq> None"
  shows "delete_subject (ev_ext ev) s v (rg_db rg) = Inr (rg_db rg')"
proof -
  let ?key = "[(''subject'', JStr s), (''magic'', JInt 0), (''keytype'', JStr ''DELETE_SUBJECT'')]"
  let ?d = "[(''subject'', JStr s), (''version'', JInt (version_value v))]"
  from assms(2) have "send_message ev ?key (Some ?d) rg = (Inr (), rg')" by (simp add: send_delete_subject_message_def)
  then obtain key rd0 rd1 where key: "format_key (rd_keymode (rg_reader rg)) None ?key = Inr key"
    and rd0: "rd_database rd0 = rg_db rg" and rg': "rg_db rg' = rd_database rd1"
    and h: "handle_msg (ev_ext ev) (ev_depth ev) key (Some ?d) rd0 = (Inr (), rd1)"
    by (rule send_message_applied [OF assms(1)])
  from format_key_fields [OF key] have "dict_get key ''keytype'' = Some (JStr ''DELETE_SUBJECT'')" by simp
  with h have "handle_msg_delete_subject (ev_ext ev) key (Some ?d) rd0 = (Inr (), rd1)"
    by (auto simp: handle_msg_def message_type_of_def case_prod_unfold Let_def prod_eq_iff)
  with assms(3) rd0 rg' show ?thesis
    by (cases v) (auto simp: handle_msg_delete_subject_def with_result_Inr set_database_eq split: if_splits)
qed

text \<open>
  A soft deletion of a subject returns its live versions and marks the versions up to the last of
  them as deleted; it requires that the subject has a live version and that no schema refers to the
  last one.
\<close>

theorem subject_delete_soft_spec:
  assumes "reg_reachable ev level strict rg" and "subject_delete_local ev s False rg = (Inr ws, rg')"
  shows "ws = dict_keys (find_subject_schemas s False (rg_db rg)) \<and> ws \<noteq> [] \<and> referents s (last ws) (rg_db rg) = {} \<and>
    flat_of (rg_db rg') = flat_soft_delete s (last ws) (flat_of (rg_db rg))"
proof -
  let ?all = "find_subject_schemas s True (rg_db rg)" and ?live = "find_subject_schemas s False (rg_db rg)"
  have "find_subject s (rg_db rg) \<noteq> None" and all: "?all \<noteq> []"
    and live: "\<not> length ?all = length (filter (\<lambda>(v, sv). sv_deleted sv) ?all)"
    and soft: "subject_delete_softly ev s rg = (Inr ws, rg')"
    using assms(2) by (auto simp: subject_delete_local_def subject_get_def abind_eq_Inr Let_def split: if_splits)
  have nonempty: "?live \<noteq> []"
  proof
    assume "?live = []"
    then have "filter (\<lambda>(v, sv). sv_deleted sv) ?all = ?all"
      by (intro filter_True) (auto simp: find_subject_schemas_live filter_empty_conv)
    with live show False by simp
  qed
  with soft \<open>find_subject s _ \<noteq> None\<close> have ws: "ws = dict_keys ?live" and ref: "referents s (last ws) (rg_db rg) = {}"
    and send: "send_delete_subject_message ev s (last ws) rg = (Inr (), rg')"
    by (auto simp: subject_delete_softly_def subject_get_def abind_eq_Inr Let_def check_not_referenced_ok)
  from delete_subject_record_applied [OF reachable_log [OF assms(1)] send \<open>find_subject s _ \<noteq> None\<close>]
  have "flat_of (rg_db rg') = flat_soft_delete s (last ws) (flat_of (rg_db rg))"
    by (rule flat_soft [OF reachable_db [OF assms(1)]])
  with ws ref nonempty show ?thesis by simp
qed

theorem subject_delete_soft_spec_witness:
  "flat_of (rg_db (snd (subject_delete_local sample_env ''s'' False sample_registry))) (''s'', Version 1) = Some (1, True)"
proof -
  have "fst (subject_delete_local sample_env ''s'' False sample_registry) = Inr [Version 1]" by code_simp
  then have "subject_delete_local sample_env ''s'' False sample_registry =
      (Inr [Version 1], snd (subject_delete_local sample_env ''s'' False sample_registry))" by (metis prod.collapse)
  from subject_delete_soft_spec [OF sample_registry_reachable this] sample_registry_flat show ?thesis
    by (simp add: flat_soft_delete_def)
qed

text \<open>
  Deleting \<open>latest\<close> of a subject whose versions are all soft deleted is not answered with one of
  the errors of the API: the maximum of an empty dictionary raises \<open>ValueError\<close>.
\<close>

theorem delete_latest_of_deleted_subject:
  assumes "find_subject_schemas s True (rg_db rg) \<noteq> []" and "find_subject_schemas s False (rg_db rg) = []"
  shows "subject_version_delete_local ev s (Version (-1)) False rg = (Inl ValueError, rg)"
proof -
  from assms(1) have "find_subject s (rg_db rg) \<noteq> None"
    by (auto simp: find_subject_def find_subject_schemas_def split: option.splits)
  with assms show ?thesis
    by (auto simp: subject_version_delete_local_def subject_get_def is_latest_def MINUS_1_VERSION_TAG_def abind_def aresult_def
        find_subject_schemas_live from_schema_versions_def max_key_def Let_def)
qed

theorem delete_latest_of_deleted_subject_witness:
  "fst (subject_version_delete_local sample_env ''s'' (Version (-1)) False sample_deleted) = Inl ValueError"
proof -
  have "find_subject_schemas ''s'' True (rg_db sample_deleted) \<noteq> []" by code_simp
  moreover have "find_subject_schemas ''s'' False (rg_db sample_deleted) = []" by code_simp
  ultimately show ?thesis by (simp add: delete_latest_of_deleted_subject)
qed

text \<open>Two versions of a subject, the first of which another subject refers to.\<close>

definition referenced_registry :: registry where
  "referenced_registry =
     snd (perform sample_env (RegisterSchema ''r'' (sample_schema ''c'') (Some [Reference ''n'' ''s'' (Version 1)]))
       (snd (perform sample_env (RegisterSchema ''s'' (sample_schema ''b'') None) sample_registry)))"

text \<open>
  A soft deletion of a subject looks for references to the last live version only: here it
  deletes a version that another subject refers to.
\<close>

theorem soft_delete_ignores_older_references:
  "referents ''s'' (Version 1) (rg_db referenced_registry) = {3} \<and>
   fst (subject_delete_local sample_env ''s'' False referenced_registry) = Inr [Version 1, Version 2]"
proof
  show "referents ''s'' (Version 1) (rg_db referenced_registry) = {3}" by code_simp
  show "fst (subject_delete_local sample_env ''s'' False referenced_registry) = Inr [Version 1, Version 2]" by code_simp
qed

end
