(* ===== verification/Authorization.thy ===== *)
theory Authorization
  imports Json_Schema_Utils Schema_Models
begin

text \<open>
  \<open>karapace/core/auth.py\<close>: users and their password hashes, access control entries, the check of an
  operation on a resource, and the authorizer that reloads its rules when the file changes.

  The hash functions of \<open>hashlib\<close> and the regular expressions of \<open>re\<close> are the fields of the record
  \<open>authx\<close>. The file is JSON whose fields are not checked when it is read, so a field of a user is a
  JSON value here too; the type error of a field that is not a string appears where the code meets
  it. The log lines of a reload are left out.
\<close>

section \<open>Data\<close>

datatype operation = Read | Write

definition operation_of :: "json \<Rightarrow> operation res" where
  "operation_of j = (if j = JStr ''Read'' then Inr Read else if j = JStr ''Write'' then Inr Write else Inl ValueError)"

datatype hash_algorithm = SHA1 | SHA256 | SHA512 | SCRYPT

fun hash_algorithm_value :: "hash_algorithm \<Rightarrow> string" where
  "hash_algorithm_value SHA1 = ''sha1''"
| "hash_algorithm_value SHA256 = ''sha256''"
| "hash_algorithm_value SHA512 = ''sha512''"
| "hash_algorithm_value SCRYPT = ''scrypt''"

definition hash_algorithm_of :: "json \<Rightarrow> hash_algorithm res" where
  "hash_algorithm_of j =
     (case find (\<lambda>a. j = JStr (hash_algorithm_value a)) [SHA1, SHA256, SHA512, SCRYPT] of
        Some a \<Rightarrow> Inr a | None \<Rightarrow> Inl ValueError)"

text \<open>
  \<open>pbkdf2_hmac name password salt iterations\<close> and \<open>scrypt password salt n r p\<close> return the Base64 text
  of the digest. A compiled pattern is an element of \<open>'r\<close>.
\<close>

record 'r authx =
  pbkdf2_hmac :: "string \<Rightarrow> string \<Rightarrow> string \<Rightarrow> nat \<Rightarrow> string"
  scrypt :: "string \<Rightarrow> string \<Rightarrow> nat \<Rightarrow> nat \<Rightarrow> nat \<Rightarrow> string"
  re_compile :: "string \<Rightarrow> 'r option"
  re_match :: "'r \<Rightarrow> string \<Rightarrow> bool"

record user =
  us_username :: json
  us_algorithm :: hash_algorithm
  us_salt :: json
  us_password_hash :: json

record 'r acl_entry =
  ac_username :: json
  ac_operation :: operation
  ac_resource :: 'r

section \<open>Passwords\<close>

definition hash_password :: "'r authx \<Rightarrow> hash_algorithm \<Rightarrow> string \<Rightarrow> string \<Rightarrow> string" where
  "hash_password ax algorithm salt plaintext_password =
     (if algorithm \<in> {SHA1, SHA256, SHA512}
      then pbkdf2_hmac ax (hash_algorithm_value algorithm) plaintext_password salt 5000
      else scrypt ax plaintext_password salt 16384 8 1)"

text \<open>
  \<open>compare_digest\<close> raises \<open>TypeError\<close> for a text with a character that is not ASCII and for a value
  that is not a string; the digest is ASCII.
\<close>

definition is_ascii :: "string \<Rightarrow> bool" where
  "is_ascii s \<longleftrightarrow> list_all (\<lambda>c. of_char c < (128 :: nat)) s"

definition compare_password :: "'r authx \<Rightarrow> user \<Rightarrow> string \<Rightarrow> bool res" where
  "compare_password ax u plaintext_password =
     (case us_salt u of
        JStr salt \<Rightarrow>
          (case us_password_hash u of
             JStr h \<Rightarrow>
               if is_ascii h then Inr (h = hash_password ax (us_algorithm u) salt plaintext_password) else Inl TypeError
           | _ \<Rightarrow> Inl TypeError)
      | _ \<Rightarrow> Inl TypeError)"

section \<open>The authorizers\<close>

text \<open>
  The keys of \<open>user_db\<close> are the values of \<open>username\<close>: unhashable ones raise, equal numbers are one key.
\<close>

fun hash_key :: "json \<Rightarrow> json res" where
  "hash_key (JArr xs) = Inl TypeError"
| "hash_key (JObj d) = Inl TypeError"
| "hash_key (JBool b) = Inr (JFloat (of_bool b))"
| "hash_key (JInt i) = Inr (JFloat (of_int i))"
| "hash_key j = Inr j"

record 'r authorizer =
  az_user_db :: "(json, user) dict"
  az_permissions :: "'r acl_entry list"
  az_auth_mtime :: rat
  az_refreshing :: bool

definition init_authorizer :: "'r authorizer" where
  "init_authorizer = \<lparr>az_user_db = [], az_permissions = [], az_auth_mtime = -1, az_refreshing = False\<rparr>"

definition get_user :: "'r authorizer \<Rightarrow> string \<Rightarrow> user option" where
  "get_user az username = dict_get (az_user_db az) (JStr username)"

definition check_resources :: "'r authx \<Rightarrow> string list \<Rightarrow> 'r acl_entry \<Rightarrow> bool" where
  "check_resources ax resources aclentry = list_ex (re_match ax (ac_resource aclentry)) resources"

definition check_operation :: "operation \<Rightarrow> 'r acl_entry \<Rightarrow> bool" where
  "check_operation op aclentry \<longleftrightarrow> op = Read \<or> ac_operation aclentry = Write"

definition check_authorization :: "'r authx \<Rightarrow> 'r authorizer \<Rightarrow> user option \<Rightarrow> operation \<Rightarrow> string \<Rightarrow> bool" where
  "check_authorization ax az user op resource =
     (case user of
        None \<Rightarrow> False
      | Some u \<Rightarrow>
          list_ex (\<lambda>aclentry. py_eq (ac_username aclentry) (us_username u) \<and> check_operation op aclentry \<and>
            check_resources ax [resource] aclentry) (az_permissions az))"

definition check_authorization_any ::
    "'r authx \<Rightarrow> 'r authorizer \<Rightarrow> user option \<Rightarrow> operation \<Rightarrow> string list \<Rightarrow> bool" where
  "check_authorization_any ax az user op resources =
     (case user of
        None \<Rightarrow> False
      | Some u \<Rightarrow>
          list_ex (\<lambda>aclentry. py_eq (ac_username aclentry) (us_username u) \<and> check_operation op aclentry \<and>
            check_resources ax resources aclentry) (az_permissions az))"

definition authenticate :: "'r authx \<Rightarrow> 'r authorizer \<Rightarrow> string \<Rightarrow> string \<Rightarrow> user res" where
  "authenticate ax az username password =
     (case get_user az username of
        None \<Rightarrow> Inl AuthenticationError
      | Some u \<Rightarrow>
          rbind (compare_password ax u password) (\<lambda>matches. if matches then Inr u else Inl AuthenticationError))"

text \<open>\<open>NoAuthAndAuthz\<close>.\<close>

definition no_auth_authenticate :: "string \<Rightarrow> string \<Rightarrow> user option" where
  "no_auth_authenticate username password = None"

definition no_auth_check_authorization :: "user option \<Rightarrow> operation \<Rightarrow> string \<Rightarrow> bool" where
  "no_auth_check_authorization user op resource = True"

definition no_auth_check_authorization_any :: "user option \<Rightarrow> operation \<Rightarrow> string list \<Rightarrow> bool" where
  "no_auth_check_authorization_any user op resources = True"

section \<open>The authentication file\<close>

text \<open>Iteration over a JSON value.\<close>

fun py_iter :: "json \<Rightarrow> json list res" where
  "py_iter (JArr xs) = Inr xs"
| "py_iter (JObj d) = Inr (map (\<lambda>(k, v). JStr k) d)"
| "py_iter (JStr s) = Inr (map (\<lambda>c. JStr [c]) s)"
| "py_iter _ = Inl TypeError"

definition read_user :: "json \<Rightarrow> (json \<times> user) res" where
  "read_user j =
     rbind (jindex j ''username'') (\<lambda>username.
     rbind (hash_key username) (\<lambda>key.
     rbind (rbind (jindex j ''algorithm'') hash_algorithm_of) (\<lambda>algorithm.
     rbind (jindex j ''salt'') (\<lambda>salt.
     rbind (jindex j ''password_hash'') (\<lambda>password_hash.
       Inr (key, \<lparr>us_username = username, us_algorithm = algorithm, us_salt = salt, us_password_hash = password_hash\<rparr>))))))"

definition read_acl_entry :: "'r authx \<Rightarrow> json \<Rightarrow> 'r acl_entry res" where
  "read_acl_entry ax j =
     rbind (jindex j ''username'') (\<lambda>username.
     rbind (rbind (jindex j ''operation'') operation_of) (\<lambda>op.
     rbind (jindex j ''resource'') (\<lambda>resource.
     rbind (case resource of JStr p \<Rightarrow> of_option ValueError (re_compile ax p) | _ \<Rightarrow> Inl TypeError) (\<lambda>pattern.
       Inr \<lparr>ac_username = username, ac_operation = op, ac_resource = pattern\<rparr>))))"

text \<open>The two comprehensions of \<open>_load_authfile\<close>.\<close>

definition read_authdata :: "'r authx \<Rightarrow> json \<Rightarrow> ((json, user) dict \<times> 'r acl_entry list) res" where
  "read_authdata ax authdata =
     rbind (rbind (jindex authdata ''users'') py_iter) (\<lambda>us.
     rbind (rfold (\<lambda>j d. rbind (read_user j) (\<lambda>(k, u). Inr (dict_set d k u))) us []) (\<lambda>users.
     rbind (rbind (jindex authdata ''permissions'') py_iter) (\<lambda>ps.
     rbind (rfold (\<lambda>j acc. rbind (read_acl_entry ax j) (\<lambda>a. Inr (acc @ [a]))) ps []) (\<lambda>permissions.
       Inr (users, permissions)))))"

text \<open>What the file system returns: the modification time and the content, each possibly an error.\<close>

record file_state =
  fs_mtime :: "rat option"
  fs_content :: "string option"

definition parse_authfile ::
    "('a, 'n, 'p, 'z) ext_scheme \<Rightarrow> 'r authx \<Rightarrow> file_state \<Rightarrow> ((json, user) dict \<times> 'r acl_entry list \<times> rat) option" where
  "parse_authfile e ax f =
     (case (fs_mtime f, fs_content f) of
        (Some mtime, Some content) \<Rightarrow>
          (case rbind (json_decode e content) (read_authdata ax) of
             Inr (users, permissions) \<Rightarrow> Some (users, permissions, mtime)
           | Inl _ \<Rightarrow> None)
      | _ \<Rightarrow> None)"

definition load_authfile ::
    "('a, 'n, 'p, 'z) ext_scheme \<Rightarrow> 'r authx \<Rightarrow> file_state \<Rightarrow> 'r authorizer \<Rightarrow> unit res \<times> 'r authorizer" where
  "load_authfile e ax f az =
     (case parse_authfile e ax f of
        Some (users, permissions, mtime) \<Rightarrow>
          (Inr (), az\<lparr>az_user_db := users, az_permissions := permissions, az_auth_mtime := mtime\<rparr>)
      | None \<Rightarrow> (Inl InvalidConfiguration, az))"

section \<open>Reloading\<close>

text \<open>
  What the watcher of the file reports: a change (possibly a deletion, after which the watch is set up
  again), an exception of the watcher itself, or the cancellation of the task.
\<close>

datatype watch_event = FileChanged file_state | WatchError | WatchCancelled

definition start_authorizer ::
    "('a, 'n, 'p, 'z) ext_scheme \<Rightarrow> 'r authx \<Rightarrow> file_state \<Rightarrow> 'r authorizer \<Rightarrow> unit res \<times> 'r authorizer" where
  "start_authorizer e ax f az =
     (case load_authfile e ax f az of
        (Inl x, az') \<Rightarrow> (Inl x, az')
      | (Inr _, az') \<Rightarrow> (Inr (), az'\<lparr>az_refreshing := True\<rparr>))"

fun refresh_authfile ::
    "('a, 'n, 'p, 'z) ext_scheme \<Rightarrow> 'r authx \<Rightarrow> watch_event list \<Rightarrow> 'r authorizer \<Rightarrow> 'r authorizer" where
  "refresh_authfile e ax [] az = az"
| "refresh_authfile e ax (FileChanged f # evs) az = refresh_authfile e ax evs (snd (load_authfile e ax f az))"
| "refresh_authfile e ax (WatchError # evs) az = az\<lparr>az_refreshing := False\<rparr>"
| "refresh_authfile e ax (WatchCancelled # evs) az = az\<lparr>az_refreshing := False\<rparr>"

definition close_authorizer :: "'r authorizer \<Rightarrow> 'r authorizer" where
  "close_authorizer az = az\<lparr>az_refreshing := False\<rparr>"

section \<open>The contract of an authorizer\<close>

locale authorization =
  fixes check :: "user option \<Rightarrow> operation \<Rightarrow> string \<Rightarrow> bool"
    and check_any :: "user option \<Rightarrow> operation \<Rightarrow> string list \<Rightarrow> bool"
  assumes any_some: "rs \<noteq> [] \<Longrightarrow> check_any u op rs \<longleftrightarrow> (\<exists>r \<in> set rs. check u op r)"
    and write_implies_read: "check u Write r \<Longrightarrow> check u Read r"
begin

lemma read_weakest: "check u op r \<Longrightarrow> check u Read r"
  by (cases op) (auto intro: write_implies_read)

lemma any_single: "check_any u op [r] \<longleftrightarrow> check u op r"
  by (simp add: any_some)

lemma any_mono: "check_any u op rs \<Longrightarrow> rs \<noteq> [] \<Longrightarrow> set rs \<subseteq> set rs' \<Longrightarrow> check_any u op rs'"
  by (cases "rs' = []") (auto simp: any_some)

lemma visible_filter: "filter (check u Write) rs = filter (check u Write) (filter (check u Read) rs)"
  by (induction rs) (auto dest: write_implies_read)

end

interpretation acl: authorization "check_authorization ax az" "check_authorization_any ax az"
  for ax :: "'r authx" and az :: "'r authorizer"
  by unfold_locales
     (auto simp: check_authorization_def check_authorization_any_def check_resources_def check_operation_def list_ex_iff
        split: option.splits)

interpretation no_auth: authorization no_auth_check_authorization no_auth_check_authorization_any
  by unfold_locales
     (auto simp: no_auth_check_authorization_def no_auth_check_authorization_any_def neq_Nil_conv)

section \<open>Properties\<close>

text \<open>Every user is stored under the key of its own name.\<close>

definition users_ok :: "'r authorizer \<Rightarrow> bool" where
  "users_ok az \<longleftrightarrow> (\<forall>k u. dict_get (az_user_db az) k = Some u \<longrightarrow> hash_key (us_username u) = Inr k)"

lemma read_user_key: "read_user j = Inr (k, u) \<Longrightarrow> hash_key (us_username u) = Inr k"
  by (auto simp: read_user_def)

lemma read_authdata_users:
  assumes "read_authdata ax j = Inr (users, permissions)" and "dict_get users k = Some u"
  shows "hash_key (us_username u) = Inr k"
proof -
  from assms(1) obtain us where "rfold (\<lambda>j d. rbind (read_user j) (\<lambda>(k, u). Inr (dict_set d k u))) us [] = Inr users"
    by (auto simp: read_authdata_def)
  then have "\<forall>k u. dict_get users k = Some u \<longrightarrow> hash_key (us_username u) = Inr k"
    by (rule rfold_invariant) (auto dest!: read_user_key split: if_splits)
  with assms(2) show ?thesis by blast
qed

lemma load_authfile_users_ok: "users_ok az \<Longrightarrow> users_ok (snd (load_authfile e ax f az))"
  by (auto simp: users_ok_def load_authfile_def parse_authfile_def dest: read_authdata_users split: option.splits sum.splits)

lemma refresh_users_ok: "users_ok az \<Longrightarrow> users_ok (refresh_authfile e ax evs az)"
  by (induction e ax evs az rule: refresh_authfile.induct)
     (auto simp: load_authfile_users_ok, simp_all add: users_ok_def)

lemma hash_key_str [simp]: "hash_key j = Inr (JStr s) \<longleftrightarrow> j = JStr s"
  by (cases j) auto

lemma py_eq_str [simp]: "py_eq j (JStr s) \<longleftrightarrow> j = JStr s"
  by (cases j) auto

end
