(* ===== verification/Authorization_Properties.thy ===== *)
theory Authorization_Properties
  imports Authorization Database_Properties
begin

text \<open>
  What the authorizer guarantees: access only by a rule of the file in force for the authenticated
  user, and a file in force that is always one whole readable file.
\<close>

section \<open>Access\<close>


text \<open>One user with one rule; a pattern is the literal resource, a hash is the password itself.\<close>

definition sample_authx :: "string authx" where
  "sample_authx = \<lparr>pbkdf2_hmac = (\<lambda>_ p _ _. p), scrypt = (\<lambda>p _ _ _ _. p), re_compile = Some, re_match = (=)\<rparr>"

definition sample_authdata :: json where
  "sample_authdata = JObj
     [(''users'', JArr [JObj [(''username'', JStr ''u''), (''algorithm'', JStr ''sha512''), (''salt'', JStr ''x''),
                             (''password_hash'', JStr ''pw'')]]),
      (''permissions'', JArr [JObj [(''username'', JStr ''u''), (''operation'', JStr ''Write''), (''resource'', JStr ''Subject:s'')]])]"

definition sample_auth_ext :: "(unit, unit, unit) ext" where
  "sample_auth_ext = sample_ext\<lparr>loads := (\<lambda>_. Some sample_authdata)\<rparr>"

definition sample_authorizer :: "string authorizer" where
  "sample_authorizer =
     snd (start_authorizer sample_auth_ext sample_authx \<lparr>fs_mtime = Some 1, fs_content = Some []\<rparr> init_authorizer)"

lemma sample_authorizer_eval:
  "start_authorizer sample_auth_ext sample_authx \<lparr>fs_mtime = Some 1, fs_content = Some []\<rparr> init_authorizer =
     (Inr (), sample_authorizer)"
  "authenticate sample_authx sample_authorizer ''u'' ''pw'' =
     Inr \<lparr>us_username = JStr ''u'', us_algorithm = SHA512, us_salt = JStr ''x'', us_password_hash = JStr ''pw''\<rparr>"
  by code_simp+


section \<open>Reloading\<close>

definition rules :: "'r authorizer \<Rightarrow> (json, user) dict \<times> 'r acl_entry list" where
  "rules az = (az_user_db az, az_permissions az)"

definition event_rules ::
    "('a, 'n, 'p, 'z) ext_scheme \<Rightarrow> 'r authx \<Rightarrow> watch_event \<Rightarrow> ((json, user) dict \<times> 'r acl_entry list) option" where
  "event_rules e ax ev =
     (case ev of FileChanged f \<Rightarrow> map_option (\<lambda>(us, ps, m). (us, ps)) (parse_authfile e ax f) | _ \<Rightarrow> None)"

definition is_change :: "watch_event \<Rightarrow> bool" where
  "is_change ev \<longleftrightarrow> (case ev of FileChanged _ \<Rightarrow> True | _ \<Rightarrow> False)"

text \<open>
  The users and rules in force are those of the last readable file: a file that cannot be read
  leaves both as they were, users and rules never come from different files, and an error of the
  watcher ends the reloading.
\<close>

theorem rules_of_last_readable_file:
  "rules (refresh_authfile e ax evs az) =
     last (rules az # List.map_filter (event_rules e ax) (takeWhile is_change evs))"
proof (induction e ax evs az rule: refresh_authfile.induct)
  case (2 e ax f evs az)
  then show ?case
    by (cases "parse_authfile e ax f")
       (auto simp: List.map_filter_simps is_change_def event_rules_def load_authfile_def rules_def)
qed (simp_all add: List.map_filter_simps is_change_def rules_def)

end
