(* ===== verification/Py_Strings.thy ===== *)
theory Py_Strings
  imports Schema_Models "HOL-Library.Sublist"
begin

text \<open>
  Methods of Python's \<open>str\<close> that several components use: splitting at a character, replacing, upper
  case, prefixes and suffixes, with the law that joining undoes splitting. \<open>join_with\<close>, \<open>py_strip\<close> and
  \<open>py_int\<close> are in \<open>Schema_Models\<close>.
\<close>

section \<open>Strings\<close>

text \<open>\<open>s.split(c)\<close> for a one-character separator.\<close>

fun py_split :: "char \<Rightarrow> string \<Rightarrow> string list" where
  "py_split c [] = [[]]"
| "py_split c (x # xs) =
     (case py_split c xs of
        [] \<Rightarrow> [[x]]
      | y # ys \<Rightarrow> if x = c then [] # y # ys else (x # y) # ys)"

text \<open>\<open>s.replace(old, new)\<close> for a text \<open>old\<close> that is not empty: occurrences from the left, without overlap.\<close>

function py_replace :: "string \<Rightarrow> string \<Rightarrow> string \<Rightarrow> string" where
  "py_replace old new s =
     (case s of
        [] \<Rightarrow> []
      | c # cs \<Rightarrow>
          if old \<noteq> [] \<and> prefix old s then new @ py_replace old new (drop (length old) s)
          else c # py_replace old new cs)"
  by pat_completeness auto
termination by (relation "measure (\<lambda>(old, new, s). length s)") (auto simp: prefix_def)

declare py_replace.simps [simp del]

text \<open>\<open>s.upper()\<close> on an HTTP method, whose characters are ASCII.\<close>

definition upper_char :: "char \<Rightarrow> char" where
  "upper_char c = (let n = (of_char c :: nat) in if 97 \<le> n \<and> n \<le> 122 then char_of (n - 32) else c)"

definition py_upper :: "string \<Rightarrow> string" where
  "py_upper s = map upper_char s"

text \<open>\<open>s.lower()\<close> on ASCII characters.\<close>

definition lower_char :: "char \<Rightarrow> char" where
  "lower_char c = (let n = (of_char c :: nat) in if 65 \<le> n \<and> n \<le> 90 then char_of (n + 32) else c)"

definition py_lower :: "string \<Rightarrow> string" where
  "py_lower s = map lower_char s"

lemma py_split_not_Nil [simp]: "py_split c s \<noteq> []"
  by (induction s) (auto split: list.splits)

text \<open>Splitting and joining are inverse to each other.\<close>

lemma join_with_cons: "join_with sep ((x # y) # ys) = x # join_with sep (y # ys)"
  by (cases ys) simp_all

lemma join_split: "join_with [c] (py_split c s) = s"
  by (induction s) (auto simp: join_with_cons split: list.splits)

text \<open>\<open>s.startswith(p)\<close>, \<open>s.endswith(p)\<close>, \<open>p in s\<close> and \<open>s[:-n]\<close>.\<close>

definition startswith :: "string \<Rightarrow> string \<Rightarrow> bool" where
  "startswith s p \<longleftrightarrow> take (length p) s = p"

definition endswith :: "string \<Rightarrow> string \<Rightarrow> bool" where
  "endswith s p \<longleftrightarrow> drop (length s - length p) s = p"

fun contains_text :: "string \<Rightarrow> string \<Rightarrow> bool" where
  "contains_text [] p \<longleftrightarrow> p = []"
| "contains_text (c # cs) p \<longleftrightarrow> startswith (c # cs) p \<or> contains_text cs p"

definition drop_last :: "nat \<Rightarrow> string \<Rightarrow> string" where
  "drop_last n s = take (length s - n) s"

end
