(* ===== verification/Oidc_Middleware.thy ===== *)
theory Oidc_Middleware
  imports Authorization_Properties Py_Strings
begin

text \<open>
  \<open>karapace/api/oidc/middleware.py\<close> and the HTTP middleware of \<open>api/middlewares/__init__.py\<close>: bearer
  tokens, roles and the decision whether a request reaches its handler. The library that checks the
  signature of a token is the parameter \<open>decode\<close>: it gets the audiences and the issuer and returns
  the claims, the library's \<open>InvalidTokenError\<close>, or another exception.
\<close>

section \<open>Configuration\<close>

record oidc_config =
  oc_jwks_url :: "string option"
  oc_issuer :: "string option"
  oc_audience :: "string option"
  oc_authorization_enabled :: bool
  oc_client_id :: "string option"
  oc_method_roles :: "(string, string list) dict"
  oc_roles_claim_path :: "string option"
  oc_skip_auth_paths :: "string list"

text \<open>Truthiness of an optional string.\<close>

definition present :: "string option \<Rightarrow> bool" where
  "present x \<longleftrightarrow> x \<noteq> None \<and> x \<noteq> Some []"

datatype http_failure = HttpFailure nat | ConfigValueError | UnhandledError

text \<open>
  \<open>OIDCMiddleware.__init__\<close>. The methods that \<open>method_roles\<close> must define are computed from
  \<open>method_roles\<close> itself.
\<close>

definition oidc_init :: "oidc_config \<Rightarrow> http_failure + unit" where
  "oidc_init c =
     (if \<not> present (oc_jwks_url c) then Inr ()
      else if \<not> present (oc_issuer c) \<or> \<not> present (oc_audience c) then Inl ConfigValueError
      else if oc_authorization_enabled c \<and> (oc_client_id c = None \<or> oc_roles_claim_path c = None)
      then Inl (HttpFailure 403)
      else if oc_authorization_enabled c \<and>
              (let required_http_methods = set (dict_keys (oc_method_roles c))
               in required_http_methods - set (dict_keys (oc_method_roles c)) \<noteq> {})
      then Inl (HttpFailure 500)
      else Inr ())"

section \<open>Tokens and roles\<close>

datatype jwt_outcome = Claims "(string, json) dict" | InvalidToken | OtherError

type_synonym jwt_decode = "string list option \<Rightarrow> string option \<Rightarrow> string \<Rightarrow> jwt_outcome"

datatype token_failure = TokenRejected | TokenUnhandled

definition validate_jwt :: "oidc_config \<Rightarrow> jwt_decode \<Rightarrow> string \<Rightarrow> token_failure + (string, json) dict" where
  "validate_jwt c decode token =
     (if \<not> present (oc_jwks_url c) then Inr []
      else
        let audiences = (case oc_audience c of
                           None \<Rightarrow> None
                         | Some a \<Rightarrow> if a = [] then None
                                     else Some (filter (\<lambda>x. x \<noteq> []) (map py_strip (py_split (CHR '','') a))))
        in case decode audiences (oc_issuer c) token of
             Claims payload \<Rightarrow> Inr payload
           | InvalidToken \<Rightarrow> Inl TokenRejected
           | OtherError \<Rightarrow> Inl TokenUnhandled)"

fun claim_at :: "string list \<Rightarrow> json \<Rightarrow> json option" where
  "claim_at [] v = Some v"
| "claim_at (p # ps) v =
     (case v of JObj d \<Rightarrow> claim_at ps (case dict_get d p of None \<Rightarrow> JNull | Some x \<Rightarrow> x) | _ \<Rightarrow> None)"

fun as_role :: "json \<Rightarrow> string option" where
  "as_role (JStr s) = Some s"
| "as_role _ = None"

definition get_roles_from_claim_path :: "(string, json) dict \<Rightarrow> string \<Rightarrow> string list" where
  "get_roles_from_claim_path payload path =
     (case claim_at (py_split (CHR ''.'') path) (JObj payload) of
        Some (JArr roles) \<Rightarrow>
          if list_all (\<lambda>role. as_role role \<noteq> None) roles then List.map_filter as_role roles else []
      | _ \<Rightarrow> [])"

definition authorize_request :: "oidc_config \<Rightarrow> (string, json) dict \<Rightarrow> string \<Rightarrow> http_failure + bool" where
  "authorize_request c payload request_method =
     (if \<not> oc_authorization_enabled c then Inr True
      else
        let allowed_roles = (case dict_get (oc_method_roles c) (py_upper request_method) of None \<Rightarrow> [] | Some rs \<Rightarrow> rs)
        in case (oc_roles_claim_path c, oc_client_id c) of
             (Some path, Some client_id) \<Rightarrow>
               let user_roles = get_roles_from_claim_path payload (py_replace ''[client_id]'' client_id path)
               in if \<not> list_ex (\<lambda>role. role \<in> set user_roles) allowed_roles then Inl (HttpFailure 403) else Inr True
           | _ \<Rightarrow> Inl (HttpFailure 403))"

section \<open>The HTTP middleware\<close>

text \<open>
  \<open>set_content_types\<close>: the failure that is answered, or the claims with which the request goes on
  to its handler (\<^const>\<open>None\<close> when no token was looked at).
\<close>

definition doc_paths :: "string list" where
  "doc_paths = [''/docs'', ''/docs/oauth2-redirect'', ''/redoc'', ''/openapi.json'']"

definition check_request ::
    "oidc_config \<Rightarrow> jwt_decode \<Rightarrow> string \<Rightarrow> string \<Rightarrow> string option \<Rightarrow> http_failure + (string, json) dict option" where
  "check_request c decode path request_method auth_header =
     (if path \<in> set doc_paths \<or> path \<in> set (oc_skip_auth_paths c) then Inr None
      else if \<not> oc_authorization_enabled c then Inr None
      else case auth_header of
             None \<Rightarrow> Inl (HttpFailure 401)
           | Some h \<Rightarrow>
               if \<not> prefix ''Bearer '' h then Inl (HttpFailure 401)
               else (case validate_jwt c decode (drop 7 h) of
                       Inl TokenRejected \<Rightarrow> Inl (HttpFailure 401)
                     | Inl TokenUnhandled \<Rightarrow> Inl UnhandledError
                     | Inr payload \<Rightarrow>
                         (case authorize_request c payload request_method of
                            Inl x \<Rightarrow> Inl x
                          | Inr _ \<Rightarrow> Inr (Some payload))))"

section \<open>Properties\<close>

text \<open>
  C20: With authorization enabled, a request to a path that is not exempt reaches its handler only with
  a bearer token that the token library accepts for the configured audience and issuer (when a key
  set is configured), whose claims name a role that the configuration allows for the method.
\<close>

theorem bearer_token_required:
  assumes "check_request c decode path m header = Inr claims" and "oc_authorization_enabled c"
    and "path \<notin> set doc_paths" and "path \<notin> set (oc_skip_auth_paths c)"
  shows "\<exists>token payload claim_path client_id role roles. header = Some (''Bearer '' @ token) \<and> claims = Some payload \<and>
    validate_jwt c decode token = Inr payload \<and>
    oc_roles_claim_path c = Some claim_path \<and> oc_client_id c = Some client_id \<and>
    dict_get (oc_method_roles c) (py_upper m) = Some roles \<and> role \<in> set roles \<and>
    role \<in> set (get_roles_from_claim_path payload (py_replace ''[client_id]'' client_id claim_path))"
proof -
  from assms obtain token payload where h: "header = Some (''Bearer '' @ token)" "claims = Some payload"
    and v: "validate_jwt c decode token = Inr payload" and a: "\<exists>b. authorize_request c payload m = Inr b"
    by (auto simp: check_request_def prefix_def split: option.splits sum.splits token_failure.splits if_splits)
  from a assms(2) obtain claim_path client_id role roles
    where "oc_roles_claim_path c = Some claim_path" "oc_client_id c = Some client_id"
      "dict_get (oc_method_roles c) (py_upper m) = Some roles" "role \<in> set roles"
      "role \<in> set (get_roles_from_claim_path payload (py_replace ''[client_id]'' client_id claim_path))"
    by (cases "dict_get (oc_method_roles c) (py_upper m)")
       (auto simp: authorize_request_def Let_def list_ex_iff split: option.splits if_splits)
  with h v show ?thesis by blast
qed

definition sample_oidc :: oidc_config where
  "sample_oidc = \<lparr>oc_jwks_url = Some ''j'', oc_issuer = Some ''i'', oc_audience = Some ''a, b'', oc_authorization_enabled = True,
     oc_client_id = Some ''k'', oc_method_roles = [(''GET'', [''reader''])],
     oc_roles_claim_path = Some ''resource.[client_id]'', oc_skip_auth_paths = [''/_health'']\<rparr>"

definition sample_decode :: jwt_decode where
  "sample_decode audiences issuer token =
     (if audiences = Some [''a'', ''b''] \<and> token = ''t''
      then Claims [(''resource'', JObj [(''k'', JArr [JStr ''reader''])])] else InvalidToken)"

theorem bearer_token_required_witness:
  "validate_jwt sample_oidc sample_decode ''t'' = Inr [(''resource'', JObj [(''k'', JArr [JStr ''reader''])])]"
proof -
  have "check_request sample_oidc sample_decode ''/subjects'' ''get'' (Some ''Bearer t'') =
      Inr (Some [(''resource'', JObj [(''k'', JArr [JStr ''reader''])])])" by code_simp
  from bearer_token_required [OF this] show ?thesis by (simp add: sample_oidc_def doc_paths_def)
qed

text \<open>
  The token of a request is looked at only when authorization is enabled: with a key set, issuer
  and audience configured but authorization left at its default, every request reaches its handler,
  with any token or none.
\<close>

theorem tokens_ignored_without_authorization:
  "check_request (c\<lparr>oc_jwks_url := Some j, oc_issuer := Some i, oc_audience := Some a, oc_authorization_enabled := False\<rparr>)
     (\<lambda>_ _ _. InvalidToken) path m header = Inr None"
  by (simp add: check_request_def)

text \<open>The check of the configured methods cannot fail.\<close>

lemma method_check_vacuous: "oidc_init c \<noteq> Inl (HttpFailure 500)"
  by (simp add: oidc_init_def)

end
