(* ===== verification/Api_Controller.thy ===== *)
theory Api_Controller
  imports Registry_Effects Oidc_Middleware
begin

text \<open>
  \<open>karapace/api/controller.py\<close> with \<open>routers/errors.py\<close> and \<open>routers/requests.py\<close>: the request
  handlers of the schema registry over the registry operations. An answer is the response value or
  an \<open>HTTPException\<close> with its status and error code; the texts of the messages are left out. An
  exception that a handler does not translate is \<open>Unhandled\<close> (the framework answers 500).

  Handlers that only read take the reader or its database, handlers that change the registry are
  actions on it.
\<close>

section \<open>Errors\<close>

datatype schema_error_code =
    HTTP_BAD_REQUEST | HTTP_NOT_FOUND | HTTP_CONFLICT | HTTP_UNPROCESSABLE_ENTITY | HTTP_INTERNAL_SERVER_ERROR
  | SUBJECT_NOT_FOUND | VERSION_NOT_FOUND | SCHEMA_NOT_FOUND | SUBJECT_SOFT_DELETED | SUBJECT_NOT_SOFT_DELETED
  | SCHEMAVERSION_SOFT_DELETED | SCHEMAVERSION_NOT_SOFT_DELETED | SUBJECT_LEVEL_COMPATIBILITY_NOT_CONFIGURED
  | INVALID_VERSION_ID | INVALID_COMPATIBILITY_LEVEL | INVALID_SCHEMA | INVALID_SUBJECT | SCHEMA_TOO_LARGE
  | REFERENCES_SUPPORT_NOT_IMPLEMENTED | REFERENCE_EXISTS | NO_MASTER_ERROR

fun error_code_value :: "schema_error_code \<Rightarrow> int" where
  "error_code_value HTTP_BAD_REQUEST = 400"
| "error_code_value HTTP_NOT_FOUND = 404"
| "error_code_value HTTP_CONFLICT = 409"
| "error_code_value HTTP_UNPROCESSABLE_ENTITY = 422"
| "error_code_value HTTP_INTERNAL_SERVER_ERROR = 500"
| "error_code_value SUBJECT_NOT_FOUND = 40401"
| "error_code_value VERSION_NOT_FOUND = 40402"
| "error_code_value SCHEMA_NOT_FOUND = 40403"
| "error_code_value SUBJECT_SOFT_DELETED = 40404"
| "error_code_value SUBJECT_NOT_SOFT_DELETED = 40405"
| "error_code_value SCHEMAVERSION_SOFT_DELETED = 40406"
| "error_code_value SCHEMAVERSION_NOT_SOFT_DELETED = 40407"
| "error_code_value SUBJECT_LEVEL_COMPATIBILITY_NOT_CONFIGURED = 40408"
| "error_code_value INVALID_VERSION_ID = 42202"
| "error_code_value INVALID_COMPATIBILITY_LEVEL = 42203"
| "error_code_value INVALID_SCHEMA = 42201"
| "error_code_value INVALID_SUBJECT = 42208"
| "error_code_value SCHEMA_TOO_LARGE = 42209"
| "error_code_value REFERENCES_SUPPORT_NOT_IMPLEMENTED = 44302"
| "error_code_value REFERENCE_EXISTS = 42206"
| "error_code_value NO_MASTER_ERROR = 50003"

datatype api_error = HTTPException nat "int option" | Unhandled exn

definition http_error :: "nat \<Rightarrow> schema_error_code \<Rightarrow> api_error" where
  "http_error status code = HTTPException status (Some (error_code_value code))"

definition unauthorized :: api_error where
  "unauthorized = HTTPException 403 None"

definition no_primary_url_error :: api_error where
  "no_primary_url_error = http_error 500 NO_MASTER_ERROR"

definition invalid_version :: api_error where
  "invalid_version = http_error 422 INVALID_VERSION_ID"

type_synonym 'x answer = "api_error + 'x"
type_synonym 'x api_action = "registry \<Rightarrow> 'x answer \<times> registry"

text \<open>The \<open>except\<close> clauses of a handler as a function from exceptions to answers.\<close>

definition answer_of :: "(exn \<Rightarrow> api_error) \<Rightarrow> 'x res \<Rightarrow> 'x answer" where
  "answer_of clauses m = (case m of Inl x \<Rightarrow> Inl (clauses x) | Inr y \<Rightarrow> Inr y)"

lemma answer_of_eq_Inr [simp]: "answer_of clauses m = Inr y \<longleftrightarrow> m = Inr y"
  by (auto simp: answer_of_def split: sum.splits)

definition act :: "(exn \<Rightarrow> api_error) \<Rightarrow> 'x action \<Rightarrow> 'x api_action" where
  "act clauses m rg = (case m rg of (r, rg') \<Rightarrow> (answer_of clauses r, rg'))"

definition pure_answer :: "'x answer \<Rightarrow> 'x api_action" where
  "pure_answer a rg = (a, rg)"

section \<open>Requests\<close>

record schema_reference =
  sref_name :: string
  sref_subject :: string
  sref_version :: int

record schema_request =
  rq_schema_str :: string
  rq_schema_type :: schema_type
  rq_references :: "schema_reference list option"

text \<open>\<open>SchemaRequest.validate_schema\<close>.\<close>

definition validate_schema :: "string \<Rightarrow> string answer" where
  "validate_schema s = (if s = [] \<and> py_strip s = [] then Inl (HTTPException 422 (Some 42201)) else Inr s)"

definition validate_references :: "schema_request \<Rightarrow> any_reference list option answer" where
  "validate_references rq =
     (case rq_references rq of
        None \<Rightarrow> Inr None
      | Some references \<Rightarrow>
          if references \<noteq> [] \<and> rq_schema_type rq = JSONSCHEMA
          then Inl (http_error 422 REFERENCES_SUPPORT_NOT_IMPLEMENTED)
          else rbind (rfold (\<lambda>r acc.
                 rbind (answer_of Unhandled (versioner_V (TagInt (sref_version r)))) (\<lambda>version.
                   Inr (acc @ [if is_latest version
                               then Latest (LatestVersionReference (sref_name r) (sref_subject r))
                               else Resolved (Reference (sref_name r) (sref_subject r) version)]))) references [])
               (\<lambda>validated. Inr (if validated \<noteq> [] then Some validated else None)))"

definition validate_schema_type :: "(string, json) dict \<Rightarrow> schema_type answer" where
  "validate_schema_type d =
     answer_of (\<lambda>x. if x = ValueError then http_error 422 HTTP_UNPROCESSABLE_ENTITY else Unhandled x)
       (schema_type_of (case dict_get d ''schemaType'' of None \<Rightarrow> JStr ''AVRO'' | Some j \<Rightarrow> j))"

section \<open>Parameters\<close>

datatype 'r auth_kind = NoAuth | AclAuth "'r authorizer"

text \<open>
  The registry's parameters, the authorizer, the option \<open>use_protobuf_formatter\<close>, the serialised form of
  a Protobuf schema, and the decoding of a path segment (\<open>unquote_plus\<close>).
\<close>

record ('a, 'n, 'p, 'r) api =
  ap_env :: "('a, 'n, 'p) env"
  ap_authx :: "'r authx"
  ap_auth :: "'r auth_kind"
  ap_use_formatter :: bool
  ap_serialize :: "'p \<Rightarrow> string"
  ap_unquote :: "string \<Rightarrow> string"

text \<open>\<open>get_authorizer\<close>: the ACL authorizer when a file is configured.\<close>

definition get_authorizer :: "string option \<Rightarrow> 'r authorizer \<Rightarrow> 'r auth_kind" where
  "get_authorizer registry_authfile http_authorizer =
     (if present registry_authfile then AclAuth http_authorizer else NoAuth)"

definition api_check :: "('a, 'n, 'p, 'r) api \<Rightarrow> user option \<Rightarrow> operation \<Rightarrow> string \<Rightarrow> bool" where
  "api_check ap user op resource =
     (case ap_auth ap of
        NoAuth \<Rightarrow> no_auth_check_authorization user op resource
      | AclAuth az \<Rightarrow> check_authorization (ap_authx ap) az user op resource)"

definition api_check_any :: "('a, 'n, 'p, 'r) api \<Rightarrow> user option \<Rightarrow> operation \<Rightarrow> string list \<Rightarrow> bool" where
  "api_check_any ap user op resources =
     (case ap_auth ap of
        NoAuth \<Rightarrow> no_auth_check_authorization_any user op resources
      | AclAuth az \<Rightarrow> check_authorization_any (ap_authx ap) az user op resources)"

interpretation api: authorization "api_check ap" "api_check_any ap" for ap :: "('a, 'n, 'p, 'r) api"
  by unfold_locales
     (auto simp: api_check_def api_check_any_def no_auth.any_some acl.any_some
        intro: no_auth.write_implies_read acl.write_implies_read split: auth_kind.splits)

definition subject_resource :: "string \<Rightarrow> string" where
  "subject_resource s = ''Subject:'' @ s"

section \<open>Listing\<close>

record schema_listing_item =
  li_subject :: string
  li_schema :: string
  li_version :: int
  li_id :: int
  li_type :: schema_type
  li_references :: "json list option"

definition reference_dicts :: "reference list option \<Rightarrow> json list option" where
  "reference_dicts references =
     (case references of Some (r # rs) \<Rightarrow> Some (map ref_to_dict (r # rs)) | _ \<Rightarrow> None)"

definition listing_item :: "schema_version \<Rightarrow> schema_listing_item" where
  "listing_item sv =
     \<lparr>li_subject = sv_subject sv, li_schema = ts_str (sv_schema sv), li_version = version_value (sv_version sv),
      li_id = sv_schema_id sv, li_type = ts_type (sv_schema sv), li_references = reference_dicts (sv_references sv)\<rparr>"

definition ctl_schemas_list ::
    "('a, 'n, 'p, 'r) api \<Rightarrow> bool \<Rightarrow> bool \<Rightarrow> user option \<Rightarrow> database \<Rightarrow> schema_listing_item list" where
  "ctl_schemas_list ap deleted latest_only user db =
     concat (map (\<lambda>(subject, svs).
       if api_check ap user Read (subject_resource subject) then map listing_item svs else [])
       (schemas_list deleted latest_only db))"

definition ctl_subjects_list :: "('a, 'n, 'p, 'r) api \<Rightarrow> bool \<Rightarrow> user option \<Rightarrow> database \<Rightarrow> string list" where
  "ctl_subjects_list ap deleted user db =
     filter (\<lambda>subject. api_check ap user Read (subject_resource subject)) (find_subjects deleted db)"

definition not_found_schema_id :: "exn \<Rightarrow> api_error" where
  "not_found_schema_id x = (if x = ValueError then http_error 404 HTTP_NOT_FOUND else Unhandled x)"

record schemas_response =
  sr_schema :: string
  sr_subjects :: "string list option"
  sr_type :: "schema_type option"
  sr_references :: "json list option"
  sr_max_id :: "int option"

definition has_subject_with_id :: "('a, 'n, 'p, 'r) api \<Rightarrow> user option \<Rightarrow> int \<Rightarrow> database \<Rightarrow> bool" where
  "has_subject_with_id ap user schema_id db \<longleftrightarrow>
     api_check ap user Read ''Subject:*'' \<or>
     api_check_any ap user Read (map subject_resource (subjects_for_schema schema_id db))"

definition ctl_schemas_get ::
    "('a, 'n, 'p, 'r) api \<Rightarrow> string \<Rightarrow> bool \<Rightarrow> bool \<Rightarrow> string \<Rightarrow> user option \<Rightarrow> database \<Rightarrow> schemas_response answer" where
  "ctl_schemas_get ap schema_id fetch_max_id include_subjects format_serialized user db =
     rbind (answer_of not_found_schema_id (py_int schema_id)) (\<lambda>parsed_schema_id.
     if \<not> has_subject_with_id ap user parsed_schema_id db then Inl (http_error 404 SCHEMA_NOT_FOUND)
     else case schemas_get parsed_schema_id fetch_max_id db of
            None \<Rightarrow> Inl (http_error 404 SCHEMA_NOT_FOUND)
          | Some (schema, max_id) \<Rightarrow>
              rbind (if format_serialized \<noteq> [] \<and> ts_type schema = PROTOBUF
                     then rbind (answer_of Unhandled (parsed_parse (ev_ext (ap_env ap)) PROTOBUF (ts_str schema) None None))
                            (\<lambda>p. Inr (case pts_schema p of PProto q \<Rightarrow> ap_serialize ap q | _ \<Rightarrow> ts_str schema))
                     else Inr (ts_str schema)) (\<lambda>schema_str.
                Inr \<lparr>sr_schema = schema_str,
                     sr_subjects = (if include_subjects then Some (subjects_for_schema parsed_schema_id db) else None),
                     sr_type = (if ts_type schema \<noteq> AVRO then Some (ts_type schema) else None),
                     sr_references = reference_dicts (ts_references schema),
                     sr_max_id = (if fetch_max_id then max_id else None)\<rparr>))"

definition ctl_schemas_get_versions ::
    "('a, 'n, 'p, 'r) api \<Rightarrow> string \<Rightarrow> bool \<Rightarrow> user option \<Rightarrow> database \<Rightarrow> (string \<times> int) list answer" where
  "ctl_schemas_get_versions ap schema_id deleted user db =
     rbind (answer_of not_found_schema_id (py_int schema_id)) (\<lambda>schema_id_int.
       Inr (map (\<lambda>(s, v). (s, version_value v))
         (filter (\<lambda>(s, v). api_check ap user Read (subject_resource s))
           (get_subject_versions_for_schema schema_id_int deleted db))))"

definition ctl_schemas_types :: "string list" where
  "ctl_schemas_types = [''JSON'', ''AVRO'', ''PROTOBUF'']"

section \<open>Compatibility levels\<close>

definition config_get :: "reader \<Rightarrow> json" where
  "config_get rd = rd_compatibility rd"

definition level_clauses :: "exn \<Rightarrow> api_error" where
  "level_clauses x = (if x \<in> {ValueError, KeyError} then http_error 422 INVALID_COMPATIBILITY_LEVEL else Unhandled x)"

definition config_set :: "('a, 'n, 'p, 'r) api \<Rightarrow> string \<Rightarrow> json api_action" where
  "config_set ap level rg =
     (case answer_of level_clauses (compatibility_mode_of (JStr level)) of
        Inl x \<Rightarrow> (Inl x, rg)
      | Inr mode \<Rightarrow>
          act Unhandled (abind (send_config_message (ap_env ap) mode None)
            (\<lambda>_ rg'. (Inr (rd_compatibility (rg_reader rg')), rg'))) rg)"

definition config_subject_get :: "string \<Rightarrow> bool \<Rightarrow> reader \<Rightarrow> json answer" where
  "config_subject_get subject default_to_global rd =
     (if find_subject subject (rd_database rd) = None then Inl (http_error 404 SUBJECT_NOT_FOUND)
      else
        let compatibility = get_subject_compatibility subject (rd_database rd);
            compatibility = (if \<not> truthy compatibility \<and> default_to_global then rd_compatibility rd else compatibility)
        in if truthy compatibility then Inr compatibility
           else Inl (http_error 404 SUBJECT_LEVEL_COMPATIBILITY_NOT_CONFIGURED))"

definition config_subject_set :: "('a, 'n, 'p, 'r) api \<Rightarrow> string \<Rightarrow> string \<Rightarrow> json api_action" where
  "config_subject_set ap subject level rg =
     (case answer_of level_clauses (compatibility_mode_of (JStr level)) of
        Inl x \<Rightarrow> (Inl x, rg)
      | Inr mode \<Rightarrow>
          act Unhandled (abind (send_config_message (ap_env ap) mode (Some subject))
            (\<lambda>_. areturn (JStr (compatibility_mode_value mode)))) rg)"

definition config_subject_delete :: "('a, 'n, 'p, 'r) api \<Rightarrow> string \<Rightarrow> json api_action" where
  "config_subject_delete ap subject =
     act Unhandled (abind (send_config_subject_delete_message (ap_env ap) subject)
       (\<lambda>_ rg'. (Inr (rd_compatibility (rg_reader rg')), rg')))"

definition get_global_mode :: string where
  "get_global_mode = ''READWRITE''"

definition get_subject_mode :: "string \<Rightarrow> database \<Rightarrow> string answer" where
  "get_subject_mode subject db =
     (if find_subject subject db = None then Inl (http_error 404 SUBJECT_NOT_FOUND) else Inr get_global_mode)"

section \<open>Subjects and versions\<close>

definition subject_clauses :: "exn \<Rightarrow> api_error" where
  "subject_clauses x =
     (if x \<in> {SubjectNotFoundException, SchemasNotFoundException} then http_error 404 SUBJECT_NOT_FOUND else Unhandled x)"

definition version_clauses :: "exn \<Rightarrow> api_error" where
  "version_clauses x =
     (if x = VersionNotFoundException then http_error 404 VERSION_NOT_FOUND
      else if x = InvalidVersion then invalid_version
      else subject_clauses x)"

definition ctl_subject_get :: "string \<Rightarrow> bool \<Rightarrow> database \<Rightarrow> versions answer" where
  "ctl_subject_get subject include_deleted db = answer_of subject_clauses (subject_get subject include_deleted db)"

definition subject_delete :: "('a, 'n, 'p, 'r) api \<Rightarrow> string \<Rightarrow> bool \<Rightarrow> int list api_action" where
  "subject_delete ap subject permanent =
     act (\<lambda>x. case x of
            SubjectNotSoftDeletedException \<Rightarrow> http_error 404 SUBJECT_NOT_SOFT_DELETED
          | SubjectSoftDeletedException \<Rightarrow> http_error 404 SUBJECT_SOFT_DELETED
          | ReferenceExistsException _ _ \<Rightarrow> http_error 422 REFERENCE_EXISTS
          | _ \<Rightarrow> subject_clauses x)
       (abind (subject_delete_local (ap_env ap) subject permanent) (\<lambda>vs. areturn (map version_value vs)))"

record version_response =
  vr_subject :: json
  vr_version :: json
  vr_id :: json
  vr_schema :: json
  vr_references :: "json option"
  vr_type :: "json option"

definition version_response_of :: "(string, json) dict \<Rightarrow> version_response res" where
  "version_response_of d =
     rbind (of_option KeyError (dict_get d ''subject'')) (\<lambda>s.
     rbind (of_option KeyError (dict_get d ''version'')) (\<lambda>v.
     rbind (of_option KeyError (dict_get d ''id'')) (\<lambda>i.
     rbind (of_option KeyError (dict_get d ''schema'')) (\<lambda>sch.
       Inr \<lparr>vr_subject = s, vr_version = v, vr_id = i, vr_schema = sch,
            vr_references = dict_get d ''references'', vr_type = dict_get d ''schemaType''\<rparr>))))"

definition ctl_subject_version_get :: "string \<Rightarrow> string \<Rightarrow> bool \<Rightarrow> database \<Rightarrow> version_response answer" where
  "ctl_subject_version_get subject version deleted db =
     answer_of version_clauses
       (rbind (versioner_V (TagStr version)) (\<lambda>v.
        rbind (subject_version_get subject v deleted db) version_response_of))"

definition ctl_subject_version_delete ::
    "('a, 'n, 'p, 'r) api \<Rightarrow> string \<Rightarrow> string \<Rightarrow> bool \<Rightarrow> int api_action" where
  "ctl_subject_version_delete ap subject version permanent =
     act (\<lambda>x. case x of
            SchemaVersionSoftDeletedException \<Rightarrow> http_error 404 SCHEMAVERSION_SOFT_DELETED
          | SchemaVersionNotSoftDeletedException \<Rightarrow> http_error 404 SCHEMAVERSION_NOT_SOFT_DELETED
          | ReferenceExistsException _ _ \<Rightarrow> http_error 422 REFERENCE_EXISTS
          | _ \<Rightarrow> version_clauses x)
       (abind (aresult (versioner_V (TagStr version))) (\<lambda>v.
        abind (subject_version_delete_local (ap_env ap) subject v permanent) (\<lambda>w. areturn (version_value w))))"

text \<open>\<open>json.loads(subject_data["schema"])\<close>; a text that is not JSON raises \<open>JSONDecodeError\<close>.\<close>

definition subject_version_schema_get :: "('a, 'n, 'p, 'r) api \<Rightarrow> string \<Rightarrow> string \<Rightarrow> database \<Rightarrow> json answer" where
  "subject_version_schema_get ap subject version db =
     answer_of version_clauses
       (rbind (versioner_V (TagStr version)) (\<lambda>v.
        rbind (subject_version_get subject v False db) (\<lambda>d.
        rbind (of_option KeyError (dict_get d ''schema'')) (\<lambda>j.
          case j of JStr s \<Rightarrow> json_decode (ev_ext (ap_env ap)) s | _ \<Rightarrow> Inl TypeError))))"

definition ctl_subject_version_referencedby_get :: "string \<Rightarrow> string \<Rightarrow> database \<Rightarrow> int set answer" where
  "ctl_subject_version_referencedby_get subject version db =
     answer_of version_clauses
       (rbind (versioner_V (TagStr version)) (\<lambda>v. subject_version_referencedby_get subject v False db))"

definition subject_versions_list :: "string \<Rightarrow> bool \<Rightarrow> database \<Rightarrow> int list answer" where
  "subject_versions_list subject deleted db =
     answer_of subject_clauses
       (rbind (subject_get subject deleted db) (\<lambda>svs. Inr (map version_value (dict_keys svs))))"

section \<open>Compatibility check\<close>

definition resolve_and_validate_request ::
    "('a, 'n, 'p, 'r) api \<Rightarrow> schema_request \<Rightarrow> bool \<Rightarrow> any_reference list option \<Rightarrow> database \<Rightarrow>
     (('a, 'p) parsed_typed_schema \<times> reference list option) res" where
  "resolve_and_validate_request ap rq do_normalize references db =
     rbind (registry_resolve_references (ap_env ap) db references) (\<lambda>(refs, dependencies).
     rbind (parse (ev_ext (ap_env ap)) (rq_schema_type rq) (rq_schema_str rq) True True refs dependencies do_normalize
              (ap_use_formatter ap)) (\<lambda>p. Inr (p, refs)))"

definition get_new_schema ::
    "('a, 'n, 'p, 'r) api \<Rightarrow> schema_request \<Rightarrow> database \<Rightarrow> ('a, 'p) parsed_typed_schema answer" where
  "get_new_schema ap rq db =
     rbind (validate_references rq) (\<lambda>references.
       answer_of (\<lambda>x. if x = InvalidSchema then http_error 422 INVALID_SCHEMA
                      else if x = InvalidReferences then http_error 400 INVALID_SCHEMA else Unhandled x)
         (rbind (resolve_and_validate_request ap rq False references db) (\<lambda>(p, _). Inr p)))"

text \<open>
  The answer for \<open>InvalidVersion\<close> is built but not raised, so the assertion after it fails. The
  references in the result of \<open>subject_version_get\<close> are dictionaries.
\<close>

definition get_old_schema ::
    "('a, 'n, 'p, 'r) api \<Rightarrow> string \<Rightarrow> version \<Rightarrow> database \<Rightarrow> ('a, 'p) parsed_typed_schema answer" where
  "get_old_schema ap subject version db =
     rbind (answer_of (\<lambda>x. if x = InvalidVersion then Unhandled AssertionError
                           else if x \<in> {VersionNotFoundException, SchemasNotFoundException, SubjectNotFoundException}
                           then http_error 404 VERSION_NOT_FOUND else Unhandled x)
              (subject_version_get subject version False db)) (\<lambda>old.
     rbind (validate_schema_type old) (\<lambda>old_schema_type.
       answer_of (\<lambda>x. if x \<in> {InvalidSchema, InvalidReferences} then http_error 422 INVALID_SCHEMA else Unhandled x)
         (rbind (read_references (ev_ext (ap_env ap)) (ev_depth (ap_env ap)) db (dict_get old ''references''))
            (\<lambda>(references, dependencies).
          rbind (of_option KeyError (dict_get old ''schema'')) (\<lambda>schema.
            case schema of
              JStr s \<Rightarrow> parsed_parse (ev_ext (ap_env ap)) old_schema_type s references dependencies
            | _ \<Rightarrow> Inl TypeError)))))"

text \<open>The response: the verdict, with messages when it is negative.\<close>

definition compatibility_check ::
    "('a, 'n, 'p, 'r) api \<Rightarrow> string \<Rightarrow> schema_request \<Rightarrow> string \<Rightarrow> reader \<Rightarrow> (bool \<times> compat_result) answer" where
  "compatibility_check ap subject rq version rd =
     rbind (answer_of (\<lambda>x. if x = ValueError then http_error 500 HTTP_INTERNAL_SERVER_ERROR else Unhandled x)
              (get_compatibility_mode subject rd)) (\<lambda>compatibility_mode.
     rbind (get_new_schema ap rq (rd_database rd)) (\<lambda>new_schema.
     rbind (answer_of Unhandled (versioner_V (TagStr version))) (\<lambda>v.
     rbind (get_old_schema ap subject v (rd_database rd)) (\<lambda>old_schema.
     rbind (answer_of Unhandled
              (if is_transitive compatibility_mode
               then check_schema_compatibility (ap_env ap) new_schema subject rd
               else check_compatibility (ev_cx (ap_env ap)) old_schema new_schema compatibility_mode)) (\<lambda>result.
       Inr (\<not> is_incompatible result, result))))))"

section \<open>Looking a schema up\<close>

record schema_response =
  sp_subject :: string
  sp_version :: int
  sp_id :: int
  sp_schema :: string
  sp_type :: "schema_type option"

text \<open>
  Does a stored version, parsed again, match the posted schema? \<open>schema_valid\<close> is computed before the
  types are compared.
\<close>

definition schema_matches ::
    "('a, 'n, 'p, 'z) ext_scheme \<Rightarrow> schema_type \<Rightarrow> ('a, 'p) parsed_typed_schema \<Rightarrow> ('a, 'p) parsed_typed_schema \<Rightarrow> bool res" where
  "schema_matches e request_type old new =
     rbind (if request_type = JSONSCHEMA
            then rbind (to_dict e (pts_typed old)) (\<lambda>a. rbind (to_dict e (pts_typed new)) (\<lambda>b. Inr (py_eq a b)))
            else Inr (pts_match new old)) (\<lambda>schema_valid.
       Inr (ts_type (pts_typed old) = ts_type (pts_typed new) \<and> schema_valid))"

fun match_versions ::
    "('a, 'n, 'p, 'r) api \<Rightarrow> string \<Rightarrow> schema_type \<Rightarrow> bool \<Rightarrow> ('a, 'p) parsed_typed_schema \<Rightarrow> database \<Rightarrow>
     schema_version list \<Rightarrow> schema_response answer" where
  "match_versions ap subject request_type do_normalize new db [] = Inl (http_error 404 SCHEMA_NOT_FOUND)"
| "match_versions ap subject request_type do_normalize new db (sv # svs) =
     rbind (answer_of Unhandled
              (registry_resolve_references (ap_env ap) db (map_option (map Resolved) (sv_references sv))))
       (\<lambda>(other_references, other_dependencies).
     rbind (answer_of (\<lambda>x. if x = InvalidSchema then http_error 500 HTTP_INTERNAL_SERVER_ERROR else Unhandled x)
              (parse (ev_ext (ap_env ap)) (ts_type (sv_schema sv)) (ts_str (sv_schema sv)) False False
                 other_references other_dependencies do_normalize False)) (\<lambda>old.
     rbind (answer_of Unhandled (schema_matches (ev_ext (ap_env ap)) request_type old new)) (\<lambda>found.
       if found
       then Inr \<lparr>sp_subject = subject, sp_version = version_value (sv_version sv), sp_id = sv_schema_id sv,
                 sp_schema = ts_str (pts_typed old), sp_type = (if request_type \<noteq> AVRO then Some request_type else None)\<rparr>
       else match_versions ap subject request_type do_normalize new db svs)))"

text \<open>Versions from the latest to the oldest.\<close>

definition versions_descending :: "versions \<Rightarrow> schema_version list" where
  "versions_descending svs = rev (sort_key sv_version (dict_values svs))"

definition subjects_schema_post ::
    "('a, 'n, 'p, 'r) api \<Rightarrow> string \<Rightarrow> schema_request \<Rightarrow> bool \<Rightarrow> bool \<Rightarrow> database \<Rightarrow> schema_response answer" where
  "subjects_schema_post ap subject rq deleted do_normalize db =
     rbind (ctl_subject_get subject deleted db) (\<lambda>subject_data.
     rbind (validate_references rq) (\<lambda>references.
     rbind (answer_of Unhandled (registry_resolve_references (ap_env ap) db references)) (\<lambda>(refs, dependencies).
     rbind (answer_of (\<lambda>x. if x \<in> {InvalidSchema, InvalidReferences} then http_error 422 INVALID_SCHEMA else Unhandled x)
              (parse (ev_ext (ap_env ap)) (rq_schema_type rq) (rq_schema_str rq) False False refs dependencies do_normalize
                 (ap_use_formatter ap))) (\<lambda>new_schema.
       match_versions ap subject (rq_schema_type rq) do_normalize new_schema db (versions_descending subject_data)))))"

section \<open>Registering\<close>

text \<open>Where the work was done: here, or by the primary at the given URL.\<close>

datatype 'x routed = Local 'x | Forwarded string

definition with_primary :: "primary_info \<Rightarrow> 'x api_action \<Rightarrow> 'x routed api_action" where
  "with_primary info local rg =
     (let pri = get_master info (rg_reader rg)
      in if pi_primary pri
         then (case local rg of (Inl x, rg') \<Rightarrow> (Inl x, rg') | (Inr y, rg') \<Rightarrow> (Inr (Local y), rg'))
         else if \<not> present (pi_url pri) then (Inl no_primary_url_error, rg)
         else (Inr (Forwarded (the (pi_url pri))), rg))"

definition register_clauses :: "exn \<Rightarrow> api_error" where
  "register_clauses x =
     (case x of
        InvalidSchema \<Rightarrow> http_error 422 INVALID_SCHEMA
      | IncompatibleSchema \<Rightarrow> http_error 409 HTTP_CONFLICT
      | SchemaTooLargeException \<Rightarrow> http_error 422 SCHEMA_TOO_LARGE
      | _ \<Rightarrow> Unhandled x)"

definition subject_post ::
    "('a, 'n, 'p, 'r) api \<Rightarrow> primary_info \<Rightarrow> string \<Rightarrow> schema_request \<Rightarrow> bool \<Rightarrow> int routed api_action" where
  "subject_post ap info subject rq do_normalize rg =
     (case rbind (validate_references rq) (\<lambda>references.
             answer_of (\<lambda>x. if x \<in> {InvalidReferences, InvalidSchema, InvalidSchemaType}
                            then http_error 422 INVALID_SCHEMA else Unhandled x)
               (resolve_and_validate_request ap rq do_normalize references (rg_db rg))) of
        Inl x \<Rightarrow> (Inl x, rg)
      | Inr (new_schema, references) \<Rightarrow>
          (case get_schema_id_if_exists (ev_ext (ap_env ap)) subject (pts_typed new_schema) (rg_db rg) of
             Some schema_id \<Rightarrow> (Inr (Local schema_id), rg)
           | None \<Rightarrow>
               with_primary info
                 (act register_clauses (write_new_schema_local (ap_env ap) subject new_schema references)) rg))"

end
