(* ===== verification/Api_Routers.thy ===== *)
theory Api_Routers
  imports Api_Controller
begin

text \<open>
  \<open>karapace/api/routers\<close>, \<open>api/user.py\<close> and \<open>api/forward_client.py\<close>: who makes a request, which
  permission each route asks for, which routes act on the primary only, and what is forwarded to it.
  A request is a value of the type \<open>endpoint\<close>, one constructor per route with its path and query
  parameters; \<open>route\<close> is the function that serves it.
\<close>

section \<open>The current user\<close>

definition get_current_user ::
    "('a, 'n, 'p, 'r) api \<Rightarrow> (string \<times> string) option \<Rightarrow> user option answer" where
  "get_current_user ap credentials =
     (case ap_auth ap of
        NoAuth \<Rightarrow>
          Inr (case credentials of
                 None \<Rightarrow> no_auth_authenticate [] [] | Some (username, password) \<Rightarrow> no_auth_authenticate username password)
      | AclAuth az \<Rightarrow>
          (case credentials of
             None \<Rightarrow> Inl (HTTPException 401 None)
           | Some (username, password) \<Rightarrow>
               rbind (answer_of (\<lambda>x. if x = AuthenticationError then HTTPException 401 None else Unhandled x)
                        (authenticate (ap_authx ap) az username password)) (\<lambda>u. Inr (Some u))))"

section \<open>Routes\<close>

named_theorems routes

datatype endpoint =
    SubjectsGet bool
  | SubjectPost string schema_request bool bool
  | SubjectDelete string bool
  | SubjectVersionsPost string schema_request bool
  | SubjectVersionsList string bool
  | SubjectVersionGet string string bool
  | SubjectVersionDelete string string bool
  | SubjectVersionSchemaGet string string
  | SubjectVersionReferencedBy string string
  | SchemasList bool bool
  | SchemasGet string bool bool string
  | SchemasGetVersions string bool
  | SchemasTypes
  | ConfigGet
  | ConfigPut string
  | ConfigGetSubject string bool
  | ConfigSetSubject string string
  | ConfigDeleteSubject string
  | CompatibilityPost string string schema_request
  | ModeGet
  | ModeGetSubject string

datatype response =
    RSubjects "string list"
  | RSchema schema_response
  | RVersions "int list"
  | RVersion int
  | RSchemaId int
  | RSubjectVersion version_response
  | RJson json
  | RReferencedBy "int set"
  | RListing "schema_listing_item list"
  | RSchemas schemas_response
  | RSubjectVersions "(string \<times> int) list"
  | RTypes "string list"
  | RLevel json
  | RVerdict bool compat_result
  | RMode string
  | RForwarded string

definition CONFIG_RESOURCE :: string where
  "CONFIG_RESOURCE = ''Config:''"

text \<open>\<open>if authorizer and not authorizer.check_authorization(...): raise unauthorized()\<close>.\<close>

definition guarded ::
    "('a, 'n, 'p, 'r) api \<Rightarrow> user option \<Rightarrow> operation \<Rightarrow> string \<Rightarrow> response api_action \<Rightarrow> response api_action" where
  "guarded ap user op resource body rg =
     (if \<not> api_check ap user op resource then (Inl unauthorized, rg) else body rg)"

definition query :: "('x \<Rightarrow> response) \<Rightarrow> (registry \<Rightarrow> 'x answer) \<Rightarrow> response api_action" where
  "query f q rg = (rbind (q rg) (\<lambda>x. Inr (f x)), rg)"

fun routed_response :: "('x \<Rightarrow> response) \<Rightarrow> 'x routed \<Rightarrow> response" where
  "routed_response f (Local x) = f x"
| "routed_response f (Forwarded url) = RForwarded url"

definition command :: "('x \<Rightarrow> response) \<Rightarrow> 'x routed api_action \<Rightarrow> response api_action" where
  "command f m rg = (case m rg of (r, rg') \<Rightarrow> (rbind r (\<lambda>x. Inr (routed_response f x)), rg'))"

definition subjects_get ::
    "('a, 'n, 'p, 'r) api \<Rightarrow> user option \<Rightarrow> bool \<Rightarrow> response api_action" where
  [routes]: "subjects_get ap user deleted =
     query RSubjects (\<lambda>rg. Inr (ctl_subjects_list ap deleted user (rg_db rg)))"

definition subjects_subject_post ::
    "('a, 'n, 'p, 'r) api \<Rightarrow> user option \<Rightarrow> string \<Rightarrow> schema_request \<Rightarrow> bool \<Rightarrow> bool \<Rightarrow> response api_action" where
  [routes]: "subjects_subject_post ap user subject rq deleted do_normalize =
     (let s = ap_unquote ap subject
      in guarded ap user Read (subject_resource s)
           (query RSchema (\<lambda>rg. subjects_schema_post ap s rq deleted do_normalize (rg_db rg))))"

definition subjects_subject_delete ::
    "('a, 'n, 'p, 'r) api \<Rightarrow> primary_info \<Rightarrow> user option \<Rightarrow> string \<Rightarrow> bool \<Rightarrow> response api_action" where
  [routes]: "subjects_subject_delete ap info user subject permanent =
     (let s = ap_unquote ap subject
      in guarded ap user Write (subject_resource s) (command RVersions (with_primary info (subject_delete ap s permanent))))"

definition subjects_subject_versions_post ::
    "('a, 'n, 'p, 'r) api \<Rightarrow> primary_info \<Rightarrow> user option \<Rightarrow> string \<Rightarrow> schema_request \<Rightarrow> bool \<Rightarrow> response api_action" where
  [routes]: "subjects_subject_versions_post ap info user subject rq do_normalize =
     (let s = ap_unquote ap subject
      in guarded ap user Write (subject_resource s) (command RSchemaId (subject_post ap info s rq do_normalize)))"

definition subjects_subject_versions_list ::
    "('a, 'n, 'p, 'r) api \<Rightarrow> user option \<Rightarrow> string \<Rightarrow> bool \<Rightarrow> response api_action" where
  [routes]: "subjects_subject_versions_list ap user subject deleted =
     (let s = ap_unquote ap subject
      in guarded ap user Read (subject_resource s) (query RVersions (\<lambda>rg. subject_versions_list s deleted (rg_db rg))))"

definition subjects_subject_version_get ::
    "('a, 'n, 'p, 'r) api \<Rightarrow> user option \<Rightarrow> string \<Rightarrow> string \<Rightarrow> bool \<Rightarrow> response api_action" where
  [routes]: "subjects_subject_version_get ap user subject version deleted =
     (let s = ap_unquote ap subject
      in guarded ap user Read (subject_resource s)
           (query RSubjectVersion (\<lambda>rg. ctl_subject_version_get s version deleted (rg_db rg))))"

definition subjects_subject_version_delete ::
    "('a, 'n, 'p, 'r) api \<Rightarrow> primary_info \<Rightarrow> user option \<Rightarrow> string \<Rightarrow> string \<Rightarrow> bool \<Rightarrow> response api_action" where
  [routes]: "subjects_subject_version_delete ap info user subject version permanent =
     (let s = ap_unquote ap subject
      in guarded ap user Write (subject_resource s)
           (command RVersion (with_primary info (ctl_subject_version_delete ap s version permanent))))"

definition subjects_subject_version_schema_get ::
    "('a, 'n, 'p, 'r) api \<Rightarrow> user option \<Rightarrow> string \<Rightarrow> string \<Rightarrow> response api_action" where
  [routes]: "subjects_subject_version_schema_get ap user subject version =
     (let s = ap_unquote ap subject
      in guarded ap user Read (subject_resource s)
           (query RJson (\<lambda>rg. subject_version_schema_get ap s version (rg_db rg))))"

definition subjects_subject_version_referenced_by ::
    "('a, 'n, 'p, 'r) api \<Rightarrow> user option \<Rightarrow> string \<Rightarrow> string \<Rightarrow> response api_action" where
  [routes]: "subjects_subject_version_referenced_by ap user subject version =
     (let s = ap_unquote ap subject
      in guarded ap user Read (subject_resource s)
           (query RReferencedBy (\<lambda>rg. ctl_subject_version_referencedby_get s version (rg_db rg))))"

definition schemas_get_list ::
    "('a, 'n, 'p, 'r) api \<Rightarrow> user option \<Rightarrow> bool \<Rightarrow> bool \<Rightarrow> response api_action" where
  [routes]: "schemas_get_list ap user deleted latest_only =
     query RListing (\<lambda>rg. Inr (ctl_schemas_list ap deleted latest_only user (rg_db rg)))"

definition router_schemas_get ::
    "('a, 'n, 'p, 'r) api \<Rightarrow> user option \<Rightarrow> string \<Rightarrow> bool \<Rightarrow> bool \<Rightarrow> string \<Rightarrow> response api_action" where
  [routes]: "router_schemas_get ap user schema_id include_subjects fetch_max_id format_serialized =
     query RSchemas (\<lambda>rg. ctl_schemas_get ap schema_id fetch_max_id include_subjects format_serialized user (rg_db rg))"

definition router_schemas_get_versions ::
    "('a, 'n, 'p, 'r) api \<Rightarrow> user option \<Rightarrow> string \<Rightarrow> bool \<Rightarrow> response api_action" where
  [routes]: "router_schemas_get_versions ap user schema_id deleted =
     query RSubjectVersions (\<lambda>rg. ctl_schemas_get_versions ap schema_id deleted user (rg_db rg))"

definition schemas_get_subjects_list ::
    "response api_action" where
  [routes]: "schemas_get_subjects_list =
     query RTypes (\<lambda>rg. Inr ctl_schemas_types)"

definition router_config_get ::
    "('a, 'n, 'p, 'r) api \<Rightarrow> user option \<Rightarrow> response api_action" where
  [routes]: "router_config_get ap user =
     guarded ap user Read CONFIG_RESOURCE (query RLevel (\<lambda>rg. Inr (config_get (rg_reader rg))))"

definition config_put ::
    "('a, 'n, 'p, 'r) api \<Rightarrow> primary_info \<Rightarrow> user option \<Rightarrow> string \<Rightarrow> response api_action" where
  [routes]: "config_put ap info user level =
     guarded ap user Write CONFIG_RESOURCE (command RLevel (with_primary info (config_set ap level)))"

definition config_get_subject ::
    "('a, 'n, 'p, 'r) api \<Rightarrow> user option \<Rightarrow> string \<Rightarrow> bool \<Rightarrow> response api_action" where
  [routes]: "config_get_subject ap user subject default_to_global =
     (let s = ap_unquote ap subject
      in guarded ap user Read (subject_resource s)
           (query RLevel (\<lambda>rg. config_subject_get s default_to_global (rg_reader rg))))"

definition config_set_subject ::
    "('a, 'n, 'p, 'r) api \<Rightarrow> primary_info \<Rightarrow> user option \<Rightarrow> string \<Rightarrow> string \<Rightarrow> response api_action" where
  [routes]: "config_set_subject ap info user subject level =
     (let s = ap_unquote ap subject
      in guarded ap user Write (subject_resource s) (command RLevel (with_primary info (config_subject_set ap s level))))"

definition config_delete_subject ::
    "('a, 'n, 'p, 'r) api \<Rightarrow> primary_info \<Rightarrow> user option \<Rightarrow> string \<Rightarrow> response api_action" where
  [routes]: "config_delete_subject ap info user subject =
     (let s = ap_unquote ap subject
      in guarded ap user Write (subject_resource s) (command RLevel (with_primary info (config_subject_delete ap s))))"

definition compatibility_post ::
    "('a, 'n, 'p, 'r) api \<Rightarrow> user option \<Rightarrow> string \<Rightarrow> string \<Rightarrow> schema_request \<Rightarrow> response api_action" where
  [routes]: "compatibility_post ap user subject version rq =
     (let s = ap_unquote ap subject
      in guarded ap user Read (subject_resource s)
           (query (\<lambda>(ok, r). RVerdict ok r) (\<lambda>rg. compatibility_check ap s rq version (rg_reader rg))))"

definition mode_get ::
    "('a, 'n, 'p, 'r) api \<Rightarrow> user option \<Rightarrow> response api_action" where
  [routes]: "mode_get ap user =
     guarded ap user Read CONFIG_RESOURCE (query RMode (\<lambda>rg. Inr get_global_mode))"

definition mode_get_subject ::
    "('a, 'n, 'p, 'r) api \<Rightarrow> user option \<Rightarrow> string \<Rightarrow> response api_action" where
  [routes]: "mode_get_subject ap user subject =
     (let s = ap_unquote ap subject
      in guarded ap user Read (subject_resource s) (query RMode (\<lambda>rg. get_subject_mode s (rg_db rg))))"

text \<open>The route table.\<close>

fun route :: "('a, 'n, 'p, 'r) api \<Rightarrow> primary_info \<Rightarrow> user option \<Rightarrow> endpoint \<Rightarrow> response api_action" where
  "route ap info user (SubjectsGet deleted) = subjects_get ap user deleted"
| "route ap info user (SubjectPost subject rq deleted do_normalize) = subjects_subject_post ap user subject rq deleted do_normalize"
| "route ap info user (SubjectDelete subject permanent) = subjects_subject_delete ap info user subject permanent"
| "route ap info user (SubjectVersionsPost subject rq do_normalize) = subjects_subject_versions_post ap info user subject rq do_normalize"
| "route ap info user (SubjectVersionsList subject deleted) = subjects_subject_versions_list ap user subject deleted"
| "route ap info user (SubjectVersionGet subject version deleted) = subjects_subject_version_get ap user subject version deleted"
| "route ap info user (SubjectVersionDelete subject version permanent) = subjects_subject_version_delete ap info user subject version permanent"
| "route ap info user (SubjectVersionSchemaGet subject version) = subjects_subject_version_schema_get ap user subject version"
| "route ap info user (SubjectVersionReferencedBy subject version) = subjects_subject_version_referenced_by ap user subject version"
| "route ap info user (SchemasList deleted latest_only) = schemas_get_list ap user deleted latest_only"
| "route ap info user (SchemasGet schema_id include_subjects fetch_max_id format_serialized) = router_schemas_get ap user schema_id include_subjects fetch_max_id format_serialized"
| "route ap info user (SchemasGetVersions schema_id deleted) = router_schemas_get_versions ap user schema_id deleted"
| "route ap info user SchemasTypes = schemas_get_subjects_list"
| "route ap info user ConfigGet = router_config_get ap user"
| "route ap info user (ConfigPut level) = config_put ap info user level"
| "route ap info user (ConfigGetSubject subject default_to_global) = config_get_subject ap user subject default_to_global"
| "route ap info user (ConfigSetSubject subject level) = config_set_subject ap info user subject level"
| "route ap info user (ConfigDeleteSubject subject) = config_delete_subject ap info user subject"
| "route ap info user (CompatibilityPost subject version rq) = compatibility_post ap user subject version rq"
| "route ap info user ModeGet = mode_get ap user"
| "route ap info user (ModeGetSubject subject) = mode_get_subject ap user subject"

text \<open>The route \<open>/schemas/types\<close> has no user; every other route authenticates first.\<close>

definition serve ::
    "('a, 'n, 'p, 'r) api \<Rightarrow> primary_info \<Rightarrow> (string \<times> string) option \<Rightarrow> endpoint \<Rightarrow> response api_action" where
  "serve ap info credentials ep rg =
     (if ep = SchemasTypes then route ap info None ep rg
      else case get_current_user ap credentials of
             Inl x \<Rightarrow> (Inl x, rg)
           | Inr user \<Rightarrow> route ap info user ep rg)"

section \<open>The permission a change needs\<close>

text \<open>The operation and resource that a route asks for before it may change the registry.\<close>

fun write_resource :: "('a, 'n, 'p, 'r) api \<Rightarrow> endpoint \<Rightarrow> string option" where
  "write_resource ap (SubjectDelete subject permanent) = Some (subject_resource (ap_unquote ap subject))"
| "write_resource ap (SubjectVersionsPost subject rq nz) = Some (subject_resource (ap_unquote ap subject))"
| "write_resource ap (SubjectVersionDelete subject v permanent) = Some (subject_resource (ap_unquote ap subject))"
| "write_resource ap (ConfigPut level) = Some CONFIG_RESOURCE"
| "write_resource ap (ConfigSetSubject subject level) = Some (subject_resource (ap_unquote ap subject))"
| "write_resource ap (ConfigDeleteSubject subject) = Some (subject_resource (ap_unquote ap subject))"
| "write_resource ap _ = None"

lemma query_state [simp]: "snd (query f q rg) = rg"
  by (simp add: query_def)

lemma command_state: "snd (command f m rg) = snd (m rg)"
  by (simp add: command_def case_prod_unfold)

lemma guarded_state: "snd (guarded ap user op resource body rg) = (if api_check ap user op resource then snd (body rg) else rg)"
  by (simp add: guarded_def)

lemma with_primary_state: "snd (with_primary info local rg) \<noteq> rg \<Longrightarrow> pi_primary (get_master info (rg_reader rg))"
  by (auto simp: with_primary_def Let_def split: if_splits)

lemma subject_post_state: "snd (subject_post ap info s rq nz rg) \<noteq> rg \<Longrightarrow> pi_primary (get_master info (rg_reader rg))"
  by (auto simp: subject_post_def split: sum.splits option.splits dest: with_primary_state)

lemma route_change:
  assumes "snd (route ap info user ep rg) \<noteq> rg"
  shows "pi_primary (get_master info (rg_reader rg)) \<and>
    (\<exists>resource. write_resource ap ep = Some resource \<and> api_check ap user Write resource)"
  using assms
  by (cases ep)
     (auto simp: routes guarded_state command_state Let_def dest: with_primary_state subject_post_state split: if_splits)

text \<open>
  C1: Whatever request is made, the registry changes only on a node that is the primary and has read
  the whole topic, and only if the request was made by a user who may write the resource of the
  request: the subject it names, or the configuration.
\<close>

theorem changes_need_primary_and_permission:
  assumes "snd (serve ap info credentials ep rg) \<noteq> rg"
  shows "pi_primary info \<and> rd_ready (rg_reader rg) \<and>
    (\<exists>user resource. get_current_user ap credentials = Inr user \<and> write_resource ap ep = Some resource \<and>
       api_check ap user Write resource)"
proof -
  from assms obtain user where user: "get_current_user ap credentials = Inr user"
    and change: "snd (route ap info user ep rg) \<noteq> rg"
    by (auto simp: serve_def routes split: if_splits sum.splits)
  from route_change [OF change] user show ?thesis
    by (auto simp: get_master_def split: if_splits)
qed

text \<open>The sample registry behind the sample access rules.\<close>

definition sample_api :: "(unit, unit, unit, string) api" where
  "sample_api = \<lparr>ap_env = sample_env, ap_authx = sample_authx, ap_auth = AclAuth sample_authorizer, ap_use_formatter = False,
     ap_serialize = (\<lambda>_. []), ap_unquote = (\<lambda>s. s)\<rparr>"

definition sample_primary :: primary_info where
  "sample_primary = \<lparr>pi_primary = True, pi_url = None\<rparr>"

definition sample_request :: "string \<Rightarrow> schema_request" where
  "sample_request str = \<lparr>rq_schema_str = str, rq_schema_type = AVRO, rq_references = None\<rparr>"

theorem changes_need_primary_and_permission_witness:
  "\<exists>user. get_current_user sample_api (Some (''u'', ''pw'')) = Inr user \<and> api_check sample_api user Write ''Subject:s''"
proof -
  have "length (rg_log (snd (serve sample_api sample_primary (Some (''u'', ''pw''))
      (SubjectVersionsPost ''s'' (sample_request ''b'') False) sample_registry))) \<noteq> length (rg_log sample_registry)"
    by code_simp
  then have "snd (serve sample_api sample_primary (Some (''u'', ''pw''))
      (SubjectVersionsPost ''s'' (sample_request ''b'') False) sample_registry) \<noteq> sample_registry" by metis
  from changes_need_primary_and_permission [OF this] show ?thesis by (auto simp: sample_api_def subject_resource_def)
qed

section \<open>What a response shows\<close>

text \<open>The subjects a response names, apart from the optional subject list of a schema fetched by id.\<close>

fun response_subjects :: "response \<Rightarrow> string list" where
  "response_subjects (RSubjects ss) = ss"
| "response_subjects (RSchema r) = [sp_subject r]"
| "response_subjects (RSubjectVersion r) = (case vr_subject r of JStr s \<Rightarrow> [s] | _ \<Rightarrow> [])"
| "response_subjects (RListing items) = map li_subject items"
| "response_subjects (RSubjectVersions svs) = map fst svs"
| "response_subjects _ = []"

lemma match_versions_subject: "match_versions ap s t nz new db svs = Inr r \<Longrightarrow> sp_subject r = s"
  by (induction svs) (auto split: if_splits)

lemma selected_subset:
  "set (let selected = (if latest \<and> length svs > 0 then [last svs] else svs)
        in if b then filter P selected else selected) \<subseteq> set svs"
  by auto

lemma find_schemas_member:
  assumes "(s, svs) \<in> set (find_schemas deleted latest db)" and "sv \<in> set svs"
  shows "\<exists>sd. (s, sd) \<in> set (subjects db) \<and> sv \<in> set (dict_values (sd_schemas sd))"
proof -
  from assms(1) obtain sd where "(s, sd) \<in> set (subjects db)"
    and "svs = (let selected = (if latest \<and> length (dict_values (sd_schemas sd)) > 0 then [last (dict_values (sd_schemas sd))]
                  else dict_values (sd_schemas sd))
         in if deleted then filter (\<lambda>sv. \<not> sv_deleted sv) selected else selected)"
    by (auto simp: find_schemas_def Let_def)
  moreover from this(2) have "set svs \<subseteq> set (dict_values (sd_schemas sd))" by (simp only: selected_subset)
  ultimately show ?thesis using assms(2) by blast
qed

lemma stored_subject:
  assumes "db_ok e db" and "(s, sd) \<in> set (subjects db)" and "sv \<in> set (dict_values (sd_schemas sd))"
  shows "sv_subject sv = s"
proof -
  have "dict_get (subjects db) s = Some sd" using assms(1,2) by (simp add: db_ok_def dict_get_eq_Some)
  then have all: "find_subject_schemas s True db = sd_schemas sd" by (simp add: find_subject_schemas_def)
  have ok: "dict_ok (find_subject_schemas s True db)"
    and subj: "dict_get (find_subject_schemas s True db) v = Some sv \<Longrightarrow> sv_subject sv = s" for v
    using assms(1) by (simp_all add: db_ok_def versions_ok_def)
  from assms(3) dict_values_eq [OF ok [unfolded all]] subj [unfolded all] show ?thesis by blast
qed

lemma listed_subject:
  assumes "db_ok e db" and "item \<in> set (ctl_schemas_list ap deleted latest user db)"
  shows "api_check ap user Read (subject_resource (li_subject item))"
proof -
  from assms(2) obtain s svs sv where "(s, svs) \<in> set (find_schemas deleted latest db)" and "sv \<in> set svs"
    and "item = listing_item sv" and "api_check ap user Read (subject_resource s)"
    by (auto simp: ctl_schemas_list_def schemas_list_def split: if_splits)
  with find_schemas_member stored_subject [OF assms(1)] show ?thesis by (metis listing_item_def schema_listing_item.select_convs(1))
qed

lemma version_get_subject:
  "ctl_subject_version_get s v d db = Inr r \<Longrightarrow> vr_subject r = JStr s"
  by (auto simp: ctl_subject_version_get_def subject_version_get_def version_response_of_def Let_def
      split: option.splits if_splits)

lemma schema_post_subject: "subjects_schema_post ap s rq d nz db = Inr r \<Longrightarrow> sp_subject r = s"
  by (auto simp: subjects_schema_post_def dest: match_versions_subject)

lemma guarded_Inr:
  "guarded ap user op resource body rg = (Inr r, rg') \<longleftrightarrow> api_check ap user op resource \<and> body rg = (Inr r, rg')"
  by (simp add: guarded_def)

lemma query_Inr: "query f q rg = (Inr r, rg') \<longleftrightarrow> rg' = rg \<and> (\<exists>x. q rg = Inr x \<and> r = f x)"
  by (auto simp: query_def)

lemma command_Inr: "command f m rg = (Inr r, rg') \<longleftrightarrow> (\<exists>x. m rg = (Inr x, rg') \<and> r = routed_response f x)"
  by (auto simp: command_def split: prod.splits)

lemma routed_response_subjects:
  "(\<And>y. response_subjects (f y) = []) \<Longrightarrow> response_subjects (routed_response f x) = []"
  by (cases x) auto



text \<open>The sample registry with its schema also registered under a subject that the user may not read.\<close>

definition shared_registry :: registry where
  "shared_registry = snd (perform sample_env (RegisterSchema ''hidden'' (sample_schema ''a'') None) sample_registry)"

text \<open>
  The subject list of a schema fetched by id is not filtered: a user who may read one of the
  subjects that share the schema is told the names of all of them.
\<close>

theorem schema_by_id_shows_hidden_subject:
  "(case fst (serve sample_api sample_primary (Some (''u'', ''pw'')) (SchemasGet ''1'' True False []) shared_registry) of
      Inr (RSchemas r) \<Rightarrow> sr_subjects r = Some [''s'', ''hidden'']
    | _ \<Rightarrow> False) \<and>
   fst (serve sample_api sample_primary (Some (''u'', ''pw'')) (SubjectVersionsList ''hidden'' False) shared_registry) =
     Inl unauthorized"
proof
  show "case fst (serve sample_api sample_primary (Some (''u'', ''pw'')) (SchemasGet ''1'' True False []) shared_registry) of
      Inr (RSchemas r) \<Rightarrow> sr_subjects r = Some [''s'', ''hidden'']
    | _ \<Rightarrow> False" by code_simp
  show "fst (serve sample_api sample_primary (Some (''u'', ''pw'')) (SubjectVersionsList ''hidden'' False) shared_registry) =
     Inl unauthorized" by code_simp
qed

text \<open>
  A version that is not a number from 1 up, \<open>-1\<close> or \<open>latest\<close> is answered with status 422 by the
  routes that read and delete a version, but the compatibility check lets the exception through.
\<close>

theorem invalid_version_in_compatibility_check:
  assumes "versioner_V (TagStr v) = Inl x" and "get_compatibility_mode s rd = Inr mode"
    and "get_new_schema ap rq (rd_database rd) = Inr new"
  shows "ctl_subject_version_get s v d (rd_database rd) = Inl (HTTPException 422 (Some 42202)) \<and>
    compatibility_check ap s rq v rd = Inl (Unhandled InvalidVersion)"
  using assms versioner_V_errors [OF assms(1)]
  by (simp add: ctl_subject_version_get_def compatibility_check_def answer_of_def version_clauses_def invalid_version_def
      http_error_def)

theorem invalid_version_in_compatibility_check_witness:
  "compatibility_check sample_api ''s'' (sample_request ''b'') ''zero'' (rg_reader sample_registry) = Inl (Unhandled InvalidVersion)"
proof -
  have 1: "versioner_V (TagStr ''zero'') = Inl InvalidVersion" by code_simp
  have 2: "get_compatibility_mode ''s'' (rg_reader sample_registry) = Inr BACKWARD" by code_simp
  have 3: "get_new_schema sample_api (sample_request ''b'') (rg_db sample_registry) = Inr (sample_schema ''b'')" by code_simp
  from invalid_version_in_compatibility_check [OF 1 2 3] show ?thesis by blast
qed

section \<open>Forwarding to the primary\<close>

definition HEADERS_TO_FORWARD :: "string list" where
  "HEADERS_TO_FORWARD = [''authorization'', ''content-type'', ''traceparent'']"

definition forwardable_headers :: "(string, string) dict \<Rightarrow> (string, string) dict" where
  "forwardable_headers headers = filter (\<lambda>(k, v). map lower_char k \<in> set HEADERS_TO_FORWARD) headers"

definition acceptable_response_content_type :: "string \<Rightarrow> bool" where
  "acceptable_response_content_type ct \<longleftrightarrow>
     (prefix ''application/'' ct \<and> suffix ''json'' ct) \<or> ct = ''application/octet-stream''"

definition forward_url :: "string \<Rightarrow> string \<Rightarrow> string \<Rightarrow> string" where
  "forward_url primary_url path url_query =
     (if url_query \<noteq> [] then primary_url @ path @ ''?'' @ url_query else primary_url @ path)"

text \<open>
  The answer made from the primary's response: an error with its status, code and message, or the
  parsed body. The parser of the response model is the parameter \<open>parse_raw\<close>.
\<close>

datatype response_type = TypeInt | TypeIntList | TypeModel

datatype 'm forward_result =
    ForwardedError nat json json
  | ForwardedInt int
  | ForwardedJson json
  | ForwardedModel 'm
  | ForwardUnhandled exn

definition forward_request_remote ::
    "('a, 'n, 'p, 'z) ext_scheme \<Rightarrow> (string \<Rightarrow> 'm res) \<Rightarrow> response_type \<Rightarrow> nat \<Rightarrow> string \<Rightarrow> 'm forward_result" where
  "forward_request_remote e parse_raw t response_status body =
     (if response_status \<ge> 400
      then (case json_decode e body of
              Inr (JObj d) \<Rightarrow>
                ForwardedError response_status
                  (case dict_get d ''error_code'' of None \<Rightarrow> JInt (int response_status) | Some c \<Rightarrow> c)
                  (case dict_get d ''message'' of None \<Rightarrow> JStr ''Unknown error'' | Some m \<Rightarrow> m)
            | Inr _ \<Rightarrow> ForwardUnhandled AttributeError
            | Inl _ \<Rightarrow>
                ForwardedError response_status (JInt (int response_status))
                  (JStr (if body \<noteq> [] then body else ''Unknown error'')))
      else case t of
             TypeInt \<Rightarrow> (case py_int body of Inr i \<Rightarrow> ForwardedInt i | Inl x \<Rightarrow> ForwardUnhandled x)
           | TypeIntList \<Rightarrow> (case json_decode e body of Inr j \<Rightarrow> ForwardedJson j | Inl x \<Rightarrow> ForwardUnhandled x)
           | TypeModel \<Rightarrow> (case parse_raw body of Inr m \<Rightarrow> ForwardedModel m | Inl x \<Rightarrow> ForwardUnhandled x))"

lemma forwardable_headers_subset:
  "set (forwardable_headers hs) \<subseteq> set hs"
  "(k, v) \<in> set (forwardable_headers hs) \<Longrightarrow> map lower_char k \<in> {''authorization'', ''content-type'', ''traceparent''}"
  by (auto simp: forwardable_headers_def HEADERS_TO_FORWARD_def)

text \<open>
  An error of the primary keeps its status and error code when it is forwarded.
\<close>

lemma forwarded_error_kept:
  assumes "json_decode e body = Inr (JObj [(''error_code'', c), (''message'', m)])" and "400 \<le> status"
  shows "forward_request_remote e pr t status body = ForwardedError status c m"
  using assms by (simp add: forward_request_remote_def)

end
