(* ===== verification/Schema_Coordinator.thy ===== *)
theory Schema_Coordinator
  imports Schema_Registry "HOL-Library.Sublist"
begin

text \<open>
  \<open>karapace/core/coordinator/schema_coordinator.py\<close> and \<open>master_coordinator.py\<close>: the election of the
  primary with the Kafka group protocol. The nodes join a group, the group leader chooses the primary
  and every node learns the choice from its assignment; a newly elected primary waits before it acts.

  The broker's responses and the clock are inputs: \<^const>\<open>None\<close> for a request that fails with a
  \<open>KafkaError\<close>, otherwise the fields of the response. A sleep and the locks are left out. The bytes of
  a member's identity are texts of the JSON codec; the fields of an identity are read at the types
  that Karapace writes (a scheme and host that are strings, a port that is an integer).
\<close>

section \<open>Identities and assignments\<close>

record member_identity =
  mi_host :: string
  mi_port :: int
  mi_scheme :: string
  mi_eligible :: json

definition get_member_url :: "string \<Rightarrow> string \<Rightarrow> int \<Rightarrow> string" where
  "get_member_url scheme host port = scheme @ ''://'' @ host @ '':'' @ show_int port"

definition identity_url :: "member_identity \<Rightarrow> string" where
  "identity_url mi = get_member_url (mi_scheme mi) (mi_host mi) (mi_port mi)"

definition get_member_configuration :: "string \<Rightarrow> member_identity \<Rightarrow> json" where
  "get_member_configuration karapace_version mi =
     JObj [(''version'', JInt 2), (''karapace_version'', JStr karapace_version), (''host'', JStr (mi_host mi)),
           (''port'', JInt (mi_port mi)), (''scheme'', JStr (mi_scheme mi)), (''master_eligibility'', mi_eligible mi)]"

definition identity_of_json :: "json \<Rightarrow> member_identity res" where
  "identity_of_json j =
     rbind (jindex j ''master_eligibility'') (\<lambda>eligible.
     rbind (read_typed_str j ''scheme'') (\<lambda>scheme.
     rbind (read_typed_str j ''host'') (\<lambda>host.
     rbind (read_typed_int j ''port'') (\<lambda>port.
       Inr \<lparr>mi_host = host, mi_port = port, mi_scheme = scheme, mi_eligible = eligible\<rparr>))))"

definition decode_identity :: "('a, 'n, 'p, 'z) ext_scheme \<Rightarrow> string \<Rightarrow> member_identity res" where
  "decode_identity e data = rbind (json_decode e data) identity_of_json"

record assignment =
  as_member_id :: string
  as_metadata :: string

record join_member =
  jm_member_id :: string
  jm_member_data :: string

datatype group_error =
    NoError | GroupCoordinatorNotAvailable | NotCoordinatorForGroup | RebalanceInProgress | IllegalGeneration
  | UnknownMemberId | GroupAuthorizationFailed | MemberIdRequired | GroupLoadInProgress | InconsistentGroupProtocol
  | InvalidSessionTimeout | InvalidGroupId | OtherGroupError

record join_response =
  jr_error :: group_error
  jr_member_id :: string
  jr_generation :: int
  jr_protocol :: string
  jr_leader_id :: string
  jr_members :: "join_member list"

record sync_response =
  sy_error :: group_error
  sy_assignment :: string

section \<open>State\<close>

text \<open>\<open>_initial_election_sec\<close>: infinity, a time, or \<open>None\<close> once the waiting time has passed.\<close>

datatype election_time = Never | ElectedAt rat | WaitedFor

record coordinator_config =
  cc_election_strategy :: string
  cc_hostname :: string
  cc_port :: int
  cc_scheme :: string
  cc_master_eligibility :: bool
  cc_session_timeout :: rat
  cc_waiting_time :: rat
  cc_version :: string

record coordinator =
  co_ready :: bool
  co_are_we_master :: "bool option"
  co_master_url :: "string option"
  co_initial_election :: election_time
  co_last_leader :: "rat option"
  co_generation :: int
  co_member_id :: string
  co_coordinator_id :: "int option"
  co_rejoin_needed :: bool
  co_heartbeat :: bool
  co_metadata_snapshot :: "assignment list"

definition DEFAULT_GENERATION_ID :: int where
  "DEFAULT_GENERATION_ID = -1"

definition UNKNOWN_MEMBER_ID :: string where
  "UNKNOWN_MEMBER_ID = []"

definition init_coordinator :: coordinator where
  "init_coordinator =
     \<lparr>co_ready = False, co_are_we_master = Some False, co_master_url = None, co_initial_election = Never,
      co_last_leader = None, co_generation = DEFAULT_GENERATION_ID, co_member_id = UNKNOWN_MEMBER_ID,
      co_coordinator_id = None, co_rejoin_needed = False, co_heartbeat = False, co_metadata_snapshot = []\<rparr>"

section \<open>Are we the primary?\<close>

definition is_master_assigned_to_myself :: "coordinator \<Rightarrow> bool" where
  "is_master_assigned_to_myself co \<longleftrightarrow> co_are_we_master co = Some True"

text \<open>
  \<open>are_we_master\<close> with the schema reader it may set to not ready.
\<close>

definition are_we_master ::
    "coordinator_config \<Rightarrow> rat \<Rightarrow> coordinator \<times> reader \<Rightarrow> bool \<times> (coordinator \<times> reader)" where
  "are_we_master cc now s =
     (case s of (co, rd) \<Rightarrow>
        (case co_are_we_master co of
           None \<Rightarrow> (False, (co, rd))
         | Some master \<Rightarrow>
             if \<not> co_ready co \<or> \<not> rd_ready rd then (False, (co, rd))
             else if master \<and> co_initial_election co \<noteq> WaitedFor
             then (case co_initial_election co of
                     ElectedAt t \<Rightarrow>
                       if now > t + cc_waiting_time cc
                       then (False, (co\<lparr>co_initial_election := WaitedFor\<rparr>, set_not_ready rd))
                       else (False, (co, rd))
                   | _ \<Rightarrow> (False, (co, rd)))
             else (master, (co, rd))))"

section \<open>Losing the group\<close>

definition request_rejoin :: "coordinator \<Rightarrow> coordinator" where
  "request_rejoin co = co\<lparr>co_rejoin_needed := True\<rparr>"

definition coordinator_dead :: "coordinator \<Rightarrow> coordinator" where
  "coordinator_dead co =
     (if co_coordinator_id co \<noteq> None
      then request_rejoin (co\<lparr>co_are_we_master := Some False, co_coordinator_id := None\<rparr>) else co)"

definition reset_generation :: "coordinator \<Rightarrow> coordinator" where
  "reset_generation co =
     request_rejoin (co\<lparr>co_are_we_master := Some False, co_generation := DEFAULT_GENERATION_ID,
       co_member_id := UNKNOWN_MEMBER_ID\<rparr>)"

text \<open>\<open>send_req\<close>: a failed send marks the coordinator dead; without a coordinator nothing is sent.\<close>

definition send_req :: "'resp option \<Rightarrow> coordinator \<Rightarrow> 'resp option \<times> coordinator" where
  "send_req response co =
     (if co_coordinator_id co = None then (None, co)
      else case response of
             None \<Rightarrow> (None, coordinator_dead co)
           | Some r \<Rightarrow> (Some r, co))"

text \<open>\<open>_maybe_leave_group\<close>: the leave request is sent on a best-effort basis.\<close>

definition maybe_leave_group ::
    "coordinator_config \<Rightarrow> rat \<Rightarrow> unit option \<Rightarrow> coordinator \<times> reader \<Rightarrow> coordinator \<times> reader" where
  "maybe_leave_group cc now response s =
     (let (co, rd) = s;
          co = (if co_generation co > 0 then snd (send_req response co) else co);
          (master, (co, rd)) = are_we_master cc now (co, rd);
          co = (if master then co\<lparr>co_last_leader := Some now\<rparr> else co)
      in (reset_generation co, rd))"

section \<open>Metadata\<close>

definition get_metadata_snapshot :: "('a, 'n, 'p, 'z) ext_scheme \<Rightarrow> coordinator_config \<Rightarrow> assignment list" where
  "get_metadata_snapshot e cc =
     [\<lparr>as_member_id = ''v0'',
       as_metadata = json_encode e False (get_member_configuration (cc_version cc)
         \<lparr>mi_host = cc_hostname cc, mi_port = cc_port cc, mi_scheme = cc_scheme cc,
          mi_eligible = JBool (cc_master_eligibility cc)\<rparr>)\<rparr>]"

definition handle_metadata_update :: "('a, 'n, 'p, 'z) ext_scheme \<Rightarrow> coordinator_config \<Rightarrow> coordinator \<Rightarrow> coordinator" where
  "handle_metadata_update e cc co =
     (if co_metadata_snapshot co \<noteq> get_metadata_snapshot e cc
      then request_rejoin (co\<lparr>co_metadata_snapshot := get_metadata_snapshot e cc\<rparr>) else co)"

text \<open>\<open>start\<close>: fresh futures, then the first metadata update.\<close>

definition start_coordinator :: "('a, 'n, 'p, 'z) ext_scheme \<Rightarrow> coordinator_config \<Rightarrow> coordinator \<Rightarrow> coordinator" where
  "start_coordinator e cc co = handle_metadata_update e cc (co\<lparr>co_rejoin_needed := False\<rparr>)"

section \<open>The assignment\<close>

type_synonym candidates = "(string, string \<times> string) dict"

text \<open>The loop of \<open>perform_assignment\<close>: eligible members and the others, by URL.\<close>

definition collect_member ::
    "('a, 'n, 'p, 'z) ext_scheme \<Rightarrow> join_member \<Rightarrow> candidates \<times> candidates \<Rightarrow> (candidates \<times> candidates) res" where
  "collect_member e m acc =
     rbind (decode_identity e (jm_member_data m)) (\<lambda>mi.
       let entry = (jm_member_id m, jm_member_data m)
       in if mi_eligible mi = JBool True then Inr (dict_set (fst acc) (identity_url mi) entry, snd acc)
          else Inr (fst acc, dict_set (snd acc) (identity_url mi) entry))"

definition collect_members ::
    "('a, 'n, 'p, 'z) ext_scheme \<Rightarrow> join_member list \<Rightarrow> (candidates \<times> candidates) res" where
  "collect_members e members = rfold (collect_member e) members ([], [])"

definition ascii_lower :: "string \<Rightarrow> string" where
  "ascii_lower s = map (\<lambda>c. let n = (of_char c :: nat) in if 65 \<le> n \<and> n \<le> 90 then char_of (n + 32) else c) s"

text \<open>\<open>sorted(urls, reverse=...)\<close> and its first element.\<close>

definition sorted_urls :: "coordinator_config \<Rightarrow> string list \<Rightarrow> string list" where
  "sorted_urls cc urls =
     (if ascii_lower (cc_election_strategy cc) = ''highest'' then rev (sort urls) else sort urls)"

definition choose_url :: "coordinator_config \<Rightarrow> string list \<Rightarrow> string res" where
  "choose_url cc urls = (case sorted_urls cc urls of [] \<Rightarrow> Inl IndexError | u # us \<Rightarrow> Inr u)"

definition choose_master ::
    "('a, 'n, 'p, 'z) ext_scheme \<Rightarrow> coordinator_config \<Rightarrow> join_member list \<Rightarrow> (string \<times> string) res" where
  "choose_master e cc members =
     rbind (collect_members e members) (\<lambda>(urls, fallback_urls).
       let candidates = (if urls \<noteq> [] then urls else fallback_urls)
       in rbind (choose_url cc (dict_keys candidates)) (\<lambda>chosen_url.
            of_option KeyError (dict_get candidates chosen_url)))"

definition assignment_json :: "string \<Rightarrow> string \<Rightarrow> member_identity \<Rightarrow> json" where
  "assignment_json karapace_version master mi =
     JObj [(''master'', JStr master), (''master_identity'', get_member_configuration karapace_version mi), (''error'', JInt 0)]"

text \<open>\<open>perform_assignment\<close> forgets whether this node is the primary, even when it fails.\<close>

definition perform_assignment ::
    "('a, 'n, 'p, 'z) ext_scheme \<Rightarrow> coordinator_config \<Rightarrow> join_response \<Rightarrow> coordinator \<Rightarrow> assignment list res \<times> coordinator" where
  "perform_assignment e cc response co =
     (rbind (choose_master e cc (jr_members response)) (\<lambda>(master, data).
      rbind (decode_identity e data) (\<lambda>mi.
        Inr (map (\<lambda>m. \<lparr>as_member_id = jm_member_id m,
                       as_metadata = json_encode e False (assignment_json (cc_version cc) master mi)\<rparr>)
               (jr_members response)))),
      co\<lparr>co_are_we_master := None\<rparr>)"

section \<open>Completing a join\<close>

definition on_join_complete ::
    "('a, 'n, 'p, 'z) ext_scheme \<Rightarrow> coordinator_config \<Rightarrow> rat \<Rightarrow> string \<Rightarrow> string \<Rightarrow> coordinator \<times> reader \<Rightarrow>
     unit res \<times> (coordinator \<times> reader)" where
  "on_join_complete e cc now member_id metadata s =
     (case s of (co, rd) \<Rightarrow>
        (case rbind (json_decode e metadata) (\<lambda>a.
                rbind (rbind (jindex a ''master_identity'') identity_of_json) (\<lambda>mi.
                rbind (jindex a ''master'') (\<lambda>master. Inr (mi, master)))) of
           Inl x \<Rightarrow> (Inl x, s)
         | Inr (mi, master) \<Rightarrow>
             if master = JStr member_id \<and> truthy (mi_eligible mi)
             then
               let co = co\<lparr>co_master_url := Some (identity_url mi), co_are_we_master := Some True, co_ready := True\<rparr>;
                   wait = (case co_last_leader co of None \<Rightarrow> True | Some t \<Rightarrow> t + cc_waiting_time cc < now)
               in (Inr (), if wait then (co\<lparr>co_initial_election := ElectedAt now\<rparr>, set_not_ready rd) else (co, rd))
             else if \<not> truthy (mi_eligible mi)
             then (Inr (), (co\<lparr>co_master_url := None, co_are_we_master := Some False, co_ready := True\<rparr>, rd))
             else (Inr (), (co\<lparr>co_master_url := Some (identity_url mi), co_are_we_master := Some False, co_ready := True\<rparr>, rd))))"

section \<open>Heartbeats\<close>

text \<open>Exceptions that end the background task: authorization, or anything unexpected.\<close>

datatype group_exn = GroupAuthorizationFailedExn | FatalGroupExn group_error | UnexpectedGroupExn

definition do_heartbeat :: "group_error option \<Rightarrow> coordinator \<Rightarrow> (group_exn + bool) \<times> coordinator" where
  "do_heartbeat response co =
     (case send_req response co of
        (None, co') \<Rightarrow> (Inr False, co')
      | (Some error_type, co') \<Rightarrow>
          (case error_type of
             NoError \<Rightarrow> (Inr True, co')
           | GroupCoordinatorNotAvailable \<Rightarrow> (Inr False, coordinator_dead co')
           | NotCoordinatorForGroup \<Rightarrow> (Inr False, coordinator_dead co')
           | RebalanceInProgress \<Rightarrow> (Inr True, request_rejoin co')
           | IllegalGeneration \<Rightarrow> (Inr False, reset_generation co')
           | UnknownMemberId \<Rightarrow> (Inr False, reset_generation co')
           | GroupAuthorizationFailed \<Rightarrow> (Inl GroupAuthorizationFailedExn, co')
           | _ \<Rightarrow> (Inl UnexpectedGroupExn, co')))"

text \<open>
  \<open>_heartbeat_routine\<close>, one round per element: the response and the time after it. It ends when the
  broker no longer knows the member.
\<close>

fun heartbeat_routine ::
    "coordinator_config \<Rightarrow> (group_error option \<times> rat) list \<Rightarrow> rat \<Rightarrow> coordinator \<Rightarrow> (group_exn + unit) \<times> coordinator" where
  "heartbeat_routine cc [] last_ok_heartbeat co = (Inr (), co)"
| "heartbeat_routine cc ((response, now) # rounds) last_ok_heartbeat co =
     (if co_member_id co = UNKNOWN_MEMBER_ID then (Inr (), co)
      else case do_heartbeat response co of
             (Inl x, co') \<Rightarrow> (Inl x, co')
           | (Inr success, co') \<Rightarrow>
               let last_ok_heartbeat = (if success then now else last_ok_heartbeat);
                   co' = (if now - last_ok_heartbeat > cc_session_timeout cc then coordinator_dead co' else co')
               in heartbeat_routine cc rounds last_ok_heartbeat co')"

section \<open>Joining the group\<close>

definition send_sync_group_request ::
    "sync_response option \<Rightarrow> coordinator \<Rightarrow> (group_exn + string option) \<times> coordinator" where
  "send_sync_group_request response co =
     (let co = co\<lparr>co_rejoin_needed := False\<rparr>
      in case send_req response co of
           (None, co') \<Rightarrow> (Inr None, request_rejoin co')
         | (Some r, co') \<Rightarrow>
             if sy_error r = NoError
             then (Inr (Some (sy_assignment r)), co'\<lparr>co_generation := co_generation co, co_member_id := co_member_id co\<rparr>)
             else
               let co' = request_rejoin co'
               in (case sy_error r of
                     RebalanceInProgress \<Rightarrow> (Inr None, co')
                   | UnknownMemberId \<Rightarrow> (Inr None, reset_generation co')
                   | IllegalGeneration \<Rightarrow> (Inr None, reset_generation co')
                   | GroupCoordinatorNotAvailable \<Rightarrow> (Inr None, coordinator_dead co')
                   | NotCoordinatorForGroup \<Rightarrow> (Inr None, coordinator_dead co')
                   | GroupAuthorizationFailed \<Rightarrow> (Inl GroupAuthorizationFailedExn, co')
                   | _ \<Rightarrow> (Inl UnexpectedGroupExn, co')))"

text \<open>
  The leader computes the assignments and sends them with its sync request, a follower sends none;
  \<open>broker\<close> gives the response to a sync request with the given assignments.
\<close>

definition on_join_follower :: "sync_response option \<Rightarrow> coordinator \<Rightarrow> (group_exn + string option) \<times> coordinator" where
  "on_join_follower response co = send_sync_group_request response co"

definition on_join_leader ::
    "('a, 'n, 'p, 'z) ext_scheme \<Rightarrow> coordinator_config \<Rightarrow> join_response \<Rightarrow> (assignment list \<Rightarrow> sync_response option) \<Rightarrow>
     coordinator \<Rightarrow> (group_exn + string option) \<times> coordinator" where
  "on_join_leader e cc joined broker co =
     (case perform_assignment e cc joined co of
        (Inl _, co') \<Rightarrow> (Inl UnexpectedGroupExn, co')
      | (Inr assignments, co') \<Rightarrow> send_sync_group_request (broker assignments) co')"

text \<open>
  \<open>perform_group_join\<close>: the responses to the successive join requests (a second one is sent only for
  \<open>MemberIdRequired\<close>; a list that ends is a request without a response) and the broker's answer to
  the sync request.
\<close>

fun perform_group_join ::
    "('a, 'n, 'p, 'z) ext_scheme \<Rightarrow> coordinator_config \<Rightarrow> join_response option list \<Rightarrow>
     (assignment list \<Rightarrow> sync_response option) \<Rightarrow> coordinator \<Rightarrow> (group_exn + assignment option) \<times> coordinator" where
  "perform_group_join e cc [] broker co = (Inr None, snd (send_req (None :: join_response option) co))"
| "perform_group_join e cc (response # responses) broker co =
     (case send_req response co of
        (None, co') \<Rightarrow> (Inr None, co')
      | (Some r, co') \<Rightarrow>
          (case jr_error r of
             MemberIdRequired \<Rightarrow>
               perform_group_join e cc responses broker (co'\<lparr>co_member_id := jr_member_id r\<rparr>)
           | NoError \<Rightarrow>
               let co' = co'\<lparr>co_member_id := jr_member_id r, co_generation := jr_generation r\<rparr>;
                   (a, co') = (if jr_leader_id r = jr_member_id r then on_join_leader e cc r broker co'
                               else on_join_follower (broker []) co')
               in (rbind a (\<lambda>x. Inr (map_option (\<lambda>m. \<lparr>as_member_id = jr_protocol r, as_metadata = m\<rparr>) x)), co')
           | GroupLoadInProgress \<Rightarrow> (Inr None, co')
           | UnknownMemberId \<Rightarrow> (Inr None, reset_generation co')
           | GroupCoordinatorNotAvailable \<Rightarrow> (Inr None, coordinator_dead co')
           | NotCoordinatorForGroup \<Rightarrow> (Inr None, coordinator_dead co')
           | InconsistentGroupProtocol \<Rightarrow> (Inl (FatalGroupExn InconsistentGroupProtocol), co')
           | InvalidSessionTimeout \<Rightarrow> (Inl (FatalGroupExn InvalidSessionTimeout), co')
           | InvalidGroupId \<Rightarrow> (Inl (FatalGroupExn InvalidGroupId), co')
           | GroupAuthorizationFailed \<Rightarrow> (Inl GroupAuthorizationFailedExn, co')
           | _ \<Rightarrow> (Inl UnexpectedGroupExn, co')))"

definition do_rejoin_group ::
    "('a, 'n, 'p, 'z) ext_scheme \<Rightarrow> coordinator_config \<Rightarrow> rat \<Rightarrow> join_response option list \<Rightarrow>
     (assignment list \<Rightarrow> sync_response option) \<Rightarrow> coordinator \<times> reader \<Rightarrow> (group_exn + bool) \<times> (coordinator \<times> reader)" where
  "do_rejoin_group e cc now responses broker s =
     (case s of (co, rd) \<Rightarrow>
        (case perform_group_join e cc responses broker co of
           (Inl x, co') \<Rightarrow> (Inl x, (co', rd))
         | (Inr None, co') \<Rightarrow> (Inr False, (co', rd))
         | (Inr (Some a), co') \<Rightarrow>
             (case on_join_complete e cc now (co_member_id co') (as_metadata a) (co', rd) of
                (Inl _, s') \<Rightarrow> (Inl UnexpectedGroupExn, s')
              | (Inr _, s') \<Rightarrow> (Inr True, s'))))"

text \<open>\<open>ensure_active_group\<close>: the heartbeat task is stopped for the join and started after it.\<close>

definition ensure_active_group ::
    "('a, 'n, 'p, 'z) ext_scheme \<Rightarrow> coordinator_config \<Rightarrow> rat \<Rightarrow> join_response option list \<Rightarrow>
     (assignment list \<Rightarrow> sync_response option) \<Rightarrow> coordinator \<times> reader \<Rightarrow> (group_exn + bool) \<times> (coordinator \<times> reader)" where
  "ensure_active_group e cc now responses broker s =
     (case s of (co, rd) \<Rightarrow>
        (case do_rejoin_group e cc now responses broker (co\<lparr>co_heartbeat := False\<rparr>, rd) of
           (Inr True, (co', rd')) \<Rightarrow> (Inr True, (co'\<lparr>co_heartbeat := True\<rparr>, rd'))
         | r \<Rightarrow> r))"

text \<open>One turn of \<open>__coordination_routine\<close> with a known coordinator.\<close>

definition coordination_round ::
    "('a, 'n, 'p, 'z) ext_scheme \<Rightarrow> coordinator_config \<Rightarrow> rat \<Rightarrow> join_response option list \<Rightarrow>
     (assignment list \<Rightarrow> sync_response option) \<Rightarrow> coordinator \<times> reader \<Rightarrow> (group_exn + bool) \<times> (coordinator \<times> reader)" where
  "coordination_round e cc now responses broker s =
     (if co_rejoin_needed (fst s)
      then
        let (master, (co, rd)) = are_we_master cc now s;
            co = (if master then co\<lparr>co_last_leader := Some now\<rparr> else co)
        in ensure_active_group e cc now responses broker (co, rd)
      else (Inr True, s))"

definition ensure_coordinator_known :: "int option \<Rightarrow> coordinator \<Rightarrow> coordinator" where
  "ensure_coordinator_known found co =
     (case co_coordinator_id co of
        Some _ \<Rightarrow> co
      | None \<Rightarrow> co\<lparr>co_coordinator_id := found\<rparr>)"

section \<open>The master coordinator\<close>

record node_config =
  nc_host :: string
  nc_port :: int
  nc_advertised_hostname :: "string option"
  nc_advertised_port :: "int option"

definition get_address :: "node_config \<Rightarrow> string" where
  "get_address nc = nc_host nc @ '':'' @ show_int (nc_port nc)"

text \<open>An f-string over optional values.\<close>

definition advertised_address :: "node_config \<Rightarrow> string" where
  "advertised_address nc =
     (case nc_advertised_hostname nc of None \<Rightarrow> ''None'' | Some h \<Rightarrow> h) @ '':'' @
     (case nc_advertised_port nc of None \<Rightarrow> ''None'' | Some p \<Rightarrow> show_int p)"

text \<open>\<open>get_master_info\<close>; the tests for the own address are substring tests.\<close>

definition get_master_info ::
    "coordinator_config \<Rightarrow> node_config \<Rightarrow> rat \<Rightarrow> coordinator option \<Rightarrow> reader \<Rightarrow>
     primary_info \<times> (coordinator option \<times> reader)" where
  "get_master_info cc nc now sc rd =
     (case sc of
        None \<Rightarrow> (\<lparr>pi_primary = False, pi_url = None\<rparr>, (sc, rd))
      | Some co \<Rightarrow>
          if \<not> co_ready co then (\<lparr>pi_primary = False, pi_url = None\<rparr>, (sc, rd))
          else
            let url = (case co_master_url co of
                         None \<Rightarrow> None
                       | Some u \<Rightarrow>
                           if \<not> sublist (get_address nc) u \<and> \<not> sublist (advertised_address nc) u then Some u else None);
                (master, (co', rd')) = are_we_master cc now (co, rd)
            in (\<lparr>pi_primary = master, pi_url = url\<rparr>, (Some co', rd')))"

record coordinator_status =
  cs_is_primary :: bool
  cs_is_primary_eligible :: bool
  cs_primary_url :: "string option"
  cs_group_generation_id :: int

definition get_coordinator_status ::
    "coordinator_config \<Rightarrow> rat \<Rightarrow> coordinator \<times> reader \<Rightarrow> coordinator_status \<times> (coordinator \<times> reader)" where
  "get_coordinator_status cc now s =
     (let (master, s') = are_we_master cc now s
      in (\<lparr>cs_is_primary = master, cs_is_primary_eligible = cc_master_eligibility cc,
           cs_primary_url = co_master_url (fst s), cs_group_generation_id = co_generation (fst s)\<rparr>, s'))"

end
