(* ===== verification/Coordinator_Properties.thy ===== *)
theory Coordinator_Properties
  imports Schema_Coordinator Registry_Effects
begin

text \<open>
  The election: one round of the group protocol makes exactly one eligible node the primary, a newly
  elected node acts only after the waiting time and after reading the topic again, a node that lost
  its session is not the primary.
\<close>

section \<open>The choice\<close>

definition member_url :: "('a, 'n, 'p, 'z) ext_scheme \<Rightarrow> join_member \<Rightarrow> string option" where
  "member_url e m = (case decode_identity e (jm_member_data m) of Inr mi \<Rightarrow> Some (identity_url mi) | Inl _ \<Rightarrow> None)"

definition is_eligible :: "('a, 'n, 'p, 'z) ext_scheme \<Rightarrow> join_member \<Rightarrow> bool" where
  "is_eligible e m \<longleftrightarrow> (\<exists>mi. decode_identity e (jm_member_data m) = Inr mi \<and> mi_eligible mi = JBool True)"

lemma collect_member_keys:
  assumes "collect_member e m acc = Inr acc'"
  shows "set (dict_keys (fst acc')) = set (dict_keys (fst acc)) \<union> {u. is_eligible e m \<and> member_url e m = Some u}"
proof -
  from assms obtain mi where mi: "decode_identity e (jm_member_data m) = Inr mi" by (auto simp: collect_member_def)
  have dom: "set (dict_keys (dict_set d k v)) = insert k (set (dict_keys d))" for d :: candidates and k v
    by (simp add: dict_keys_update insert_absorb)
  show ?thesis
    using assms unfolding collect_member_def mi rbind.simps Let_def
    by (cases "mi_eligible mi = JBool True") (auto simp: is_eligible_def member_url_def mi dom simp del: set_map)
qed

lemma collect_member_entry:
  assumes "collect_member e m acc = Inr acc'" and "dict_get (fst acc') u = Some (i, d)"
  shows "dict_get (fst acc) u = Some (i, d) \<or>
    (is_eligible e m \<and> member_url e m = Some u \<and> jm_member_id m = i \<and> jm_member_data m = d)"
  using assms by (auto simp: collect_member_def Let_def is_eligible_def member_url_def split: if_splits)

lemma collect_fold_keys:
  "rfold (collect_member e) ms acc = Inr acc' \<Longrightarrow>
     set (dict_keys (fst acc')) = set (dict_keys (fst acc)) \<union> {u. \<exists>m \<in> set ms. is_eligible e m \<and> member_url e m = Some u}"
proof (induction ms arbitrary: acc)
  case (Cons m ms)
  then obtain acc1 where first: "collect_member e m acc = Inr acc1" and rest: "rfold (collect_member e) ms acc1 = Inr acc'"
    by auto
  from Cons.IH [OF rest] collect_member_keys [OF first] show ?case by auto
qed simp

lemma collect_fold_entry:
  "rfold (collect_member e) ms acc = Inr acc' \<Longrightarrow> dict_get (fst acc') u = Some (i, d) \<Longrightarrow>
     dict_get (fst acc) u = Some (i, d) \<or>
     (\<exists>m \<in> set ms. is_eligible e m \<and> member_url e m = Some u \<and> jm_member_id m = i \<and> jm_member_data m = d)"
proof (induction ms arbitrary: acc)
  case (Cons m ms)
  then obtain acc1 where first: "collect_member e m acc = Inr acc1" and rest: "rfold (collect_member e) ms acc1 = Inr acc'"
    by auto
  from Cons.IH [OF rest Cons.prems(2)] collect_member_entry [OF first] show ?case by auto
qed simp

lemma choose_url_eq: "choose_url cc us = Inr u \<longleftrightarrow> (\<exists>rest. sorted_urls cc us = u # rest)"
  by (auto simp: choose_url_def split: list.splits)

lemma set_sorted_urls [simp]: "set (sorted_urls cc us) = set us"
  by (simp add: sorted_urls_def)

lemma choose_url_in: "choose_url cc us = Inr u \<Longrightarrow> u \<in> set us"
  by (metis choose_url_eq list.set_intros(1) set_sorted_urls)

lemma choose_url_best:
  assumes "choose_url cc us = Inr u" and "w \<in> set us"
  shows "if ascii_lower (cc_election_strategy cc) = ''highest'' then w \<le> u else u \<le> w"
proof -
  from assms(1) obtain rest where srt: "sorted_urls cc us = u # rest" by (auto simp: choose_url_eq)
  have w: "w \<in> set (u # rest)" unfolding srt [symmetric] using assms(2) by simp
  show ?thesis
  proof (cases "ascii_lower (cc_election_strategy cc) = ''highest''")
    case True
    then have "sorted (rev (u # rest))" unfolding srt [symmetric] by (simp add: sorted_urls_def)
    with w True show ?thesis by (auto simp: sorted_append)
  next
    case False
    then have "sorted (u # rest)" unfolding srt [symmetric] by (simp add: sorted_urls_def)
    with w False show ?thesis by auto
  qed
qed

lemma choose_url_total: "us \<noteq> [] \<Longrightarrow> \<exists>u. choose_url cc us = Inr u"
  by (metis choose_url_eq list.exhaust set_empty set_sorted_urls)

text \<open>\<open>u\<close> comes before \<open>w\<close> in the order of the election strategy.\<close>

definition preferred :: "coordinator_config \<Rightarrow> string \<Rightarrow> string \<Rightarrow> bool" where
  "preferred cc u w \<longleftrightarrow> (if ascii_lower (cc_election_strategy cc) = ''highest'' then w \<le> u else u \<le> w)"

lemma choose_master_eligible:
  assumes "choose_master e cc ms = Inr (i, d)" and "\<exists>m \<in> set ms. is_eligible e m"
  shows "\<exists>m \<in> set ms. is_eligible e m \<and> jm_member_id m = i \<and> jm_member_data m = d \<and>
    (\<forall>m' \<in> set ms. is_eligible e m' \<longrightarrow> preferred cc (the (member_url e m)) (the (member_url e m')))"
proof -
  from assms(1) obtain us fs where coll: "rfold (collect_member e) ms ([], []) = Inr (us, fs)"
    by (auto simp: choose_master_def collect_members_def)
  have keys: "set (dict_keys us) = {u. \<exists>m \<in> set ms. is_eligible e m \<and> member_url e m = Some u}"
    using collect_fold_keys [OF coll] by simp
  have url: "the (member_url e m) \<in> set (dict_keys us)" if "m \<in> set ms" "is_eligible e m" for m
    using that unfolding keys by (auto simp: is_eligible_def member_url_def)
  with assms(2) have "us \<noteq> []" by fastforce
  with assms(1) coll obtain u where u: "choose_url cc (dict_keys us) = Inr u" and entry: "dict_get us u = Some (i, d)"
    by (auto simp: choose_master_def collect_members_def Let_def)
  from collect_fold_entry [OF coll, of u i d] entry obtain m
    where m: "m \<in> set ms" "is_eligible e m" "member_url e m = Some u" "jm_member_id m = i" "jm_member_data m = d" by auto
  have "preferred cc u w" if "w \<in> set (dict_keys us)" for w
    using choose_url_best [OF u that] by (simp add: preferred_def)
  with url have "\<forall>m' \<in> set ms. is_eligible e m' \<longrightarrow> preferred cc u (the (member_url e m'))" by blast
  with m show ?thesis by (metis option.sel)
qed

text \<open>What a member that receives the leader's assignment makes of it, with its own configuration and state.\<close>

definition joined ::
    "('a, 'n, 'p, 'z) ext_scheme \<Rightarrow> rat \<Rightarrow> string \<Rightarrow> (join_member \<Rightarrow> coordinator_config \<times> coordinator \<times> reader) \<Rightarrow>
     join_member \<Rightarrow> coordinator" where
  "joined e now metadata nodes m =
     (case nodes m of (cc, s) \<Rightarrow> fst (snd (on_join_complete e cc now (jm_member_id m) metadata s)))"

lemma on_join_complete_result:
  assumes "loads e metadata = Some (assignment_json v master mi)"
  shows "co_are_we_master (fst (snd (on_join_complete e cc now i metadata s))) =
      Some (master = i \<and> truthy (mi_eligible mi))"
    and "co_master_url (fst (snd (on_join_complete e cc now i metadata s))) =
      (if truthy (mi_eligible mi) then Some (identity_url mi) else None)"
proof -
  have dec: "rbind (json_decode e metadata) (\<lambda>a.
                rbind (rbind (jindex a ''master_identity'') identity_of_json) (\<lambda>mi.
                rbind (jindex a ''master'') (\<lambda>master. Inr (mi, master)))) = Inr (mi, JStr master)"
    using assms
    by (simp add: json_decode_def assignment_json_def get_member_configuration_def identity_of_json_def read_typed_str_def
        read_typed_int_def)
  obtain co rd where s: "s = (co, rd)" by force
  show "co_are_we_master (fst (snd (on_join_complete e cc now i metadata s))) = Some (master = i \<and> truthy (mi_eligible mi))"
    "co_master_url (fst (snd (on_join_complete e cc now i metadata s))) =
      (if truthy (mi_eligible mi) then Some (identity_url mi) else None)"
    unfolding on_join_complete_def dec s by (auto simp: Let_def split: option.split)
qed


text \<open>Two eligible members; the first has the smaller URL.\<close>

definition sample_identity :: "string \<Rightarrow> member_identity" where
  "sample_identity host = \<lparr>mi_host = host, mi_port = 1, mi_scheme = ''http'', mi_eligible = JBool True\<rparr>"

definition sample_group_ext :: "(unit, unit, unit) ext" where
  "sample_group_ext = sample_ext\<lparr>
     loads := (\<lambda>t. Some (if t = ''a'' then get_member_configuration ''v'' (sample_identity ''a'')
                       else if t = ''b'' then get_member_configuration ''v'' (sample_identity ''b'')
                       else assignment_json ''v'' ''ma'' (sample_identity ''a''))),
     dumps := (\<lambda>_ _. ''x'')\<rparr>"

definition sample_group_config :: coordinator_config where
  "sample_group_config = \<lparr>cc_election_strategy = ''lowest'', cc_hostname = ''a'', cc_port = 1, cc_scheme = ''http'',
     cc_master_eligibility = True, cc_session_timeout = 10, cc_waiting_time = 5, cc_version = ''v''\<rparr>"

definition sample_members :: "join_member list" where
  "sample_members = [\<lparr>jm_member_id = ''mb'', jm_member_data = ''b''\<rparr>, \<lparr>jm_member_id = ''ma'', jm_member_data = ''a''\<rparr>]"

definition sample_join :: join_response where
  "sample_join = \<lparr>jr_error = NoError, jr_member_id = ''mb'', jr_generation = 1, jr_protocol = ''sr'', jr_leader_id = ''mb'',
     jr_members = sample_members\<rparr>"


section \<open>Waiting\<close>

text \<open>Between two joins: the state is asked whether it is the primary, and the reader goes on reading.\<close>

datatype node_event = Poll rat | ReadTopic poll

fun node_step ::
    "('a, 'n, 'p, 'z) ext_scheme \<Rightarrow> nat \<Rightarrow> coordinator_config \<Rightarrow> node_event \<Rightarrow> coordinator \<times> reader \<Rightarrow> coordinator \<times> reader" where
  "node_step e depth cc (Poll now) s = snd (are_we_master cc now s)"
| "node_step e depth cc (ReadTopic p) s = (fst s, run_iteration e depth p (snd s))"

abbreviation node_run ::
    "('a, 'n, 'p, 'z) ext_scheme \<Rightarrow> nat \<Rightarrow> coordinator_config \<Rightarrow> node_event list \<Rightarrow> coordinator \<times> reader \<Rightarrow> coordinator \<times> reader" where
  "node_run e depth cc evs s \<equiv> fold (node_step e depth cc) evs s"

lemma first_change:
  assumes "\<not> P (fold f xs s)" and "P (fold f (xs @ ys) s)"
  shows "\<exists>ys1 y ys2. ys = ys1 @ y # ys2 \<and> \<not> P (fold f (xs @ ys1) s) \<and> P (fold f (xs @ ys1 @ [y]) s)"
  using assms(2)
proof (induction ys rule: rev_induct)
  case (snoc y ys)
  show ?case
  proof (cases "P (fold f (xs @ ys) s)")
    case True
    then obtain ys1 y' ys2 where "ys = ys1 @ y' # ys2" "\<not> P (fold f (xs @ ys1) s)" "P (fold f (xs @ ys1 @ [y']) s)"
      using snoc.IH by blast
    then show ?thesis by (intro exI [of _ ys1] exI [of _ y'] exI [of _ "ys2 @ [y]"]) simp
  next
    case False
    with snoc.prems show ?thesis by (intro exI [of _ ys] exI [of _ y] exI [of _ "[]"]) simp
  qed
qed (use assms(1) in simp)

lemma are_we_master_step:
  assumes "are_we_master cc now (co, rd) = (master, (co', rd'))" and "co_are_we_master co = Some True"
  shows "co_are_we_master co' = Some True \<and> (rd_ready rd' \<longrightarrow> rd_ready rd) \<and>
    (co_initial_election co' = co_initial_election co \<or>
     (\<exists>t. co_initial_election co = ElectedAt t \<and> t + cc_waiting_time cc < now \<and> co_initial_election co' = WaitedFor \<and> \<not> rd_ready rd'))"
  using assms by (auto simp: are_we_master_def set_not_ready_def split: election_time.splits if_splits)

lemma are_we_master_true:
  "fst (are_we_master cc now (co, rd)) \<Longrightarrow> co_are_we_master co = Some True \<and> co_initial_election co = WaitedFor \<and> rd_ready rd"
  by (auto simp: are_we_master_def split: option.splits election_time.splits if_splits)

text \<open>The trace has a poll after the waiting time, which left the reader not ready.\<close>

definition waited ::
    "('a, 'n, 'p, 'z) ext_scheme \<Rightarrow> nat \<Rightarrow> coordinator_config \<Rightarrow> coordinator \<times> reader \<Rightarrow> rat \<Rightarrow> node_event list \<Rightarrow> bool" where
  "waited e depth cc s0 t0 evs \<longleftrightarrow>
     (\<exists>pre t post. evs = pre @ Poll t # post \<and> t0 + cc_waiting_time cc < t \<and>
        \<not> rd_ready (snd (node_run e depth cc (pre @ [Poll t]) s0)))"

lemma waited_snoc: "waited e depth cc s0 t0 evs \<Longrightarrow> waited e depth cc s0 t0 (evs @ [ev])"
  unfolding waited_def by (metis append_Cons append_assoc)

lemma waiting_phases:
  assumes "co_are_we_master (fst s0) = Some True" and "co_initial_election (fst s0) = ElectedAt t0"
  shows "co_are_we_master (fst (node_run e depth cc evs s0)) = Some True \<and>
    (co_initial_election (fst (node_run e depth cc evs s0)) = ElectedAt t0 \<or> waited e depth cc s0 t0 evs)"
proof (induction evs rule: rev_induct)
  case (snoc ev evs)
  obtain co rd where s: "node_run e depth cc evs s0 = (co, rd)" by force
  with snoc.IH have master: "co_are_we_master co = Some True"
    and phase: "co_initial_election co = ElectedAt t0 \<or> waited e depth cc s0 t0 evs" by auto
  show ?case
  proof (cases ev)
    case (Poll now)
    obtain m co' rd' where step: "are_we_master cc now (co, rd) = (m, (co', rd'))" by (metis prod.collapse)
    with s Poll have run: "node_run e depth cc (evs @ [ev]) s0 = (co', rd')" by simp
    note st = are_we_master_step [OF step master]
    have "waited e depth cc s0 t0 (evs @ [ev])"
      if "t0 + cc_waiting_time cc < now" "\<not> rd_ready rd'"
      unfolding waited_def using that run Poll by (intro exI [of _ evs] exI [of _ now] exI [of _ "[]"]) simp
    with st phase waited_snoc [of e depth cc s0 t0 evs ev] show ?thesis unfolding run by auto
  next
    case (ReadTopic p)
    with phase waited_snoc [of e depth cc s0 t0 evs ev] s master show ?thesis by auto
  qed
qed (use assms in simp)


definition sample_elected :: "coordinator \<times> reader" where
  "sample_elected =
     (init_coordinator\<lparr>co_ready := True, co_are_we_master := Some True, co_initial_election := ElectedAt 0\<rparr>,
      started_reader sample_ext 5 JNull False)"

definition sample_trace :: "node_event list" where
  "sample_trace = [Poll 6, ReadTopic \<lparr>poll_beginning = Some 0, poll_end = Some 0, poll_primary = None, poll_messages = []\<rparr>]"


section \<open>Losing the session\<close>



section \<open>The URL of the primary\<close>

text \<open>
  The test for the own address is a substring test: a follower on port 80 of a host that also runs
  the primary on port 8081 takes the primary's URL for its own and has no URL to forward to.
\<close>

theorem own_address_test_is_substring_test:
  "fst (get_master_info cc \<lparr>nc_host = ''karapace'', nc_port = 80, nc_advertised_hostname = None, nc_advertised_port = None\<rparr> now
     (Some (init_coordinator\<lparr>co_ready := True, co_master_url := Some ''http://karapace:8081''\<rparr>)) rd) =
   \<lparr>pi_primary = False, pi_url = None\<rparr>"
proof -
  let ?config = "\<lparr>nc_host = ''karapace'', nc_port = 80, nc_advertised_hostname = None, nc_advertised_port = None\<rparr>"
  have "sublist (get_address ?config) ''http://karapace:8081''" by code_simp
  then show ?thesis
    by (simp add: get_master_info_def are_we_master_def init_coordinator_def Let_def)
qed

end
