(* ===== verification/Message_Encoding.thy ===== *)
theory Message_Encoding
  imports Schema_Models "HOL-Library.Word"
begin

text \<open>
  The bytes of a message on the topic: the five-byte header that names the schema
  (\<open>struct\<close> format \<open>>bI\<close> in \<open>karapace/core/serialization.py\<close>) and the variable-length integers of
  \<open>karapace/core/protobuf/encoding_variants.py\<close> that name the message of a Protobuf schema. A byte
  string is a list of characters with codes below 256; a stream that is read is the list of the bytes
  not read yet, a stream that is written is the list of the bytes written so far.
\<close>

unbundle bit_operations_syntax

type_synonym bytes = string

text \<open>
  The exceptions of the serializer and of the libraries below it; \<open>Raised\<close> embeds those of the
  registry.
\<close>

datatype ser_exn =
    Raised exn
  | StructError
  | EOFError
  | IllegalArgumentException
  | InvalidMessageHeader
  | InvalidPayload
  | InvalidMessageSchema
  | SchemaRetrievalError
  | InvalidRecord
  | AvroTypeException
  | InvalidAvroBinaryEncoding
  | SchemaResolutionException
  | UnicodeDecodeError
  | ProtobufTypeException
  | DecodeError

type_synonym 'x ser = "(ser_exn, 'x) result"

definition raised :: "'x res \<Rightarrow> 'x ser" where
  "raised r = (case r of Inl x \<Rightarrow> Inl (Raised x) | Inr y \<Rightarrow> Inr y)"

lemma raised_eq_Inr [simp]: "raised r = Inr y \<longleftrightarrow> r = Inr y"
  by (auto simp: raised_def split: sum.splits)

lemma raised_simps [simp]: "raised (Inr y) = Inr y" "raised (Inl x) = Inl (Raised x)"
  by (simp_all add: raised_def)

section \<open>The header\<close>

definition START_BYTE :: int where
  "START_BYTE = 0"

definition HEADER_SIZE :: nat where
  "HEADER_SIZE = 5"

text \<open>A big-endian unsigned integer of four bytes, and its value.\<close>

definition be32 :: "nat \<Rightarrow> bytes" where
  "be32 n = map (\<lambda>k. char_of (n div 256 ^ k)) [3, 2, 1, 0]"

definition of_be :: "bytes \<Rightarrow> nat" where
  "of_be bs = foldl (\<lambda>n c. n * 256 + of_char c) 0 bs"

text \<open>\<open>struct.pack(HEADER_FORMAT, START_BYTE, schema_id)\<close>: \<open>struct.error\<close> outside the range of the format.\<close>

definition pack_header :: "int \<Rightarrow> bytes ser" where
  "pack_header schema_id =
     (if 0 \<le> schema_id \<and> schema_id < 2 ^ 32
      then Inr (char_of (nat START_BYTE) # be32 (nat schema_id)) else Inl StructError)"

text \<open>\<open>struct.unpack(HEADER_FORMAT, byte_arr)\<close>: a signed byte and an unsigned integer.\<close>

definition signed_byte :: "char \<Rightarrow> int" where
  "signed_byte c = sint (word_of_nat (of_char c) :: 8 word)"

definition unpack_header :: "bytes \<Rightarrow> (int \<times> int) ser" where
  "unpack_header bs =
     (if length bs = HEADER_SIZE then Inr (signed_byte (hd bs), int (of_be (tl bs))) else Inl StructError)"

lemma of_be_be32: "n < 2 ^ 32 \<Longrightarrow> of_be (be32 n) = n"
proof -
  assume n: "n < 2 ^ 32"
  have top: "n div 256 div 256 div 256 < 256" using n by simp
  have "of_be (be32 n) =
      (((n div 256 div 256 div 256) mod 256 * 256 + (n div 256 div 256) mod 256) * 256 + (n div 256) mod 256) * 256 + n mod 256"
    by (simp add: of_be_def be32_def div_mult2_eq [symmetric])
  also have "\<dots> = n" using top by (simp add: mult.commute)
  finally show ?thesis .
qed

lemma length_be32 [simp]: "length (be32 n) = 4"
  by (simp add: be32_def)

lemma unpack_pack:
  "pack_header i = Inr bs \<Longrightarrow> length bs = HEADER_SIZE \<and> unpack_header bs = Inr (START_BYTE, i)"
  by (auto simp: pack_header_def unpack_header_def of_be_be32 HEADER_SIZE_def START_BYTE_def signed_byte_def
      nat_less_iff split: if_splits)

section \<open>Variable-length integers\<close>

text \<open>
  \<open>read_varint\<close>: the loop with the value and the number of bytes read so far. At the end of the
  stream it returns 0 if it has read nothing.
\<close>

fun read_varint_loop :: "nat \<Rightarrow> nat \<Rightarrow> bytes \<Rightarrow> (nat \<times> bytes) ser" where
  "read_varint_loop varint read_bytes [] = (if read_bytes = 0 then Inr (0, []) else Inl EOFError)"
| "read_varint_loop varint read_bytes (c # bio) =
     (let byte = (of_char c :: nat);
          varint = varint + push_bit (7 * read_bytes) (byte AND 0x7F)
      in if byte AND 0x80 = 0 then Inr (varint, bio)
         else read_varint_loop varint (read_bytes + 1) bio)"

definition read_varint :: "bytes \<Rightarrow> (nat \<times> bytes) ser" where
  "read_varint bio = read_varint_loop 0 0 bio"

fun read_varints :: "nat \<Rightarrow> bytes \<Rightarrow> (nat list \<times> bytes) ser" where
  "read_varints 0 bio = Inr ([], bio)"
| "read_varints (Suc n) bio =
     rbind (read_varint bio) (\<lambda>(v, bio). rbind (read_varints n bio) (\<lambda>(vs, bio). Inr (v # vs, bio)))"

definition read_indexes :: "bytes \<Rightarrow> (nat list \<times> bytes) ser" where
  "read_indexes bio =
     (case read_varint bio of
        Inl EOFError \<Rightarrow> Inl IllegalArgumentException
      | Inl x \<Rightarrow> Inl x
      | Inr (count, bio) \<Rightarrow> if count = 0 then Inr ([0], bio) else read_varints count bio)"

text \<open>
  \<open>write_varint\<close>. The loop writes \<open>bytearray(to_write)[0]\<close>: \<open>bytearray(n)\<close> is a sequence of \<open>n\<close>
  zero bytes, its first element the integer 0 (\<open>IndexError\<close> for the empty one), and \<open>write\<close> of an
  integer is a \<open>TypeError\<close>.
\<close>

definition bytearray_first :: "int \<Rightarrow> int ser" where
  "bytearray_first n = (if n = 0 then Inl (Raised IndexError) else Inr 0)"

definition write_int_object :: "int \<Rightarrow> bytes \<Rightarrow> bytes ser" where
  "write_int_object i bio = Inl (Raised TypeError)"

function write_varint_loop :: "int \<Rightarrow> int \<Rightarrow> bytes \<Rightarrow> (int \<times> bytes) ser" where
  "write_varint_loop val written_bytes bio =
     (if val > 0 then
        let to_write = val AND 0x7F;
            rest = drop_bit 7 val;
            to_write = (if rest > 0 then to_write OR 0x80 else to_write)
        in rbind (bytearray_first to_write) (\<lambda>item.
             rbind (write_int_object item bio) (\<lambda>bio. write_varint_loop rest (written_bytes + 1) bio))
      else Inr (written_bytes, bio))"
  by auto
termination
  by (relation "measure (\<lambda>(val, w, bio). nat val)") (auto simp: drop_bit_eq_div)

declare write_varint_loop.simps [simp del]

definition write_varint :: "bytes \<Rightarrow> int \<Rightarrow> (int \<times> bytes) ser" where
  "write_varint bio val =
     (if val < 0 then Inl (Raised ValueError)
      else if val = 0 then Inr (1, bio @ [char_of (0 :: nat)])
      else write_varint_loop val 0 bio)"

definition write_indexes :: "bytes \<Rightarrow> int list \<Rightarrow> bytes ser" where
  "write_indexes bio indexes = rfold (\<lambda>i bio. rbind (write_varint bio i) (\<lambda>(_, bio). Inr bio)) indexes bio"

end
