(* ===== verification/Serialization.thy ===== *)
theory Serialization
  imports Message_Encoding Schema_Registry Json_Schema_Properties
begin

text \<open>
  \<open>karapace/core/serialization.py\<close>: how the REST proxy finds the schema of a message in the registry
  (subject names, lookups with their dependencies, caches) and how it reads and writes messages.
  The registry it talks to is a function from requests to answers, taken at the time of the call; a
  Python value that is serialized is a JSON value. The Avro and JSON Schema libraries and the
  generated Protobuf code are the fields of the record \<open>codec\<close>.
\<close>

section \<open>Libraries\<close>

text \<open>What the code looks at in a schema object of the Avro library: its class and attributes.\<close>

datatype 'a avro_node =
    RecordSchema (node_name: string) (node_fullname: string) (node_fields: "(string \<times> 'a) list")
  | UnionSchema (node_name: string) (node_members: "'a list")
  | ArraySchema (node_items: 'a)
  | MapSchema (node_values: 'a)
  | PrimitiveSchema (node_fullname: string)
  | OtherNamedSchema (node_name: string) (node_fullname: string)

text \<open>The types of a Protobuf file: messages with their nested types, and enumerations.\<close>

datatype pb_type = MessageType (pb_name: string) (pb_nested: "pb_type list") | EnumType (pb_name: string)

record ('a, 'p) codec =
  avro_node :: "'a \<Rightarrow> 'a avro_node"
  avro_validate :: "'a \<Rightarrow> json \<Rightarrow> bool"
  avro_write :: "'a \<Rightarrow> json \<Rightarrow> bytes ser"
  avro_read :: "'a \<Rightarrow> bytes \<Rightarrow> json ser"
  json_valid :: "json \<Rightarrow> json \<Rightarrow> bool"
  pb_types :: "'p \<Rightarrow> pb_type list"
  pb_record_name :: "'p \<Rightarrow> string option"
  pb_write :: "'p \<Rightarrow> string \<Rightarrow> json \<Rightarrow> bytes ser"
  pb_read :: "'p \<Rightarrow> string \<Rightarrow> bytes \<Rightarrow> json ser"
  py_str :: "json \<Rightarrow> string"

section \<open>Subject names\<close>

datatype name_strategy = TopicName | RecordName | TopicRecordName

datatype subject_kind = KeySubject | ValueSubject

fun subject_kind_value :: "subject_kind \<Rightarrow> string" where
  "subject_kind_value KeySubject = ''key''"
| "subject_kind_value ValueSubject = ''value''"

definition topic_name_strategy :: "string \<Rightarrow> string option \<Rightarrow> subject_kind \<Rightarrow> string ser" where
  "topic_name_strategy topic_name record_name subject_type = Inr (topic_name @ ''-'' @ subject_kind_value subject_type)"

definition record_name_strategy :: "string \<Rightarrow> string option \<Rightarrow> subject_kind \<Rightarrow> string ser" where
  "record_name_strategy topic_name record_name subject_type =
     (case record_name of None \<Rightarrow> Inl InvalidRecord | Some n \<Rightarrow> Inr n)"

definition topic_record_name_strategy :: "string \<Rightarrow> string option \<Rightarrow> subject_kind \<Rightarrow> string ser" where
  "topic_record_name_strategy topic_name record_name subject_type =
     rbind (record_name_strategy topic_name record_name subject_type) (\<lambda>validated_record_name.
       Inr (topic_name @ ''-'' @ validated_record_name))"

fun NAME_STRATEGIES :: "name_strategy \<Rightarrow> string \<Rightarrow> string option \<Rightarrow> subject_kind \<Rightarrow> string ser" where
  "NAME_STRATEGIES TopicName = topic_name_strategy"
| "NAME_STRATEGIES RecordName = record_name_strategy"
| "NAME_STRATEGIES TopicRecordName = topic_record_name_strategy"

text \<open>
  The name of the record in a schema. For a JSON Schema it is the value of \<open>title\<close>, whatever its
  type; a title that is not a string is put into the subject as Python prints it.
\<close>

definition avro_record_name :: "'a avro_node \<Rightarrow> string option" where
  "avro_record_name n =
     (case n of RecordSchema _ fullname _ \<Rightarrow> Some fullname | OtherNamedSchema _ fullname \<Rightarrow> Some fullname | _ \<Rightarrow> None)"

definition record_name_of ::
    "('a, 'n, 'p, 'z) ext_scheme \<Rightarrow> ('a, 'p) codec \<Rightarrow> ('a, 'p) parsed_typed_schema \<Rightarrow> string option ser" where
  "record_name_of e c schema =
     (case pts_schema schema of
        PAvro a \<Rightarrow> Inr (avro_record_name (avro_node c a))
      | PJson _ \<Rightarrow>
          rbind (raised (to_dict e (pts_typed schema))) (\<lambda>d.
            case d of
              JObj obj \<Rightarrow>
                Inr (case dict_get obj ''title'' of
                       None \<Rightarrow> None | Some JNull \<Rightarrow> None | Some (JStr s) \<Rightarrow> Some s | Some j \<Rightarrow> Some (py_str c j))
            | _ \<Rightarrow> Inl (Raised AttributeError))
      | PProto p \<Rightarrow> Inr (pb_record_name c p))"

definition get_subject_name ::
    "('a, 'n, 'p, 'z) ext_scheme \<Rightarrow> ('a, 'p) codec \<Rightarrow> string \<Rightarrow> ('a, 'p) parsed_typed_schema \<Rightarrow> subject_kind \<Rightarrow>
     name_strategy \<Rightarrow> string ser" where
  "get_subject_name e c topic_name schema subject_type naming_strategy =
     rbind (record_name_of e c schema) (\<lambda>record_name.
       NAME_STRATEGIES naming_strategy topic_name record_name subject_type)"

section \<open>Requests to the registry\<close>

datatype registry_request =
    GetSubjectVersion string "version option"
  | GetSchemaById int
  | PostVersion string "(string, json) dict"

record http_result =
  hr_ok :: bool
  hr_json :: "(string, json) dict"

type_synonym server = "registry_request \<Rightarrow> http_result"

text \<open>The id and the version of an answer.\<close>

definition json_id :: "json \<Rightarrow> int ser" where
  "json_id j = (case j of JInt i \<Rightarrow> Inr i | _ \<Rightarrow> Inl (Raised TypeError))"

definition json_version :: "json \<Rightarrow> version ser" where
  "json_version j =
     (case j of
        JInt i \<Rightarrow> raised (versioner_V (TagInt i))
      | JStr s \<Rightarrow> raised (versioner_V (TagStr s))
      | _ \<Rightarrow> Inl (Raised TypeError))"

definition json_text :: "json \<Rightarrow> string ser" where
  "json_text j = (case j of JStr s \<Rightarrow> Inr s | _ \<Rightarrow> Inl (Raised TypeError))"

text \<open>\<open>Reference.from_dict\<close>.\<close>

definition str_of :: "('a, 'p) codec \<Rightarrow> json \<Rightarrow> string" where
  "str_of c j = (case j of JStr s \<Rightarrow> s | _ \<Rightarrow> py_str c j)"

definition reference_from_dict :: "('a, 'p) codec \<Rightarrow> json \<Rightarrow> reference res" where
  "reference_from_dict c data =
     rbind (jindex data ''name'') (\<lambda>n.
     rbind (jindex data ''subject'') (\<lambda>s.
     rbind (jindex data ''version'') (\<lambda>v.
     rbind (version_of_json v) (\<lambda>w. Inr (Reference (str_of c n) (str_of c s) w)))))"

definition list_items :: "json \<Rightarrow> json list res" where
  "list_items j = (case j of JArr xs \<Rightarrow> Inr xs | _ \<Rightarrow> Inl TypeError)"

definition read_reference_dicts :: "('a, 'p) codec \<Rightarrow> json list \<Rightarrow> reference list res" where
  "read_reference_dicts c data = rfold (\<lambda>d refs. rbind (reference_from_dict c d) (\<lambda>r. Inr (refs @ [r]))) data []"

text \<open>The schema of an answer, parsed; \<open>InvalidSchema\<close> becomes \<open>SchemaRetrievalError\<close>.\<close>

definition retrieval_error :: "'x ser \<Rightarrow> 'x ser" where
  "retrieval_error r = (case r of Inl (Raised InvalidSchema) \<Rightarrow> Inl SchemaRetrievalError | _ \<Rightarrow> r)"

definition answer_type :: "(string, json) dict \<Rightarrow> schema_type ser" where
  "answer_type d = raised (schema_type_of (case dict_get d ''schemaType'' of None \<Rightarrow> JStr ''AVRO'' | Some t \<Rightarrow> t))"

text \<open>
  \<open>_get_schema_recursive\<close>: the recursion ends in a \<open>RecursionError\<close> of the interpreter at the given
  depth. The explored pairs of subject and version are passed down, not shared between branches.
\<close>

type_synonym ('a, 'p) found = "int \<times> ('a, 'p) parsed_typed_schema \<times> version"

fun get_schema_recursive ::
    "('a, 'n, 'p, 'z) ext_scheme \<Rightarrow> ('a, 'p) codec \<Rightarrow> server \<Rightarrow> nat \<Rightarrow> string \<Rightarrow> (string \<times> version option) set \<Rightarrow>
     version option \<Rightarrow> ('a, 'p) found ser" where
  "get_schema_recursive e c srv 0 subject explored_schemas version = Inl (Raised RecursionError)"
| "get_schema_recursive e c srv (Suc depth) subject explored_schemas version =
     (if (subject, version) \<in> explored_schemas then Inl (Raised InvalidSchema)
      else
        let explored_schemas = insert (subject, version) explored_schemas;
            result = srv (GetSubjectVersion subject version);
            d = hr_json result
        in if \<not> hr_ok result then Inl SchemaRetrievalError
           else case (dict_get d ''id'', dict_get d ''schema'', dict_get d ''version'') of
             (Some i, Some s, Some v) \<Rightarrow>
               rbind (case dict_get d ''references'' of
                        None \<Rightarrow> Inr (None, None)
                      | Some rs \<Rightarrow>
                          rbind (raised (rbind (list_items rs) (read_reference_dicts c))) (\<lambda>references.
                          rbind (rfold (\<lambda>reference dependencies.
                                   rbind (get_schema_recursive e c srv depth (ref_subject reference) explored_schemas
                                            (Some (ref_version reference))) (\<lambda>(_, schema, version).
                                     Inr (dict_set dependencies (ref_name reference)
                                            (Dependency (ref_name reference) (ref_subject reference) version (pts_typed schema)))))
                                 references [])
                            (\<lambda>dependencies. Inr (Some references, Some dependencies)))) (\<lambda>(references, dependencies).
               retrieval_error
                 (rbind (answer_type d) (\<lambda>schema_type.
                  rbind (json_id i) (\<lambda>schema_id.
                  rbind (json_text s) (\<lambda>schema_str.
                  rbind (raised (validated_parse e schema_type schema_str references dependencies)) (\<lambda>schema.
                  rbind (json_version v) (\<lambda>version. Inr (schema_id, schema, version))))))))
           | _ \<Rightarrow> Inl SchemaRetrievalError)"

text \<open>
  \<open>get_schema\<close> is memoised with \<open>alru_cache\<close>: \<open>memo\<close> is what the cache holds for a pair of subject and
  version at the time of the call.
\<close>

type_synonym ('a, 'p) memo = "string \<Rightarrow> version option \<Rightarrow> ('a, 'p) found option"

definition client_get_schema ::
    "('a, 'n, 'p, 'z) ext_scheme \<Rightarrow> ('a, 'p) codec \<Rightarrow> server \<Rightarrow> nat \<Rightarrow> ('a, 'p) memo \<Rightarrow> string \<Rightarrow> version option \<Rightarrow>
     ('a, 'p) found ser" where
  "client_get_schema e c srv depth memo subject version =
     (case memo subject version of
        Some found \<Rightarrow> Inr found
      | None \<Rightarrow> get_schema_recursive e c srv depth subject {} version)"

fun reference_target :: "any_reference \<Rightarrow> string \<times> string \<times> version option" where
  "reference_target (Latest r) = (lref_name r, lref_subject r, None)"
| "reference_target (Resolved r) = (ref_name r, ref_subject r, Some (ref_version r))"

definition read_any_references :: "json list \<Rightarrow> any_reference list res" where
  "read_any_references data =
     rfold (\<lambda>d refs. rbind (except_raise {TypeError, KeyError} InvalidReferences (reference_from_mapping d))
                       (\<lambda>r. Inr (refs @ [r]))) data []"

text \<open>
  The parsed references of a schema by id may contain unresolved ones; they are kept as given, the
  version of an unresolved reference is only found in the dependency.
\<close>

fun kept_reference :: "any_reference \<Rightarrow> reference" where
  "kept_reference (Resolved r) = r"
| "kept_reference (Latest r) = Reference (lref_name r) (lref_subject r) (Version MINUS_1_VERSION_TAG)"

definition subject_list :: "json option \<Rightarrow> string list option" where
  "subject_list j =
     (case j of
        Some (JArr xs) \<Rightarrow> Some (List.map_filter (\<lambda>x. case x of JStr s \<Rightarrow> Some s | _ \<Rightarrow> None) xs)
      | _ \<Rightarrow> None)"

definition client_get_schema_for_id ::
    "('a, 'n, 'p, 'z) ext_scheme \<Rightarrow> ('a, 'p) codec \<Rightarrow> server \<Rightarrow> nat \<Rightarrow> ('a, 'p) memo \<Rightarrow> int \<Rightarrow>
     (('a, 'p) parsed_typed_schema \<times> string list option) ser" where
  "client_get_schema_for_id e c srv depth memo schema_id =
     (let result = srv (GetSchemaById schema_id); d = hr_json result
      in if \<not> hr_ok result
         then (case dict_get d ''message'' of None \<Rightarrow> Inl (Raised KeyError) | Some _ \<Rightarrow> Inl SchemaRetrievalError)
         else case dict_get d ''schema'' of
           None \<Rightarrow> Inl SchemaRetrievalError
         | Some s \<Rightarrow>
             retrieval_error
               (rbind (answer_type d) (\<lambda>schema_type.
                rbind (case dict_get d ''references'' of
                         None \<Rightarrow> Inr (None, None)
                       | Some rs \<Rightarrow>
                           if \<not> truthy rs then Inr (None, None)
                           else
                             rbind (raised (rbind (list_items rs) read_any_references)) (\<lambda>references.
                             rbind (rfold (\<lambda>reference dependencies.
                                      let (name, subject, version) = reference_target reference
                                      in rbind (client_get_schema e c srv depth memo subject version) (\<lambda>(_, schema, version).
                                           Inr (dict_set dependencies name (Dependency name subject version (pts_typed schema)))))
                                    references [])
                               (\<lambda>dependencies. Inr (Some (map kept_reference references), Some dependencies))))
                  (\<lambda>(references, dependencies).
                rbind (json_text s) (\<lambda>schema_str.
                rbind (raised (parsed_parse e schema_type schema_str references dependencies)) (\<lambda>schema.
                  Inr (schema, subject_list (dict_get d ''subjects''))))))))"

definition post_new_schema ::
    "('a, 'n, 'p, 'z) ext_scheme \<Rightarrow> server \<Rightarrow> string \<Rightarrow> ('a, 'p) parsed_typed_schema \<Rightarrow> int ser" where
  "post_new_schema e srv subject schema =
     (let t = JStr (schema_type_value (ts_type (pts_typed schema)))
      in rbind (if ts_type (pts_typed schema) = PROTOBUF
                then Inr [(''schema'', JStr (pts_str e schema)), (''schemaType'', t)]
                else rbind (raised (to_dict e (pts_typed schema))) (\<lambda>d.
                       Inr [(''schema'', JStr (json_encode e False d)), (''schemaType'', t)])) (\<lambda>payload.
         let result = srv (PostVersion subject payload)
         in if \<not> hr_ok result then Inl SchemaRetrievalError
            else case dict_get (hr_json result) ''id'' of None \<Rightarrow> Inl (Raised KeyError) | Some i \<Rightarrow> json_id i))"

text \<open>A value stored in an object is smaller than the object.\<close>

lemma jsize_member: "(k, x) \<in> set d \<Longrightarrow> jsize x < jsize (JObj d)"
  using member_le_sum_list [of "jsize x" "map (\<lambda>y. jsize (snd y)) d"] by force

section \<open>Reading and writing values\<close>

definition get_name :: "'a avro_node \<Rightarrow> string" where
  "get_name n =
     (case n of
        PrimitiveSchema fullname \<Rightarrow> fullname
      | ArraySchema _ \<Rightarrow> ''array''
      | MapSchema _ \<Rightarrow> ''map''
      | _ \<Rightarrow> node_name n)"

definition tagged_member :: "('a \<Rightarrow> 'a avro_node) \<Rightarrow> 'a list \<Rightarrow> (string, json) dict \<Rightarrow> 'a option" where
  "tagged_member node members d = find (\<lambda>s. dict_get d (get_name (node s)) \<noteq> None) members"

text \<open>\<open>flatten_unions\<close>: every recursive call is on a part of the value, so it returns for recursive schemas too.\<close>

function flatten_unions :: "('a \<Rightarrow> 'a avro_node) \<Rightarrow> 'a \<Rightarrow> json \<Rightarrow> json" where
  "flatten_unions node schema v =
     (case (node schema, v) of
        (RecordSchema _ _ flds, JObj d) \<Rightarrow>
          JObj (fold (\<lambda>(name, t) result.
                   case dict_get d name of
                     None \<Rightarrow> result
                   | Some x \<Rightarrow> dict_set result name (flatten_unions node t x)) flds d)
      | (UnionSchema _ members, JObj d) \<Rightarrow>
          (case tagged_member node members d of
             None \<Rightarrow> v
           | Some f \<Rightarrow>
               (case dict_get d (get_name (node f)) of
                  None \<Rightarrow> v
                | Some x \<Rightarrow> flatten_unions node f x))
      | (ArraySchema items, JArr xs) \<Rightarrow> JArr (map (flatten_unions node items) xs)
      | (MapSchema value_schema, JObj d) \<Rightarrow> JObj (map (\<lambda>(k, x). (k, flatten_unions node value_schema x)) d)
      | _ \<Rightarrow> v)"
  by pat_completeness auto
termination
proof (relation "measure (\<lambda>(node, schema, v). jsize v)", goal_cases)
  case (5 node schema v a b value_schema d p k x)
  then show ?case using jsize_member by fastforce
qed (auto simp del: jsize.simps dest: jsize_field jsize_elem)

declare flatten_unions.simps [simp del]

text \<open>
  \<open>karapace/core/protobuf/io.py\<close>: the message that a list of indexes names, and the first message of
  a schema, which is the one that is written. The child process that runs the generated code is left
  out; what it returns is \<open>pb_read\<close> and \<open>pb_write\<close>.
\<close>

fun find_message :: "pb_type list \<Rightarrow> nat list \<Rightarrow> string list ser" where
  "find_message types [] = Inr []"
| "find_message types (i # indexes) =
     (if length types \<le> i then Inl IllegalArgumentException
      else case types ! i of
        MessageType name nested_types \<Rightarrow> rbind (find_message nested_types indexes) (\<lambda>names. Inr (name # names))
      | EnumType _ \<Rightarrow> Inl IllegalArgumentException)"

definition find_message_name :: "pb_type list \<Rightarrow> nat list \<Rightarrow> string ser" where
  "find_message_name types indexes =
     rbind (find_message types indexes) (\<lambda>names. Inr (join_with ''.'' names))"

definition read_data :: "('a, 'p) codec \<Rightarrow> 'p \<Rightarrow> bytes \<Rightarrow> json ser" where
  "read_data c p bio =
     rbind (read_indexes bio) (\<lambda>(indexes, bio).
     rbind (find_message_name (pb_types c p) indexes) (\<lambda>name. pb_read c p name bio))"

fun is_message :: "pb_type \<Rightarrow> bool" where
  "is_message (MessageType _ _) \<longleftrightarrow> True"
| "is_message (EnumType _) \<longleftrightarrow> False"

definition datum_writer :: "pb_type list \<Rightarrow> (string \<times> nat) ser" where
  "datum_writer types =
     (case find (\<lambda>(_, t). is_message t) (List.enumerate 0 types) of
        None \<Rightarrow> Inl ProtobufTypeException
      | Some (idx, el) \<Rightarrow> if pb_name el = [] then Inl ProtobufTypeException else Inr (pb_name el, idx))"

definition read_value :: "('a, 'n, 'p, 'z) ext_scheme \<Rightarrow> ('a, 'p) codec \<Rightarrow> ('a, 'p) parsed_typed_schema \<Rightarrow> bytes \<Rightarrow> json ser" where
  "read_value e c schema bio =
     (case pts_schema schema of
        PAvro a \<Rightarrow> avro_read c a bio
      | PJson s \<Rightarrow>
          rbind (raised (json_decode e bio)) (\<lambda>v. if json_valid c s v then Inr v else Inl InvalidPayload)
      | PProto p \<Rightarrow> (case read_data c p bio of Inl DecodeError \<Rightarrow> Inl InvalidPayload | r \<Rightarrow> r))"

definition write_value ::
    "('a, 'n, 'p, 'z) ext_scheme \<Rightarrow> ('a, 'p) codec \<Rightarrow> ('a, 'p) parsed_typed_schema \<Rightarrow> bytes \<Rightarrow> json \<Rightarrow> bytes ser" where
  "write_value e c schema bio v =
     (case pts_schema schema of
        PAvro a \<Rightarrow>
          let data = (if avro_validate c a v then v else flatten_unions (avro_node c) a v)
          in rbind (avro_write c a data) (\<lambda>bs. Inr (bio @ bs))
      | PJson s \<Rightarrow> if json_valid c s v then Inr (bio @ json_encode e False v) else Inl InvalidPayload
      | PProto p \<Rightarrow>
          rbind (datum_writer (pb_types c p)) (\<lambda>(message_name, message_index).
          rbind (write_indexes bio [int message_index]) (\<lambda>bio.
          rbind (pb_write c p message_name v) (\<lambda>bs. Inr (bio @ bs)))))"

section \<open>The serializer and its caches\<close>

record ('a, 'p) serializer =
  sz_open :: bool
  ids_to_schemas :: "(int, ('a, 'p) parsed_typed_schema) dict"
  ids_to_subjects :: "(int, string list option) dict"
  schemas_to_ids :: "(string, int) dict"

definition init_serializer :: "('a, 'p) serializer" where
  "init_serializer = \<lparr>sz_open = True, ids_to_schemas = [], ids_to_subjects = [], schemas_to_ids = []\<rparr>"

definition close_serializer :: "('a, 'p) serializer \<Rightarrow> ('a, 'p) serializer" where
  "close_serializer sz = sz\<lparr>sz_open := False\<rparr>"

definition remember ::
    "('a, 'n, 'p, 'z) ext_scheme \<Rightarrow> int \<Rightarrow> ('a, 'p) parsed_typed_schema \<Rightarrow> ('a, 'p) serializer \<Rightarrow> ('a, 'p) serializer" where
  "remember e schema_id schema sz =
     sz\<lparr>schemas_to_ids := dict_set (schemas_to_ids sz) (pts_str e schema) schema_id,
        ids_to_schemas := dict_set (ids_to_schemas sz) schema_id schema\<rparr>"

type_synonym ('a, 'p, 'x) ser_action = "('a, 'p) serializer \<Rightarrow> 'x ser \<times> ('a, 'p) serializer"

definition get_schema_for_subject ::
    "('a, 'n, 'p, 'z) ext_scheme \<Rightarrow> ('a, 'p) codec \<Rightarrow> server \<Rightarrow> nat \<Rightarrow> ('a, 'p) memo \<Rightarrow> string \<Rightarrow>
     ('a, 'p, ('a, 'p) parsed_typed_schema) ser_action" where
  "get_schema_for_subject e c srv depth memo subject sz =
     (if \<not> sz_open sz then (Inl (Raised AssertionError), sz)
      else case client_get_schema e c srv depth memo subject None of
        Inl x \<Rightarrow> (Inl x, sz)
      | Inr (schema_id, schema, _) \<Rightarrow> (Inr schema, remember e schema_id schema sz))"

definition upsert_id_for_schema ::
    "('a, 'n, 'p, 'z) ext_scheme \<Rightarrow> server \<Rightarrow> ('a, 'p) parsed_typed_schema \<Rightarrow> string \<Rightarrow> ('a, 'p, int) ser_action" where
  "upsert_id_for_schema e srv schema_typed subject sz =
     (if \<not> sz_open sz then (Inl (Raised AssertionError), sz)
      else case dict_get (schemas_to_ids sz) (pts_str e schema_typed) of
        Some i \<Rightarrow> (Inr i, sz)
      | None \<Rightarrow>
          (case post_new_schema e srv subject schema_typed of
             Inl x \<Rightarrow> (Inl x, sz)
           | Inr schema_id \<Rightarrow> (Inr schema_id, remember e schema_id schema_typed sz)))"

text \<open>The optional callback \<open>need_new_call\<close> decides whether a cached answer is asked for again.\<close>

type_synonym ('a, 'p) need_new_call = "('a, 'p) parsed_typed_schema \<Rightarrow> string list option \<Rightarrow> bool ser"

definition cached_answer ::
    "('a, 'p) need_new_call option \<Rightarrow> int \<Rightarrow> ('a, 'p) serializer \<Rightarrow>
     (('a, 'p) parsed_typed_schema \<times> string list option) option ser" where
  "cached_answer need_new_call schema_id sz =
     (case dict_get (ids_to_subjects sz) schema_id of
        None \<Rightarrow> Inr None
      | Some subs \<Rightarrow>
          rbind (of_option (Raised KeyError) (dict_get (ids_to_schemas sz) schema_id)) (\<lambda>schema.
            case need_new_call of
              None \<Rightarrow> Inr (Some (schema, subs))
            | Some f \<Rightarrow> rbind (f schema subs) (\<lambda>again. Inr (if again then None else Some (schema, subs)))))"

definition serializer_get_schema_for_id ::
    "('a, 'n, 'p, 'z) ext_scheme \<Rightarrow> ('a, 'p) codec \<Rightarrow> server \<Rightarrow> nat \<Rightarrow> ('a, 'p) memo \<Rightarrow> ('a, 'p) need_new_call option \<Rightarrow> int \<Rightarrow>
     ('a, 'p, ('a, 'p) parsed_typed_schema \<times> string list option) ser_action" where
  "serializer_get_schema_for_id e c srv depth memo need_new_call schema_id sz =
     (if \<not> sz_open sz then (Inl (Raised AssertionError), sz)
      else case cached_answer need_new_call schema_id sz of
        Inl x \<Rightarrow> (Inl x, sz)
      | Inr (Some answer) \<Rightarrow> (Inr answer, sz)
      | Inr None \<Rightarrow>
          (case client_get_schema_for_id e c srv depth memo schema_id of
             Inl x \<Rightarrow> (Inl x, sz)
           | Inr (schema_typed, subs) \<Rightarrow>
               (Inr (schema_typed, subs),
                (remember e schema_id schema_typed sz)\<lparr>ids_to_subjects := dict_set (ids_to_subjects sz) schema_id subs\<rparr>)))"

definition serialize ::
    "('a, 'n, 'p, 'z) ext_scheme \<Rightarrow> ('a, 'p) codec \<Rightarrow> ('a, 'p) parsed_typed_schema \<Rightarrow> json \<Rightarrow> ('a, 'p) serializer \<Rightarrow> bytes ser" where
  "serialize e c schema v sz =
     rbind (of_option (Raised KeyError) (dict_get (schemas_to_ids sz) (pts_str e schema))) (\<lambda>schema_id.
     rbind (pack_header schema_id) (\<lambda>bio.
       case write_value e c schema bio v of
         Inl x \<Rightarrow> Inl (if x \<in> {ProtobufTypeException, AvroTypeException} then InvalidMessageSchema else x)
       | Inr bs \<Rightarrow> Inr bs))"

definition payload_error :: "'x ser \<Rightarrow> 'x ser" where
  "payload_error r =
     (case r of
        Inl x \<Rightarrow> if x \<in> {UnicodeDecodeError, Raised TypeError, InvalidAvroBinaryEncoding, SchemaResolutionException}
                 then Inl InvalidPayload else Inl x
      | Inr y \<Rightarrow> Inr y)"

definition deserialize ::
    "('a, 'n, 'p, 'z) ext_scheme \<Rightarrow> ('a, 'p) codec \<Rightarrow> server \<Rightarrow> nat \<Rightarrow> ('a, 'p) memo \<Rightarrow> bytes \<Rightarrow> ('a, 'p, json) ser_action" where
  "deserialize e c srv depth memo bs sz =
     (case unpack_header (take HEADER_SIZE bs) of
        Inl x \<Rightarrow> (Inl x, sz)
      | Inr (start_byte, schema_id) \<Rightarrow>
          if start_byte \<noteq> START_BYTE then (Inl InvalidMessageHeader, sz)
          else case serializer_get_schema_for_id e c srv depth memo None schema_id sz of
            (Inl x, sz') \<Rightarrow> (payload_error (Inl x), sz')
          | (Inr (schema, _), sz') \<Rightarrow> (payload_error (read_value e c schema (drop HEADER_SIZE bs)), sz'))"

end
