(* ===== verification/Serialization_Properties.thy ===== *)
theory Serialization_Properties
  imports Serialization Registry_Properties
begin

text \<open>
  What the serializer guarantees: a message that was written is read back, the lookup of a schema
  with its references ends, the caches stay consistent, and union tags are removed exactly; and where
  the encoding of message indexes fails.
\<close>

section \<open>Variable-length integers\<close>

text \<open>The encoding of the Protobuf documentation: seven bits per byte, least significant group first.\<close>

function varint :: "nat \<Rightarrow> bytes" where
  "varint n = (if n < 128 then [char_of n] else char_of (n mod 128 + 128) # varint (n div 128))"
  by auto
termination by (relation "measure id") auto

declare varint.simps [simp del]

lemma and_127: "n AND 127 = n mod (128 :: nat)"
  using take_bit_eq_mask [of 7 n] by (simp add: take_bit_eq_mod mask_eq_exp_minus_1)

lemma and_128: "n AND 128 = 0 \<longleftrightarrow> even (n div (128 :: nat))"
  using and_exp_eq_0_iff_not_bit [of n 7] by (simp add: bit_iff_odd)

lemma read_varint_loop_varint:
  "read_varint_loop acc k (varint n @ rest) = Inr (acc + push_bit (7 * k) n, rest)"
proof (induction n arbitrary: acc k rule: varint.induct)
  case (1 n)
  show ?case
  proof (cases "n < 128")
    case True
    then show ?thesis by (simp add: varint.simps [of n] and_127 and_128)
  next
    case False
    let ?b = "n mod 128 + 128"
    have b: "?b < 256" by (simp add: less_trans [of _ 128])
    have "?b div 128 = 1" by simp
    then have bits: "?b AND 128 \<noteq> 0" "?b AND 127 = n mod 128" by (simp_all add: and_127 and_128)
    have "push_bit (7 * k) n = (n mod 128 + n div 128 * 128) * 2 ^ (7 * k)" by (simp add: push_bit_eq_mult)
    also have "\<dots> = push_bit (7 * k) (n mod 128) + push_bit (7 * (k + 1)) (n div 128)"
      by (simp only: push_bit_eq_mult distrib_right) (simp add: power_add)
    finally have "push_bit (7 * k) n = \<dots>" .
    then show ?thesis
      using 1 [OF False, of "acc + push_bit (7 * k) (n mod 128)" "k + 1"] False b
      by (simp add: varint.simps [of n] bits add.assoc del: push_bit_and)
  qed
qed

text \<open>
  The reader of variable-length integers inverts the encoding of the Protobuf documentation,
  whatever follows in the stream.
\<close>

theorem read_varint_inverts_encoding: "read_varint (varint n @ rest) = Inr (n, rest)"
  by (simp add: read_varint_def read_varint_loop_varint)

text \<open>The writer only ever writes the index 0.\<close>

lemma write_varint_positive: "0 < v \<Longrightarrow> write_varint bio v = Inl (Raised TypeError)"
proof -
  assume v: "0 < v"
  let ?rest = "drop_bit 7 v"
  let ?w = "if ?rest > 0 then v AND 127 OR 128 else v AND 127"
  have "?w \<noteq> 0"
  proof (cases "?rest > 0")
    case True
    have "bit (v AND 127 OR 128) 7" by (simp add: bit_or_iff)
    then have "v AND 127 OR 128 \<noteq> 0" by (metis bit_0_eq bot_apply bot_bool_def)
    with True show ?thesis by simp
  next
    case False
    then have "v div 128 = 0" using v by (simp add: drop_bit_eq_div not_less)
    then have "v AND 127 = v" using v take_bit_eq_mask [of 7 v]
      by (simp add: take_bit_eq_mod mask_eq_exp_minus_1)
    with False v show ?thesis by simp
  qed
  then show ?thesis
    using v by (simp add: write_varint_def write_varint_loop.simps Let_def bytearray_first_def write_int_object_def)
qed

lemma write_indexes_one:
  "write_indexes bio [i] = (if i < 0 then Inl (Raised ValueError)
     else if i = 0 then Inr (bio @ [char_of (0 :: nat)]) else Inl (Raised TypeError))"
  by (simp add: write_indexes_def write_varint_positive) (simp add: write_varint_def)

lemma read_indexes_zero: "read_indexes (char_of (0 :: nat) # bio) = Inr ([0], bio)"
  by (simp add: read_indexes_def read_varint_def)

section \<open>Messages\<close>

text \<open>The value that is encoded, and what the round trip asks of the libraries for this schema and value.\<close>

definition written :: "('a, 'p) codec \<Rightarrow> ('a, 'p) parsed_typed_schema \<Rightarrow> json \<Rightarrow> json" where
  "written c schema v =
     (case pts_schema schema of
        PAvro a \<Rightarrow> if avro_validate c a v then v else flatten_unions (avro_node c) a v
      | _ \<Rightarrow> v)"

definition codec_inverse :: "('a, 'n, 'p, 'z) ext_scheme \<Rightarrow> ('a, 'p) codec \<Rightarrow> ('a, 'p) parsed_typed_schema \<Rightarrow> json \<Rightarrow> bool" where
  "codec_inverse e c schema v =
     (case pts_schema schema of
        PAvro a \<Rightarrow> (case avro_write c a (written c schema v) of
                       Inl _ \<Rightarrow> True | Inr bs \<Rightarrow> avro_read c a bs = Inr (written c schema v))
      | PJson _ \<Rightarrow> loads e (json_encode e False v) = Some v
      | PProto p \<Rightarrow> (case datum_writer (pb_types c p) of
                        Inl _ \<Rightarrow> True
                      | Inr (name, _) \<Rightarrow> (case pb_write c p name v of Inl _ \<Rightarrow> True | Inr bs \<Rightarrow> pb_read c p name bs = Inr v)))"

lemma datum_writer_first: "datum_writer types = Inr (name, 0) \<Longrightarrow> find_message_name types [0] = Inr name"
proof -
  assume w: "datum_writer types = Inr (name, 0)"
  then obtain el where f: "find (\<lambda>(_, t). is_message t) (List.enumerate 0 types) = Some (0, el)" and n: "name = pb_name el"
    by (auto simp: datum_writer_def split: option.splits if_splits)
  from f obtain k where "k < length types" and k: "List.enumerate 0 types ! k = (0, el)" and "is_message el"
    by (auto simp: find_Some_iff)
  then have "k = 0" and "types ! 0 = el" and ne: "types \<noteq> []" by (auto simp: nth_enumerate_eq)
  with \<open>is_message el\<close> n show ?thesis by (cases el) (auto simp: find_message_name_def join_with.simps)
qed

lemma written_value_read:
  assumes "write_value e c schema bio v = Inr bs" and "codec_inverse e c schema v"
  shows "\<exists>body. bs = bio @ body \<and> read_value e c schema body = Inr (written c schema v)"
proof (cases "pts_schema schema")
  case (PAvro a)
  with assms show ?thesis
    by (auto simp: write_value_def read_value_def codec_inverse_def written_def Let_def split: if_splits)
next
  case (PJson j)
  with assms show ?thesis
    by (auto simp: write_value_def read_value_def codec_inverse_def written_def json_decode_def split: if_splits)
next
  case (PProto p)
  with assms(1) obtain name idx pre body where w: "datum_writer (pb_types c p) = Inr (name, idx)"
    and i: "write_indexes bio [int idx] = Inr pre" and b: "pb_write c p name v = Inr body" and bs: "bs = pre @ body"
    by (auto simp: write_value_def)
  from i have "idx = 0" and pre: "pre = bio @ [char_of (0 :: nat)]" by (auto simp: write_indexes_one split: if_splits)
  with w have "find_message_name (pb_types c p) [0] = Inr name" by (simp add: datum_writer_first)
  moreover have "pb_read c p name body = Inr v" using assms(2) PProto w b by (simp add: codec_inverse_def)
  ultimately have "read_value e c schema (char_of (0 :: nat) # body) = Inr v"
    using PProto by (simp add: read_value_def read_data_def read_indexes_zero)
  then show ?thesis using pre bs PProto by (simp add: written_def)
qed

lemma serialize_cases:
  assumes "serialize e c schema v sz = Inr bs"
  obtains i hdr where "dict_get (schemas_to_ids sz) (pts_str e schema) = Some i" and "pack_header i = Inr hdr"
    and "write_value e c schema hdr v = Inr bs"
proof -
  from assms obtain i hdr where i: "dict_get (schemas_to_ids sz) (pts_str e schema) = Some i" and h: "pack_header i = Inr hdr"
    and w: "(case write_value e c schema hdr v of
       Inl x \<Rightarrow> Inl (if x \<in> {ProtobufTypeException, AvroTypeException} then InvalidMessageSchema else x)
     | Inr bs \<Rightarrow> Inr bs) = Inr bs"
    by (simp only: serialize_def rbind_eq_Inr of_option_eq_Inr) blast
  from w have "write_value e c schema hdr v = Inr bs" by (cases "write_value e c schema hdr v") auto
  with i h show thesis by (rule that)
qed


lemma char_of_zero: "char_of (0 :: nat) = CHR 0x00"
  by (simp add: char_of_def)

lemma signed_byte_zero: "signed_byte c = 0 \<longleftrightarrow> c = CHR 0x00"
proof
  assume "signed_byte c = 0"
  then have "(word_of_nat (of_char c) :: 8 word) = 0" by (simp only: signed_byte_def signed_eq_0_iff)
  then have "256 dvd (of_char c :: nat)" by (simp add: word_of_nat_eq_0_iff)
  moreover have "of_char c < (256 :: nat)" by simp
  ultimately have "of_char c = (0 :: nat)" using nat_dvd_not_less by blast
  then show "c = CHR 0x00" by (metis char_of_char char_of_zero)
qed (simp add: signed_byte_def)

text \<open>
  A byte string that is shorter than the header or does not begin with the zero byte is rejected
  without a request to the registry and without a change of the caches; and what the serializer
  writes has the header, with the id of the schema in four bytes.
\<close>

theorem header_is_checked:
  "(length bs < 5 \<longrightarrow> deserialize e c srv depth memo bs sz = (Inl StructError, sz)) \<and>
   (5 \<le> length bs \<and> hd bs \<noteq> CHR 0x00 \<longrightarrow> deserialize e c srv depth memo bs sz = (Inl InvalidMessageHeader, sz)) \<and>
   (serialize e c schema v sz = Inr bs \<longrightarrow>
      (\<exists>i body. dict_get (schemas_to_ids sz) (pts_str e schema) = Some i \<and> 0 \<le> i \<and> i < 2 ^ 32 \<and>
         bs = CHR 0x00 # be32 (nat i) @ body))"
proof (intro conjI impI)
  assume "length bs < 5"
  then show "deserialize e c srv depth memo bs sz = (Inl StructError, sz)"
    by (simp add: deserialize_def unpack_header_def HEADER_SIZE_def)
next
  assume long: "5 \<le> length bs \<and> hd bs \<noteq> CHR 0x00"
  then have "signed_byte (hd (take 5 bs)) \<noteq> 0" by (cases bs) (auto simp: signed_byte_zero)
  with long show "deserialize e c srv depth memo bs sz = (Inl InvalidMessageHeader, sz)"
    by (auto simp: deserialize_def unpack_header_def HEADER_SIZE_def START_BYTE_def)
next
  assume "serialize e c schema v sz = Inr bs"
  then obtain i hdr where i: "dict_get (schemas_to_ids sz) (pts_str e schema) = Some i" and h: "pack_header i = Inr hdr"
    and w: "write_value e c schema hdr v = Inr bs" by (rule serialize_cases)
  have "\<exists>body. bs = hdr @ body"
    using w by (auto simp: write_value_def Let_def write_indexes_one split: parsed.splits if_splits)
  with i h show "\<exists>i body. dict_get (schemas_to_ids sz) (pts_str e schema) = Some i \<and> 0 \<le> i \<and> i < 2 ^ 32 \<and>
         bs = CHR 0x00 # be32 (nat i) @ body"
    by (auto simp: pack_header_def START_BYTE_def char_of_zero split: if_splits)
qed

text \<open>
  A message of a Protobuf schema whose first message type is not its first type cannot be written:
  the index of the message is greater than 0, and the writer of variable-length integers raises
  \<open>TypeError\<close> on every positive value.
\<close>

theorem later_message_not_written:
  assumes "pts_schema schema = PProto p" and "datum_writer (pb_types c p) = Inr (name, Suc k)"
    and "dict_get (schemas_to_ids sz) (pts_str e schema) = Some i" and "0 \<le> i" and "i < 2 ^ 32"
  shows "serialize e c schema v sz = Inl (Raised TypeError)"
  using assms by (simp add: serialize_def pack_header_def write_value_def write_indexes_one)

section \<open>Looking up a schema with its references\<close>

lemma rfold_cong [fundef_cong]:
  assumes "xs = ys" and "s = t" and "\<And>x s. x \<in> set ys \<Longrightarrow> f x s = g x s"
  shows "rfold f xs s = rfold g ys t"
proof -
  have "rfold f ys s = rfold g ys s"
    using assms(3) by (induction ys arbitrary: s) (auto intro!: rbind_cong)
  with assms(1,2) show ?thesis by simp
qed

lemma lookup_depth:
  assumes "finite known" and "\<And>s v. (s, v) \<notin> known \<Longrightarrow> \<not> hr_ok (srv (GetSubjectVersion s v))"
    and "card (known - explored) < d1" and "card (known - explored) < d2"
  shows "get_schema_recursive e c srv d1 subject explored version = get_schema_recursive e c srv d2 subject explored version"
  using assms(3,4)
proof (induction d1 arbitrary: d2 subject explored version)
  case (Suc d1)
  then obtain d2' where d2: "d2 = Suc d2'" by (cases d2) auto
  show ?case
  proof (cases "(subject, version) \<in> explored \<or> (subject, version) \<notin> known")
    case True
    then show ?thesis using assms(2) by (auto simp: d2)
  next
    case False
    let ?ex = "insert (subject, version) explored"
    have "known - ?ex \<subset> known - explored" using False by auto
    then have "card (known - ?ex) < card (known - explored)" by (rule psubset_card_mono [rotated]) (use assms(1) in simp)
    then have "card (known - ?ex) < d1" "card (known - ?ex) < d2'" using Suc.prems d2 by auto
    then have "get_schema_recursive e c srv d1 s ?ex v = get_schema_recursive e c srv d2' s ?ex v" for s v
      by (rule Suc.IH)
    then show ?thesis by (simp only: d2 get_schema_recursive.simps Let_def)
  qed
qed simp

text \<open>
  The lookup of a schema with all its references ends: when the registry answers for finitely many
  pairs of subject and version, a recursion of one call more than there are pairs is deep enough, and
  a greater depth changes nothing. References that form a cycle are found and reported.
\<close>

theorem schema_lookup_terminates:
  assumes "finite known" and "\<And>s v. (s, v) \<notin> known \<Longrightarrow> \<not> hr_ok (srv (GetSubjectVersion s v))"
    and "card known < depth"
  shows "get_schema_recursive e c srv depth subject {} version =
    get_schema_recursive e c srv (Suc (card known)) subject {} version"
  by (rule lookup_depth [of known]) (use assms in simp_all)

section \<open>The caches\<close>

text \<open>
  Every id that a cache mentions has its schema in \<open>ids_to_schemas\<close>. Entries of \<open>ids_to_subjects\<close> may
  expire at any time.
\<close>

definition caches_ok :: "('a, 'p) serializer \<Rightarrow> bool" where
  "caches_ok sz \<longleftrightarrow>
     set (dict_keys (ids_to_subjects sz)) \<subseteq> set (dict_keys (ids_to_schemas sz)) \<and>
     set (dict_values (schemas_to_ids sz)) \<subseteq> set (dict_keys (ids_to_schemas sz))"

inductive ser_reachable ::
    "('a, 'n, 'p, 'z) ext_scheme \<Rightarrow> ('a, 'p) codec \<Rightarrow> ('a, 'p) serializer \<Rightarrow> bool" for e c where
  init: "ser_reachable e c init_serializer"
| subject: "ser_reachable e c sz \<Longrightarrow> ser_reachable e c (snd (get_schema_for_subject e c srv depth memo subject sz))"
| upsert: "ser_reachable e c sz \<Longrightarrow> ser_reachable e c (snd (upsert_id_for_schema e srv schema subject sz))"
| by_id: "ser_reachable e c sz \<Longrightarrow> ser_reachable e c (snd (serializer_get_schema_for_id e c srv depth memo need i sz))"
| read: "ser_reachable e c sz \<Longrightarrow> ser_reachable e c (snd (deserialize e c srv depth memo bs sz))"
| expire: "ser_reachable e c sz \<Longrightarrow> ser_reachable e c (sz\<lparr>ids_to_subjects := filter P (ids_to_subjects sz)\<rparr>)"
| close: "ser_reachable e c sz \<Longrightarrow> ser_reachable e c (close_serializer sz)"

lemma keys_update: "fst ` set (dict_set d k v) = insert k (fst ` set d)"
  by (induction d) auto

lemma values_update: "snd ` set (dict_set d k v) \<subseteq> insert v (snd ` set d)"
  by (induction d) auto

lemma caches_ok_remember [inv_intros]:
  assumes "caches_ok sz"
  shows "caches_ok (remember e i schema sz)"
proof -
  have "snd ` set (dict_set (schemas_to_ids sz) (pts_str e schema) i) \<subseteq> insert i (fst ` set (ids_to_schemas sz))"
    using values_update [of "pts_str e schema" i "schemas_to_ids sz"] assms
    by (metis caches_ok_def insert_mono list.set_map subset_trans)
  with assms show ?thesis by (simp add: caches_ok_def remember_def keys_update subset_insertI2)
qed

lemma caches_ok_by_id [inv_intros]: "caches_ok sz \<Longrightarrow> caches_ok (snd (serializer_get_schema_for_id e c srv depth memo need i sz))"
proof -
  assume ok: "caches_ok sz"
  have "caches_ok ((remember e i schema sz)\<lparr>ids_to_subjects := dict_set (ids_to_subjects sz) i subs\<rparr>)" for schema subs
    using caches_ok_remember [OF ok, of e i schema] by (auto simp: caches_ok_def remember_def keys_update)
  with ok show ?thesis
    by (auto simp: serializer_get_schema_for_id_def split: sum.splits option.splits prod.splits)
qed

lemma caches_ok_reachable: "ser_reachable e c sz \<Longrightarrow> caches_ok sz"
proof (induction rule: ser_reachable.induct)
  case (subject sz srv depth memo subject)
  then show ?case by (auto simp: get_schema_for_subject_def intro: inv_intros split: sum.splits prod.splits)
next
  case (upsert sz srv schema subject)
  then show ?case by (auto simp: upsert_id_for_schema_def intro: inv_intros split: sum.splits option.splits)
next
  case (read sz srv depth memo bs)
  have "snd (deserialize e c srv depth memo bs sz) \<in>
      insert sz (range (\<lambda>i. snd (serializer_get_schema_for_id e c srv depth memo None i sz)))"
    by (auto simp: deserialize_def split: sum.splits prod.splits) (metis snd_conv rangeI)+
  with read.IH show ?case by (auto intro: inv_intros)
next
  case (by_id sz srv depth memo need i)
  then show ?case by (blast intro: inv_intros)
qed (auto simp: caches_ok_def init_serializer_def close_serializer_def)

text \<open>
  Whatever lookups, registrations, messages and expirations there were, every id that the caches
  mention has a schema: a cached lookup never fails, and every schema that can be serialized can be
  found again by the id that is written into the message.
\<close>

theorem cached_ids_have_schemas:
  assumes "ser_reachable e c sz"
  shows "is_ok (cached_answer None i sz) \<and>
    (dict_get (schemas_to_ids sz) t = Some i \<longrightarrow> dict_get (ids_to_schemas sz) i \<noteq> None)"
proof (rule conjI [OF _ impI])
  have ok: "caches_ok sz" using assms by (rule caches_ok_reachable)
  show "is_ok (cached_answer None i sz)"
  proof (cases "dict_get (ids_to_subjects sz) i")
    case (Some subs)
    then have "i \<in> set (dict_keys (ids_to_subjects sz))" by (force dest: map_of_SomeD)
    with ok have "dict_get (ids_to_schemas sz) i \<noteq> None" by (auto simp: caches_ok_def map_of_eq_None_iff)
    with Some show ?thesis by (auto simp: cached_answer_def)
  qed (simp add: cached_answer_def)
  assume "dict_get (schemas_to_ids sz) t = Some i"
  then have "i \<in> set (dict_values (schemas_to_ids sz))" by (force dest: map_of_SomeD)
  with ok show "dict_get (ids_to_schemas sz) i \<noteq> None" by (auto simp: caches_ok_def map_of_eq_None_iff)
qed

section \<open>Union tags\<close>

text \<open>
  The JSON encoding of the Avro specification, as a relation between a schema, a value in the internal
  format and its encoding: a value of a union other than null is wrapped in an object whose only key is
  the name of the member.
\<close>

inductive avro_json :: "('a \<Rightarrow> 'a avro_node) \<Rightarrow> 'a \<Rightarrow> json \<Rightarrow> json \<Rightarrow> bool" for node where
  primitive: "node s = PrimitiveSchema n \<Longrightarrow> avro_json node s v v"
| named: "node s = OtherNamedSchema n m \<Longrightarrow> avro_json node s v v"
| array_of: "node s = ArraySchema t \<Longrightarrow> \<forall>p \<in> set ps. avro_json node t (fst p) (snd p) \<Longrightarrow>
    avro_json node s (JArr (map fst ps)) (JArr (map snd ps))"
| map_of_values: "node s = MapSchema t \<Longrightarrow> length ks = length ps \<Longrightarrow> \<forall>p \<in> set ps. avro_json node t (fst p) (snd p) \<Longrightarrow>
    avro_json node s (JObj (zip ks (map fst ps))) (JObj (zip ks (map snd ps)))"
| fields_of: "node s = RecordSchema n m (zip ks ts) \<Longrightarrow> distinct ks \<Longrightarrow> length ks = length ps \<Longrightarrow> length ts = length ps \<Longrightarrow>
    \<forall>(t, p) \<in> set (zip ts ps). avro_json node t (fst p) (snd p) \<Longrightarrow>
    avro_json node s (JObj (zip ks (map fst ps))) (JObj (zip ks (map snd ps)))"
| union_null: "node s = UnionSchema n ms \<Longrightarrow> avro_json node s JNull JNull"
| union_member: "node s = UnionSchema n ms \<Longrightarrow> t \<in> set ms \<Longrightarrow> distinct (map (\<lambda>t. get_name (node t)) ms) \<Longrightarrow>
    avro_json node t x y \<Longrightarrow> avro_json node s x (JObj [(get_name (node t), y)])"

lemma update_middle: "k \<notin> set (dict_keys pre) \<Longrightarrow> dict_set (pre @ (k, y) # rest) k v = pre @ (k, v) # rest"
  by (induction pre) auto

lemma fold_fields:
  assumes "distinct ks" and "length ks = length ps" and "length ts = length ps"
    and "\<forall>(t, p) \<in> set (zip ts ps). f t (snd p) = fst p" and "set ks \<inter> set (dict_keys pre) = {}"
    and "\<forall>(k, p) \<in> set (zip ks ps). dict_get d k = Some (snd p)"
  shows "fold (\<lambda>(name, t) result. case dict_get d name of None \<Rightarrow> result | Some x \<Rightarrow> dict_set result name (f t x))
      (zip ks ts) (pre @ zip ks (map snd ps)) = pre @ zip ks (map fst ps)"
  using assms
proof (induction ks arbitrary: ps ts pre)
  case (Cons k ks)
  from Cons.prems(2,3) obtain p ps' t ts' where eqs: "ps = p # ps'" "ts = t # ts'" by (cases ps; cases ts) auto
  have "dict_set (pre @ (k, snd p) # zip ks (map snd ps')) k (fst p) = (pre @ [(k, fst p)]) @ zip ks (map snd ps')"
    using Cons.prems(5) update_middle [of k pre] by simp
  then show ?case using Cons.IH [of ps' ts' "pre @ [(k, fst p)]"] Cons.prems by (auto simp: eqs)
qed simp

text \<open>
  A value given in the JSON encoding of the Avro specification is brought into the internal format:
  the tags of all unions in it are removed, at every depth and for recursive schemas too, and nothing
  else is changed.
\<close>

theorem flatten_unions_removes_tags: "avro_json node s v j \<Longrightarrow> flatten_unions node s j = v"
proof (induction rule: avro_json.induct)
  case (fields_of s n m ks ts ps)
  have "\<forall>(k, p) \<in> set (zip ks ps). dict_get (zip ks (map snd ps)) k = Some (snd p)"
  proof clarify
    fix k a b
    assume "(k, a, b) \<in> set (zip ks ps)"
    then obtain i where i: "i < length ks" "i < length ps" "k = ks ! i" "(a, b) = ps ! i" by (auto simp: set_zip)
    then have "snd (ps ! i) = b" by (metis snd_conv)
    with i have "(k, b) \<in> set (zip ks (map snd ps))" by (auto simp: set_zip intro!: exI [of _ i])
    with fields_of.hyps show "dict_get (zip ks (map snd ps)) k = Some (snd (a, b))" by simp
  qed
  then show ?case
    using fields_of fold_fields [of ks ps ts "flatten_unions node" "[]" "zip ks (map snd ps)"]
    by (auto simp: flatten_unions.simps [of node s])
next
  case (union_member s n ms t x y)
  have "tagged_member node ms [(get_name (node t), y)] = Some t"
  proof -
    have "find (\<lambda>s. get_name (node s) = get_name (node t)) ms = Some t"
      using union_member.hyps(2,3) by (induction ms) (auto simp: image_iff)
    then show ?thesis by (simp add: tagged_member_def if_distrib cong: if_cong)
  qed
  with union_member show ?case by (simp add: flatten_unions.simps [of node s])
next
  case (map_of_values s t ks ps)
  have "map (\<lambda>(k, x). (k, flatten_unions node t x)) (zip ks (map snd ps)) = zip ks (map (flatten_unions node t) (map snd ps))"
    by (auto simp: zip_map2)
  also have "map (flatten_unions node t) (map snd ps) = map fst ps" using map_of_values by auto
  finally show ?case using map_of_values by (simp add: flatten_unions.simps [of node s])
qed (auto simp: flatten_unions.simps split: json.split)

section \<open>Witnesses\<close>

text \<open>
  A codec for sample schemas: an Avro schema is \<open>None\<close> (a record of one nullable string) or \<open>Some\<close> of
  one of its parts; a Protobuf schema is a list of types.
\<close>

fun sample_node :: "nat \<Rightarrow> nat avro_node" where
  "sample_node 0 = RecordSchema ''Test'' ''Test'' [(''attr'', 1)]"
| "sample_node (Suc 0) = UnionSchema ''union'' [2, 3]"
| "sample_node (Suc (Suc 0)) = PrimitiveSchema ''null''"
| "sample_node _ = PrimitiveSchema ''string''"

definition sample_codec :: "(nat, pb_type list) codec" where
  "sample_codec =
     \<lparr>avro_node = sample_node, avro_validate = (\<lambda>_ _. True),
      avro_write = (\<lambda>_ v. case v of JStr s \<Rightarrow> Inr s | _ \<Rightarrow> Inl AvroTypeException),
      avro_read = (\<lambda>_ bs. Inr (JStr bs)), json_valid = (\<lambda>_ _. True),
      pb_types = (\<lambda>p. p), pb_record_name = (\<lambda>_. None),
      pb_write = (\<lambda>_ _ v. case v of JStr s \<Rightarrow> Inr s | _ \<Rightarrow> Inl ProtobufTypeException),
      pb_read = (\<lambda>_ _ bs. Inr (JStr bs)), py_str = (\<lambda>_. [])\<rparr>"

definition sample_ser_ext :: "(nat, unit, pb_type list) ext" where
  "sample_ser_ext =
     \<lparr>sha1 = (\<lambda>s. s), loads = (\<lambda>s. Some (JStr s)),
      dumps = (\<lambda>_ j. case j of JStr s \<Rightarrow> s | _ \<Rightarrow> []), std_dumps = (\<lambda>j. case j of JStr s \<Rightarrow> s | _ \<Rightarrow> []),
      avro_names = (\<lambda>_. ()), make_avsc_object = (\<lambda>_ _ _ _. Inr ((), 0)), avro_str = (\<lambda>_. []),
      avro_parse = (\<lambda>_ _ _. Inr 0), check_schema = (\<lambda>_. True), protobuf_schema = (\<lambda>_ _ _ _. Inr []),
      verify_dependencies = (\<lambda>_. True), protobuf_str = (\<lambda>_. ''p''), format_protobuf = (\<lambda>s _. Inr s)\<rparr>"

definition sample_pb :: "pb_type list \<Rightarrow> (nat, pb_type list) parsed_typed_schema" where
  "sample_pb types = \<lparr>pts_typed = TypedSchema PROTOBUF ''p'' None None, pts_schema = PProto types\<rparr>"

definition sample_caches :: "pb_type list \<Rightarrow> (nat, pb_type list) serializer" where
  "sample_caches types =
     \<lparr>sz_open = True, ids_to_schemas = [(258, sample_pb types)], ids_to_subjects = [(258, None)],
      schemas_to_ids = [(''p'', 258)]\<rparr>"

definition no_server :: server where
  "no_server _ = \<lparr>hr_ok = False, hr_json = []\<rparr>"

lemma sample_message:
  "serialize sample_ser_ext sample_codec (sample_pb [MessageType ''M'' []]) (JStr ''x'') (sample_caches [MessageType ''M'' []]) =
     Inr [CHR 0x00, CHR 0x00, CHR 0x00, CHR 0x01, CHR 0x02, CHR 0x00, CHR ''x'']"
  by (simp add: serialize_def sample_caches_def sample_pb_def pts_str_def sample_ser_ext_def pack_header_def be32_def START_BYTE_def
      write_value_def sample_codec_def datum_writer_def write_indexes_one char_of_def bit_0)


theorem header_is_checked_witness:
  "deserialize sample_ser_ext sample_codec no_server 0 (\<lambda>_ _. None) [CHR ''a''] (sample_caches []) = (Inl StructError, sample_caches []) \<and>
   deserialize sample_ser_ext sample_codec no_server 0 (\<lambda>_ _. None) ''hello'' (sample_caches []) =
     (Inl InvalidMessageHeader, sample_caches []) \<and>
   (\<exists>i. dict_get (schemas_to_ids (sample_caches [MessageType ''M'' []])) ''p'' = Some i \<and> i < 2 ^ 32)"
proof -
  let ?s = "sample_pb [MessageType ''M'' []]" and ?sz = "sample_caches [MessageType ''M'' []]"
  have "pts_str sample_ser_ext ?s = ''p''" by code_simp
  then show ?thesis
    using header_is_checked [of "[CHR ''a'']" sample_ser_ext sample_codec no_server 0 "\<lambda>_ _. None" "sample_caches []" ?s JNull]
      header_is_checked [of "''hello''" sample_ser_ext sample_codec no_server 0 "\<lambda>_ _. None" "sample_caches []" ?s JNull]
      header_is_checked [of "[CHR 0x00, CHR 0x00, CHR 0x00, CHR 0x01, CHR 0x02, CHR 0x00, CHR ''x'']"
        sample_ser_ext sample_codec no_server 0 "\<lambda>_ _. None" ?sz ?s "JStr ''x''"]
      sample_message
    by auto
qed

theorem later_message_not_written_witness:
  "serialize sample_ser_ext sample_codec (sample_pb [EnumType ''E'', MessageType ''M'' []]) (JStr ''x'')
     (sample_caches [EnumType ''E'', MessageType ''M'' []]) = Inl (Raised TypeError)"
proof (rule later_message_not_written [of _ "[EnumType ''E'', MessageType ''M'' []]" _ "''M''" 0 _ _ 258])
  show "datum_writer (pb_types sample_codec [EnumType ''E'', MessageType ''M'' []]) = Inr (''M'', Suc 0)" by code_simp
qed (simp_all add: sample_caches_def sample_pb_def pts_str_def sample_ser_ext_def)

text \<open>A registry with one schema that refers to itself.\<close>

definition cyclic_server :: server where
  "cyclic_server rq =
     (if rq \<in> {GetSubjectVersion ''a'' None, GetSubjectVersion ''a'' (Some (Version 1))}
      then \<lparr>hr_ok = True, hr_json = [(''id'', JInt 1), (''schema'', JStr ''x''), (''version'', JInt 1),
        (''references'', JArr [JObj [(''name'', JStr ''n''), (''subject'', JStr ''a''), (''version'', JInt 1)]])]\<rparr>
      else \<lparr>hr_ok = False, hr_json = []\<rparr>)"

theorem schema_lookup_terminates_witness:
  "get_schema_recursive sample_ser_ext sample_codec cyclic_server 1000 ''a'' {} None = Inl (Raised InvalidSchema)"
proof -
  let ?known = "{(''a'', None), (''a'', Some (Version 1))}"
  have "get_schema_recursive sample_ser_ext sample_codec cyclic_server 1000 ''a'' {} None =
      get_schema_recursive sample_ser_ext sample_codec cyclic_server (Suc (card ?known)) ''a'' {} None"
    by (rule schema_lookup_terminates [of ?known]) (auto simp: cyclic_server_def)
  also have "Suc (card ?known) = 3" by simp
  also have "get_schema_recursive sample_ser_ext sample_codec cyclic_server 3 ''a'' {} None = Inl (Raised InvalidSchema)"
    by code_simp
  finally show ?thesis .
qed

theorem cached_ids_have_schemas_witness:
  "is_ok (cached_answer None 1 (close_serializer (init_serializer :: (nat, pb_type list) serializer)))"
  using cached_ids_have_schemas [OF ser_reachable.close [OF ser_reachable.init [of sample_ser_ext sample_codec]]] by blast

theorem flatten_unions_removes_tags_witness:
  "flatten_unions sample_node 0 (JObj [(''attr'', JObj [(''string'', JStr ''sample data'')])]) =
     JObj [(''attr'', JStr ''sample data'')]"
proof -
  have "avro_json sample_node 3 (JStr ''sample data'') (JStr ''sample data'')"
    by (rule primitive [of _ _ "''string''"]) (simp add: numeral_3_eq_3)
  then have "avro_json sample_node 1 (JStr ''sample data'') (JObj [(get_name (sample_node 3), JStr ''sample data'')])"
    by (rule union_member [rotated 3]) (auto simp: get_name_def numeral_2_eq_2 numeral_3_eq_3)
  then have "avro_json sample_node 0 (JObj (zip [''attr''] (map fst [(JStr ''sample data'', JObj [(''string'', JStr ''sample data'')])])))
      (JObj (zip [''attr''] (map snd [(JStr ''sample data'', JObj [(''string'', JStr ''sample data'')])])))"
    by (intro fields_of [of _ _ "''Test''" "''Test''" _ "[1]"]) (auto simp: get_name_def numeral_3_eq_3)
  from flatten_unions_removes_tags [OF this] show ?thesis by simp
qed

end
