(* ===== verification/Protobuf_Elements.thy ===== *)
theory Protobuf_Elements
  imports Py_Strings
begin

text \<open>
  The element classes of \<open>karapace/core/protobuf\<close>: locations, options, fields, one-ofs, groups,
  enumerations, messages, services and files, with the text each prints (\<open>to_schema\<close>).

  Every element that can raise while printing returns a result: an option whose value is a list with a
  map or a list inside has no text (\<open>try_to_schema\<close> raises \<open>AttributeError\<close>). \<open>IllegalArgumentException\<close> and
  \<open>IllegalStateException\<close> are the base class \<open>ProtobufException\<close> here, since no handler tells them apart.
\<close>

named_theorems pb_printing \<open>the printing functions of the elements\<close>

section \<open>Locations\<close>

text \<open>
  \<open>Location\<close> has no \<open>__eq__\<close>: two locations are equal if they are the same object. \<open>loc_source\<close> numbers the
  parsed files, \<open>0\<close> being the shared \<open>DEFAULT_LOCATION\<close>, so that equality of the records is identity of
  the objects for the declarations of any set of files.
\<close>

record location =
  loc_source :: nat
  loc_base :: string
  loc_path :: string
  loc_line :: int
  loc_column :: int

definition mk_location :: "nat \<Rightarrow> string \<Rightarrow> string \<Rightarrow> int \<Rightarrow> int \<Rightarrow> location" where
  "mk_location source base path line column =
     \<lparr>loc_source = source, loc_base = (if endswith base ''/'' then butlast base else base), loc_path = path,
      loc_line = line, loc_column = column\<rparr>"

definition location_at :: "location \<Rightarrow> int \<Rightarrow> int \<Rightarrow> location" where
  "location_at l line column = mk_location (loc_source l) (loc_base l) (loc_path l) line column"

definition without_base :: "location \<Rightarrow> location" where
  "without_base l = mk_location (loc_source l) [] (loc_path l) (loc_line l) (loc_column l)"

definition with_path_only :: "location \<Rightarrow> location" where
  "with_path_only l = mk_location (loc_source l) [] (loc_path l) (-1) (-1)"

definition DEFAULT_LOCATION :: location where
  "DEFAULT_LOCATION = mk_location 0 [] [] (-1) (-1)"

text \<open>\<open>str(n)\<close> of an integer.\<close>

fun nat_str :: "nat \<Rightarrow> string" where
  "nat_str n = (if n < 10 then [char_of (48 + n)] else nat_str (n div 10) @ [char_of (48 + n mod 10)])"

declare nat_str.simps [simp del]

definition int_str :: "int \<Rightarrow> string" where
  "int_str i = (if i < 0 then CHR ''-'' # nat_str (nat (- i)) else nat_str (nat i))"

definition location_str :: "location \<Rightarrow> string" where
  "location_str l =
     (if loc_base l = [] then [] else loc_base l @ ''/'') @ loc_path l @
     (if loc_line l = -1 then []
      else '':'' @ int_str (loc_line l) @
           (if loc_column l = -1 then [] else '':'' @ int_str (loc_column l)))"

section \<open>Syntax and labels\<close>

datatype proto_syntax = PROTO_2 | PROTO_3

fun syntax_str :: "proto_syntax \<Rightarrow> string" where
  "syntax_str PROTO_2 = ''proto2''"
| "syntax_str PROTO_3 = ''proto3''"

definition mk_syntax :: "string \<Rightarrow> proto_syntax res" where
  "mk_syntax s =
     (if s = ''proto2'' then Inr PROTO_2 else if s = ''proto3'' then Inr PROTO_3 else Inl ProtobufException)"

datatype label = OPTIONAL | REQUIRED | REPEATED | ONE_OF

text \<open>\<open>label.name.lower()\<close>\<close>

fun label_name :: "label \<Rightarrow> string" where
  "label_name OPTIONAL = ''optional''"
| "label_name REQUIRED = ''required''"
| "label_name REPEATED = ''repeated''"
| "label_name ONE_OF = ''one_of''"

section \<open>Printing helpers\<close>

abbreviation nl :: string where
  "nl \<equiv> [CHR 0x0A]"

abbreviation dq :: string where
  "dq \<equiv> [CHR 0x22]"

text \<open>The lines of a text without an empty last line.\<close>

definition text_lines :: "string \<Rightarrow> string list" where
  "text_lines s =
     (let lines = py_split (CHR 0x0A) s in if 1 < length lines \<and> last lines = [] then butlast lines else lines)"

definition append_documentation :: "string \<Rightarrow> string" where
  "append_documentation documentation =
     (if documentation = [] then [] else concat (map (\<lambda>line. ''// '' @ line @ nl) (text_lines documentation)))"

definition append_indented :: "string \<Rightarrow> string" where
  "append_indented s = concat (map (\<lambda>line. ''  '' @ line @ nl) (text_lines s))"

definition MIN_TAG_VALUE :: int where
  "MIN_TAG_VALUE = 1"

definition MAX_TAG_VALUE :: int where
  "MAX_TAG_VALUE = 2 ^ 29 - 1"

text \<open>Texts of a list of elements, one after the other; the first that raises ends the printing.\<close>

fun print_all :: "('x \<Rightarrow> string res) \<Rightarrow> 'x list \<Rightarrow> string res" where
  "print_all f [] = Inr []"
| "print_all f (x # xs) = rbind (f x) (\<lambda>s. rbind (print_all f xs) (\<lambda>r. Inr (s @ r)))"

text \<open>A block of a printed element: nothing for an empty list, otherwise a new line and the indented elements.\<close>

definition print_block :: "('x \<Rightarrow> string res) \<Rightarrow> 'x list \<Rightarrow> string res" where
  "print_block f xs =
     (if xs = [] then Inr []
      else rbind (print_all (\<lambda>x. rbind (f x) (\<lambda>s. Inr (append_indented s))) xs) (\<lambda>s. Inr (nl @ s)))"

text \<open>The same with a new line before each element.\<close>

definition print_spaced :: "('x \<Rightarrow> string res) \<Rightarrow> 'x list \<Rightarrow> string res" where
  "print_spaced f xs = print_all (\<lambda>x. rbind (f x) (\<lambda>s. Inr (nl @ append_indented s))) xs"

lemma print_all_cong [fundef_cong]:
  "xs = ys \<Longrightarrow> (\<And>x. x \<in> set ys \<Longrightarrow> f x = g x) \<Longrightarrow> print_all f xs = print_all g ys"
  by (induction ys arbitrary: xs) auto

lemma print_block_cong [fundef_cong]:
  "xs = ys \<Longrightarrow> (\<And>x. x \<in> set ys \<Longrightarrow> f x = g x) \<Longrightarrow> print_block f xs = print_block g ys"
  by (auto simp: print_block_def cong: print_all_cong)

lemma print_spaced_cong [fundef_cong]:
  "xs = ys \<Longrightarrow> (\<And>x. x \<in> set ys \<Longrightarrow> f x = g x) \<Longrightarrow> print_spaced f xs = print_spaced g ys"
  by (auto simp: print_spaced_def cong: print_all_cong)

section \<open>Options\<close>

text \<open>
  An option has a kind and a value. Values of scalar kinds are Python strings, or the booleans and
  numbers of a decoded descriptor; inside a map or a list the kind is no longer known.
\<close>

datatype prim = PStr string | PBool bool | PInt int

fun prim_str :: "prim \<Rightarrow> string" where
  "prim_str (PStr s) = s"
| "prim_str (PBool b) = (if b then ''True'' else ''False'')"
| "prim_str (PInt i) = int_str i"

datatype option_value =
    OvPrim prim
  | OvMap "(string \<times> option_value) list"
  | OvList "option_value list"
  | OvOption option_element
and option_element = OptionElement (oe_name: string) (oe_value: kind_and_value) (oe_is_parenthesized: bool)
and kind_and_value =
    KString prim
  | KBoolean prim
  | KNumber prim
  | KEnum prim
  | KMap "(string \<times> option_value) list"
  | KList "option_value list"
  | KOption option_element

text \<open>The value of an option without its kind.\<close>

fun kv_value :: "kind_and_value \<Rightarrow> option_value" where
  "kv_value (KString p) = OvPrim p"
| "kv_value (KBoolean p) = OvPrim p"
| "kv_value (KNumber p) = OvPrim p"
| "kv_value (KEnum p) = OvPrim p"
| "kv_value (KMap m) = OvMap m"
| "kv_value (KList l) = OvList l"
| "kv_value (KOption e) = OvOption e"

definition formatted_name :: "string \<Rightarrow> bool \<Rightarrow> string" where
  "formatted_name name is_parenthesized = (if is_parenthesized then ''('' @ name @ '')'' else name)"

text \<open>
  \<open>utils.append_options\<close> on the texts of the options: in brackets, one per line if there are several.
\<close>

fun option_lines :: "string list \<Rightarrow> string" where
  "option_lines [] = []"
| "option_lines [x] = append_indented x"
| "option_lines (x # y # ys) = append_indented (x @ '','') @ option_lines (y # ys)"

definition bracketed :: "string list \<Rightarrow> string" where
  "bracketed texts = (case texts of [x] \<Rightarrow> ''['' @ x @ '']'' | _ \<Rightarrow> ''['' @ nl @ option_lines texts @ '']'')"

fun option_to_schema :: "option_element \<Rightarrow> string res"
and kind_to_schema :: "string \<Rightarrow> kind_and_value \<Rightarrow> string res"
and list_texts :: "option_value list \<Rightarrow> string list res"
and try_to_schema :: "option_value \<Rightarrow> string res"
and format_option_map :: "(string \<times> option_value) list \<Rightarrow> string res"
and format_option_map_value :: "option_value \<Rightarrow> string res"
and format_list_map_value :: "option_value list \<Rightarrow> string res" where
  "option_to_schema (OptionElement name value is_parenthesized) =
     kind_to_schema (formatted_name name is_parenthesized) value"
| "kind_to_schema name (KString p) = Inr (name @ '' = '' @ dq @ prim_str p @ dq)"
| "kind_to_schema name (KBoolean p) = Inr (name @ '' = '' @ py_lower (prim_str p))"
| "kind_to_schema name (KNumber p) = Inr (name @ '' = '' @ prim_str p)"
| "kind_to_schema name (KEnum p) = Inr (name @ '' = '' @ prim_str p)"
| "kind_to_schema name (KOption e) = rbind (option_to_schema e) (\<lambda>s. Inr (name @ ''.'' @ s))"
| "kind_to_schema name (KMap m) =
     rbind (format_option_map m) (\<lambda>s. Inr (name @ '' = {'' @ nl @ s @ ''}''))"
| "kind_to_schema name (KList l) = rbind (list_texts l) (\<lambda>ts. Inr (name @ '' = '' @ bracketed ts))"
| "list_texts [] = Inr []"
| "list_texts (v # vs) =
     rbind (try_to_schema v) (\<lambda>s. rbind (list_texts vs) (\<lambda>ts. Inr (s # ts)))"
| "try_to_schema (OvPrim (PStr s)) = Inr s"
| "try_to_schema (OvOption e) = option_to_schema e"
| "try_to_schema (OvPrim p) = Inl AttributeError"
| "try_to_schema (OvMap m) = Inl AttributeError"
| "try_to_schema (OvList l) = Inl AttributeError"
| "format_option_map [] = Inr []"
| "format_option_map ((k, v) # m) =
     rbind (format_option_map_value v) (\<lambda>s.
     rbind (format_option_map m) (\<lambda>r.
       Inr (append_indented (k @ '': '' @ s @ (if m = [] then [] else '','')) @ r)))"
| "format_option_map_value (OvPrim (PStr s)) = Inr (dq @ s @ dq)"
| "format_option_map_value (OvPrim p) = Inr (prim_str p)"
| "format_option_map_value (OvMap m) = rbind (format_option_map m) (\<lambda>s. Inr (''{'' @ nl @ s @ ''}''))"
| "format_option_map_value (OvList l) = rbind (format_list_map_value l) (\<lambda>s. Inr (''['' @ nl @ s @ '']''))"
| "format_option_map_value (OvOption e) = option_to_schema e"
| "format_list_map_value [] = Inr []"
| "format_list_map_value (v # vs) =
     rbind (format_option_map_value v) (\<lambda>s.
     rbind (format_list_map_value vs) (\<lambda>r.
       Inr (append_indented (s @ (if vs = [] then [] else '','')) @ r)))"

text \<open>\<open>utils.append_options\<close> on a list of options.\<close>

fun texts_of :: "option_element list \<Rightarrow> string list res" where
  "texts_of [] = Inr []"
| "texts_of (x # xs) = rbind (option_to_schema x) (\<lambda>s. rbind (texts_of xs) (\<lambda>ts. Inr (s # ts)))"

definition append_options :: "option_element list \<Rightarrow> string res" where
  "append_options options = rbind (texts_of options) (\<lambda>ts. Inr (bracketed ts))"

definition to_schema_declaration :: "option_element \<Rightarrow> string res" where
  "to_schema_declaration e = rbind (option_to_schema e) (\<lambda>s. Inr (''option '' @ s @ '';'' @ nl))"

text \<open>\<open>OptionElement.__eq__\<close> compares the texts.\<close>

definition option_eq :: "option_element \<Rightarrow> option_element \<Rightarrow> bool" where
  "option_eq a b \<longleftrightarrow> option_to_schema a = option_to_schema b"

definition PACKED_OPTION_ELEMENT :: option_element where
  "PACKED_OPTION_ELEMENT = OptionElement ''packed'' (KBoolean (PStr ''true'')) False"

text \<open>\<open>s in options\<close> for a string \<open>s\<close>: the text of every option up to the match is printed.\<close>

fun text_in_options :: "string \<Rightarrow> option_element list \<Rightarrow> bool res" where
  "text_in_options s [] = Inr False"
| "text_in_options s (x # xs) =
     rbind (option_to_schema x) (\<lambda>t. if t = s then Inr True else text_in_options s xs)"

section \<open>Types of fields\<close>

text \<open>
  \<open>proto_type.py\<close>. A map type keeps its key and value types; types are equal if their texts are.
\<close>

datatype proto_type =
    ProtoType (pt_is_scalar: bool) (pt_string: string)
  | MapType (pt_string: string) (pt_key: proto_type) (pt_value: proto_type)
  where "pt_is_scalar (MapType s k v) = False"

fun pt_is_map :: "proto_type \<Rightarrow> bool" where
  "pt_is_map (MapType s k v) \<longleftrightarrow> True"
| "pt_is_map (ProtoType b s) \<longleftrightarrow> False"

definition SCALAR_TYPES :: "string list" where
  "SCALAR_TYPES = [''bool'', ''bytes'', ''double'', ''float'', ''fixed32'', ''fixed64'', ''int32'', ''int64'',
     ''sfixed32'', ''sfixed64'', ''sint32'', ''sint64'', ''string'', ''uint32'', ''uint64'']"

text \<open>\<open>s.rfind(c)\<close>, \<open>None\<close> for \<open>-1\<close>.\<close>

fun rfind :: "char \<Rightarrow> string \<Rightarrow> nat option" where
  "rfind c [] = None"
| "rfind c (x # xs) = (case rfind c xs of Some i \<Rightarrow> Some (Suc i) | None \<Rightarrow> if x = c then Some 0 else None)"

lemma rfind_less: "rfind c s = Some i \<Longrightarrow> i < length s"
  by (induction s arbitrary: i) (auto split: option.splits if_splits)

text \<open>\<open>simple_name\<close>: the part after the last dot.\<close>

definition simple_name :: "string \<Rightarrow> string" where
  "simple_name s = (case rfind (CHR ''.'') s of None \<Rightarrow> s | Some dot \<Rightarrow> drop (Suc dot) s)"

definition mk_map_type :: "string \<Rightarrow> proto_type \<Rightarrow> proto_type \<Rightarrow> proto_type res" where
  "mk_map_type name key_type value_type =
     (if pt_is_scalar key_type \<and> pt_string key_type \<notin> {''bytes'', ''double'', ''float''}
      then Inr (MapType name key_type value_type) else Inl ProtobufException)"

lemma length_strip: "length (py_strip s) \<le> length s"
  unfolding py_strip_def
  by (metis length_dropWhile_le length_rev le_trans)

function get2 :: "string \<Rightarrow> proto_type res" where
  "get2 name =
     (if name \<in> set SCALAR_TYPES then Inr (ProtoType True name)
      else if name = [] \<or> rfind (CHR ''#'') name \<noteq> None then Inl ProtobufException
      else if startswith name ''map<'' \<and> endswith name ''>'' then
        (case rfind (CHR '','') name of
           None \<Rightarrow> Inl ProtobufException
         | Some comma \<Rightarrow>
             rbind (get2 (py_strip (take (comma - 4) (drop 4 name)))) (\<lambda>key.
             rbind (get2 (py_strip (take (length name - 1 - (comma + 1)) (drop (comma + 1) name)))) (\<lambda>val.
               mk_map_type name key val)))
      else Inr (ProtoType False name))"
  by pat_completeness auto
termination
proof (relation "measure length", goal_cases)
  case (2 name comma)
  have "length (py_strip (take (comma - 4) (drop 4 name))) \<le> length (take (comma - 4) (drop 4 name))"
    by (rule length_strip)
  with rfind_less [OF 2(4)] show ?case by auto
next
  case (3 name comma key)
  let ?s = "take (length name - 1 - (comma + 1)) (drop (comma + 1) name)"
  have "length (py_strip ?s) \<le> length ?s"
    by (rule length_strip)
  with rfind_less [OF 3(4)] show ?case by auto
qed simp

declare get2.simps [simp del]

definition pt_get :: "string \<Rightarrow> string \<Rightarrow> proto_type res" where
  "pt_get enclosing_type_or_package type_name =
     (if enclosing_type_or_package = [] then get2 type_name
      else get2 (enclosing_type_or_package @ ''.'' @ type_name))"

definition enclosing_type_or_package :: "proto_type \<Rightarrow> string option" where
  "enclosing_type_or_package t = map_option (\<lambda>dot. take dot (pt_string t)) (rfind (CHR ''.'') (pt_string t))"

definition type_url :: "proto_type \<Rightarrow> string option" where
  "type_url t =
     (if pt_is_scalar t \<or> pt_is_map t then None else Some (''type.googleapis.com/'' @ pt_string t))"

definition pt_nested_type :: "proto_type \<Rightarrow> string \<Rightarrow> proto_type res" where
  "pt_nested_type t name =
     (if pt_is_scalar t \<or> pt_is_map t then Inl ProtobufException
      else if name = [] \<or> rfind (CHR ''.'') name \<noteq> None then Inl ProtobufException
      else Inr (ProtoType False (pt_string t @ ''.'' @ name)))"

text \<open>\<open>to_kind\<close>: an option of the kind that a default value of the type has.\<close>

definition to_kind :: "proto_type \<Rightarrow> prim \<Rightarrow> kind_and_value" where
  "to_kind t =
     (let n = simple_name (pt_string t)
      in if n = ''bool'' then KBoolean else if n = ''string'' then KString
         else if n \<in> set SCALAR_TYPES then KNumber else KEnum)"

datatype compatibility_kind = VARIANT | SVARIANT | FIXED64 | LENGTH_DELIMITED | FIXED32 | DOUBLE | FLOAT

definition kind_table :: "(string \<times> compatibility_kind) list" where
  "kind_table = [(''int32'', VARIANT), (''int64'', VARIANT), (''uint32'', VARIANT), (''uint64'', VARIANT),
     (''bool'', VARIANT), (''sint32'', SVARIANT), (''sint64'', SVARIANT), (''double'', DOUBLE),
     (''fixed64'', FIXED64), (''sfixed64'', FIXED64), (''float'', FLOAT), (''fixed32'', FIXED32),
     (''sfixed32'', FIXED32), (''string'', LENGTH_DELIMITED), (''bytes'', LENGTH_DELIMITED)]"

definition compatibility_kind :: "bool \<Rightarrow> proto_type \<Rightarrow> compatibility_kind res" where
  "compatibility_kind is_enum t =
     (if is_enum then Inr VARIANT else of_option ProtobufException (map_of kind_table (simple_name (pt_string t))))"

section \<open>Fields and the elements made of them\<close>

record field_element =
  fe_location :: location
  fe_label :: "label option"
  fe_element_type :: string
  fe_name :: string
  fe_default_value :: "string option"
  fe_json_name :: "string option"
  fe_tag :: int
  fe_documentation :: string
  fe_options :: "option_element list"

definition given :: "string option \<Rightarrow> bool" where
  "given x \<longleftrightarrow> x \<noteq> None \<and> x \<noteq> Some []"

definition options_with_special_values :: "field_element \<Rightarrow> option_element list res" where
  "options_with_special_values f =
     rbind (if given (fe_default_value f)
            then rbind (get2 (fe_element_type f)) (\<lambda>t.
                   Inr [OptionElement ''default'' (to_kind t (PStr (the (fe_default_value f)))) False])
            else Inr []) (\<lambda>default.
       Inr (fe_options f @ default @
            (if given (fe_json_name f)
             then [OptionElement ''json_name'' (KString (PStr (the (fe_json_name f)))) False] else [])))"

definition print_label :: "label option \<Rightarrow> string" where
  "print_label l = (case l of None \<Rightarrow> [] | Some x \<Rightarrow> label_name x @ '' '')"

definition option_suffix :: "option_element list \<Rightarrow> string res" where
  "option_suffix options =
     (if options = [] then Inr [] else rbind (append_options options) (\<lambda>s. Inr ('' '' @ s)))"

definition field_to_schema :: "field_element \<Rightarrow> string res" where
  "field_to_schema f =
     rbind (options_with_special_values f) (\<lambda>options.
     rbind (option_suffix options) (\<lambda>o_text.
       Inr (append_documentation (fe_documentation f) @ print_label (fe_label f) @
            fe_element_type f @ '' '' @ fe_name f @ '' = '' @ int_str (fe_tag f) @ o_text @ '';'' @ nl)))"

record group_element =
  ge_label :: "label option"
  ge_location :: location
  ge_name :: string
  ge_tag :: int
  ge_documentation :: string
  ge_fields :: "field_element list"

definition group_to_schema :: "group_element \<Rightarrow> string res" where
  "group_to_schema g =
     rbind (print_block field_to_schema (ge_fields g)) (\<lambda>body.
       Inr (append_documentation (ge_documentation g) @ print_label (ge_label g) @
            ''group '' @ ge_name g @ '' = '' @ int_str (ge_tag g) @ '' {'' @ body @ ''}'' @ nl))"

record one_of_element =
  oo_name :: string
  oo_documentation :: string
  oo_fields :: "field_element list"
  oo_groups :: "group_element list"
  oo_options :: "option_element list"

definition one_of_to_schema :: "one_of_element \<Rightarrow> string res" where
  "one_of_to_schema e =
     rbind (print_block to_schema_declaration (oo_options e)) (\<lambda>options.
     rbind (print_block field_to_schema (oo_fields e)) (\<lambda>fs.
     rbind (print_block group_to_schema (oo_groups e)) (\<lambda>groups.
       Inr (append_documentation (oo_documentation e) @ ''oneof '' @ oo_name e @ '' {'' @
            options @ fs @ groups @ ''}'' @ nl))))"

record extend_element =
  ee_location :: location
  ee_name :: string
  ee_documentation :: string
  ee_fields :: "field_element list"

definition extend_to_schema :: "extend_element \<Rightarrow> string res" where
  "extend_to_schema e =
     rbind (print_block field_to_schema (ee_fields e)) (\<lambda>body.
       Inr (append_documentation (ee_documentation e) @ ''extend '' @ ee_name e @ '' {'' @ body @ ''}'' @ nl))"

record enum_constant_element =
  ec_location :: location
  ec_name :: string
  ec_tag :: int
  ec_documentation :: string
  ec_options :: "option_element list"

definition enum_constant_to_schema :: "enum_constant_element \<Rightarrow> string res" where
  "enum_constant_to_schema c =
     rbind (option_suffix (ec_options c)) (\<lambda>o_text.
       Inr (append_documentation (ec_documentation c) @ ec_name c @ '' = '' @ int_str (ec_tag c) @ o_text @
            '';'' @ nl))"

text \<open>The entries of \<open>reserved\<close> and \<open>extensions\<close>: a name, a tag, or a range of tags.\<close>

datatype reserved_value = RStr string | RInt int | RRange (kr_minimum: int) (kr_maximum: int)

record reserved_element =
  re_location :: location
  re_values :: "reserved_value list"
  re_documentation :: string

fun reserved_value_str :: "reserved_value \<Rightarrow> string" where
  "reserved_value_str (RStr s) = dq @ s @ dq"
| "reserved_value_str (RInt i) = int_str i"
| "reserved_value_str (RRange a b) = int_str a @ '' to '' @ int_str b"

definition reserved_to_schema :: "reserved_element \<Rightarrow> string" where
  "reserved_to_schema r =
     append_documentation (re_documentation r) @ ''reserved '' @
     join_with '', '' (map reserved_value_str (re_values r)) @ '';'' @ nl"

record extensions_element =
  xe_location :: location
  xe_documentation :: string
  xe_values :: "reserved_value list"

fun extensions_value_str :: "reserved_value \<Rightarrow> string res" where
  "extensions_value_str (RStr s) = Inl ValueError"
| "extensions_value_str (RInt i) = Inr (int_str i)"
| "extensions_value_str (RRange a b) =
     Inr (int_str a @ '' to '' @ (if b < MAX_TAG_VALUE then int_str b else ''max''))"

fun extensions_values :: "reserved_value list \<Rightarrow> string list res" where
  "extensions_values [] = Inr []"
| "extensions_values (v # vs) =
     rbind (extensions_value_str v) (\<lambda>s. rbind (extensions_values vs) (\<lambda>ts. Inr (s # ts)))"

definition extensions_to_schema :: "extensions_element \<Rightarrow> string res" where
  "extensions_to_schema x =
     rbind (extensions_values (xe_values x)) (\<lambda>ts.
       Inr (append_documentation (xe_documentation x) @ ''extensions '' @ join_with '', '' ts @ '';'' @ nl))"

record rpc_element =
  rpc_location :: location
  rpc_name :: string
  rpc_documentation :: string
  rpc_request_type :: string
  rpc_response_type :: string
  rpc_request_streaming :: bool
  rpc_response_streaming :: bool
  rpc_options :: "option_element list"

definition rpc_to_schema :: "rpc_element \<Rightarrow> string res" where
  "rpc_to_schema r =
     rbind (if rpc_options r = [] then Inr []
            else rbind (print_all (\<lambda>x. rbind (to_schema_declaration x) (\<lambda>s. Inr (append_indented s))) (rpc_options r))
                   (\<lambda>s. Inr ('' {'' @ nl @ s @ ''}''))) (\<lambda>o_text.
       Inr (append_documentation (rpc_documentation r) @ ''rpc '' @ rpc_name r @ '' ('' @
            (if rpc_request_streaming r then ''stream '' else []) @ rpc_request_type r @ '') returns ('' @
            (if rpc_response_streaming r then ''stream '' else []) @ rpc_response_type r @ '')'' @ o_text @ '';'' @ nl))"

record service_element =
  se_location :: location
  se_name :: string
  se_documentation :: string
  se_rpcs :: "rpc_element list"
  se_options :: "option_element list"

definition service_to_schema :: "service_element \<Rightarrow> string res" where
  "service_to_schema e =
     rbind (print_block to_schema_declaration (se_options e)) (\<lambda>options.
     rbind (print_block rpc_to_schema (se_rpcs e)) (\<lambda>rpcs.
       Inr (append_documentation (se_documentation e) @ ''service '' @ se_name e @ '' {'' @
            options @ rpcs @ ''}'' @ nl)))"

end
