(* ===== verification/Protobuf_Schema.thy ===== *)
theory Protobuf_Schema
  imports Protobuf_Elements
begin

text \<open>
  \<open>karapace/core/protobuf/message_element.py\<close>, \<open>enum_element.py\<close>, \<open>proto_file_element.py\<close>, \<open>type_tree.py\<close>,
  \<open>known_dependency.py\<close> and \<open>schema.py\<close>: messages, enumerations and files with the two texts they print, the
  tree of the declared types, the list of the used types and the check that every used type is declared.
\<close>

section \<open>Messages, enumerations and files\<close>

datatype type_element =
    MessageElement (te_location: location) (te_name: string) (te_documentation: string)
      (te_options: "option_element list") (me_nested_types: "type_element list")
      (me_reserveds: "reserved_element list") (me_fields: "field_element list")
      (me_one_ofs: "one_of_element list") (me_extensions: "extensions_element list")
      (me_groups: "group_element list")
  | EnumElement (te_location: location) (te_name: string) (te_documentation: string)
      (te_options: "option_element list") (en_constants: "enum_constant_element list")

fun nested_types :: "type_element \<Rightarrow> type_element list" where
  "nested_types (MessageElement l n d os ts rs fs oos xs gs) = ts"
| "nested_types (EnumElement l n d os cs) = []"

fun is_message :: "type_element \<Rightarrow> bool" where
  "is_message (MessageElement l n d os ts rs fs oos xs gs) \<longleftrightarrow> True"
| "is_message (EnumElement l n d os cs) \<longleftrightarrow> False"

lemma nested_types_size [termination_simp]: "t \<in> set (nested_types e) \<Longrightarrow> size t < size e"
  by (cases e) (auto dest: size_list_estimation' [where f = size, OF _ order_refl] simp: less_Suc_eq_le)

definition enum_to_schema ::
    "string \<Rightarrow> string \<Rightarrow> option_element list \<Rightarrow> enum_constant_element list \<Rightarrow> string res" where
  "enum_to_schema name documentation options constants =
     rbind (print_all (\<lambda>x. rbind (to_schema_declaration x) (\<lambda>s. Inr (append_indented s))) options) (\<lambda>t_options.
     rbind (print_all (\<lambda>x. rbind (enum_constant_to_schema x) (\<lambda>s. Inr (append_indented s))) constants) (\<lambda>t_constants.
       Inr (append_documentation documentation @ ''enum '' @ name @ '' {'' @
            (if options = [] \<and> constants = [] then [] else nl) @ t_options @ t_constants @ ''}'' @ nl)))"

fun type_to_schema :: "type_element \<Rightarrow> string res" where
  "type_to_schema (MessageElement l name documentation options ts reserveds fs one_ofs exts groups) =
     rbind (print_block (\<lambda>r. Inr (reserved_to_schema r)) reserveds) (\<lambda>t_reserveds.
     rbind (print_block to_schema_declaration options) (\<lambda>t_options.
     rbind (print_spaced field_to_schema fs) (\<lambda>t_fields.
     rbind (print_spaced one_of_to_schema one_ofs) (\<lambda>t_one_ofs.
     rbind (print_spaced group_to_schema groups) (\<lambda>t_groups.
     rbind (print_block extensions_to_schema exts) (\<lambda>t_extensions.
     rbind (print_block type_to_schema ts) (\<lambda>t_nested.
       Inr (append_documentation documentation @ ''message '' @ name @ '' {'' @ t_reserveds @ t_options @
            t_fields @ t_one_ofs @ t_groups @ t_extensions @ t_nested @ ''}'' @ nl))))))))"
| "type_to_schema (EnumElement l name documentation options constants) =
     enum_to_schema name documentation options constants"

record proto_file_element =
  pf_location :: location
  pf_package_name :: "string option"
  pf_syntax :: "proto_syntax option"
  pf_imports :: "string list"
  pf_public_imports :: "string list"
  pf_types :: "type_element list"
  pf_services :: "service_element list"
  pf_extend_declarations :: "extend_element list"
  pf_options :: "option_element list"

definition proto_file_empty :: "string \<Rightarrow> proto_file_element" where
  "proto_file_empty path =
     \<lparr>pf_location = mk_location 0 [] path (-1) (-1), pf_package_name = None, pf_syntax = None, pf_imports = [],
      pf_public_imports = [], pf_types = [], pf_services = [], pf_extend_declarations = [], pf_options = []\<rparr>"

text \<open>The parts that both texts of a file share.\<close>

definition import_texts :: "proto_file_element \<Rightarrow> string" where
  "import_texts e =
     (if pf_imports e = [] \<and> pf_public_imports e = [] then []
      else nl @ concat (map (\<lambda>x. ''import '' @ dq @ x @ dq @ '';'' @ nl) (pf_imports e)) @
           concat (map (\<lambda>x. ''import public '' @ dq @ x @ dq @ '';'' @ nl) (pf_public_imports e)))"

definition print_lines :: "('x \<Rightarrow> string res) \<Rightarrow> 'x list \<Rightarrow> string res" where
  "print_lines f xs = print_all (\<lambda>x. rbind (f x) (\<lambda>s. Inr (nl @ s))) xs"

definition proto_file_to_schema :: "proto_file_element \<Rightarrow> string res" where
  "proto_file_to_schema e =
     rbind (print_all to_schema_declaration (pf_options e)) (\<lambda>t_options.
     rbind (print_lines type_to_schema (pf_types e)) (\<lambda>t_types.
     rbind (print_lines extend_to_schema (pf_extend_declarations e)) (\<lambda>t_extends.
     rbind (print_lines service_to_schema (pf_services e)) (\<lambda>t_services.
       Inr (''// Proto schema formatted by Wire, do not edit.'' @ nl @ ''// Source: '' @
            location_str (with_path_only (pf_location e)) @ nl @
            (case pf_syntax e of None \<Rightarrow> []
             | Some x \<Rightarrow> nl @ ''syntax = '' @ dq @ syntax_str x @ dq @ '';'' @ nl) @
            (if given (pf_package_name e) then nl @ ''package '' @ the (pf_package_name e) @ '';'' @ nl else []) @
            import_texts e @ (if pf_options e = [] then [] else nl @ t_options) @
            t_types @ t_extends @ t_services)))))"

text \<open>\<open>ProtoFileElement.__eq__\<close>\<close>

definition proto_file_eq :: "proto_file_element \<Rightarrow> proto_file_element \<Rightarrow> bool res" where
  "proto_file_eq a b =
     rbind (proto_file_to_schema a) (\<lambda>s. rbind (proto_file_to_schema b) (\<lambda>t. Inr (s = t)))"

section \<open>The text of a schema\<close>

definition escape_dict :: "(char \<times> char) list" where
  "escape_dict = [(CHR 0x07, CHR ''a''), (CHR 0x08, CHR ''b''), (CHR 0x0C, CHR ''f''), (CHR 0x0A, CHR ''n''),
     (CHR 0x0D, CHR ''r''), (CHR 0x09, CHR ''t''), (CHR 0x0B, CHR ''v''), (CHR 0x27, CHR 0x27),
     (CHR 0x22, CHR 0x22), (CHR 0x5C, CHR 0x5C)]"

definition add_slashes :: "string \<Rightarrow> string" where
  "add_slashes s =
     concat (map (\<lambda>c. case map_of escape_dict c of Some x \<Rightarrow> [CHR 0x5C, x] | None \<Rightarrow> [c]) s)"

fun option_element_string :: "option_element \<Rightarrow> string res" where
  "option_element_string (OptionElement name (KString p) is_parenthesized) =
     Inr (''option '' @ formatted_name name is_parenthesized @ '' = '' @ dq @ add_slashes (prim_str p) @ dq @
          '';'' @ nl)"
| "option_element_string e = to_schema_declaration e"

text \<open>
  \<open>message_element_string\<close> and \<open>enum_element_string\<close>: nested messages are printed before nested
  enumerations.
\<close>

fun element_string :: "type_element \<Rightarrow> string res" where
  "element_string (MessageElement l name documentation options ts reserveds fs one_ofs exts groups) =
     rbind (print_block (\<lambda>r. Inr (reserved_to_schema r)) reserveds) (\<lambda>t_reserveds.
     rbind (print_block option_element_string options) (\<lambda>t_options.
     rbind (print_block field_to_schema fs) (\<lambda>t_fields.
     rbind (print_block one_of_to_schema one_ofs) (\<lambda>t_one_ofs.
     rbind (print_block group_to_schema groups) (\<lambda>t_groups.
     rbind (print_block extensions_to_schema exts) (\<lambda>t_extensions.
     rbind (print_all (\<lambda>t. if is_message t then rbind (element_string t) (\<lambda>s. Inr (append_indented s)) else Inr []) ts)
       (\<lambda>t_messages.
     rbind (print_all (\<lambda>t. if is_message t then Inr [] else rbind (element_string t) (\<lambda>s. Inr (append_indented s))) ts)
       (\<lambda>t_enums.
       Inr (append_documentation documentation @ ''message '' @ name @ '' {'' @ t_reserveds @ t_options @
            t_fields @ t_one_ofs @ t_groups @ t_extensions @
            (if ts = [] then [] else nl @ t_messages @ t_enums) @ ''}'' @ nl)))))))))"
| "element_string (EnumElement l name documentation options constants) =
     enum_to_schema name documentation options constants"

text \<open>
  A parsed schema with its dependencies by name. \<open>str\<close> is cached in \<open>cache_string\<close>; the elements are not
  changed after the construction, so the cached text is the text.
\<close>

datatype protobuf_schema =
  ProtobufSchema (ps_file: proto_file_element) (ps_references: "reference list option")
    (ps_dependencies: "(string \<times> protobuf_schema) list option")

definition schema_file_text :: "proto_file_element \<Rightarrow> string res" where
  "schema_file_text e =
     rbind (print_all option_element_string (pf_options e)) (\<lambda>t_options.
     rbind (print_all (\<lambda>t. if is_message t then element_string t else Inr []) (pf_types e)) (\<lambda>t_messages.
     rbind (print_all (\<lambda>t. if is_message t then Inr [] else element_string t) (pf_types e)) (\<lambda>t_enums.
     rbind (print_all extend_to_schema (pf_extend_declarations e)) (\<lambda>t_extends.
     rbind (print_all service_to_schema (pf_services e)) (\<lambda>t_services.
       Inr ((case pf_syntax e of None \<Rightarrow> []
             | Some x \<Rightarrow> ''syntax = '' @ dq @ syntax_str x @ dq @ '';'' @ nl) @
            (if given (pf_package_name e) then ''package '' @ the (pf_package_name e) @ '';'' @ nl else []) @
            import_texts e @ (if pf_options e = [] then [] else nl @ t_options) @
            (if pf_types e = [] then [] else nl @ t_messages @ t_enums) @
            (if pf_extend_declarations e = [] then [] else nl @ t_extends) @
            (if pf_services e = [] then [] else nl @ t_services)))))))"

definition schema_to_schema :: "protobuf_schema \<Rightarrow> string res" where
  "schema_to_schema p = schema_file_text (ps_file p)"

definition record_name :: "protobuf_schema \<Rightarrow> string option" where
  "record_name p =
     (let types = pf_types (ps_file p);
          package = (if given (pf_package_name (ps_file p)) then the (pf_package_name (ps_file p)) @ ''.'' else [])
      in case types of
           [] \<Rightarrow> None
         | first # _ \<Rightarrow> Some (package @ te_name (case find is_message types of Some m \<Rightarrow> m | None \<Rightarrow> first)))"

section \<open>The tree of declared types\<close>

text \<open>
  A trie of the declared names, read from their last part to their first. \<open>tt_reference\<close> is the file and
  the order of the declaration that ends at the node.
\<close>

datatype type_tree =
  TypeTree (tt_token: string) (tt_children: "type_tree list") (tt_reference: "(string \<times> nat) option")

text \<open>Update of the first element with a property.\<close>

fun update_first :: "('x \<Rightarrow> bool) \<Rightarrow> ('x \<Rightarrow> 'x) \<Rightarrow> 'x list \<Rightarrow> 'x list option" where
  "update_first P f [] = None"
| "update_first P f (x # xs) = (if P x then Some (f x # xs) else map_option ((#) x) (update_first P f xs))"

text \<open>\<open>_add_new_type_recursive\<close> on the children of the parent; the tokens come in the order they are popped.\<close>

fun add_tokens :: "string list \<Rightarrow> string \<Rightarrow> nat \<Rightarrow> type_tree list \<Rightarrow> type_tree list" where
  "add_tokens [] file n children = children"
| "add_tokens (token # tokens) file n children =
     (case update_first (\<lambda>c. tt_token c = token)
             (\<lambda>c. TypeTree (tt_token c) (add_tokens tokens file n (tt_children c)) (tt_reference c)) children of
        Some children' \<Rightarrow> children'
      | None \<Rightarrow>
          children @ [TypeTree token (add_tokens tokens file n [])
                        (if tokens = [] then Some (file, n) else None)])"

definition add_new_type :: "string \<Rightarrow> string \<Rightarrow> nat \<Rightarrow> type_tree \<Rightarrow> type_tree" where
  "add_new_type full_path_type file inserted_elements tree =
     TypeTree (tt_token tree)
       (add_tokens (rev (py_split (CHR ''.'') full_path_type)) file inserted_elements (tt_children tree))
       (tt_reference tree)"

fun type_in_tree :: "type_tree \<Rightarrow> string list \<Rightarrow> type_tree option" where
  "type_in_tree tree [] = Some tree"
| "type_in_tree tree (to_seek # tokens) =
     (case find (\<lambda>c. tt_token c = to_seek) (tt_children tree) of
        Some child \<Rightarrow> type_in_tree child tokens
      | None \<Rightarrow> None)"

definition type_exist_in_tree :: "type_tree \<Rightarrow> string list \<Rightarrow> bool" where
  "type_exist_in_tree tree remaining_tokens \<longleftrightarrow> type_in_tree tree (rev remaining_tokens) \<noteq> None"

text \<open>\<open>TypeTree.type_in_tree\<close> on a name; \<open>removeprefix\<close> drops one leading dot.\<close>

definition type_by_name :: "type_tree \<Rightarrow> string \<Rightarrow> type_tree option" where
  "type_by_name tree queried_type =
     type_in_tree tree
       (rev (py_split (CHR ''.'') (if startswith queried_type ''.'' then tl queried_type else queried_type)))"

fun source_references :: "type_tree \<Rightarrow> (string \<times> nat) list" where
  "source_references (TypeTree token children reference) =
     (case reference of None \<Rightarrow> [] | Some r \<Rightarrow> [r]) @ concat (map source_references children)"

text \<open>\<open>max\<close> and \<open>min\<close> of an empty sequence raise \<open>ValueError\<close>.\<close>

definition inserted_elements :: "type_tree \<Rightarrow> nat res" where
  "inserted_elements tree =
     (case map snd (source_references tree) of [] \<Rightarrow> Inl ValueError | n # ns \<Rightarrow> Inr (foldl max n ns))"

definition oldest_matching_import :: "type_tree \<Rightarrow> nat res" where
  "oldest_matching_import tree =
     (case map snd (source_references tree) of [] \<Rightarrow> Inl ValueError | n # ns \<Rightarrow> Inr (foldl min n ns))"

text \<open>The list returned for a child is never \<open>None\<close>, so the first child decides.\<close>

fun expand_missing_absolute_path_recursive :: "nat \<Rightarrow> type_tree \<Rightarrow> string list" where
  "expand_missing_absolute_path_recursive oldest_import (TypeTree token children reference) =
     (case reference of
        Some (_, import_order) \<Rightarrow> if import_order = oldest_import then [token] else []
      | None \<Rightarrow>
          (case children of
             [] \<Rightarrow> []
           | child # _ \<Rightarrow> expand_missing_absolute_path_recursive oldest_import child @ [token]))"

definition expand_missing_absolute_path :: "type_tree \<Rightarrow> string list res" where
  "expand_missing_absolute_path tree =
     rbind (oldest_matching_import tree) (\<lambda>oldest_import.
       Inr (butlast (expand_missing_absolute_path_recursive oldest_import tree)))"

definition is_fully_qualified_type :: "type_tree \<Rightarrow> bool" where
  "is_fully_qualified_type tree \<longleftrightarrow> tt_children tree = []"

fun types_with_same_scope :: "type_tree \<Rightarrow> nat" where
  "types_with_same_scope (TypeTree token children reference) =
     sum_list (map types_with_same_scope children) + (if reference = None then 0 else 1)"

definition is_uniquely_identifiable_type :: "type_tree \<Rightarrow> bool" where
  "is_uniquely_identifiable_type tree \<longleftrightarrow> types_with_same_scope tree = 1"

fun represent :: "nat \<Rightarrow> type_tree \<Rightarrow> string" where
  "represent level (TypeTree token children reference) =
     (let spacing = replicate (3 * level) (CHR '' '')
      in if children = [] then spacing @ ''>'' @ token
         else spacing @ token @ '' ->'' @ nl @ join_with nl (map (represent (Suc level)) children))"

text \<open>
  \<open>nested_type_tree\<close>: the count returned for a child is not used. The functions return the tree and the
  next order number.
\<close>

fun nested_type_tree :: "string \<Rightarrow> string \<Rightarrow> type_element \<Rightarrow> type_tree \<times> nat \<Rightarrow> type_tree \<times> nat"
and nested_type_trees :: "string \<Rightarrow> string \<Rightarrow> type_element list \<Rightarrow> type_tree \<times> nat \<Rightarrow> type_tree \<times> nat" where
  "nested_type_tree filename parent_name (MessageElement l name d os ts rs fs oos xs gs) (tree, n) =
     (let full = parent_name @ ''.'' @ name
      in nested_type_trees filename full ts (add_new_type full filename n tree, Suc n))"
| "nested_type_tree filename parent_name (EnumElement l name d os cs) (tree, n) =
     (add_new_type (parent_name @ ''.'' @ name) filename n tree, Suc n)"
| "nested_type_trees filename full [] (tree, n) = (tree, n)"
| "nested_type_trees filename full (t # ts) (tree, n) =
     nested_type_trees filename full ts (fst (nested_type_tree filename full t (tree, n)), Suc n)"

definition package_of :: "proto_file_element \<Rightarrow> string" where
  "package_of e = (case pf_package_name e of None \<Rightarrow> [] | Some p \<Rightarrow> p)"

definition add_file_type :: "string \<Rightarrow> string \<Rightarrow> type_element \<Rightarrow> type_tree \<times> nat \<Rightarrow> type_tree \<times> nat" where
  "add_file_type filename package t = (\<lambda>(tree, n).
     let full = package @ ''.'' @ te_name t
     in fold (nested_type_tree filename full) (nested_types t) (add_new_type full filename n tree, Suc n))"

fun types_tree_recursive :: "string \<Rightarrow> protobuf_schema \<Rightarrow> type_tree \<times> nat \<Rightarrow> type_tree \<times> nat" where
  "types_tree_recursive filename (ProtobufSchema e refs deps) st =
     fold (add_file_type filename (package_of e)) (pf_types e)
       (case deps of None \<Rightarrow> st | Some ds \<Rightarrow> fold (\<lambda>(name, p). types_tree_recursive name p) ds st)"

definition types_tree :: "protobuf_schema \<Rightarrow> type_tree" where
  "types_tree p = fst (types_tree_recursive ''main_schema_file'' p (TypeTree ''.'' [] None, 0))"

section \<open>Used types\<close>

text \<open>\<open>s.find(c)\<close> and \<open>s[a:b]\<close>, where a negative bound counts from the end.\<close>

fun py_find :: "char \<Rightarrow> string \<Rightarrow> int" where
  "py_find c [] = -1"
| "py_find c (x # xs) = (if x = c then 0 else (let i = py_find c xs in if i = -1 then -1 else i + 1))"

definition py_slice :: "int \<Rightarrow> int \<Rightarrow> string \<Rightarrow> string" where
  "py_slice a b s =
     (let bound = (\<lambda>i. nat (if i < 0 then max 0 (i + int (length s)) else i))
      in drop (bound a) (take (bound b) s))"

record used_type =
  ut_parent :: string
  ut_attribute_type :: string

definition used_type :: "string \<Rightarrow> string \<Rightarrow> used_type list" where
  "used_type parent element_type =
     (if startswith element_type ''map<'' then
        let end_pos = py_find (CHR ''>'') element_type;
            virgule = py_find (CHR '','') element_type
        in [\<lparr>ut_parent = parent, ut_attribute_type = py_slice 4 virgule element_type\<rparr>,
            \<lparr>ut_parent = parent, ut_attribute_type = py_strip (py_slice (virgule + 1) end_pos element_type)\<rparr>]
      else [\<lparr>ut_parent = parent, ut_attribute_type = element_type\<rparr>])"

definition dependencies_one_of :: "string \<Rightarrow> string \<Rightarrow> one_of_element \<Rightarrow> used_type list" where
  "dependencies_one_of package_name parent_name one_of =
     map (\<lambda>f. \<lparr>ut_parent = package_name @ ''.'' @ parent_name, ut_attribute_type = fe_element_type f\<rparr>)
       (oo_fields one_of)"

fun nested_used_type :: "string \<Rightarrow> string \<Rightarrow> type_element \<Rightarrow> used_type list" where
  "nested_used_type package_name parent_name (MessageElement l name d os ts rs fs one_ofs xs gs) =
     concat (map (dependencies_one_of package_name (parent_name @ ''.'' @ name)) one_ofs) @
     concat (map (\<lambda>f. used_type (package_name @ ''.'' @ parent_name) (fe_element_type f)) fs) @
     concat (map (nested_used_type package_name (parent_name @ ''.'' @ name)) ts)"
| "nested_used_type package_name parent_name (EnumElement l name d os cs) = []"

definition type_used_types :: "string \<Rightarrow> type_element \<Rightarrow> used_type list" where
  "type_used_types package_name t =
     (case t of
        MessageElement l name d os ts rs fs one_ofs xs gs \<Rightarrow>
          concat (map (dependencies_one_of package_name name) one_ofs) @
          concat (map (\<lambda>f. used_type (package_name @ ''.'' @ name) (fe_element_type f)) fs)
      | EnumElement l name d os cs \<Rightarrow> []) @
     concat (map (nested_used_type package_name (te_name t)) (nested_types t))"

text \<open>The used types of the dependencies are collected in the code, and dropped.\<close>

definition used_types :: "protobuf_schema \<Rightarrow> used_type list" where
  "used_types p =
     (let package_name = (case pf_package_name (ps_file p) of None \<Rightarrow> [] | Some n \<Rightarrow> ''.'' @ n)
      in concat (map (type_used_types package_name) (pf_types (ps_file p))))"

section \<open>Known files\<close>

definition known_map :: "(string \<times> string list) list" where
  "known_map =
    [(''google/protobuf/any.proto'', [''google.protobuf.Any'']),
     (''google/protobuf/api.proto'', [''google.protobuf.Api'', ''google.protobuf.Method'', ''google.protobuf.Mixin'']),
     (''google/protobuf/descriptor.proto'',
      [''google.protobuf.FileDescriptorSet'', ''google.protobuf.FileDescriptorProto'',
       ''google.protobuf.DescriptorProto'', ''google.protobuf.ExtensionRangeOptions'',
       ''google.protobuf.FieldDescriptorProto'', ''google.protobuf.OneofDescriptorProto'',
       ''google.protobuf.EnumDescriptorProto'', ''google.protobuf.EnumValueDescriptorProto'',
       ''google.protobuf.ServiceDescriptorProto'', ''google.protobuf.MethodDescriptorProto'',
       ''google.protobuf.FileOptions'', ''google.protobuf.MessageOptions'', ''google.protobuf.FieldOptions'',
       ''google.protobuf.OneofOptions'', ''google.protobuf.EnumOptions'', ''google.protobuf.EnumValueOptions'',
       ''google.protobuf.ServiceOptions'', ''google.protobuf.MethodOptions'',
       ''google.protobuf.UninterpretedOption'', ''google.protobuf.SourceCodeInfo'',
       ''google.protobuf.GeneratedCodeInfo'']),
     (''google/protobuf/duration.proto'', [''google.protobuf.Duration'']),
     (''google/protobuf/empty.proto'', [''google.protobuf.Empty'']),
     (''google/protobuf/field_mask.proto'', [''google.protobuf.FieldMask'']),
     (''google/protobuf/source_context.proto'', [''google.protobuf.SourceContext'']),
     (''google/protobuf/struct.proto'',
      [''google.protobuf.Struct'', ''google.protobuf.Value'', ''google.protobuf.NullValue'',
       ''google.protobuf.ListValue'']),
     (''google/protobuf/timestamp.proto'', [''google.protobuf.Timestamp'']),
     (''google/protobuf/type.proto'',
      [''google.protobuf.Type'', ''google.protobuf.Field'', ''google.protobuf.Enum'', ''google.protobuf.EnumValue'',
       ''google.protobuf.Option'', ''google.protobuf.Syntax'']),
     (''google/protobuf/wrappers.proto'',
      [''google.protobuf.DoubleValue'', ''google.protobuf.FloatValue'', ''google.protobuf.Int64Value'',
       ''google.protobuf.UInt64Value'', ''google.protobuf.Int32Value'', ''google.protobuf.UInt32Value'',
       ''google.protobuf.BoolValue'', ''google.protobuf.StringValue'', ''google.protobuf.BytesValue'']),
     (''google/type/calendar_period.proto'', [''google.type.CalendarPeriod'']),
     (''google/type/color.proto'', [''google.type.Color'']),
     (''google/type/date.proto'', [''google.type.Date'']),
     (''google/type/datetime.proto'', [''google.type.DateTime'', ''google.type.TimeZone'']),
     (''google/type/dayofweek.proto'', [''google.type.DayOfWeek'']),
     (''google/type/decimal.proto'', [''google.type.Decimal'']),
     (''google/type/expr.proto'', [''google.type.Expr'']),
     (''google/type/fraction.proto'', [''google.type.Fraction'']),
     (''google/type/interval.proto'', [''google.type.Interval'']),
     (''google/type/latlng.proto'', [''google.type.LatLng'']),
     (''google/type/money.proto'', [''google.type.Money'']),
     (''google/type/month.proto'', [''google.type.Month'']),
     (''google/type/phone_number.proto'', [''google.type.PhoneNumber'']),
     (''google/type/postal_address.proto'', [''google.type.PostalAddress'']),
     (''google/type/quaternion.proto'', [''google.type.Quaternion'']),
     (''google/type/timeofday.proto'', [''google.type.TimeOfDay'']),
     (''confluent/meta.proto'', [''confluent.Meta'']),
     (''confluent/type/decimal.proto'', [''confluent.type.Decimal''])]"

text \<open>
  \<open>static_init\<close> fills the two indexes; a later entry overwrites an earlier one with the same key, so
  the lookup takes the last.
\<close>

definition known_index_entries :: "(string \<times> string) list" where
  "known_index_entries =
     concat (map (\<lambda>(key, items). concat (map (\<lambda>item. [(item, key), (''.'' @ item, key)]) items)) known_map)"

definition known_index_simple_entries :: "(string \<times> string) list" where
  "known_index_simple_entries =
     concat (map (\<lambda>(key, items). concat (map (\<lambda>item. [(simple_name item, key), (item, key)]) items)) known_map)"

definition known_index :: "string \<Rightarrow> string option" where
  "known_index = map_of (rev known_index_entries)"

definition known_index_simple :: "string \<Rightarrow> string option" where
  "known_index_simple = map_of (rev known_index_simple_entries)"

section \<open>The check of the used types\<close>

fun recursive_imports :: "protobuf_schema \<Rightarrow> string list" where
  "recursive_imports (ProtobufSchema e refs deps) =
     pf_imports e @ (case deps of None \<Rightarrow> [] | Some ds \<Rightarrow> concat (map (\<lambda>(_, p). recursive_imports p) ds))"

definition included_in_server :: "protobuf_schema \<Rightarrow> string \<Rightarrow> bool" where
  "included_in_server p attribute_type \<longleftrightarrow>
     (if attribute_type \<in> set SCALAR_TYPES then True
      else case (case known_index_simple attribute_type of Some f \<Rightarrow> Some f | None \<Rightarrow> known_index attribute_type) of
             Some required_import \<Rightarrow> required_import \<in> set (recursive_imports p)
           | None \<Rightarrow> False)"

text \<open>\<open>attribute_type.lstrip(".")\<close> drops all leading dots. The result is the first wrong name.\<close>

definition type_usage_error :: "protobuf_schema \<Rightarrow> type_tree \<Rightarrow> used_type \<Rightarrow> string option" where
  "type_usage_error p tree u =
     (let is_parent_object_declared = type_exist_in_tree tree (py_split (CHR ''.'') (drop 1 (ut_parent u)));
          attribute_declared =
            included_in_server p (ut_attribute_type u) \<or>
            type_exist_in_tree tree (py_split (CHR ''.'') (dropWhile ((=) (CHR ''.'')) (ut_attribute_type u)))
      in if is_parent_object_declared \<and> attribute_declared then None
         else Some (if is_parent_object_declared then ut_attribute_type u else ut_parent u))"

fun are_type_usage_valid :: "protobuf_schema \<Rightarrow> type_tree \<Rightarrow> used_type list \<Rightarrow> bool \<times> string option" where
  "are_type_usage_valid p tree [] = (True, None)"
| "are_type_usage_valid p tree (u # us) =
     (case type_usage_error p tree u of
        Some wrong \<Rightarrow> (False, Some wrong)
      | None \<Rightarrow> are_type_usage_valid p tree us)"

definition verify_schema_dependencies :: "protobuf_schema \<Rightarrow> bool \<times> string" where
  "verify_schema_dependencies p =
     (case are_type_usage_valid p (types_tree p) (used_types p) of
        (True, _) \<Rightarrow> (True, [])
      | (False, wrong) \<Rightarrow>
          (False, ''type '' @ dq @ (case wrong of Some w \<Rightarrow> w | None \<Rightarrow> ''None'') @ dq @ '' is not defined''))"

end
