(* ===== verification/Protobuf_Compare.thy ===== *)
theory Protobuf_Compare
  imports Protobuf_Schema Compare_Result
begin

text \<open>
  The comparison of two Protobuf schemas: \<open>compare_type_storage.py\<close>, \<open>compare_type_lists.py\<close> and the \<open>compare\<close>
  methods of the elements in \<open>karapace/core/protobuf\<close>. The collected types, the locked messages and the result
  list are one record that the methods update in turn.

  \<open>a.keys() - b.keys()\<close> is a set, whose order of iteration is not fixed: the parameter \<open>order_of\<close> lists the
  keys that only the other side has, in some order. The recursion over message types is bounded by a
  depth, as Python's stack is: at depth 0 the result is \<open>RecursionError\<close>.
\<close>

section \<open>Collected types\<close>

datatype type_record =
    TypeRecord (tr_package_name: "string option") (tr_type_element: type_element)
  | TypeRecordMap (tr_package_name: "string option") (tr_type_element: type_element)
      (tr_key: "field_element option") (tr_value: "field_element option")

record compare_types =
  ct_self_package_name :: string
  ct_other_package_name :: string
  ct_self_types :: "(string, type_record) dict"
  ct_other_types :: "(string, type_record) dict"
  ct_locked_messages :: "type_element list"
  ct_result :: compare_result

definition init_compare_types :: "string option \<Rightarrow> string option \<Rightarrow> compare_result \<Rightarrow> compare_types" where
  "init_compare_types self_package_name other_package_name result =
     \<lparr>ct_self_package_name = (case self_package_name of None \<Rightarrow> [] | Some p \<Rightarrow> p),
      ct_other_package_name = (case other_package_name of None \<Rightarrow> [] | Some p \<Rightarrow> p),
      ct_self_types = [], ct_other_types = [], ct_locked_messages = [], ct_result = result\<rparr>"

text \<open>The path is tried from its full length down to its first part, each with the name appended.\<close>

fun find_pretender :: "string list \<Rightarrow> string \<Rightarrow> (string, type_record) dict \<Rightarrow> string option" where
  "find_pretender [] s types = (if map_of types s \<noteq> None then Some s else None)"
| "find_pretender (x # xs) s types =
     (let pretender = join_with ''.'' (rev (x # xs)) @ ''.'' @ s
      in if map_of types pretender \<noteq> None then Some pretender else find_pretender xs s types)"

definition compute_name :: "proto_type \<Rightarrow> string list \<Rightarrow> string \<Rightarrow> (string, type_record) dict \<Rightarrow> string option" where
  "compute_name t result_path package_name types =
     (let s = pt_string t
      in if startswith s ''.'' then (if map_of types (drop 1 s) \<noteq> None then Some (drop 1 s) else None)
         else find_pretender (rev ((if package_name = [] then [] else [package_name]) @ result_path)) s types)"

text \<open>
  \<open>add_a_type\<close>. The test for map entries compares the text \<open>map_entry\<close> with the text of every option.
\<close>

fun add_a_type ::
    "string option \<Rightarrow> string option \<Rightarrow> type_element \<Rightarrow> (string, type_record) dict \<Rightarrow> (string, type_record) dict res"
and add_nested_types ::
    "string \<Rightarrow> string option \<Rightarrow> type_element list \<Rightarrow> (string, type_record) dict \<Rightarrow> (string, type_record) dict res" where
  "add_a_type pre package_name (MessageElement l n d os ts rs fs oos xs gs) types =
     (let name = (if given pre then the pre @ ''.'' @ n else n);
          e = MessageElement l n d os ts rs fs oos xs gs
      in rbind (text_in_options ''map_entry'' os) (\<lambda>is_map_entry.
           add_nested_types name package_name ts
             (dict_set types name
                (if is_map_entry
                 then TypeRecordMap package_name e (find (\<lambda>f. fe_name f = ''key'') fs)
                        (find (\<lambda>f. fe_name f = ''value'') fs)
                 else TypeRecord package_name e))))"
| "add_a_type pre package_name (EnumElement l n d os cs) types =
     Inr (dict_set types (if given pre then the pre @ ''.'' @ n else n)
            (TypeRecord package_name (EnumElement l n d os cs)))"
| "add_nested_types name package_name [] types = Inr types"
| "add_nested_types name package_name (t # ts) types =
     rbind (add_a_type (Some name) package_name t types) (add_nested_types name package_name ts)"

definition add_self_type :: "string option \<Rightarrow> type_element \<Rightarrow> compare_types \<Rightarrow> compare_types res" where
  "add_self_type package_name e ct =
     rbind (add_a_type package_name package_name e (ct_self_types ct)) (\<lambda>types. Inr (ct\<lparr>ct_self_types := types\<rparr>))"

definition add_other_type :: "string option \<Rightarrow> type_element \<Rightarrow> compare_types \<Rightarrow> compare_types res" where
  "add_other_type package_name e ct =
     rbind (add_a_type package_name package_name e (ct_other_types ct)) (\<lambda>types. Inr (ct\<lparr>ct_other_types := types\<rparr>))"

definition self_name :: "compare_types \<Rightarrow> proto_type \<Rightarrow> string option" where
  "self_name ct t = compute_name t (cr_path (ct_result ct)) (ct_self_package_name ct) (ct_self_types ct)"

definition other_name :: "compare_types \<Rightarrow> proto_type \<Rightarrow> string option" where
  "other_name ct t = compute_name t (cr_path (ct_result ct)) (ct_other_package_name ct) (ct_other_types ct)"

definition get_self_type :: "compare_types \<Rightarrow> proto_type \<Rightarrow> type_record option" where
  "get_self_type ct t = Option.bind (self_name ct t) (map_of (ct_self_types ct))"

definition get_other_type :: "compare_types \<Rightarrow> proto_type \<Rightarrow> type_record option" where
  "get_other_type ct t = Option.bind (other_name ct t) (map_of (ct_other_types ct))"

text \<open>The name without the package: the text of the package and one more character are cut off.\<close>

definition type_short_name :: "string option \<Rightarrow> (string, type_record) dict \<Rightarrow> string res" where
  "type_short_name computed types =
     (case computed of
        None \<Rightarrow> Inl ProtobufException
      | Some name \<Rightarrow>
          (case map_of types name of
             None \<Rightarrow> Inl AttributeError
           | Some r \<Rightarrow>
               (case tr_package_name r of
                  None \<Rightarrow> Inr name
                | Some package \<Rightarrow>
                    Inr (if startswith name package then drop (length package + 1) name else name))))"

definition self_type_short_name :: "compare_types \<Rightarrow> proto_type \<Rightarrow> string res" where
  "self_type_short_name ct t = type_short_name (self_name ct t) (ct_self_types ct)"

definition other_type_short_name :: "compare_types \<Rightarrow> proto_type \<Rightarrow> string res" where
  "other_type_short_name ct t = type_short_name (other_name ct t) (ct_other_types ct)"

text \<open>
  \<open>message in self.locked_messages\<close>: the equality of the data class \<open>TypeElement\<close>, which compares location,
  name, documentation, options (by their text) and nested types, of elements of the same class.
\<close>

datatype type_key_value = TypeKey bool location string string "string res list" "type_key_value list"

fun type_key :: "type_element \<Rightarrow> type_key_value" where
  "type_key (MessageElement l n d os ts rs fs oos xs gs) =
     TypeKey True l n d (map option_to_schema os) (map type_key ts)"
| "type_key (EnumElement l n d os cs) = TypeKey False l n d (map option_to_schema os) []"

definition message_eq :: "type_element \<Rightarrow> type_element \<Rightarrow> bool" where
  "message_eq a b \<longleftrightarrow> type_key a = type_key b"

definition is_locked :: "type_element \<Rightarrow> compare_types \<Rightarrow> bool" where
  "is_locked m ct \<longleftrightarrow> list_ex (message_eq m) (ct_locked_messages ct)"

fun remove_first :: "('x \<Rightarrow> bool) \<Rightarrow> 'x list \<Rightarrow> 'x list" where
  "remove_first P [] = []"
| "remove_first P (x # xs) = (if P x then xs else x # remove_first P xs)"

definition lock_message :: "type_element \<Rightarrow> compare_types \<Rightarrow> bool \<times> compare_types" where
  "lock_message m ct =
     (if is_locked m ct then (False, ct)
      else (True, ct\<lparr>ct_locked_messages := ct_locked_messages ct @ [m]\<rparr>))"

definition unlock_message :: "type_element \<Rightarrow> compare_types \<Rightarrow> bool \<times> compare_types" where
  "unlock_message m ct =
     (if is_locked m ct then (True, ct\<lparr>ct_locked_messages := remove_first (message_eq m) (ct_locked_messages ct)\<rparr>)
      else (False, ct))"

text \<open>\<open>TypeRecordMap.map_type\<close>; a missing key or value field is \<open>None\<close>, which has no attributes.\<close>

fun map_type :: "type_record \<Rightarrow> proto_type res" where
  "map_type (TypeRecordMap p e (Some k) (Some v)) =
     get2 (''map<'' @ fe_element_type k @ '', '' @ fe_element_type v @ ''>'')"
| "map_type r = Inl AttributeError"

section \<open>Steps on the result\<close>

definition modify :: "modification \<Rightarrow> compare_types \<Rightarrow> compare_types res" where
  "modify m ct = Inr (ct\<lparr>ct_result := add_modification m (ct_result ct)\<rparr>)"

definition push :: "string \<Rightarrow> bool \<Rightarrow> compare_types \<Rightarrow> compare_types" where
  "push x canonical ct = ct\<lparr>ct_result := push_path x canonical (ct_result ct)\<rparr>"

definition pop :: "bool \<Rightarrow> compare_types \<Rightarrow> compare_types res" where
  "pop canonical ct = rbind (pop_path canonical (ct_result ct)) (\<lambda>r. Inr (ct\<lparr>ct_result := r\<rparr>))"

text \<open>\<open>push_path(x); body; pop_path()\<close>\<close>

definition in_path :: "string \<Rightarrow> bool \<Rightarrow> (compare_types \<Rightarrow> compare_types res) \<Rightarrow> compare_types \<Rightarrow> compare_types res" where
  "in_path x canonical body ct = rbind (body (push x canonical ct)) (pop canonical)"

text \<open>The keys of one dictionary and then those that only the other has.\<close>

definition both_keys :: "('k list \<Rightarrow> 'k list) \<Rightarrow> ('k, 'a) dict \<Rightarrow> ('k, 'b) dict \<Rightarrow> 'k list" where
  "both_keys order_of self other = map fst self @ order_of (filter (\<lambda>k. k \<notin> fst ` set self) (map fst other))"

definition by_key :: "('x \<Rightarrow> 'k) \<Rightarrow> 'x list \<Rightarrow> ('k, 'x) dict" where
  "by_key key xs = fold (\<lambda>x d. dict_set d (key x) x) xs []"

section \<open>Comparison of fields\<close>

definition is_enum_record :: "type_record option \<Rightarrow> bool" where
  "is_enum_record r \<longleftrightarrow> (case r of None \<Rightarrow> False | Some x \<Rightarrow> \<not> is_message (tr_type_element x))"

fun record_type :: "type_record option \<Rightarrow> proto_type \<Rightarrow> proto_type res" where
  "record_type (Some (TypeRecordMap p e k v)) t = map_type (TypeRecordMap p e k v)"
| "record_type _ t = Inr t"

definition compare_scalars ::
    "label option \<Rightarrow> label option \<Rightarrow> bool \<Rightarrow> bool \<Rightarrow> proto_type \<Rightarrow> proto_type \<Rightarrow> compare_types \<Rightarrow> compare_types res" where
  "compare_scalars self_label other_label self_is_enum other_is_enum self_type other_type ct =
     rbind (compatibility_kind self_is_enum self_type) (\<lambda>self_kind.
     rbind (compatibility_kind other_is_enum other_type) (\<lambda>other_kind.
     rbind (if self_label \<noteq> other_label \<and> self_kind \<in> {VARIANT, DOUBLE, FLOAT, FIXED64, FIXED32, SVARIANT}
            then modify FIELD_LABEL_ALTER ct else Inr ct)
       (if self_kind \<noteq> other_kind then modify FIELD_KIND_ALTER else Inr)))"

text \<open>\<open>rec\<close> stands for the method \<open>compare\<close> of a type element.\<close>

definition compare_message ::
    "(type_element \<Rightarrow> type_element \<Rightarrow> compare_types \<Rightarrow> compare_types res) \<Rightarrow>
     proto_type \<Rightarrow> proto_type \<Rightarrow> compare_types \<Rightarrow> compare_types res" where
  "compare_message rec self_type other_type ct =
     (case (get_self_type ct self_type, get_other_type ct other_type) of
        (Some self_record, Some other_record) \<Rightarrow>
          rbind (self_type_short_name ct self_type) (\<lambda>self_short.
          rbind (other_type_short_name ct other_type) (\<lambda>other_short.
            if self_short \<noteq> other_short then modify FIELD_NAME_ALTER ct
            else rec (tr_type_element self_record) (tr_type_element other_record) ct))
      | _ \<Rightarrow> if pt_string self_type \<noteq> pt_string other_type then modify FIELD_TYPE_ALTER ct else Inr ct)"

text \<open>
  \<open>compare_type\<close> and \<open>compare_map\<close>; \<open>d\<close> bounds the nesting of maps. The value type that \<open>get2\<close> reads out of a map
  type is never a map, so 2 is enough (lemma \<open>get2_map_parts\<close> below).
\<close>

definition compare_map ::
    "(proto_type \<Rightarrow> proto_type \<Rightarrow> label option \<Rightarrow> compare_types \<Rightarrow> compare_types res) \<Rightarrow>
     proto_type \<Rightarrow> proto_type \<Rightarrow> compare_types \<Rightarrow> compare_types res" where
  "compare_map compare self_map other_map ct =
     rbind (compare (pt_key self_map) (pt_key other_map) None ct) (compare (pt_value self_map) (pt_value other_map) None)"

fun compare_type ::
    "nat \<Rightarrow> (type_element \<Rightarrow> type_element \<Rightarrow> compare_types \<Rightarrow> compare_types res) \<Rightarrow> label option \<Rightarrow>
     proto_type \<Rightarrow> proto_type \<Rightarrow> label option \<Rightarrow> compare_types \<Rightarrow> compare_types res" where
  "compare_type 0 rec self_label self_type other_type other_label ct = Inl RecursionError"
| "compare_type (Suc d) rec self_label self_type other_type other_label ct =
     (let self_record = get_self_type ct self_type;
          other_record = get_other_type ct other_type;
          self_is_enum = is_enum_record self_record;
          other_is_enum = is_enum_record other_record
      in rbind (record_type self_record self_type) (\<lambda>self_type.
         rbind (record_type other_record other_type) (\<lambda>other_type.
           if (pt_is_scalar self_type \<or> self_is_enum) = (pt_is_scalar other_type \<or> other_is_enum)
              \<and> pt_is_map self_type = pt_is_map other_type
           then if pt_is_map self_type
                then compare_map (compare_type d rec self_label) self_type other_type ct
                else if pt_is_scalar self_type \<or> self_is_enum
                then compare_scalars self_label other_label self_is_enum other_is_enum self_type other_type ct
                else compare_message rec self_type other_type ct
           else modify FIELD_KIND_ALTER ct)))"

definition field_compare ::
    "(type_element \<Rightarrow> type_element \<Rightarrow> compare_types \<Rightarrow> compare_types res) \<Rightarrow>
     field_element \<Rightarrow> field_element \<Rightarrow> compare_types \<Rightarrow> compare_types res" where
  "field_compare rec self other ct =
     rbind (if fe_name self \<noteq> fe_name other then modify FIELD_NAME_ALTER ct else Inr ct) (\<lambda>ct.
     rbind (get2 (fe_element_type self)) (\<lambda>self_type.
     rbind (get2 (fe_element_type other)) (\<lambda>other_type.
       compare_type 2 rec (fe_label self) self_type other_type (fe_label other) ct)))"

text \<open>The comparison of two dictionaries entry by entry, under the path of the key.\<close>

definition compare_entries ::
    "('k list \<Rightarrow> 'k list) \<Rightarrow> ('k \<Rightarrow> string) \<Rightarrow> bool \<Rightarrow> ('a \<Rightarrow> compare_types \<Rightarrow> compare_types res) \<Rightarrow>
     ('a \<Rightarrow> compare_types \<Rightarrow> compare_types res) \<Rightarrow> ('a \<Rightarrow> 'a \<Rightarrow> compare_types \<Rightarrow> compare_types res) \<Rightarrow>
     ('k, 'a) dict \<Rightarrow> ('k, 'a) dict \<Rightarrow> compare_types \<Rightarrow> compare_types res" where
  "compare_entries order_of key_str canonical added dropped both self other =
     rfold (\<lambda>k. in_path (key_str k) canonical
              (case (map_of self k, map_of other k) of
                 (None, None) \<Rightarrow> Inr
               | (None, Some y) \<Rightarrow> added y
               | (Some x, None) \<Rightarrow> dropped x
               | (Some x, Some y) \<Rightarrow> both x y)) (both_keys order_of self other)"

definition one_of_compare ::
    "(int list \<Rightarrow> int list) \<Rightarrow> (type_element \<Rightarrow> type_element \<Rightarrow> compare_types \<Rightarrow> compare_types res) \<Rightarrow>
     one_of_element \<Rightarrow> one_of_element \<Rightarrow> compare_types \<Rightarrow> compare_types res" where
  "one_of_compare order_of rec self other =
     compare_entries order_of int_str False
       (\<lambda>_. modify ONE_OF_FIELD_ADD) (\<lambda>_. modify ONE_OF_FIELD_DROP) (field_compare rec)
       (by_key fe_tag (oo_fields self)) (by_key fe_tag (oo_fields other))"

definition enum_compare ::
    "(int list \<Rightarrow> int list) \<Rightarrow> enum_constant_element list \<Rightarrow> enum_constant_element list \<Rightarrow>
     compare_types \<Rightarrow> compare_types res" where
  "enum_compare order_of self other =
     compare_entries order_of int_str False
       (\<lambda>_. modify ENUM_CONSTANT_ADD) (\<lambda>_. modify ENUM_CONSTANT_DROP)
       (\<lambda>x y. if ec_name x \<noteq> ec_name y then modify ENUM_CONSTANT_ALTER else Inr)
       (by_key ec_tag self) (by_key ec_tag other)"

section \<open>Comparison of messages\<close>

text \<open>The fields of the message that the other side has moved into a one-of are taken out of the comparison.\<close>

definition take_converted :: "one_of_element \<Rightarrow> (int, field_element) dict \<Rightarrow> (int, field_element) dict \<times> nat" where
  "take_converted oneof self_tags =
     fold (\<lambda>subfield (tags, count).
             if map_of tags (fe_tag subfield) \<noteq> None then (dict_pop tags (fe_tag subfield), Suc count)
             else (tags, count)) (oo_fields oneof) (self_tags, 0)"

fun convert_one_ofs ::
    "one_of_element list \<Rightarrow> (int, field_element) dict \<Rightarrow> compare_types \<Rightarrow>
     ((int, field_element) dict \<times> compare_types) res" where
  "convert_one_ofs [] self_tags ct = Inr (self_tags, ct)"
| "convert_one_ofs (oneof # oneofs) self_tags ct =
     (case take_converted oneof self_tags of
        (self_tags', convert_count) \<Rightarrow>
          rbind (in_path (oo_name oneof) False
                   (if 1 < convert_count then modify FEW_FIELDS_CONVERTED_TO_ONE_OF else Inr) ct)
            (convert_one_ofs oneofs self_tags'))"

text \<open>
  The field with this tag has a name that the other message gives another tag: reported under the name
  instead of the tag.
\<close>

definition tag_altered ::
    "(int, field_element) dict \<Rightarrow> (string, field_element) dict \<Rightarrow> (string, field_element) dict \<Rightarrow> int \<Rightarrow> string option" where
  "tag_altered self_tags self_names other_names tag =
     (case map_of self_tags tag of
        None \<Rightarrow> None
      | Some f \<Rightarrow>
          (case (map_of self_names (fe_name f), map_of other_names (fe_name f)) of
             (Some self_field, Some other_field) \<Rightarrow>
               if fe_name f \<noteq> [] \<and> fe_tag self_field \<noteq> fe_tag other_field then Some (fe_name f) else None
           | _ \<Rightarrow> None))"

definition compare_field_tags ::
    "(int list \<Rightarrow> int list) \<Rightarrow> (type_element \<Rightarrow> type_element \<Rightarrow> compare_types \<Rightarrow> compare_types res) \<Rightarrow>
     (int, field_element) dict \<Rightarrow> (int, field_element) dict \<Rightarrow> (string, field_element) dict \<Rightarrow>
     (string, field_element) dict \<Rightarrow> compare_types \<Rightarrow> compare_types res" where
  "compare_field_tags order_of rec self_tags other_tags self_names other_names =
     rfold (\<lambda>tag ct.
       rbind (case tag_altered self_tags self_names other_names tag of
                None \<Rightarrow> Inr (push (int_str tag) False ct)
              | Some field_name \<Rightarrow>
                  rbind (pop False (push (int_str tag) False ct)) (\<lambda>ct.
                  rbind (in_path field_name False (modify FIELD_TAG_ALTER) ct) (\<lambda>ct.
                    Inr (push (int_str tag) False ct)))) (\<lambda>ct.
       rbind ((case (map_of self_tags tag, map_of other_tags tag) of
                 (None, _) \<Rightarrow> modify FIELD_ADD
               | (Some x, None) \<Rightarrow> modify FIELD_DROP
               | (Some x, Some y) \<Rightarrow> field_compare rec x y) ct)
         (pop False))) (both_keys order_of self_tags other_tags)"

definition is_element_add :: "type_element \<Rightarrow> modification" where
  "is_element_add t = (if is_message t then MESSAGE_ADD else ENUM_ADD)"

definition is_element_drop :: "type_element \<Rightarrow> modification" where
  "is_element_drop t = (if is_message t then MESSAGE_DROP else ENUM_DROP)"

record orders =
  tag_order :: "int list \<Rightarrow> int list"
  name_order :: "string list \<Rightarrow> string list"

definition compare_type_lists ::
    "orders \<Rightarrow> (type_element \<Rightarrow> type_element \<Rightarrow> compare_types \<Rightarrow> compare_types res) \<Rightarrow>
     type_element list \<Rightarrow> type_element list \<Rightarrow> compare_types \<Rightarrow> compare_types res" where
  "compare_type_lists os rec self_types_list other_types_list ct =
     rbind (rfold (add_self_type (Some (ct_self_package_name ct))) self_types_list ct) (\<lambda>ct.
     rbind (rfold (add_other_type (Some (ct_other_package_name ct))) other_types_list ct) (\<lambda>ct.
       compare_entries (name_order os) id True
         (\<lambda>t. modify (is_element_add t)) (\<lambda>t. modify (is_element_drop t))
         (\<lambda>x y. if is_message x = is_message y then rec x y else modify TYPE_ALTER)
         (by_key te_name self_types_list) (by_key te_name other_types_list) ct))"

definition message_body_compare ::
    "orders \<Rightarrow> (type_element \<Rightarrow> type_element \<Rightarrow> compare_types \<Rightarrow> compare_types res) \<Rightarrow>
     type_element \<Rightarrow> type_element \<Rightarrow> compare_types \<Rightarrow> compare_types res" where
  "message_body_compare os rec self other ct =
     rbind (convert_one_ofs (me_one_ofs other) (by_key fe_tag (me_fields self)) ct) (\<lambda>(self_tags, ct).
     rbind (compare_field_tags (tag_order os) rec self_tags (by_key fe_tag (me_fields other))
              (by_key fe_name (me_fields self)) (by_key fe_name (me_fields other)) ct) (\<lambda>ct.
     rbind (compare_entries (name_order os) id False
              (\<lambda>_. modify ONE_OF_ADD) (\<lambda>_. modify ONE_OF_DROP) (one_of_compare (tag_order os) rec)
              (by_key oo_name (me_one_ofs self)) (by_key oo_name (me_one_ofs other)) ct)
       (compare_type_lists os rec (me_nested_types self) (me_nested_types other))))"

definition message_compare ::
    "orders \<Rightarrow> (type_element \<Rightarrow> type_element \<Rightarrow> compare_types \<Rightarrow> compare_types res) \<Rightarrow>
     type_element \<Rightarrow> type_element \<Rightarrow> compare_types \<Rightarrow> compare_types res" where
  "message_compare os rec self other ct =
     (if \<not> is_message other then modify TYPE_ALTER ct
      else case lock_message self ct of
             (False, ct) \<Rightarrow> Inr ct
           | (True, ct) \<Rightarrow>
               rbind (message_body_compare os rec self other ct) (\<lambda>ct. Inr (snd (unlock_message self ct))))"

fun type_compare :: "nat \<Rightarrow> orders \<Rightarrow> type_element \<Rightarrow> type_element \<Rightarrow> compare_types \<Rightarrow> compare_types res" where
  "type_compare 0 os self other ct = Inl RecursionError"
| "type_compare (Suc depth) os self other ct =
     (case self of
        MessageElement l n d opts ts rs fs oos xs gs \<Rightarrow> message_compare os (type_compare depth os) self other ct
      | EnumElement l n d opts constants \<Rightarrow>
          if is_message other then modify TYPE_ALTER ct
          else enum_compare (tag_order os) constants (en_constants other) ct)"

section \<open>Comparison of files\<close>

text \<open>A dependency without dependencies of its own ends the loop over the dependencies.\<close>

function collect_dependencies_types ::
    "bool \<Rightarrow> (string \<times> protobuf_schema) list \<Rightarrow> compare_types \<Rightarrow> compare_types res" where
  "collect_dependencies_types is_self [] ct = Inr ct"
| "collect_dependencies_types is_self ((name, ProtobufSchema e refs sub_deps) # deps) ct =
     rbind (rfold ((if is_self then add_self_type else add_other_type) (pf_package_name e)) (pf_types e) ct) (\<lambda>ct.
       case sub_deps of
         None \<Rightarrow> Inr ct
       | Some ds \<Rightarrow>
           rbind (collect_dependencies_types is_self ds ct) (collect_dependencies_types is_self deps))"
  by pat_completeness auto
termination
  by (relation "measure (\<lambda>(b, ds, ct). size_list (size_prod (\<lambda>x. 0) size) ds)") auto

definition proto_file_compare ::
    "nat \<Rightarrow> orders \<Rightarrow> proto_file_element \<Rightarrow> proto_file_element \<Rightarrow> (string \<times> protobuf_schema) list option \<Rightarrow>
     (string \<times> protobuf_schema) list option \<Rightarrow> compare_result \<Rightarrow> compare_result res" where
  "proto_file_compare depth os self other self_dependencies other_dependencies result =
     (let result = (if pf_package_name self \<noteq> pf_package_name other then add_modification PACKAGE_ALTER result else result);
          result = (if pf_syntax self \<noteq> pf_syntax other then add_modification SYNTAX_ALTER result else result);
          ct = init_compare_types (pf_package_name self) (pf_package_name other) result
      in rbind (collect_dependencies_types True (case self_dependencies of None \<Rightarrow> [] | Some ds \<Rightarrow> ds) ct) (\<lambda>ct.
         rbind (collect_dependencies_types False (case other_dependencies of None \<Rightarrow> [] | Some ds \<Rightarrow> ds) ct) (\<lambda>ct.
         rbind (compare_type_lists os (type_compare depth os) (pf_types self) (pf_types other) ct) (\<lambda>ct.
           Inr (ct_result ct)))))"

definition schema_compare ::
    "nat \<Rightarrow> orders \<Rightarrow> protobuf_schema \<Rightarrow> protobuf_schema \<Rightarrow> compare_result \<Rightarrow> compare_result res" where
  "schema_compare depth os self other result =
     proto_file_compare depth os (ps_file self) (ps_file other) (ps_dependencies self) (ps_dependencies other) result"

end
