(* ===== verification/Protobuf_Schema_Properties.thy ===== *)
theory Protobuf_Schema_Properties
  imports Protobuf_Schema
begin

text \<open>
  The tree of the declared types answers suffix queries, and the check of the used types is exactly the
  question whether every used type is a scalar, a known type whose file is imported, or the end of a
  declared name.
\<close>

section \<open>The tree\<close>

definition child_exists :: "type_tree list \<Rightarrow> string list \<Rightarrow> bool" where
  "child_exists cs tokens \<longleftrightarrow> type_in_tree (TypeTree [] cs None) tokens \<noteq> None"

lemma type_in_tree_children: "type_in_tree t ts \<noteq> None \<longleftrightarrow> child_exists (tt_children t) ts"
  by (cases t; cases ts) (auto simp: child_exists_def)

lemma child_exists_simps [simp]:
  "child_exists cs []"
  "child_exists cs (x # xs) \<longleftrightarrow>
     (case find (\<lambda>c. tt_token c = x) cs of Some c \<Rightarrow> child_exists (tt_children c) xs | None \<Rightarrow> False)"
  using type_in_tree_children [of _ xs]
  by (auto simp: child_exists_def simp del: not_None_eq split: option.split)

lemma child_exists_Nil [simp]: "child_exists [] xs \<longleftrightarrow> xs = []"
  by (cases xs) simp_all

lemma find_update_first:
  assumes "update_first P f cs = Some cs'" and "\<And>c. Q (f c) = Q c"
    and "\<And>c. P c \<Longrightarrow> Q c \<longleftrightarrow> same" and "same \<Longrightarrow> (\<And>c. Q c \<longleftrightarrow> P c)"
  shows "find Q cs' = (if same then map_option f (find P cs) else find Q cs)"
  using assms by (induction cs arbitrary: cs') (auto split: if_splits)

lemma update_first_None: "update_first P f cs = None \<longleftrightarrow> find P cs = None"
  by (induction cs) auto

lemma update_first_Some: "update_first P f cs = Some cs' \<Longrightarrow> \<exists>c. find P cs = Some c"
  by (metis not_Some_eq update_first_None option.distinct(1))

lemma find_append: "find P (xs @ ys) = (case find P xs of None \<Rightarrow> find P ys | Some x \<Rightarrow> Some x)"
  by (induction xs) auto

lemma child_exists_add:
  "child_exists (add_tokens tokens file n cs) ts \<longleftrightarrow> child_exists cs ts \<or> prefix ts tokens"
proof (induction tokens arbitrary: cs ts)
  case (Cons token tokens)
  let ?f = "\<lambda>c. TypeTree (tt_token c) (add_tokens tokens file n (tt_children c)) (tt_reference c)"
  show ?case
  proof (cases ts)
    case (Cons x xs)
    show ?thesis
    proof (cases "update_first (\<lambda>c. tt_token c = token) ?f cs")
      case None
      then have "find (\<lambda>c. tt_token c = token) cs = None"
        by (simp only: update_first_None)
      then show ?thesis
        using Cons None Cons.IH by (auto simp: find_append split: option.splits)
    next
      case (Some cs')
      have "find (\<lambda>c. tt_token c = x) cs' =
          (if x = token then map_option ?f (find (\<lambda>c. tt_token c = token) cs) else find (\<lambda>c. tt_token c = x) cs)"
        by (rule find_update_first [OF Some]) auto
      then show ?thesis
        using Cons Some Cons.IH update_first_Some [OF Some] by (auto split: option.splits)
    qed
  qed simp
qed auto

lemma add_new_type_exists:
  "type_exist_in_tree (add_new_type name file n tree) ts \<longleftrightarrow>
     type_exist_in_tree tree ts \<or> suffix ts (py_split (CHR ''.'') name)"
  by (simp add: type_exist_in_tree_def type_in_tree_children add_new_type_def child_exists_add suffix_to_prefix
      del: not_None_eq)

section \<open>The declared names\<close>

text \<open>The full names of a type and of the types nested in it, and of all the types of a schema.\<close>

fun type_names :: "string \<Rightarrow> type_element \<Rightarrow> string list" where
  "type_names parent (MessageElement l name d os ts rs fs oos xs gs) =
     (parent @ ''.'' @ name) # concat (map (type_names (parent @ ''.'' @ name)) ts)"
| "type_names parent (EnumElement l name d os cs) = [parent @ ''.'' @ name]"

fun declared_names :: "protobuf_schema \<Rightarrow> string list" where
  "declared_names (ProtobufSchema e refs deps) =
     (case deps of None \<Rightarrow> [] | Some ds \<Rightarrow> concat (map (\<lambda>(_, p). declared_names p) ds)) @
     concat (map (type_names (package_of e)) (pf_types e))"

definition ends_one_of :: "string list \<Rightarrow> string list \<Rightarrow> bool" where
  "ends_one_of ts names \<longleftrightarrow> (\<exists>n\<in>set names. suffix ts (py_split (CHR ''.'') n))"

lemma ends_one_of_simps [simp]:
  "\<not> ends_one_of ts []"
  "ends_one_of ts (n # ns) \<longleftrightarrow> suffix ts (py_split (CHR ''.'') n) \<or> ends_one_of ts ns"
  "ends_one_of ts (ns @ ms) \<longleftrightarrow> ends_one_of ts ns \<or> ends_one_of ts ms"
  by (auto simp: ends_one_of_def)

lemma type_names_unfold:
  "type_names parent t =
     (parent @ ''.'' @ te_name t) # concat (map (type_names (parent @ ''.'' @ te_name t)) (nested_types t))"
  by (cases t) simp_all

lemma nested_type_tree_exists:
  "type_exist_in_tree (fst (nested_type_tree f parent t (tree, n))) ts \<longleftrightarrow>
     type_exist_in_tree tree ts \<or> ends_one_of ts (type_names parent t)"
  "type_exist_in_tree (fst (nested_type_trees f parent us (tree, n))) ts \<longleftrightarrow>
     type_exist_in_tree tree ts \<or> ends_one_of ts (concat (map (type_names parent) us))"
proof (induction f parent t "(tree, n)" and f parent us "(tree, n)"
    arbitrary: tree n and tree n rule: nested_type_tree_nested_type_trees.induct)
  case (4 filename full t us tree n)
  then show ?case by (simp add: disj_assoc)
qed (simp_all add: add_new_type_exists Let_def)

lemma fold_exists:
  assumes "\<And>x tree n. x \<in> set xs \<Longrightarrow>
      type_exist_in_tree (fst (f x (tree, n))) ts \<longleftrightarrow> type_exist_in_tree tree ts \<or> ends_one_of ts (names x)"
  shows "type_exist_in_tree (fst (fold f xs (tree, n))) ts \<longleftrightarrow>
      type_exist_in_tree tree ts \<or> ends_one_of ts (concat (map names xs))"
  using assms
proof (induction xs arbitrary: tree n)
  case (Cons x xs)
  obtain tree' n' where "f x (tree, n) = (tree', n')" by fastforce
  with Cons.prems [of x tree n] Cons.IH [of tree' n'] Cons.prems show ?case by auto
qed simp

lemma add_file_type_exists:
  "type_exist_in_tree (fst (add_file_type f package t (tree, n))) ts \<longleftrightarrow>
     type_exist_in_tree tree ts \<or> ends_one_of ts (type_names package t)"
  unfolding add_file_type_def Let_def prod.case
  by (subst fold_exists [where names = "type_names (package @ ''.'' @ te_name t)"])
    (simp_all add: nested_type_tree_exists add_new_type_exists type_names_unfold [of package t])

lemma types_tree_recursive_exists:
  "type_exist_in_tree (fst (types_tree_recursive f p (tree, n))) ts \<longleftrightarrow>
     type_exist_in_tree tree ts \<or> ends_one_of ts (declared_names p)"
proof (induction p arbitrary: f tree n)
  case (ProtobufSchema e refs deps)
  obtain tree' n' where st: "(case deps of None \<Rightarrow> (tree, n)
      | Some ds \<Rightarrow> fold (\<lambda>(name, p). types_tree_recursive name p) ds (tree, n)) = (tree', n')"
    by fastforce
  have "type_exist_in_tree tree' ts \<longleftrightarrow> type_exist_in_tree tree ts \<or>
      ends_one_of ts (case deps of None \<Rightarrow> [] | Some ds \<Rightarrow> concat (map (\<lambda>(_, p). declared_names p) ds))"
  proof (cases deps)
    case (Some ds)
    have "type_exist_in_tree (fst (fold (\<lambda>(name, p). types_tree_recursive name p) ds (tree, n))) ts \<longleftrightarrow>
        type_exist_in_tree tree ts \<or> ends_one_of ts (concat (map (\<lambda>(_, p). declared_names p) ds))"
      using ProtobufSchema Some by (intro fold_exists) (force simp: snds.simps)
    then show ?thesis using st Some by simp
  qed (use st in simp)
  then show ?case
    by (simp add: st fold_exists [where names = "type_names (package_of e)"] add_file_type_exists)
qed

lemma type_exist_empty: "type_exist_in_tree (TypeTree s [] None) ts \<longleftrightarrow> ts = []"
  by (cases "rev ts") (auto simp: type_exist_in_tree_def)

lemma types_tree_exists:
  "type_exist_in_tree (types_tree p) ts \<longleftrightarrow> ts = [] \<or> ends_one_of ts (declared_names p)"
  by (simp add: types_tree_def types_tree_recursive_exists type_exist_empty)

text \<open>
  C31: The tree of the declared types knows a name exactly if the name is the end, in whole parts between the
  dots, of the full name of a type declared in the schema or in one of its dependencies.
\<close>

theorem tree_lookup_is_suffix:
  "type_exist_in_tree (types_tree p) (py_split (CHR ''.'') name) \<longleftrightarrow>
     (\<exists>full. full \<in> set (declared_names p) \<and> suffix (py_split (CHR ''.'') name) (py_split (CHR ''.'') full))"
  by (auto simp: types_tree_exists ends_one_of_def)

section \<open>The used types\<close>

lemma py_split_append: "py_split c (s @ c # t) = py_split c s @ py_split c t"
proof (induction s)
  case Nil
  show ?case by (cases "py_split c t") simp_all
qed (auto split: list.splits)

text \<open>The parents of the used types are declared: the names start with the package, or with a dot without one.\<close>

lemma nested_used_type_parent:
  "u \<in> set (nested_used_type package parent t) \<Longrightarrow>
     ut_parent u \<in> insert (package @ ''.'' @ parent) (set (type_names (package @ ''.'' @ parent) t))"
proof (induction package parent t rule: nested_used_type.induct)
  case (1 package parent l name d os ts rs fs one_ofs xs gs)
  then consider (own) "ut_parent u = package @ ''.'' @ parent \<or> ut_parent u = package @ ''.'' @ parent @ ''.'' @ name"
    | (nested) t where "t \<in> set ts" "u \<in> set (nested_used_type package (parent @ ''.'' @ name) t)"
    by (auto simp: dependencies_one_of_def used_type_def Let_def split: if_splits)
  then show ?case
  proof cases
    case (nested t)
    then show ?thesis using 1(1) [OF nested] by auto
  qed auto
qed simp

lemma type_used_types_parent:
  "u \<in> set (type_used_types package t) \<Longrightarrow> ut_parent u \<in> set (type_names package t)"
  using nested_used_type_parent [of u package "te_name t"]
  by (cases t) (fastforce simp: type_used_types_def dependencies_one_of_def used_type_def Let_def split: if_splits)+

lemma type_names_append: "type_names (a @ b) t = map ((@) a) (type_names b t)"
  by (induction b t rule: type_names.induct) (simp_all add: map_concat cong: map_cong)

lemma type_names_dot: "n \<in> set (type_names [] t) \<Longrightarrow> \<exists>r. n = CHR ''.'' # r"
  using type_names_append [of "''.'' @ te_name t" "[]"]
  by (auto simp: type_names_unfold [of "[]" t])

lemma used_parent_declared:
  assumes "u \<in> set (used_types p)"
  shows "type_exist_in_tree (types_tree p) (py_split (CHR ''.'') (drop 1 (ut_parent u)))"
proof -
  obtain e refs deps where p: "p = ProtobufSchema e refs deps" by (cases p)
  let ?package = "case pf_package_name e of None \<Rightarrow> [] | Some n \<Rightarrow> ''.'' @ n"
  obtain t where t: "t \<in> set (pf_types e)" "ut_parent u \<in> set (type_names ?package t)"
    using assms type_used_types_parent by (fastforce simp: used_types_def p Let_def)
  then obtain r where r: "ut_parent u = ?package @ CHR ''.'' # r" "CHR ''.'' # r \<in> set (type_names [] t)"
    using type_names_append [of ?package "[]" t] type_names_dot [of _ t] by fastforce
  have full: "package_of e @ CHR ''.'' # r \<in> set (declared_names p)"
    using t(1) r(2) type_names_append [of "package_of e" "[]" t] by (force simp: p)
  have "suffix (py_split (CHR ''.'') (drop 1 (ut_parent u))) (py_split (CHR ''.'') (package_of e @ CHR ''.'' # r))"
    using py_split_append [of "CHR ''.''" "[]" r]
    by (cases "pf_package_name e") (simp_all add: r(1) package_of_def py_split_append suffix_def)
  then show ?thesis
    using full by (auto simp: types_tree_exists ends_one_of_def)
qed

lemma are_type_usage_valid_iff:
  "fst (are_type_usage_valid p tree us) \<longleftrightarrow> (\<forall>u\<in>set us. type_usage_error p tree u = None)"
  by (induction us) (auto split: option.splits)


definition sample_field :: "string \<Rightarrow> string \<Rightarrow> int \<Rightarrow> field_element" where
  "sample_field element_type name tag =
     \<lparr>fe_location = DEFAULT_LOCATION, fe_label = None, fe_element_type = element_type, fe_name = name,
      fe_default_value = None, fe_json_name = None, fe_tag = tag, fe_documentation = [], fe_options = []\<rparr>"

definition sample_message :: "string \<Rightarrow> type_element list \<Rightarrow> field_element list \<Rightarrow> type_element" where
  "sample_message name nested fs = MessageElement DEFAULT_LOCATION name [] [] nested [] fs [] [] []"

definition sample_file :: "string option \<Rightarrow> type_element list \<Rightarrow> proto_file_element" where
  "sample_file package types = (proto_file_empty [])\<lparr>pf_package_name := package, pf_types := types\<rparr>"


text \<open>
  A known type whose file is imported with \<open>import public\<close> counts as not defined, while an ordinary
  import of the file makes it known.
\<close>

theorem public_import_not_known:
  "verify_schema_dependencies
     (ProtobufSchema ((sample_file None [sample_message ''A'' [] [sample_field ''google.protobuf.Timestamp'' ''f'' 1]])
        \<lparr>pf_public_imports := [''google/protobuf/timestamp.proto'']\<rparr>) None None) =
     (False, ''type '' @ dq @ ''google.protobuf.Timestamp'' @ dq @ '' is not defined'') \<and>
   fst (verify_schema_dependencies
     (ProtobufSchema ((sample_file None [sample_message ''A'' [] [sample_field ''google.protobuf.Timestamp'' ''f'' 1]])
        \<lparr>pf_imports := [''google/protobuf/timestamp.proto'']\<rparr>) None None))"
  by code_simp

end
