(* ===== verification/Protobuf_Compare_Properties.thy ===== *)
theory Protobuf_Compare_Properties
  imports Protobuf_Compare Protobuf_Schema_Properties
begin

text \<open>
  Facts on the comparison of Protobuf schemas. The locale \<open>comparison_relation\<close> states what a relation
  between two runs of a step has to satisfy so that it holds of every part of the comparison if it holds
  of the recursive calls; it is interpreted for the termination of the comparison and for what the
  comparison leaves unchanged.
\<close>

section \<open>Errors and map types\<close>

lemma option_text_shape:
  "option_to_schema e = Inr s \<Longrightarrow> CHR ''='' \<in> set s"
  "kind_to_schema name kv = Inr s \<Longrightarrow> CHR ''='' \<in> set s"
  "list_texts vs = Inr ts \<Longrightarrow> True"
  "try_to_schema v = Inr s \<Longrightarrow> True"
  "format_option_map m = Inr s \<Longrightarrow> True"
  "format_option_map_value v = Inr s \<Longrightarrow> True"
  "format_list_map_value vs = Inr s \<Longrightarrow> True"
  by (induction e and name kv and vs and v and m and v and vs
      arbitrary: s and s and ts and s and s and s and s
      rule: option_to_schema_kind_to_schema_list_texts_try_to_schema_format_option_map_format_option_map_value_format_list_map_value.induct)
    auto

lemma map_entry_never: "text_in_options ''map_entry'' options \<noteq> Inr True"
  by (induction options) (auto dest: option_text_shape(1))

lemma option_errors:
  "option_to_schema e = Inl x \<Longrightarrow> x = AttributeError"
  "kind_to_schema name kv = Inl x \<Longrightarrow> x = AttributeError"
  "list_texts vs = Inl x \<Longrightarrow> x = AttributeError"
  "try_to_schema v = Inl x \<Longrightarrow> x = AttributeError"
  "format_option_map m = Inl x \<Longrightarrow> x = AttributeError"
  "format_option_map_value v = Inl x \<Longrightarrow> x = AttributeError"
  "format_list_map_value vs = Inl x \<Longrightarrow> x = AttributeError"
  by (induction e and name kv and vs and v and m and v and vs
      rule: option_to_schema_kind_to_schema_list_texts_try_to_schema_format_option_map_format_option_map_value_format_list_map_value.induct)
    (auto simp: rbind_eq_Inl)

lemma text_in_options_errors: "text_in_options s os = Inl x \<Longrightarrow> x = AttributeError"
  by (induction os) (auto simp: rbind_eq_Inl dest: option_errors(1) split: if_splits)

lemma get2_errors: "get2 s = Inl x \<Longrightarrow> x = ProtobufException"
proof (induction s rule: get2.induct)
  case (1 s)
  from 1(3) show ?case
    unfolding get2.simps [of s]
    by (auto simp: rbind_eq_Inl mk_map_type_def intro: 1(1,2) split: if_splits option.splits)
qed

lemma rfind_after: "rfind c s = Some i \<Longrightarrow> c \<notin> set (drop (Suc i) s)"
proof (induction s arbitrary: i)
  case (Cons x xs)
  have none: "rfind c xs = None \<Longrightarrow> c \<notin> set xs" for xs
    by (induction xs) (auto split: option.splits if_splits)
  from Cons show ?case by (auto split: option.splits if_splits dest: none)
qed simp

lemma py_strip_subset: "set (py_strip s) \<subseteq> set s"
  by (auto simp: py_strip_def dest!: set_dropWhileD)

lemma scalar_not_map: "get2 s = Inr t \<Longrightarrow> pt_is_scalar t \<Longrightarrow> \<not> pt_is_map t"
  by (cases t) auto

lemma get2_no_comma: "CHR '','' \<notin> set s \<Longrightarrow> get2 s = Inr t \<Longrightarrow> \<not> pt_is_map t"
proof -
  have none: "CHR '','' \<notin> set s \<Longrightarrow> rfind (CHR '','') s = None" for s
    by (induction s) auto
  show "CHR '','' \<notin> set s \<Longrightarrow> get2 s = Inr t \<Longrightarrow> \<not> pt_is_map t"
    unfolding get2.simps [of s] by (auto simp: none split: if_splits)
qed

lemma get2_map_parts:
  assumes "get2 s = Inr t" and "pt_is_map t"
  shows "\<not> pt_is_map (pt_key t)" and "\<not> pt_is_map (pt_value t)"
proof -
  obtain comma key val where parts: "rfind (CHR '','') s = Some comma"
      "get2 (py_strip (take (length s - 1 - (comma + 1)) (drop (comma + 1) s))) = Inr val"
      "mk_map_type s key val = Inr t"
    using assms by (auto simp: get2.simps [of s] split: if_splits option.splits)
  then have t: "t = MapType s key val" "pt_is_scalar key"
    by (auto simp: mk_map_type_def split: if_splits)
  then show "\<not> pt_is_map (pt_key t)" by (cases key) auto
  have "set (py_strip (take (length s - 1 - (comma + 1)) (drop (comma + 1) s))) \<subseteq> set (drop (Suc comma) s)"
    using py_strip_subset set_take_subset by fastforce
  then show "\<not> pt_is_map (pt_value t)"
    using get2_no_comma [OF _ parts(2)] rfind_after [OF parts(1)] t(1) by auto
qed

section \<open>Relations between runs\<close>

definition plain_types :: "(string, type_record) dict \<Rightarrow> bool" where
  "plain_types types \<longleftrightarrow> (\<forall>(k, r)\<in>set types. \<exists>p e. r = TypeRecord p e)"

lemma by_key_member:
  assumes "map_of (by_key key xs) k = Some x"
  shows "x \<in> set xs \<and> key x = k"
proof -
  have "map_of (fold (\<lambda>x d. dict_set d (key x) x) xs d) k = Some x \<Longrightarrow>
      x \<in> set xs \<and> key x = k \<or> map_of d k = Some x" for d
  proof (induction xs arbitrary: d)
    case (Cons a xs)
    then show ?case using Cons.IH [of "dict_set d (key a) a"] by (auto split: if_splits)
  qed simp
  then show ?thesis using assms by (fastforce simp: by_key_def)
qed

lemma pop_push [simp]: "pop c (push x c ct) = Inr ct"
  by (simp add: pop_def push_def pop_push_path)

text \<open>The step for one tag, with the pushes and pops paired.\<close>

lemma compare_field_tags_paths:
  "compare_field_tags ord rec self_tags other_tags self_names other_names =
     rfold (\<lambda>tag ct. rbind ((case tag_altered self_tags self_names other_names tag of
                None \<Rightarrow> Inr
              | Some field_name \<Rightarrow> in_path field_name False (modify FIELD_TAG_ALTER)) ct)
         (in_path (int_str tag) False
            (case (map_of self_tags tag, map_of other_tags tag) of
                 (None, _) \<Rightarrow> modify FIELD_ADD
               | (Some x, None) \<Rightarrow> modify FIELD_DROP
               | (Some x, Some y) \<Rightarrow> field_compare rec x y))) (both_keys ord self_tags other_tags)"
  unfolding compare_field_tags_def
  by (intro arg_cong2 [where f = rfold] ext refl)
    (simp add: in_path_def [abs_def] rbind_assoc split: option.split)

text \<open>All types of a schema: those of its file and of its dependencies, with the nested ones.\<close>

fun sub_types :: "type_element \<Rightarrow> type_element list" where
  "sub_types (MessageElement l n d os ts rs fs oos xs gs) =
     MessageElement l n d os ts rs fs oos xs gs # concat (map sub_types ts)"
| "sub_types (EnumElement l n d os cs) = [EnumElement l n d os cs]"

fun all_types :: "protobuf_schema \<Rightarrow> type_element list" where
  "all_types (ProtobufSchema e refs deps) =
     concat (map sub_types (pf_types e)) @
     (case deps of None \<Rightarrow> [] | Some ds \<Rightarrow> concat (map (\<lambda>(_, p). all_types p) ds))"

lemma sub_types_refl: "t \<in> set (sub_types t)"
  by (cases t) simp_all

lemma sub_types_closed: "u \<in> set (sub_types t) \<Longrightarrow> set (nested_types u) \<subseteq> set (sub_types t)"
proof (induction t rule: sub_types.induct)
  case (1 l n d os ts rs fs oos xs gs)
  then show ?case using sub_types_refl by fastforce
qed simp

locale comparison_relation =
  fixes rel :: "(compare_types \<Rightarrow> compare_types res) \<Rightarrow> (compare_types \<Rightarrow> compare_types res) \<Rightarrow> bool"
    and valid :: "compare_types \<Rightarrow> bool"
    and known :: "type_element \<Rightarrow> bool"
    and known_other :: "type_element \<Rightarrow> bool"
  assumes rel_done: "rel Inr Inr"
    and rel_fail: "err \<noteq> RecursionError \<Longrightarrow> rel (\<lambda>s. Inl err) (\<lambda>s. Inl err)"
    and rel_seq: "rel m m' \<Longrightarrow> rel n n' \<Longrightarrow> rel (\<lambda>s. rbind (m s) n) (\<lambda>s. rbind (m' s) n')"
    and rel_read: "(\<And>s. valid s \<Longrightarrow> rel (g s) (g' s)) \<Longrightarrow> rel (\<lambda>s. g s s) (\<lambda>s. g' s s)"
    and rel_modify: "rel (modify x) (modify x)"
    and rel_in_path: "rel m m' \<Longrightarrow> rel (in_path k c m) (in_path k c m')"
    and rel_add_self: "known t \<Longrightarrow> rel (add_self_type p t) (add_self_type p t)"
    and rel_add_other: "known_other t \<Longrightarrow> rel (add_other_type p t) (add_other_type p t)"
    and valid_plain: "valid s \<Longrightarrow> plain_types (ct_self_types s) \<and> plain_types (ct_other_types s)"
    and valid_known: "valid s \<Longrightarrow> map_of (ct_self_types s) k = Some r \<Longrightarrow> known (tr_type_element r)"
    and valid_known_other: "valid s \<Longrightarrow> map_of (ct_other_types s) k = Some r \<Longrightarrow> known_other (tr_type_element r)"
    and known_nested: "known t \<Longrightarrow> u \<in> set (nested_types t) \<Longrightarrow> known u"
    and known_other_nested: "known_other t \<Longrightarrow> u \<in> set (nested_types t) \<Longrightarrow> known_other u"
begin

lemma rel_bind_value:
  assumes "\<And>x. v = Inl x \<Longrightarrow> x \<noteq> RecursionError" and "\<And>y. v = Inr y \<Longrightarrow> rel (m y) (m' y)"
  shows "rel (\<lambda>s. rbind v (\<lambda>y. m y s)) (\<lambda>s. rbind v (\<lambda>y. m' y s))"
  using assms rel_fail by (cases v) auto

lemma rel_if: "(b \<Longrightarrow> rel m m') \<Longrightarrow> (\<not> b \<Longrightarrow> rel n n') \<Longrightarrow> rel (if b then m else n) (if b then m' else n')"
  by simp

lemma rel_if_state:
  "(b \<Longrightarrow> rel m m') \<Longrightarrow> (\<not> b \<Longrightarrow> rel n n') \<Longrightarrow> rel (\<lambda>s. if b then m s else n s) (\<lambda>s. if b then m' s else n' s)"
  by (cases b) simp_all

lemma rel_rfold: "(\<And>x. x \<in> set xs \<Longrightarrow> rel (f x) (g x)) \<Longrightarrow> rel (rfold f xs) (rfold g xs)"
proof (induction xs)
  case Nil
  have "rfold f [] = Inr" "rfold g [] = Inr" by auto
  then show ?case by (simp add: rel_done)
next
  case (Cons x xs)
  have "rfold f (x # xs) = (\<lambda>s. rbind (f x s) (rfold f xs))" "rfold g (x # xs) = (\<lambda>s. rbind (g x s) (rfold g xs))"
    by auto
  then show ?case using Cons by (simp add: rel_seq)
qed

lemma rel_scalars: "rel (compare_scalars a b c d t u) (compare_scalars a b c d t u)"
proof -
  have err: "compatibility_kind e t = Inl x \<Longrightarrow> x \<noteq> RecursionError" for e t x
    by (auto simp: compatibility_kind_def of_option_def split: if_splits option.splits)
  show ?thesis
    unfolding compare_scalars_def
    by (intro rel_bind_value rel_seq rel_if rel_if_state rel_modify rel_done err)
qed

lemma rel_compare_message:
  assumes rec: "\<And>a b. known a \<Longrightarrow> known_other b \<Longrightarrow> rel (rec a b) (rec' a b)"
  shows "rel (compare_message rec t u) (compare_message rec' t u)"
proof -
  define body where "body = (\<lambda>rec (records, shorts :: string res \<times> string res). case records of
      (Some self_record, Some other_record) \<Rightarrow>
        (\<lambda>ct. rbind (fst shorts) (\<lambda>self_short. rbind (snd shorts) (\<lambda>other_short.
          if self_short \<noteq> other_short then modify FIELD_NAME_ALTER ct
          else rec (tr_type_element self_record) (tr_type_element other_record) ct)))
    | _ \<Rightarrow> if pt_string t \<noteq> pt_string u then modify FIELD_TYPE_ALTER else Inr)"
  let ?read = "\<lambda>ct. ((get_self_type ct t, get_other_type ct u), (self_type_short_name ct t, other_type_short_name ct u))"
  have unfold: "compare_message rec t u = (\<lambda>s. body rec (?read s) s)" for rec
    by (rule ext) (auto simp: compare_message_def body_def split: option.split)
  have err: "self_type_short_name s t = Inl x \<Longrightarrow> x \<noteq> RecursionError"
      "other_type_short_name s u = Inl x \<Longrightarrow> x \<noteq> RecursionError" for s x
    by (auto simp: self_type_short_name_def other_type_short_name_def type_short_name_def split: option.splits if_splits)
  have "rel (body rec (?read s)) (body rec' (?read s))" if "valid s" for s
  proof (cases "\<exists>r q. get_self_type s t = Some r \<and> get_other_type s u = Some q")
    case True
    then obtain r q where rq: "get_self_type s t = Some r" "get_other_type s u = Some q" by blast
    then have "known (tr_type_element r)" "known_other (tr_type_element q)"
      using valid_known [OF that] valid_known_other [OF that]
      by (auto simp: get_self_type_def get_other_type_def bind_eq_Some_conv)
    then show ?thesis
      unfolding body_def rq prod.case option.case fst_conv snd_conv
      by (intro rel_bind_value rel_if_state rel_modify rec err)
  next
    case False
    then show ?thesis by (auto simp: body_def rel_modify rel_done split: option.split)
  qed
  then show ?thesis
    unfolding unfold by (rule rel_read [where g = "\<lambda>s. body rec (?read s)" and g' = "\<lambda>s. body rec' (?read s)"])
qed

lemma record_type_plain:
  assumes "valid s"
  shows "record_type (get_self_type s t) x = Inr x" and "record_type (get_other_type s t) x = Inr x"
proof -
  have *: "record_type (Option.bind n (map_of types)) x = Inr x" if plain: "plain_types types" for n types
  proof (cases "Option.bind n (map_of types)")
    case (Some r)
    then obtain k where "(k, r) \<in> set types" by (auto simp: bind_eq_Some_conv dest: map_of_SomeD)
    then obtain p e where "r = TypeRecord p e" using plain by (fastforce simp: plain_types_def)
    then show ?thesis by (simp add: Some)
  qed simp
  show "record_type (get_self_type s t) x = Inr x" "record_type (get_other_type s t) x = Inr x"
    using valid_plain [OF assms] by (simp_all add: get_self_type_def get_other_type_def *)
qed

lemma rel_compare_type_step:
  assumes rec: "\<And>a b. known a \<Longrightarrow> known_other b \<Longrightarrow> rel (rec a b) (rec' a b)"
    and maps: "pt_is_map t \<Longrightarrow> pt_is_map u \<Longrightarrow>
        rel (compare_type d rec l (pt_key t) (pt_key u) None) (compare_type d rec' l (pt_key t) (pt_key u) None)"
      "pt_is_map t \<Longrightarrow> pt_is_map u \<Longrightarrow>
        rel (compare_type d rec l (pt_value t) (pt_value u) None) (compare_type d rec' l (pt_value t) (pt_value u) None)"
  shows "rel (compare_type (Suc d) rec l t u k) (compare_type (Suc d) rec' l t u k)"
proof -
  define g where "g = (\<lambda>rec s0 s.
      rbind (record_type (get_self_type s0 t) t) (\<lambda>t'. rbind (record_type (get_other_type s0 u) u) (\<lambda>u'.
        if (pt_is_scalar t' \<or> is_enum_record (get_self_type s0 t)) =
           (pt_is_scalar u' \<or> is_enum_record (get_other_type s0 u)) \<and> pt_is_map t' = pt_is_map u'
        then if pt_is_map t'
             then rbind (compare_type d rec l (pt_key t') (pt_key u') None s)
                    (compare_type d rec l (pt_value t') (pt_value u') None)
             else if pt_is_scalar t' \<or> is_enum_record (get_self_type s0 t)
             then compare_scalars l k (is_enum_record (get_self_type s0 t)) (is_enum_record (get_other_type s0 u)) t' u' s
             else compare_message rec t' u' s
        else modify FIELD_KIND_ALTER s)))"
  have unfold: "compare_type (Suc d) rec l t u k = (\<lambda>s. g rec s s)" for rec
    by (rule ext) (simp add: g_def Let_def compare_map_def cong: if_cong)
  have "rel (g rec s) (g rec' s)" if "valid s" for s
    unfolding g_def record_type_plain [OF that] rbind.simps
    by (intro rel_if_state rel_seq maps rel_scalars rel_compare_message rel_modify rec) auto
  then show ?thesis
    unfolding unfold by (rule rel_read)
qed

lemma rel_compare_type:
  assumes rec: "\<And>a b. known a \<Longrightarrow> known_other b \<Longrightarrow> rel (rec a b) (rec' a b)"
    and get2: "get2 t_text = Inr t" "get2 u_text = Inr u"
  shows "rel (compare_type 2 rec l t u k) (compare_type 2 rec' l t u k)"
  unfolding numeral_2_eq_2
  by (intro rel_compare_type_step rec) (use get2_map_parts [OF get2(1)] in auto)

lemma rel_field_compare:
  assumes rec: "\<And>a b. known a \<Longrightarrow> known_other b \<Longrightarrow> rel (rec a b) (rec' a b)"
  shows "rel (field_compare rec x y) (field_compare rec' x y)"
proof -
  have err: "get2 t = Inl e \<Longrightarrow> e \<noteq> RecursionError" for t e
    by (auto dest: get2_errors)
  show ?thesis
    unfolding field_compare_def
    by (intro rel_seq rel_bind_value rel_if_state rel_modify rel_done rel_compare_type rec err)
qed

lemma rel_entries:
  assumes "\<And>k y. map_of other k = Some y \<Longrightarrow> rel (added y) (added' y)"
    and "\<And>k x. map_of self k = Some x \<Longrightarrow> rel (dropped x) (dropped' x)"
    and "\<And>k x y. map_of self k = Some x \<Longrightarrow> map_of other k = Some y \<Longrightarrow> rel (both x y) (both' x y)"
  shows "rel (compare_entries ord ks c added dropped both self other)
             (compare_entries ord ks c added' dropped' both' self other)"
  unfolding compare_entries_def
  by (intro rel_rfold rel_in_path) (auto split: option.split intro: assms rel_done)

lemma rel_one_of_compare:
  assumes rec: "\<And>a b. known a \<Longrightarrow> known_other b \<Longrightarrow> rel (rec a b) (rec' a b)"
  shows "rel (one_of_compare ord rec x y) (one_of_compare ord rec' x y)"
  unfolding one_of_compare_def by (intro rel_entries rel_modify rel_field_compare rec)

lemma rel_enum_compare: "rel (enum_compare ord x y) (enum_compare ord x y)"
  unfolding enum_compare_def by (intro rel_entries rel_modify rel_if rel_done)

lemma rel_convert:
  assumes "\<And>tags. rel (cont tags) (cont' tags)"
  shows "rel (\<lambda>s. rbind (convert_one_ofs oos tags s) (\<lambda>(tags, s). cont tags s))
             (\<lambda>s. rbind (convert_one_ofs oos tags s) (\<lambda>(tags, s). cont' tags s))"
proof (induction oos arbitrary: tags)
  case (Cons x oos)
  show ?case
    unfolding convert_one_ofs.simps
    by (cases "take_converted x tags") (auto simp: rbind_assoc intro!: rel_seq rel_in_path rel_modify rel_done Cons)
qed (simp add: assms)

lemma rel_field_tags:
  assumes rec: "\<And>a b. known a \<Longrightarrow> known_other b \<Longrightarrow> rel (rec a b) (rec' a b)"
  shows "rel (compare_field_tags ord rec st ot sn on) (compare_field_tags ord rec' st ot sn on)"
  unfolding compare_field_tags_paths
  by (intro rel_rfold rel_seq rel_in_path)
    (auto intro: rel_in_path rel_modify rel_done rel_field_compare [OF rec] split: option.split)

lemma rel_type_lists:
  assumes rec: "\<And>a b. known a \<Longrightarrow> known_other b \<Longrightarrow> rel (rec a b) (rec' a b)" and xs: "\<And>x. x \<in> set xs \<Longrightarrow> known x"
    and ys: "\<And>y. y \<in> set ys \<Longrightarrow> known_other y"
  shows "rel (compare_type_lists os rec xs ys) (compare_type_lists os rec' xs ys)"
proof -
  let ?entries = "\<lambda>rec. compare_entries (name_order os) id True
         (\<lambda>t. modify (is_element_add t)) (\<lambda>t. modify (is_element_drop t))
         (\<lambda>x y. if is_message x = is_message y then rec x y else modify TYPE_ALTER)
         (by_key te_name xs) (by_key te_name ys)"
  define rest where "rest = (\<lambda>rec (s0 :: compare_types) s.
      rbind (rfold (add_other_type (Some (ct_other_package_name s0))) ys s) (?entries rec))"
  define first where "first = (\<lambda>rec (s0 :: compare_types) s.
      rbind (rfold (add_self_type (Some (ct_self_package_name s0))) xs s) (\<lambda>s. rest rec s s))"
  have entries: "rel (?entries rec) (?entries rec')"
    by (intro rel_entries rel_modify rel_if rec) (auto dest: by_key_member intro: xs ys)
  have rest: "rel (\<lambda>s. rest rec s s) (\<lambda>s. rest rec' s s)"
    unfolding rest_def by (rule rel_read) (intro rel_seq rel_rfold rel_add_other ys entries)
  have "rel (\<lambda>s. first rec s s) (\<lambda>s. first rec' s s)"
    unfolding first_def by (rule rel_read) (intro rel_seq rel_rfold rel_add_self xs rest)
  then show ?thesis
    unfolding compare_type_lists_def first_def rest_def .
qed

lemma rel_message_body:
  assumes rec: "\<And>a b. known a \<Longrightarrow> known_other b \<Longrightarrow> rel (rec a b) (rec' a b)" and self: "known self" "is_message self"
    and other: "known_other other" "is_message other"
  shows "rel (message_body_compare os rec self other) (message_body_compare os rec' self other)"
proof -
  have "\<And>x. x \<in> set (me_nested_types self) \<Longrightarrow> known x"
      and "\<And>x. x \<in> set (me_nested_types other) \<Longrightarrow> known_other x"
    using self known_nested [of self] other known_other_nested [of other] by (cases self; cases other; auto)+
  then show ?thesis
    unfolding message_body_compare_def
    by (intro rel_convert rel_seq rel_field_tags rel_entries rel_modify rel_one_of_compare rel_type_lists rec)
qed

lemma rel_collect:
  assumes "\<forall>(n, p)\<in>set ds. \<forall>t\<in>set (all_types p). if is_self then known t else known_other t"
  shows "rel (collect_dependencies_types is_self ds) (collect_dependencies_types is_self ds)"
  using assms
proof (induction ds rule: measure_induct_rule [where f = "size_list (size_prod (\<lambda>x. 0) size)"])
  case (less ds)
  show ?case
  proof (cases ds)
    case Nil
    have "collect_dependencies_types is_self [] = Inr" by (rule ext) simp
    then show ?thesis by (simp add: Nil rel_done)
  next
    case (Cons x deps)
    then obtain name e refs sub_deps where x: "x = (name, ProtobufSchema e refs sub_deps)"
      by (metis protobuf_schema.exhaust surj_pair)
    let ?add = "(if is_self then add_self_type else add_other_type) (pf_package_name e)"
    let ?rest = "\<lambda>ct. case sub_deps of None \<Rightarrow> Inr ct
       | Some ds \<Rightarrow> rbind (collect_dependencies_types is_self ds ct) (collect_dependencies_types is_self deps)"
    have unfold: "collect_dependencies_types is_self ds = (\<lambda>ct. rbind (rfold ?add (pf_types e) ct) ?rest)"
      by (rule ext) (simp add: Cons x)
    have "rel (rfold ?add (pf_types e)) (rfold ?add (pf_types e))"
    proof (rule rel_rfold)
      fix t assume "t \<in> set (pf_types e)"
      then have "if is_self then known t else known_other t"
        using less.prems sub_types_refl [of t] by (auto simp: Cons x)
      then show "rel (?add t) (?add t)"
        by (simp add: rel_add_self rel_add_other split: if_splits)
    qed
    moreover have "rel ?rest ?rest"
    proof (cases sub_deps)
      case None
      then show ?thesis using rel_done by simp
    next
      case (Some sub)
      have "rel (collect_dependencies_types is_self sub) (collect_dependencies_types is_self sub)"
      proof (rule less.IH)
        show "size_list (size_prod (\<lambda>x. 0) size) sub < size_list (size_prod (\<lambda>x. 0) size) ds"
          by (simp add: Cons x Some)
        have member: "t \<in> set (all_types (ProtobufSchema e refs (Some sub)))"
          if "(n, p) \<in> set sub" "t \<in> set (all_types p)" for n p t
          using that by force
        have all: "if is_self then known t else known_other t"
          if "t \<in> set (all_types (ProtobufSchema e refs (Some sub)))" for t
          using less.prems that unfolding Cons x Some by (simp del: all_types.simps)
        show "\<forall>(n, p)\<in>set sub. \<forall>t\<in>set (all_types p). if is_self then known t else known_other t"
          by (intro ballI case_prodI2 all) (auto intro: member simp del: all_types.simps)
      qed
      moreover have "rel (collect_dependencies_types is_self deps) (collect_dependencies_types is_self deps)"
        using less.prems by (intro less.IH) (auto simp: Cons x)
      ultimately show ?thesis by (simp add: Some rel_seq)
    qed
    ultimately show ?thesis unfolding unfold by (rule rel_seq)
  qed
qed

end

section \<open>Termination\<close>

definition type_elements :: "(string, type_record) dict \<Rightarrow> type_element set" where
  "type_elements types = tr_type_element ` snd ` set types"

definition closed_types :: "type_element set \<Rightarrow> bool" where
  "closed_types U \<longleftrightarrow> (\<forall>t\<in>U. set (nested_types t) \<subseteq> U)"

definition valid_in :: "type_element set \<Rightarrow> compare_types \<Rightarrow> bool" where
  "valid_in U ct \<longleftrightarrow> closed_types U \<and> plain_types (ct_self_types ct) \<and> plain_types (ct_other_types ct)
     \<and> type_elements (ct_self_types ct) \<subseteq> U"

definition run_inv :: "type_element set \<Rightarrow> type_element list \<Rightarrow> compare_types \<Rightarrow> bool" where
  "run_inv U L s \<longleftrightarrow> valid_in U s \<and> ct_locked_messages s = L"

text \<open>Two steps that behave alike, do not exhaust the depth, and leave the locked messages as they were.\<close>

definition same_run ::
    "type_element set \<Rightarrow> type_element list \<Rightarrow> (compare_types \<Rightarrow> compare_types res) \<Rightarrow>
     (compare_types \<Rightarrow> compare_types res) \<Rightarrow> bool" where
  "same_run U L m m' \<longleftrightarrow>
     (\<forall>s. run_inv U L s \<longrightarrow>
        m' s = m s \<and> (case m s of Inl x \<Rightarrow> x \<noteq> RecursionError | Inr s' \<Rightarrow> run_inv U L s'))"

lemma same_runE:
  assumes "same_run U L m m'" and "run_inv U L s"
  obtains (raised) x where "m s = Inl x" "m' s = Inl x" "x \<noteq> RecursionError"
    | (returned) s' where "m s = Inr s'" "m' s = Inr s'" "run_inv U L s'"
  using assms unfolding same_run_def by (cases "m s") (fastforce+)

lemma set_dict_set: "set (dict_set d k v) \<subseteq> insert (k, v) (set d)"
  by (induction d) auto

lemma plain_types_set: "plain_types types \<Longrightarrow> plain_types (dict_set types k (TypeRecord p e))"
  using set_dict_set [of k "TypeRecord p e" types] by (fastforce simp: plain_types_def)

lemma elements_set:
  "e \<in> U \<Longrightarrow> type_elements (dict_set types k (TypeRecord p e)) \<subseteq> U \<union> type_elements types"
  using set_dict_set [of k "TypeRecord p e" types] by (fastforce simp: type_elements_def)

lemma add_a_type_types:
  "add_a_type pre p t types = Inr types' \<Longrightarrow> plain_types types \<Longrightarrow> closed_types U \<Longrightarrow> t \<in> U \<Longrightarrow>
     plain_types types' \<and> type_elements types' \<subseteq> U \<union> type_elements types"
  "add_nested_types name p ts types = Inr types' \<Longrightarrow> plain_types types \<Longrightarrow> closed_types U \<Longrightarrow> set ts \<subseteq> U \<Longrightarrow>
     plain_types types' \<and> type_elements types' \<subseteq> U \<union> type_elements types"
proof (induction pre p t types and name p ts types arbitrary: types' and types'
    rule: add_a_type_add_nested_types.induct)
  case (1 pre p l n d os ts rs fs oos xs gs types)
  let ?e = "MessageElement l n d os ts rs fs oos xs gs"
  let ?name = "if given pre then the pre @ ''.'' @ n else n"
  let ?types = "dict_set types ?name (TypeRecord p ?e)"
  have no_map: "text_in_options ''map_entry'' os = Inr False"
    using 1(2) map_entry_never [of os] by (auto simp: Let_def)
  then have "add_nested_types ?name p ts ?types = Inr types'"
    using 1(2) by (simp add: Let_def)
  moreover have "plain_types ?types"
    using 1(3) by (rule plain_types_set)
  moreover have "set ts \<subseteq> U"
    using 1(4,5) unfolding closed_types_def by (metis nested_types.simps(1))
  ultimately have "plain_types types' \<and> type_elements types' \<subseteq> U \<union> type_elements ?types"
    using 1(1) [OF refl refl no_map] 1(4) by simp
  moreover have "type_elements ?types \<subseteq> U \<union> type_elements types"
    using 1(5) by (rule elements_set)
  ultimately show ?case by blast
next
  case (2 pre p l n d os cs types)
  let ?name = "if given pre then the pre @ ''.'' @ n else n"
  let ?e = "EnumElement l n d os cs"
  have "types' = dict_set types ?name (TypeRecord p ?e)" using 2(1) by simp
  then show ?case
    using plain_types_set [OF 2(2), of ?name p ?e] elements_set [OF 2(4), of ?name p types] by (simp only: simp_thms)
next
  case (4 name p t ts types)
  then obtain ty where ty: "add_a_type (Some name) p t types = Inr ty" "add_nested_types name p ts ty = Inr types'"
    by auto
  have "plain_types ty \<and> type_elements ty \<subseteq> U \<union> type_elements types"
    using 4 ty(1) by simp
  moreover from this have "plain_types types' \<and> type_elements types' \<subseteq> U \<union> type_elements ty"
    using 4(2) [OF ty(1,2)] 4(5,6) by simp
  ultimately show ?case by blast
qed simp

lemma add_a_type_errors:
  "add_a_type pre p t types = Inl x \<Longrightarrow> x = AttributeError"
  "add_nested_types name p ts types = Inl x \<Longrightarrow> x = AttributeError"
  by (induction pre p t types and name p ts types rule: add_a_type_add_nested_types.induct)
    (auto simp: rbind_eq_Inl Let_def dest: text_in_options_errors)

lemma same_run_seq:
  assumes "same_run U L m m'" and "same_run U L n n'"
  shows "same_run U L (\<lambda>s. rbind (m s) n) (\<lambda>s. rbind (m' s) n')"
  unfolding same_run_def
proof (intro allI impI)
  fix s assume s: "run_inv U L s"
  from assms(1) s show "rbind (m' s) n' = rbind (m s) n \<and>
      (case rbind (m s) n of Inl x \<Rightarrow> x \<noteq> RecursionError | Inr s' \<Rightarrow> run_inv U L s')"
  proof (cases rule: same_runE)
    case (returned s')
    from assms(2) returned(3) show ?thesis by (cases rule: same_runE) (simp_all add: returned)
  qed simp
qed

lemma in_path_unfold:
  "in_path k c m ct = rbind (m (push k c ct)) (pop c)"
  by (simp add: in_path_def)

lemma pop_frame: "pop c ct = Inr ct' \<Longrightarrow> \<exists>r. ct' = ct\<lparr>ct_result := r\<rparr>"
  by (auto simp: pop_def)

lemma pop_errors: "pop c ct = Inl x \<Longrightarrow> x = IndexError"
  by (auto simp: pop_def rbind_eq_Inl pop_path_def split: if_splits)

lemma run_inv_result [simp]:
  "run_inv U L (ct\<lparr>ct_result := r\<rparr>) = run_inv U L ct" "run_inv U L (push k c ct) = run_inv U L ct"
  by (simp_all add: run_inv_def valid_in_def push_def)

lemma same_run_pop: "same_run U L (pop c) (pop c)"
  unfolding same_run_def
  by (auto split: sum.split dest!: pop_frame pop_errors)

lemma same_run_in_path:
  assumes "same_run U L m m'"
  shows "same_run U L (in_path k c m) (in_path k c m')"
proof -
  have "same_run U L (\<lambda>s. m (push k c s)) (\<lambda>s. m' (push k c s))"
    using assms by (simp add: same_run_def)
  from same_run_seq [OF this same_run_pop, of c] show ?thesis
    by (simp add: in_path_def [abs_def])
qed

lemma same_run_add_self:
  assumes "t \<in> U" and "closed_types U"
  shows "same_run U L (add_self_type p t) (add_self_type p t)"
proof -
  have "run_inv U L s'" if "run_inv U L s" "add_self_type p t s = Inr s'" for s s'
    using that assms add_a_type_types(1) [of p p t "ct_self_types s" "ct_self_types s'" U]
    by (auto simp: add_self_type_def run_inv_def valid_in_def Un_absorb2)
  moreover have "x \<noteq> RecursionError" if "add_self_type p t s = Inl x" for s x
    using that by (auto simp: add_self_type_def rbind_eq_Inl dest: add_a_type_errors(1))
  ultimately show ?thesis by (auto simp: same_run_def split: sum.split)
qed

lemma same_run_add_other: "same_run U L (add_other_type p t) (add_other_type p t)"
proof -
  have "run_inv U L s'" if "run_inv U L s" "add_other_type p t s = Inr s'" for s s'
    using that add_a_type_types(1) [of p p t "ct_other_types s" "ct_other_types s'" UNIV]
    by (auto simp: add_other_type_def run_inv_def valid_in_def closed_types_def)
  moreover have "x \<noteq> RecursionError" if "add_other_type p t s = Inl x" for s x
    using that by (auto simp: add_other_type_def rbind_eq_Inl dest: add_a_type_errors(1))
  ultimately show ?thesis by (auto simp: same_run_def split: sum.split)
qed

interpretation run: comparison_relation "same_run U L" "run_inv U L" "\<lambda>t. t \<in> U \<and> closed_types U" "\<lambda>t. True"
  for U L
proof (unfold_locales, goal_cases)
  case 1 then show ?case by (simp add: same_run_def)
next
  case 2 then show ?case by (simp add: same_run_def)
next
  case 3 then show ?case by (rule same_run_seq)
next
  case 4 then show ?case by (simp add: same_run_def)
next
  case 5 then show ?case by (simp add: same_run_def modify_def)
next
  case 6 then show ?case by (rule same_run_in_path)
next
  case 7 then show ?case by (simp add: same_run_add_self)
next
  case 8 then show ?case by (simp add: same_run_add_other)
next
  case 9 then show ?case by (simp add: run_inv_def valid_in_def)
next
  case (10 s k r)
  then show ?case by (force simp: run_inv_def valid_in_def type_elements_def dest: map_of_SomeD)
next
  case (12 t u) then show ?case by (auto simp: closed_types_def)
qed simp_all

text \<open>Locking a message and unlocking it again restores the list of locked messages.\<close>

lemma unlock_locked:
  assumes "\<not> is_locked m s" and "ct_locked_messages s' = ct_locked_messages s @ [m]"
  shows "snd (unlock_message m s') = s'\<lparr>ct_locked_messages := ct_locked_messages s\<rparr>"
proof -
  have "remove_first (message_eq m) (xs @ [m]) = xs" if "\<not> list_ex (message_eq m) xs" for xs
    using that by (induction xs) (auto simp: message_eq_def)
  then show ?thesis
    using assms by (simp add: unlock_message_def is_locked_def message_eq_def)
qed

lemma is_locked_key: "is_locked m s \<longleftrightarrow> type_key m \<in> type_key ` set (ct_locked_messages s)"
  by (auto simp: is_locked_def list_ex_iff message_eq_def)

lemma same_run_message:
  assumes body: "\<not> (type_key self \<in> type_key ` set L) \<Longrightarrow> is_message other \<Longrightarrow>
      same_run U (L @ [self]) (message_body_compare os rec self other) (message_body_compare os rec' self other)"
  shows "same_run U L (message_compare os rec self other) (message_compare os rec' self other)"
  unfolding same_run_def
proof (intro allI impI)
  fix s assume s: "run_inv U L s"
  let ?claim = "message_compare os rec' self other s = message_compare os rec self other s \<and>
      (case message_compare os rec self other s of Inl x \<Rightarrow> x \<noteq> RecursionError | Inr s' \<Rightarrow> run_inv U L s')"
  show ?claim
  proof (cases "\<not> is_message other \<or> is_locked self s")
    case True
    then show ?thesis using s by (auto simp: message_compare_def lock_message_def modify_def)
  next
    case False
    let ?s = "s\<lparr>ct_locked_messages := ct_locked_messages s @ [self]\<rparr>"
    have L: "ct_locked_messages s = L" using s by (simp add: run_inv_def)
    have inv: "run_inv U (L @ [self]) ?s"
      using s by (simp add: run_inv_def valid_in_def)
    have rel: "same_run U (L @ [self]) (message_body_compare os rec self other) (message_body_compare os rec' self other)"
      using body False by (simp add: is_locked_key L)
    have unfold: "message_compare os rec self other s =
        rbind (message_body_compare os rec self other ?s) (\<lambda>ct. Inr (snd (unlock_message self ct)))" for rec
      using False by (simp add: message_compare_def lock_message_def)
    from rel inv show ?thesis
    proof (cases rule: same_runE)
      case (returned s')
      then have "snd (unlock_message self s') = s'\<lparr>ct_locked_messages := L\<rparr>"
        using unlock_locked [of self s s'] False L by (simp add: run_inv_def)
      then show ?thesis using returned by (simp add: unfold run_inv_def valid_in_def)
    qed (simp add: unfold)
  qed
qed

definition unlocked_count :: "type_element set \<Rightarrow> type_element list \<Rightarrow> nat" where
  "unlocked_count U L = card (type_key ` U - type_key ` set L)"

lemma unlocked_count_lock:
  assumes "finite U" and "self \<in> U" and "type_key self \<notin> type_key ` set L"
  shows "unlocked_count U (L @ [self]) < unlocked_count U L"
proof -
  have "type_key ` U - type_key ` set (L @ [self]) = (type_key ` U - type_key ` set L) - {type_key self}"
    by auto
  then show ?thesis
    using assms unfolding unlocked_count_def by (simp only:) (rule card_Diff1_less; auto)
qed

lemma type_compare_same_run:
  assumes "finite U" and "closed_types U"
  shows "self \<in> U \<Longrightarrow> unlocked_count U L < depth \<Longrightarrow> unlocked_count U L < depth' \<Longrightarrow>
     same_run U L (type_compare depth os self other) (type_compare depth' os self other)"
proof (induction depth arbitrary: depth' L self other)
  case (Suc depth)
  then obtain n' where depth': "depth' = Suc n'" by (cases depth') auto
  show ?case
  proof (cases self)
    case (MessageElement l n d opts ts rs fs oos xs gs)
    have body: "same_run U (L @ [self]) (message_body_compare os (type_compare depth os) self other)
          (message_body_compare os (type_compare n' os) self other)"
      if "type_key self \<notin> type_key ` set L" "is_message other"
      using Suc.prems depth' unlocked_count_lock [OF assms(1) Suc.prems(1) that(1)] assms(2) that(2) MessageElement
      by (intro run.rel_message_body Suc.IH) auto
    have unfold: "type_compare (Suc m) os self other = message_compare os (type_compare m os) self other" for m
      by (rule ext) (simp add: MessageElement)
    show ?thesis
      unfolding depth' unfold using body by (intro same_run_message) simp
  next
    case (EnumElement l n d opts cs)
    have unfold: "type_compare (Suc m) os self other =
        (if is_message other then modify TYPE_ALTER else enum_compare (tag_order os) cs (en_constants other))" for m
      by (rule ext) (simp add: EnumElement)
    show ?thesis
      unfolding depth' unfold by (intro run.rel_if run.rel_modify run.rel_enum_compare)
  qed
qed simp

lemma all_types_closed: "closed_types (set (all_types p))"
proof -
  have "u \<in> set (all_types p) \<Longrightarrow> set (nested_types u) \<subseteq> set (all_types p)" for u
  proof (induction p rule: all_types.induct)
    case (1 e refs deps)
    then show ?case by (cases deps) (use sub_types_closed in fastforce)+
  qed
  then show ?thesis by (auto simp: closed_types_def)
qed

text \<open>
  C28: The comparison of two Protobuf schemas returns or raises an error of its own: recursive message types do
  not make it run forever, because a message under comparison is locked. A depth of one more than the number
  of types of the first schema is always enough, and any larger depth gives the same answer.
\<close>

theorem schema_compare_terminates:
  assumes "length (all_types self) < depth"
  shows "schema_compare depth os self other result = schema_compare (Suc (length (all_types self))) os self other result \<and>
    schema_compare depth os self other result \<noteq> Inl RecursionError"
proof -
  obtain e refs deps where self: "self = ProtobufSchema e refs deps" by (cases self)
  let ?U = "set (all_types self)" and ?d = "Suc (length (all_types self))"
  let ?sdeps = "case deps of None \<Rightarrow> [] | Some ds \<Rightarrow> ds"
  let ?odeps = "case ps_dependencies other of None \<Rightarrow> [] | Some ds \<Rightarrow> ds"
  let ?run = "\<lambda>depth ct. rbind (collect_dependencies_types True ?sdeps ct) (\<lambda>ct.
      rbind (collect_dependencies_types False ?odeps ct)
        (compare_type_lists os (type_compare depth os) (pf_types e) (pf_types (ps_file other))))"
  define start where "start = init_compare_types (pf_package_name e) (pf_package_name (ps_file other))
      (let result = (if pf_package_name e \<noteq> pf_package_name (ps_file other) then add_modification PACKAGE_ALTER result else result)
       in if pf_syntax e \<noteq> pf_syntax (ps_file other) then add_modification SYNTAX_ALTER result else result)"
  have unfold: "schema_compare depth os self other result = rbind (?run depth start) (\<lambda>ct. Inr (ct_result ct))" for depth
    by (simp only: schema_compare_def proto_file_compare_def self Let_def rbind_assoc start_def protobuf_schema.sel)
  have bound: "unlocked_count ?U [] < ?d"
    unfolding unlocked_count_def
    by (metis Diff_empty card_image_le card_length finite_set image_empty le_trans less_Suc_eq_le list.set(1))
  have known: "t \<in> set (pf_types e) \<Longrightarrow> t \<in> ?U" for t
    using sub_types_refl [of t] by (auto simp: self)
  have run: "same_run ?U [] (?run depth) (?run ?d)"
  proof (intro run.rel_seq run.rel_collect run.rel_type_lists)
    show "\<forall>(n, p)\<in>set ?sdeps. \<forall>t\<in>set (all_types p). if True then t \<in> ?U \<and> closed_types ?U else True"
      using all_types_closed [of self] by (fastforce simp: self split: option.splits)
    show "same_run ?U [] (type_compare depth os a b) (type_compare ?d os a b)"
      if "a \<in> ?U \<and> closed_types ?U" for a b
      using that bound assms by (intro type_compare_same_run) auto
  qed (use known all_types_closed in auto)
  have "run_inv ?U [] start"
    using all_types_closed [of self]
    by (simp add: start_def run_inv_def valid_in_def init_compare_types_def plain_types_def type_elements_def)
  with run show ?thesis
    by (cases rule: same_runE) (simp_all only: unfold rbind.simps sum.inject sum.distinct, auto)
qed

end
