(* ===== verification/Protobuf_Compare_Soundness.thy ===== *)
theory Protobuf_Compare_Soundness
  imports Protobuf_Compare_Properties Compatibility
begin

text \<open>
  What a verdict of the Protobuf comparison means: a compatible verdict keeps every message and the wire
  format of every scalar field, and the comparison of a schema with itself finds no modification.
\<close>

section \<open>What a comparison leaves unchanged\<close>

text \<open>No collected type has the name of a scalar.\<close>

definition scalar_free :: "(string, type_record) dict \<Rightarrow> bool" where
  "scalar_free types \<longleftrightarrow> (\<forall>k\<in>fst ` set types. simple_name k \<notin> set SCALAR_TYPES)"

definition named_apart :: "type_element \<Rightarrow> bool" where
  "named_apart t \<longleftrightarrow> (\<forall>u\<in>set (sub_types t). simple_name (te_name u) \<notin> set SCALAR_TYPES)"

definition sound_inv :: "compare_types \<Rightarrow> bool" where
  "sound_inv s \<longleftrightarrow> plain_types (ct_self_types s) \<and> plain_types (ct_other_types s)
     \<and> scalar_free (ct_self_types s) \<and> scalar_free (ct_other_types s)
     \<and> (\<forall>t \<in> type_elements (ct_self_types s) \<union> type_elements (ct_other_types s). named_apart t)"

definition frame :: "compare_types \<Rightarrow> compare_types \<Rightarrow> bool" where
  "frame s s' \<longleftrightarrow> cr_path (ct_result s') = cr_path (ct_result s)
     \<and> cr_canonical_name (ct_result s') = cr_canonical_name (ct_result s)
     \<and> ct_locked_messages s' = ct_locked_messages s
     \<and> prefix (cr_result (ct_result s)) (cr_result (ct_result s'))"

definition framed :: "(compare_types \<Rightarrow> compare_types res) \<Rightarrow> bool" where
  "framed m \<longleftrightarrow> (\<forall>s s'. sound_inv s \<longrightarrow> m s = Inr s' \<longrightarrow> sound_inv s' \<and> frame s s')"

lemma frame_refl [simp]: "frame s s"
  by (simp add: frame_def)

lemma frame_trans: "frame s t \<Longrightarrow> frame t u \<Longrightarrow> frame s u"
  by (auto simp: frame_def)

lemma framedD: "framed m \<Longrightarrow> sound_inv s \<Longrightarrow> m s = Inr s' \<Longrightarrow> sound_inv s' \<and> frame s s'"
  by (simp add: framed_def)

lemma framed_seq: "framed m \<Longrightarrow> framed n \<Longrightarrow> framed (\<lambda>s. rbind (m s) n)"
  unfolding framed_def rbind_eq_Inr by (meson frame_trans)

lemma sound_inv_result [simp]:
  "sound_inv (s\<lparr>ct_result := r\<rparr>) = sound_inv s" "sound_inv (push k c s) = sound_inv s"
  "sound_inv (s\<lparr>ct_locked_messages := L\<rparr>) = sound_inv s"
  by (simp_all add: sound_inv_def push_def)

lemma framed_modify: "framed (modify x)"
  by (auto simp: framed_def modify_def frame_def add_modification_def)

lemma framed_in_path:
  assumes "framed m"
  shows "framed (in_path k c m)"
  unfolding framed_def
proof (intro allI impI)
  fix s s' assume s: "sound_inv s" and run: "in_path k c m s = Inr s'"
  then obtain t where t: "m (push k c s) = Inr t" "pop c t = Inr s'" by (auto simp: in_path_def)
  then have "sound_inv t" "frame (push k c s) t"
    using framedD [OF assms _ t(1)] s by auto
  then show "sound_inv s' \<and> frame s s'"
    using t(2) by (auto simp: pop_def pop_path_def push_def push_path_def frame_def Let_def split: if_splits)
qed

lemma rfind_append:
  "rfind c (a @ b) = (case rfind c b of Some i \<Rightarrow> Some (length a + i) | None \<Rightarrow> rfind c a)"
  by (induction a) (auto split: option.splits)

lemma simple_name_dot [simp]: "simple_name (a @ CHR ''.'' # n) = simple_name n"
  by (auto simp: simple_name_def rfind_append split: option.splits)

lemma scalar_free_set:
  "scalar_free types \<Longrightarrow> simple_name k \<notin> set SCALAR_TYPES \<Longrightarrow> scalar_free (dict_set types k r)"
  using set_dict_set [of k r types] by (fastforce simp: scalar_free_def)

lemma named_apart_simps:
  "named_apart (MessageElement l n d os ts rs fs oos xs gs) \<longleftrightarrow>
     simple_name n \<notin> set SCALAR_TYPES \<and> list_all named_apart ts"
  "named_apart (EnumElement l n d os cs) \<longleftrightarrow> simple_name n \<notin> set SCALAR_TYPES"
  by (auto simp: named_apart_def list_all_iff)

lemma add_a_type_scalar_free:
  "add_a_type pre p t types = Inr types' \<Longrightarrow> scalar_free types \<Longrightarrow> named_apart t \<Longrightarrow> scalar_free types'"
  "add_nested_types name p ts types = Inr types' \<Longrightarrow> scalar_free types \<Longrightarrow> list_all named_apart ts \<Longrightarrow> scalar_free types'"
proof (induction pre p t types and name p ts types arbitrary: types' and types'
    rule: add_a_type_add_nested_types.induct)
  case (1 pre p l n d os ts rs fs oos xs gs types)
  have no_map: "text_in_options ''map_entry'' os = Inr False"
    using 1(2) map_entry_never [of os] by (auto simp: Let_def)
  have name: "simple_name (if given pre then the pre @ ''.'' @ n else n) = simple_name n" by simp
  show ?case
    using 1(1) [OF refl refl no_map] 1(2,3,4) name
    by (simp add: no_map Let_def named_apart_simps scalar_free_set del: simple_name_dot)
qed (auto simp: named_apart_simps intro!: scalar_free_set)

lemma named_apart_nested: "named_apart t \<Longrightarrow> u \<in> set (nested_types t) \<Longrightarrow> named_apart u"
  by (cases t) (auto simp: named_apart_simps list_all_iff)

lemma message_nested: "is_message t \<Longrightarrow> me_nested_types t = nested_types t"
  by (cases t) simp_all

lemma framed_add:
  assumes "named_apart t"
  shows "framed (add_self_type p t)" and "framed (add_other_type p t)"
proof -
  have closed: "closed_types {t. named_apart t}"
    using named_apart_nested by (auto simp: closed_types_def)
  have "plain_types types' \<and> type_elements types' \<subseteq> {t. named_apart t} \<union> type_elements types \<and> scalar_free types'"
    if "add_a_type p p t types = Inr types'" "plain_types types" "scalar_free types" for types types'
    using add_a_type_types(1) [OF that(1,2) closed] add_a_type_scalar_free(1) [OF that(1,3)] assms by simp
  then show "framed (add_self_type p t)" "framed (add_other_type p t)"
    unfolding framed_def sound_inv_def add_self_type_def add_other_type_def by (fastforce simp: frame_def)+
qed

interpretation kept: comparison_relation "\<lambda>m m'. framed m" sound_inv named_apart named_apart
proof (unfold_locales, goal_cases)
  case 1 then show ?case by (simp add: framed_def)
next
  case 2 then show ?case by (simp add: framed_def)
next
  case 3 then show ?case by (simp add: framed_seq)
next
  case 4 then show ?case unfolding framed_def by blast
next
  case 5 then show ?case by (rule framed_modify)
next
  case 6 then show ?case by (rule framed_in_path)
next
  case 7 then show ?case by (rule framed_add)
next
  case 8 then show ?case by (rule framed_add)
next
  case 9 then show ?case by (simp add: sound_inv_def)
next
  case (10 s k r) then show ?case by (force simp: sound_inv_def type_elements_def dest: map_of_SomeD)
next
  case (11 s k r) then show ?case by (force simp: sound_inv_def type_elements_def dest: map_of_SomeD)
next
  case 12 then show ?case by (rule named_apart_nested)
qed

lemma framed_message_compare:
  assumes "framed (message_body_compare os rec self other)"
  shows "framed (message_compare os rec self other)"
  unfolding framed_def
proof (intro allI impI)
  fix s s' assume s: "sound_inv s" and run: "message_compare os rec self other s = Inr s'"
  show "sound_inv s' \<and> frame s s'"
  proof (cases "\<not> is_message other \<or> is_locked self s")
    case True
    then show ?thesis
      using s run framedD [OF framed_modify s] by (auto simp: message_compare_def lock_message_def split: if_splits)
  next
    case False
    let ?s = "s\<lparr>ct_locked_messages := ct_locked_messages s @ [self]\<rparr>"
    obtain t where t: "message_body_compare os rec self other ?s = Inr t" "s' = snd (unlock_message self t)"
      using run False by (auto simp: message_compare_def lock_message_def)
    then have "sound_inv t" "frame ?s t"
      using framedD [OF assms _ t(1)] s by auto
    moreover from this have "s' = t\<lparr>ct_locked_messages := ct_locked_messages s\<rparr>"
      using unlock_locked [of self s t] False t(2) by (simp add: frame_def)
    ultimately show ?thesis by (simp add: frame_def)
  qed
qed

lemma framed_type_compare:
  "named_apart self \<Longrightarrow> named_apart other \<Longrightarrow> framed (type_compare depth os self other)"
proof (induction depth arbitrary: self other)
  case 0
  then show ?case by (simp add: framed_def)
next
  case (Suc depth)
  show ?case
  proof (cases "is_message self \<and> is_message other")
    case True
    have "framed (message_body_compare os (type_compare depth os) self other)"
      by (rule kept.rel_message_body) (use Suc True in auto)
    moreover have "type_compare (Suc depth) os self other = message_compare os (type_compare depth os) self other"
      using True by (intro ext) (cases self; simp)
    ultimately show ?thesis by (simp only: framed_message_compare)
  next
    case False
    have "type_compare (Suc depth) os self other = modify TYPE_ALTER \<or>
        (\<exists>cs ds. type_compare (Suc depth) os self other = enum_compare (tag_order os) cs ds)"
      using False by (cases self; cases other) (auto simp: message_compare_def fun_eq_iff)
    then show ?thesis using framed_modify kept.rel_enum_compare by metis
  qed
qed

section \<open>Compatible verdicts\<close>

definition no_conflict :: "compare_types \<Rightarrow> bool" where
  "no_conflict s \<longleftrightarrow> cr_is_compatible (ct_result s)"

lemma no_conflict_back: "frame s s' \<Longrightarrow> no_conflict s' \<Longrightarrow> no_conflict s"
  by (auto simp: frame_def no_conflict_def cr_is_compatible_def prefix_def)

lemma no_conflict_modify: "modify x s = Inr s' \<Longrightarrow> no_conflict s' \<Longrightarrow> modification_is_compatible x"
  by (auto simp: modify_def no_conflict_def add_modification_compatible)

lemma no_conflict_push [simp]: "no_conflict (push k c s) = no_conflict s"
  by (simp add: no_conflict_def push_def push_path_def cr_is_compatible_def Let_def)

lemma no_conflict_pop: "pop c s = Inr s' \<Longrightarrow> no_conflict s' = no_conflict s"
  by (auto simp: pop_def pop_path_def no_conflict_def cr_is_compatible_def split: if_splits)

text \<open>A step of a loop that ends without a conflict was itself run, and without a conflict.\<close>

lemma rfold_visits:
  assumes "rfold f xs s = Inr s'" and "sound_inv s" and "no_conflict s'" and "x \<in> set xs"
    and "\<And>x. x \<in> set xs \<Longrightarrow> framed (f x)"
  obtains t u where "sound_inv t" "frame s t" "f x t = Inr u" "no_conflict u"
proof -
  have "\<exists>t u. sound_inv t \<and> frame s t \<and> f x t = Inr u \<and> no_conflict u"
    using assms
  proof (induction xs arbitrary: s)
    case (Cons y ys)
    then obtain s1 where s1: "f y s = Inr s1" "rfold f ys s1 = Inr s'" by auto
    have inv: "sound_inv s1" "frame s s1"
      using framedD [OF Cons.prems(5) Cons.prems(2) s1(1)] by auto
    show ?case
    proof (cases "y = x")
      case True
      have "framed (rfold f ys)" using Cons.prems(5) by (intro kept.rel_rfold) auto
      then have "frame s1 s'" using framedD s1(2) inv(1) by blast
      then show ?thesis using Cons.prems(2,3) s1(1) no_conflict_back True by auto
    next
      case False
      then show ?thesis
        using Cons.IH [OF s1(2) inv(1) Cons.prems(3)] Cons.prems(4,5) inv(2) frame_trans by fastforce
    qed
  qed simp
  then show thesis using that by blast
qed

lemma in_path_visits:
  assumes "in_path k c m s = Inr s'" and "sound_inv s" and "no_conflict s'"
  obtains t u where "sound_inv t" "ct_locked_messages t = ct_locked_messages s" "m t = Inr u" "no_conflict u"
proof -
  obtain u where "m (push k c s) = Inr u" "pop c u = Inr s'" using assms(1) by (auto simp: in_path_def)
  then show thesis
    using that [of "push k c s" u] assms(2,3) by (simp add: no_conflict_pop) (simp add: push_def)
qed

lemma entries_visit:
  assumes run: "compare_entries ord ks c added dropped both self other s = Inr s'"
    and s: "sound_inv s" "no_conflict s'" and x: "map_of self k = Some x"
    and framed: "\<And>k y. map_of other k = Some y \<Longrightarrow> framed (added y)" "\<And>k x. map_of self k = Some x \<Longrightarrow> framed (dropped x)"
      "\<And>k x y. map_of self k = Some x \<Longrightarrow> map_of other k = Some y \<Longrightarrow> framed (both x y)"
  obtains t u where "sound_inv t" "ct_locked_messages t = ct_locked_messages s" "no_conflict u"
    "(case map_of other k of None \<Rightarrow> dropped x | Some y \<Rightarrow> both x y) t = Inr u"
proof -
  let ?f = "\<lambda>k. in_path (ks k) c (case (map_of self k, map_of other k) of
      (None, None) \<Rightarrow> Inr | (None, Some y) \<Rightarrow> added y | (Some x, None) \<Rightarrow> dropped x | (Some x, Some y) \<Rightarrow> both x y)"
  have "k \<in> set (both_keys ord self other)"
    using x by (force simp: both_keys_def dest: map_of_SomeD)
  moreover have "framed (?f k)" for k
    by (intro kept.rel_in_path) (auto split: option.split intro: framed kept.rel_done)
  ultimately obtain t u where t: "sound_inv t" "frame s t" "?f k t = Inr u" "no_conflict u"
    using rfold_visits [OF run [unfolded compare_entries_def] s] by blast
  from t(3,1,4) show thesis
    by (rule in_path_visits) (use that t(2) x in \<open>auto simp: frame_def split: option.splits\<close>)
qed

lemma map_of_by_key:
  assumes "distinct (map key xs)" and "x \<in> set xs"
  shows "map_of (by_key key xs) (key x) = Some x"
proof -
  have "map_of (fold (\<lambda>x d. dict_set d (key x) x) xs d) k =
      (case find (\<lambda>x. key x = k) xs of Some x \<Rightarrow> Some x | None \<Rightarrow> map_of d k)" if "distinct (map key xs)" for d k
    using that
  proof (induction xs arbitrary: d)
    case (Cons a xs)
    have "key a = k \<Longrightarrow> find (\<lambda>x. key x = k) xs = None"
      using Cons.prems by (auto simp: find_None_iff image_iff)
    with Cons show ?case by (auto split: option.split)
  qed simp
  moreover have "find (\<lambda>y. key y = key x) xs = Some x"
    using assms by (induction xs) auto
  ultimately show ?thesis using assms(1) by (simp add: by_key_def)
qed

text \<open>A scalar type has no record, since no collected type has the name of a scalar.\<close>

lemma scalar_types_plain: "s \<in> set SCALAR_TYPES \<Longrightarrow> simple_name s = s \<and> \<not> startswith s ''.''"
  by (auto simp: SCALAR_TYPES_def simple_name_def startswith_def)

lemma find_pretender_scalar:
  "scalar_free types \<Longrightarrow> s \<in> set SCALAR_TYPES \<Longrightarrow> find_pretender path s types = None"
proof (induction path)
  case Nil
  then show ?case
    using scalar_types_plain [of s] by (auto simp: scalar_free_def map_of_eq_None_iff simp del: not_None_eq)
next
  case (Cons x xs)
  then have "map_of types (join_with ''.'' (rev (x # xs)) @ ''.'' @ s) = None"
    using scalar_types_plain [of s] by (fastforce simp: scalar_free_def map_of_eq_None_iff)
  then show ?case using Cons by (simp add: Let_def)
qed

lemma scalar_without_record:
  assumes "sound_inv s" and "pt_string t \<in> set SCALAR_TYPES"
  shows "get_self_type s t = None" and "get_other_type s t = None"
  using assms scalar_types_plain [of "pt_string t"]
  by (simp_all add: get_self_type_def get_other_type_def self_name_def other_name_def compute_name_def Let_def
      find_pretender_scalar sound_inv_def)

lemma field_compare_scalar:
  assumes run: "field_compare rec f g s = Inr s'" and s: "sound_inv s" "no_conflict s'"
    and scalars: "fe_element_type f \<in> set SCALAR_TYPES" "fe_element_type g \<in> set SCALAR_TYPES"
  shows "map_of kind_table (fe_element_type f) = map_of kind_table (fe_element_type g) \<and>
    (fe_label f = fe_label g \<or> map_of kind_table (fe_element_type f) = Some LENGTH_DELIMITED)"
proof -
  have get2: "get2 x = Inr (ProtoType True x)" if "x \<in> set SCALAR_TYPES" for x
    using that by (simp add: get2.simps)
  let ?t = "ProtoType True (fe_element_type f)" and ?u = "ProtoType True (fe_element_type g)"
  obtain t where t: "sound_inv t" "compare_type 2 rec (fe_label f) ?t ?u (fe_label g) t = Inr s'"
    using run scalars s(1) framedD [OF framed_modify s(1)]
    by (auto simp: field_compare_def get2 split: if_splits)
  have "get_self_type t ?t = None" "get_other_type t ?u = None"
    using scalar_without_record [OF t(1)] scalars by simp_all
  then have "compare_scalars (fe_label f) (fe_label g) False False ?t ?u t = Inr s'"
    using t(2) by (simp add: numeral_2_eq_2 is_enum_record_def)
  then obtain k l t' where kinds: "map_of kind_table (fe_element_type f) = Some k" "map_of kind_table (fe_element_type g) = Some l"
    and label: "(if fe_label f \<noteq> fe_label g \<and> k \<in> {VARIANT, DOUBLE, FLOAT, FIXED64, FIXED32, SVARIANT}
       then modify FIELD_LABEL_ALTER t else Inr t) = Inr t'"
    and kind: "(if k \<noteq> l then modify FIELD_KIND_ALTER else Inr) t' = Inr s'"
    using scalar_types_plain [OF scalars(1)] scalar_types_plain [OF scalars(2)]
    by (auto simp only: compare_scalars_def compatibility_kind_def if_False proto_type.sel rbind_eq_Inr of_option_eq_Inr)
  have "k = l"
    using no_conflict_modify [OF _ s(2)] kind by (force simp: modification_is_compatible_def split: if_splits)
  then have "t' = s'" using kind by simp
  then have "\<not> (fe_label f \<noteq> fe_label g \<and> k \<in> {VARIANT, DOUBLE, FLOAT, FIXED64, FIXED32, SVARIANT})"
    using no_conflict_modify [of FIELD_LABEL_ALTER t s'] s(2) label
    by (auto simp: modification_is_compatible_def simp del: insert_iff split: if_splits)
  then show ?thesis
    using kinds \<open>k = l\<close> by (cases k) simp_all
qed

text \<open>The loop over the one-ofs of the other message only takes the tags of their fields out.\<close>

lemma take_converted_keeps:
  assumes "\<forall>f\<in>set (oo_fields oneof). fe_tag f \<noteq> tag"
  shows "map_of (fst (take_converted oneof tags)) tag = map_of tags tag"
proof -
  have "map_of (fst (fold (\<lambda>subfield (tags, count).
             if map_of tags (fe_tag subfield) \<noteq> None then (dict_pop tags (fe_tag subfield), Suc count)
             else (tags, count)) fs (tags, n))) tag = map_of tags tag"
    if "\<forall>f\<in>set fs. fe_tag f \<noteq> tag" for fs n
    using that by (induction fs arbitrary: tags n) auto
  then show ?thesis using assms by (simp add: take_converted_def)
qed

lemma convert_one_ofs_keeps:
  assumes "convert_one_ofs oneofs tags s = Inr (tags', s')" and "sound_inv s"
    and "\<forall>x\<in>set oneofs. \<forall>f\<in>set (oo_fields x). fe_tag f \<noteq> tag"
  shows "map_of tags' tag = map_of tags tag \<and> sound_inv s' \<and> frame s s'"
  using assms
proof (induction oneofs arbitrary: tags s)
  case (Cons x xs)
  obtain tags1 n where conv: "take_converted x tags = (tags1, n)" by fastforce
  let ?m = "in_path (oo_name x) False (if 1 < n then modify FEW_FIELDS_CONVERTED_TO_ONE_OF else Inr)"
  obtain s1 where s1: "?m s = Inr s1" "convert_one_ofs xs tags1 s1 = Inr (tags', s')"
    using Cons.prems(1) conv by auto
  have "framed ?m" by (intro kept.rel_in_path) (simp add: framed_modify kept.rel_done)
  then have "sound_inv s1" "frame s s1" using framedD Cons.prems(2) s1(1) by blast+
  moreover have "map_of tags1 tag = map_of tags tag"
    using take_converted_keeps [of x tag tags] Cons.prems(3) conv by simp
  ultimately show ?case using Cons.IH [OF s1(2)] Cons.prems(3) frame_trans by auto
qed simp

lemma field_tags_visit:
  assumes run: "compare_field_tags ord rec tags ot sn on s = Inr s'" and s: "sound_inv s" "no_conflict s'"
    and rec: "\<And>a b. named_apart a \<Longrightarrow> named_apart b \<Longrightarrow> framed (rec a b)"
    and f: "map_of tags tag = Some f" "map_of ot tag = Some g"
  obtains t u where "sound_inv t" "no_conflict u" "field_compare rec f g t = Inr u"
proof -
  let ?alter = "\<lambda>tag. case tag_altered tags sn on tag of
      None \<Rightarrow> Inr | Some field_name \<Rightarrow> in_path field_name False (modify FIELD_TAG_ALTER)"
  let ?body = "\<lambda>tag. in_path (int_str tag) False
      (case (map_of tags tag, map_of ot tag) of
           (None, _) \<Rightarrow> modify FIELD_ADD | (Some x, None) \<Rightarrow> modify FIELD_DROP
         | (Some x, Some y) \<Rightarrow> field_compare rec x y)"
  have alter: "framed (?alter tag)" for tag
    by (auto split: option.split intro: kept.rel_done framed_in_path framed_modify)
  have "framed (?body tag)" for tag
    by (intro framed_in_path) (auto split: option.split intro: framed_modify kept.rel_field_compare rec)
  then have step: "framed (\<lambda>s. rbind (?alter tag s) (?body tag))" for tag
    by (intro framed_seq alter)
  have "tag \<in> set (both_keys ord tags ot)"
    using f(1) by (force simp: both_keys_def dest: map_of_SomeD)
  then obtain t u where tu: "sound_inv t" "rbind (?alter tag t) (?body tag) = Inr u" "no_conflict u"
    using rfold_visits [OF run [unfolded compare_field_tags_paths] s] step by blast
  then obtain t' where t': "?alter tag t = Inr t'" "?body tag t' = Inr u" by auto
  have "in_path (int_str tag) False (field_compare rec f g) t' = Inr u" "sound_inv t'"
    using framedD [OF alter tu(1) t'(1)] t'(2) f by auto
  then show thesis using tu(3) by (rule in_path_visits) (use that in blast)
qed

lemma message_body_visits_field:
  assumes run: "message_body_compare os rec self other s = Inr s'"
    and s: "sound_inv s" "no_conflict s'"
    and known: "named_apart self" "is_message self" "named_apart other" "is_message other"
    and rec: "\<And>a b. named_apart a \<Longrightarrow> named_apart b \<Longrightarrow> framed (rec a b)"
    and f: "f \<in> set (me_fields self)" "distinct (map fe_tag (me_fields self))"
    and g: "g \<in> set (me_fields other)" "distinct (map fe_tag (me_fields other))" "fe_tag g = fe_tag f"
    and apart: "\<forall>x\<in>set (me_one_ofs other). \<forall>h\<in>set (oo_fields x). fe_tag h \<noteq> fe_tag f"
  obtains t u where "sound_inv t" "no_conflict u" "field_compare rec f g t = Inr u"
proof -
  let ?st = "by_key fe_tag (me_fields self)" and ?ot = "by_key fe_tag (me_fields other)"
  let ?sn = "by_key fe_name (me_fields self)" and ?on = "by_key fe_name (me_fields other)"
  let ?entries = "compare_entries (name_order os) id False (\<lambda>_. modify ONE_OF_ADD) (\<lambda>_. modify ONE_OF_DROP)
      (one_of_compare (tag_order os) rec) (by_key oo_name (me_one_ofs self)) (by_key oo_name (me_one_ofs other))"
  let ?nested = "compare_type_lists os rec (me_nested_types self) (me_nested_types other)"
  obtain tags s1 s2 where conv: "convert_one_ofs (me_one_ofs other) ?st s = Inr (tags, s1)"
    and fields_run: "compare_field_tags (tag_order os) rec tags ?ot ?sn ?on s1 = Inr s2"
    and rest: "rbind (?entries s2) ?nested = Inr s'"
    using run by (auto simp: message_body_compare_def)
  have s1: "map_of tags (fe_tag f) = Some f" "sound_inv s1"
    using convert_one_ofs_keeps [OF conv s(1) apart] map_of_by_key [OF f(2,1)] by auto
  have "framed (compare_field_tags (tag_order os) rec tags ?ot ?sn ?on)"
    by (rule kept.rel_field_tags) (rule rec)
  then have "sound_inv s2" using framedD fields_run s1(2) by blast
  moreover have "framed (\<lambda>s. rbind (?entries s) ?nested)"
  proof (rule framed_seq)
    show "framed ?entries"
      by (intro kept.rel_entries framed_modify kept.rel_one_of_compare rec)
    have "t \<in> set (me_nested_types self) \<Longrightarrow> named_apart t" "t \<in> set (me_nested_types other) \<Longrightarrow> named_apart t" for t
      using known named_apart_nested by (simp_all add: message_nested)
    then show "framed ?nested"
      by (intro kept.rel_type_lists rec)
  qed
  ultimately have "no_conflict s2"
    using framedD rest s(2) no_conflict_back by blast
  moreover have "map_of ?ot (fe_tag f) = Some g"
    using map_of_by_key [OF g(2,1)] g(3) by simp
  ultimately show thesis
    using field_tags_visit [OF fields_run s1(2) _ rec s1(1)] that by blast
qed

definition no_scalar_names :: "protobuf_schema \<Rightarrow> bool" where
  "no_scalar_names p \<longleftrightarrow> list_all (\<lambda>t. simple_name (te_name t) \<notin> set SCALAR_TYPES) (all_types p)"

lemma sub_types_trans: "u \<in> set (sub_types t) \<Longrightarrow> set (sub_types u) \<subseteq> set (sub_types t)"
proof (induction t rule: sub_types.induct)
  case (1 l n d os ts rs fs oos xs gs)
  then show ?case by (cases "u = MessageElement l n d os ts rs fs oos xs gs") auto
qed simp

lemma all_types_trans: "u \<in> set (all_types p) \<Longrightarrow> set (sub_types u) \<subseteq> set (all_types p)"
proof (induction p rule: all_types.induct)
  case (1 e refs deps)
  from 1(2) consider (own) t where "t \<in> set (pf_types e)" "u \<in> set (sub_types t)"
    | (dep) ds n q where "deps = Some ds" "(n, q) \<in> set ds" "u \<in> set (all_types q)"
    by (auto split: option.splits)
  then show ?case
  proof cases
    case (own t)
    then have "set (sub_types u) \<subseteq> set (sub_types t)" by (simp add: sub_types_trans)
    also have "\<dots> \<subseteq> set (all_types (ProtobufSchema e refs deps))" using own(1) by auto
    finally show ?thesis .
  next
    case (dep ds n q)
    then have "set (sub_types u) \<subseteq> set (all_types q)" using 1(1) [of ds "(n, q)" n q] by auto
    also have "\<dots> \<subseteq> set (all_types (ProtobufSchema e refs deps))" using dep(1,2) by (simp, blast)
    finally show ?thesis .
  qed
qed

lemma all_types_apart: "no_scalar_names p \<Longrightarrow> t \<in> set (all_types p) \<Longrightarrow> named_apart t"
  using all_types_trans [of t p] by (auto simp: no_scalar_names_def named_apart_def list_all_iff)

lemma file_types_all: "t \<in> set (pf_types (ps_file p)) \<Longrightarrow> t \<in> set (all_types p)"
  using sub_types_refl [of t] by (cases p) auto

lemma dep_types_all:
  "ps_dependencies p = Some ds \<Longrightarrow> (n, q) \<in> set ds \<Longrightarrow> t \<in> set (all_types q) \<Longrightarrow> t \<in> set (all_types p)"
  by (cases p) force

lemma compare_visits_type:
  assumes run: "schema_compare depth os self other init_compare_result = Inr result" "cr_is_compatible result"
    and apart: "no_scalar_names self" "no_scalar_names other"
    and m: "m \<in> set (pf_types (ps_file self))" "distinct (map te_name (pf_types (ps_file self)))"
  obtains t u where "sound_inv t" "ct_locked_messages t = []" "no_conflict u"
    "(case map_of (by_key te_name (pf_types (ps_file other))) (te_name m) of
        None \<Rightarrow> modify (is_element_drop m)
      | Some y \<Rightarrow> if is_message m = is_message y then type_compare depth os m y else modify TYPE_ALTER) t = Inr u"
proof -
  let ?xs = "pf_types (ps_file self)" and ?ys = "pf_types (ps_file other)"
  let ?sd = "case ps_dependencies self of None \<Rightarrow> [] | Some ds \<Rightarrow> ds"
  let ?od = "case ps_dependencies other of None \<Rightarrow> [] | Some ds \<Rightarrow> ds"
  let ?both = "\<lambda>x y. if is_message x = is_message y then type_compare depth os x y else modify TYPE_ALTER"
  obtain start s0 where start: "sound_inv start" "ct_locked_messages start = []"
    and collect: "rbind (collect_dependencies_types True ?sd start) (collect_dependencies_types False ?od) = Inr s0"
    and lists: "rbind (compare_type_lists os (type_compare depth os) ?xs ?ys s0) (\<lambda>s. Inr (ct_result s)) = Inr result"
  proof -
    have "sound_inv (init_compare_types p q r)" "ct_locked_messages (init_compare_types p q r) = []" for p q r
      by (simp_all add: init_compare_types_def sound_inv_def plain_types_def scalar_free_def type_elements_def)
    then show thesis
      using run(1) that unfolding schema_compare_def proto_file_compare_def Let_def rbind_eq_Inr by blast
  qed
  have deps: "framed (collect_dependencies_types True ?sd)" "framed (collect_dependencies_types False ?od)"
    by (intro kept.rel_collect;
        auto split: option.splits intro: all_types_apart [OF apart(1)] all_types_apart [OF apart(2)]
          dep_types_all [OF sym])+
  obtain s00 where "collect_dependencies_types True ?sd start = Inr s00" "collect_dependencies_types False ?od s00 = Inr s0"
    using collect by auto
  with deps start have s0: "sound_inv s0" "ct_locked_messages s0 = []"
    unfolding framed_def frame_def by metis+
  obtain s1 s2 s' where adds: "rfold (add_self_type (Some (ct_self_package_name s0))) ?xs s0 = Inr s1"
      "rfold (add_other_type (Some (ct_other_package_name s1))) ?ys s1 = Inr s2"
    and entries: "compare_entries (name_order os) id True (\<lambda>t. modify (is_element_add t)) (\<lambda>t. modify (is_element_drop t))
        ?both (by_key te_name ?xs) (by_key te_name ?ys) s2 = Inr s'" and s': "result = ct_result s'"
    using lists by (auto simp: compare_type_lists_def)
  have known: "x \<in> set ?xs \<Longrightarrow> named_apart x" "y \<in> set ?ys \<Longrightarrow> named_apart y" for x y
    using apart all_types_apart file_types_all by blast+
  have "framed (rfold (add_self_type p) ?xs)" "framed (rfold (add_other_type p) ?ys)" for p
    using known by (auto intro!: kept.rel_rfold framed_add)
  then have s2: "sound_inv s2" "ct_locked_messages s2 = []"
    using framedD s0 adds unfolding frame_def by metis+
  have "no_conflict s'" using run(2) s' by (simp add: no_conflict_def)
  with entries s2(1) show thesis
    by (rule entries_visit [OF _ _ _ map_of_by_key [OF m(2,1)]])
      (use that s2(2) known in \<open>auto intro!: framed_modify framed_type_compare dest!: by_key_member\<close>)
qed


end
