(* ===== verification/Protobuf_Self_Compare.thy ===== *)
theory Protobuf_Self_Compare
  imports Protobuf_Compare_Soundness
begin

text \<open>
  The comparison of a Protobuf schema with itself finds nothing to report. The proof follows the
  comparison with the invariant that the two dictionaries of collected types are the same.
\<close>

section \<open>Well-formed schemas\<close>

text \<open>Map fields have no label, and a tag is not used both for a field and in a one-of of the message.\<close>

definition wf_field :: "field_element \<Rightarrow> bool" where
  "wf_field f \<longleftrightarrow> fe_label f = None \<or> \<not> startswith (fe_element_type f) ''map<''"

fun wf_message :: "type_element \<Rightarrow> bool" where
  "wf_message (MessageElement l n d os ts rs fs oos xs gs) \<longleftrightarrow>
     list_all wf_field fs \<and> list_all (\<lambda>x. list_all wf_field (oo_fields x)) oos \<and>
     list_all (\<lambda>x. list_all (\<lambda>h. fe_tag h \<notin> fe_tag ` set fs) (oo_fields x)) oos"
| "wf_message (EnumElement l n d os cs) \<longleftrightarrow> True"

definition wf_type :: "type_element \<Rightarrow> bool" where
  "wf_type t \<longleftrightarrow> list_all wf_message (sub_types t)"

lemma wf_type_nested: "wf_type t \<Longrightarrow> u \<in> set (nested_types t) \<Longrightarrow> wf_type u"
  by (cases t) (auto simp: wf_type_def list_all_iff)

lemma wf_types_closed: "closed_types {t. wf_type t}"
  using wf_type_nested by (auto simp: closed_types_def)

section \<open>Silent steps\<close>

definition mirror :: "compare_types \<Rightarrow> bool" where
  "mirror s \<longleftrightarrow> ct_self_types s = ct_other_types s \<and> ct_self_package_name s = ct_other_package_name s
     \<and> plain_types (ct_self_types s) \<and> type_elements (ct_self_types s) \<subseteq> {t. wf_type t}"

definition silent :: "(compare_types \<Rightarrow> compare_types res) \<Rightarrow> bool" where
  "silent m \<longleftrightarrow> (\<forall>s s'. mirror s \<longrightarrow> m s = Inr s' \<longrightarrow> mirror s' \<and> cr_result (ct_result s') = cr_result (ct_result s))"

lemma silentD:
  "silent m \<Longrightarrow> mirror s \<Longrightarrow> m s = Inr s' \<Longrightarrow> mirror s' \<and> cr_result (ct_result s') = cr_result (ct_result s)"
  by (simp add: silent_def)

lemma silent_done [simp]: "silent Inr"
  by (simp add: silent_def)

lemma silent_fail [simp]: "silent (\<lambda>s. Inl x)"
  by (simp add: silent_def)

lemma silent_seq: "silent m \<Longrightarrow> silent n \<Longrightarrow> silent (\<lambda>s. rbind (m s) n)"
  unfolding silent_def rbind_eq_Inr by (metis (no_types, lifting))

lemma silent_read: "(\<And>s. mirror s \<Longrightarrow> silent (g s)) \<Longrightarrow> silent (\<lambda>s. g s s)"
  unfolding silent_def by blast

lemma silent_rfold: "(\<And>x. x \<in> set xs \<Longrightarrow> silent (f x)) \<Longrightarrow> silent (rfold f xs)"
proof (induction xs)
  case Nil
  have "rfold f [] = Inr" by (rule ext) simp
  then show ?case by simp
next
  case (Cons x xs)
  have "rfold f (x # xs) = (\<lambda>s. rbind (f x s) (rfold f xs))" by (rule ext) simp
  then show ?case using Cons by (simp add: silent_seq)
qed

lemma mirror_result [simp]: "mirror (s\<lparr>ct_result := r\<rparr>) = mirror s" "mirror (push k c s) = mirror s"
    "mirror (s\<lparr>ct_locked_messages := L\<rparr>) = mirror s"
  by (simp_all add: mirror_def push_def)

lemma silent_in_path:
  assumes "silent m"
  shows "silent (in_path k c m)"
  unfolding silent_def
proof (intro allI impI)
  fix s s' assume s: "mirror s" and "in_path k c m s = Inr s'"
  then obtain t where t: "m (push k c s) = Inr t" "pop c t = Inr s'" by (auto simp: in_path_def)
  have "mirror t" "cr_result (ct_result t) = cr_result (ct_result (push k c s))"
    using assms s t(1) unfolding silent_def by (metis mirror_result(2))+
  moreover have "cr_result (ct_result (push k c s)) = cr_result (ct_result s)"
    by (simp add: push_def push_path_def Let_def)
  moreover have "cr_result (ct_result s') = cr_result (ct_result t)" "mirror s' = mirror t"
    using t(2) by (auto simp: pop_def pop_path_def split: if_splits)
  ultimately show "mirror s' \<and> cr_result (ct_result s') = cr_result (ct_result s)" by simp
qed

section \<open>Fields\<close>

lemma silent_scalars: "silent (compare_scalars l l b b t t)"
  by (auto simp: silent_def compare_scalars_def)

lemma mirror_types:
  assumes "mirror s"
  shows "get_other_type s t = get_self_type s t" "other_type_short_name s t = self_type_short_name s t"
    "record_type (get_self_type s t) x = Inr x"
proof -
  show same: "get_other_type s t = get_self_type s t" "other_type_short_name s t = self_type_short_name s t"
    using assms by (simp_all add: mirror_def get_other_type_def get_self_type_def other_name_def self_name_def
        other_type_short_name_def self_type_short_name_def)
  have "get_self_type s t = Some r \<Longrightarrow> \<exists>p e. r = TypeRecord p e" for r
    using assms by (fastforce simp: mirror_def plain_types_def get_self_type_def bind_eq_Some_conv dest: map_of_SomeD)
  then show "record_type (get_self_type s t) x = Inr x"
    by (cases "get_self_type s t") fastforce+
qed

lemma mirror_element:
  "mirror s \<Longrightarrow> get_self_type s t = Some r \<Longrightarrow> wf_type (tr_type_element r)"
  by (force simp: mirror_def type_elements_def get_self_type_def bind_eq_Some_conv dest: map_of_SomeD)

lemma silent_message:
  assumes "\<And>e. wf_type e \<Longrightarrow> silent (rec e e)"
  shows "silent (compare_message rec t t)"
  unfolding silent_def
proof (intro allI impI)
  fix s s' assume s: "mirror s" and run: "compare_message rec t t s = Inr s'"
  show "mirror s' \<and> cr_result (ct_result s') = cr_result (ct_result s)"
  proof (cases "get_self_type s t")
    case None
    then show ?thesis using run s by (simp add: compare_message_def mirror_types [OF s])
  next
    case (Some r)
    then have "rec (tr_type_element r) (tr_type_element r) s = Inr s'"
      using run by (auto simp: compare_message_def mirror_types [OF s])
    then show ?thesis
      using assms [OF mirror_element [OF s Some]] s unfolding silent_def by blast
  qed
qed

lemma silent_type:
  assumes rec: "\<And>e. wf_type e \<Longrightarrow> silent (rec e e)"
  shows "pt_is_map t \<Longrightarrow> l = None \<Longrightarrow> silent (compare_type d rec l t t l)"
    and "silent (compare_type d rec None t t None)"
    and "\<not> pt_is_map t \<Longrightarrow> silent (compare_type d rec l t t l)"
proof -
  have step: "silent (compare_type (Suc d) rec l t t l)"
    if maps: "pt_is_map t \<Longrightarrow> l = None \<and> silent (compare_type d rec None (pt_key t) (pt_key t) None)
        \<and> silent (compare_type d rec None (pt_value t) (pt_value t) None)" for d l t
    unfolding silent_def
  proof (intro allI impI)
    fix s s' assume s: "mirror s" and run: "compare_type (Suc d) rec l t t l s = Inr s'"
    let ?enum = "is_enum_record (get_self_type s t)"
    have run': "(if pt_is_map t
        then rbind (compare_type d rec l (pt_key t) (pt_key t) None s) (compare_type d rec l (pt_value t) (pt_value t) None)
        else if pt_is_scalar t \<or> ?enum then compare_scalars l l ?enum ?enum t t s
        else compare_message rec t t s) = Inr s'"
      using run by (simp add: mirror_types [OF s] Let_def compare_map_def cong: if_cong)
    show "mirror s' \<and> cr_result (ct_result s') = cr_result (ct_result s)"
    proof (cases "pt_is_map t")
      case True
      have "rbind (compare_type d rec None (pt_key t) (pt_key t) None s) (compare_type d rec None (pt_value t) (pt_value t) None) = Inr s'"
        using run' True maps [OF True] by simp
      then show ?thesis
        using maps [OF True] by (elim silentD [OF silent_seq s, rotated 2]) simp_all
    next
      case False
      have "silent (compare_message rec t t)" by (rule silent_message) (rule rec)
      then show ?thesis
        using run' False silentD [OF silent_scalars s] silentD [OF _ s] by (auto split: if_splits)
    qed
  qed
  have none: "silent (compare_type d rec None t t None)" for d t
  proof (induction d arbitrary: t)
    case 0
    then show ?case by (simp add: silent_def)
  next
    case (Suc d)
    then show ?case by (intro step) simp
  qed
  then show "silent (compare_type d rec None t t None)" "pt_is_map t \<Longrightarrow> l = None \<Longrightarrow> silent (compare_type d rec l t t l)"
    by simp_all
  show "\<not> pt_is_map t \<Longrightarrow> silent (compare_type d rec l t t l)"
    by (cases d) (simp add: silent_def, auto intro!: step simp del: compare_type.simps)
qed

lemma get2_map_text: "get2 x = Inr t \<Longrightarrow> pt_is_map t \<Longrightarrow> startswith x ''map<''"
  by (auto simp: get2.simps [of x] split: if_splits)

lemma silent_field:
  assumes rec: "\<And>e. wf_type e \<Longrightarrow> silent (rec e e)" and f: "wf_field f"
  shows "silent (field_compare rec f f)"
proof (cases "get2 (fe_element_type f)")
  case (Inl x)
  then show ?thesis by (simp add: silent_def field_compare_def)
next
  case (Inr t)
  have "silent (compare_type 2 rec (fe_label f) t t (fe_label f))"
  proof (cases "pt_is_map t")
    case True
    then have "fe_label f = None" using f get2_map_text [OF Inr] by (simp add: wf_field_def)
    then show ?thesis using silent_type(2) rec by simp
  next
    case False
    then show ?thesis using silent_type(3) rec by simp
  qed
  moreover have "field_compare rec f f = compare_type 2 rec (fe_label f) t t (fe_label f)"
    by (rule ext) (simp add: field_compare_def Inr)
  ultimately show ?thesis by simp
qed

lemma silent_entries:
  assumes "ord [] = []" and "\<And>k x. map_of d k = Some x \<Longrightarrow> silent (both x x)"
  shows "silent (compare_entries ord ks c added dropped both d d)"
proof -
  have "filter (\<lambda>k. k \<notin> fst ` set d) (map fst d) = []"
    by (simp add: filter_empty_conv)
  then have "both_keys ord d d = map fst d" using assms(1) by (simp add: both_keys_def)
  then show ?thesis
    unfolding compare_entries_def
    by (auto intro!: silent_rfold silent_in_path split: option.split intro: assms(2))
qed

lemma silent_one_of:
  assumes rec: "\<And>e. wf_type e \<Longrightarrow> silent (rec e e)" and x: "list_all wf_field (oo_fields x)" and ord: "ord [] = []"
  shows "silent (one_of_compare ord rec x x)"
  unfolding one_of_compare_def
proof (rule silent_entries)
  fix k f assume "map_of (by_key fe_tag (oo_fields x)) k = Some f"
  then have "wf_field f" using x by_key_member by (fastforce simp: list_all_iff)
  then show "silent (field_compare rec f f)" using rec by (intro silent_field)
qed (rule ord)

lemma silent_enum: "ord [] = [] \<Longrightarrow> silent (enum_compare ord cs cs)"
  unfolding enum_compare_def by (rule silent_entries) simp_all

section \<open>Messages and files\<close>

lemma convert_nothing:
  assumes "list_all (\<lambda>x. list_all (\<lambda>h. map_of tags (fe_tag h) = None) (oo_fields x)) oneofs"
  shows "convert_one_ofs oneofs tags s = Inr (tags, s)"
proof -
  have "take_converted x tags = (tags, 0)" if "list_all (\<lambda>h. map_of tags (fe_tag h) = None) (oo_fields x)" for x
  proof -
    have "fold (\<lambda>subfield (tags, count).
             if map_of tags (fe_tag subfield) \<noteq> None then (dict_pop tags (fe_tag subfield), Suc count)
             else (tags, count)) fs (tags, 0) = (tags, 0)"
      if "list_all (\<lambda>h. map_of tags (fe_tag h) = None) fs" for fs
      using that by (induction fs) auto
    then show ?thesis using that by (simp add: take_converted_def)
  qed
  then show ?thesis
    using assms by (induction oneofs) (simp_all add: in_path_def)
qed

lemma by_key_keys: "k \<notin> key ` set xs \<Longrightarrow> map_of (by_key key xs) k = None"
  using by_key_member [of key xs k] by (cases "map_of (by_key key xs) k") auto

lemma silent_field_tags:
  assumes rec: "\<And>e. wf_type e \<Longrightarrow> silent (rec e e)" and ord: "ord [] = []"
    and fs: "\<And>k f. map_of tags k = Some f \<Longrightarrow> wf_field f"
  shows "silent (compare_field_tags ord rec tags tags names names)"
proof -
  have "filter (\<lambda>k. k \<notin> fst ` set tags) (map fst tags) = []"
    by (simp add: filter_empty_conv)
  then have keys: "both_keys ord tags tags = map fst tags" using ord by (simp add: both_keys_def)
  have "tag_altered tags names names k = None" for k
    by (auto simp: tag_altered_def split: option.split)
  moreover have "silent (field_compare rec f f)" if "map_of tags k = Some f" for k f
    using that fs rec by (intro silent_field)
  moreover have "k \<in> set (map fst tags) \<Longrightarrow> \<exists>f. map_of tags k = Some f" for k
    by (metis list.set_map map_of_eq_None_iff not_Some_eq)
  ultimately show ?thesis
    unfolding compare_field_tags_paths keys
    by (intro silent_rfold silent_seq silent_in_path) (fastforce split: option.split)+
qed

text \<open>Collecting the same types on both sides keeps the dictionaries the same.\<close>

definition on_self :: "((string, type_record) dict \<Rightarrow> (string, type_record) dict res) \<Rightarrow> compare_types \<Rightarrow> compare_types res" where
  "on_self F s = rbind (F (ct_self_types s)) (\<lambda>types. Inr (s\<lparr>ct_self_types := types\<rparr>))"

definition on_other :: "((string, type_record) dict \<Rightarrow> (string, type_record) dict res) \<Rightarrow> compare_types \<Rightarrow> compare_types res" where
  "on_other F s = rbind (F (ct_other_types s)) (\<lambda>types. Inr (s\<lparr>ct_other_types := types\<rparr>))"

lemma on_self_seq: "rbind (on_self F s) (on_self G) = on_self (\<lambda>ty. rbind (F ty) G) s"
  by (simp add: on_self_def rbind_assoc)

lemma on_other_seq: "rbind (on_other F s) (on_other G) = on_other (\<lambda>ty. rbind (F ty) G) s"
  by (simp add: on_other_def rbind_assoc)

lemma rfold_on_self: "rfold (add_self_type p) xs s = on_self (rfold (add_a_type p p) xs) s"
proof (induction xs arbitrary: s)
  case (Cons x xs)
  have "rfold (add_a_type p p) (x # xs) = (\<lambda>ty. rbind (add_a_type p p x ty) (rfold (add_a_type p p) xs))"
    by (rule ext) simp
  moreover have "rfold (add_self_type p) xs = on_self (rfold (add_a_type p p) xs)" using Cons by (rule ext)
  moreover have "add_self_type p x = on_self (add_a_type p p x)"
    by (rule ext) (simp add: add_self_type_def on_self_def)
  ultimately show ?case by (simp only: rfold.simps on_self_seq)
qed (simp add: on_self_def)

lemma rfold_on_other: "rfold (add_other_type p) xs s = on_other (rfold (add_a_type p p) xs) s"
proof (induction xs arbitrary: s)
  case (Cons x xs)
  have "rfold (add_a_type p p) (x # xs) = (\<lambda>ty. rbind (add_a_type p p x ty) (rfold (add_a_type p p) xs))"
    by (rule ext) simp
  moreover have "rfold (add_other_type p) xs = on_other (rfold (add_a_type p p) xs)" using Cons by (rule ext)
  moreover have "add_other_type p x = on_other (add_a_type p p x)"
    by (rule ext) (simp add: add_other_type_def on_other_def)
  ultimately show ?case by (simp only: rfold.simps on_other_seq)
qed (simp add: on_other_def)

lemma collect_both_sides:
  "\<exists>F. collect_dependencies_types True ds = on_self F \<and> collect_dependencies_types False ds = on_other F"
proof (induction ds rule: measure_induct_rule [where f = "size_list (size_prod (\<lambda>x. 0) size)"])
  case (less ds)
  show ?case
  proof (cases ds)
    case Nil
    then show ?thesis by (intro exI [of _ Inr]) (auto simp: on_self_def on_other_def fun_eq_iff)
  next
    case (Cons x deps)
    then obtain name e refs sub_deps where x: "x = (name, ProtobufSchema e refs sub_deps)"
      by (metis protobuf_schema.exhaust surj_pair)
    let ?add = "rfold (add_a_type (pf_package_name e) (pf_package_name e)) (pf_types e)"
    show ?thesis
    proof (cases sub_deps)
      case None
      then show ?thesis
        by (intro exI [of _ ?add]) (auto simp: Cons x fun_eq_iff rfold_on_self rfold_on_other)
    next
      case (Some sub)
      obtain F where F: "collect_dependencies_types True sub = on_self F" "collect_dependencies_types False sub = on_other F"
        using less [of sub] by (auto simp: Cons x Some)
      obtain G where G: "collect_dependencies_types True deps = on_self G" "collect_dependencies_types False deps = on_other G"
        using less [of deps] by (auto simp: Cons x)
      have "collect_dependencies_types True ds = on_self (\<lambda>ty. rbind (?add ty) (\<lambda>ty. rbind (F ty) G))"
        by (rule ext) (simp add: Cons x Some F G rfold_on_self on_self_seq)
      moreover have "collect_dependencies_types False ds = on_other (\<lambda>ty. rbind (?add ty) (\<lambda>ty. rbind (F ty) G))"
        by (rule ext) (simp add: Cons x Some F G rfold_on_other on_other_seq)
      ultimately show ?thesis by blast
    qed
  qed
qed

lemma mirror_both_sides:
  assumes run: "on_self F s = Inr s1" "on_other F s1 = Inr s2" and s: "mirror s"
    and known: "same_run {t. wf_type t} (ct_locked_messages s) (on_self F) (on_self F)"
  shows "mirror s2 \<and> cr_result (ct_result s2) = cr_result (ct_result s)"
proof -
  obtain types where types: "F (ct_self_types s) = Inr types" "s1 = s\<lparr>ct_self_types := types\<rparr>"
    using run(1) by (auto simp: on_self_def)
  then have s2: "s2 = s1\<lparr>ct_other_types := types\<rparr>"
    using run(2) s by (auto simp: on_other_def mirror_def)
  have "run_inv {t. wf_type t} (ct_locked_messages s) s"
    using s wf_types_closed by (auto simp: run_inv_def valid_in_def mirror_def)
  with known have "run_inv {t. wf_type t} (ct_locked_messages s) s1"
    by (cases rule: same_runE) (simp_all add: run(1))
  then show ?thesis
    using types(2) s2 s by (simp add: run_inv_def valid_in_def mirror_def)
qed

lemma silent_type_lists:
  assumes rec: "\<And>e. wf_type e \<Longrightarrow> silent (rec e e)" and ord: "name_order os [] = []"
    and xs: "list_all wf_type xs"
  shows "silent (compare_type_lists os rec xs xs)"
  unfolding silent_def
proof (intro allI impI)
  let ?entries = "compare_entries (name_order os) id True
         (\<lambda>t. modify (is_element_add t)) (\<lambda>t. modify (is_element_drop t))
         (\<lambda>x y. if is_message x = is_message y then rec x y else modify TYPE_ALTER)
         (by_key te_name xs) (by_key te_name xs)"
  fix s s' assume s: "mirror s" and run: "compare_type_lists os rec xs xs s = Inr s'"
  let ?p = "Some (ct_self_package_name s)"
  obtain s1 s2 where adds: "rfold (add_self_type ?p) xs s = Inr s1"
      "rfold (add_other_type (Some (ct_other_package_name s1))) xs s1 = Inr s2"
    and entries: "?entries s2 = Inr s'"
    using run by (auto simp: compare_type_lists_def)
  have "ct_other_package_name s1 = ct_self_package_name s"
    using adds(1) s by (auto simp: rfold_on_self on_self_def mirror_def)
  then have "on_self (rfold (add_a_type ?p ?p) xs) s = Inr s1" "on_other (rfold (add_a_type ?p ?p) xs) s1 = Inr s2"
    using adds by (simp_all add: rfold_on_self rfold_on_other)
  moreover have "same_run {t. wf_type t} L (rfold (add_self_type ?p) xs) (rfold (add_self_type ?p) xs)" for L
    using xs wf_types_closed by (intro run.rel_rfold run.rel_add_self) (auto simp: list_all_iff)
  ultimately have s2: "mirror s2" "cr_result (ct_result s2) = cr_result (ct_result s)"
    using mirror_both_sides [OF _ _ s] by (simp_all add: rfold_on_self [abs_def])
  have "silent ?entries"
  proof (rule silent_entries)
    fix k x assume "map_of (by_key te_name xs) k = Some x"
    then have "wf_type x" using xs by_key_member by (fastforce simp: list_all_iff)
    then show "silent (if is_message x = is_message x then rec x x else modify TYPE_ALTER)" by (simp add: rec)
  qed (rule ord)
  from silentD [OF this s2(1) entries] s2(2)
  show "mirror s' \<and> cr_result (ct_result s') = cr_result (ct_result s)" by simp
qed

lemma silent_message_body:
  assumes rec: "\<And>e. wf_type e \<Longrightarrow> silent (rec e e)" and ord: "tag_order os [] = []" "name_order os [] = []"
    and m: "wf_type m" "is_message m"
  shows "silent (message_body_compare os rec m m)"
proof -
  obtain l n d opts ts rs fs oos xs gs where e: "m = MessageElement l n d opts ts rs fs oos xs gs"
    using m(2) by (cases m) auto
  have wf: "list_all wf_field fs" "list_all (\<lambda>x. list_all wf_field (oo_fields x)) oos"
      "list_all (\<lambda>x. list_all (\<lambda>h. fe_tag h \<notin> fe_tag ` set fs) (oo_fields x)) oos" "list_all wf_type ts"
    using m(1) by (auto simp: e wf_type_def list_all_iff)
  let ?tags = "by_key fe_tag fs" and ?names = "by_key fe_name fs"
  let ?fields = "compare_field_tags (tag_order os) rec ?tags ?tags ?names ?names"
  let ?oneofs = "compare_entries (name_order os) id False (\<lambda>_. modify ONE_OF_ADD) (\<lambda>_. modify ONE_OF_DROP)
      (one_of_compare (tag_order os) rec) (by_key oo_name oos) (by_key oo_name oos)"
  have "convert_one_ofs oos ?tags s = Inr (?tags, s)" for s
    using wf(3) by (intro convert_nothing) (auto simp: list_all_iff intro: by_key_keys)
  then have unfold: "message_body_compare os rec m m =
      (\<lambda>s. rbind (?fields s) (\<lambda>s. rbind (?oneofs s) (compare_type_lists os rec ts ts)))"
    by (intro ext) (simp add: message_body_compare_def e)
  have "silent ?fields"
    using wf(1) by_key_member [of fe_tag fs] rec ord
    by (intro silent_field_tags) (fastforce simp: list_all_iff)+
  moreover have "silent ?oneofs"
  proof (rule silent_entries)
    fix k x assume "map_of (by_key oo_name oos) k = Some x"
    then have "list_all wf_field (oo_fields x)" using wf(2) by_key_member by (fastforce simp: list_all_iff)
    then show "silent (one_of_compare (tag_order os) rec x x)" using rec ord by (intro silent_one_of)
  qed (rule ord)
  moreover have "silent (compare_type_lists os rec ts ts)"
    using rec ord wf(4) by (intro silent_type_lists)
  ultimately show ?thesis unfolding unfold by (intro silent_seq)
qed

lemma silent_type_compare:
  assumes ord: "tag_order os [] = []" "name_order os [] = []"
  shows "wf_type e \<Longrightarrow> silent (type_compare depth os e e)"
proof (induction depth arbitrary: e)
  case 0
  then show ?case by (simp add: silent_def)
next
  case (Suc depth)
  show ?case
  proof (cases "is_message e")
    case True
    have body: "silent (message_body_compare os (type_compare depth os) e e)"
      using Suc True ord by (intro silent_message_body)
    show ?thesis
      unfolding silent_def
    proof (intro allI impI)
      fix s s' assume s: "mirror s" and run: "type_compare (Suc depth) os e e s = Inr s'"
      let ?s = "s\<lparr>ct_locked_messages := ct_locked_messages s @ [e]\<rparr>"
      consider "s' = s" | t where "message_body_compare os (type_compare depth os) e e ?s = Inr t" "s' = snd (unlock_message e t)"
        using run True by (cases e) (auto simp: message_compare_def lock_message_def split: if_splits)
      then show "mirror s' \<and> cr_result (ct_result s') = cr_result (ct_result s)"
      proof cases
        case (2 t)
        then show ?thesis using silentD [OF body _ 2(1)] s by (simp add: unlock_message_def)
      qed (use s in simp)
    qed
  next
    case False
    then obtain l n d opts cs where e: "e = EnumElement l n d opts cs" by (cases e) auto
    have "type_compare (Suc depth) os e e = enum_compare (tag_order os) cs cs"
      by (rule ext) (simp add: e)
    then show ?thesis by (simp only: silent_enum ord)
  qed
qed

text \<open>
  C29: The comparison of a Protobuf schema with itself reports no modification, whatever the order in which
  keys are visited: a schema is compatible with itself. In every message of the schema and its
  dependencies the fields of map type have no label and no tag is used both by a field and in a one-of.
\<close>

theorem self_comparison_is_empty:
  assumes "schema_compare depth os p p init_compare_result = Inr result"
    and "tag_order os [] = []" and "name_order os [] = []" and "list_all wf_message (all_types p)"
  shows "cr_result result = [] \<and> is_compatible (protobuf_verdict result)"
proof -
  let ?xs = "pf_types (ps_file p)" and ?ds = "case ps_dependencies p of None \<Rightarrow> [] | Some ds \<Rightarrow> ds"
  let ?start = "init_compare_types (pf_package_name (ps_file p)) (pf_package_name (ps_file p)) init_compare_result"
  have wf: "wf_type t" if "t \<in> set (all_types p)" for t
    using assms(4) all_types_trans [OF that] by (auto simp: wf_type_def list_all_iff)
  obtain s1 s2 s' where collect: "collect_dependencies_types True ?ds ?start = Inr s1" "collect_dependencies_types False ?ds s1 = Inr s2"
    and run: "compare_type_lists os (type_compare depth os) ?xs ?xs s2 = Inr s'" "result = ct_result s'"
    using assms(1) by (auto simp: schema_compare_def proto_file_compare_def)
  have start: "mirror ?start"
    by (simp add: mirror_def init_compare_types_def plain_types_def type_elements_def)
  have deps: "same_run {t. wf_type t} L (collect_dependencies_types True ?ds) (collect_dependencies_types True ?ds)" for L
    using wf wf_types_closed by (intro run.rel_collect) (auto split: option.splits intro: dep_types_all [OF sym])
  obtain F where F: "collect_dependencies_types True ?ds = on_self F" "collect_dependencies_types False ?ds = on_other F"
    using collect_both_sides by blast
  have s2: "mirror s2" "cr_result (ct_result s2) = []"
    using mirror_both_sides [OF collect [unfolded F] start] deps
    by (simp_all add: F init_compare_types_def init_compare_result_def)
  have "silent (compare_type_lists os (type_compare depth os) ?xs ?xs)"
    using assms(2,3) wf file_types_all
    by (intro silent_type_lists silent_type_compare) (auto simp: list_all_iff)
  from silentD [OF this s2(1) run(1)] s2(2) have "cr_result (ct_result s') = []" by simp
  then show ?thesis
    by (simp add: run(2) protobuf_verdict_def cr_is_compatible_def is_compatible_def compatible_result_def)
qed

end
