(* ===== verification/Protobuf_Compare_Cases.thy ===== *)
theory Protobuf_Compare_Cases
  imports Protobuf_Self_Compare
begin

text \<open>
  Concrete comparisons of Protobuf schemas: inputs on which the general theorems apply, and inputs on which
  the comparison accepts a change that breaks readers.
\<close>

definition plain_orders :: orders where
  "plain_orders = \<lparr>tag_order = \<lambda>xs. xs, name_order = \<lambda>xs. xs\<rparr>"

definition sample_enum :: "string \<Rightarrow> type_element" where
  "sample_enum name = EnumElement DEFAULT_LOCATION name [] [] []"

definition sample_schema :: "string option \<Rightarrow> type_element list \<Rightarrow> protobuf_schema" where
  "sample_schema package types = ProtobufSchema (sample_file package types) None None"

definition verdict_of :: "protobuf_schema \<Rightarrow> protobuf_schema \<Rightarrow> modification list res" where
  "verdict_of a b =
     rbind (schema_compare (Suc (length (all_types a))) plain_orders a b init_compare_result)
       (\<lambda>r. Inr (map mr_modification (cr_result r)))"

definition linked_schema :: "string \<Rightarrow> protobuf_schema" where
  "linked_schema element =
     sample_schema (Some ''p'')
       [sample_message ''Node'' [] [sample_field element ''value'' 1, sample_field ''Node'' ''next'' 2]]"

definition dependent_schema :: "(string \<times> protobuf_schema) list \<Rightarrow> protobuf_schema" where
  "dependent_schema deps =
     ProtobufSchema (sample_file None [sample_message ''A'' [] [sample_field ''q.M'' ''m'' 1]]) None (Some deps)"

definition one_message :: "string \<Rightarrow> string \<Rightarrow> protobuf_schema" where
  "one_message name element = sample_schema (Some ''q'') [sample_message name [] [sample_field element ''f'' 1]]"

section \<open>Inputs of the general theorems\<close>

lemma schema_compare_terminates_witness:
  "length (all_types (linked_schema ''int32'')) < 4 \<and>
   schema_compare 4 plain_orders (linked_schema ''int32'') (linked_schema ''string'') init_compare_result \<noteq> Inl RecursionError"
proof -
  have less: "length (all_types (linked_schema ''int32'')) < 4" by code_simp
  show ?thesis
    using less schema_compare_terminates [OF less, of plain_orders "linked_schema ''string''" init_compare_result] by blast
qed


lemma self_comparison_is_empty_witness:
  "schema_compare 4 plain_orders (linked_schema ''int32'') (linked_schema ''int32'') init_compare_result =
     Inr init_compare_result \<and> is_compatible (protobuf_verdict init_compare_result)"
proof -
  have run: "schema_compare 4 plain_orders (linked_schema ''int32'') (linked_schema ''int32'') init_compare_result =
      Inr init_compare_result"
    by code_simp
  have orders: "tag_order plain_orders [] = []" "name_order plain_orders [] = []"
      "list_all wf_message (all_types (linked_schema ''int32''))"
    by code_simp+
  show ?thesis using run self_comparison_is_empty [OF run orders] by simp
qed

section \<open>Accepted changes that break readers\<close>

text \<open>
  The loop that collects the types of the dependencies returns at the first dependency that has no
  dependencies of its own. The types of the later ones stay unknown: an incompatible change of a
  field in the second dependency is not found, while it is found if that dependency is the only one.
\<close>

theorem second_dependency_ignored:
  "verdict_of (dependent_schema [(''d'', one_message ''D'' ''int32''), (''m'', one_message ''M'' ''int32'')])
     (dependent_schema [(''d'', one_message ''D'' ''int32''), (''m'', one_message ''M'' ''string'')]) = Inr [] \<and>
   verdict_of (dependent_schema [(''m'', one_message ''M'' ''int32'')])
     (dependent_schema [(''m'', one_message ''M'' ''string'')]) = Inr [FIELD_KIND_ALTER] \<and>
   \<not> modification_is_compatible FIELD_KIND_ALTER"
  by code_simp

text \<open>A message replaced by an enumeration of the same name is reported, but as a compatible change.\<close>

theorem message_to_enum_is_compatible:
  "verdict_of (sample_schema None [sample_message ''A'' [] [sample_field ''int32'' ''f'' 1]])
     (sample_schema None [sample_enum ''A'']) = Inr [TYPE_ALTER] \<and> modification_is_compatible TYPE_ALTER"
  by code_simp

text \<open>
  A field whose message type is replaced by another message is a compatible change of name, and the
  fields of the two messages are not compared. Without a package the first character of the names is
  cut off, so the types \<open>Ax\<close> and \<open>Bx\<close> pass for the same.
\<close>

theorem field_message_replaced_is_compatible:
  "verdict_of
     (sample_schema (Some ''p'') [sample_message ''C'' [] [sample_field ''A'' ''f'' 1],
        sample_message ''A'' [] [sample_field ''int32'' ''x'' 1], sample_message ''B'' [] [sample_field ''string'' ''x'' 1]])
     (sample_schema (Some ''p'') [sample_message ''C'' [] [sample_field ''B'' ''f'' 1],
        sample_message ''A'' [] [sample_field ''int32'' ''x'' 1], sample_message ''B'' [] [sample_field ''string'' ''x'' 1]]) =
     Inr [FIELD_NAME_ALTER] \<and>
   modification_is_compatible FIELD_NAME_ALTER \<and>
   verdict_of
     (sample_schema None [sample_message ''C'' [] [sample_field ''Ax'' ''f'' 1], sample_message ''Ax'' [] [],
        sample_message ''Bx'' [] []])
     (sample_schema None [sample_message ''C'' [] [sample_field ''Bx'' ''f'' 1], sample_message ''Ax'' [] [],
        sample_message ''Bx'' [] []]) = Inr []"
  by code_simp

end
