(* ===== verification/Protobuf_Descriptor.thy ===== *)
theory Protobuf_Descriptor
  imports Protobuf_Schema
begin

text \<open>
  \<open>karapace/core/protobuf/serialization.py\<close>: file elements to and from the descriptor messages of the
  \<open>google.protobuf\<close> library. The descriptor messages are records of their fields; an optional field is \<open>None\<close>
  when \<open>HasField\<close> is false. The library's own operations are the parameter \<open>pbx\<close>: the conversion of a value
  that is assigned to a field of \<open>FileOptions\<close>, the binary format, and base64. \<open>NotImplementedError\<close> is a
  subclass of \<open>RuntimeError\<close> and is that error here. An assignment to an integer field of 32 bits may raise too.
\<close>

section \<open>Descriptor messages\<close>

datatype type_code =
    TYPE_DOUBLE | TYPE_FLOAT | TYPE_INT64 | TYPE_UINT64 | TYPE_INT32 | TYPE_FIXED64 | TYPE_FIXED32 | TYPE_BOOL
  | TYPE_STRING | TYPE_GROUP | TYPE_MESSAGE | TYPE_BYTES | TYPE_UINT32 | TYPE_ENUM | TYPE_SFIXED32 | TYPE_SFIXED64
  | TYPE_SINT32 | TYPE_SINT64

record field_descriptor =
  fd_name :: "string option"
  fd_number :: "int option"
  fd_label :: "label option"
  fd_type :: "type_code option"
  fd_type_name :: "string option"
  fd_oneof_index :: "nat option"
  fd_proto3_optional :: "bool option"

record enum_value_descriptor =
  ev_name :: string
  ev_number :: int
  ev_deprecated :: bool

record enum_descriptor =
  ed_name :: string
  ed_values :: "enum_value_descriptor list"

datatype message_descriptor =
  Descriptor (md_name: string) (md_nested_type: "message_descriptor list") (md_enum_type: "enum_descriptor list")
    (md_reserved_range: "(int \<times> int) list") (md_reserved_name: "string list") (md_field: "field_descriptor list")
    (md_oneof_decl: "string list")

record file_descriptor =
  fdp_syntax :: string
  fdp_package :: string
  fdp_options :: "(string, prim) dict"
  fdp_dependency :: "string list"
  fdp_public_dependency :: "nat list"
  fdp_message_type :: "message_descriptor list"
  fdp_enum_type :: "enum_descriptor list"

record pbx =
  assign_int32 :: "int \<Rightarrow> int res"
  assign_option :: "string \<Rightarrow> option_value \<Rightarrow> prim res"
  serialize_to_string :: "file_descriptor \<Rightarrow> string"
  parse_from_string :: "string \<Rightarrow> file_descriptor res"
  b64encode :: "string \<Rightarrow> string"
  b64decode :: "string \<Rightarrow> string option"

definition TYPE_MAP :: "(type_code \<times> string) list" where
  "TYPE_MAP = [(TYPE_DOUBLE, ''double''), (TYPE_FLOAT, ''float''), (TYPE_INT32, ''int32''), (TYPE_INT64, ''int64''),
     (TYPE_UINT32, ''uint32''), (TYPE_UINT64, ''uint64''), (TYPE_SINT32, ''sint32''), (TYPE_SINT64, ''sint64''),
     (TYPE_FIXED32, ''fixed32''), (TYPE_FIXED64, ''fixed64''), (TYPE_SFIXED32, ''sfixed32''),
     (TYPE_SFIXED64, ''sfixed64''), (TYPE_BOOL, ''bool''), (TYPE_STRING, ''string''), (TYPE_BYTES, ''bytes'')]"

definition REVERSE_TYPE_MAP :: "(string \<times> type_code) list" where
  "REVERSE_TYPE_MAP = map (\<lambda>(k, v). (v, k)) TYPE_MAP"

text \<open>A loop that builds a list and stops at the first exception.\<close>

fun rmap :: "('a \<Rightarrow> 'b res) \<Rightarrow> 'a list \<Rightarrow> 'b list res" where
  "rmap f [] = Inr []"
| "rmap f (x # xs) = rbind (f x) (\<lambda>y. rbind (rmap f xs) (\<lambda>ys. Inr (y # ys)))"

lemma rmap_cong [fundef_cong]: "xs = ys \<Longrightarrow> (\<And>x. x \<in> set ys \<Longrightarrow> f x = g x) \<Longrightarrow> rmap f xs = rmap g ys"
  by (induction ys arbitrary: xs) auto

section \<open>Reading descriptors\<close>

text \<open>Fields that are not set read as their default: the label \<open>LABEL_OPTIONAL\<close>, the empty name, the number 0.\<close>

definition or_default :: "'a \<Rightarrow> 'a option \<Rightarrow> 'a" where
  "or_default d x = (case x of None \<Rightarrow> d | Some y \<Rightarrow> y)"

definition deserialize_field :: "field_descriptor \<Rightarrow> field_element res" where
  "deserialize_field f =
     (let d_label = or_default OPTIONAL (fd_label f);
          label = (if fd_proto3_optional f = Some True \<or> d_label \<noteq> OPTIONAL then Some d_label else None)
      in rbind (case fd_type_name f of
                  Some n \<Rightarrow> Inr n
                | None \<Rightarrow>
                    (case fd_type f of
                       None \<Rightarrow> Inl InvalidSchema
                     | Some t \<Rightarrow> of_option RuntimeError (map_of TYPE_MAP t))) (\<lambda>element_type.
           Inr \<lparr>fe_location = DEFAULT_LOCATION, fe_label = label, fe_element_type = element_type,
                fe_name = or_default [] (fd_name f), fe_default_value = None, fe_json_name = None,
                fe_tag = or_default 0 (fd_number f), fe_documentation = [], fe_options = []\<rparr>))"

definition deserialize_enum :: "enum_descriptor \<Rightarrow> type_element" where
  "deserialize_enum e =
     EnumElement DEFAULT_LOCATION (ed_name e) [] []
       (map (\<lambda>c. \<lparr>ec_location = DEFAULT_LOCATION, ec_name = ev_name c, ec_tag = ev_number c, ec_documentation = [],
                  ec_options = (if ev_deprecated c
                    then [OptionElement ''deprecated'' (KBoolean (PStr ''true'')) False] else [])\<rparr>) (ed_values e))"

definition deserialize_reserved :: "int \<times> int \<Rightarrow> reserved_value" where
  "deserialize_reserved r = (case r of (start, stop) \<Rightarrow> if stop = start + 1 then RInt start else RRange start (stop - 1))"

text \<open>
  The distribution of the fields over the one-ofs. The index is the position of a declaration (not negative). \<open>one_ofs[i]\<close> raises \<open>IndexError\<close> out of range, and a
  one-of that was set to \<open>None\<close> has no fields (\<open>AttributeError\<close>).
\<close>

definition place_field ::
    "field_descriptor \<Rightarrow> field_element list \<times> one_of_element option list \<Rightarrow>
     (field_element list \<times> one_of_element option list) res" where
  "place_field f = (\<lambda>(fs, one_ofs).
     rbind (deserialize_field f) (\<lambda>sf.
       case fd_oneof_index f of
         None \<Rightarrow> Inr (fs @ [sf], one_ofs)
       | Some i \<Rightarrow>
           if length one_ofs \<le> i then Inl IndexError
           else if fd_proto3_optional f = Some True then Inr (fs @ [sf], one_ofs[i := None])
           else (case one_ofs ! i of
                   None \<Rightarrow> Inl AttributeError
                 | Some x \<Rightarrow> Inr (fs, one_ofs[i := Some (x\<lparr>oo_fields := oo_fields x @ [sf]\<rparr>)]))))"

definition empty_one_of :: "string \<Rightarrow> one_of_element" where
  "empty_one_of name = \<lparr>oo_name = name, oo_documentation = [], oo_fields = [], oo_groups = [], oo_options = []\<rparr>"

fun deserialize_msg :: "message_descriptor \<Rightarrow> type_element res" where
  "deserialize_msg (Descriptor name nested enums ranges names fds oneofs) =
     (let reserved_values = map deserialize_reserved ranges @ map RStr names;
          reserveds = (if reserved_values = [] then []
            else [\<lparr>re_location = DEFAULT_LOCATION, re_values = reserved_values, re_documentation = []\<rparr>])
      in rbind (rmap deserialize_msg nested) (\<lambda>messages.
         rbind (rfold place_field fds ([], map (\<lambda>n. Some (empty_one_of n)) oneofs)) (\<lambda>(fs, one_ofs).
           Inr (MessageElement DEFAULT_LOCATION name [] [] (messages @ map deserialize_enum enums) reserveds fs
                  (map the (filter (\<lambda>x. x \<noteq> None) one_ofs)) [] []))))"

text \<open>The tests of \<open>_deserialize_options\<close>, in their order, with the kind of option each gives.\<close>

definition file_options :: "(string \<times> (prim \<Rightarrow> kind_and_value)) list" where
  "file_options =
     [(''java_package'', KString), (''java_outer_classname'', KString), (''optimize_for'', KEnum),
      (''java_multiple_files'', KBoolean), (''go_package'', KString), (''cc_generic_services'', KBoolean),
      (''java_generic_services'', KBoolean), (''py_generic_services'', KBoolean),
      (''java_generate_equals_and_hash'', KBoolean), (''deprecated'', KBoolean),
      (''java_string_check_utf8'', KBoolean), (''cc_enable_arenas'', KBoolean), (''objc_class_prefix'', KString),
      (''csharp_namespace'', KString), (''swift_prefix'', KString), (''php_class_prefix'', KString),
      (''php_namespace'', KString), (''php_generic_services'', KBoolean), (''php_metadata_namespace'', KString),
      (''ruby_package'', KString)]"

definition deserialize_options :: "(string, prim) dict \<Rightarrow> option_element list" where
  "deserialize_options options =
     concat (map (\<lambda>(name, kind). case map_of options name of
                    None \<Rightarrow> [] | Some v \<Rightarrow> [OptionElement name (kind v) False]) file_options)"

fun split_imports :: "nat list \<Rightarrow> nat \<Rightarrow> string list \<Rightarrow> string list \<times> string list" where
  "split_imports public i [] = ([], [])"
| "split_imports public i (d # ds) =
     (case split_imports public (Suc i) ds of
        (imports, public_imports) \<Rightarrow>
          if i \<in> set public then (imports, d # public_imports) else (d # imports, public_imports))"

definition deserialize_file :: "file_descriptor \<Rightarrow> proto_file_element res" where
  "deserialize_file proto =
     (case split_imports (fdp_public_dependency proto) 0 (fdp_dependency proto) of
        (imports, public_imports) \<Rightarrow>
          rbind (rmap deserialize_msg (fdp_message_type proto)) (\<lambda>messages.
          rbind (if fdp_syntax proto = [] then Inr None
                 else rbind (mk_syntax (fdp_syntax proto)) (\<lambda>s. Inr (Some s))) (\<lambda>file_syntax.
            Inr \<lparr>pf_location = DEFAULT_LOCATION, pf_package_name = Some (fdp_package proto), pf_syntax = file_syntax,
                 pf_imports = imports, pf_public_imports = public_imports,
                 pf_types = map deserialize_enum (fdp_enum_type proto) @ messages, pf_services = [],
                 pf_extend_declarations = [], pf_options = deserialize_options (fdp_options proto)\<rparr>)))"

text \<open>\<open>deserialize\<close>: \<open>None\<close> is the \<open>binascii.Error\<close> of a text that is not base64.\<close>

definition pb_deserialize :: "('x) pbx_scheme \<Rightarrow> string \<Rightarrow> proto_file_element res option" where
  "pb_deserialize x schema_b64 =
     map_option (\<lambda>bytes. rbind (parse_from_string x bytes) deserialize_file) (b64decode x schema_b64)"

section \<open>Writing descriptors\<close>

definition serialize_field_label :: "label \<Rightarrow> label res" where
  "serialize_field_label l = (if l = ONE_OF then Inl RuntimeError else Inr l)"

definition serialize_field :: "('x) pbx_scheme \<Rightarrow> field_element \<Rightarrow> field_descriptor res" where
  "serialize_field x f =
     rbind (case fe_label f of None \<Rightarrow> Inr OPTIONAL | Some l \<Rightarrow> serialize_field_label l) (\<lambda>l.
     rbind (assign_int32 x (fe_tag f)) (\<lambda>number.
       Inr \<lparr>fd_name = Some (fe_name f), fd_number = Some number, fd_label = Some l,
            fd_type = map_of REVERSE_TYPE_MAP (fe_element_type f),
            fd_type_name = (if map_of REVERSE_TYPE_MAP (fe_element_type f) = None then Some (fe_element_type f) else None),
            fd_oneof_index = None,
            fd_proto3_optional = (if fe_label f = Some OPTIONAL then Some True else None)\<rparr>))"

text \<open>\<open>o.value == "true"\<close>\<close>

definition is_deprecated :: "option_element list \<Rightarrow> bool" where
  "is_deprecated options \<longleftrightarrow>
     list_ex (\<lambda>o'. oe_name o' = ''deprecated'' \<and> kv_value (oe_value o') = OvPrim (PStr ''true'')) options"

definition serialize_constant :: "('x) pbx_scheme \<Rightarrow> enum_constant_element \<Rightarrow> enum_value_descriptor res" where
  "serialize_constant x c =
     rbind (assign_int32 x (ec_tag c)) (\<lambda>number.
       Inr \<lparr>ev_name = ec_name c, ev_number = number, ev_deprecated = is_deprecated (ec_options c)\<rparr>)"

definition serialize_enumtype :: "('x) pbx_scheme \<Rightarrow> string \<Rightarrow> enum_constant_element list \<Rightarrow> enum_descriptor res" where
  "serialize_enumtype x name constants =
     rbind (rmap (serialize_constant x) constants) (\<lambda>vs. Inr \<lparr>ed_name = name, ed_values = vs\<rparr>)"

definition assign_range :: "('x) pbx_scheme \<Rightarrow> int \<Rightarrow> int \<Rightarrow> (int \<times> int) res" where
  "assign_range x start stop =
     rbind (assign_int32 x start) (\<lambda>a. rbind (assign_int32 x stop) (\<lambda>b. Inr (a, b)))"

fun serialize_reserved :: "('x) pbx_scheme \<Rightarrow> reserved_value list \<Rightarrow> ((int \<times> int) list \<times> string list) res" where
  "serialize_reserved x [] = Inr ([], [])"
| "serialize_reserved x (v # vs) =
     rbind (case v of
              RInt i \<Rightarrow> rbind (assign_range x i (i + 1)) (\<lambda>r. Inr ([r], []))
            | RRange a b \<Rightarrow> rbind (assign_range x a (b + 1)) (\<lambda>r. Inr ([r], []))
            | RStr s \<Rightarrow> Inr ([], [s])) (\<lambda>(rs, ns).
     rbind (serialize_reserved x vs) (\<lambda>(rs', ns'). Inr (rs @ rs', ns @ ns')))"

fun serialize_one_ofs :: "('x) pbx_scheme \<Rightarrow> nat \<Rightarrow> one_of_element list \<Rightarrow> field_descriptor list res" where
  "serialize_one_ofs x i [] = Inr []"
| "serialize_one_ofs x i (oneof # oneofs) =
     rbind (rmap (serialize_field x) (oo_fields oneof)) (\<lambda>fds.
     rbind (serialize_one_ofs x (Suc i) oneofs) (\<lambda>rest.
       Inr (map (\<lambda>d. d\<lparr>fd_oneof_index := Some i\<rparr>) fds @ rest)))"

fun serialize_msgtype :: "('x) pbx_scheme \<Rightarrow> type_element \<Rightarrow> message_descriptor res"
and serialize_nested :: "('x) pbx_scheme \<Rightarrow> type_element list \<Rightarrow> (message_descriptor list \<times> enum_descriptor list) res" where
  "serialize_msgtype x (MessageElement l name d os ts reserveds fs one_ofs xs gs) =
     rbind (serialize_nested x ts) (\<lambda>(nested, enums).
     rbind (serialize_reserved x (concat (map re_values reserveds))) (\<lambda>(ranges, names).
     rbind (rmap (serialize_field x) fs) (\<lambda>fds.
     rbind (serialize_one_ofs x 0 one_ofs) (\<lambda>oneof_fds.
       Inr (Descriptor name nested enums ranges names (fds @ oneof_fds) (map oo_name one_ofs))))))"
| "serialize_msgtype x (EnumElement l name d os cs) = Inl AttributeError"
| "serialize_nested x [] = Inr ([], [])"
| "serialize_nested x (MessageElement l name d os us reserveds fs one_ofs xs gs # ts) =
     rbind (serialize_msgtype x (MessageElement l name d os us reserveds fs one_ofs xs gs)) (\<lambda>m.
     rbind (serialize_nested x ts) (\<lambda>(ms, es). Inr (m # ms, es)))"
| "serialize_nested x (EnumElement l name d os cs # ts) =
     rbind (serialize_enumtype x name cs) (\<lambda>e.
     rbind (serialize_nested x ts) (\<lambda>(ms, es). Inr (ms, e # es)))"

definition serialize_options ::
    "('x) pbx_scheme \<Rightarrow> option_element list \<Rightarrow> (string, prim) dict \<Rightarrow> (string, prim) dict res" where
  "serialize_options x =
     rfold (\<lambda>opt result.
       if oe_name opt \<in> fst ` set file_options
       then rbind (assign_option x (oe_name opt) (kv_value (oe_value opt))) (\<lambda>v. Inr (dict_set result (oe_name opt) v))
       else Inr result)"

definition serialize_file :: "('x) pbx_scheme \<Rightarrow> proto_file_element \<Rightarrow> file_descriptor res" where
  "serialize_file x schema =
     rbind (serialize_options x (pf_options schema) []) (\<lambda>options.
     rbind (serialize_nested x (pf_types schema)) (\<lambda>(messages, enums).
       Inr \<lparr>fdp_syntax = (case pf_syntax schema of None \<Rightarrow> [] | Some s \<Rightarrow> syntax_str s),
            fdp_package = (case pf_package_name schema of None \<Rightarrow> [] | Some p \<Rightarrow> p),
            fdp_options = options,
            fdp_dependency = pf_public_imports schema @ pf_imports schema,
            fdp_public_dependency = [0..<length (pf_public_imports schema)],
            fdp_message_type = messages, fdp_enum_type = enums\<rparr>))"

definition pb_serialize :: "('x) pbx_scheme \<Rightarrow> proto_file_element \<Rightarrow> string res" where
  "pb_serialize x schema =
     rbind (serialize_file x schema) (\<lambda>fd. Inr (b64encode x (serialize_to_string x fd)))"

end
