(* ===== verification/Descriptor_Properties.thy ===== *)
theory Descriptor_Properties
  imports Protobuf_Descriptor Protobuf_Compare_Cases
begin

text \<open>
  What of a Protobuf file survives its conversion to a descriptor and back: \<open>stored_file\<close> keeps names, tags,
  types, labels, one-ofs, reserved entries, imports, syntax and the known file options; locations,
  documentation, services, extensions, groups and the other options are dropped, and messages and
  enumerations are regrouped.
\<close>

section \<open>The stored form\<close>

definition stored_field :: "field_element \<Rightarrow> field_element" where
  "stored_field f =
     f\<lparr>fe_location := DEFAULT_LOCATION, fe_default_value := None, fe_json_name := None, fe_documentation := [],
       fe_options := []\<rparr>"

definition stored_one_of :: "one_of_element \<Rightarrow> one_of_element" where
  "stored_one_of x = (empty_one_of (oo_name x))\<lparr>oo_fields := map stored_field (oo_fields x)\<rparr>"

definition stored_constant :: "enum_constant_element \<Rightarrow> enum_constant_element" where
  "stored_constant c =
     \<lparr>ec_location = DEFAULT_LOCATION, ec_name = ec_name c, ec_tag = ec_tag c, ec_documentation = [],
      ec_options = (if is_deprecated (ec_options c)
        then [OptionElement ''deprecated'' (KBoolean (PStr ''true'')) False] else [])\<rparr>"

definition stored_reserved :: "reserved_value list \<Rightarrow> reserved_element list" where
  "stored_reserved vs =
     (let entries = concat (map (\<lambda>v. case v of RInt i \<Rightarrow> [RInt i]
            | RRange a b \<Rightarrow> [if a = b then RInt a else RRange a b] | RStr s \<Rightarrow> []) vs) @
          concat (map (\<lambda>v. case v of RStr s \<Rightarrow> [RStr s] | _ \<Rightarrow> []) vs)
      in if entries = [] then []
         else [\<lparr>re_location = DEFAULT_LOCATION, re_values = entries, re_documentation = []\<rparr>])"

fun stored_type :: "type_element \<Rightarrow> type_element" where
  "stored_type (MessageElement l name d os ts reserveds fs one_ofs xs gs) =
     MessageElement DEFAULT_LOCATION name [] []
       (concat (map (\<lambda>t. if is_message t then [stored_type t] else []) ts) @
        concat (map (\<lambda>t. if is_message t then [] else [stored_type t]) ts))
       (stored_reserved (concat (map re_values reserveds))) (map stored_field fs) (map stored_one_of one_ofs) [] []"
| "stored_type (EnumElement l name d os cs) = EnumElement DEFAULT_LOCATION name [] [] (map stored_constant cs)"

definition stored_options :: "option_element list \<Rightarrow> option_element list" where
  "stored_options options =
     concat (map (\<lambda>(name, kind).
       case map_of (rev (map (\<lambda>x. (oe_name x, kv_value (oe_value x))) options)) name of
         Some (OvPrim v) \<Rightarrow> [OptionElement name (kind v) False] | _ \<Rightarrow> []) file_options)"

definition stored_file :: "proto_file_element \<Rightarrow> proto_file_element" where
  "stored_file e =
     \<lparr>pf_location = DEFAULT_LOCATION, pf_package_name = Some (package_of e), pf_syntax = pf_syntax e,
      pf_imports = pf_imports e, pf_public_imports = pf_public_imports e,
      pf_types = map stored_type (filter (\<lambda>t. \<not> is_message t) (pf_types e)) @
        map stored_type (filter is_message (pf_types e)),
      pf_services = [], pf_extend_declarations = [], pf_options = stored_options (pf_options e)\<rparr>"

section \<open>Fields and one-ofs\<close>

text \<open>An integer that the library accepts is stored as it is.\<close>

definition keeps_int32 :: "'x pbx_scheme \<Rightarrow> bool" where
  "keeps_int32 x \<longleftrightarrow> (\<forall>i j. assign_int32 x i = Inr j \<longrightarrow> j = i)"

lemma keeps_int32D: "keeps_int32 x \<Longrightarrow> assign_int32 x i = Inr j \<Longrightarrow> j = i"
  by (simp add: keeps_int32_def)

lemma reverse_type_map:
  assumes "map_of REVERSE_TYPE_MAP s = Some t"
  shows "map_of TYPE_MAP t = Some s"
proof -
  have "(s, t) \<in> set REVERSE_TYPE_MAP" using assms by (rule map_of_SomeD)
  then show ?thesis by (auto simp: REVERSE_TYPE_MAP_def TYPE_MAP_def)
qed

lemma field_round_trip:
  assumes "serialize_field x f = Inr d" and "keeps_int32 x"
  shows "deserialize_field d = Inr (stored_field f)" and "deserialize_field (d\<lparr>fd_oneof_index := i\<rparr>) = Inr (stored_field f)"
    and "fd_oneof_index d = None" and "fd_proto3_optional d = Some True \<longleftrightarrow> fe_label f = Some OPTIONAL"
proof -
  obtain l where l: "(case fe_label f of None \<Rightarrow> Inr OPTIONAL | Some l \<Rightarrow> serialize_field_label l) = Inr l"
    and d: "d = \<lparr>fd_name = Some (fe_name f), fd_number = Some (fe_tag f), fd_label = Some l,
            fd_type = map_of REVERSE_TYPE_MAP (fe_element_type f),
            fd_type_name = (if map_of REVERSE_TYPE_MAP (fe_element_type f) = None then Some (fe_element_type f) else None),
            fd_oneof_index = None,
            fd_proto3_optional = (if fe_label f = Some OPTIONAL then Some True else None)\<rparr>"
    using assms(1) keeps_int32D [OF assms(2)] unfolding serialize_field_def rbind_eq_Inr by blast
  have label: "(if fd_proto3_optional d = Some True \<or> l \<noteq> OPTIONAL then Some l else None) = fe_label f"
    using l by (cases "fe_label f") (auto simp: d serialize_field_label_def split: if_splits)
  have types: "(case fd_type_name d of Some n \<Rightarrow> Inr n | None \<Rightarrow> (case fd_type d of None \<Rightarrow> Inl InvalidSchema
      | Some t \<Rightarrow> of_option RuntimeError (map_of TYPE_MAP t))) = Inr (fe_element_type f)"
    by (cases "map_of REVERSE_TYPE_MAP (fe_element_type f)") (simp_all add: d reverse_type_map)
  have same: "deserialize_field (d\<lparr>fd_oneof_index := i\<rparr>) = deserialize_field d"
    by (simp add: deserialize_field_def cong: option.case_cong)
  show kept: "deserialize_field d = Inr (stored_field f)"
  proof -
    have "or_default OPTIONAL (fd_label d) = l" by (simp add: d or_default_def)
    then show ?thesis
      unfolding deserialize_field_def Let_def types by (simp only: label) (cases f, simp add: d or_default_def stored_field_def)
  qed
  then show "deserialize_field (d\<lparr>fd_oneof_index := i\<rparr>) = Inr (stored_field f)" by (simp add: same)
  show "fd_oneof_index d = None" "fd_proto3_optional d = Some True \<longleftrightarrow> fe_label f = Some OPTIONAL"
    by (simp_all add: d)
qed

lemma place_fields:
  "rmap (serialize_field x) fs = Inr fds \<Longrightarrow> keeps_int32 x \<Longrightarrow>
     rfold place_field fds (acc, oos) = Inr (acc @ map stored_field fs, oos)"
proof (induction fs arbitrary: fds acc)
  case (Cons f fs)
  then obtain d ds where d: "serialize_field x f = Inr d" "rmap (serialize_field x) fs = Inr ds" "fds = d # ds" by auto
  then show ?case using Cons field_round_trip [OF d(1)] by (simp add: place_field_def)
qed simp

definition no_optional_members :: "one_of_element \<Rightarrow> bool" where
  "no_optional_members x \<longleftrightarrow> list_all (\<lambda>f. fe_label f \<noteq> Some OPTIONAL) (oo_fields x)"

lemma place_members:
  assumes "rmap (serialize_field x) fs = Inr fds" and "keeps_int32 x" and "list_all (\<lambda>f. fe_label f \<noteq> Some OPTIONAL) fs"
    and "i < length oos" and "oos ! i = Some e"
  shows "rfold place_field (map (\<lambda>d. d\<lparr>fd_oneof_index := Some i\<rparr>) fds) (acc, oos) =
    Inr (acc, oos[i := Some (e\<lparr>oo_fields := oo_fields e @ map stored_field fs\<rparr>)])"
  using assms
proof (induction fs arbitrary: fds oos e)
  case Nil
  then have "oos[i := Some e] = oos" by (metis list_update_id)
  with Nil show ?case by simp
next
  case (Cons f fs)
  then obtain d ds where d: "serialize_field x f = Inr d" "rmap (serialize_field x) fs = Inr ds" "fds = d # ds" by auto
  let ?e = "e\<lparr>oo_fields := oo_fields e @ [stored_field f]\<rparr>"
  have "place_field (d\<lparr>fd_oneof_index := Some i\<rparr>) (acc, oos) = Inr (acc, oos[i := Some ?e])"
    using Cons.prems field_round_trip [OF d(1) Cons.prems(2)] by (simp add: place_field_def)
  then show ?case
    using d Cons.IH [OF d(2), of "oos[i := Some ?e]" ?e] Cons.prems by simp
qed

lemma place_one_ofs:
  assumes "serialize_one_ofs x (length bs) oneofs = Inr fds" and "keeps_int32 x" and "list_all no_optional_members oneofs"
  shows "rfold place_field fds (acc, bs @ map (\<lambda>n. Some (empty_one_of n)) (map oo_name oneofs)) =
    Inr (acc, bs @ map (\<lambda>y. Some (stored_one_of y)) oneofs)"
  using assms
proof (induction oneofs arbitrary: bs fds)
  case (Cons y ys)
  then obtain ds rest where ds: "rmap (serialize_field x) (oo_fields y) = Inr ds"
      "serialize_one_ofs x (length (bs @ [Some (stored_one_of y)])) ys = Inr rest"
      "fds = map (\<lambda>d. d\<lparr>fd_oneof_index := Some (length bs)\<rparr>) ds @ rest"
    by auto
  let ?oos = "bs @ map (\<lambda>n. Some (empty_one_of n)) (map oo_name (y # ys))"
  have "rfold place_field (map (\<lambda>d. d\<lparr>fd_oneof_index := Some (length bs)\<rparr>) ds) (acc, ?oos) =
      Inr (acc, (bs @ [Some (stored_one_of y)]) @ map (\<lambda>n. Some (empty_one_of n)) (map oo_name ys))"
    using place_members [OF ds(1) Cons.prems(2), of "length bs" ?oos "empty_one_of (oo_name y)"] Cons.prems(3)
    by (simp add: no_optional_members_def nth_append list_update_append stored_one_of_def empty_one_of_def)
  then show ?case
    using ds(3) Cons.IH [OF ds(2)] Cons.prems by (simp add: rfold_append)
qed simp

section \<open>Messages and files\<close>

definition range_entries :: "reserved_value list \<Rightarrow> reserved_value list" where
  "range_entries vs = concat (map (\<lambda>v. case v of RInt i \<Rightarrow> [RInt i]
     | RRange a b \<Rightarrow> [if a = b then RInt a else RRange a b] | RStr s \<Rightarrow> []) vs)"

definition name_entries :: "reserved_value list \<Rightarrow> reserved_value list" where
  "name_entries vs = concat (map (\<lambda>v. case v of RStr s \<Rightarrow> [RStr s] | _ \<Rightarrow> []) vs)"

lemma assign_rangeD: "assign_range x a b = Inr r \<Longrightarrow> keeps_int32 x \<Longrightarrow> r = (a, b)"
  by (auto simp: assign_range_def dest: keeps_int32D)

lemma reserved_round_trip:
  "serialize_reserved x vs = Inr (ranges, names) \<Longrightarrow> keeps_int32 x \<Longrightarrow>
     map deserialize_reserved ranges = range_entries vs \<and> map RStr names = name_entries vs"
proof (induction vs arbitrary: ranges names)
  case (Cons v vs)
  then show ?case
    by (cases v) (auto simp: range_entries_def name_entries_def deserialize_reserved_def dest: assign_rangeD)
qed (simp add: range_entries_def name_entries_def)

lemma stored_reserved_entries:
  "stored_reserved vs =
     (if range_entries vs @ name_entries vs = [] then []
      else [\<lparr>re_location = DEFAULT_LOCATION, re_values = range_entries vs @ name_entries vs, re_documentation = []\<rparr>])"
  unfolding stored_reserved_def range_entries_def name_entries_def Let_def ..

lemma constant_round_trip:
  "rmap (serialize_constant x) cs = Inr vs \<Longrightarrow> keeps_int32 x \<Longrightarrow>
     map (\<lambda>c. \<lparr>ec_location = DEFAULT_LOCATION, ec_name = ev_name c, ec_tag = ev_number c, ec_documentation = [],
                  ec_options = (if ev_deprecated c
                    then [OptionElement ''deprecated'' (KBoolean (PStr ''true'')) False] else [])\<rparr>) vs = map stored_constant cs"
  by (induction cs arbitrary: vs) (auto simp: serialize_constant_def stored_constant_def dest: keeps_int32D)

lemma enum_round_trip:
  "serialize_enumtype x name cs = Inr e \<Longrightarrow> keeps_int32 x \<Longrightarrow>
     deserialize_enum e = stored_type (EnumElement l name d os cs)"
  by (auto simp: serialize_enumtype_def deserialize_enum_def constant_round_trip)

fun members_ok :: "type_element \<Rightarrow> bool" where
  "members_ok (MessageElement l n d os ts rs fs oos xs gs) \<longleftrightarrow>
     list_all no_optional_members oos \<and> list_all members_ok ts"
| "members_ok (EnumElement l n d os cs) \<longleftrightarrow> True"

abbreviation stored_messages :: "type_element list \<Rightarrow> type_element list" where
  "stored_messages ts \<equiv> concat (map (\<lambda>t. if is_message t then [stored_type t] else []) ts)"

abbreviation stored_enums :: "type_element list \<Rightarrow> type_element list" where
  "stored_enums ts \<equiv> concat (map (\<lambda>t. if is_message t then [] else [stored_type t]) ts)"

lemma message_round_trip:
  "serialize_msgtype x t = Inr m \<Longrightarrow> keeps_int32 x \<Longrightarrow> members_ok t \<Longrightarrow> deserialize_msg m = Inr (stored_type t)"
  "serialize_nested x ts = Inr (ms, es) \<Longrightarrow> keeps_int32 x \<Longrightarrow> list_all members_ok ts \<Longrightarrow>
     rmap deserialize_msg ms = Inr (stored_messages ts) \<and> map deserialize_enum es = stored_enums ts"
proof (induction x t and x ts arbitrary: m and ms es rule: serialize_msgtype_serialize_nested.induct)
  case (1 x l name d os ts reserveds fs one_ofs xs gs)
  then obtain nested enums ranges names fds oneof_fds where parts:
      "serialize_nested x ts = Inr (nested, enums)"
      "serialize_reserved x (concat (map re_values reserveds)) = Inr (ranges, names)"
      "rmap (serialize_field x) fs = Inr fds" "serialize_one_ofs x 0 one_ofs = Inr oneof_fds"
      "m = Descriptor name nested enums ranges names (fds @ oneof_fds) (map oo_name one_ofs)"
    by auto
  have nested: "rmap deserialize_msg nested = Inr (stored_messages ts)" "map deserialize_enum enums = stored_enums ts"
    using 1(1) [OF parts(1) 1(3)] 1(4) by simp_all
  have "rfold place_field oneof_fds (map stored_field fs, map (\<lambda>n. Some (empty_one_of n)) (map oo_name one_ofs)) =
      Inr (map stored_field fs, map (\<lambda>y. Some (stored_one_of y)) one_ofs)"
    using place_one_ofs [of x "[]" one_ofs oneof_fds] parts(4) 1(3,4) by simp
  then have "rfold place_field (fds @ oneof_fds) ([], map (\<lambda>n. Some (empty_one_of n)) (map oo_name one_ofs)) =
      Inr (map stored_field fs, map (\<lambda>y. Some (stored_one_of y)) one_ofs)"
    using place_fields [OF parts(3) 1(3)] by (simp add: rfold_append)
  moreover have "map the (filter (\<lambda>z. z \<noteq> None) (map (\<lambda>y. Some (stored_one_of y)) one_ofs)) = map stored_one_of one_ofs"
    by (induction one_ofs) auto
  ultimately show ?case
    using nested reserved_round_trip [OF parts(2) 1(3)]
    by (simp add: parts(5) Let_def stored_reserved_entries del: map_map)
next
  case (4 x l name d os us reserveds fs one_ofs xs gs ts)
  then show ?case by fastforce
next
  case (5 x l name d os cs ts)
  then obtain e es' where e: "serialize_enumtype x name cs = Inr e" "serialize_nested x ts = Inr (ms, es')" "es = e # es'"
    by auto
  then show ?case
    using 5(1) [OF e(1,2)] 5(3,4) enum_round_trip [OF e(1) 5(3)] by simp
qed simp_all

lemma split_imports_plain:
  "list_all (\<lambda>j. j < i) public \<Longrightarrow> split_imports public i ds = (ds, [])"
proof (induction ds arbitrary: i)
  case (Cons d ds)
  then have "i \<notin> set public" "list_all (\<lambda>j. j < Suc i) public"
    by (auto simp: list_all_iff)
  then show ?case using Cons.IH [of "Suc i"] by simp
qed simp

lemma split_imports_public:
  "split_imports [0..<i + length ps] i (ps @ ds) = (ds, ps)"
proof (induction ps arbitrary: i)
  case Nil
  show ?case using split_imports_plain [of i "[0..<i]" ds] by (simp add: list_all_iff)
next
  case (Cons p ps)
  show ?case using Cons.IH [of "Suc i"] by simp
qed

text \<open>The file options that the library accepts are stored as they are.\<close>

definition keeps_options :: "'x pbx_scheme \<Rightarrow> option_element list \<Rightarrow> bool" where
  "keeps_options x options \<longleftrightarrow>
     (\<forall>opt \<in> set options. \<forall>p. assign_option x (oe_name opt) (kv_value (oe_value opt)) = Inr p \<longrightarrow>
        kv_value (oe_value opt) = OvPrim p)"

abbreviation option_values :: "option_element list \<Rightarrow> (string \<times> option_value) list" where
  "option_values options \<equiv> rev (map (\<lambda>x. (oe_name x, kv_value (oe_value x))) options)"

lemma serialized_option:
  assumes "serialize_options x options r = Inr fo" and "keeps_options x options" and "n \<in> fst ` set file_options"
  shows "map_option OvPrim (map_of fo n) =
    (case map_of (option_values options) n of None \<Rightarrow> map_option OvPrim (map_of r n) | Some v \<Rightarrow> Some v)"
  using assms
proof (induction options arbitrary: r)
  case Nil
  then show ?case by (simp add: serialize_options_def)
next
  case (Cons opt options)
  have kept: "keeps_options x options" using Cons.prems(2) by (simp add: keeps_options_def)
  obtain r' where r': "serialize_options x options r' = Inr fo"
      "if oe_name opt \<in> fst ` set file_options
       then \<exists>p. kv_value (oe_value opt) = OvPrim p \<and> r' = dict_set r (oe_name opt) p else r' = r"
    using Cons.prems(1,2) by (auto simp: serialize_options_def keeps_options_def split: if_splits)
  then show ?case
    using Cons.IH [OF r'(1) kept Cons.prems(3)] Cons.prems(3)
    by (cases "oe_name opt = n") (auto simp: update_conv map_add_def split: option.splits if_splits)
qed

lemma options_round_trip:
  assumes "serialize_options x options [] = Inr fo" and "keeps_options x options"
  shows "deserialize_options fo = stored_options options"
proof -
  have "(case map_of fo n of None \<Rightarrow> [] | Some v \<Rightarrow> [OptionElement n (kind v) False]) =
      (case map_of (option_values options) n of Some (OvPrim v) \<Rightarrow> [OptionElement n (kind v) False] | _ \<Rightarrow> [])"
    if "(n, kind) \<in> set file_options" for n kind
  proof -
    have "n \<in> fst ` set file_options" using that by force
    from serialized_option [OF assms this] show ?thesis
      by (cases "map_of fo n"; cases "map_of (option_values options) n") auto
  qed
  then show ?thesis
    unfolding deserialize_options_def stored_options_def by (intro arg_cong [where f = concat] map_cong) auto
qed

lemma syntax_round_trip: "mk_syntax (syntax_str s) = Inr s"
  by (cases s) (simp_all add: mk_syntax_def)

lemma stored_types_grouped:
  "stored_messages ts = map stored_type (filter is_message ts)"
  "stored_enums ts = map stored_type (filter (\<lambda>t. \<not> is_message t) ts)"
  by (induction ts) simp_all

lemma file_round_trip:
  assumes "serialize_file x e = Inr fd" and "keeps_int32 x" and "keeps_options x (pf_options e)"
    and "list_all members_ok (pf_types e)"
  shows "deserialize_file fd = Inr (stored_file e)"
proof -
  obtain fo ms es where parts: "serialize_options x (pf_options e) [] = Inr fo" "serialize_nested x (pf_types e) = Inr (ms, es)"
    and fd: "fd = \<lparr>fdp_syntax = (case pf_syntax e of None \<Rightarrow> [] | Some s \<Rightarrow> syntax_str s), fdp_package = package_of e,
            fdp_options = fo, fdp_dependency = pf_public_imports e @ pf_imports e,
            fdp_public_dependency = [0..<length (pf_public_imports e)], fdp_message_type = ms, fdp_enum_type = es\<rparr>"
    using assms(1) by (auto simp: serialize_file_def package_of_def)
  have syn: "(if fdp_syntax fd = [] then Inr None else rbind (mk_syntax (fdp_syntax fd)) (\<lambda>s. Inr (Some s))) = Inr (pf_syntax e)"
  proof (cases "pf_syntax e")
    case (Some s)
    have "syntax_str s \<noteq> []" by (cases s) simp_all
    with Some show ?thesis by (simp add: fd syntax_round_trip)
  qed (simp add: fd)
  show ?thesis
    using message_round_trip(2) [OF parts(2) assms(2,4)] options_round_trip [OF parts(1) assms(3)]
      split_imports_public [of 0 "pf_public_imports e" "pf_imports e"]
    unfolding deserialize_file_def syn by (simp add: fd stored_file_def stored_types_grouped)
qed

text \<open>
  C35: A Protobuf schema that is converted to a descriptor, serialised and stored as base64, then decoded, parsed
  and converted back is the schema in its stored form: the same package, syntax, imports, public imports, known file
  options, messages and enumerations with their names, nested types, fields (name, tag, type, label), one-ofs and
  reserved entries. It relies on the library reading back the bytes it wrote, on base64 decoding what it encoded, on
  stored integers and option values being the assigned ones, and on one-of members not being marked optional (they
  cannot be in a Protobuf file).
\<close>

theorem schema_descriptor_roundtrip:
  assumes "serialize_file x e = Inr fd"
    and "parse_from_string x (serialize_to_string x fd) = Inr fd"
    and "b64decode x (b64encode x (serialize_to_string x fd)) = Some (serialize_to_string x fd)"
    and "keeps_int32 x" and "keeps_options x (pf_options e)" and "list_all members_ok (pf_types e)"
  shows "\<exists>b64. pb_serialize x e = Inr b64 \<and> pb_deserialize x b64 = Some (Inr (stored_file e))"
  using assms(1,2,3) file_round_trip [OF assms(1,4,5,6)] by (simp add: pb_serialize_def pb_deserialize_def)

definition sample_member :: "string \<Rightarrow> string \<Rightarrow> int \<Rightarrow> label option \<Rightarrow> field_element" where
  "sample_member n ty i l =
     \<lparr>fe_location = DEFAULT_LOCATION, fe_label = l, fe_element_type = ty, fe_name = n, fe_default_value = None,
      fe_json_name = None, fe_tag = i, fe_documentation = ''kept in the text only'', fe_options = []\<rparr>"

definition sample_proto :: proto_file_element where
  "sample_proto =
     \<lparr>pf_location = DEFAULT_LOCATION, pf_package_name = None, pf_syntax = Some PROTO_3, pf_imports = [''a.proto''],
      pf_public_imports = [''b.proto'', ''c.proto''],
      pf_types =
        [MessageElement DEFAULT_LOCATION ''M'' [] []
           [EnumElement DEFAULT_LOCATION ''E'' [] []
              [\<lparr>ec_location = DEFAULT_LOCATION, ec_name = ''A'', ec_tag = 0, ec_documentation = [], ec_options = []\<rparr>]]
           [\<lparr>re_location = DEFAULT_LOCATION, re_values = [RStr ''old'', RInt 7, RRange 9 11], re_documentation = []\<rparr>]
           [sample_member ''id'' ''int64'' 1 (Some OPTIONAL), sample_member ''xs'' ''E'' 2 (Some REPEATED)]
           [\<lparr>oo_name = ''choice'', oo_documentation = [], oo_fields = [sample_member ''s'' ''string'' 3 None],
             oo_groups = [], oo_options = []\<rparr>] [] []],
      pf_services = [], pf_extend_declarations = [],
      pf_options = [OptionElement ''go_package'' (KString (PStr ''x/y'')) False]\<rparr>"

definition sample_descriptor :: file_descriptor where
  "sample_descriptor =
     \<lparr>fdp_syntax = ''proto3'', fdp_package = [], fdp_options = [(''go_package'', PStr ''x/y'')],
      fdp_dependency = [''b.proto'', ''c.proto'', ''a.proto''], fdp_public_dependency = [0, 1],
      fdp_message_type =
        [Descriptor ''M'' [] [\<lparr>ed_name = ''E'', ed_values = [\<lparr>ev_name = ''A'', ev_number = 0, ev_deprecated = False\<rparr>]\<rparr>]
           [(7, 8), (9, 12)] [''old'']
           [\<lparr>fd_name = Some ''id'', fd_number = Some 1, fd_label = Some OPTIONAL, fd_type = Some TYPE_INT64,
             fd_type_name = None, fd_oneof_index = None, fd_proto3_optional = Some True\<rparr>,
            \<lparr>fd_name = Some ''xs'', fd_number = Some 2, fd_label = Some REPEATED, fd_type = None,
             fd_type_name = Some ''E'', fd_oneof_index = None, fd_proto3_optional = None\<rparr>,
            \<lparr>fd_name = Some ''s'', fd_number = Some 3, fd_label = Some OPTIONAL, fd_type = Some TYPE_STRING,
             fd_type_name = None, fd_oneof_index = Some 0, fd_proto3_optional = None\<rparr>]
           [''choice'']],
      fdp_enum_type = []\<rparr>"

definition sample_pbx :: pbx where
  "sample_pbx =
     \<lparr>assign_int32 = (\<lambda>i. if - (2 ^ 31) \<le> i \<and> i < 2 ^ 31 then Inr i else Inl ValueError),
      assign_option = (\<lambda>n v. case v of OvPrim p \<Rightarrow> Inr p | _ \<Rightarrow> Inl TypeError),
      serialize_to_string = (\<lambda>d. fdp_package d), parse_from_string = (\<lambda>s. Inr (sample_descriptor\<lparr>fdp_package := s\<rparr>)),
      b64encode = (\<lambda>s. ''b'' @ s), b64decode = (\<lambda>s. if s = [] then None else Some (tl s))\<rparr>"

lemma sample_pbx_serializes: "serialize_file sample_pbx sample_proto = Inr sample_descriptor"
  by code_simp

lemma sample_pbx_laws: "keeps_int32 sample_pbx" "keeps_options sample_pbx options"
  by (auto simp: keeps_int32_def keeps_options_def sample_pbx_def split: if_splits option_value.splits)

lemma sample_members_ok: "list_all members_ok (pf_types sample_proto)"
  by code_simp

theorem schema_descriptor_roundtrip_witness:
  "\<exists>b64. pb_serialize sample_pbx sample_proto = Inr b64 \<and> pb_deserialize sample_pbx b64 = Some (Inr (stored_file sample_proto))"
  by (rule schema_descriptor_roundtrip [OF sample_pbx_serializes _ _ sample_pbx_laws sample_members_ok])
    (simp_all add: sample_pbx_def sample_descriptor_def)

end
