(* ===== verification/Rest_Base.thy ===== *)
theory Rest_Base
  imports Serialization Py_Strings
begin

text \<open>
  What the handlers of the Kafka REST proxy share: the HTTP answers they raise
  (\<open>karapace/kafka_rest_apis/karapace.py\<close>), the error codes (\<open>error_codes.py\<close>), the conversion of JSON members to
  integers (\<open>convert_to_int.py\<close>) and actions, functions on a state that may raise. A handler never returns: it ends
  by raising its answer, as in the code. The texts of messages are left out; an answer has its status and
  error code.
\<close>

named_theorems act_simps \<open>running an action\<close>
named_theorems keeps_intros \<open>actions that keep a property of the state\<close>

section \<open>Answers and exceptions\<close>

definition HTTP_OK :: nat where
  "HTTP_OK = 200"

definition HTTP_NO_CONTENT :: nat where
  "HTTP_NO_CONTENT = 204"

definition HTTP_BAD_REQUEST :: nat where
  "HTTP_BAD_REQUEST = 400"

definition HTTP_UNAUTHORIZED :: nat where
  "HTTP_UNAUTHORIZED = 401"

definition HTTP_FORBIDDEN :: nat where
  "HTTP_FORBIDDEN = 403"

definition HTTP_NOT_FOUND :: nat where
  "HTTP_NOT_FOUND = 404"

definition HTTP_NOT_ACCEPTABLE :: nat where
  "HTTP_NOT_ACCEPTABLE = 406"

definition HTTP_REQUEST_TIMEOUT :: nat where
  "HTTP_REQUEST_TIMEOUT = 408"

definition HTTP_CONFLICT :: nat where
  "HTTP_CONFLICT = 409"

definition HTTP_UNSUPPORTED_MEDIA_TYPE :: nat where
  "HTTP_UNSUPPORTED_MEDIA_TYPE = 415"

definition HTTP_UNPROCESSABLE_ENTITY :: nat where
  "HTTP_UNPROCESSABLE_ENTITY = 422"

definition HTTP_INTERNAL_SERVER_ERROR :: nat where
  "HTTP_INTERNAL_SERVER_ERROR = 500"

definition HTTP_SERVICE_UNAVAILABLE :: nat where
  "HTTP_SERVICE_UNAVAILABLE = 503"


datatype rest_error_code =
    CodeHttp nat | TOPIC_NOT_FOUND | PARTITION_NOT_FOUND | CONSUMER_NOT_FOUND | UNKNOWN_TOPIC_OR_PARTITION | UNSUPPORTED_FORMAT
  | SCHEMA_RETRIEVAL_ERROR | CONSUMER_ALREADY_EXISTS | ILLEGAL_STATE | INVALID_CONSUMER_PARAMETERS | INVALID_DATA
  | INVALID_VALUE | RecordCode nat

fun code_value :: "rest_error_code \<Rightarrow> nat" where
  "code_value (CodeHttp n) = n"
| "code_value TOPIC_NOT_FOUND = 40401"
| "code_value PARTITION_NOT_FOUND = 40402"
| "code_value CONSUMER_NOT_FOUND = 40403"
| "code_value UNKNOWN_TOPIC_OR_PARTITION = 40403"
| "code_value UNSUPPORTED_FORMAT = 40601"
| "code_value SCHEMA_RETRIEVAL_ERROR = 40801"
| "code_value CONSUMER_ALREADY_EXISTS = 40902"
| "code_value ILLEGAL_STATE = 40903"
| "code_value INVALID_CONSUMER_PARAMETERS = 42204"
| "code_value INVALID_DATA = 42205"
| "code_value INVALID_VALUE = 50001"
| "code_value (RecordCode n) = n"

text \<open>A body is a JSON value, an error object with its code, or an object with a message only.\<close>

datatype rest_body = JsonBody json | ErrorBody nat | MessageBody

text \<open>The exceptions of the Kafka clients; all but the last are subclasses of \<open>aiokafka.errors.KafkaError\<close>.\<close>

datatype kafka_exn =
    KafkaConfigurationError
  | UnknownError bool
  | GroupAuthorizationFailedError
  | TopicAuthorizationFailedError
  | UnknownTopicOrPartitionError
  | IllegalStateError
  | NoBrokersAvailable
  | AuthenticationFailedError
  | KafkaTimeoutError
  | BrokerResponseError bool
  | OtherKafkaError
  | KafkaException

text \<open>
  \<open>UnknownError b\<close>: \<open>b\<close> says whether the trace contains the text of the missing stored offset.
  \<open>BrokerResponseError b\<close>: \<open>b\<close> says whether it can be retried.
\<close>

datatype rest_exn =
    HTTPResponse (resp_status: nat) (resp_body: rest_body)
  | Kafka kafka_exn
  | SerExn ser_exn
  | Py exn
  | DeserializationError
  | FormatError

type_synonym 'x rest = "(rest_exn, 'x) result"

definition r_error :: "nat \<Rightarrow> rest_error_code \<Rightarrow> rest_exn" where
  "r_error status sub_code = HTTPResponse status (ErrorBody (code_value sub_code))"

definition internal_error :: rest_exn where
  "internal_error = r_error HTTP_INTERNAL_SERVER_ERROR (CodeHttp HTTP_INTERNAL_SERVER_ERROR)"

definition unprocessable_entity :: "rest_error_code \<Rightarrow> rest_exn" where
  "unprocessable_entity sub_code = r_error HTTP_UNPROCESSABLE_ENTITY sub_code"

definition not_found :: "rest_error_code \<Rightarrow> rest_exn" where
  "not_found sub_code = r_error HTTP_NOT_FOUND sub_code"

definition service_unavailable :: "rest_error_code \<Rightarrow> rest_exn" where
  "service_unavailable sub_code = r_error HTTP_SERVICE_UNAVAILABLE sub_code"

definition empty_response :: rest_exn where
  "empty_response = HTTPResponse HTTP_NO_CONTENT (JsonBody (JObj []))"

definition ok_response :: "json \<Rightarrow> rest_exn" where
  "ok_response body = HTTPResponse HTTP_OK (JsonBody body)"

definition forbidden :: rest_exn where
  "forbidden = HTTPResponse HTTP_FORBIDDEN MessageBody"

definition http_error_response :: "nat \<Rightarrow> rest_exn" where
  "http_error_response code = HTTPResponse code (ErrorBody code)"

definition py :: "'x res \<Rightarrow> 'x rest" where
  "py r = (case r of Inl x \<Rightarrow> Inl (Py x) | Inr y \<Rightarrow> Inr y)"

lemma py_simps [simp]: "py (Inl x) = Inl (Py x)" "py (Inr y) = Inr y" "py r = Inr y \<longleftrightarrow> r = Inr y"
  by (auto simp: py_def split: sum.splits)

section \<open>JSON members\<close>

text \<open>\<open>int(x)\<close>. A float is cut off; a list, an object and \<open>None\<close> raise \<open>TypeError\<close>.\<close>

definition truncate_rat :: "rat \<Rightarrow> int" where
  "truncate_rat r = (if r < 0 then \<lceil>r\<rceil> else \<lfloor>r\<rfloor>)"

fun json_int :: "json \<Rightarrow> int res" where
  "json_int (JBool b) = Inr (if b then 1 else 0)"
| "json_int (JInt i) = Inr i"
| "json_int (JFloat r) = Inr (truncate_rat r)"
| "json_int (JStr s) = py_int s"
| "json_int _ = Inl TypeError"

definition convert_to_int :: "(string, json) dict \<Rightarrow> string \<Rightarrow> (string, json) dict rest" where
  "convert_to_int object key =
     (case dict_get object key of
        None \<Rightarrow> Inr object
      | Some JNull \<Rightarrow> Inr object
      | Some v \<Rightarrow>
          (case json_int v of
             Inr i \<Rightarrow> Inr (dict_set object key (JInt i))
           | Inl ValueError \<Rightarrow> Inl (http_error_response HTTP_INTERNAL_SERVER_ERROR)
           | Inl x \<Rightarrow> Inl (Py x)))"

text \<open>\<open>for x in v\<close>, \<open>v.get\<close> and \<open>key in v\<close> on a JSON value of any type.\<close>

fun json_iter :: "json \<Rightarrow> json list rest" where
  "json_iter (JArr xs) = Inr xs"
| "json_iter (JObj d) = Inr (map JStr (dict_keys d))"
| "json_iter (JStr s) = Inr (map (\<lambda>c. JStr [c]) s)"
| "json_iter _ = Inl (Py TypeError)"

fun json_dict :: "json \<Rightarrow> (string, json) dict rest" where
  "json_dict (JObj d) = Inr d"
| "json_dict _ = Inl (Py AttributeError)"

fun json_in :: "string \<Rightarrow> json \<Rightarrow> bool rest" where
  "json_in k (JObj d) = Inr (dict_get d k \<noteq> None)"
| "json_in k (JArr xs) = Inr (JStr k \<in> set xs)"
| "json_in k (JStr s) = Inr (contains_text s k)"
| "json_in k _ = Inl (Py TypeError)"

definition dict_index :: "(string, json) dict \<Rightarrow> string \<Rightarrow> json rest" where
  "dict_index d k = of_option (Py KeyError) (dict_get d k)"

text \<open>A key of a dictionary has to be hashable.\<close>

fun json_hashable :: "json \<Rightarrow> bool" where
  "json_hashable (JArr xs) \<longleftrightarrow> False"
| "json_hashable (JObj d) \<longleftrightarrow> False"
| "json_hashable _ \<longleftrightarrow> True"

lemma convert_to_int_result:
  assumes "convert_to_int d k = Inr d'" and "dict_get d' k = Some v"
  shows "v = JNull \<or> (\<exists>i. v = JInt i)"
  using assms by (auto simp: convert_to_int_def split: option.splits json.splits sum.splits exn.splits)

lemma convert_to_int_frame:
  assumes "convert_to_int d k = Inr d'" and "k' \<noteq> k"
  shows "dict_get d' k' = dict_get d k'"
  using assms by (auto simp: convert_to_int_def split: option.splits json.splits sum.splits exn.splits)

section \<open>Actions\<close>

type_synonym ('s, 'x) rest_act = "'s \<Rightarrow> 'x rest \<times> 's"

definition act_return :: "'x \<Rightarrow> ('s, 'x) rest_act" where
  "act_return x s = (Inr x, s)"

definition act_raise :: "rest_exn \<Rightarrow> ('s, 'x) rest_act" where
  "act_raise e s = (Inl e, s)"

definition act_lift :: "'x rest \<Rightarrow> ('s, 'x) rest_act" where
  "act_lift r s = (r, s)"

definition act_bind :: "('s, 'x) rest_act \<Rightarrow> ('x \<Rightarrow> ('s, 'y) rest_act) \<Rightarrow> ('s, 'y) rest_act" where
  "act_bind m f s = (case m s of (Inl e, s') \<Rightarrow> (Inl e, s') | (Inr x, s') \<Rightarrow> f x s')"

definition act_catch :: "('s, 'x) rest_act \<Rightarrow> (rest_exn \<Rightarrow> ('s, 'x) rest_act) \<Rightarrow> ('s, 'x) rest_act" where
  "act_catch m h s = (case m s of (Inl e, s') \<Rightarrow> h e s' | (Inr x, s') \<Rightarrow> (Inr x, s'))"

definition act_get :: "('s \<Rightarrow> 'x) \<Rightarrow> ('s, 'x) rest_act" where
  "act_get f s = (Inr (f s), s)"

definition act_modify :: "('s \<Rightarrow> 's) \<Rightarrow> ('s, unit) rest_act" where
  "act_modify f s = (Inr (), f s)"

fun act_map :: "('a \<Rightarrow> ('s, 'x) rest_act) \<Rightarrow> 'a list \<Rightarrow> ('s, 'x list) rest_act" where
  "act_map f [] = act_return []"
| "act_map f (a # as) = act_bind (f a) (\<lambda>x. act_bind (act_map f as) (\<lambda>xs. act_return (x # xs)))"

lemma act_run [act_simps]:
  "act_return x s = (Inr x, s)" "act_raise e s = (Inl e, s)" "act_lift r s = (r, s)"
  "act_get f s = (Inr (f s), s)" "act_modify g s = (Inr (), g s)"
  by (simp_all add: act_return_def act_raise_def act_lift_def act_get_def act_modify_def)

lemma act_bind_result:
  assumes "act_bind m f s = (r, s')"
  obtains e where "m s = (Inl e, s')" "r = Inl e" | x t where "m s = (Inr x, t)" "f x t = (r, s')"
  using assms by (auto simp: act_bind_def split: prod.splits sum.splits)

lemma act_catch_result:
  assumes "act_catch m h s = (r, s')"
  obtains x where "m s = (Inr x, s')" "r = Inr x" | e t where "m s = (Inl e, t)" "h e t = (r, s')"
  using assms by (auto simp: act_catch_def split: prod.splits sum.splits)

text \<open>An action keeps a property of the state if it holds afterwards, whether the action returns or raises.\<close>

definition keeps :: "('s \<Rightarrow> bool) \<Rightarrow> ('s, 'x) rest_act \<Rightarrow> bool" where
  "keeps P m \<longleftrightarrow> (\<forall>s. P s \<longrightarrow> P (snd (m s)))"

lemma keepsI: "(\<And>s. P s \<Longrightarrow> P (snd (m s))) \<Longrightarrow> keeps P m"
  by (simp add: keeps_def)

lemma keepsD: "keeps P m \<Longrightarrow> P s \<Longrightarrow> m s = (r, s') \<Longrightarrow> P s'"
  by (metis keeps_def snd_conv)

lemma keeps_after: "keeps P m \<Longrightarrow> P s \<Longrightarrow> P (snd (m s))"
  by (simp add: keeps_def)

lemma keeps_basic [keeps_intros]:
  "keeps P (act_return x)" "keeps P (act_raise e)" "keeps P (act_lift r)" "keeps P (act_get f)"
  by (simp_all add: keeps_def act_simps)

lemma keeps_bind [keeps_intros]: "keeps P m \<Longrightarrow> (\<And>x. keeps P (f x)) \<Longrightarrow> keeps P (act_bind m f)"
  by (rule keepsI) (auto simp: act_bind_def split: prod.splits sum.splits intro: keepsD keeps_after)

lemma keeps_catch [keeps_intros]: "keeps P m \<Longrightarrow> (\<And>e. keeps P (h e)) \<Longrightarrow> keeps P (act_catch m h)"
  by (rule keepsI) (auto simp: act_catch_def split: prod.splits sum.splits intro: keepsD keeps_after)

lemma keeps_if [keeps_intros]: "keeps P m \<Longrightarrow> keeps P m' \<Longrightarrow> keeps P (if b then m else m')"
  by simp

lemma keeps_option [keeps_intros]: "keeps P m \<Longrightarrow> (\<And>x. keeps P (f x)) \<Longrightarrow> keeps P (case y of None \<Rightarrow> m | Some x \<Rightarrow> f x)"
  by (cases y) simp_all

lemma keeps_map [keeps_intros]: "(\<And>a. keeps P (f a)) \<Longrightarrow> keeps P (act_map f as)"
  by (induction as) (simp_all add: keeps_basic keeps_bind)

lemma keeps_modify: "(\<And>s. P s \<Longrightarrow> P (f s)) \<Longrightarrow> keeps P (act_modify f)"
  by (rule keepsI) (simp add: act_simps)

end
