(* ===== verification/Rest_Consumers.thy ===== *)
theory Rest_Consumers
  imports Rest_Base
begin

text \<open>
  \<open>karapace/kafka_rest_apis/consumer_manager.py\<close>: the consumers of the REST proxy. The Kafka clients, the clock and
  the other consumers of the cluster are the world \<open>'w\<close> that every call to a client is given and returns
  changed; the operations of the clients are the record \<open>kafka_ops\<close>, and \<open>'h\<close> is a client object. The lock of a
  consumer makes the part of a handler after its checks atomic; that part is a definition of its own
  (\<open>*_locked\<close>), and \<open>Consumer_Properties\<close> also runs the two parts interleaved. The fetch loop waits for messages
  until the clock reaches a limit; it is a partial function that is undefined if the clock never does.
\<close>

section \<open>Data\<close>

datatype offset_value = Offset int | OFFSET_BEGINNING | OFFSET_END | OFFSET_INVALID

record topic_partition =
  tp_topic :: string
  tp_partition :: int
  tp_offset :: offset_value

record consumed_message =
  cmsg_error :: "kafka_exn option"
  cmsg_topic :: string
  cmsg_partition :: int
  cmsg_offset :: int
  cmsg_timestamp :: "int option"
  cmsg_key :: "bytes option"
  cmsg_value :: "bytes option"

record partition_metadata =
  pm_partition :: int
  pm_leader :: int
  pm_replicas :: "(int \<times> bool \<times> bool) list"

record topic_metadata =
  tm_partitions :: "partition_metadata list"
  tm_name :: "string option"
  tm_configs :: "json option"

record cluster_metadata =
  md_topics :: "(string, topic_metadata) dict"
  md_brokers :: "int list"

text \<open>The settings of the configuration that the manager reads; the others are passed to the clients unchanged.\<close>

record consumer_config =
  cc_rest_base_uri :: string
  cc_consumer_enable_auto_commit :: bool
  cc_consumer_request_timeout_ms :: int
  cc_consumer_request_max_bytes :: int
  cc_fetch_min_bytes :: int
  cc_session_timeout_ms :: int

text \<open>A name is a group and a consumer; the name of a consumer comes from the request and may be any JSON value.\<close>

type_synonym internal_name = "string \<times> json"

record 'h typed_consumer =
  tc_consumer :: 'h
  tc_serialization_format :: json
  tc_config :: "(string, json) dict"

record ('h, 'w) consumers_state =
  cm_consumers :: "(internal_name, 'h typed_consumer) dict"
  cm_world :: 'w

text \<open>The arguments of a new client that come from the request or are computed.\<close>

record consumer_settings =
  st_group_id :: string
  st_client_id :: json
  st_auto_offset_reset :: json
  st_enable_auto_commit :: json
  st_fetch_min_bytes :: int
  st_socket_timeout_ms :: int
  st_topic_metadata_refresh_interval_ms :: "json option"

record ('h, 'w) kafka_ops =
  ko_topic_partition :: "json \<Rightarrow> json \<Rightarrow> offset_value \<Rightarrow> topic_partition rest"
  ko_create :: "consumer_settings \<Rightarrow> 'w \<Rightarrow> 'h rest \<times> 'w"
  ko_stop :: "'h \<Rightarrow> 'w \<Rightarrow> unit rest \<times> 'w"
  ko_commit :: "'h \<Rightarrow> topic_partition list option \<Rightarrow> 'w \<Rightarrow> unit rest \<times> 'w"
  ko_committed :: "'h \<Rightarrow> topic_partition \<Rightarrow> 'w \<Rightarrow> int option list rest \<times> 'w"
  ko_subscribe :: "'h \<Rightarrow> json \<Rightarrow> json list option \<Rightarrow> 'w \<Rightarrow> unit rest \<times> 'w"
  ko_subscription :: "'h \<Rightarrow> 'w \<Rightarrow> string list rest \<times> 'w"
  ko_unsubscribe :: "'h \<Rightarrow> 'w \<Rightarrow> unit rest \<times> 'w"
  ko_assign :: "'h \<Rightarrow> topic_partition list \<Rightarrow> 'w \<Rightarrow> unit rest \<times> 'w"
  ko_assignment :: "'h \<Rightarrow> 'w \<Rightarrow> topic_partition list rest \<times> 'w"
  ko_seek :: "'h \<Rightarrow> topic_partition \<Rightarrow> 'w \<Rightarrow> unit rest \<times> 'w"
  ko_consume :: "'h \<Rightarrow> int \<Rightarrow> rat \<Rightarrow> 'w \<Rightarrow> consumed_message list rest \<times> 'w"
  ko_time :: "'w \<Rightarrow> rat \<times> 'w"
  ko_sleep :: "'w \<Rightarrow> 'w"
  ko_uuid :: "'w \<Rightarrow> string \<times> 'w"
  ko_urljoin :: "string \<Rightarrow> string \<Rightarrow> string"
  ko_str :: "json \<Rightarrow> string"
  ko_b64encode :: "bytes \<Rightarrow> string"
  ko_loads :: "bytes \<Rightarrow> json rest"

definition on_world :: "('w \<Rightarrow> 'x rest \<times> 'w) \<Rightarrow> (('h, 'w, 'z) consumers_state_scheme, 'x) rest_act" where
  "on_world f s = (case f (cm_world s) of (r, w) \<Rightarrow> (r, s\<lparr>cm_world := w\<rparr>))"

text \<open>\<open>DEFAULT_REQUEST_TIMEOUT_MS\<close> of \<open>karapace/core/kafka/types.py\<close>.\<close>

definition DEFAULT_REQUEST_TIMEOUT_MS :: int where
  "DEFAULT_REQUEST_TIMEOUT_MS = 30000"

definition KNOWN_FORMATS :: "string list" where
  "KNOWN_FORMATS = [''json'', ''avro'', ''binary'', ''jsonschema'', ''protobuf'']"

definition OFFSET_RESET_STRATEGIES :: "string list" where
  "OFFSET_RESET_STRATEGIES = [''latest'', ''earliest'']"

section \<open>Checks\<close>

definition cm_assert :: "bool \<Rightarrow> nat \<Rightarrow> rest_error_code \<Rightarrow> unit rest" where
  "cm_assert cond code sub_code = (if cond then Inr () else Inl (r_error code sub_code))"

definition assert_consumer_exists :: "internal_name \<Rightarrow> (('h, 'w, 'z) consumers_state_scheme, unit) rest_act" where
  "assert_consumer_exists internal_name s =
     (if dict_get (cm_consumers s) internal_name = None then (Inl (not_found CONSUMER_NOT_FOUND), s) else (Inr (), s))"

definition assert_has_key :: "json \<Rightarrow> string \<Rightarrow> unit rest" where
  "assert_has_key element key =
     rbind (json_in key element) (\<lambda>present. cm_assert present HTTP_INTERNAL_SERVER_ERROR INVALID_VALUE)"

fun is_int :: "json \<Rightarrow> int option" where
  "is_int (JInt i) = Some i"
| "is_int (JBool b) = Some (of_bool b)"
| "is_int _ = None"

definition assert_positive_number :: "(string, json) dict \<Rightarrow> string \<Rightarrow> unit rest" where
  "assert_positive_number container key =
     rbind (assert_has_key (JObj container) key) (\<lambda>_.
     rbind (dict_index container key) (\<lambda>v.
       cm_assert (case is_int v of None \<Rightarrow> False | Some i \<Rightarrow> 0 \<le> i) HTTP_INTERNAL_SERVER_ERROR INVALID_VALUE))"

definition has_topic_and_partition_keys :: "(string, json) dict \<Rightarrow> unit rest" where
  "has_topic_and_partition_keys topic_data =
     rbind (assert_has_key (JObj topic_data) ''topic'') (\<lambda>_. assert_has_key (JObj topic_data) ''partition'')"

definition topic_and_partition_valid :: "cluster_metadata \<Rightarrow> (string, json) dict \<Rightarrow> unit rest" where
  "topic_and_partition_valid metadata topic_data =
     rbind (has_topic_and_partition_keys topic_data) (\<lambda>_.
     rbind (dict_index topic_data ''topic'') (\<lambda>topic.
     rbind (dict_index topic_data ''partition'') (\<lambda>partition.
       if \<not> json_hashable topic then Inl (Py TypeError)
       else case (case topic of JStr t \<Rightarrow> dict_get (md_topics metadata) t | _ \<Rightarrow> None) of
         None \<Rightarrow> Inl (not_found TOPIC_NOT_FOUND)
       | Some t \<Rightarrow>
           if \<not> json_hashable partition then Inl (Py TypeError)
           else if (case is_int partition of None \<Rightarrow> False | Some i \<Rightarrow> i \<in> pm_partition ` set (tm_partitions t)) then Inr ()
           else Inl (not_found PARTITION_NOT_FOUND))))"

text \<open>\<open>x.lower()\<close> of a JSON value.\<close>

definition json_lower :: "json \<Rightarrow> string rest" where
  "json_lower j = (case j of JStr s \<Rightarrow> Inr (py_lower s) | _ \<Rightarrow> Inl (Py AttributeError))"

definition validate_create_consumer :: "(string, json) dict \<Rightarrow> (string, json) dict rest" where
  "validate_create_consumer request0 =
     (let valid = (\<lambda>cond. cm_assert cond HTTP_UNPROCESSABLE_ENTITY INVALID_CONSUMER_PARAMETERS);
          format = (case dict_get request0 ''format'' of None \<Rightarrow> JStr ''binary'' | Some f \<Rightarrow> f);
          request = dict_set request0 ''format'' format
      in rbind (if json_hashable format then Inr () else Inl (Py TypeError)) (\<lambda>_.
         rbind (valid (case format of JStr f \<Rightarrow> f \<in> set KNOWN_FORMATS | _ \<Rightarrow> False)) (\<lambda>_.
         rbind (valid (case dict_get request ''fetch.min.bytes'' of
                         None \<Rightarrow> True
                       | Some v \<Rightarrow> (case is_int v of None \<Rightarrow> False | Some i \<Rightarrow> -1 \<le> i))) (\<lambda>_.
         rbind (case dict_get request ''auto.offset.reset'' of
                  None \<Rightarrow> Inr ()
                | Some v \<Rightarrow> rbind (json_lower v) (\<lambda>l. valid (l \<in> set OFFSET_RESET_STRATEGIES))) (\<lambda>_.
           Inr request)))))"

definition illegal_state_fail :: rest_exn where
  "illegal_state_fail = r_error HTTP_CONFLICT ILLEGAL_STATE"

section \<open>Consumers\<close>

definition strip_slashes :: "string \<Rightarrow> string" where
  "strip_slashes s = rev (dropWhile (\<lambda>c. c = CHR ''/'') (rev (dropWhile (\<lambda>c. c = CHR ''/'') s)))"

definition dict_default :: "(string, json) dict \<Rightarrow> string \<Rightarrow> json \<Rightarrow> json" where
  "dict_default d k v = (case dict_get d k of None \<Rightarrow> v | Some x \<Rightarrow> x)"

text \<open>One attempt of \<open>create_kafka_consumer\<close>; \<open>max\<close> of a value that is not a number raises \<open>TypeError\<close>.\<close>

definition number_arg :: "json \<Rightarrow> int rest" where
  "number_arg j = of_option (Py TypeError) (is_int j)"

definition consumer_attempt ::
    "('h, 'w) kafka_ops \<Rightarrow> consumer_config \<Rightarrow> json \<Rightarrow> string \<Rightarrow> json \<Rightarrow> (string, json) dict \<Rightarrow>
     (('h, 'w, 'z) consumers_state_scheme, 'h) rest_act" where
  "consumer_attempt k cfg fetch_min_bytes group_name client_id request_data =
     act_bind (act_lift (rbind (dict_index request_data ''consumer.request.timeout.ms'') number_arg)) (\<lambda>request_ms.
     act_bind (act_lift (dict_index request_data ''auto.offset.reset'')) (\<lambda>reset.
     act_bind (act_lift (dict_index request_data ''auto.commit.enable'')) (\<lambda>commit.
     act_bind (act_lift (number_arg fetch_min_bytes)) (\<lambda>min_bytes.
       on_world (ko_create k
         \<lparr>st_group_id = group_name, st_client_id = client_id, st_auto_offset_reset = reset, st_enable_auto_commit = commit,
          st_fetch_min_bytes = max 1 min_bytes,
          st_socket_timeout_ms = max (max (cc_session_timeout_ms cfg) DEFAULT_REQUEST_TIMEOUT_MS) request_ms,
          st_topic_metadata_refresh_interval_ms = dict_get request_data ''topic.metadata.refresh.interval.ms''\<rparr>)))))"

definition cm_sleep :: "('h, 'w) kafka_ops \<Rightarrow> (('h, 'w, 'z) consumers_state_scheme, unit) rest_act" where
  "cm_sleep k = on_world (\<lambda>w. (Inr (), ko_sleep k w))"

fun retried :: "('h, 'w) kafka_ops \<Rightarrow> bool list \<Rightarrow> (('h, 'w, 'z) consumers_state_scheme, 'x) rest_act \<Rightarrow>
     (('h, 'w, 'z) consumers_state_scheme, 'x) rest_act" where
  "retried k [] attempt = act_raise (Py RuntimeError)"
| "retried k (retry # rest) attempt =
     act_catch attempt (\<lambda>e. if retry then act_bind (cm_sleep k) (\<lambda>_. retried k rest attempt) else act_raise e)"

definition create_kafka_consumer ::
    "('h, 'w) kafka_ops \<Rightarrow> consumer_config \<Rightarrow> json \<Rightarrow> string \<Rightarrow> json \<Rightarrow> (string, json) dict \<Rightarrow>
     (('h, 'w, 'z) consumers_state_scheme, 'h) rest_act" where
  "create_kafka_consumer k cfg fetch_min_bytes group_name client_id request_data =
     retried k [True, True, False] (consumer_attempt k cfg fetch_min_bytes group_name client_id request_data)"

definition enable_commit_value :: "consumer_config \<Rightarrow> (string, json) dict \<Rightarrow> json" where
  "enable_commit_value cfg request_data =
     (case dict_default request_data ''auto.commit.enable'' (JBool (cc_consumer_enable_auto_commit cfg)) of
        JStr s \<Rightarrow> JBool (py_lower s = ''true'')
      | v \<Rightarrow> v)"

text \<open>The request data with the defaults filled in.\<close>

definition complete_request :: "consumer_config \<Rightarrow> (string, json) dict \<Rightarrow> (string, json) dict" where
  "complete_request cfg d =
     (let enable_commit = enable_commit_value cfg d;
          d = dict_set d ''consumer.request.timeout.ms''
                (dict_default d ''consumer.request.timeout.ms'' (JInt (cc_consumer_request_timeout_ms cfg)));
          d = dict_set d ''auto.commit.enable'' enable_commit
      in dict_set d ''auto.offset.reset'' (dict_default d ''auto.offset.reset'' (JStr ''earliest'')))"

definition consumer_data :: "consumer_config \<Rightarrow> (string, json) dict \<Rightarrow> (string, json) dict rest" where
  "consumer_data cfg request_data =
     rbind (validate_create_consumer request_data) (\<lambda>d.
     rbind (convert_to_int d ''consumer.request.timeout.ms'') (\<lambda>d.
     rbind (convert_to_int d ''fetch_min_bytes'') (\<lambda>d. Inr (complete_request cfg d))))"

text \<open>The new entry of the table and the answer.\<close>

definition created_response :: "('h, 'w) kafka_ops \<Rightarrow> consumer_config \<Rightarrow> string \<Rightarrow> json \<Rightarrow> rest_exn" where
  "created_response k cfg group_name consumer_name =
     ok_response (JObj
       [(''base_uri'', JStr (ko_urljoin k (cc_rest_base_uri cfg)
           (''consumers/'' @ group_name @ ''/instances/'' @ ko_str k consumer_name))),
        (''instance_id'', consumer_name)])"

definition register_consumer ::
    "('h, 'w) kafka_ops \<Rightarrow> consumer_config \<Rightarrow> string \<Rightarrow> json \<Rightarrow> (string, json) dict \<Rightarrow> 'h \<Rightarrow>
     (('h, 'w, 'z) consumers_state_scheme, unit) rest_act" where
  "register_consumer k cfg group_name consumer_name d c =
     act_bind (act_lift (dict_index d ''format'')) (\<lambda>format.
     act_bind (act_modify (\<lambda>s. s\<lparr>cm_consumers := dict_set (cm_consumers s) (group_name, consumer_name)
                 \<lparr>tc_consumer = c, tc_serialization_format = format, tc_config = d\<rparr>\<rparr>)) (\<lambda>_.
       act_raise (created_response k cfg group_name consumer_name)))"

definition create_locked ::
    "('h, 'w) kafka_ops \<Rightarrow> consumer_config \<Rightarrow> string \<Rightarrow> json \<Rightarrow> (string, json) dict \<Rightarrow>
     (('h, 'w, 'z) consumers_state_scheme, unit) rest_act" where
  "create_locked k cfg group_name consumer_name request_data =
     act_bind (act_get (\<lambda>s. dict_get (cm_consumers s) (group_name, consumer_name))) (\<lambda>existing.
     if existing \<noteq> None then act_raise (r_error HTTP_CONFLICT CONSUMER_ALREADY_EXISTS)
     else
       act_bind (act_lift (consumer_data cfg request_data)) (\<lambda>d.
       act_bind (act_catch
         (create_kafka_consumer k cfg (dict_default d ''fetch.min.bytes'' (JInt (cc_fetch_min_bytes cfg))) group_name consumer_name d)
         (\<lambda>e. act_raise (if e = Kafka KafkaConfigurationError then internal_error else e))) (\<lambda>c.
         register_consumer k cfg group_name consumer_name d c)))"

definition create_consumer ::
    "('h, 'w) kafka_ops \<Rightarrow> consumer_config \<Rightarrow> string \<Rightarrow> (string, json) dict \<Rightarrow>
     (('h, 'w, 'z) consumers_state_scheme, unit) rest_act" where
  "create_consumer k cfg group_name0 request_data =
     (let group_name = strip_slashes group_name0
      in act_bind (case dict_get request_data ''name'' of
                     Some n \<Rightarrow> if truthy n then act_return n
                       else on_world (\<lambda>w. case ko_uuid k w of (u, w') \<Rightarrow> (Inr (JStr u), w'))
                   | None \<Rightarrow> on_world (\<lambda>w. case ko_uuid k w of (u, w') \<Rightarrow> (Inr (JStr u), w'))) (\<lambda>consumer_name.
         if \<not> json_hashable consumer_name then act_raise (Py TypeError)
         else create_locked k cfg group_name consumer_name request_data))"

text \<open>Every exception inside the locked part is caught, and the answer is always the empty one.\<close>

definition delete_locked :: "('h, 'w) kafka_ops \<Rightarrow> internal_name \<Rightarrow> (('h, 'w, 'z) consumers_state_scheme, unit) rest_act" where
  "delete_locked k internal_name =
     act_bind (act_catch
       (act_bind (act_get (\<lambda>s. dict_get (cm_consumers s) internal_name)) (\<lambda>found.
          case found of
            None \<Rightarrow> act_raise (Py KeyError)
          | Some c \<Rightarrow>
              act_bind (act_modify (\<lambda>s. s\<lparr>cm_consumers := dict_pop (cm_consumers s) internal_name\<rparr>)) (\<lambda>_.
                on_world (ko_stop k (tc_consumer c)))))
       (\<lambda>e. act_return ())) (\<lambda>_. act_raise empty_response)"

definition delete_consumer :: "('h, 'w) kafka_ops \<Rightarrow> internal_name \<Rightarrow> (('h, 'w, 'z) consumers_state_scheme, unit) rest_act" where
  "delete_consumer k internal_name =
     act_bind (assert_consumer_exists internal_name) (\<lambda>_. delete_locked k internal_name)"

text \<open>\<open>self.consumers[internal_name]\<close> inside the lock.\<close>

definition locked_consumer :: "internal_name \<Rightarrow> (('h, 'w, 'z) consumers_state_scheme, 'h typed_consumer) rest_act" where
  "locked_consumer internal_name =
     act_bind (act_get (\<lambda>s. dict_get (cm_consumers s) internal_name)) (\<lambda>found.
       act_lift (of_option (Py KeyError) found))"

section \<open>Offsets\<close>

definition commit_element :: "('h, 'w) kafka_ops \<Rightarrow> cluster_metadata \<Rightarrow> json \<Rightarrow> topic_partition rest" where
  "commit_element k metadata el0 =
     rbind (json_dict el0) (\<lambda>el0.
     rbind (convert_to_int el0 ''partition'') (\<lambda>el1.
     rbind (convert_to_int el1 ''offset'') (\<lambda>el.
     rbind (topic_and_partition_valid metadata el) (\<lambda>_.
     rbind (dict_index el ''topic'') (\<lambda>topic.
     rbind (dict_index el ''partition'') (\<lambda>partition.
     rbind (rbind (dict_index el ''offset'') number_arg) (\<lambda>offset.
       ko_topic_partition k topic partition (Offset (offset + 1)))))))))"

definition commit_payload ::
    "('h, 'w) kafka_ops \<Rightarrow> cluster_metadata \<Rightarrow> (string, json) dict \<Rightarrow> topic_partition list rest" where
  "commit_payload k metadata request_data =
     rbind (if request_data = [] then Inr () else assert_has_key (JObj request_data) ''offsets'') (\<lambda>_.
     rbind (json_iter (dict_default request_data ''offsets'' (JArr []))) (\<lambda>els.
       rfold (\<lambda>el payload. rbind (commit_element k metadata el) (\<lambda>tp. Inr (payload @ [tp]))) els []))"

text \<open>A missing stored offset is ignored, another error of Kafka is an internal error.\<close>

definition commit_exn :: "rest_exn \<Rightarrow> unit rest" where
  "commit_exn e =
     (case e of
        Kafka (UnknownError True) \<Rightarrow> Inr ()
      | Kafka KafkaException \<Rightarrow> Inl e
      | Kafka x \<Rightarrow> Inl internal_error
      | _ \<Rightarrow> Inl e)"

definition commit_locked ::
    "('h, 'w) kafka_ops \<Rightarrow> internal_name \<Rightarrow> topic_partition list \<Rightarrow> (('h, 'w, 'z) consumers_state_scheme, unit) rest_act" where
  "commit_locked k internal_name payload =
     act_bind (locked_consumer internal_name) (\<lambda>c.
     act_bind (act_catch (on_world (ko_commit k (tc_consumer c) (if payload = [] then None else Some payload)))
       (\<lambda>e. act_lift (commit_exn e))) (\<lambda>_.
       act_raise empty_response))"

definition commit_offsets ::
    "('h, 'w) kafka_ops \<Rightarrow> internal_name \<Rightarrow> (string, json) dict \<Rightarrow> cluster_metadata \<Rightarrow>
     (('h, 'w, 'z) consumers_state_scheme, unit) rest_act" where
  "commit_offsets k internal_name request_data metadata =
     act_bind (assert_consumer_exists internal_name) (\<lambda>_.
     act_bind (act_lift (commit_payload k metadata request_data)) (\<lambda>payload.
       commit_locked k internal_name payload))"

definition committed_exn :: "rest_exn \<Rightarrow> rest_exn" where
  "committed_exn e =
     (case e of
        Kafka GroupAuthorizationFailedError \<Rightarrow> forbidden
      | Kafka KafkaException \<Rightarrow> e
      | Kafka x \<Rightarrow> internal_error
      | _ \<Rightarrow> e)"

text \<open>A list of length other than one cannot be unpacked.\<close>

definition committed_json :: "topic_partition \<Rightarrow> int option list \<Rightarrow> json list rest" where
  "committed_json tp committed =
     (case committed of
        [None] \<Rightarrow> Inr []
      | [Some offset] \<Rightarrow>
          Inr [JObj [(''topic'', JStr (tp_topic tp)), (''partition'', JInt (tp_partition tp)),
                     (''metadata'', JStr []), (''offset'', JInt offset)]]
      | _ \<Rightarrow> Inl (Py ValueError))"

definition get_offset_element ::
    "('h, 'w) kafka_ops \<Rightarrow> 'h \<Rightarrow> json \<Rightarrow> (('h, 'w, 'z) consumers_state_scheme, json list) rest_act" where
  "get_offset_element k c el0 =
     act_bind (act_lift (rbind (json_dict el0) (\<lambda>el0.
                         rbind (convert_to_int el0 ''partition'') (\<lambda>el.
                         rbind (dict_index el ''topic'') (\<lambda>topic.
                         rbind (dict_index el ''partition'') (\<lambda>partition.
                           ko_topic_partition k topic partition OFFSET_INVALID)))))) (\<lambda>tp.
     act_bind (act_catch (on_world (ko_committed k c tp)) (\<lambda>e. act_raise (committed_exn e))) (\<lambda>committed.
       act_lift (committed_json tp committed)))"

definition get_offsets_locked ::
    "('h, 'w) kafka_ops \<Rightarrow> internal_name \<Rightarrow> (string, json) dict \<Rightarrow> (('h, 'w, 'z) consumers_state_scheme, unit) rest_act" where
  "get_offsets_locked k internal_name request_data =
     act_bind (locked_consumer internal_name) (\<lambda>c.
     act_bind (act_lift (rbind (dict_index request_data ''partitions'') json_iter)) (\<lambda>els.
     act_bind (act_map (get_offset_element k (tc_consumer c)) els) (\<lambda>offsets.
       act_raise (ok_response (JObj [(''offsets'', JArr (concat offsets))])))))"

definition get_offsets ::
    "('h, 'w) kafka_ops \<Rightarrow> internal_name \<Rightarrow> (string, json) dict \<Rightarrow> (('h, 'w, 'z) consumers_state_scheme, unit) rest_act" where
  "get_offsets k internal_name request_data =
     act_bind (assert_consumer_exists internal_name) (\<lambda>_.
     act_bind (act_lift (assert_has_key (JObj request_data) ''partitions'')) (\<lambda>_.
       get_offsets_locked k internal_name request_data))"

section \<open>Subscription and assignment\<close>

text \<open>The topics and the pattern of a request; at least and at most one of them has to be given.\<close>

fun is_list :: "json \<Rightarrow> bool" where
  "is_list (JArr xs) \<longleftrightarrow> True"
| "is_list _ \<longleftrightarrow> False"

fun is_str :: "json \<Rightarrow> bool" where
  "is_str (JStr s) \<longleftrightarrow> True"
| "is_str _ \<longleftrightarrow> False"

definition subscription_request :: "(string, json) dict \<Rightarrow> (json \<times> json option) rest" where
  "subscription_request request_data =
     (let topics = dict_default request_data ''topics'' (JArr []);
          pattern = dict_get request_data ''topic_pattern'';
          has_topics = truthy topics;
          has_pattern = (case pattern of None \<Rightarrow> False | Some p \<Rightarrow> truthy p)
      in if has_topics \<and> \<not> is_list topics then Inl (unprocessable_entity (CodeHttp HTTP_UNPROCESSABLE_ENTITY))
         else if has_pattern \<and> \<not> (case pattern of None \<Rightarrow> False | Some p \<Rightarrow> is_str p) then Inl (unprocessable_entity (CodeHttp HTTP_UNPROCESSABLE_ENTITY))
         else if \<not> (has_topics \<or> has_pattern) then Inl illegal_state_fail
         else if has_topics \<and> has_pattern then Inl illegal_state_fail
         else Inr (topics, pattern))"

definition illegal_state :: "(('h, 'w, 'z) consumers_state_scheme, 'x) rest_act \<Rightarrow> (('h, 'w, 'z) consumers_state_scheme, 'x) rest_act" where
  "illegal_state m = act_catch m (\<lambda>e. act_raise (if e = Kafka IllegalStateError then illegal_state_fail else e))"

definition set_subscription_locked ::
    "('h, 'w) kafka_ops \<Rightarrow> internal_name \<Rightarrow> json \<Rightarrow> json option \<Rightarrow> (('h, 'w, 'z) consumers_state_scheme, unit) rest_act" where
  "set_subscription_locked k internal_name topics pattern =
     act_bind (locked_consumer internal_name) (\<lambda>c.
       illegal_state
         (act_bind (on_world (ko_subscribe k (tc_consumer c) topics
            (case pattern of None \<Rightarrow> None | Some JNull \<Rightarrow> None | Some p \<Rightarrow> Some [p]))) (\<lambda>_.
            act_raise empty_response)))"

definition set_subscription ::
    "('h, 'w) kafka_ops \<Rightarrow> internal_name \<Rightarrow> (string, json) dict \<Rightarrow> (('h, 'w, 'z) consumers_state_scheme, unit) rest_act" where
  "set_subscription k internal_name request_data =
     act_bind (assert_consumer_exists internal_name) (\<lambda>_.
     act_bind (act_lift (subscription_request request_data)) (\<lambda>(topics, pattern).
       set_subscription_locked k internal_name topics pattern))"

definition get_subscription :: "('h, 'w) kafka_ops \<Rightarrow> internal_name \<Rightarrow> (('h, 'w, 'z) consumers_state_scheme, unit) rest_act" where
  "get_subscription k internal_name =
     act_bind (assert_consumer_exists internal_name) (\<lambda>_.
     act_bind (locked_consumer internal_name) (\<lambda>c.
     act_bind (on_world (ko_subscription k (tc_consumer c))) (\<lambda>topics.
       act_raise (ok_response (JObj [(''topics'', JArr (map JStr topics))])))))"

definition delete_subscription :: "('h, 'w) kafka_ops \<Rightarrow> internal_name \<Rightarrow> (('h, 'w, 'z) consumers_state_scheme, unit) rest_act" where
  "delete_subscription k internal_name =
     act_bind (assert_consumer_exists internal_name) (\<lambda>_.
     act_bind (locked_consumer internal_name) (\<lambda>c.
     act_bind (on_world (ko_unsubscribe k (tc_consumer c))) (\<lambda>_. act_raise empty_response)))"

definition assignment_element :: "('h, 'w) kafka_ops \<Rightarrow> json \<Rightarrow> topic_partition rest" where
  "assignment_element k el0 =
     rbind (json_dict el0) (\<lambda>el0.
     rbind (convert_to_int el0 ''partition'') (\<lambda>el.
     rbind (has_topic_and_partition_keys el) (\<lambda>_.
     rbind (dict_index el ''topic'') (\<lambda>topic.
     rbind (dict_index el ''partition'') (\<lambda>partition.
       ko_topic_partition k topic partition OFFSET_INVALID)))))"

text \<open>The partitions of a request, each read by the given function.\<close>

definition request_elements :: "(string, json) dict \<Rightarrow> string \<Rightarrow> (json \<Rightarrow> 'x rest) \<Rightarrow> 'x list rest" where
  "request_elements request_data key read =
     rbind (assert_has_key (JObj request_data) key) (\<lambda>_.
     rbind (rbind (dict_index request_data key) json_iter) (\<lambda>els.
       rfold (\<lambda>el xs. rbind (read el) (\<lambda>x. Inr (xs @ [x]))) els []))"

definition set_assignments_locked ::
    "('h, 'w) kafka_ops \<Rightarrow> internal_name \<Rightarrow> topic_partition list \<Rightarrow> (('h, 'w, 'z) consumers_state_scheme, unit) rest_act" where
  "set_assignments_locked k internal_name partitions =
     illegal_state
       (act_bind (locked_consumer internal_name) (\<lambda>c.
        act_bind (on_world (ko_assign k (tc_consumer c) partitions)) (\<lambda>_. act_raise empty_response)))"

definition set_assignments ::
    "('h, 'w) kafka_ops \<Rightarrow> internal_name \<Rightarrow> (string, json) dict \<Rightarrow> (('h, 'w, 'z) consumers_state_scheme, unit) rest_act" where
  "set_assignments k internal_name request_data =
     act_bind (assert_consumer_exists internal_name) (\<lambda>_.
     act_bind (act_lift (request_elements request_data ''partitions'' (assignment_element k))) (\<lambda>partitions.
       set_assignments_locked k internal_name partitions))"

definition get_assignments :: "('h, 'w) kafka_ops \<Rightarrow> internal_name \<Rightarrow> (('h, 'w, 'z) consumers_state_scheme, unit) rest_act" where
  "get_assignments k internal_name =
     act_bind (assert_consumer_exists internal_name) (\<lambda>_.
     act_bind (locked_consumer internal_name) (\<lambda>c.
     act_bind (on_world (ko_assignment k (tc_consumer c))) (\<lambda>partitions.
       act_raise (ok_response (JObj [(''partitions'',
         JArr (map (\<lambda>pd. JObj [(''topic'', JStr (tp_topic pd)), (''partition'', JInt (tp_partition pd))]) partitions))])))))"

section \<open>Positions\<close>

text \<open>The key is looked up before the element is known to be an object.\<close>

definition seek_element :: "('h, 'w) kafka_ops \<Rightarrow> json \<Rightarrow> topic_partition rest" where
  "seek_element k el0 =
     rbind (assert_has_key el0 ''topic'') (\<lambda>_.
     rbind (assert_has_key el0 ''offset'') (\<lambda>_.
     rbind (rbind (json_dict el0) (\<lambda>el. convert_to_int el ''offset'')) (\<lambda>el1.
     rbind (assert_has_key (JObj el1) ''partition'') (\<lambda>_.
     rbind (convert_to_int el1 ''partition'') (\<lambda>el.
     rbind (assert_positive_number el ''offset'') (\<lambda>_.
     rbind (dict_index el ''topic'') (\<lambda>topic.
     rbind (dict_index el ''partition'') (\<lambda>partition.
     rbind (rbind (dict_index el ''offset'') number_arg) (\<lambda>offset.
       ko_topic_partition k topic partition (Offset offset))))))))))"

definition seek_one :: "('h, 'w) kafka_ops \<Rightarrow> 'h \<Rightarrow> topic_partition \<Rightarrow> (('h, 'w, 'z) consumers_state_scheme, unit) rest_act" where
  "seek_one k c tp =
     act_catch (on_world (ko_seek k c tp))
       (\<lambda>e. act_raise (if e = Kafka UnknownTopicOrPartitionError \<or> e = Kafka IllegalStateError then illegal_state_fail else e))"

definition seek_to_locked ::
    "('h, 'w) kafka_ops \<Rightarrow> internal_name \<Rightarrow> topic_partition list \<Rightarrow> (('h, 'w, 'z) consumers_state_scheme, unit) rest_act" where
  "seek_to_locked k internal_name seeks =
     act_bind (locked_consumer internal_name) (\<lambda>c.
     act_bind (act_map (seek_one k (tc_consumer c)) seeks) (\<lambda>_. act_raise empty_response))"

definition seek_to ::
    "('h, 'w) kafka_ops \<Rightarrow> internal_name \<Rightarrow> (string, json) dict \<Rightarrow> (('h, 'w, 'z) consumers_state_scheme, unit) rest_act" where
  "seek_to k internal_name request_data =
     act_bind (assert_consumer_exists internal_name) (\<lambda>_.
     act_bind (act_lift (request_elements request_data ''offsets'' (seek_element k))) (\<lambda>seeks.
       seek_to_locked k internal_name seeks))"

definition seek_limit_element :: "('h, 'w) kafka_ops \<Rightarrow> bool \<Rightarrow> json \<Rightarrow> topic_partition rest" where
  "seek_limit_element k beginning el0 =
     rbind (json_dict el0) (\<lambda>el0.
     rbind (convert_to_int el0 ''partition'') (\<lambda>el.
     rbind (has_topic_and_partition_keys el) (\<lambda>_.
     rbind (dict_index el ''topic'') (\<lambda>topic.
     rbind (dict_index el ''partition'') (\<lambda>partition.
       ko_topic_partition k topic partition (if beginning then OFFSET_BEGINNING else OFFSET_END))))))"

text \<open>
  \<open>asyncio.gather\<close> starts every seek; the first exception is raised. The seeks are run in their order here, and
  those after a failed one have an effect too.
\<close>

fun gather :: "('a \<Rightarrow> ('s, unit) rest_act) \<Rightarrow> 'a list \<Rightarrow> ('s, unit) rest_act" where
  "gather f [] s = (Inr (), s)"
| "gather f (x # xs) s =
     (case f x s of
        (Inl e, s') \<Rightarrow> (Inl e, snd (gather f xs s'))
      | (Inr _, s') \<Rightarrow> gather f xs s')"

definition seek_limit_locked ::
    "('h, 'w) kafka_ops \<Rightarrow> internal_name \<Rightarrow> topic_partition list \<Rightarrow> (('h, 'w, 'z) consumers_state_scheme, unit) rest_act" where
  "seek_limit_locked k internal_name resets =
     act_bind (locked_consumer internal_name) (\<lambda>c.
     act_bind (act_catch (gather (\<lambda>tp. on_world (ko_seek k (tc_consumer c) tp)) resets)
       (\<lambda>e. act_raise (if e = Kafka IllegalStateError then illegal_state_fail
             else if e = Kafka UnknownTopicOrPartitionError then not_found UNKNOWN_TOPIC_OR_PARTITION else e))) (\<lambda>_.
       act_raise empty_response))"

definition seek_limit ::
    "('h, 'w) kafka_ops \<Rightarrow> internal_name \<Rightarrow> (string, json) dict \<Rightarrow> bool \<Rightarrow> (('h, 'w, 'z) consumers_state_scheme, unit) rest_act" where
  "seek_limit k internal_name request_data beginning =
     act_bind (assert_consumer_exists internal_name) (\<lambda>_.
     act_bind (act_lift (request_elements request_data ''partitions'' (seek_limit_element k beginning))) (\<lambda>resets.
       seek_limit_locked k internal_name resets))"

section \<open>Fetching\<close>

text \<open>An absent and an empty key or value count as no bytes.\<close>

definition blob_size :: "bytes option \<Rightarrow> int" where
  "blob_size b = (case b of None \<Rightarrow> 0 | Some bs \<Rightarrow> int (length bs))"

definition message_size :: "consumed_message \<Rightarrow> int" where
  "message_size m = blob_size (cmsg_key m) + blob_size (cmsg_value m)"

text \<open>
  The number of messages to ask for. The quotient of floats is taken as the exact quotient; dividing by
  an average of zero raises.
\<close>

definition estimated_messages :: "int \<Rightarrow> int \<Rightarrow> nat \<Rightarrow> int rest" where
  "estimated_messages max_bytes read_bytes consumed =
     (if 0 < consumed
      then if read_bytes = 0 then Inl (Py ZeroDivisionError)
           else Inr (max 1 (min 1000000
             (truncate_rat (of_int (max_bytes - read_bytes) / (of_int read_bytes / of_nat consumed)) + 1)))
      else Inr (max 1 (min 1000000 (truncate_rat (of_int max_bytes / 1024)))))"

definition consume_timeout :: "bool \<Rightarrow> rat \<Rightarrow> rat" where
  "consume_timeout is_first_fetch time_left =
     (if is_first_fetch then max (1 / 10) (time_left * (95 / 100)) else min (2 / 10) (max (5 / 100) (time_left * (2 / 10))))"

text \<open>The loop over the messages of one call; it ends at the first one that reaches the limit.\<close>

fun take_messages :: "int \<Rightarrow> consumed_message list \<Rightarrow> int \<Rightarrow> consumed_message list \<Rightarrow> (int \<times> consumed_message list) rest" where
  "take_messages max_bytes [] read_bytes consumed = Inr (read_bytes, consumed)"
| "take_messages max_bytes (m # ms) read_bytes consumed =
     (case cmsg_error m of
        Some e \<Rightarrow> Inl (Kafka e)
      | None \<Rightarrow>
          let read_bytes = read_bytes + message_size m; consumed = consumed @ [m]
          in if max_bytes \<le> read_bytes then Inr (read_bytes, consumed)
             else take_messages max_bytes ms read_bytes consumed)"

definition fetch_exn :: "rest_exn \<Rightarrow> rest_exn" where
  "fetch_exn e =
     (case e of
        Kafka GroupAuthorizationFailedError \<Rightarrow> forbidden
      | Kafka TopicAuthorizationFailedError \<Rightarrow> forbidden
      | Kafka UnknownTopicOrPartitionError \<Rightarrow> not_found UNKNOWN_TOPIC_OR_PARTITION
      | Kafka KafkaException \<Rightarrow> e
      | Kafka x \<Rightarrow> internal_error
      | _ \<Rightarrow> e)"

partial_function (option) fetch_loop ::
    "('h, 'w) kafka_ops \<Rightarrow> 'h \<Rightarrow> int \<Rightarrow> rat \<Rightarrow> int \<Rightarrow> consumed_message list \<Rightarrow> bool \<Rightarrow> 'w \<Rightarrow>
     (consumed_message list rest \<times> 'w) option" where
  "fetch_loop k c max_bytes end_time read_bytes consumed is_first_fetch w0 =
     (if max_bytes \<le> read_bytes then Some (Inr consumed, w0)
      else case ko_time k w0 of (now, w1) \<Rightarrow>
        if end_time \<le> now then Some (Inr consumed, w1)
        else case ko_time k w1 of (now, w2) \<Rightarrow>
          case estimated_messages max_bytes read_bytes (length consumed) of
            Inl e \<Rightarrow> Some (Inl e, w2)
          | Inr n \<Rightarrow>
              (case ko_consume k c n (consume_timeout is_first_fetch (end_time - now)) w2 of
                 (Inl e, w3) \<Rightarrow> Some (Inl (fetch_exn e), w3)
               | (Inr [], w3) \<Rightarrow>
                   if consumed \<noteq> [] then Some (Inr consumed, w3)
                   else fetch_loop k c max_bytes end_time read_bytes consumed is_first_fetch w3
               | (Inr (m # ms), w3) \<Rightarrow>
                   (case take_messages max_bytes (m # ms) read_bytes consumed of
                      Inl e \<Rightarrow> Some (Inl (fetch_exn e), w3)
                    | Inr (read_bytes, consumed) \<Rightarrow> fetch_loop k c max_bytes end_time read_bytes consumed False w3)))"

declare fetch_loop.simps [code]

text \<open>The functions that read keys and values. \<open>deser\<close> is the serializer of the proxy.\<close>

definition json_decode_func :: "('h, 'w) kafka_ops \<Rightarrow> bytes option \<Rightarrow> ('s, json) rest_act" where
  "json_decode_func k b =
     (case b of None \<Rightarrow> act_return JNull
      | Some bs \<Rightarrow>
          if bs = [] then act_return JNull
          else act_lift (case ko_loads k bs of
                  Inl (Py JSONDecodeError) \<Rightarrow> Inl DeserializationError
                | Inl (SerExn UnicodeDecodeError) \<Rightarrow> Inl DeserializationError
                | r \<Rightarrow> r))"

definition binary_decode_func :: "('h, 'w) kafka_ops \<Rightarrow> bytes option \<Rightarrow> ('s, json) rest_act" where
  "binary_decode_func k b =
     (case b of None \<Rightarrow> act_return JNull
      | Some bs \<Rightarrow> if bs = [] then act_return JNull else act_return (JStr (ko_b64encode k bs)))"

definition deserialize_with_fallback ::
    "('h, 'w) kafka_ops \<Rightarrow> (bytes \<Rightarrow> ('s, json) rest_act) \<Rightarrow> bytes option \<Rightarrow> ('s, json) rest_act" where
  "deserialize_with_fallback k deser b =
     (case b of None \<Rightarrow> act_return JNull
      | Some bs \<Rightarrow> if bs = [] then act_return JNull else act_catch (deser bs) (\<lambda>e. binary_decode_func k (Some bs)))"

definition strict_errors :: "rest_exn list" where
  "strict_errors = [SerExn StructError, SerExn InvalidMessageHeader, SerExn InvalidPayload, Py JSONDecodeError,
     SerExn (Raised JSONDecodeError), SerExn UnicodeDecodeError]"

definition deserialize_strict :: "(bytes \<Rightarrow> ('s, json) rest_act) \<Rightarrow> bytes option \<Rightarrow> ('s, json) rest_act" where
  "deserialize_strict deser b =
     (case b of None \<Rightarrow> act_return JNull
      | Some bs \<Rightarrow>
          if bs = [] then act_return JNull
          else act_catch (deser bs) (\<lambda>e. act_raise (if e \<in> set strict_errors then DeserializationError else e)))"

definition get_deserialize_functions ::
    "('h, 'w) kafka_ops \<Rightarrow> (bytes \<Rightarrow> ('s, json) rest_act) \<Rightarrow> string \<Rightarrow>
     (bytes option \<Rightarrow> ('s, json) rest_act) \<times> (bytes option \<Rightarrow> ('s, json) rest_act)" where
  "get_deserialize_functions k deser request_format =
     (if request_format = ''json'' then (json_decode_func k, json_decode_func k)
      else if request_format = ''binary'' then (binary_decode_func k, binary_decode_func k)
      else if request_format \<in> {''avro'', ''protobuf''} then (deserialize_with_fallback k deser, deserialize_strict deser)
      else if request_format = ''jsonschema'' then (deserialize_strict deser, deserialize_strict deser)
      else (binary_decode_func k, binary_decode_func k))"

definition unprocessable_on_error :: "('s, 'x) rest_act \<Rightarrow> ('s, 'x) rest_act" where
  "unprocessable_on_error m =
     act_catch m (\<lambda>e. act_raise (if e = DeserializationError
       then unprocessable_entity (CodeHttp HTTP_UNPROCESSABLE_ENTITY) else e))"

definition deserialize_message ::
    "(bytes option \<Rightarrow> ('s, json) rest_act) \<Rightarrow> (bytes option \<Rightarrow> ('s, json) rest_act) \<Rightarrow> consumed_message \<Rightarrow> ('s, json) rest_act" where
  "deserialize_message key_func value_func msg =
     act_bind (unprocessable_on_error (key_func (cmsg_key msg))) (\<lambda>key.
     act_bind (unprocessable_on_error (value_func (cmsg_value msg))) (\<lambda>v.
       act_return (JObj
         [(''topic'', JStr (cmsg_topic msg)), (''partition'', JInt (cmsg_partition msg)), (''offset'', JInt (cmsg_offset msg)),
          (''timestamp'', case cmsg_timestamp msg of None \<Rightarrow> JNull | Some t \<Rightarrow> JInt t), (''key'', key), (''value'', v)])))"

text \<open>
  The synchronous and the parallel path give the records in the order of the messages; with several failures the
  parallel path raises the one that happens first, here the first in this order.
\<close>

definition deserialize_messages ::
    "('h, 'w) kafka_ops \<Rightarrow> (bytes \<Rightarrow> ('s, json) rest_act) \<Rightarrow> string \<Rightarrow> consumed_message list \<Rightarrow> ('s, json list) rest_act" where
  "deserialize_messages k deser request_format msgs =
     (case get_deserialize_functions k deser request_format of
        (key_func, value_func) \<Rightarrow> act_map (deserialize_message key_func value_func) msgs)"

text \<open>The time limit in milliseconds and the limit on bytes, from the query or the configuration.\<close>

definition fetch_limits ::
    "consumer_config \<Rightarrow> (string, json) dict \<Rightarrow> (string, string) dict \<Rightarrow> (json \<times> int) rest" where
  "fetch_limits cfg consumer_config query_params =
     rbind (case (case dict_get query_params ''timeout'' of
                    Some s \<Rightarrow> rbind (py_int s) (\<lambda>i. Inr (Inr (JInt i)))
                  | None \<Rightarrow> Inr (dict_index consumer_config ''consumer.request.timeout.ms'')) of
              Inl x \<Rightarrow> Inl internal_error
            | Inr r \<Rightarrow> r) (\<lambda>timeout.
     rbind (case dict_get query_params ''max_bytes'' of
              Some s \<Rightarrow> (case py_int s of Inl x \<Rightarrow> Inl internal_error | Inr i \<Rightarrow> Inr i)
            | None \<Rightarrow> Inr (cc_consumer_request_max_bytes cfg)) (\<lambda>max_bytes.
     rbind (case is_int timeout of
              Some i \<Rightarrow> if i < 0 then Inl internal_error else Inr ()
            | None \<Rightarrow> if truthy timeout then Inl (Py TypeError) else Inr ()) (\<lambda>_.
     rbind (if max_bytes < 0 then Inl internal_error else Inr ()) (\<lambda>_.
       Inr (timeout, max_bytes)))))"

text \<open>The part of a fetch before its loop gives the client, the limit on bytes and the end of the waiting time.\<close>

definition read_clock :: "('h, 'w) kafka_ops \<Rightarrow> (('h, 'w, 'z) consumers_state_scheme, rat) rest_act" where
  "read_clock k = on_world (\<lambda>w. case ko_time k w of (t, w') \<Rightarrow> (Inr t, w'))"

definition fetch_start ::
    "('h, 'w) kafka_ops \<Rightarrow> consumer_config \<Rightarrow> internal_name \<Rightarrow> string option \<Rightarrow> (string, string) dict \<Rightarrow>
     (('h, 'w, 'z) consumers_state_scheme, 'h \<times> int \<times> rat) rest_act" where
  "fetch_start k cfg internal_name request_format query_params =
     act_bind (locked_consumer internal_name) (\<lambda>c.
     act_bind (act_lift (cm_assert (Some (tc_serialization_format c) = map_option JStr request_format)
                 HTTP_NOT_ACCEPTABLE UNSUPPORTED_FORMAT)) (\<lambda>_.
     act_bind (act_lift (fetch_limits cfg (tc_config c) query_params)) (\<lambda>(timeout, max_bytes).
     act_bind (read_clock k) (\<lambda>start_time.
     act_bind (act_lift (number_arg timeout)) (\<lambda>timeout_ms.
       act_return (tc_consumer c, max_bytes, start_time + of_int timeout_ms / 1000))))))"

definition fetch_finish ::
    "('h, 'w) kafka_ops \<Rightarrow> (bytes \<Rightarrow> (('h, 'w, 'z) consumers_state_scheme, json) rest_act) \<Rightarrow> string \<Rightarrow> consumed_message list rest \<Rightarrow>
     (('h, 'w, 'z) consumers_state_scheme, unit) rest_act" where
  "fetch_finish k deser request_format result =
     act_bind (act_lift result) (\<lambda>msgs.
     act_bind (read_clock k) (\<lambda>_.
     act_bind (deserialize_messages k deser request_format msgs) (\<lambda>response.
       act_raise (ok_response (JArr response)))))"

text \<open>\<open>None\<close> is a fetch that never ends. A format that passes the check is not \<open>None\<close>.\<close>

definition fetch_locked ::
    "('h, 'w) kafka_ops \<Rightarrow> (bytes \<Rightarrow> (('h, 'w, 'z) consumers_state_scheme, json) rest_act) \<Rightarrow> consumer_config \<Rightarrow> internal_name \<Rightarrow>
     string option \<Rightarrow> (string, string) dict \<Rightarrow> ('h, 'w, 'z) consumers_state_scheme \<Rightarrow>
     (unit rest \<times> ('h, 'w, 'z) consumers_state_scheme) option" where
  "fetch_locked k deser cfg internal_name request_format query_params s =
     (case fetch_start k cfg internal_name request_format query_params s of
        (Inl e, s1) \<Rightarrow> Some (Inl e, s1)
      | (Inr (c, max_bytes, end_time), s1) \<Rightarrow>
          (case fetch_loop k c max_bytes end_time 0 [] True (cm_world s1) of
             None \<Rightarrow> None
           | Some (result, w) \<Rightarrow> Some (fetch_finish k deser (the request_format) result (s1\<lparr>cm_world := w\<rparr>))))"

definition cm_fetch ::
    "('h, 'w) kafka_ops \<Rightarrow> (bytes \<Rightarrow> (('h, 'w, 'z) consumers_state_scheme, json) rest_act) \<Rightarrow> consumer_config \<Rightarrow> internal_name \<Rightarrow>
     string option \<Rightarrow> (string, string) dict \<Rightarrow> ('h, 'w, 'z) consumers_state_scheme \<Rightarrow>
     (unit rest \<times> ('h, 'w, 'z) consumers_state_scheme) option" where
  "cm_fetch k deser cfg internal_name request_format query_params s =
     (case assert_consumer_exists internal_name s of
        (Inl e, s') \<Rightarrow> Some (Inl e, s')
      | (Inr _, s') \<Rightarrow> fetch_locked k deser cfg internal_name request_format query_params s')"

text \<open>Closing the proxy: the consumers are removed and stopped one by one; failures are ignored.\<close>

definition close_one :: "('h, 'w) kafka_ops \<Rightarrow> internal_name \<Rightarrow> (('h, 'w, 'z) consumers_state_scheme, unit) rest_act" where
  "close_one k name =
     act_bind (act_get (\<lambda>s. dict_get (cm_consumers s) name)) (\<lambda>found.
       case found of
         None \<Rightarrow> act_raise (Py KeyError)
       | Some c \<Rightarrow>
           act_bind (act_modify (\<lambda>s. s\<lparr>cm_consumers := dict_pop (cm_consumers s) name\<rparr>)) (\<lambda>_.
             act_catch (on_world (ko_stop k (tc_consumer c))) (\<lambda>e. act_return ())))"

definition cm_aclose :: "('h, 'w) kafka_ops \<Rightarrow> (('h, 'w, 'z) consumers_state_scheme, unit) rest_act" where
  "cm_aclose k =
     act_bind (act_get (\<lambda>s. dict_keys (cm_consumers s))) (\<lambda>names.
     act_bind (act_map (close_one k) names) (\<lambda>_. act_return ()))"

section \<open>Locks\<close>

text \<open>
  \<open>async with self.consumer_locks[internal_name]\<close>: a request fetches the lock of its name, which the \<open>defaultdict\<close>
  makes if there is none, waits until no other request holds that lock, runs, and releases it.
  \<open>delete_consumer\<close> also removes the entry of the lock from the dictionary while it holds the lock. A request is a
  number here, with the name of its consumer and whether it is a deletion.
\<close>

datatype lock_phase = Waits nat | Holds nat | Finished

record lock_task =
  lt_name :: internal_name
  lt_deletes :: bool
  lt_phase :: lock_phase

record lock_state =
  ls_locks :: "(internal_name, nat) dict"
  ls_next :: nat
  ls_tasks :: "(nat, lock_task) dict"

definition init_locks :: lock_state where
  "init_locks = \<lparr>ls_locks = [], ls_next = 0, ls_tasks = []\<rparr>"

definition lock_of :: "internal_name \<Rightarrow> lock_state \<Rightarrow> nat \<times> lock_state" where
  "lock_of name st =
     (case dict_get (ls_locks st) name of
        Some l \<Rightarrow> (l, st)
      | None \<Rightarrow> (ls_next st, st\<lparr>ls_locks := dict_set (ls_locks st) name (ls_next st), ls_next := Suc (ls_next st)\<rparr>))"

definition set_phase :: "nat \<Rightarrow> lock_task \<Rightarrow> lock_phase \<Rightarrow> lock_state \<Rightarrow> lock_state" where
  "set_phase t task phase st = st\<lparr>ls_tasks := dict_set (ls_tasks st) t (task\<lparr>lt_phase := phase\<rparr>)\<rparr>"

inductive lock_step :: "lock_state \<Rightarrow> lock_state \<Rightarrow> bool" where
  enter: "dict_get (ls_tasks st) t = None \<Longrightarrow> lock_of name st = (l, st') \<Longrightarrow>
    lock_step st (set_phase t \<lparr>lt_name = name, lt_deletes = deletes, lt_phase = Finished\<rparr> (Waits l) st')"
| acquire: "dict_get (ls_tasks st) t = Some task \<Longrightarrow> lt_phase task = Waits l \<Longrightarrow>
    \<forall>t' task'. dict_get (ls_tasks st) t' = Some task' \<longrightarrow> lt_phase task' \<noteq> Holds l \<Longrightarrow>
    lock_step st (set_phase t task (Holds l) st)"
| drop_lock: "dict_get (ls_tasks st) t = Some task \<Longrightarrow> lt_phase task = Holds l \<Longrightarrow> lt_deletes task \<Longrightarrow>
    lock_step st (st\<lparr>ls_locks := dict_pop (ls_locks st) (lt_name task)\<rparr>)"
| release: "dict_get (ls_tasks st) t = Some task \<Longrightarrow> lt_phase task = Holds l \<Longrightarrow> lock_step st (set_phase t task Finished st)"

inductive_cases lock_stepE: "lock_step st st'"

inductive lock_reachable :: "lock_state \<Rightarrow> bool" where
  init: "lock_reachable init_locks"
| step: "lock_reachable st \<Longrightarrow> lock_step st st' \<Longrightarrow> lock_reachable st'"

end
