(* ===== verification/Rest_Metadata.thy ===== *)
theory Rest_Metadata
  imports Rest_Consumers
begin

text \<open>
  Topics and partitions in the REST proxy: the administration client (\<open>karapace/core/kafka/admin.py\<close>), the cache of
  cluster metadata of a user (\<open>UserRestProxy\<close> in \<open>karapace/kafka_rest_apis/__init__.py\<close>) and the requests that read
  it. The calls of the \<open>confluent_kafka\<close> administration client are the record \<open>admin_ops\<close>. The metadata of a topic
  is shared between the cache and the answers: \<open>topic_details\<close> adds the name and the configuration of a topic to the
  cached entry itself, and so does the model.
\<close>

section \<open>The administration client\<close>

record raw_partition =
  rp_id :: int
  rp_leader :: int
  rp_replicas :: "int list"
  rp_isrs :: "int list"

record broker_view =
  bv_topics :: "(string, raw_partition list) dict"
  bv_brokers :: "int list"

datatype config_source =
    DYNAMIC_TOPIC_CONFIG | DYNAMIC_BROKER_CONFIG | STATIC_BROKER_CONFIG | DEFAULT_CONFIG | OTHER_CONFIG

record 'w admin_ops =
  ao_connect :: "'w \<Rightarrow> unit rest \<times> 'w"
  ao_list_topics :: "'w \<Rightarrow> broker_view rest \<times> 'w"
  ao_describe_configs :: "string \<Rightarrow> 'w \<Rightarrow> (string \<times> config_source \<times> string) list rest \<times> 'w"
  ao_list_offset :: "string \<Rightarrow> int \<Rightarrow> bool \<Rightarrow> 'w \<Rightarrow> int rest \<times> 'w"

definition partition_data :: "raw_partition \<Rightarrow> partition_metadata" where
  "partition_data p =
     \<lparr>pm_partition = rp_id p, pm_leader = rp_leader p,
      pm_replicas = map (\<lambda>r. (r, r = rp_leader p, r \<in> set (rp_isrs p))) (rp_replicas p)\<rparr>"

definition topic_data :: "raw_partition list \<Rightarrow> topic_metadata" where
  "topic_data ps = \<lparr>tm_partitions = map partition_data ps, tm_name = None, tm_configs = None\<rparr>"

definition admin_metadata :: "string list option \<Rightarrow> broker_view \<Rightarrow> cluster_metadata rest" where
  "admin_metadata topics view =
     (if (case topics of None \<Rightarrow> False | Some ts \<Rightarrow> list_ex (\<lambda>t. dict_get (bv_topics view) t = None) ts)
      then Inl (Kafka UnknownTopicOrPartitionError)
      else Inr
        \<lparr>md_topics = map (\<lambda>(t, ps). (t, topic_data ps))
           (filter (\<lambda>(t, ps). case topics of None \<Rightarrow> True | Some ts \<Rightarrow> t \<in> set ts) (bv_topics view)),
         md_brokers = bv_brokers view\<rparr>)"

definition admin_cluster_metadata ::
    "'w admin_ops \<Rightarrow> string list option \<Rightarrow> (('h, 'w, 'z) consumers_state_scheme, cluster_metadata) rest_act" where
  "admin_cluster_metadata ao topics =
     act_bind (on_world (ao_list_topics ao)) (\<lambda>view. act_lift (admin_metadata topics view))"

text \<open>Which of two entries for the same configuration name is kept; no filters are given by the callers.\<close>

definition replaces :: "config_source \<Rightarrow> config_source \<Rightarrow> bool" where
  "replaces existing new \<longleftrightarrow>
     (if new = DYNAMIC_TOPIC_CONFIG then True
      else if new = DYNAMIC_BROKER_CONFIG \<and> existing \<noteq> DYNAMIC_TOPIC_CONFIG then True
      else existing \<in> {DEFAULT_CONFIG, STATIC_BROKER_CONFIG} \<and> new \<notin> {DEFAULT_CONFIG, STATIC_BROKER_CONFIG})"

definition add_config_entry ::
    "string \<times> config_source \<times> string \<Rightarrow> (string, config_source \<times> string) dict \<Rightarrow> (string, config_source \<times> string) dict" where
  "add_config_entry entry entries =
     (case entry of (name, source, v) \<Rightarrow>
        (case dict_get entries name of
           None \<Rightarrow> dict_set entries name (source, v)
         | Some (existing, _) \<Rightarrow> if replaces existing source then dict_set entries name (source, v) else entries))"

definition topic_config_json :: "(string \<times> config_source \<times> string) list \<Rightarrow> json" where
  "topic_config_json configs = JObj (map (\<lambda>(n, _, v). (n, JStr v)) (fold add_config_entry configs []))"

text \<open>The calls give the translated error; an exception without a Kafka error inside becomes \<open>RuntimeError\<close>.\<close>

definition raise_from_kafkaexception :: "rest_exn \<Rightarrow> rest_exn" where
  "raise_from_kafkaexception e = (if e = Kafka KafkaException then Py RuntimeError else e)"

definition get_topic_config :: "'w admin_ops \<Rightarrow> string \<Rightarrow> (('h, 'w, 'z) consumers_state_scheme, json) rest_act" where
  "get_topic_config ao name =
     act_bind (act_catch (on_world (ao_describe_configs ao name)) (\<lambda>e. act_raise (raise_from_kafkaexception e))) (\<lambda>configs.
       act_return (topic_config_json configs))"

definition admin_get_offsets :: "'w admin_ops \<Rightarrow> string \<Rightarrow> int \<Rightarrow> (('h, 'w, 'z) consumers_state_scheme, json) rest_act" where
  "admin_get_offsets ao topic partition_id =
     act_catch
       (act_bind (on_world (ao_list_offset ao topic partition_id True)) (\<lambda>endoffset.
        act_bind (on_world (ao_list_offset ao topic partition_id False)) (\<lambda>startoffset.
          act_return (JObj [(''beginning_offset'', JInt startoffset), (''end_offset'', JInt endoffset)]))))
       (\<lambda>e. act_raise (raise_from_kafkaexception e))"

section \<open>The cache of metadata\<close>

record ('h, 'w) metadata_state = "('h, 'w) consumers_state" +
  px_metadata :: cluster_metadata
  px_metadata_complete :: bool
  px_global_birth :: rat
  px_topic_birth :: "(string, rat) dict"

definition empty_cluster_metadata_cache :: cluster_metadata where
  "empty_cluster_metadata_cache = \<lparr>md_topics = [], md_brokers = []\<rparr>"

definition is_global_metadata_old :: "rat \<Rightarrow> rat \<Rightarrow> ('h, 'w, 'z) metadata_state_scheme \<Rightarrow> bool" where
  "is_global_metadata_old max_age now s \<longleftrightarrow> max_age < now - px_global_birth s"

text \<open>The first clock reading is only taken when all topics were asked for before; the list is not empty.\<close>

definition topics_known :: "string list \<Rightarrow> ('h, 'w, 'z) metadata_state_scheme \<Rightarrow> bool" where
  "topics_known topics s \<longleftrightarrow> list_all (\<lambda>t. dict_get (px_topic_birth s) t \<noteq> None) topics"

definition oldest_birth :: "string list \<Rightarrow> ('h, 'w, 'z) metadata_state_scheme \<Rightarrow> rat" where
  "oldest_birth topics s =
     (case map (\<lambda>t. the (dict_get (px_topic_birth s) t)) topics of [] \<Rightarrow> 0 | b # bs \<Rightarrow> fold min bs b)"

definition is_metadata_of_topics_old ::
    "('h, 'w) kafka_ops \<Rightarrow> rat \<Rightarrow> string list \<Rightarrow> (('h, 'w, 'z) metadata_state_scheme, bool) rest_act" where
  "is_metadata_of_topics_old k max_age topics =
     act_bind (act_get (topics_known topics)) (\<lambda>known.
       if \<not> known then act_return True
       else act_bind (read_clock k) (\<lambda>now. act_get (\<lambda>s. max_age < now - oldest_birth topics s)))"

definition update_all_metadata ::
    "('h, 'w) kafka_ops \<Rightarrow> 'w admin_ops \<Rightarrow> rat \<Rightarrow> (('h, 'w, 'z) metadata_state_scheme, cluster_metadata) rest_act" where
  "update_all_metadata k ao max_age =
     act_bind (read_clock k) (\<lambda>now.
     act_bind (act_get (\<lambda>s. \<not> is_global_metadata_old max_age now s \<and> px_metadata_complete s)) (\<lambda>cached.
       if cached then act_get px_metadata
       else
         act_bind (read_clock k) (\<lambda>metadata_birth.
         act_bind (admin_cluster_metadata ao None) (\<lambda>metadata.
         act_bind (act_modify (\<lambda>s. s\<lparr>
             px_topic_birth := fold (\<lambda>t births. dict_set births t metadata_birth) (dict_keys (md_topics metadata)) (px_topic_birth s),
             px_global_birth := metadata_birth, px_metadata := metadata, px_metadata_complete := True\<rparr>)) (\<lambda>_.
           act_return metadata)))))"

text \<open>The cached entries of the topics; one that is missing raises \<open>KeyError\<close>.\<close>

definition cached_topics :: "string list \<Rightarrow> cluster_metadata \<Rightarrow> cluster_metadata rest" where
  "cached_topics topics md =
     rbind (rfold (\<lambda>t d. rbind (of_option (Py KeyError) (dict_get (md_topics md) t)) (\<lambda>m. Inr (dict_set d t m))) topics [])
       (\<lambda>d. Inr (md\<lparr>md_topics := d\<rparr>))"

definition new_topic_metadata :: "rat \<Rightarrow> string \<times> topic_metadata \<Rightarrow>
    bool \<times> ('h, 'w, 'z) metadata_state_scheme \<Rightarrow> bool \<times> ('h, 'w, 'z) metadata_state_scheme" where
  "new_topic_metadata birth entry acc =
     (case (entry, acc) of ((t, m), (need_refresh, s)) \<Rightarrow>
        (need_refresh \<or> dict_get (md_topics (px_metadata s)) t \<noteq> Some m,
         s\<lparr>px_topic_birth := dict_set (px_topic_birth s) t birth,
           px_metadata := (px_metadata s)\<lparr>md_topics := dict_set (md_topics (px_metadata s)) t m\<rparr>\<rparr>))"

definition store_topics :: "rat \<Rightarrow> cluster_metadata \<Rightarrow> ('h, 'w, 'z) metadata_state_scheme \<Rightarrow> ('h, 'w, 'z) metadata_state_scheme" where
  "store_topics birth metadata s =
     (let need_refresh = \<not> list_all (\<lambda>b. b \<in> set (md_brokers (px_metadata s))) (md_brokers metadata)
      in case fold (new_topic_metadata birth) (md_topics metadata) (need_refresh, s) of
           (need_refresh, s) \<Rightarrow> if need_refresh then s\<lparr>px_metadata_complete := False\<rparr> else s)"

definition update_metadata_for_topics ::
    "('h, 'w) kafka_ops \<Rightarrow> 'w admin_ops \<Rightarrow> rat \<Rightarrow> string list \<Rightarrow> (('h, 'w, 'z) metadata_state_scheme, cluster_metadata) rest_act" where
  "update_metadata_for_topics k ao max_age topics =
     act_bind (is_metadata_of_topics_old k max_age topics) (\<lambda>old.
       if \<not> old then act_bind (act_get px_metadata) (\<lambda>md. act_lift (cached_topics topics md))
       else
         act_bind (read_clock k) (\<lambda>metadata_birth.
         act_bind (admin_cluster_metadata ao (Some topics)) (\<lambda>metadata.
         act_bind (act_modify (store_topics metadata_birth metadata)) (\<lambda>_.
           act_return metadata))))"

definition rest_cluster_metadata ::
    "('h, 'w) kafka_ops \<Rightarrow> 'w admin_ops \<Rightarrow> rat \<Rightarrow> string list option \<Rightarrow>
     (('h, 'w, 'z) metadata_state_scheme, cluster_metadata) rest_act" where
  "rest_cluster_metadata k ao max_age topics =
     act_catch
       (case topics of
          None \<Rightarrow> update_all_metadata k ao max_age
        | Some ts \<Rightarrow> if ts = [] then update_all_metadata k ao max_age else update_metadata_for_topics k ao max_age ts)
       (\<lambda>e. act_raise (if e = Kafka KafkaException then HTTPResponse HTTP_INTERNAL_SERVER_ERROR MessageBody else e))"

section \<open>Requests\<close>

definition partition_json :: "partition_metadata \<Rightarrow> json" where
  "partition_json p =
     JObj [(''partition'', JInt (pm_partition p)), (''leader'', JInt (pm_leader p)),
       (''replicas'', JArr (map (\<lambda>(b, l, i). JObj [(''broker'', JInt b), (''leader'', JBool l), (''in_sync'', JBool i)]) (pm_replicas p)))]"

definition topic_json :: "topic_metadata \<Rightarrow> json" where
  "topic_json m =
     JObj ([(''partitions'', JArr (map partition_json (tm_partitions m)))] @
       (case tm_name m of None \<Rightarrow> [] | Some n \<Rightarrow> [(''name'', JStr n)]) @
       (case tm_configs m of None \<Rightarrow> [] | Some c \<Rightarrow> [(''configs'', c)]))"

definition topic_missing :: "rest_exn \<Rightarrow> bool" where
  "topic_missing e \<longleftrightarrow> e \<in> {Kafka UnknownTopicOrPartitionError, Kafka TopicAuthorizationFailedError}"

definition get_topic_info ::
    "('h, 'w) kafka_ops \<Rightarrow> 'w admin_ops \<Rightarrow> rat \<Rightarrow> string \<Rightarrow> (('h, 'w, 'z) metadata_state_scheme, topic_metadata) rest_act" where
  "get_topic_info k ao max_age topic =
     act_catch
       (act_bind (rest_cluster_metadata k ao max_age (Some [topic])) (\<lambda>metadata.
          act_lift (of_option (Py KeyError) (dict_get (md_topics metadata) topic))))
       (\<lambda>e. act_raise (if topic_missing e \<or> e = Py KeyError then not_found TOPIC_NOT_FOUND else e))"

definition validate_partition_id :: "string \<Rightarrow> int rest" where
  "validate_partition_id partition_id =
     (case py_int partition_id of Inl _ \<Rightarrow> Inl (not_found (CodeHttp HTTP_NOT_FOUND)) | Inr i \<Rightarrow> Inr i)"

definition get_partition_info ::
    "('h, 'w) kafka_ops \<Rightarrow> 'w admin_ops \<Rightarrow> rat \<Rightarrow> string \<Rightarrow> string \<Rightarrow> (('h, 'w, 'z) metadata_state_scheme, partition_metadata) rest_act" where
  "get_partition_info k ao max_age topic partition_id =
     act_bind (act_lift (validate_partition_id partition_id)) (\<lambda>partition_id.
       act_catch
         (act_bind (get_topic_info k ao max_age topic) (\<lambda>topic_data.
            case find (\<lambda>p. pm_partition p = partition_id) (tm_partitions topic_data) of
              Some p \<Rightarrow> act_return p
            | None \<Rightarrow> act_raise (not_found PARTITION_NOT_FOUND)))
         (\<lambda>e. act_raise (if topic_missing e \<or> e = Py KeyError then not_found TOPIC_NOT_FOUND else e)))"

definition list_topics :: "('h, 'w) kafka_ops \<Rightarrow> 'w admin_ops \<Rightarrow> rat \<Rightarrow> (('h, 'w, 'z) metadata_state_scheme, unit) rest_act" where
  "list_topics k ao max_age =
     act_bind (rest_cluster_metadata k ao max_age None) (\<lambda>metadata.
       act_raise (ok_response (JArr (map JStr (dict_keys (md_topics metadata))))))"

text \<open>\<open>data["name"] = topic\<close>, \<open>data["configs"] = config\<close> on the cached entry.\<close>

definition annotate_topic :: "string \<Rightarrow> json \<Rightarrow> topic_metadata \<Rightarrow> topic_metadata" where
  "annotate_topic topic config m = m\<lparr>tm_name := Some topic, tm_configs := Some config\<rparr>"

definition topic_details ::
    "('h, 'w) kafka_ops \<Rightarrow> 'w admin_ops \<Rightarrow> rat \<Rightarrow> string \<Rightarrow> (('h, 'w, 'z) metadata_state_scheme, unit) rest_act" where
  "topic_details k ao max_age topic =
     act_catch
       (act_bind (rest_cluster_metadata k ao max_age (Some [topic])) (\<lambda>metadata.
        act_bind (get_topic_config ao topic) (\<lambda>config.
          case dict_get (md_topics metadata) topic of
            None \<Rightarrow> act_raise (not_found TOPIC_NOT_FOUND)
          | Some m \<Rightarrow>
              act_bind (act_modify (\<lambda>s. s\<lparr>px_metadata := (px_metadata s)\<lparr>md_topics :=
                  dict_set (md_topics (px_metadata s)) topic (annotate_topic topic config m)\<rparr>\<rparr>)) (\<lambda>_.
                act_raise (ok_response (topic_json (annotate_topic topic config m)))))))
       (\<lambda>e. act_raise (if topic_missing e then not_found UNKNOWN_TOPIC_OR_PARTITION else e))"

definition list_partitions ::
    "('h, 'w) kafka_ops \<Rightarrow> 'w admin_ops \<Rightarrow> rat \<Rightarrow> string \<Rightarrow> (('h, 'w, 'z) metadata_state_scheme, unit) rest_act" where
  "list_partitions k ao max_age topic =
     act_catch
       (act_bind (rest_cluster_metadata k ao max_age (Some [topic])) (\<lambda>metadata.
          case dict_get (md_topics metadata) topic of
            None \<Rightarrow> act_raise (Py KeyError)
          | Some m \<Rightarrow> act_raise (ok_response (JArr (map partition_json (tm_partitions m))))))
       (\<lambda>e. act_raise (if topic_missing e \<or> e = Py KeyError then not_found TOPIC_NOT_FOUND else e))"

definition partition_details ::
    "('h, 'w) kafka_ops \<Rightarrow> 'w admin_ops \<Rightarrow> rat \<Rightarrow> string \<Rightarrow> string \<Rightarrow> (('h, 'w, 'z) metadata_state_scheme, unit) rest_act" where
  "partition_details k ao max_age topic partition_id =
     act_bind (get_partition_info k ao max_age topic partition_id) (\<lambda>p. act_raise (ok_response (partition_json p)))"

definition partition_offsets ::
    "('h, 'w) kafka_ops \<Rightarrow> 'w admin_ops \<Rightarrow> rat \<Rightarrow> string \<Rightarrow> string \<Rightarrow> (('h, 'w, 'z) metadata_state_scheme, unit) rest_act" where
  "partition_offsets k ao max_age topic partition_id =
     act_bind (act_lift (validate_partition_id partition_id)) (\<lambda>partition_id.
       act_catch
         (act_bind (admin_get_offsets ao topic partition_id) (\<lambda>offsets. act_raise (ok_response offsets)))
         (\<lambda>e. if e = Kafka TopicAuthorizationFailedError then act_raise forbidden
              else if e = Kafka UnknownTopicOrPartitionError
              then act_bind (rest_cluster_metadata k ao max_age None) (\<lambda>metadata.
                     act_raise (not_found (if dict_get (md_topics metadata) topic = None then TOPIC_NOT_FOUND else PARTITION_NOT_FOUND)))
              else act_raise e))"

definition list_brokers :: "('h, 'w) kafka_ops \<Rightarrow> 'w admin_ops \<Rightarrow> rat \<Rightarrow> (('h, 'w, 'z) metadata_state_scheme, unit) rest_act" where
  "list_brokers k ao max_age =
     act_bind (rest_cluster_metadata k ao max_age None) (\<lambda>metadata.
       act_raise (ok_response (JObj [(''brokers'', JArr (map JInt (md_brokers metadata)))])))"

end
