(* ===== verification/Rest_Publish.thy ===== *)
theory Rest_Publish
  imports Rest_Metadata
begin

text \<open>
  Publishing through the REST proxy (\<open>UserRestProxy\<close> in \<open>karapace/kafka_rest_apis/__init__.py\<close>, and
  \<open>schema_cache.py\<close>): the schema ids of a request, the check of its format, the bytes of its records, and what
  the producer answers. The request data is a dictionary that the code changes in place; the model returns the changed
  one. The producer is the record \<open>producer_ops\<close>: a record that is sent ends in a delivery report or in an
  exception, either when it is handed over or later.
\<close>

section \<open>The schema cache\<close>

record ('a, 'p) schema_cache =
  sc_hash_to_id :: "(string, int) dict"
  sc_id_to_schema :: "(int, ('a, 'p) parsed_typed_schema) dict"

type_synonym ('a, 'p) topic_schema_cache = "(string, ('a, 'p) schema_cache) dict"

definition empty_schema_cache :: "('a, 'p) schema_cache" where
  "empty_schema_cache = \<lparr>sc_hash_to_id = [], sc_id_to_schema = []\<rparr>"

text \<open>
  Entries of the second dictionary, a \<open>TTLCache\<close>, disappear after a while or when there are too many: \<open>live\<close> says
  which ids it still holds.
\<close>

definition holds_id :: "(int \<Rightarrow> bool) \<Rightarrow> ('a, 'p) schema_cache \<Rightarrow> int \<Rightarrow> bool" where
  "holds_id live c i \<longleftrightarrow> live i \<and> dict_get (sc_id_to_schema c) i \<noteq> None"

definition cache_get_schema_id ::
    "('a, 'n, 'p, 'z) ext_scheme \<Rightarrow> (int \<Rightarrow> bool) \<Rightarrow> ('a, 'p) parsed_typed_schema \<Rightarrow> ('a, 'p) schema_cache \<Rightarrow>
     int option \<times> ('a, 'p) schema_cache" where
  "cache_get_schema_id e live schema c =
     (let fp = sha1 e (pts_str e schema)
      in case dict_get (sc_hash_to_id c) fp of
           None \<Rightarrow> (None, c)
         | Some i \<Rightarrow> if holds_id live c i then (Some i, c) else (None, c\<lparr>sc_hash_to_id := dict_pop (sc_hash_to_id c) fp\<rparr>))"

definition cache_set_schema ::
    "('a, 'n, 'p, 'z) ext_scheme \<Rightarrow> int \<Rightarrow> ('a, 'p) parsed_typed_schema \<Rightarrow> ('a, 'p) schema_cache \<Rightarrow> ('a, 'p) schema_cache" where
  "cache_set_schema e i schema c =
     c\<lparr>sc_hash_to_id := dict_set (sc_hash_to_id c) (sha1 e (pts_str e schema)) i,
       sc_id_to_schema := dict_set (sc_id_to_schema c) i schema\<rparr>"

definition cache_get_schema :: "(int \<Rightarrow> bool) \<Rightarrow> int \<Rightarrow> ('a, 'p) schema_cache \<Rightarrow> ('a, 'p) parsed_typed_schema option" where
  "cache_get_schema live i c = (if live i then dict_get (sc_id_to_schema c) i else None)"

definition topic_cache_get_schema_id ::
    "('a, 'n, 'p, 'z) ext_scheme \<Rightarrow> (int \<Rightarrow> bool) \<Rightarrow> string \<Rightarrow> ('a, 'p) parsed_typed_schema \<Rightarrow> ('a, 'p) topic_schema_cache \<Rightarrow>
     int option \<times> ('a, 'p) topic_schema_cache" where
  "topic_cache_get_schema_id e live topic schema tc =
     (case dict_get tc topic of
        None \<Rightarrow> (None, tc)
      | Some c \<Rightarrow> (case cache_get_schema_id e live schema c of (i, c') \<Rightarrow> (i, dict_set tc topic c')))"

definition topic_cache_set_schema ::
    "('a, 'n, 'p, 'z) ext_scheme \<Rightarrow> string \<Rightarrow> int \<Rightarrow> ('a, 'p) parsed_typed_schema \<Rightarrow> ('a, 'p) topic_schema_cache \<Rightarrow>
     ('a, 'p) topic_schema_cache" where
  "topic_cache_set_schema e topic i schema tc =
     (let c = (case dict_get tc topic of None \<Rightarrow> empty_schema_cache | Some c \<Rightarrow> c)
      in dict_set tc topic (cache_set_schema e i schema c))"

section \<open>State and surroundings\<close>

record ('h, 'w, 'a, 'p) proxy_state = "('h, 'w) metadata_state" +
  px_serializer :: "('a, 'p) serializer"
  px_schema_cache :: "('a, 'p) topic_schema_cache"
  px_producer :: bool

datatype produce_exn = PTimeout | PAssertion | PKafka kafka_exn | POther

text \<open>The first three are what \<open>send\<close> itself ends in, the others what the future it returns ends in.\<close>

datatype send_outcome =
    SendFailed produce_exn
  | SendCancelled
  | Delivered "(int option \<times> int) option"
  | DeliveryFailed produce_exn
  | DeliveryCancelled

record 'w producer_ops =
  po_start :: "'w \<Rightarrow> unit rest \<times> 'w"
  po_stop :: "'w \<Rightarrow> 'w"
  po_send :: "string \<Rightarrow> bytes option \<Rightarrow> bytes \<Rightarrow> json \<Rightarrow> 'w \<Rightarrow> send_outcome \<times> 'w"

record ('a, 'n, 'p, 'h, 'w) rest_env =
  en_ext :: "('a, 'n, 'p) ext"
  en_codec :: "('a, 'p) codec"
  en_server :: server
  en_depth :: nat
  en_memo :: "('a, 'p) memo"
  en_kafka :: "('h, 'w) kafka_ops"
  en_admin :: "'w admin_ops"
  en_producer :: "'w producer_ops"
  en_consumer_config :: consumer_config
  en_max_age :: rat
  en_name_strategy :: name_strategy
  en_name_strategy_validation :: bool
  en_live :: "int \<Rightarrow> bool"
  en_b64decode :: "json \<Rightarrow> bytes option"

definition ser_rest :: "'x ser \<Rightarrow> 'x rest" where
  "ser_rest r = (case r of Inl (Raised x) \<Rightarrow> Inl (Py x) | Inl x \<Rightarrow> Inl (SerExn x) | Inr y \<Rightarrow> Inr y)"

definition with_serializer ::
    "('a, 'p, 'x) ser_action \<Rightarrow> (('h, 'w, 'a, 'p, 'z) proxy_state_scheme, 'x) rest_act" where
  "with_serializer m s = (case m (px_serializer s) of (r, sz) \<Rightarrow> (ser_rest r, s\<lparr>px_serializer := sz\<rparr>))"

section \<open>Schema ids\<close>

definition query_schema_id_from_cache_or_registry ::
    "('a, 'n, 'p, 'h, 'w) rest_env \<Rightarrow> ('a, 'p) parsed_typed_schema \<Rightarrow> string \<Rightarrow>
     (('h, 'w, 'a, 'p, 'z) proxy_state_scheme, int) rest_act" where
  "query_schema_id_from_cache_or_registry env parsed_schema subject_name s =
     (case topic_cache_get_schema_id (en_ext env) (en_live env) subject_name parsed_schema (px_schema_cache s) of
        (Some i, tc) \<Rightarrow> (Inr i, s\<lparr>px_schema_cache := tc\<rparr>)
      | (None, tc) \<Rightarrow>
          act_bind (with_serializer (upsert_id_for_schema (en_ext env) (en_server env) parsed_schema subject_name)) (\<lambda>i.
          act_bind (act_modify (\<lambda>s. s\<lparr>px_schema_cache :=
              topic_cache_set_schema (en_ext env) subject_name i parsed_schema (px_schema_cache s)\<rparr>)) (\<lambda>_.
            act_return i)) (s\<lparr>px_schema_cache := tc\<rparr>))"

definition subject_not_included ::
    "('a, 'n, 'p, 'h, 'w) rest_env \<Rightarrow> string \<Rightarrow> subject_kind \<Rightarrow> ('a, 'p) parsed_typed_schema \<Rightarrow> string list option \<Rightarrow> bool ser" where
  "subject_not_included env topic subject_type schema subs =
     rbind (get_subject_name (en_ext env) (en_codec env) topic schema subject_type (en_name_strategy env)) (\<lambda>subject.
       case subs of None \<Rightarrow> Inl (Raised TypeError) | Some l \<Rightarrow> Inr (subject \<notin> set l))"

definition serializer_schema_for_id ::
    "('a, 'n, 'p, 'h, 'w) rest_env \<Rightarrow> ('a, 'p) need_new_call option \<Rightarrow> int \<Rightarrow>
     (('h, 'w, 'a, 'p, 'z) proxy_state_scheme, ('a, 'p) parsed_typed_schema \<times> string list option) rest_act" where
  "serializer_schema_for_id env need_new_call i =
     with_serializer (serializer_get_schema_for_id (en_ext env) (en_codec env) (en_server env) (en_depth env) (en_memo env) need_new_call i)"

definition query_schema_and_subjects ::
    "('a, 'n, 'p, 'h, 'w) rest_env \<Rightarrow> ('a, 'p) need_new_call option \<Rightarrow> int \<Rightarrow>
     (('h, 'w, 'a, 'p, 'z) proxy_state_scheme, ('a, 'p) parsed_typed_schema \<times> string list option) rest_act" where
  "query_schema_and_subjects env need_new_call i =
     act_catch (serializer_schema_for_id env need_new_call i)
       (\<lambda>e. act_raise (if e = SerExn SchemaRetrievalError then Py InvalidSchema else e))"

definition schema_id_key :: "subject_kind \<Rightarrow> string" where
  "schema_id_key t = subject_kind_value t @ ''_schema_id''"

definition schema_text_key :: "subject_kind \<Rightarrow> string" where
  "schema_text_key t = subject_kind_value t @ ''_schema''"

definition given_json :: "(string, json) dict \<Rightarrow> string \<Rightarrow> json option" where
  "given_json d k = (case dict_get d k of Some JNull \<Rightarrow> None | x \<Rightarrow> x)"

definition rest_get_schema_id ::
    "('a, 'n, 'p, 'h, 'w) rest_env \<Rightarrow> (string, json) dict \<Rightarrow> string \<Rightarrow> subject_kind \<Rightarrow> schema_type \<Rightarrow>
     (('h, 'w, 'a, 'p, 'z) proxy_state_scheme, int) rest_act" where
  "rest_get_schema_id env data topic subject_type schema_type =
     act_bind (act_lift (case dict_get data (schema_id_key subject_type) of
                           None \<Rightarrow> Inr None
                         | Some j \<Rightarrow> py (rbind (json_int j) (\<lambda>i. Inr (Some i))))) (\<lambda>schema_id.
       case schema_id of
         None \<Rightarrow>
           (case given_json data (schema_text_key subject_type) of
              None \<Rightarrow> act_raise (Py InvalidSchema)
            | Some (JStr schema_str) \<Rightarrow>
                act_bind (act_lift (py (validated_parse (en_ext env) schema_type schema_str None None))) (\<lambda>parsed_schema.
                act_bind (act_lift (ser_rest (get_subject_name (en_ext env) (en_codec env) topic parsed_schema subject_type
                            (en_name_strategy env)))) (\<lambda>subject_name.
                  query_schema_id_from_cache_or_registry env parsed_schema subject_name))
            | Some _ \<Rightarrow> act_raise (Py TypeError))
       | Some i \<Rightarrow>
           act_bind (query_schema_and_subjects env (Some (subject_not_included env topic subject_type)) i) (\<lambda>(parsed_schema, subs).
           act_bind (if en_name_strategy_validation env
                     then act_lift (ser_rest (subject_not_included env topic subject_type parsed_schema subs))
                     else act_return False) (\<lambda>missing.
             if missing then act_raise (Py InvalidSchema) else act_return i)))"

definition SCHEMA_MAPPINGS :: "(string, schema_type) dict" where
  "SCHEMA_MAPPINGS = [(''avro'', AVRO), (''jsonschema'', JSONSCHEMA), (''protobuf'', PROTOBUF)]"

definition schema_info_exn :: "rest_exn \<Rightarrow> rest_exn" where
  "schema_info_exn e =
     (if e = SerExn InvalidPayload then r_error HTTP_BAD_REQUEST (CodeHttp HTTP_BAD_REQUEST)
      else if e = SerExn SchemaRetrievalError then r_error HTTP_REQUEST_TIMEOUT SCHEMA_RETRIEVAL_ERROR
      else if e = Py InvalidSchema then unprocessable_entity INVALID_DATA
      else e)"

definition validate_schema_info ::
    "('a, 'n, 'p, 'h, 'w) rest_env \<Rightarrow> (string, json) dict \<Rightarrow> subject_kind \<Rightarrow> string \<Rightarrow> string \<Rightarrow>
     (('h, 'w, 'a, 'p, 'z) proxy_state_scheme, (string, json) dict) rest_act" where
  "validate_schema_info env data subject_type topic format =
     (case dict_get SCHEMA_MAPPINGS format of
        None \<Rightarrow> act_raise (not_found (CodeHttp HTTP_NOT_FOUND))
      | Some schema_type \<Rightarrow>
          act_bind (act_catch (rest_get_schema_id env data topic subject_type schema_type) (\<lambda>e. act_raise (schema_info_exn e))) (\<lambda>i.
            act_return (dict_set data (schema_id_key subject_type) (JInt i))))"

section \<open>The format of a request\<close>

definition PUBLISH_KEYS :: "string list" where
  "PUBLISH_KEYS = [''records'', ''value_schema'', ''value_schema_id'', ''key_schema'', ''key_schema_id'']"

definition RECORD_KEYS :: "string list" where
  "RECORD_KEYS = [''key'', ''value'', ''partition'']"

definition bad_request :: rest_exn where
  "bad_request = r_error HTTP_BAD_REQUEST (CodeHttp HTTP_BAD_REQUEST)"

definition invalid_format :: rest_exn where
  "invalid_format = unprocessable_entity (CodeHttp HTTP_UNPROCESSABLE_ENTITY)"

definition check_record :: "json \<Rightarrow> json rest" where
  "check_record r =
     (case r of
        JObj d \<Rightarrow>
          rbind (convert_to_int d ''partition'') (\<lambda>d'.
            if list_all (\<lambda>k. k \<in> set RECORD_KEYS) (dict_keys d') then Inr (JObj d') else Inl invalid_format)
      | _ \<Rightarrow> Inl bad_request)"

definition check_records :: "(string, json) dict \<Rightarrow> (string, json) dict rest" where
  "check_records data =
     (case dict_get data ''records'' of
        None \<Rightarrow> Inl invalid_format
      | Some records \<Rightarrow>
          if \<not> list_all (\<lambda>k. k \<in> set PUBLISH_KEYS) (dict_keys data) \<or> \<not> truthy records then Inl invalid_format
          else case records of
            JArr rs \<Rightarrow>
              rbind (rfold (\<lambda>r acc. rbind (check_record r) (\<lambda>r'. Inr (acc @ [r']))) rs []) (\<lambda>rs'.
                Inr (dict_set data ''records'' (JArr rs')))
          | _ \<Rightarrow> Inl bad_request)"

definition request_records :: "(string, json) dict \<Rightarrow> (string, json) dict list" where
  "request_records data =
     (case dict_get data ''records'' of
        Some (JArr rs) \<Rightarrow> List.map_filter (\<lambda>r. case r of JObj d \<Rightarrow> Some d | _ \<Rightarrow> None) rs
      | _ \<Rightarrow> [])"

definition all_empty :: "(string, json) dict \<Rightarrow> string \<Rightarrow> bool" where
  "all_empty data key \<longleftrightarrow> list_all (\<lambda>d. given_json d key = None) (request_records data)"

definition is_valid_schema_request :: "(string, json) dict \<Rightarrow> subject_kind \<Rightarrow> bool" where
  "is_valid_schema_request data subject_type =
     (case dict_get data (schema_id_key subject_type) of
        Some j \<Rightarrow> if truthy j then is_ok (json_int j) else (case dict_get data (schema_text_key subject_type) of Some s \<Rightarrow> is_str s | None \<Rightarrow> False)
      | None \<Rightarrow> (case dict_get data (schema_text_key subject_type) of Some s \<Rightarrow> is_str s | None \<Rightarrow> False))"

definition validate_schemas ::
    "('a, 'n, 'p, 'h, 'w) rest_env \<Rightarrow> string \<Rightarrow> string \<Rightarrow> subject_kind \<Rightarrow> nat \<Rightarrow> (string, json) dict \<Rightarrow>
     (('h, 'w, 'a, 'p, 'z) proxy_state_scheme, (string, json) dict) rest_act" where
  "validate_schemas env format topic subject_type code data =
     (if all_empty data (subject_kind_value subject_type) then act_return data
      else if \<not> is_valid_schema_request data subject_type then act_raise (unprocessable_entity (RecordCode code))
      else act_catch (validate_schema_info env data subject_type topic format)
             (\<lambda>e. act_raise (if e = SerExn InvalidMessageSchema then unprocessable_entity INVALID_DATA else e)))"

definition validate_publish_request_format ::
    "('a, 'n, 'p, 'h, 'w) rest_env \<Rightarrow> string \<Rightarrow> string \<Rightarrow> (string, json) dict \<Rightarrow>
     (('h, 'w, 'a, 'p, 'z) proxy_state_scheme, (string, json) dict) rest_act" where
  "validate_publish_request_format env format topic data =
     act_bind (act_lift (check_records data)) (\<lambda>data.
       if format \<in> {''avro'', ''jsonschema'', ''protobuf''}
       then act_bind (validate_schemas env format topic KeySubject 42201 data) (\<lambda>data.
              validate_schemas env format topic ValueSubject 42202 data)
       else act_return data)"

section \<open>Records\<close>

text \<open>The registry has no schema with the id \<open>None\<close>.\<close>

definition schema_serialize ::
    "('a, 'n, 'p, 'h, 'w) rest_env \<Rightarrow> json \<Rightarrow> int option \<Rightarrow> (('h, 'w, 'a, 'p, 'z) proxy_state_scheme, bytes) rest_act" where
  "schema_serialize env obj schema_id =
     act_bind (case schema_id of
                 None \<Rightarrow> act_raise (SerExn SchemaRetrievalError)
               | Some i \<Rightarrow> serializer_schema_for_id env None i) (\<lambda>(schema, _).
     act_bind (act_get px_serializer) (\<lambda>sz. act_lift (ser_rest (serialize (en_ext env) (en_codec env) schema obj sz))))"

text \<open>A value that Python takes for false is sent as no bytes, whatever the format.\<close>

definition rest_serialize ::
    "('a, 'n, 'p, 'h, 'w) rest_env \<Rightarrow> json \<Rightarrow> string \<Rightarrow> int option \<Rightarrow> (('h, 'w, 'a, 'p, 'z) proxy_state_scheme, bytes) rest_act" where
  "rest_serialize env obj ser_format schema_id =
     (if \<not> truthy obj then act_return []
      else if ser_format = ''json'' then act_return (json_encode (en_ext env) False obj)
      else if ser_format = ''binary''
      then (case en_b64decode env obj of None \<Rightarrow> act_raise bad_request | Some bs \<Rightarrow> act_return bs)
      else if ser_format \<in> {''avro'', ''jsonschema'', ''protobuf''} then schema_serialize env obj schema_id
      else act_raise FormatError)"

type_synonym prepared_record = "bytes option \<times> bytes \<times> json"

definition prepare_record ::
    "('a, 'n, 'p, 'h, 'w) rest_env \<Rightarrow> string \<Rightarrow> int option \<Rightarrow> int option \<Rightarrow> json \<Rightarrow> (string, json) dict \<Rightarrow>
     (('h, 'w, 'a, 'p, 'z) proxy_state_scheme, prepared_record) rest_act" where
  "prepare_record env ser_format key_schema_id value_schema_id default_partition r =
     act_bind (case given_json r ''key'' of
                 None \<Rightarrow> act_return None
               | Some key \<Rightarrow> act_bind (rest_serialize env key ser_format key_schema_id) (\<lambda>bs. act_return (Some bs))) (\<lambda>key.
     act_bind (rest_serialize env (dict_default r ''value'' JNull) ser_format value_schema_id) (\<lambda>v.
       act_return (key, v, dict_default r ''partition'' default_partition)))"

definition data_schema_id :: "(string, json) dict \<Rightarrow> subject_kind \<Rightarrow> int option" where
  "data_schema_id data t = (case dict_get data (schema_id_key t) of Some (JInt i) \<Rightarrow> Some i | _ \<Rightarrow> None)"

definition prepare_records ::
    "('a, 'n, 'p, 'h, 'w) rest_env \<Rightarrow> string \<Rightarrow> json \<Rightarrow> (string, json) dict \<Rightarrow>
     (('h, 'w, 'a, 'p, 'z) proxy_state_scheme, prepared_record list) rest_act" where
  "prepare_records env ser_format default_partition data =
     act_map (prepare_record env ser_format (data_schema_id data KeySubject) (data_schema_id data ValueSubject) default_partition)
       (request_records data)"

definition prepare_exn :: "rest_exn \<Rightarrow> rest_exn" where
  "prepare_exn e =
     (if e = FormatError then unprocessable_entity INVALID_DATA
      else if e = SerExn InvalidMessageSchema then unprocessable_entity INVALID_DATA
      else if e = SerExn InvalidPayload then unprocessable_entity INVALID_DATA
      else if e = SerExn SchemaRetrievalError then r_error HTTP_REQUEST_TIMEOUT SCHEMA_RETRIEVAL_ERROR
      else e)"

section \<open>Producing\<close>

definition producer_attempt ::
    "('a, 'n, 'p, 'h, 'w) rest_env \<Rightarrow> (('h, 'w, 'a, 'p, 'z) proxy_state_scheme, unit) rest_act" where
  "producer_attempt env =
     act_bind (act_catch (on_world (po_start (en_producer env)))
       (\<lambda>e. act_bind (on_world (\<lambda>w. (Inr (), po_stop (en_producer env) w))) (\<lambda>_. act_raise e))) (\<lambda>_.
       act_modify (\<lambda>s. s\<lparr>px_producer := True\<rparr>))"

fun create_producer ::
    "('a, 'n, 'p, 'h, 'w) rest_env \<Rightarrow> bool list \<Rightarrow> (('h, 'w, 'a, 'p, 'z) proxy_state_scheme, unit) rest_act" where
  "create_producer env [] = act_return ()"
| "create_producer env (retry # rest) =
     act_bind (act_get px_producer) (\<lambda>exists.
       if exists then act_return ()
       else act_catch (producer_attempt env)
              (\<lambda>e. if e \<in> {Kafka NoBrokersAvailable, Kafka AuthenticationFailedError} \<and> retry
                   then act_bind (cm_sleep (en_kafka env)) (\<lambda>_. create_producer env rest)
                   else act_raise e))"

definition maybe_create_async_producer ::
    "('a, 'n, 'p, 'h, 'w) rest_env \<Rightarrow> (('h, 'w, 'a, 'p, 'z) proxy_state_scheme, unit) rest_act" where
  "maybe_create_async_producer env = create_producer env [True, True, False]"

definition error_result :: "int \<Rightarrow> json" where
  "error_result code = JObj [(''error_code'', JInt code), (''error'', JStr [])]"

fun exn_result :: "produce_exn \<Rightarrow> json" where
  "exn_result (PKafka (BrokerResponseError True)) = error_result 2"
| "exn_result x = error_result 1"

text \<open>
  \<open>asyncio.CancelledError\<close> is not a subclass of \<open>Exception\<close>, so it is treated as a result: a cancelled \<open>send\<close>
  cannot be awaited again (\<open>TypeError\<close>), and a cancelled future has no offset (\<open>AttributeError\<close>).
\<close>

fun produce_result :: "send_outcome \<Rightarrow> json rest" where
  "produce_result (SendFailed x) = Inr (exn_result x)"
| "produce_result SendCancelled = Inl (Py TypeError)"
| "produce_result (Delivered None) = Inr (JObj [(''offset'', JInt (-1)), (''partition'', JInt 0)])"
| "produce_result (Delivered (Some (offset, partition_id))) =
     Inr (JObj [(''offset'', JInt (case offset of None \<Rightarrow> -1 | Some i \<Rightarrow> i)), (''partition'', JInt partition_id)])"
| "produce_result (DeliveryFailed x) = Inr (exn_result x)"
| "produce_result DeliveryCancelled = Inl (Py AttributeError)"

definition produce_results :: "send_outcome list \<Rightarrow> json list rest" where
  "produce_results outcomes =
     (if SendCancelled \<in> set outcomes then Inl (Py TypeError)
      else rfold (\<lambda>x acc. rbind (produce_result x) (\<lambda>j. Inr (acc @ [j]))) outcomes [])"

definition produce_messages ::
    "('a, 'n, 'p, 'h, 'w) rest_env \<Rightarrow> string \<Rightarrow> prepared_record list \<Rightarrow> (('h, 'w, 'a, 'p, 'z) proxy_state_scheme, json list) rest_act" where
  "produce_messages env topic prepared_records =
     act_bind (maybe_create_async_producer env) (\<lambda>_.
     act_bind (act_map (\<lambda>(key, v, partition_id).
         on_world (\<lambda>w. case po_send (en_producer env) topic key v partition_id w of (r, w') \<Rightarrow> (Inr r, w'))) prepared_records) (\<lambda>outcomes.
     act_lift (produce_results outcomes)))"

definition is_error_result :: "json \<Rightarrow> bool" where
  "is_error_result j \<longleftrightarrow> jget j ''error'' \<noteq> None"

definition publish_status :: "json list \<Rightarrow> nat" where
  "publish_status results = (if list_ex is_error_result results then HTTP_UNPROCESSABLE_ENTITY else HTTP_OK)"

definition publish_response :: "(string, json) dict \<Rightarrow> json list \<Rightarrow> rest_exn" where
  "publish_response data results =
     HTTPResponse (publish_status results) (JsonBody (JObj
       [(''key_schema_id'', dict_default data ''key_schema_id'' JNull), (''value_schema_id'', dict_default data ''value_schema_id'' JNull),
        (''offsets'', JArr results)]))"

definition publish ::
    "('a, 'n, 'p, 'h, 'w) rest_env \<Rightarrow> string \<Rightarrow> string option \<Rightarrow> string \<Rightarrow> (string, json) dict \<Rightarrow>
     (('h, 'w, 'a, 'p, 'z) proxy_state_scheme, unit) rest_act" where
  "publish env topic partition_id ser_format data0 =
     act_bind (get_topic_info (en_kafka env) (en_admin env) (en_max_age env) topic) (\<lambda>_.
     act_bind (case partition_id of
                 None \<Rightarrow> act_return JNull
               | Some p \<Rightarrow>
                   act_bind (get_partition_info (en_kafka env) (en_admin env) (en_max_age env) topic p) (\<lambda>_.
                     act_lift (py (rbind (py_int p) (\<lambda>i. Inr (JInt i)))))) (\<lambda>default_partition.
     act_bind (act_lift (rbind (convert_to_int data0 ''key_schema_id'') (\<lambda>d. convert_to_int d ''value_schema_id''))) (\<lambda>data1.
     act_bind (validate_publish_request_format env ser_format topic data1) (\<lambda>data.
     act_bind (act_catch (prepare_records env ser_format default_partition data) (\<lambda>e. act_raise (prepare_exn e))) (\<lambda>prepared.
     act_bind (produce_messages env topic prepared) (\<lambda>results.
       act_raise (publish_response data results)))))))"

definition rest_publish ::
    "('a, 'n, 'p, 'h, 'w) rest_env \<Rightarrow> string \<Rightarrow> string option \<Rightarrow> string \<Rightarrow> (string, json) dict \<Rightarrow>
     (('h, 'w, 'a, 'p, 'z) proxy_state_scheme, unit) rest_act" where
  "rest_publish env topic partition_id ser_format data =
     act_catch (publish env topic partition_id ser_format data)
       (\<lambda>e. act_raise (if e \<in> {Kafka NoBrokersAvailable, Kafka AuthenticationFailedError}
          then service_unavailable (CodeHttp HTTP_SERVICE_UNAVAILABLE) else e))"

end
