(* ===== verification/Rest_Proxy.thy ===== *)
theory Rest_Proxy
  imports Rest_Publish
begin

text \<open>
  \<open>KafkaRest\<close> in \<open>karapace/kafka_rest_apis/__init__.py\<close>, with \<open>authentication.py\<close>: one proxy for each Authorization
  header, made on the first request with that header and connected with the credentials in it; every route of the
  REST API; and the janitor that closes proxies that are not used. The Kafka clients of a proxy depend on its
  configuration: \<open>envs\<close> gives the clients for a configuration. The parsing of a Basic header (\<open>aiohttp\<close>) and of a token
  (\<open>jwt\<close>) are the record \<open>auth_ops\<close>.
\<close>

section \<open>Authentication\<close>

record auth_ops =
  au_basic_decode :: "string \<Rightarrow> (string \<times> string) rest"
  au_jwt_exp :: "string \<Rightarrow> int option option"

record proxy_config =
  pc_bootstrap_uri :: string
  pc_sasl_bootstrap_uri :: string
  pc_security_protocol :: string
  pc_sasl_mechanism :: "string option"
  pc_sasl_oauth_token :: "string option"
  pc_sasl_plain_username :: "string option"
  pc_sasl_plain_password :: "string option"

datatype auth_config =
    SASLOauthConfig (ac_token: string)
  | SASLPlainConfig (ac_mechanism: string) (ac_username: string) (ac_password: string)

definition raise_unauthorized :: rest_exn where
  "raise_unauthorized = HTTPResponse HTTP_UNAUTHORIZED MessageBody"

text \<open>\<open>auth_header.partition(" ")\<close> without the separator.\<close>

definition split_auth_header :: "string \<Rightarrow> string \<times> string" where
  "split_auth_header h = (takeWhile (\<lambda>c. c \<noteq> CHR '' '') h, tl (dropWhile (\<lambda>c. c \<noteq> CHR '' '') h))"

definition get_auth_config_from_header :: "auth_ops \<Rightarrow> string option \<Rightarrow> proxy_config \<Rightarrow> auth_config rest" where
  "get_auth_config_from_header au auth_header config =
     (case auth_header of
        None \<Rightarrow> Inl raise_unauthorized
      | Some h \<Rightarrow>
          (case split_auth_header h of (token_type, token) \<Rightarrow>
             if token_type = ''Bearer'' then Inr (SASLOauthConfig token)
             else if token_type = ''Basic''
             then rbind (au_basic_decode au h) (\<lambda>(login, password).
                    Inr (SASLPlainConfig (case pc_sasl_mechanism config of None \<Rightarrow> ''PLAIN'' | Some m \<Rightarrow> m) login password))
             else Inl raise_unauthorized))"

definition get_expiration_time_from_header :: "auth_ops \<Rightarrow> string \<Rightarrow> int option rest" where
  "get_expiration_time_from_header au auth_header =
     (case split_auth_header auth_header of (token_type, token) \<Rightarrow>
        if token_type = ''Bearer''
        then (case au_jwt_exp au token of None \<Rightarrow> Inl raise_unauthorized | Some e \<Rightarrow> Inr e)
        else Inr None)"

datatype client_auth = OauthProvider string | PlainAuth "string option" "string option" "string option"

definition get_kafka_client_auth_parameters_from_config :: "proxy_config \<Rightarrow> client_auth rest" where
  "get_kafka_client_auth_parameters_from_config config =
     (if pc_sasl_mechanism config = Some ''OAUTHBEARER''
      then (case pc_sasl_oauth_token config of None \<Rightarrow> Inl (Py AssertionError) | Some t \<Rightarrow> Inr (OauthProvider t))
      else Inr (PlainAuth (pc_sasl_mechanism config) (pc_sasl_plain_username config) (pc_sasl_plain_password config)))"

text \<open>The configuration of the proxy of a user: the one of the server with the credentials of the request.\<close>

definition user_config :: "proxy_config \<Rightarrow> auth_config \<Rightarrow> proxy_config" where
  "user_config config auth =
     (let config = config\<lparr>pc_bootstrap_uri := pc_sasl_bootstrap_uri config,
            pc_security_protocol :=
              (if pc_security_protocol config \<in> {''SSL'', ''SASL_SSL''} then ''SASL_SSL'' else ''SASL_PLAINTEXT'')\<rparr>
      in case auth of
           SASLOauthConfig token \<Rightarrow> config\<lparr>pc_sasl_mechanism := Some ''OAUTHBEARER'', pc_sasl_oauth_token := Some token\<rparr>
         | SASLPlainConfig mechanism username password \<Rightarrow>
             config\<lparr>pc_sasl_mechanism := Some mechanism, pc_sasl_plain_username := Some username,
               pc_sasl_plain_password := Some password\<rparr>)"

section \<open>The requests of one user\<close>

datatype rest_request =
    ListBrokers
  | CommitOffsets string string "(string, json) dict"
  | GetOffsets string string "(string, json) dict"
  | UpdateSubscription string string "(string, json) dict"
  | GetSubscription string string
  | DeleteSubscription string string
  | UpdateAssignment string string "(string, json) dict"
  | GetAssignment string string
  | SeekBeginning string string "(string, json) dict"
  | SeekEnd string string "(string, json) dict"
  | UpdateOffsets string string "(string, json) dict"
  | Fetch string string "string option" "(string, string) dict"
  | CreateConsumer string "(string, json) dict"
  | DeleteConsumer string string
  | PartitionOffsets string string
  | PartitionDetails string string
  | PartitionPublish string string string "(string, json) dict"
  | ListPartitions string
  | ListTopics
  | TopicDetails string
  | TopicPublish string string "(string, json) dict"

definition create_internal_name :: "string \<Rightarrow> string \<Rightarrow> internal_name" where
  "create_internal_name group_name consumer_name = (group_name, JStr consumer_name)"

definition proxy_deserializer ::
    "('a, 'n, 'p, 'h, 'w) rest_env \<Rightarrow> bytes \<Rightarrow> (('h, 'w, 'a, 'p, 'z) proxy_state_scheme, json) rest_act" where
  "proxy_deserializer env bs =
     with_serializer (deserialize (en_ext env) (en_codec env) (en_server env) (en_depth env) (en_memo env) bs)"

definition user_request ::
    "('a, 'n, 'p, 'h, 'w) rest_env \<Rightarrow> rest_request \<Rightarrow> ('h, 'w, 'a, 'p, 'z) proxy_state_scheme \<Rightarrow>
     (unit rest \<times> ('h, 'w, 'a, 'p, 'z) proxy_state_scheme) option" where
  "user_request env req s =
     (let k = en_kafka env; ao = en_admin env; age = en_max_age env; name = create_internal_name
      in case req of
           Fetch g i format query \<Rightarrow> cm_fetch k (proxy_deserializer env) (en_consumer_config env) (name g i) format query s
         | ListBrokers \<Rightarrow> Some (list_brokers k ao age s)
         | CommitOffsets g i d \<Rightarrow>
             Some (act_bind (rest_cluster_metadata k ao age None) (\<lambda>md. commit_offsets k (name g i) d md) s)
         | GetOffsets g i d \<Rightarrow> Some (get_offsets k (name g i) d s)
         | UpdateSubscription g i d \<Rightarrow> Some (set_subscription k (name g i) d s)
         | GetSubscription g i \<Rightarrow> Some (get_subscription k (name g i) s)
         | DeleteSubscription g i \<Rightarrow> Some (delete_subscription k (name g i) s)
         | UpdateAssignment g i d \<Rightarrow> Some (set_assignments k (name g i) d s)
         | GetAssignment g i \<Rightarrow> Some (get_assignments k (name g i) s)
         | SeekBeginning g i d \<Rightarrow> Some (seek_limit k (name g i) d True s)
         | SeekEnd g i d \<Rightarrow> Some (seek_limit k (name g i) d False s)
         | UpdateOffsets g i d \<Rightarrow> Some (seek_to k (name g i) d s)
         | CreateConsumer g d \<Rightarrow> Some (create_consumer k (en_consumer_config env) g d s)
         | DeleteConsumer g i \<Rightarrow> Some (delete_consumer k (name g i) s)
         | PartitionOffsets t p \<Rightarrow> Some (partition_offsets k ao age t p s)
         | PartitionDetails t p \<Rightarrow> Some (partition_details k ao age t p s)
         | PartitionPublish t p format d \<Rightarrow> Some (rest_publish env t (Some p) format d s)
         | ListPartitions t \<Rightarrow> Some (list_partitions k ao age t s)
         | ListTopics \<Rightarrow> Some (list_topics k ao age s)
         | TopicDetails t \<Rightarrow> Some (topic_details k ao age t s)
         | TopicPublish t format d \<Rightarrow> Some (rest_publish env t None format d s))"

section \<open>The proxies\<close>

record ('h, 'w, 'a, 'p) user_proxy =
  up_config :: proxy_config
  up_state :: "('h, 'w, 'a, 'p) proxy_state"
  up_last_used :: rat
  up_auth_expiry :: "int option"

text \<open>
  The world and the serializer are shared by all proxies: they are kept here and lent to the proxy that handles a
  request.
\<close>

record ('h, 'w, 'a, 'p) kafka_rest =
  kr_proxies :: "(string, ('h, 'w, 'a, 'p) user_proxy) dict"
  kr_serializer :: "('a, 'p) serializer"
  kr_world :: 'w

type_synonym ('a, 'n, 'p, 'h, 'w) rest_envs = "proxy_config \<Rightarrow> ('a, 'n, 'p, 'h, 'w) rest_env"

definition lend :: "('h, 'w, 'a, 'p) kafka_rest \<Rightarrow> ('h, 'w, 'a, 'p) proxy_state \<Rightarrow> ('h, 'w, 'a, 'p) proxy_state" where
  "lend kr s = s\<lparr>cm_world := kr_world kr, px_serializer := kr_serializer kr\<rparr>"

definition give_back ::
    "string \<Rightarrow> ('h, 'w, 'a, 'p) user_proxy \<Rightarrow> ('h, 'w, 'a, 'p) proxy_state \<Rightarrow> ('h, 'w, 'a, 'p) kafka_rest \<Rightarrow> ('h, 'w, 'a, 'p) kafka_rest" where
  "give_back key proxy s kr =
     kr\<lparr>kr_proxies := dict_set (kr_proxies kr) key (proxy\<lparr>up_state := s\<rparr>), kr_serializer := px_serializer s, kr_world := cm_world s\<rparr>"

definition init_proxy_state :: "('a, 'p) serializer \<Rightarrow> 'w \<Rightarrow> ('h, 'w, 'a, 'p) proxy_state" where
  "init_proxy_state sz w =
     \<lparr>cm_consumers = [], cm_world = w, px_metadata = empty_cluster_metadata_cache, px_metadata_complete = False, px_global_birth = 0,
      px_topic_birth = [], px_serializer = sz, px_schema_cache = [], px_producer = False\<rparr>"

text \<open>\<open>UserRestProxy.__init__\<close>: the administration client is started, with two more attempts.\<close>

definition connect_proxy ::
    "('a, 'n, 'p, 'h, 'w) rest_env \<Rightarrow> proxy_config \<Rightarrow> int option \<Rightarrow> ('a, 'p) serializer \<Rightarrow> 'w \<Rightarrow> ('h, 'w, 'a, 'p) user_proxy rest \<times> 'w" where
  "connect_proxy env config auth_expiry sz w =
     (let k = en_kafka env
      in case (act_bind (retried k [True, True, False] (on_world (ao_connect (en_admin env)))) (\<lambda>_. read_clock k)) (init_proxy_state sz w) of
           (Inl e, s) \<Rightarrow> (Inl e, cm_world s)
         | (Inr now, s) \<Rightarrow>
             (Inr \<lparr>up_config = config, up_state = s, up_last_used = now, up_auth_expiry = auth_expiry\<rparr>, cm_world s))"

definition add_proxy ::
    "('a, 'n, 'p, 'h, 'w) rest_envs \<Rightarrow> string \<Rightarrow> proxy_config \<Rightarrow> int option \<Rightarrow> ('h, 'w, 'a, 'p) kafka_rest \<Rightarrow>
     unit rest \<times> ('h, 'w, 'a, 'p) kafka_rest" where
  "add_proxy envs key config auth_expiry kr =
     (if dict_get (kr_proxies kr) key \<noteq> None then (Inr (), kr)
      else case connect_proxy (envs config) config auth_expiry (kr_serializer kr) (kr_world kr) of
             (Inl e, w) \<Rightarrow>
               (Inl (if e \<in> {Kafka NoBrokersAvailable, Kafka AuthenticationFailedError} then forbidden else e), kr\<lparr>kr_world := w\<rparr>)
           | (Inr proxy, w) \<Rightarrow> (Inr (), kr\<lparr>kr_proxies := dict_set (kr_proxies kr) key proxy, kr_world := w\<rparr>))"

text \<open>\<open>proxy.mark_used()\<close>\<close>

definition mark_used ::
    "('a, 'n, 'p, 'h, 'w) rest_envs \<Rightarrow> string \<Rightarrow> ('h, 'w, 'a, 'p) kafka_rest \<Rightarrow> string rest \<times> ('h, 'w, 'a, 'p) kafka_rest" where
  "mark_used envs key kr =
     (case dict_get (kr_proxies kr) key of
        None \<Rightarrow> (Inl (Py KeyError), kr)
      | Some proxy \<Rightarrow>
          (case ko_time (en_kafka (envs (up_config proxy))) (kr_world kr) of
             (now, w) \<Rightarrow> (Inr key, kr\<lparr>kr_proxies := dict_set (kr_proxies kr) key (proxy\<lparr>up_last_used := now\<rparr>), kr_world := w\<rparr>)))"

definition get_user_proxy ::
    "auth_ops \<Rightarrow> ('a, 'n, 'p, 'h, 'w) rest_envs \<Rightarrow> bool \<Rightarrow> proxy_config \<Rightarrow> string option \<Rightarrow> ('h, 'w, 'a, 'p) kafka_rest \<Rightarrow>
     string rest \<times> ('h, 'w, 'a, 'p) kafka_rest" where
  "get_user_proxy au envs rest_authorization config auth_header kr =
     (case (if rest_authorization
            then rbind (get_auth_config_from_header au auth_header config) (\<lambda>auth.
                 rbind (get_expiration_time_from_header au (the auth_header)) (\<lambda>expiry.
                   Inr (the auth_header, user_config config auth, expiry)))
            else Inr ([], config, None)) of
        Inl e \<Rightarrow> (Inl e, kr)
      | Inr (key, user_cfg, expiry) \<Rightarrow>
          (case add_proxy envs key user_cfg expiry kr of
             (Inl e, kr) \<Rightarrow> (Inl e, kr)
           | (Inr _, kr) \<Rightarrow> mark_used envs key kr))"

definition kafka_rest_request ::
    "auth_ops \<Rightarrow> ('a, 'n, 'p, 'h, 'w) rest_envs \<Rightarrow> bool \<Rightarrow> proxy_config \<Rightarrow> string option \<Rightarrow> rest_request \<Rightarrow>
     ('h, 'w, 'a, 'p) kafka_rest \<Rightarrow> (unit rest \<times> ('h, 'w, 'a, 'p) kafka_rest) option" where
  "kafka_rest_request au envs rest_authorization config auth_header req kr =
     (case get_user_proxy au envs rest_authorization config auth_header kr of
        (Inl e, kr) \<Rightarrow> Some (Inl e, kr)
      | (Inr key, kr) \<Rightarrow>
          (case dict_get (kr_proxies kr) key of
             None \<Rightarrow> Some (Inl (Py KeyError), kr)
           | Some proxy \<Rightarrow>
               (case user_request (envs (up_config proxy)) req (lend kr (up_state proxy)) of
                  None \<Rightarrow> None
                | Some (r, s) \<Rightarrow> Some (r, give_back key proxy s kr))))"

section \<open>The janitor\<close>

definition IDLE_PROXY_TIMEOUT :: nat where
  "IDLE_PROXY_TIMEOUT = 300"

text \<open>Whether a proxy is closed: \<open>now\<close> is the monotonic clock, \<open>utc\<close> the time of day in seconds.\<close>

definition is_idle :: "rat \<Rightarrow> rat \<Rightarrow> int \<Rightarrow> ('h, 'w, 'a, 'p) user_proxy \<Rightarrow> bool" where
  "is_idle idle_consumer_timeout now utc proxy \<longleftrightarrow>
     (case up_auth_expiry proxy of None \<Rightarrow> False | Some e \<Rightarrow> e < utc + int IDLE_PROXY_TIMEOUT) \<or>
     (if 0 < length (cm_consumers (up_state proxy))
      then 0 < idle_consumer_timeout \<and> up_last_used proxy + idle_consumer_timeout < now
      else up_last_used proxy + of_nat IDLE_PROXY_TIMEOUT < now)"

definition close_proxy ::
    "('a, 'n, 'p, 'h, 'w) rest_envs \<Rightarrow> ('h, 'w, 'a, 'p) user_proxy \<Rightarrow> ('h, 'w, 'a, 'p) kafka_rest \<Rightarrow> ('h, 'w, 'a, 'p) kafka_rest" where
  "close_proxy envs proxy kr =
     (let env = envs (up_config proxy); s = snd (cm_aclose (en_kafka env) (lend kr (up_state proxy)))
      in kr\<lparr>kr_world := (if px_producer s then po_stop (en_producer env) (cm_world s) else cm_world s)\<rparr>)"

definition disconnect_idle_proxy_if_any ::
    "('a, 'n, 'p, 'h, 'w) rest_envs \<Rightarrow> rat \<Rightarrow> rat \<Rightarrow> int \<Rightarrow> ('h, 'w, 'a, 'p) kafka_rest \<Rightarrow> ('h, 'w, 'a, 'p) kafka_rest" where
  "disconnect_idle_proxy_if_any envs idle_consumer_timeout now utc kr =
     (case find (\<lambda>(key, proxy). is_idle idle_consumer_timeout now utc proxy) (kr_proxies kr) of
        None \<Rightarrow> kr
      | Some (key, proxy) \<Rightarrow> close_proxy envs proxy (kr\<lparr>kr_proxies := dict_pop (kr_proxies kr) key\<rparr>))"

text \<open>Closing the application closes the proxies, the last one first, and then the serializer.\<close>

definition close_kafka_rest :: "('a, 'n, 'p, 'h, 'w) rest_envs \<Rightarrow> ('h, 'w, 'a, 'p) kafka_rest \<Rightarrow> ('h, 'w, 'a, 'p) kafka_rest" where
  "close_kafka_rest envs kr =
     (let kr = fold (\<lambda>(key, proxy). close_proxy envs proxy) (rev (kr_proxies kr)) kr
      in kr\<lparr>kr_serializer := close_serializer (kr_serializer kr)\<rparr>)"

end
