(* ===== verification/Consumer_Properties.thy ===== *)
theory Consumer_Properties
  imports Rest_Consumers
begin

text \<open>
  The consumers of the REST proxy: which entries of the table a request can change, what a fetch returns and that
  it ends, what a commit sends, and how the locks of the consumers behave when requests overlap.
\<close>

section \<open>The table of consumers\<close>

lemma keeps_on_world [keeps_intros]: "keeps (\<lambda>s. P (cm_consumers s)) (on_world f)"
  by (rule keepsI) (simp add: on_world_def split: prod.splits)

lemma keeps_exists [keeps_intros]: "keeps P (assert_consumer_exists name)"
  by (rule keepsI) (simp add: assert_consumer_exists_def)

lemma keeps_locked [keeps_intros]: "keeps P (locked_consumer name)"
  unfolding locked_consumer_def by (intro keeps_intros)

lemma keeps_illegal [keeps_intros]: "keeps P m \<Longrightarrow> keeps P (illegal_state m)"
  unfolding illegal_state_def by (intro keeps_intros)

lemma keeps_gather [keeps_intros]: "(\<And>x. keeps P (f x)) \<Longrightarrow> keeps P (gather f xs)"
proof (induction xs)
  case Nil
  show ?case by (rule keepsI) simp
next
  case (Cons x xs)
  have x: "keeps P (f x)" and xs: "keeps P (gather f xs)" using Cons by auto
  show ?case
  proof (rule keepsI)
    fix s
    assume "P s"
    then have "P (snd (f x s))" by (rule keeps_after [OF x])
    then have "P (snd (gather f xs (snd (f x s))))" by (rule keeps_after [OF xs])
    moreover obtain r t where "f x s = (r, t)" by (cases "f x s")
    ultimately show "P (snd (gather f (x # xs) s))" by (cases r) simp_all
  qed
qed

lemma keeps_split [keeps_intros]: "(\<And>x y. keeps P (f x y)) \<Longrightarrow> keeps P (case p of (x, y) \<Rightarrow> f x y)"
  by (cases p) simp

text \<open>The requests that use a consumer leave the table as it is.\<close>

lemma users_keep_table:
  fixes P defines "Q \<equiv> \<lambda>s. P (cm_consumers s)"
  shows "keeps Q (commit_offsets k name d md)" "keeps Q (get_offsets k name d)" "keeps Q (set_subscription k name d)"
    "keeps Q (get_subscription k name)" "keeps Q (delete_subscription k name)" "keeps Q (set_assignments k name d)"
    "keeps Q (get_assignments k name)" "keeps Q (seek_to k name d)" "keeps Q (seek_limit k name d b)"
  unfolding Q_def commit_offsets_def commit_locked_def get_offsets_def get_offsets_locked_def get_offset_element_def
    set_subscription_def set_subscription_locked_def get_subscription_def delete_subscription_def
    set_assignments_def set_assignments_locked_def get_assignments_def seek_to_def seek_to_locked_def seek_one_def
    seek_limit_def seek_limit_locked_def
  by (intro keeps_intros)+

text \<open>
  A fetch changes the table only through the serializer's reading of messages, which does not touch it.
\<close>

lemma keeps_deserialize:
  assumes "\<And>bs. keeps Q (deser bs)"
  shows "keeps Q (deserialize_messages k deser fmt msgs)"
proof -
  have "keeps Q (fst (get_deserialize_functions k deser fmt) b)" "keeps Q (snd (get_deserialize_functions k deser fmt) b)" for b
    unfolding get_deserialize_functions_def json_decode_func_def binary_decode_func_def deserialize_with_fallback_def
      deserialize_strict_def
    by (auto intro!: keeps_intros assms split: option.split)
  then show ?thesis
    unfolding deserialize_messages_def deserialize_message_def unprocessable_on_error_def split_beta
    by (intro keeps_intros)
qed

lemma fetch_keeps_table:
  assumes "cm_fetch k deser cfg name fmt query s = Some (r, s')" and "\<And>P bs. keeps (\<lambda>s. P (cm_consumers s)) (deser bs)"
  shows "cm_consumers s' = cm_consumers s"
proof -
  let ?Q = "\<lambda>t. cm_consumers t = cm_consumers s"
  have start: "keeps ?Q (fetch_start k cfg name fmt query)"
    unfolding fetch_start_def read_clock_def by (intro keeps_intros)
  have finish: "keeps ?Q (fetch_finish k deser f result)" for f result
    unfolding fetch_finish_def read_clock_def by (intro keeps_intros keeps_deserialize assms(2))
  have "?Q (snd (fetch_start k cfg name fmt query s))" by (rule keeps_after [OF start]) simp
  then show ?thesis
    using assms(1)
    by (auto simp: cm_fetch_def fetch_locked_def assert_consumer_exists_def
        split: prod.splits sum.splits option.splits if_splits dest!: keepsD [OF finish, rotated])
qed

text \<open>Creating a consumer can only add the entry of its own name, deleting can only remove it.\<close>

definition others_kept :: "internal_name \<Rightarrow> (internal_name, 'h typed_consumer) dict \<Rightarrow> (internal_name, 'h typed_consumer) dict \<Rightarrow> bool" where
  "others_kept name t t' \<longleftrightarrow> (\<forall>n. n \<noteq> name \<longrightarrow> dict_get t' n = dict_get t n)"

lemma keeps_retried [keeps_intros]: "keeps (\<lambda>s. P (cm_consumers s)) m \<Longrightarrow> keeps (\<lambda>s. P (cm_consumers s)) (retried k rs m)"
  by (induction rs) (auto simp: cm_sleep_def intro!: keeps_intros)

lemma create_keeps_others: "keeps (\<lambda>s. others_kept (g, n) t (cm_consumers s)) (create_locked k cfg g n d)"
  unfolding create_locked_def create_kafka_consumer_def consumer_attempt_def register_consumer_def
  by (intro keeps_intros keeps_modify) (simp add: others_kept_def)

lemma delete_keeps_others: "keeps (\<lambda>s. others_kept name t (cm_consumers s)) (delete_consumer k name)"
  unfolding delete_consumer_def delete_locked_def
  by (intro keeps_intros keeps_modify) (simp add: others_kept_def)

text \<open>
  What is known of a consumer in the table: its format is one of the known ones, the request time-out is a number and
  the other settings that the code reads are present.
\<close>

definition consumer_ok :: "'h typed_consumer \<Rightarrow> bool" where
  "consumer_ok c \<longleftrightarrow>
     (\<exists>f \<in> set KNOWN_FORMATS. tc_serialization_format c = JStr f) \<and>
     (\<exists>i. dict_get (tc_config c) ''consumer.request.timeout.ms'' = Some (JInt i)) \<and>
     dict_get (tc_config c) ''auto.offset.reset'' \<noteq> None"

lemma validated_format:
  assumes "validate_create_consumer d = Inr d'"
  shows "\<exists>f \<in> set KNOWN_FORMATS. dict_get d' ''format'' = Some (JStr f)"
  using assms by (auto simp: validate_create_consumer_def Let_def cm_assert_def split: json.splits if_splits)

lemma attempt_needs_number:
  assumes "consumer_attempt k cfg m g n d s = (Inr c, s')"
  shows "\<exists>v i. dict_get d ''consumer.request.timeout.ms'' = Some v \<and> is_int v = Some i"
  using assms unfolding consumer_attempt_def
  by (auto elim!: act_bind_result simp: act_simps number_arg_def dict_index_def)

lemma retried_returns:
  "retried k rs m s = (Inr x, s') \<Longrightarrow> \<exists>t. m t = (Inr x, s')"
proof (induction rs arbitrary: s)
  case (Cons r rs)
  from Cons.prems show ?case
    by (auto elim!: act_catch_result act_bind_result split: if_splits dest: Cons.IH simp: act_simps)
qed (simp add: act_simps)

lemma consumer_data_ok:
  assumes "consumer_data cfg d = Inr d'" and "dict_get d' ''consumer.request.timeout.ms'' = Some v" and "is_int v \<noteq> None"
    and "dict_get d' ''format'' = Some fmt"
  shows "consumer_ok \<lparr>tc_consumer = c, tc_serialization_format = fmt, tc_config = d'\<rparr>"
proof -
  obtain d1 d2 d0 where steps: "validate_create_consumer d = Inr d1"
      "convert_to_int d1 ''consumer.request.timeout.ms'' = Inr d2" "convert_to_int d2 ''fetch_min_bytes'' = Inr d0"
    and d': "d' = complete_request cfg d0"
    using assms(1) by (auto simp: consumer_data_def)
  obtain f where f: "f \<in> set KNOWN_FORMATS" "dict_get d1 ''format'' = Some (JStr f)"
    using validated_format [OF steps(1)] by blast
  have "dict_get d0 ''format'' = Some (JStr f)"
    using f(2) convert_to_int_frame [OF steps(2)] convert_to_int_frame [OF steps(3)] by simp
  then have format: "dict_get (complete_request cfg d0) ''format'' = Some (JStr f)"
    by (simp add: complete_request_def Let_def)
  have "dict_get d0 ''consumer.request.timeout.ms'' = dict_get d2 ''consumer.request.timeout.ms''"
    by (rule convert_to_int_frame [OF steps(3)]) simp
  then have "v = JNull \<or> (\<exists>i. v = JInt i)"
    using convert_to_int_result [OF steps(2)] assms(2)
    by (auto simp: d' complete_request_def Let_def dict_default_def split: option.splits)
  moreover have "dict_get (complete_request cfg d0) ''auto.offset.reset'' \<noteq> None"
    by (simp add: complete_request_def Let_def)
  ultimately show ?thesis
    using format f(1) assms(2-4) by (auto simp: consumer_ok_def d')
qed

lemma kafka_consumer_table: "keeps (\<lambda>s. P (cm_consumers s)) (create_kafka_consumer k cfg m g n d)"
  unfolding create_kafka_consumer_def consumer_attempt_def by (intro keeps_intros)

lemma registered:
  assumes "register_consumer k cfg g n d c t = (r, s')"
  shows "s' = t \<or> (\<exists>fmt. dict_get d ''format'' = Some fmt \<and> r = Inl (created_response k cfg g n) \<and>
    s' = t\<lparr>cm_consumers := dict_set (cm_consumers t) (g, n) \<lparr>tc_consumer = c, tc_serialization_format = fmt, tc_config = d\<rparr>\<rparr>)"
proof (cases "dict_get d ''format''")
  case (Some fmt)
  show ?thesis
    using assms by (intro disjI2 exI [of _ fmt]) (auto simp: Some register_consumer_def act_bind_def act_simps dict_index_def)
qed (use assms in \<open>simp add: register_consumer_def act_bind_def act_simps dict_index_def\<close>)

lemma created_consumer:
  assumes "create_locked k cfg g n d s = (r, s')" and "cm_consumers s' \<noteq> cm_consumers s"
  shows "dict_get (cm_consumers s) (g, n) = None \<and>
    (\<exists>c. consumer_ok c \<and> cm_consumers s' = dict_set (cm_consumers s) (g, n) c) \<and> r = Inl (created_response k cfg g n)"
proof -
  let ?m = "\<lambda>d. dict_default d ''fetch.min.bytes'' (JInt (cc_fetch_min_bytes cfg))"
  have table: "cm_consumers t' = cm_consumers s" if "create_kafka_consumer k cfg m g n d s = (q, t')" for m d q t'
    using keepsD [OF kafka_consumer_table [of "\<lambda>x. x = cm_consumers s"] refl that] .
  have fresh: "dict_get (cm_consumers s) (g, n) = None"
    using assms unfolding create_locked_def by (auto elim!: act_bind_result simp: act_simps split: if_splits)
  obtain d' c t where d': "consumer_data cfg d = Inr d'" and c: "create_kafka_consumer k cfg (?m d') g n d' s = (Inr c, t)"
    and reg: "register_consumer k cfg g n d' c t = (r, s')"
    using assms fresh table unfolding create_locked_def by (auto elim!: act_bind_result act_catch_result simp: act_simps)
  obtain u where "consumer_attempt k cfg (?m d') g n d' u = (Inr c, t)"
    using retried_returns [OF c [unfolded create_kafka_consumer_def]] by blast
  from attempt_needs_number [OF this]
  obtain v where v: "dict_get d' ''consumer.request.timeout.ms'' = Some v" "is_int v \<noteq> None" by blast
  from reg obtain fmt where fmt: "dict_get d' ''format'' = Some fmt"
      "cm_consumers s' = dict_set (cm_consumers t) (g, n) \<lparr>tc_consumer = c, tc_serialization_format = fmt, tc_config = d'\<rparr>"
      "r = Inl (created_response k cfg g n)"
    using table [OF c] assms(2) registered [OF reg] by auto
  show ?thesis
    using fresh fmt(2,3) consumer_data_ok [OF d' v fmt(1), of c] unfolding table [OF c] by blast
qed

text \<open>A consumer that is created was not there before; the answer is the one of success.\<close>

lemma create_consumer_effect:
  assumes "create_consumer k cfg g d s = (r, s')"
  shows "cm_consumers s' = cm_consumers s \<or>
    (\<exists>n c. dict_get (cm_consumers s) (strip_slashes g, n) = None \<and> consumer_ok c \<and>
       cm_consumers s' = dict_set (cm_consumers s) (strip_slashes g, n) c \<and> r = Inl (created_response k cfg (strip_slashes g) n))"
proof -
  have "cm_consumers s' = cm_consumers s \<or> (\<exists>n t. cm_consumers t = cm_consumers s \<and>
      create_locked k cfg (strip_slashes g) n d t = (r, s'))"
    using assms unfolding create_consumer_def Let_def
    by (auto elim!: act_bind_result simp: act_simps on_world_def split: option.splits if_splits prod.splits)
  then show ?thesis using created_consumer by metis
qed

section \<open>Fetching\<close>

definition total_size :: "consumed_message list \<Rightarrow> int" where
  "total_size ms = (\<Sum>m\<leftarrow>ms. message_size m)"

lemma total_size_simps [simp]: "total_size [] = 0" "total_size (ms @ ms') = total_size ms + total_size ms'"
  "total_size [m] = message_size m"
  by (simp_all add: total_size_def)

text \<open>What is kept in the loop: the count of bytes, no failed message, and only the last message may cross the limit.\<close>

definition fetched_ok :: "int \<Rightarrow> int \<Rightarrow> consumed_message list \<Rightarrow> bool" where
  "fetched_ok max_bytes read_bytes ms \<longleftrightarrow>
     read_bytes = total_size ms \<and> list_all (\<lambda>m. cmsg_error m = None) ms \<and> (ms \<noteq> [] \<longrightarrow> total_size (butlast ms) < max_bytes)"

lemma take_messages_ok:
  "take_messages mx ms rb acc = Inr (rb', acc') \<Longrightarrow> fetched_ok mx rb acc \<Longrightarrow> rb < mx \<Longrightarrow> fetched_ok mx rb' acc'"
proof (induction ms arbitrary: rb acc)
  case (Cons m ms)
  then have none: "cmsg_error m = None" by (auto split: option.splits)
  then have ok: "fetched_ok mx (rb + message_size m) (acc @ [m])"
    using Cons.prems by (auto simp: fetched_ok_def)
  show ?case
  proof (cases "mx \<le> rb + message_size m")
    case True
    then show ?thesis using Cons.prems none ok by (simp add: Let_def)
  next
    case False
    then show ?thesis using Cons.prems none ok Cons.IH [of "rb + message_size m" "acc @ [m]"] by (simp add: Let_def)
  qed
qed simp

lemma fetch_loop_ok:
  assumes "fetch_loop k c mx limit rb acc first w = Some y"
  shows "fetched_ok mx rb acc \<longrightarrow> (\<forall>ms. fst y = Inr ms \<longrightarrow> (\<exists>rb'. fetched_ok mx rb' ms))" (is "?P mx rb acc y")
proof (rule fetch_loop.raw_induct [where P = "\<lambda>k c mx limit rb acc first w. ?P mx rb acc", OF _ assms])
  fix loop k c mx limit rb acc first w y
  assume rec: "\<And>k c mx limit rb acc first w y. loop k c mx limit rb acc first w = Some y \<Longrightarrow> ?P mx rb acc y"
    and body: "(if mx \<le> rb then Some (Inr acc, w)
      else case ko_time k w of (now, w1) \<Rightarrow>
        if limit \<le> now then Some (Inr acc, w1)
        else case ko_time k w1 of (now, w2) \<Rightarrow>
          case estimated_messages mx rb (length acc) of
            Inl e \<Rightarrow> Some (Inl e, w2)
          | Inr n \<Rightarrow>
              (case ko_consume k c n (consume_timeout first (limit - now)) w2 of
                 (Inl e, w3) \<Rightarrow> Some (Inl (fetch_exn e), w3)
               | (Inr [], w3) \<Rightarrow> if acc \<noteq> [] then Some (Inr acc, w3) else loop k c mx limit rb acc first w3
               | (Inr (m # ms), w3) \<Rightarrow>
                   (case take_messages mx (m # ms) rb acc of
                      Inl e \<Rightarrow> Some (Inl (fetch_exn e), w3)
                    | Inr (rb, acc) \<Rightarrow> loop k c mx limit rb acc False w3))) = Some y"
  show "?P mx rb acc y"
  proof (intro impI allI)
    fix ms
    assume ok: "fetched_ok mx rb acc" and y: "fst y = Inr ms"
    have again: "\<exists>rb'. fetched_ok mx rb' ms" if "loop k c mx limit rb acc first w = Some y" "fetched_ok mx rb acc"
      for k c limit rb acc first w
      using rec [OF that(1)] that(2) y by blast
    show "\<exists>rb'. fetched_ok mx rb' ms"
      using body ok y
      by (auto split: if_splits prod.splits sum.splits list.splits simp del: take_messages.simps)
        (metis again take_messages_ok not_le)+
  qed
qed

text \<open>
  C36: A fetch never returns a message that the broker marked as failed, and the messages it returns stay within the
  requested number of bytes: without the last one they have fewer bytes than the limit.
\<close>

theorem fetch_respects_limit:
  assumes "fetch_loop k c max_bytes end_time 0 [] True w = Some (Inr ms, w')"
  shows "list_all (\<lambda>m. cmsg_error m = None) ms \<and> (ms = [] \<or> total_size (butlast ms) < max_bytes)"
proof -
  have "fetched_ok max_bytes 0 []" by (simp add: fetched_ok_def)
  then obtain rb where "fetched_ok max_bytes rb ms" using fetch_loop_ok [OF assms] by auto
  then show ?thesis by (auto simp: fetched_ok_def)
qed

text \<open>The clock of the world: reading it gives the current time, and a call to the broker takes some time.\<close>

definition clock_advances :: "('h, 'w) kafka_ops \<Rightarrow> ('w \<Rightarrow> rat) \<Rightarrow> rat \<Rightarrow> bool" where
  "clock_advances k now step \<longleftrightarrow>
     0 < step \<and>
     (\<forall>w t w'. ko_time k w = (t, w') \<longrightarrow> t = now w \<and> now w \<le> now w') \<and>
     (\<forall>c n timeout w r w'. ko_consume k c n timeout w = (r, w') \<longrightarrow> now w + step \<le> now w')"

lemma fetch_loop_returns:
  assumes "clock_advances k now step"
  shows "end_time - now w \<le> of_nat n * step \<Longrightarrow> \<exists>r. fetch_loop k c mx end_time rb acc first w = Some r"
proof (induction n arbitrary: w rb acc first)
  case 0
  then have "end_time \<le> now w" by simp
  moreover obtain t w1 where "ko_time k w = (t, w1)" by (cases "ko_time k w")
  moreover from this assms have "t = now w" by (auto simp: clock_advances_def)
  ultimately show ?case by (subst fetch_loop.simps) simp
next
  case (Suc n)
  obtain t w1 where t: "ko_time k w = (t, w1)" by (cases "ko_time k w")
  obtain t' w2 where t': "ko_time k w1 = (t', w2)" by (cases "ko_time k w1")
  have "now w \<le> now w1" "now w1 \<le> now w2" using assms t t' unfolding clock_advances_def by blast+
  then have later: "now w \<le> now w2" by simp
  have again: "\<exists>a b. fetch_loop k c mx end_time rb acc first w3 = Some (a, b)"
    if "ko_consume k c m d w2 = (r, w3)" for m d r w3 rb acc first
  proof -
    have "now w2 + step \<le> now w3" using assms that by (auto simp: clock_advances_def)
    with later Suc.prems have "end_time - now w3 \<le> of_nat n * step" by (simp add: algebra_simps)
    from Suc.IH [OF this] show ?thesis by auto
  qed
  show ?case
    by (subst fetch_loop.simps) (auto simp: t t' split: sum.splits prod.splits list.splits intro: again)
qed

text \<open>
  C11: Every fetch ends: if each call to the broker takes at least some fixed time, the loop reaches its time limit and
  the handler answers.
\<close>

theorem fetch_returns:
  assumes "clock_advances k now step"
  shows "\<exists>r s'. cm_fetch k deser cfg name fmt query s = Some (r, s')"
proof -
  have loop: "\<exists>r. fetch_loop k c mx end_time rb acc first w = Some r" for c mx end_time rb acc first w
  proof -
    have "0 < step" using assms by (simp add: clock_advances_def)
    then obtain n where "end_time - now w < of_nat n * step" using ex_less_of_nat_mult by blast
    then show ?thesis using fetch_loop_returns [OF assms, of end_time w n] by (simp add: less_imp_le)
  qed
  show ?thesis
    unfolding cm_fetch_def fetch_locked_def
    by (auto split: prod.splits sum.splits option.splits) (use loop in \<open>metis option.distinct(1)\<close>)
qed

section \<open>Locks\<close>

definition holds_section :: "lock_state \<Rightarrow> internal_name \<Rightarrow> nat \<Rightarrow> bool" where
  "holds_section st name t \<longleftrightarrow>
     (\<exists>task l. dict_get (ls_tasks st) t = Some task \<and> lt_name task = name \<and> lt_phase task = Holds l)"

definition never_deleted :: "lock_state \<Rightarrow> internal_name \<Rightarrow> bool" where
  "never_deleted st name \<longleftrightarrow> (\<forall>t task. dict_get (ls_tasks st) t = Some task \<longrightarrow> lt_name task = name \<longrightarrow> \<not> lt_deletes task)"

text \<open>A lock has at most one holder, and the requests of a name that was never deleted use the lock of the table.\<close>

definition locks_ok :: "lock_state \<Rightarrow> bool" where
  "locks_ok st \<longleftrightarrow>
     (\<forall>t t' task task' l. dict_get (ls_tasks st) t = Some task \<longrightarrow> lt_phase task = Holds l \<longrightarrow>
        dict_get (ls_tasks st) t' = Some task' \<longrightarrow> lt_phase task' = Holds l \<longrightarrow> t' = t) \<and>
     (\<forall>t task l. dict_get (ls_tasks st) t = Some task \<longrightarrow> lt_phase task \<in> {Waits l, Holds l} \<longrightarrow>
        never_deleted st (lt_name task) \<longrightarrow> dict_get (ls_locks st) (lt_name task) = Some l)"

lemma locks_okD:
  assumes "locks_ok st"
  shows "dict_get (ls_tasks st) t = Some task \<Longrightarrow> lt_phase task = Holds l \<Longrightarrow>
      dict_get (ls_tasks st) t' = Some task' \<Longrightarrow> lt_phase task' = Holds l \<Longrightarrow> t' = t"
    and "dict_get (ls_tasks st) t = Some task \<Longrightarrow> lt_phase task \<in> {Waits l, Holds l} \<Longrightarrow> never_deleted st (lt_name task) \<Longrightarrow>
      dict_get (ls_locks st) (lt_name task) = Some l"
  using assms unfolding locks_ok_def by blast+

lemma locks_ok_set_phase:
  assumes ok: "locks_ok st" and t: "dict_get (ls_tasks st) t = Some task"
    and p: "p = Finished \<or> p = Holds l \<and> lt_phase task = Waits l \<and>
      (\<forall>t' task'. dict_get (ls_tasks st) t' = Some task' \<longrightarrow> lt_phase task' \<noteq> Holds l)"
  shows "locks_ok (set_phase t task p st)"
proof -
  let ?st = "set_phase t task p st"
  have get: "dict_get (ls_tasks ?st) u = (if u = t then Some (task\<lparr>lt_phase := p\<rparr>) else dict_get (ls_tasks st) u)"
    and locks: "ls_locks ?st = ls_locks st" for u
    by (simp_all add: set_phase_def)
  have same: "never_deleted st n" if "never_deleted ?st n" for n
    unfolding never_deleted_def
  proof (intro allI impI)
    fix u v
    assume "dict_get (ls_tasks st) u = Some v" "lt_name v = n"
    then show "\<not> lt_deletes v"
      using that [unfolded never_deleted_def, rule_format, of u] get [of u] t by (cases "u = t") auto
  qed
  have "u' = u" if "dict_get (ls_tasks ?st) u = Some v" "lt_phase v = Holds m" "dict_get (ls_tasks ?st) u' = Some v'"
    "lt_phase v' = Holds m" for u u' v v' m
    using that get [of u] get [of u'] locks_okD(1) [OF ok, of u v m u' v'] p by (cases "u = t"; cases "u' = t") auto
  moreover have "dict_get (ls_locks st) (lt_name v) = Some m"
    if "dict_get (ls_tasks ?st) u = Some v" "lt_phase v \<in> {Waits m, Holds m}" "never_deleted ?st (lt_name v)" for u v m
    using that(1,2) get [of u] same [OF that(3)] locks_okD(2) [OF ok, of u v m] locks_okD(2) [OF ok t, of m] p
    by (cases "u = t") auto
  ultimately show ?thesis unfolding locks_ok_def locks by blast
qed

lemma locks_ok_reachable: "lock_reachable st \<Longrightarrow> locks_ok st"
proof (induction rule: lock_reachable.induct)
  case init
  show ?case by (simp add: locks_ok_def init_locks_def)
next
  case (step st st')
  from step.hyps(2) show ?case
  proof (cases rule: lock_step.cases)
    case (enter t name l st1 deletes)
    then have tasks: "ls_tasks st1 = ls_tasks st" "dict_get (ls_locks st1) name = Some l"
      "\<And>n. dict_get (ls_locks st) n \<noteq> None \<Longrightarrow> dict_get (ls_locks st1) n = dict_get (ls_locks st) n"
      by (auto simp: lock_of_def split: option.splits)
    have get: "dict_get (ls_tasks st') u = (if u = t then Some \<lparr>lt_name = name, lt_deletes = deletes, lt_phase = Waits l\<rparr>
        else dict_get (ls_tasks st) u)" "ls_locks st' = ls_locks st1" for u
      using enter(1) tasks(1) by (simp_all add: set_phase_def)
    have mono: "never_deleted st n" if "never_deleted st' n" for n
      unfolding never_deleted_def
    proof (intro allI impI)
      fix u task
      assume "dict_get (ls_tasks st) u = Some task" "lt_name task = n"
      moreover from this enter(2) have "u \<noteq> t" by auto
      ultimately show "\<not> lt_deletes task" using that get(1) unfolding never_deleted_def by metis
    qed
    have table: "dict_get (ls_locks st') (lt_name task) = Some m"
      if "dict_get (ls_tasks st') u = Some task" "lt_phase task \<in> {Waits m, Holds m}" "never_deleted st' (lt_name task)" for u task m
    proof (cases "u = t")
      case True
      then show ?thesis using that get tasks(2) by auto
    next
      case False
      then have "dict_get (ls_tasks st) u = Some task" using that(1) get(1) by simp
      from locks_okD(2) [OF step.IH this that(2) mono [OF that(3)]] show ?thesis using tasks(3) get(2) by simp
    qed
    have "u' = u" if "dict_get (ls_tasks st') u = Some task" "lt_phase task = Holds m"
      "dict_get (ls_tasks st') u' = Some task'" "lt_phase task' = Holds m" for u u' task task' m
      using locks_okD(1) [OF step.IH, of u task m u' task'] that get(1) by (auto split: if_splits)
    with table show ?thesis unfolding locks_ok_def by blast
  next
    case (acquire t task l)
    show ?thesis unfolding acquire(1) using locks_ok_set_phase [OF step.IH acquire(2)] acquire(3,4) by blast
  next
    case (drop_lock t task l)
    have "n \<noteq> lt_name task" if "never_deleted st n" for n
      using that drop_lock(2,4) unfolding never_deleted_def by blast
    then have "dict_get (ls_locks st') n = dict_get (ls_locks st) n" if "never_deleted st n" for n
      using that by (simp add: drop_lock(1))
    then have table: "dict_get (ls_locks st') (lt_name v) = Some m"
      if "dict_get (ls_tasks st) u = Some v" "lt_phase v \<in> {Waits m, Holds m}" "never_deleted st (lt_name v)" for u v m
      using locks_okD(2) [OF step.IH that] that(3) by simp
    have tasks: "ls_tasks st' = ls_tasks st" by (simp add: drop_lock(1))
    show ?thesis
      unfolding locks_ok_def never_deleted_def tasks
      unfolding never_deleted_def [symmetric] using locks_okD(1) [OF step.IH] table by blast
  next
    case (release t task l)
    show ?thesis unfolding release(1) using locks_ok_set_phase [OF step.IH release(2)] by blast
  qed
qed

text \<open>
  Requests on one consumer exclude each other as long as no consumer of that name is deleted: at most one of
  them is past its lock at any time, whatever the interleaving.
\<close>

theorem consumer_sections_exclusive:
  assumes "lock_reachable st" and "never_deleted st name" and "holds_section st name t" and "holds_section st name t'"
  shows "t' = t"
proof -
  from locks_ok_reachable [OF assms(1)] assms(2-4) show ?thesis
    unfolding locks_ok_def holds_section_def by (metis insertCI option.inject)
qed

text \<open>
  A deletion breaks the exclusion: it removes the lock from the table while other requests wait for it. A request
  that comes later makes a new lock, and both run at the same time.
\<close>

theorem deletion_breaks_exclusion:
  "\<exists>st. lock_reachable st \<and> holds_section st (''g'', JStr ''c'') 2 \<and> holds_section st (''g'', JStr ''c'') 3"
proof -
  let ?n = "(''g'', JStr ''c'') :: internal_name"
  let ?task = "\<lambda>del ph. \<lparr>lt_name = ?n, lt_deletes = del, lt_phase = ph\<rparr>"
  let ?st = "\<lambda>locks next tasks. \<lparr>ls_locks = locks, ls_next = next, ls_tasks = tasks\<rparr>"
  have start: "lock_step st (set_phase t (?task del Finished) (Waits l) st')"
    if "dict_get (ls_tasks st) t = None" "lock_of ?n st = (l, st')" for st t del l st'
    using lock_step.enter [OF that] .
  have "lock_reachable (?st [(?n, 0)] 1 [(1, ?task True (Waits 0))])"
    using lock_reachable.step [OF lock_reachable.init start [of init_locks 1 0 "?st [(?n, 0)] 1 []" True]]
    by (simp add: init_locks_def lock_of_def set_phase_def)
  from lock_reachable.step [OF this lock_step.acquire [of _ 1 "?task True (Waits 0)" 0]]
  have "lock_reachable (?st [(?n, 0)] 1 [(1, ?task True (Holds 0))])"
    by (simp add: set_phase_def split: if_splits)
  from lock_reachable.step [OF this start [of _ 2 0 "?st [(?n, 0)] 1 [(1, ?task True (Holds 0))]" False]]
  have "lock_reachable (?st [(?n, 0)] 1 [(1, ?task True (Holds 0)), (2, ?task False (Waits 0))])"
    by (simp add: lock_of_def set_phase_def)
  from lock_reachable.step [OF this lock_step.drop_lock [of _ 1 "?task True (Holds 0)" 0]]
  have "lock_reachable (?st [] 1 [(1, ?task True (Holds 0)), (2, ?task False (Waits 0))])"
    by simp
  from lock_reachable.step [OF this lock_step.release [of _ 1 "?task True (Holds 0)" 0]]
  have "lock_reachable (?st [] 1 [(1, ?task True Finished), (2, ?task False (Waits 0))])"
    by (simp add: set_phase_def)
  from lock_reachable.step [OF this start [of _ 3 1 "?st [(?n, 1)] 2 [(1, ?task True Finished), (2, ?task False (Waits 0))]" False]]
  have "lock_reachable (?st [(?n, 1)] 2 [(1, ?task True Finished), (2, ?task False (Waits 0)), (3, ?task False (Waits 1))])"
    by (simp add: lock_of_def set_phase_def)
  from lock_reachable.step [OF this lock_step.acquire [of _ 2 "?task False (Waits 0)" 0]]
  have "lock_reachable (?st [(?n, 1)] 2 [(1, ?task True Finished), (2, ?task False (Holds 0)), (3, ?task False (Waits 1))])"
    by (simp add: set_phase_def split: if_splits)
  from lock_reachable.step [OF this lock_step.acquire [of _ 3 "?task False (Waits 1)" 1]]
  have "lock_reachable (?st [(?n, 1)] 2 [(1, ?task True Finished), (2, ?task False (Holds 0)), (3, ?task False (Holds 1))])"
    by (simp add: set_phase_def split: if_splits)
  then show ?thesis by (intro exI conjI) (auto simp: holds_section_def)
qed

section \<open>Commits\<close>

text \<open>The client library builds a partition from the values it is given, and refuses other types.\<close>

definition builds_partitions :: "('h, 'w) kafka_ops \<Rightarrow> bool" where
  "builds_partitions k \<longleftrightarrow>
     (\<forall>t p off tp. ko_topic_partition k t p off = Inr tp \<longrightarrow>
        t = JStr (tp_topic tp) \<and> is_int p = Some (tp_partition tp) \<and> off = tp_offset tp)"

lemma commit_element_valid:
  assumes "commit_element k md el = Inr tp" and "builds_partitions k"
  shows "\<exists>t. dict_get (md_topics md) (tp_topic tp) = Some t \<and> tp_partition tp \<in> pm_partition ` set (tm_partitions t)"
proof -
  obtain d topic part off where d: "topic_and_partition_valid md d = Inr ()" "dict_get d ''topic'' = Some topic"
      "dict_get d ''partition'' = Some part" "ko_topic_partition k topic part (Offset (off + 1)) = Inr tp"
    using assms(1) by (auto simp: commit_element_def dict_index_def)
  from assms(2) d(4) have "topic = JStr (tp_topic tp)" "is_int part = Some (tp_partition tp)"
    by (auto simp: builds_partitions_def)
  with d(1-3) show ?thesis
    by (auto simp: topic_and_partition_valid_def dict_index_def split: option.splits if_splits)
qed


section \<open>A sample client\<close>

text \<open>The world of the sample is the time, the messages of a topic that were not delivered yet, and a rest.\<close>

definition sample_ops :: "(unit, rat \<times> consumed_message list \<times> 'v) kafka_ops" where
  "sample_ops =
     \<lparr>ko_topic_partition = (\<lambda>t p off. case (t, is_int p) of (JStr s, Some i) \<Rightarrow>
        Inr \<lparr>tp_topic = s, tp_partition = i, tp_offset = off\<rparr> | _ \<Rightarrow> Inl (Py TypeError)),
      ko_create = (\<lambda>st w. (Inr (), w)), ko_stop = (\<lambda>c w. (Inr (), w)), ko_commit = (\<lambda>c p w. (Inr (), w)),
      ko_committed = (\<lambda>c p w. (Inr [None], w)), ko_subscribe = (\<lambda>c t p w. (Inr (), w)), ko_subscription = (\<lambda>c w. (Inr [], w)),
      ko_unsubscribe = (\<lambda>c w. (Inr (), w)), ko_assign = (\<lambda>c p w. (Inr (), w)), ko_assignment = (\<lambda>c w. (Inr [], w)),
      ko_seek = (\<lambda>c p w. (Inr (), w)),
      ko_consume = (\<lambda>c n timeout (t, ms, v). (Inr (take (nat n) ms), (t + 1 / 2, drop (nat n) ms, v))),
      ko_time = (\<lambda>(t, w). (t, (t, w))), ko_sleep = (\<lambda>(t, w). (t + 1, w)), ko_uuid = (\<lambda>w. (''u'', w)),
      ko_urljoin = (@), ko_str = (\<lambda>j. case j of JStr s \<Rightarrow> s | _ \<Rightarrow> ''?''), ko_b64encode = (\<lambda>bs. bs),
      ko_loads = (\<lambda>bs. Inl (Py JSONDecodeError))\<rparr>"

definition sample_consumer_config :: consumer_config where
  "sample_consumer_config =
     \<lparr>cc_rest_base_uri = ''http://h'', cc_consumer_enable_auto_commit = True, cc_consumer_request_timeout_ms = 1000,
      cc_consumer_request_max_bytes = 10, cc_fetch_min_bytes = 1, cc_session_timeout_ms = 10000\<rparr>"

definition sample_consumed :: "int \<Rightarrow> bytes \<Rightarrow> consumed_message" where
  "sample_consumed off bs =
     \<lparr>cmsg_error = None, cmsg_topic = ''t'', cmsg_partition = 0, cmsg_offset = off, cmsg_timestamp = None, cmsg_key = None,
      cmsg_value = Some bs\<rparr>"

definition sample_consumers :: "consumed_message list \<Rightarrow> (unit, rat \<times> consumed_message list \<times> unit) consumers_state" where
  "sample_consumers ms =
     \<lparr>cm_consumers = [((''g'', JStr ''c''), \<lparr>tc_consumer = (), tc_serialization_format = JStr ''binary'',
        tc_config = [(''consumer.request.timeout.ms'', JInt 1000)]\<rparr>)], cm_world = (0, ms, ())\<rparr>"

definition sample_fetch ::
    "(unit, rat \<times> consumed_message list \<times> unit) consumers_state \<Rightarrow> (unit rest \<times> (unit, rat \<times> consumed_message list \<times> unit) consumers_state) option" where
  "sample_fetch = cm_fetch sample_ops (\<lambda>bs. act_raise DeserializationError) sample_consumer_config (''g'', JStr ''c'')
     (Some ''binary'') []"

definition sample_record :: "int \<Rightarrow> bytes \<Rightarrow> json" where
  "sample_record off bs =
     JObj [(''topic'', JStr ''t''), (''partition'', JInt 0), (''offset'', JInt off), (''timestamp'', JNull), (''key'', JNull),
       (''value'', JStr bs)]"


text \<open>
  Messages without key and value make a fetch fail: the average size is zero, and the division by it raises an
  exception that no handler translates.
\<close>

theorem empty_messages_fail:
  "map_option fst (sample_fetch (sample_consumers [sample_consumed 0 [], sample_consumed 1 ''a''])) = Some (Inl (Py ZeroDivisionError))"
  by code_simp

text \<open>
  A request that passed the check for its consumer fails with an exception when the consumer is deleted before the
  request gets the lock.
\<close>

theorem deleted_while_waiting:
  assumes "assert_consumer_exists name s = (Inr (), s)" and "delete_consumer k name s = (r, s')"
  shows "commit_locked k name payload s' = (Inl (Py KeyError), s') \<and> r = Inl empty_response"
proof -
  obtain c where c: "dict_get (cm_consumers s) name = Some c"
    using assms(1) by (auto simp: assert_consumer_exists_def split: if_splits)
  obtain q w where stop: "ko_stop k (tc_consumer c) (cm_world s) = (q, w)" by (cases "ko_stop k (tc_consumer c) (cm_world s)")
  have "dict_get (cm_consumers s') name = None \<and> r = Inl empty_response"
    using assms c stop
    by (cases q) (auto simp: delete_consumer_def delete_locked_def act_bind_def act_catch_def act_simps on_world_def)
  then show ?thesis by (simp add: commit_locked_def locked_consumer_def act_bind_def act_simps)
qed

section \<open>Witnesses\<close>

lemma sample_clock: "clock_advances sample_ops fst (1 / 2)"
  by (auto simp: clock_advances_def sample_ops_def)

theorem fetch_respects_limit_witness:
  "\<exists>ms w'. fetch_loop sample_ops () 10 1 0 [] True (0, [sample_consumed 0 ''a'', sample_consumed 1 ''bcdefghij''], ()) = Some (Inr ms, w') \<and>
     length ms = 2 \<and> total_size (butlast ms) < 10"
proof -
  have "fetch_loop sample_ops () 10 1 0 [] True (0, [sample_consumed 0 ''a'', sample_consumed 1 ''bcdefghij''], ()) =
      Some (Inr [sample_consumed 0 ''a'', sample_consumed 1 ''bcdefghij''], (1, [], ()))"
    by code_simp
  with fetch_respects_limit [OF this] show ?thesis by auto
qed

theorem fetch_returns_witness: "\<exists>r s'. sample_fetch (sample_consumers []) = Some (r, s')"
  unfolding sample_fetch_def by (rule fetch_returns [OF sample_clock])

theorem consumer_sections_exclusive_witness:
  "\<exists>st. lock_reachable st \<and> holds_section st (''g'', JStr ''c'') 1 \<and> (\<forall>t. holds_section st (''g'', JStr ''c'') t \<longrightarrow> t = 1)"
proof -
  let ?n = "(''g'', JStr ''c'') :: internal_name"
  let ?task = "\<lambda>ph. \<lparr>lt_name = ?n, lt_deletes = False, lt_phase = ph\<rparr>"
  let ?st = "\<lambda>ph. \<lparr>ls_locks = [(?n, 0)], ls_next = 1, ls_tasks = [(1, ?task ph)]\<rparr>"
  have "lock_reachable (?st (Waits 0))"
    using lock_reachable.step [OF lock_reachable.init lock_step.enter [of init_locks 1 ?n 0 "(?st Finished)\<lparr>ls_tasks := []\<rparr>" False]]
    by (simp add: init_locks_def lock_of_def set_phase_def)
  from lock_reachable.step [OF this lock_step.acquire [of _ 1 "?task (Waits 0)" 0]]
  have st: "lock_reachable (?st (Holds 0))" by (simp add: set_phase_def split: if_splits)
  have one: "holds_section (?st (Holds 0)) ?n 1" by (simp add: holds_section_def)
  have nd: "never_deleted (?st (Holds 0)) ?n" by (simp add: never_deleted_def split: if_splits)
  from consumer_sections_exclusive [OF st nd one] st one show ?thesis by blast
qed


theorem deleted_while_waiting_witness:
  "commit_locked sample_ops (''g'', JStr ''c'') [] (snd (delete_consumer sample_ops (''g'', JStr ''c'') (sample_consumers []))) =
     (Inl (Py KeyError), snd (delete_consumer sample_ops (''g'', JStr ''c'') (sample_consumers [])))"
proof -
  have "assert_consumer_exists (''g'', JStr ''c'') (sample_consumers []) = (Inr (), sample_consumers [])" by code_simp
  from deleted_while_waiting [OF this] show ?thesis by (metis prod.collapse)
qed

end
