(* ===== verification/Metadata_Properties.thy ===== *)
theory Metadata_Properties
  imports Rest_Metadata Consumer_Properties
begin

text \<open>
  The cache of cluster metadata answers with data that the brokers held no longer ago than the configured maximum age,
  whatever requests came before.
\<close>

section \<open>The brokers over time\<close>

text \<open>
  \<open>cluster t\<close> is what the brokers know at time \<open>t\<close>: a listing of the topics is the state at some moment during the
  call. Reading the clock gives the time, which does not go back.
\<close>

definition broker_clock ::
    "('h, 'w) kafka_ops \<Rightarrow> 'w admin_ops \<Rightarrow> ('w \<Rightarrow> rat) \<Rightarrow> (rat \<Rightarrow> broker_view) \<Rightarrow> bool" where
  "broker_clock k ao now cluster \<longleftrightarrow>
     (\<forall>w. 0 \<le> now w) \<and>
     (\<forall>w t w'. ko_time k w = (t, w') \<longrightarrow> t = now w \<and> now w \<le> now w') \<and>
     (\<forall>w r w'. ao_list_topics ao w = (r, w') \<longrightarrow> now w \<le> now w' \<and>
        (\<forall>v. r = Inr v \<longrightarrow> (\<exists>t. now w \<le> t \<and> t \<le> now w' \<and> v = cluster t))) \<and>
     (\<forall>w x r w'. ao_describe_configs ao x w = (r, w') \<longrightarrow> now w \<le> now w') \<and>
     (\<forall>w x i b r w'. ao_list_offset ao x i b w = (r, w') \<longrightarrow> now w \<le> now w')"

definition held_at :: "(rat \<Rightarrow> broker_view) \<Rightarrow> rat \<Rightarrow> string \<Rightarrow> topic_metadata \<Rightarrow> bool" where
  "held_at cluster t topic m \<longleftrightarrow> (\<exists>ps. (topic, ps) \<in> set (bv_topics (cluster t)) \<and> tm_partitions m = map partition_data ps)"

text \<open>Every cached entry was held by the brokers after its recorded birth and after the last full listing.\<close>

definition fresh_ok :: "('w \<Rightarrow> rat) \<Rightarrow> (rat \<Rightarrow> broker_view) \<Rightarrow> ('h, 'w, 'z) metadata_state_scheme \<Rightarrow> bool" where
  "fresh_ok now cluster s \<longleftrightarrow>
     px_global_birth s \<le> now (cm_world s) \<and>
     (\<forall>topic m. dict_get (md_topics (px_metadata s)) topic = Some m \<longrightarrow>
        (\<exists>b t. dict_get (px_topic_birth s) topic = Some b \<and> b \<le> t \<and> px_global_birth s \<le> t \<and> t \<le> now (cm_world s) \<and>
           held_at cluster t topic m))"

lemma fresh_okE:
  assumes "fresh_ok now cluster s" and "dict_get (md_topics (px_metadata s)) topic = Some m"
  obtains b t where "dict_get (px_topic_birth s) topic = Some b" "b \<le> t" "px_global_birth s \<le> t" "t \<le> now (cm_world s)"
    "held_at cluster t topic m"
  using assms unfolding fresh_ok_def by blast

lemma admin_metadata_held:
  assumes "admin_metadata topics (cluster t) = Inr md" and "(topic, m) \<in> set (md_topics md)"
  shows "held_at cluster t topic m"
proof -
  obtain ps where "(topic, ps) \<in> set (bv_topics (cluster t))" "m = topic_data ps"
    using assms by (auto simp: admin_metadata_def split: if_splits)
  then show ?thesis unfolding held_at_def by (intro exI [of _ ps]) (simp add: topic_data_def)
qed

lemma births_fold: "dict_get (fold (\<lambda>t births. dict_set births t b) ts d) x = (if x \<in> set ts then Some b else dict_get d x)"
  by (induction ts arbitrary: d) auto

lemma read_clock_run:
  assumes "broker_clock k ao now cluster" and "read_clock k s = (r, s')"
  shows "\<exists>w. s' = s\<lparr>cm_world := w\<rparr> \<and> r = Inr (now (cm_world s)) \<and> now (cm_world s) \<le> now w"
proof -
  obtain t w where t: "ko_time k (cm_world s) = (t, w)" by (cases "ko_time k (cm_world s)")
  with assms(1) have "t = now (cm_world s)" "now (cm_world s) \<le> now w" unfolding broker_clock_def by blast+
  with assms(2) t show ?thesis by (intro exI [of _ w]) (simp add: read_clock_def on_world_def)
qed

lemma admin_run:
  assumes "broker_clock k ao now cluster" and "admin_cluster_metadata ao topics s = (r, s')"
  shows "\<exists>w. s' = s\<lparr>cm_world := w\<rparr> \<and> now (cm_world s) \<le> now w \<and>
    (\<forall>md. r = Inr md \<longrightarrow> (\<exists>t. now (cm_world s) \<le> t \<and> t \<le> now w \<and> (\<forall>(topic, m) \<in> set (md_topics md). held_at cluster t topic m)))"
proof -
  obtain q w where q: "ao_list_topics ao (cm_world s) = (q, w)" by (cases "ao_list_topics ao (cm_world s)")
  then have w: "now (cm_world s) \<le> now w" "\<And>v. q = Inr v \<Longrightarrow> \<exists>t. now (cm_world s) \<le> t \<and> t \<le> now w \<and> v = cluster t"
    using assms(1) unfolding broker_clock_def by blast+
  have run: "r = rbind q (admin_metadata topics) \<and> s' = s\<lparr>cm_world := w\<rparr>"
    using assms(2) q by (cases q) (auto simp: admin_cluster_metadata_def act_bind_def on_world_def act_simps)
  show ?thesis
  proof (intro exI [of _ w] conjI allI impI)
    fix md
    assume "r = Inr md"
    with run have "rbind q (admin_metadata topics) = Inr md" by simp
    then obtain v where v: "q = Inr v" "admin_metadata topics v = Inr md" by auto
    from w(2) [OF v(1)] obtain t where t: "now (cm_world s) \<le> t" "t \<le> now w" "v = cluster t" by blast
    have "held_at cluster t topic m" if "(topic, m) \<in> set (md_topics md)" for topic m
      using admin_metadata_held v(2) t(3) that by blast
    with t show "\<exists>t. now (cm_world s) \<le> t \<and> t \<le> now w \<and> (\<forall>(topic, m) \<in> set (md_topics md). held_at cluster t topic m)" by blast
  qed (use run w in auto)
qed

lemma fresh_ok_wait:
  assumes "fresh_ok now cluster s" and "now (cm_world s) \<le> now w"
  shows "fresh_ok now cluster (s\<lparr>cm_world := w\<rparr>)"
  unfolding fresh_ok_def
proof (intro conjI allI impI)
  show "px_global_birth (s\<lparr>cm_world := w\<rparr>) \<le> now (cm_world (s\<lparr>cm_world := w\<rparr>))"
    using assms by (simp add: fresh_ok_def)
  fix topic m
  assume "dict_get (md_topics (px_metadata (s\<lparr>cm_world := w\<rparr>))) topic = Some m"
  then have "dict_get (md_topics (px_metadata s)) topic = Some m" by simp
  with assms(1) obtain b t where "dict_get (px_topic_birth s) topic = Some b" "b \<le> t" "px_global_birth s \<le> t"
      "t \<le> now (cm_world s)" "held_at cluster t topic m"
    by (rule fresh_okE)
  with assms(2) show "\<exists>b t. dict_get (px_topic_birth (s\<lparr>cm_world := w\<rparr>)) topic = Some b \<and> b \<le> t \<and>
      px_global_birth (s\<lparr>cm_world := w\<rparr>) \<le> t \<and> t \<le> now (cm_world (s\<lparr>cm_world := w\<rparr>)) \<and> held_at cluster t topic m"
    by (intro exI [of _ b] exI [of _ t]) simp
qed

lemma fresh_ok_complete: "fresh_ok now cluster (s\<lparr>px_metadata_complete := c\<rparr>) = fresh_ok now cluster s"
  by (simp add: fresh_ok_def)

lemma new_topic_fresh:
  assumes u: "fresh_ok now cluster u" and t: "birth \<le> t" "px_global_birth u \<le> t" "t \<le> now (cm_world u)"
    and held: "held_at cluster t topic m"
  shows "fresh_ok now cluster (snd (new_topic_metadata birth (topic, m) (nr, u)))" (is "fresh_ok _ _ ?u")
  unfolding fresh_ok_def
proof (intro conjI allI impI)
  show "px_global_birth ?u \<le> now (cm_world ?u)" using u by (simp add: new_topic_metadata_def fresh_ok_def)
  fix x y
  assume y: "dict_get (md_topics (px_metadata ?u)) x = Some y"
  show "\<exists>b t. dict_get (px_topic_birth ?u) x = Some b \<and> b \<le> t \<and> px_global_birth ?u \<le> t \<and> t \<le> now (cm_world ?u) \<and> held_at cluster t x y"
  proof (cases "x = topic")
    case True
    then show ?thesis using y t held by (intro exI [of _ birth] exI [of _ t]) (simp add: new_topic_metadata_def)
  next
    case False
    then have "dict_get (md_topics (px_metadata u)) x = Some y" using y by (simp add: new_topic_metadata_def)
    with u obtain b r where "dict_get (px_topic_birth u) x = Some b" "b \<le> r" "px_global_birth u \<le> r" "r \<le> now (cm_world u)"
        "held_at cluster r x y"
      by (rule fresh_okE)
    with False show ?thesis by (intro exI [of _ b] exI [of _ r]) (simp add: new_topic_metadata_def)
  qed
qed

lemma store_topics_fresh:
  assumes "fresh_ok now cluster s" and "birth \<le> t" and "px_global_birth s \<le> t" and "t \<le> now (cm_world s)"
    and "\<forall>(topic, m) \<in> set (md_topics md). held_at cluster t topic m"
  shows "fresh_ok now cluster (store_topics birth md s)"
proof -
  let ?P = "\<lambda>(nr :: bool, u). fresh_ok now cluster u \<and> cm_world u = cm_world s \<and> px_global_birth u = px_global_birth s"
  have "?P (fold (new_topic_metadata birth) (md_topics md) (nr, s))" for nr
  proof (rule fold_keeps [of ?P])
    fix e acc
    assume e: "e \<in> set (md_topics md)" and P: "?P acc"
    obtain topic m nr u where x: "e = (topic, m)" "acc = (nr, u)" by (cases e; cases acc) blast
    have "held_at cluster t topic m" using assms(5) e x by auto
    then have "fresh_ok now cluster (snd (new_topic_metadata birth e acc))"
      using new_topic_fresh [of now cluster u birth t topic m nr] P assms(2-4) by (simp add: x)
    then show "?P (new_topic_metadata birth e acc)"
      using P by (simp add: x new_topic_metadata_def)
  qed (use assms(1) in simp)
  note kept = this
  let ?nr = "\<not> list_all (\<lambda>b. b \<in> set (md_brokers (px_metadata s))) (md_brokers md)"
  obtain nr u where u: "fold (new_topic_metadata birth) (md_topics md) (?nr, s) = (nr, u)" by fastforce
  have "fresh_ok now cluster u" using kept [of ?nr] unfolding u by simp
  then show ?thesis unfolding store_topics_def Let_def u by (simp add: fresh_ok_complete)
qed

section \<open>Requests\<close>

text \<open>The entry of a topic that is answered was held at a time that is not before \<open>low\<close>.\<close>

definition recent ::
    "('w \<Rightarrow> rat) \<Rightarrow> (rat \<Rightarrow> broker_view) \<Rightarrow> rat \<Rightarrow> ('h, 'w, 'z) metadata_state_scheme \<Rightarrow> string \<Rightarrow> topic_metadata \<Rightarrow> bool" where
  "recent now cluster low s topic m \<longleftrightarrow>
     (\<exists>b t. low \<le> t \<and> t \<le> now (cm_world s) \<and> held_at cluster t topic m \<and> dict_get (px_topic_birth s) topic = Some b \<and> b \<le> t \<and>
        px_global_birth s \<le> t)"

lemma update_all_fresh:
  assumes law: "broker_clock k ao now cluster" and ok: "fresh_ok now cluster s" and age: "0 \<le> max_age"
    and run: "update_all_metadata k ao max_age s = (r, s')"
  shows "fresh_ok now cluster s' \<and> now (cm_world s) \<le> now (cm_world s') \<and>
    (\<forall>md topic m. r = Inr md \<longrightarrow> dict_get (md_topics md) topic = Some m \<longrightarrow>
      recent now cluster (now (cm_world s) - max_age) s' topic m)"
proof -
  obtain c s1 where c: "read_clock k s = (c, s1)" by (cases "read_clock k s")
  from read_clock_run [OF law c] obtain w1 where w1: "s1 = s\<lparr>cm_world := w1\<rparr>" "c = Inr (now (cm_world s))" "now (cm_world s) \<le> now w1"
    by blast
  have ok1: "fresh_ok now cluster s1" unfolding w1(1) by (rule fresh_ok_wait [OF ok w1(3)])
  show ?thesis
  proof (cases "\<not> is_global_metadata_old max_age (now (cm_world s)) s1 \<and> px_metadata_complete s1")
    case True
    then have r: "r = Inr (px_metadata s1)" "s' = s1"
      using run c w1(2) by (auto simp: update_all_metadata_def act_bind_def act_simps)
    have "recent now cluster (now (cm_world s) - max_age) s1 topic m"
      if m: "dict_get (md_topics (px_metadata s1)) topic = Some m" for topic m
    proof -
      from ok1 m obtain b t where "dict_get (px_topic_birth s1) topic = Some b" "b \<le> t" "px_global_birth s1 \<le> t"
          "t \<le> now (cm_world s1)" "held_at cluster t topic m"
        by (rule fresh_okE)
      with True show ?thesis unfolding recent_def by (intro exI [of _ b] exI [of _ t]) (simp add: is_global_metadata_old_def)
    qed
    with r ok1 w1 show ?thesis by simp
  next
    case False
    obtain c2 s2 where c2: "read_clock k s1 = (c2, s2)" by (cases "read_clock k s1")
    from read_clock_run [OF law c2] obtain w2 where w2: "s2 = s1\<lparr>cm_world := w2\<rparr>" "c2 = Inr (now (cm_world s1))"
        "now (cm_world s1) \<le> now w2" by blast
    obtain q s3 where q: "admin_cluster_metadata ao None s2 = (q, s3)" by (cases "admin_cluster_metadata ao None s2")
    from admin_run [OF law q] obtain w3 where w3: "s3 = s2\<lparr>cm_world := w3\<rparr>" "now (cm_world s2) \<le> now w3"
        "\<And>md. q = Inr md \<Longrightarrow> \<exists>t. now (cm_world s2) \<le> t \<and> t \<le> now w3 \<and> (\<forall>(topic, m) \<in> set (md_topics md). held_at cluster t topic m)"
      by blast
    have ok3: "fresh_ok now cluster s3"
      unfolding w3(1) w2(1) using fresh_ok_wait [OF ok1, of w3] w2 w3(2) by simp
    have times: "now (cm_world s) \<le> now (cm_world s1)" "now (cm_world s1) \<le> now (cm_world s2)" "now (cm_world s2) \<le> now w3"
      using w1 w2 w3 by simp_all
    show ?thesis
    proof (cases q)
      case (Inl e)
      then have "r = Inl e" "s' = s3"
        using run c w1(2) c2 w2(2) q False by (auto simp: update_all_metadata_def act_bind_def act_simps)
      with ok3 times w3(1) show ?thesis by simp
    next
      case (Inr md)
      then have r: "r = Inr md" and s': "s' = s3\<lparr>
             px_topic_birth := fold (\<lambda>t births. dict_set births t (now (cm_world s1))) (dict_keys (md_topics md)) (px_topic_birth s3),
             px_global_birth := now (cm_world s1), px_metadata := md, px_metadata_complete := True\<rparr>"
        using run c w1(2) c2 w2(2) q False by (auto simp: update_all_metadata_def act_bind_def act_simps)
      from w3(3) [OF Inr] obtain t where t: "now (cm_world s2) \<le> t" "t \<le> now w3"
          "\<forall>(topic, m) \<in> set (md_topics md). held_at cluster t topic m" by blast
      have held: "held_at cluster t topic m \<and> dict_get (px_topic_birth s') topic = Some (now (cm_world s1))"
        if "dict_get (md_topics md) topic = Some m" for topic m
        using map_of_SomeD [OF that] t(3) by (force simp: s' births_fold)
      have "fresh_ok now cluster s'"
        unfolding fresh_ok_def
      proof (intro conjI allI impI)
        show "px_global_birth s' \<le> now (cm_world s')" using times by (simp add: s' w3(1))
        fix topic m
        assume "dict_get (md_topics (px_metadata s')) topic = Some m"
        then have "dict_get (md_topics md) topic = Some m" by (simp add: s')
        from held [OF this] show "\<exists>b t. dict_get (px_topic_birth s') topic = Some b \<and> b \<le> t \<and> px_global_birth s' \<le> t \<and>
            t \<le> now (cm_world s') \<and> held_at cluster t topic m"
          using t times by (intro exI [of _ "now (cm_world s1)"] exI [of _ t]) (simp add: s' w3(1))
      qed
      moreover have "now (cm_world s) \<le> now (cm_world s')" using times by (simp add: s' w3(1))
      moreover have "recent now cluster (now (cm_world s) - max_age) s' topic m"
        if "dict_get (md_topics md) topic = Some m" for topic m
        unfolding recent_def
        using held [OF that] t times age by (intro exI [of _ "now (cm_world s1)"] exI [of _ t]) (simp add: s' w3(1))
      ultimately show ?thesis using r by simp
    qed
  qed
qed

lemma store_topics_world: "cm_world (store_topics birth md s) = cm_world s"
proof -
  have "cm_world (snd (fold (new_topic_metadata birth) (md_topics md) (nr, s))) = cm_world (snd (nr, s))" for nr
    by (rule fold_frame [where g = "\<lambda>x. cm_world (snd x)"]) (auto simp: new_topic_metadata_def split: prod.splits)
  then show ?thesis by (simp add: store_topics_def Let_def split_beta)
qed

lemma store_topics_births:
  fixes s :: "('h, 'w, 'z) metadata_state_scheme"
  shows "px_global_birth (store_topics birth md s) = px_global_birth s"
  "topic \<in> set (dict_keys (md_topics md)) \<Longrightarrow> dict_get (px_topic_birth (store_topics birth md s)) topic = Some birth"
proof -
  have "px_global_birth (snd (fold (new_topic_metadata birth) (md_topics md) (nr, s))) = px_global_birth (snd (nr, s))" for nr
    by (rule fold_frame [where g = "\<lambda>x. px_global_birth (snd x)"]) (auto simp: new_topic_metadata_def split: prod.splits)
  then show "px_global_birth (store_topics birth md s) = px_global_birth s" by (simp add: store_topics_def Let_def split_beta)
  have "px_topic_birth (snd (fold (new_topic_metadata birth) es acc)) =
      fold (\<lambda>t births. dict_set births t birth) (dict_keys es) (px_topic_birth (snd acc))" for es and acc :: "bool \<times> ('h, 'w, 'z) metadata_state_scheme"
    by (induction es arbitrary: acc) (auto simp: new_topic_metadata_def split: prod.splits)
  then show "topic \<in> set (dict_keys (md_topics md)) \<Longrightarrow> dict_get (px_topic_birth (store_topics birth md s)) topic = Some birth"
    by (simp add: store_topics_def Let_def split_beta births_fold)
qed

lemma oldest_birth_le:
  assumes "t \<in> set topics" and "dict_get (px_topic_birth s) t = Some b"
  shows "oldest_birth topics s \<le> b"
proof -
  have le: "fold min xs y \<le> y \<and> (\<forall>x \<in> set xs. fold min xs y \<le> x)" for xs :: "rat list" and y
  proof (induction xs arbitrary: y)
    case (Cons x xs)
    from Cons.IH [of "min x y"] show ?case by auto
  qed simp
  have "b \<in> set (map (\<lambda>t. the (dict_get (px_topic_birth s) t)) topics)" using assms by force
  then show ?thesis using le by (auto simp: oldest_birth_def split: list.splits)
qed

lemma cached_topics_from:
  assumes "cached_topics topics md = Inr md'" and "dict_get (md_topics md') topic = Some m"
  shows "dict_get (md_topics md) topic = Some m \<and> topic \<in> set topics"
proof -
  obtain d where d: "rfold (\<lambda>t d. rbind (of_option (Py KeyError) (dict_get (md_topics md) t)) (\<lambda>m. Inr (dict_set d t m))) topics [] = Inr d"
      "md' = md\<lparr>md_topics := d\<rparr>"
    using assms(1) by (auto simp: cached_topics_def)
  have "\<forall>x y. dict_get d x = Some y \<longrightarrow> dict_get (md_topics md) x = Some y \<and> x \<in> set topics"
    by (rule rfold_invariant [OF d(1)]) (auto split: if_splits)
  with d(2) assms(2) show ?thesis by simp
qed

lemma topics_old_run:
  assumes law: "broker_clock k ao now cluster" and "is_metadata_of_topics_old k max_age topics s = (r, s')"
  shows "\<exists>w. s' = s\<lparr>cm_world := w\<rparr> \<and> now (cm_world s) \<le> now w \<and>
    r = Inr (\<not> topics_known topics s \<or> max_age < now (cm_world s) - oldest_birth topics s)"
proof (cases "topics_known topics s")
  case True
  obtain c s1 where c: "read_clock k s = (c, s1)" by (cases "read_clock k s")
  from read_clock_run [OF law c] obtain w where w: "s1 = s\<lparr>cm_world := w\<rparr>" "c = Inr (now (cm_world s))" "now (cm_world s) \<le> now w"
    by blast
  have "oldest_birth topics s1 = oldest_birth topics s" by (simp add: w(1) oldest_birth_def)
  then show ?thesis
    using assms(2) c w True by (intro exI [of _ w]) (auto simp: is_metadata_of_topics_old_def act_bind_def act_simps)
next
  case False
  then show ?thesis
    using assms(2) by (intro exI [of _ "cm_world s"]) (auto simp: is_metadata_of_topics_old_def act_bind_def act_simps)
qed

lemma update_topics_fresh:
  assumes law: "broker_clock k ao now cluster" and ok: "fresh_ok now cluster s" and age: "0 \<le> max_age"
    and run: "update_metadata_for_topics k ao max_age topics s = (r, s')"
  shows "fresh_ok now cluster s' \<and> now (cm_world s) \<le> now (cm_world s') \<and>
    (\<forall>md topic m. r = Inr md \<longrightarrow> dict_get (md_topics md) topic = Some m \<longrightarrow>
      recent now cluster (now (cm_world s) - max_age) s' topic m)"
proof -
  obtain c s1 where c: "is_metadata_of_topics_old k max_age topics s = (c, s1)"
    by (cases "is_metadata_of_topics_old k max_age topics s")
  from topics_old_run [OF law c] obtain w1 where w1: "s1 = s\<lparr>cm_world := w1\<rparr>" "now (cm_world s) \<le> now w1"
      "c = Inr (\<not> topics_known topics s \<or> max_age < now (cm_world s) - oldest_birth topics s)" by blast
  have ok1: "fresh_ok now cluster s1" unfolding w1(1) by (rule fresh_ok_wait [OF ok w1(2)])
  show ?thesis
  proof (cases "\<not> topics_known topics s \<or> max_age < now (cm_world s) - oldest_birth topics s")
    case False
    then have r: "r = cached_topics topics (px_metadata s1)" "s' = s1"
      using run c w1(3) by (auto simp: update_metadata_for_topics_def act_bind_def act_simps)
    have "recent now cluster (now (cm_world s) - max_age) s1 topic m"
      if "cached_topics topics (px_metadata s1) = Inr md" "dict_get (md_topics md) topic = Some m" for md topic m
    proof -
      from cached_topics_from [OF that] have m: "dict_get (md_topics (px_metadata s1)) topic = Some m" "topic \<in> set topics" by auto
      from ok1 m(1) obtain b t where b: "dict_get (px_topic_birth s1) topic = Some b" "b \<le> t" "px_global_birth s1 \<le> t"
          "t \<le> now (cm_world s1)" "held_at cluster t topic m" by (rule fresh_okE)
      have "oldest_birth topics s \<le> b" using oldest_birth_le [OF m(2), of s b] b(1) by (simp add: w1(1))
      with b False show ?thesis unfolding recent_def by (intro exI [of _ b] exI [of _ t]) simp
    qed
    with r ok1 w1 show ?thesis by simp
  next
    case True
    obtain c2 s2 where c2: "read_clock k s1 = (c2, s2)" by (cases "read_clock k s1")
    from read_clock_run [OF law c2] obtain w2 where w2: "s2 = s1\<lparr>cm_world := w2\<rparr>" "c2 = Inr (now (cm_world s1))"
        "now (cm_world s1) \<le> now w2" by blast
    obtain q s3 where q: "admin_cluster_metadata ao (Some topics) s2 = (q, s3)" by (cases "admin_cluster_metadata ao (Some topics) s2")
    from admin_run [OF law q] obtain w3 where w3: "s3 = s2\<lparr>cm_world := w3\<rparr>" "now (cm_world s2) \<le> now w3"
        "\<And>md. q = Inr md \<Longrightarrow> \<exists>t. now (cm_world s2) \<le> t \<and> t \<le> now w3 \<and> (\<forall>(topic, m) \<in> set (md_topics md). held_at cluster t topic m)"
      by blast
    have ok3: "fresh_ok now cluster s3"
      unfolding w3(1) w2(1) using fresh_ok_wait [OF ok1, of w3] w2 w3(2) by simp
    have times: "now (cm_world s) \<le> now (cm_world s1)" "now (cm_world s1) \<le> now (cm_world s2)" "now (cm_world s2) \<le> now w3"
      using w1 w2 w3 by simp_all
    show ?thesis
    proof (cases q)
      case (Inl e)
      then have "r = Inl e" "s' = s3"
        using run c w1(3) c2 w2(2) q True by (auto simp: update_metadata_for_topics_def act_bind_def act_simps)
      with ok3 times w3(1) show ?thesis by simp
    next
      case (Inr md)
      then have r: "r = Inr md" "s' = store_topics (now (cm_world s1)) md s3"
        using run c w1(3) c2 w2(2) q True by (auto simp: update_metadata_for_topics_def act_bind_def act_simps)
      from w3(3) [OF Inr] obtain t where t: "now (cm_world s2) \<le> t" "t \<le> now w3"
          "\<forall>(topic, m) \<in> set (md_topics md). held_at cluster t topic m" by blast
      have "px_global_birth s3 \<le> now (cm_world s1)" using ok1 by (simp add: w3(1) w2(1) fresh_ok_def)
      then have "fresh_ok now cluster s'"
        unfolding r(2) using t times by (intro store_topics_fresh [OF ok3, of _ t]) (simp_all add: w3(1))
      moreover have "cm_world s' = w3" by (simp add: r(2) store_topics_world w3(1))
      moreover have "recent now cluster (now (cm_world s) - max_age) s' topic m"
        if m: "dict_get (md_topics md) topic = Some m" for topic m
      proof -
        have "held_at cluster t topic m" "topic \<in> set (dict_keys (md_topics md))" using map_of_SomeD [OF m] t(3) by force+
        then show ?thesis
          unfolding recent_def r(2) using t times age \<open>px_global_birth s3 \<le> now (cm_world s1)\<close>
          by (intro exI [of _ "now (cm_world s1)"] exI [of _ t]) (simp add: store_topics_world store_topics_births w3(1))
      qed
      ultimately show ?thesis using r(1) times w3(1) by simp
    qed
  qed
qed

lemma cluster_metadata_fresh:
  assumes "broker_clock k ao now cluster" and "fresh_ok now cluster s" and "0 \<le> max_age"
    and run: "rest_cluster_metadata k ao max_age topics s = (r, s')"
  shows "fresh_ok now cluster s' \<and> now (cm_world s) \<le> now (cm_world s') \<and>
    (\<forall>md topic m. r = Inr md \<longrightarrow> dict_get (md_topics md) topic = Some m \<longrightarrow>
      recent now cluster (now (cm_world s) - max_age) s' topic m)"
proof -
  obtain m where m: "m = update_all_metadata k ao max_age \<or> (\<exists>ts. m = update_metadata_for_topics k ao max_age ts)"
    and "rest_cluster_metadata k ao max_age topics s = act_catch m
      (\<lambda>e. act_raise (if e = Kafka KafkaException then HTTPResponse HTTP_INTERNAL_SERVER_ERROR MessageBody else e)) s"
    unfolding rest_cluster_metadata_def by (cases topics; cases "topics = Some []") auto
  with run have "(\<exists>x. m s = (Inr x, s') \<and> r = Inr x) \<or> (\<exists>e e'. m s = (Inl e, s') \<and> r = Inl e')"
    by (auto elim!: act_catch_result simp: act_simps)
  then show ?thesis
    using m update_all_fresh [OF assms(1-3)] update_topics_fresh [OF assms(1-3)] by fastforce
qed

text \<open>The requests that read the metadata, and anything else that only lets time pass or changes the consumers.\<close>

inductive metadata_reachable ::
    "('h, 'w) kafka_ops \<Rightarrow> 'w admin_ops \<Rightarrow> rat \<Rightarrow> ('w \<Rightarrow> rat) \<Rightarrow> ('h, 'w, 'z) metadata_state_scheme \<Rightarrow> bool"
  for k ao max_age now where
  init: "px_metadata s = empty_cluster_metadata_cache \<Longrightarrow> px_global_birth s = 0 \<Longrightarrow> metadata_reachable k ao max_age now s"
| lookup: "metadata_reachable k ao max_age now s \<Longrightarrow> rest_cluster_metadata k ao max_age topics s = (r, s') \<Longrightarrow>
    metadata_reachable k ao max_age now s'"
| details: "metadata_reachable k ao max_age now s \<Longrightarrow> topic_details k ao max_age topic s = (r, s') \<Longrightarrow>
    metadata_reachable k ao max_age now s'"
| wait: "metadata_reachable k ao max_age now s \<Longrightarrow> now (cm_world s) \<le> now w \<Longrightarrow>
    metadata_reachable k ao max_age now (s\<lparr>cm_world := w, cm_consumers := c\<rparr>)"

lemma fresh_ok_consumers: "fresh_ok now cluster (s\<lparr>cm_consumers := c\<rparr>) = fresh_ok now cluster s"
  by (simp add: fresh_ok_def)

lemma annotated_fresh:
  assumes "fresh_ok now cluster s" and "dict_get (px_topic_birth s) topic = Some b" and "b \<le> t" and "px_global_birth s \<le> t"
    and "t \<le> now (cm_world s)" and "held_at cluster t topic m"
  shows "fresh_ok now cluster (s\<lparr>px_metadata := (px_metadata s)\<lparr>md_topics := dict_set (md_topics (px_metadata s)) topic (annotate_topic topic cfg m)\<rparr>\<rparr>)"
    (is "fresh_ok _ _ ?s")
  unfolding fresh_ok_def
proof (intro conjI allI impI)
  show "px_global_birth ?s \<le> now (cm_world ?s)" using assms(1) by (simp add: fresh_ok_def)
  fix x y
  assume y: "dict_get (md_topics (px_metadata ?s)) x = Some y"
  show "\<exists>b t. dict_get (px_topic_birth ?s) x = Some b \<and> b \<le> t \<and> px_global_birth ?s \<le> t \<and> t \<le> now (cm_world ?s) \<and> held_at cluster t x y"
  proof (cases "x = topic")
    case True
    then show ?thesis
      using y assms(2-6) by (intro exI [of _ b] exI [of _ t]) (auto simp: annotate_topic_def held_at_def)
  next
    case False
    then have "dict_get (md_topics (px_metadata s)) x = Some y" using y by simp
    with assms(1) obtain b r where "dict_get (px_topic_birth s) x = Some b" "b \<le> r" "px_global_birth s \<le> r"
        "r \<le> now (cm_world s)" "held_at cluster r x y" by (rule fresh_okE)
    then show ?thesis by (intro exI [of _ b] exI [of _ r]) simp
  qed
qed

lemma config_run:
  assumes "broker_clock k ao now cluster" and "get_topic_config ao topic s = (r, s')"
  shows "\<exists>w. s' = s\<lparr>cm_world := w\<rparr> \<and> now (cm_world s) \<le> now w"
proof -
  obtain q w where q: "ao_describe_configs ao topic (cm_world s) = (q, w)" by (cases "ao_describe_configs ao topic (cm_world s)")
  then have "now (cm_world s) \<le> now w" using assms(1) unfolding broker_clock_def by blast
  moreover have "s' = s\<lparr>cm_world := w\<rparr>"
    using assms(2) q by (cases q) (auto simp: get_topic_config_def act_bind_def act_catch_def on_world_def act_simps)
  ultimately show ?thesis by blast
qed

lemma topic_details_fresh:
  assumes law: "broker_clock k ao now cluster" and ok: "fresh_ok now cluster s" and age: "0 \<le> max_age"
    and run: "topic_details k ao max_age topic s = (r, s')"
  shows "fresh_ok now cluster s'"
proof -
  obtain q s1 where q: "rest_cluster_metadata k ao max_age (Some [topic]) s = (q, s1)"
    by (cases "rest_cluster_metadata k ao max_age (Some [topic]) s")
  note one = cluster_metadata_fresh [OF law ok age q]
  show ?thesis
  proof (cases q)
    case (Inl e)
    then have "s' = s1" using run q by (auto simp: topic_details_def act_bind_def act_catch_def act_simps)
    then show ?thesis using one by simp
  next
    case (Inr md)
    obtain c s2 where c: "get_topic_config ao topic s1 = (c, s2)" by (cases "get_topic_config ao topic s1")
    from config_run [OF law c] obtain w where w: "s2 = s1\<lparr>cm_world := w\<rparr>" "now (cm_world s1) \<le> now w" by blast
    have ok2: "fresh_ok now cluster s2" unfolding w(1) using one w(2) by (intro fresh_ok_wait) simp_all
    show ?thesis
    proof (cases "(\<exists>cfg. c = Inr cfg) \<and> dict_get (md_topics md) topic \<noteq> None")
      case True
      then obtain cfg m where m: "c = Inr cfg" "dict_get (md_topics md) topic = Some m" by blast
      then have s': "s' = s2\<lparr>px_metadata := (px_metadata s2)\<lparr>md_topics := dict_set (md_topics (px_metadata s2)) topic (annotate_topic topic cfg m)\<rparr>\<rparr>"
        using run q Inr c by (auto simp: topic_details_def act_bind_def act_catch_def act_simps)
      from one Inr m(2) obtain b t where "t \<le> now (cm_world s1)" "held_at cluster t topic m"
          "dict_get (px_topic_birth s1) topic = Some b" "b \<le> t" "px_global_birth s1 \<le> t"
        unfolding recent_def by blast
      then show ?thesis
        unfolding s' using w by (intro annotated_fresh [OF ok2, of topic b t m cfg]) simp_all
    next
      case False
      then have "s' = s2"
        using run q Inr c by (cases c) (auto simp: topic_details_def act_bind_def act_catch_def act_simps split: option.splits)
      then show ?thesis using ok2 by simp
    qed
  qed
qed

lemma metadata_reachable_fresh:
  assumes "metadata_reachable k ao max_age now s" and law: "broker_clock k ao now cluster" and "0 \<le> max_age"
  shows "fresh_ok now cluster s"
  using assms(1)
proof (induction rule: metadata_reachable.induct)
  case (init s)
  have "0 \<le> now (cm_world s)" using law unfolding broker_clock_def by blast
  then show ?case using init by (simp add: fresh_ok_def empty_cluster_metadata_cache_def)
next
  case (lookup s topics r s')
  then show ?case using cluster_metadata_fresh [OF law _ assms(3)] by blast
next
  case (details s topic r s')
  then show ?case using topic_details_fresh [OF law _ assms(3)] by blast
next
  case (wait s w c)
  then show ?case using fresh_ok_wait by (simp add: fresh_ok_consumers)
qed

text \<open>
  C38: The metadata that the REST proxy answers with is recent: whatever requests came before, each topic in an answer
  has the partitions that the brokers had at a time not longer ago than the configured maximum age (before the
  request) and not after the answer.
\<close>

theorem metadata_is_recent:
  assumes "metadata_reachable k ao max_age now s" and "broker_clock k ao now cluster" and "0 \<le> max_age"
    and "rest_cluster_metadata k ao max_age topics s = (Inr md, s')" and "dict_get (md_topics md) topic = Some m"
  shows "\<exists>t. now (cm_world s) - max_age \<le> t \<and> t \<le> now (cm_world s') \<and> held_at cluster t topic m"
proof -
  have "fresh_ok now cluster s" by (rule metadata_reachable_fresh [OF assms(1-3)])
  from cluster_metadata_fresh [OF assms(2) this assms(3,4)] assms(5) show ?thesis
    unfolding recent_def by blast
qed

section \<open>A deleted topic\<close>

text \<open>The sample brokers know a list of states; each listing of the topics takes the next one.\<close>

definition sample_admin :: "(rat \<times> consumed_message list \<times> broker_view list) admin_ops" where
  "sample_admin =
     \<lparr>ao_connect = (\<lambda>w. (Inr (), w)),
      ao_list_topics = (\<lambda>(t, ms, vs). case vs of [] \<Rightarrow> (Inl (Kafka KafkaException), (t + 1, ms, [])) | v # vs \<Rightarrow> (Inr v, (t + 1, ms, vs))),
      ao_describe_configs = (\<lambda>x w. (Inr [], w)), ao_list_offset = (\<lambda>x i b w. (Inr 0, w))\<rparr>"

definition sample_view :: "string list \<Rightarrow> broker_view" where
  "sample_view topics =
     \<lparr>bv_topics = map (\<lambda>t. (t, [\<lparr>rp_id = 0, rp_leader = 1, rp_replicas = [1, 2], rp_isrs = [1]\<rparr>])) topics, bv_brokers = [1, 2]\<rparr>"

text \<open>A state of the sample with the given time, next listings, cached topics and births.\<close>

definition sample_cached ::
    "rat \<Rightarrow> broker_view list \<Rightarrow> string list \<Rightarrow> bool \<Rightarrow> rat \<Rightarrow> (string, rat) dict \<Rightarrow>
     (unit, rat \<times> consumed_message list \<times> broker_view list) metadata_state" where
  "sample_cached now views topics is_complete global births =
     \<lparr>cm_consumers = [], cm_world = (now, [], views),
      px_metadata = \<lparr>md_topics = map (\<lambda>t. (t, topic_data [\<lparr>rp_id = 0, rp_leader = 1, rp_replicas = [1, 2], rp_isrs = [1]\<rparr>])) topics,
        md_brokers = (if topics = [] then [] else [1, 2])\<rparr>,
      px_metadata_complete = is_complete, px_global_birth = global, px_topic_birth = births\<rparr>"

lemmas sample_run = rest_cluster_metadata_def update_all_metadata_def update_metadata_for_topics_def is_metadata_of_topics_old_def
  act_bind_def act_catch_def act_simps read_clock_def on_world_def sample_ops_def sample_admin_def is_global_metadata_old_def
  admin_cluster_metadata_def admin_metadata_def sample_view_def sample_cached_def store_topics_def new_topic_metadata_def
  topics_known_def oldest_birth_def topic_data_def cached_topics_def

lemma deleted_topic_run:
  "snd (rest_cluster_metadata sample_ops sample_admin 60 None
      (sample_cached 100 [sample_view [''t''], sample_view [''t'', ''u''], sample_view [''u'']] [] False 0 [])) =
    sample_cached 101 [sample_view [''t'', ''u''], sample_view [''u'']] [''t''] True 100 [(''t'', 100)]"
  "snd (rest_cluster_metadata sample_ops sample_admin 60 (Some [''u''])
      (sample_cached 101 [sample_view [''t'', ''u''], sample_view [''u'']] [''t''] True 100 [(''t'', 100)])) =
    sample_cached 102 [sample_view [''u'']] [''t'', ''u''] False 100 [(''t'', 100), (''u'', 101)]"
  "snd (rest_cluster_metadata sample_ops sample_admin 60 None
      (sample_cached 102 [sample_view [''u'']] [''t'', ''u''] False 100 [(''t'', 100), (''u'', 101)])) =
    sample_cached 103 [] [''u''] True 102 [(''t'', 100), (''u'', 102)]"
  by (simp_all add: sample_run)

text \<open>
  The details of a topic that was deleted while its cached entry is recent end in an exception (status 500): a
  new topic makes the cache incomplete, the next full listing drops the deleted topic but keeps its birth, and the
  lookup raises an error that \<open>topic_details\<close> does not catch. The list of its partitions answers 404.
\<close>

theorem deleted_topic_details_fail:
  "let ask = \<lambda>topics s. snd (rest_cluster_metadata sample_ops sample_admin 60 topics s);
       s = ask None (ask (Some [''u'']) (ask None
         (sample_cached 100 [sample_view [''t''], sample_view [''t'', ''u''], sample_view [''u'']] [] False 0 [])))
   in fst (topic_details sample_ops sample_admin 60 ''t'' s) = Inl (Py KeyError) \<and>
      fst (list_partitions sample_ops sample_admin 60 ''t'' s) = Inl (not_found TOPIC_NOT_FOUND)"
proof -
  let ?s = "sample_cached 103 [] [''u''] True 102 [(''t'', 100), (''u'', 102)]"
  have "fst (topic_details sample_ops sample_admin 60 ''t'' ?s) = Inl (Py KeyError)"
    by (simp add: topic_details_def topic_missing_def sample_run)
  moreover have "fst (list_partitions sample_ops sample_admin 60 ''t'' ?s) = Inl (not_found TOPIC_NOT_FOUND)"
    by (simp add: list_partitions_def topic_missing_def sample_run)
  ultimately show ?thesis by (simp add: Let_def deleted_topic_run)
qed

text \<open>Brokers that do not change, and a clock that does not start before zero.\<close>

definition steady_admin :: "(rat \<times> consumed_message list \<times> broker_view list) admin_ops" where
  "steady_admin = sample_admin\<lparr>ao_list_topics := (\<lambda>(t, w). (Inr (sample_view [''t'']), (t + 1, w)))\<rparr>"

definition steady_ops :: "(unit, rat \<times> consumed_message list \<times> broker_view list) kafka_ops" where
  "steady_ops = sample_ops\<lparr>ko_time := (\<lambda>w. (max 0 (fst w), w))\<rparr>"

lemma steady_clock: "broker_clock steady_ops steady_admin (\<lambda>w. max 0 (fst w)) (\<lambda>_. sample_view [''t''])"
proof -
  have "\<exists>t. max 0 a \<le> t \<and> t \<le> max 0 (a + 1)" for a :: rat
    by (rule exI [of _ "max 0 a"]) auto
  then show ?thesis
    unfolding broker_clock_def by (auto simp: steady_ops_def steady_admin_def sample_admin_def)
qed

theorem metadata_is_recent_witness:
  "\<exists>t. 40 \<le> t \<and> t \<le> (101 :: rat) \<and>
     held_at (\<lambda>_. sample_view [''t'']) t ''t'' (topic_data [\<lparr>rp_id = 0, rp_leader = 1, rp_replicas = [1, 2], rp_isrs = [1]\<rparr>])"
proof -
  let ?s = "sample_cached 100 [] [] False 0 []" and ?s' = "sample_cached 101 [] [''t''] True 100 [(''t'', 100)]"
  have reach: "metadata_reachable steady_ops steady_admin 60 (\<lambda>w. max 0 (fst w)) ?s"
    by (rule metadata_reachable.init) (simp_all add: sample_cached_def empty_cluster_metadata_cache_def)
  have run: "rest_cluster_metadata steady_ops steady_admin 60 None ?s = (Inr (px_metadata ?s'), ?s')"
    by (simp add: steady_ops_def steady_admin_def sample_run)
  from metadata_is_recent [OF reach steady_clock _ run, of "''t''"] show ?thesis
    by (simp add: sample_cached_def)
qed

end
