(* ===== verification/Rest_Properties.thy ===== *)
theory Rest_Properties
  imports Rest_Proxy Metadata_Properties Serialization_Properties
begin

text \<open>
  The REST proxy as a whole: how requests change the consumers of a user, that users are kept apart, what the
  janitor closes, what a publish request reports, and how the schema cache answers.
\<close>

section \<open>Consumers of a user\<close>

lemma keeps_read_clock [keeps_intros]: "keeps (\<lambda>s. P (cm_consumers s)) (read_clock k)"
  unfolding read_clock_def by (intro keeps_intros)

lemma store_topics_consumers: "cm_consumers (store_topics birth md s) = cm_consumers s"
proof -
  have "cm_consumers (snd (fold (new_topic_metadata birth) (md_topics md) (nr, s))) = cm_consumers (snd (nr, s))" for nr
    by (rule fold_frame [where g = "\<lambda>x. cm_consumers (snd x)"]) (auto simp: new_topic_metadata_def split: prod.splits)
  then show ?thesis by (simp add: store_topics_def Let_def split_beta)
qed

lemma keeps_metadata [keeps_intros]:
  "keeps (\<lambda>s. P (cm_consumers s)) (rest_cluster_metadata k ao age topics)"
  unfolding rest_cluster_metadata_def update_all_metadata_def update_metadata_for_topics_def is_metadata_of_topics_old_def
    admin_cluster_metadata_def
  by (intro keeps_intros keeps_modify) (simp_all add: store_topics_consumers)

lemma keeps_topic_requests [keeps_intros]:
  "keeps (\<lambda>s. P (cm_consumers s)) (get_topic_info k ao age t)" "keeps (\<lambda>s. P (cm_consumers s)) (get_partition_info k ao age t p)"
  "keeps (\<lambda>s. P (cm_consumers s)) (list_topics k ao age)" "keeps (\<lambda>s. P (cm_consumers s)) (topic_details k ao age t)"
  "keeps (\<lambda>s. P (cm_consumers s)) (list_partitions k ao age t)" "keeps (\<lambda>s. P (cm_consumers s)) (partition_details k ao age t p)"
  "keeps (\<lambda>s. P (cm_consumers s)) (partition_offsets k ao age t p)" "keeps (\<lambda>s. P (cm_consumers s)) (list_brokers k ao age)"
  unfolding get_topic_info_def get_partition_info_def list_topics_def topic_details_def list_partitions_def partition_details_def
    partition_offsets_def list_brokers_def get_topic_config_def admin_get_offsets_def
  by (intro keeps_intros keeps_modify; simp)+

lemma keeps_serializer [keeps_intros]: "keeps (\<lambda>s. P (cm_consumers s)) (with_serializer m)"
  by (rule keepsI) (simp add: with_serializer_def split: prod.splits)

lemma keeps_schema_query [keeps_intros]: "keeps (\<lambda>s. P (cm_consumers s)) (query_schema_id_from_cache_or_registry env p n)"
proof -
  have rest: "keeps (\<lambda>s. P (cm_consumers s)) (act_bind (with_serializer m) (\<lambda>i. act_bind (act_modify (\<lambda>s. s\<lparr>px_schema_cache := f i s\<rparr>))
      (\<lambda>_. act_return i)))" for m f
    by (intro keeps_intros keeps_modify) simp
  show ?thesis
    by (rule keepsI)
      (auto simp: query_schema_id_from_cache_or_registry_def split: prod.splits option.splits intro!: keeps_after [OF rest])
qed

lemma keeps_json [keeps_intros]:
  assumes "\<And>s. keeps P (f s)" and "keeps P m"
  shows "keeps P (case j of JStr s \<Rightarrow> f s | _ \<Rightarrow> m)"
  using assms by (cases j) simp_all

lemma keeps_publish [keeps_intros]: "keeps (\<lambda>s. P (cm_consumers s)) (rest_publish env t p fmt d)"
proof -
  have query: "keeps (\<lambda>s. P (cm_consumers s)) (rest_get_schema_id env d t k ty)" for d t k ty
    unfolding rest_get_schema_id_def query_schema_and_subjects_def serializer_schema_for_id_def by (intro keeps_intros)
  have schemas: "keeps (\<lambda>s. P (cm_consumers s)) (validate_schemas env fmt t k c d)" for t k c d
    unfolding validate_schemas_def validate_schema_info_def by (intro keeps_intros query)
  have ser: "keeps (\<lambda>s. P (cm_consumers s)) (rest_serialize env j fmt i)" for j i
    unfolding rest_serialize_def schema_serialize_def serializer_schema_for_id_def by (intro keeps_intros)
  have attempt: "keeps (\<lambda>s. P (cm_consumers s)) (producer_attempt env)"
    unfolding producer_attempt_def by (intro keeps_intros keeps_modify) simp
  have producer: "keeps (\<lambda>s. P (cm_consumers s)) (create_producer env rs)" for rs
    by (induction rs) (simp_all, (intro keeps_intros attempt | simp add: cm_sleep_def)+)
  show ?thesis
    unfolding rest_publish_def publish_def validate_publish_request_format_def prepare_records_def prepare_record_def
      produce_messages_def maybe_create_async_producer_def
    by (intro keeps_intros schemas ser producer)
qed

lemma delete_effect:
  assumes "delete_consumer k name s = (r, s')"
  shows "cm_consumers s' = cm_consumers s \<or> cm_consumers s' = dict_pop (cm_consumers s) name"
proof -
  let ?Q = "\<lambda>u. cm_consumers u = cm_consumers s \<or> cm_consumers u = dict_pop (cm_consumers s) name"
  have pop: "dict_pop (dict_pop d n) n = dict_pop d n" for d :: "(internal_name, 'a typed_consumer) dict" and n
    by (simp add: delete_idem)
  have "keeps ?Q (delete_consumer k name)"
    unfolding delete_consumer_def delete_locked_def
    by (intro keeps_intros keeps_on_world [where P = "\<lambda>c. c = cm_consumers s \<or> c = dict_pop (cm_consumers s) name"] keeps_modify)
      (auto simp: pop)
  from keepsD [OF this _ assms] show ?thesis by blast
qed

lemma request_table_effect:
  assumes "user_request env req s = Some (r, s')"
  shows "cm_consumers s' = cm_consumers s \<or>
    (\<exists>g d n c. req = CreateConsumer g d \<and> dict_get (cm_consumers s) (strip_slashes g, n) = None \<and> consumer_ok c \<and>
       cm_consumers s' = dict_set (cm_consumers s) (strip_slashes g, n) c) \<or>
    (\<exists>g i. req = DeleteConsumer g i \<and> cm_consumers s' = dict_pop (cm_consumers s) (create_internal_name g i))"
proof -
  let ?Q = "\<lambda>u. cm_consumers u = cm_consumers s"
  have same: "cm_consumers s' = cm_consumers s" if "keeps ?Q m" "m s = (r, s')" for m
    using keepsD [OF that(1) refl that(2)] by simp
  note kept = same [OF users_keep_table(1) [of "\<lambda>c. c = cm_consumers s"]]
  show ?thesis
  proof (cases req)
    case (CreateConsumer g d)
    have "create_consumer (en_kafka env) (en_consumer_config env) g d s = (r, s')"
      using assms by (simp add: user_request_def Let_def CreateConsumer)
    from create_consumer_effect [OF this] show ?thesis using CreateConsumer by blast
  next
    case (DeleteConsumer g i)
    have "delete_consumer (en_kafka env) (create_internal_name g i) s = (r, s')"
      using assms by (simp add: user_request_def Let_def DeleteConsumer)
    from delete_effect [OF this] show ?thesis using DeleteConsumer by blast
  next
    case (Fetch g i fmt q)
    have "cm_fetch (en_kafka env) (proxy_deserializer env) (en_consumer_config env) (create_internal_name g i) fmt q s = Some (r, s')"
      using assms by (simp add: user_request_def Let_def Fetch)
    from fetch_keeps_table [OF this] show ?thesis
      unfolding proxy_deserializer_def using keeps_serializer by blast
  next
    case (CommitOffsets g i d)
    have "keeps ?Q (act_bind (rest_cluster_metadata (en_kafka env) (en_admin env) (en_max_age env) None)
        (\<lambda>md. commit_offsets (en_kafka env) (create_internal_name g i) d md))"
      by (intro keeps_intros users_keep_table)
    from same [OF this] show ?thesis using assms by (simp add: user_request_def Let_def CommitOffsets)
  qed (use assms in \<open>auto simp: user_request_def Let_def
      intro: same [OF users_keep_table(2)] same [OF users_keep_table(3)] same [OF users_keep_table(4)] same [OF users_keep_table(5)]
        same [OF users_keep_table(6)] same [OF users_keep_table(7)] same [OF users_keep_table(8)] same [OF users_keep_table(9)]
        same [OF keeps_topic_requests(3)] same [OF keeps_topic_requests(4)] same [OF keeps_topic_requests(5)]
        same [OF keeps_topic_requests(6)] same [OF keeps_topic_requests(7)] same [OF keeps_topic_requests(8)] same [OF keeps_publish]\<close>)
qed

text \<open>The names that a request may be about.\<close>

definition about_consumer :: "rest_request \<Rightarrow> internal_name \<Rightarrow> bool" where
  "about_consumer req name \<longleftrightarrow>
     (case req of
        CreateConsumer g d \<Rightarrow> fst name = strip_slashes g
      | DeleteConsumer g i \<Rightarrow> name = create_internal_name g i
      | _ \<Rightarrow> False)"

text \<open>
  Requests of one user do not disturb the consumers they are not about: only creating and deleting change the
  table of consumers at all, a deletion changes only the entry it names and a creation only entries of its group.
\<close>

theorem requests_keep_other_consumers:
  assumes "user_request env req s = Some (r, s')" and "\<not> about_consumer req name"
  shows "dict_get (cm_consumers s') name = dict_get (cm_consumers s) name"
  using request_table_effect [OF assms(1)] assms(2) by (auto simp: about_consumer_def)

definition consumers_ok :: "('h, 'w, 'z) consumers_state_scheme \<Rightarrow> bool" where
  "consumers_ok s \<longleftrightarrow> (\<forall>n c. dict_get (cm_consumers s) n = Some c \<longrightarrow> consumer_ok c)"

lemma consumers_okD: "consumers_ok s \<Longrightarrow> dict_get (cm_consumers s) n = Some c \<Longrightarrow> consumer_ok c"
  unfolding consumers_ok_def by blast


section \<open>Users\<close>

text \<open>With authorisation, the proxy of a header is connected with the credentials in that header.\<close>

definition proxies_ok :: "auth_ops \<Rightarrow> proxy_config \<Rightarrow> ('h, 'w, 'a, 'p) kafka_rest \<Rightarrow> bool" where
  "proxies_ok au config kr \<longleftrightarrow>
     dict_ok (kr_proxies kr) \<and>
     (\<forall>h proxy. dict_get (kr_proxies kr) h = Some proxy \<longrightarrow>
        (\<exists>auth. get_auth_config_from_header au (Some h) config = Inr auth \<and> up_config proxy = user_config config auth))"

lemma connect_config:
  assumes "connect_proxy env config expiry sz w = (Inr proxy, w')"
  shows "up_config proxy = config"
  using assms by (auto simp: connect_proxy_def Let_def split: prod.splits sum.splits)

lemma get_user_proxy_effect:
  assumes "get_user_proxy au envs True config header kr = (r, kr')"
  shows "(\<forall>h. header \<noteq> Some h \<longrightarrow> dict_get (kr_proxies kr') h = dict_get (kr_proxies kr) h) \<and>
    (proxies_ok au config kr \<longrightarrow> proxies_ok au config kr') \<and> (\<forall>key. r = Inr key \<longrightarrow> header = Some key)"
proof (cases header)
  case None
  then show ?thesis using assms by (auto simp: get_user_proxy_def get_auth_config_from_header_def)
next
  case (Some h)
  show ?thesis
  proof (cases "get_auth_config_from_header au (Some h) config")
    case (Inl e)
    then show ?thesis using assms Some by (auto simp: get_user_proxy_def)
  next
    case (Inr auth)
    show ?thesis
    proof (cases "get_expiration_time_from_header au h")
      case (Inl e)
      then show ?thesis using assms Some Inr by (auto simp: get_user_proxy_def)
    next
      case expiry: (Inr expiry)
      obtain q kr1 where q: "add_proxy envs h (user_config config auth) expiry kr = (q, kr1)"
        by (cases "add_proxy envs h (user_config config auth) expiry kr")
      have one: "dict_get (kr_proxies kr1) x = dict_get (kr_proxies kr) x" if "x \<noteq> h" for x
        using q that by (auto simp: add_proxy_def split: if_splits prod.splits sum.splits)
      have ok1: "proxies_ok au config kr1" if "proxies_ok au config kr"
        using q that Inr by (auto simp: add_proxy_def proxies_ok_def dest: connect_config split: if_splits prod.splits sum.splits)
      show ?thesis
      proof (cases q)
        case (Inl e)
        then have "kr' = kr1" "r = Inl e" using assms Some Inr expiry q by (auto simp: get_user_proxy_def)
        with one ok1 Some show ?thesis by auto
      next
        case (Inr u)
        then have m: "mark_used envs h kr1 = (r, kr')"
          using assms Some expiry q \<open>get_auth_config_from_header au (Some h) config = Inr auth\<close> by (auto simp: get_user_proxy_def)
        then have "dict_get (kr_proxies kr') x = dict_get (kr_proxies kr1) x" if "x \<noteq> h" for x
          using that by (auto simp: mark_used_def split: option.splits prod.splits)
        moreover have "proxies_ok au config kr'" if "proxies_ok au config kr1"
          using that m by (auto simp: mark_used_def proxies_ok_def split: option.splits prod.splits if_splits)
        moreover have "r = Inr key \<Longrightarrow> key = h" for key
          using m by (auto simp: mark_used_def split: option.splits prod.splits)
        ultimately show ?thesis using one ok1 Some by auto
      qed
    qed
  qed
qed

lemma request_effect:
  assumes "kafka_rest_request au envs True config header req kr = Some (r, kr')"
  shows "(\<forall>h. header \<noteq> Some h \<longrightarrow> dict_get (kr_proxies kr') h = dict_get (kr_proxies kr) h) \<and>
    (proxies_ok au config kr \<longrightarrow> proxies_ok au config kr')"
proof -
  obtain q kr1 where q: "get_user_proxy au envs True config header kr = (q, kr1)"
    by (cases "get_user_proxy au envs True config header kr")
  note one = get_user_proxy_effect [OF q]
  show ?thesis
  proof (cases q)
    case (Inl e)
    then show ?thesis using assms q one by (simp add: kafka_rest_request_def)
  next
    case (Inr key)
    then have key: "header = Some key" using one by blast
    have "(\<forall>h. h \<noteq> key \<longrightarrow> dict_get (kr_proxies kr') h = dict_get (kr_proxies kr1) h) \<and>
        (proxies_ok au config kr1 \<longrightarrow> proxies_ok au config kr')"
      using assms q Inr
      by (auto simp: kafka_rest_request_def give_back_def proxies_ok_def split: option.splits prod.splits if_splits)
    with one key show ?thesis by auto
  qed
qed

lemma close_proxy_table: "kr_proxies (close_proxy envs proxy kr) = kr_proxies kr"
  by (simp add: close_proxy_def Let_def)

lemma janitor_effect:
  "dict_get (kr_proxies (disconnect_idle_proxy_if_any envs timeout now utc kr)) h \<in> {None, dict_get (kr_proxies kr) h}"
  by (auto simp: disconnect_idle_proxy_if_any_def close_proxy_table split: option.splits)

lemma janitor_dict: "dict_ok (kr_proxies kr) \<Longrightarrow> dict_ok (kr_proxies (disconnect_idle_proxy_if_any envs timeout now utc kr))"
  by (auto simp: disconnect_idle_proxy_if_any_def close_proxy_table split: option.splits)

inductive rest_reachable ::
    "auth_ops \<Rightarrow> ('a, 'n, 'p, 'h, 'w) rest_envs \<Rightarrow> proxy_config \<Rightarrow> ('h, 'w, 'a, 'p) kafka_rest \<Rightarrow> bool"
  for au envs config where
  init: "kr_proxies kr = [] \<Longrightarrow> rest_reachable au envs config kr"
| request: "rest_reachable au envs config kr \<Longrightarrow> kafka_rest_request au envs True config header req kr = Some (r, kr') \<Longrightarrow>
    rest_reachable au envs config kr'"
| janitor: "rest_reachable au envs config kr \<Longrightarrow> rest_reachable au envs config (disconnect_idle_proxy_if_any envs timeout now utc kr)"
| world: "rest_reachable au envs config kr \<Longrightarrow> rest_reachable au envs config (kr\<lparr>kr_world := w\<rparr>)"

lemma rest_reachable_ok: "rest_reachable au envs config kr \<Longrightarrow> proxies_ok au config kr"
proof (induction rule: rest_reachable.induct)
  case (request kr header req r kr')
  then show ?case using request_effect by blast
next
  case (janitor kr timeout now utc)
  let ?kr' = "disconnect_idle_proxy_if_any envs timeout now utc kr"
  have "dict_get (kr_proxies kr) h = Some proxy" if "dict_get (kr_proxies ?kr') h = Some proxy" for h proxy
    using that janitor_effect [of envs timeout now utc kr h] by auto
  with janitor.IH show ?case unfolding proxies_ok_def using janitor_dict by blast
qed (simp_all add: proxies_ok_def)

definition has_credentials :: "proxy_config \<Rightarrow> auth_config \<Rightarrow> bool" where
  "has_credentials c auth \<longleftrightarrow>
     pc_security_protocol c \<in> {''SASL_SSL'', ''SASL_PLAINTEXT''} \<and>
     (case auth of
        SASLOauthConfig token \<Rightarrow> pc_sasl_mechanism c = Some ''OAUTHBEARER'' \<and> pc_sasl_oauth_token c = Some token
      | SASLPlainConfig mechanism username password \<Rightarrow>
          pc_sasl_mechanism c = Some mechanism \<and> pc_sasl_plain_username c = Some username \<and> pc_sasl_plain_password c = Some password)"

lemma user_config_credentials: "has_credentials (user_config config auth) auth"
  by (simp add: has_credentials_def user_config_def Let_def split: auth_config.splits)


lemma dict_pop_length: "dict_ok d \<Longrightarrow> length d \<le> Suc (length (dict_pop d k))"
proof -
  have none: "k \<notin> set ks \<Longrightarrow> filter (\<lambda>k'. k' \<noteq> k) ks = ks" for ks by (auto simp: filter_id_conv)
  have "distinct ks \<Longrightarrow> length ks \<le> Suc (length (filter (\<lambda>k'. k' \<noteq> k) ks))" for ks
    by (induction ks) (auto simp: none)
  from this [of "dict_keys d"] show "dict_ok d \<Longrightarrow> ?thesis"
    using length_map [of fst "dict_pop d k"] by (simp add: dict_ok_def dict_keys_delete)
qed

text \<open>
  The janitor closes only what is idle: a proxy that was used recently enough and whose credentials do not expire
  soon stays connected, with all its consumers, whatever the other proxies are. A pass closes at most one proxy.
\<close>

theorem janitor_keeps_used_proxies:
  assumes "rest_reachable au envs config kr" and "dict_get (kr_proxies kr) h = Some proxy" and "\<not> is_idle timeout now utc proxy"
  shows "dict_get (kr_proxies (disconnect_idle_proxy_if_any envs timeout now utc kr)) h = Some proxy \<and>
    length (kr_proxies kr) \<le> Suc (length (kr_proxies (disconnect_idle_proxy_if_any envs timeout now utc kr)))"
proof (cases "find (\<lambda>(key, proxy). is_idle timeout now utc proxy) (kr_proxies kr)")
  case None
  then show ?thesis using assms(2) by (simp add: disconnect_idle_proxy_if_any_def)
next
  case (Some found)
  obtain key idle where found: "found = (key, idle)" by force
  have ok: "dict_ok (kr_proxies kr)" using rest_reachable_ok [OF assms(1)] by (simp add: proxies_ok_def)
  have "(key, idle) \<in> set (kr_proxies kr)" "is_idle timeout now utc idle"
    using Some found by (auto simp: find_Some_iff) (metis nth_mem)
  then have "dict_get (kr_proxies kr) key = Some idle" "is_idle timeout now utc idle" using dict_get_eq_Some [OF ok] by blast+
  then have "key \<noteq> h" using assms(2,3) by auto
  moreover have "length (kr_proxies kr) \<le> Suc (length (dict_pop (kr_proxies kr) key))" by (rule dict_pop_length [OF ok])
  ultimately show ?thesis
    using assms(2) Some found by (simp add: disconnect_idle_proxy_if_any_def close_proxy_table)
qed

section \<open>Publishing\<close>

lemma produce_result_shape:
  "produce_result x = Inr j \<Longrightarrow> is_error_result j \<longleftrightarrow> (\<exists>e. x = SendFailed e \<or> x = DeliveryFailed e)"
proof -
  have err: "is_error_result (exn_result e)" for e
    by (cases e rule: exn_result.cases) (simp_all add: is_error_result_def error_result_def)
  show "produce_result x = Inr j \<Longrightarrow> is_error_result j \<longleftrightarrow> (\<exists>e. x = SendFailed e \<or> x = DeliveryFailed e)"
    by (cases x rule: produce_result.cases) (auto simp: err, auto simp: is_error_result_def)
qed

lemma produce_results_list:
  assumes "rfold (\<lambda>x acc. rbind (produce_result x) (\<lambda>j. Inr (acc @ [j]))) outcomes acc = Inr results"
  shows "\<exists>js. results = acc @ js \<and> list_all2 (\<lambda>x j. produce_result x = Inr j) outcomes js"
  using assms
proof (induction outcomes arbitrary: acc)
  case (Cons x outcomes)
  obtain j where j: "produce_result x = Inr j" using Cons.prems by (cases "produce_result x") auto
  have "rfold (\<lambda>x acc. rbind (produce_result x) (\<lambda>j. Inr (acc @ [j]))) outcomes (acc @ [j]) = Inr results"
    using Cons.prems j by simp
  from Cons.IH [OF this] obtain js where "results = (acc @ [j]) @ js" "list_all2 (\<lambda>x j. produce_result x = Inr j) outcomes js"
    by blast
  with j show ?case by (intro exI [of _ "j # js"]) simp
qed simp


text \<open>
  A value that Python takes for false is published as no bytes, in every format: the numbers 0 and 0.0, \<open>false\<close>,
  the empty string, list and object can not be told from \<open>null\<close> by a reader, and no schema is consulted.
\<close>

theorem falsy_values_are_lost: "\<not> truthy v \<Longrightarrow> rest_serialize env v format schema_id s = (Inr [], s)"
  by (simp add: rest_serialize_def act_simps)

text \<open>
  The schema cache of a topic: an id that was stored is found again by its schema and the schema by the id, as
  long as the cache holds the id, and storing does not disturb other schemas and topics.
\<close>

theorem stored_schema_is_found:
  fixes e :: "('a, 'n, 'p) ext"
  shows "(live i \<longrightarrow> fst (topic_cache_get_schema_id e live topic schema (topic_cache_set_schema e topic i schema tc)) = Some i) \<and>
    (topic' \<noteq> topic \<longrightarrow>
       dict_get (topic_cache_set_schema e topic i schema tc) topic' = dict_get tc topic') \<and>
    (sha1 e (pts_str e schema') \<noteq> sha1 e (pts_str e schema) \<and> (\<exists>c. dict_get tc topic = Some c) \<and>
       fst (topic_cache_get_schema_id e live topic schema' tc) = Some i' \<longrightarrow>
       fst (topic_cache_get_schema_id e live topic schema' (topic_cache_set_schema e topic i schema tc)) = Some i')"
  by (auto simp: topic_cache_get_schema_id_def topic_cache_set_schema_def cache_get_schema_id_def cache_set_schema_def holds_id_def
      empty_schema_cache_def Let_def split: option.splits if_splits)

section \<open>Witnesses\<close>

definition sample_producer :: "(rat \<times> consumed_message list \<times> broker_view list) producer_ops" where
  "sample_producer = \<lparr>po_start = (\<lambda>w. (Inr (), w)), po_stop = (\<lambda>w. w), po_send = (\<lambda>t k v p w. (Delivered (Some (Some 5, 0)), w))\<rparr>"

definition sample_rest_env :: "(nat, unit, pb_type list, unit, rat \<times> consumed_message list \<times> broker_view list) rest_env" where
  "sample_rest_env =
     \<lparr>en_ext = sample_ser_ext, en_codec = sample_codec, en_server = no_server, en_depth = 0, en_memo = (\<lambda>_ _. None),
      en_kafka = sample_ops, en_admin = sample_admin, en_producer = sample_producer, en_consumer_config = sample_consumer_config,
      en_max_age = 60, en_name_strategy = TopicName, en_name_strategy_validation = True, en_live = (\<lambda>_. True),
      en_b64decode = (\<lambda>_. None)\<rparr>"

definition sample_auth :: auth_ops where
  "sample_auth = \<lparr>au_basic_decode = (\<lambda>h. Inr (drop 6 h, ''secret'')), au_jwt_exp = (\<lambda>_. None)\<rparr>"

definition sample_proxy_config :: proxy_config where
  "sample_proxy_config =
     \<lparr>pc_bootstrap_uri = ''b:9092'', pc_sasl_bootstrap_uri = ''b:9093'', pc_security_protocol = ''SSL'', pc_sasl_mechanism = None,
      pc_sasl_oauth_token = None, pc_sasl_plain_username = None, pc_sasl_plain_password = None\<rparr>"

definition sample_rest :: "(unit, rat \<times> consumed_message list \<times> broker_view list, nat, pb_type list) kafka_rest" where
  "sample_rest = \<lparr>kr_proxies = [], kr_serializer = init_serializer, kr_world = (0, [], [sample_view [''t'']])\<rparr>"

definition sample_user :: "(unit, rat \<times> consumed_message list \<times> broker_view list, nat, pb_type list) proxy_state" where
  "sample_user = init_proxy_state init_serializer (0, [], [])"

lemma sample_creates:
  "\<exists>r s'. user_request sample_rest_env (CreateConsumer ''g'' [(''name'', JStr ''c'')]) sample_user = Some (r, s')"
  by (simp add: user_request_def Let_def)

theorem requests_keep_other_consumers_witness:
  "\<exists>r s'. user_request sample_rest_env (CreateConsumer ''g'' [(''name'', JStr ''c'')]) sample_user = Some (r, s') \<and>
     dict_get (cm_consumers s') (''h'', JStr ''c'') = dict_get (cm_consumers sample_user) (''h'', JStr ''c'')"
proof -
  obtain r s' where run: "user_request sample_rest_env (CreateConsumer ''g'' [(''name'', JStr ''c'')]) sample_user = Some (r, s')"
    using sample_creates by blast
  moreover have "\<not> about_consumer (CreateConsumer ''g'' [(''name'', JStr ''c'')]) (''h'', JStr ''c'')" by code_simp
  ultimately show ?thesis using requests_keep_other_consumers [OF run] by blast
qed


lemma sample_auth_config:
  "get_auth_config_from_header sample_auth (Some ''Basic a'') sample_proxy_config = Inr (SASLPlainConfig ''PLAIN'' ''a'' ''secret'')"
  "get_auth_config_from_header sample_auth (Some ''Basic b'') sample_proxy_config = Inr (SASLPlainConfig ''PLAIN'' ''b'' ''secret'')"
  "get_expiration_time_from_header sample_auth ''Basic a'' = Inr None"
  "get_expiration_time_from_header sample_auth ''Basic b'' = Inr None"
  by code_simp+

text \<open>The sample proxy after a request of the first user.\<close>

definition sample_rest_used :: "(unit, rat \<times> consumed_message list \<times> broker_view list, nat, pb_type list) kafka_rest" where
  "sample_rest_used =
     snd (the (kafka_rest_request sample_auth (\<lambda>_. sample_rest_env) True sample_proxy_config (Some ''Basic a'') (GetSubscription ''g'' ''c'')
       sample_rest))"

lemma sample_used:
  "kafka_rest_request sample_auth (\<lambda>_. sample_rest_env) True sample_proxy_config (Some ''Basic a'') (GetSubscription ''g'' ''c'') sample_rest =
     Some (Inl (not_found CONSUMER_NOT_FOUND), sample_rest_used)"
  "kr_proxies sample_rest_used = [(''Basic a'',
     \<lparr>up_config = user_config sample_proxy_config (SASLPlainConfig ''PLAIN'' ''a'' ''secret''),
      up_state = init_proxy_state init_serializer (0, [], [sample_view [''t'']]), up_last_used = 0, up_auth_expiry = None\<rparr>)]"
  "kr_world sample_rest_used = (0, [], [sample_view [''t'']])"
  by (simp_all add: sample_rest_used_def kafka_rest_request_def get_user_proxy_def sample_auth_config add_proxy_def connect_proxy_def
      sample_rest_def sample_rest_env_def sample_admin_def sample_ops_def mark_used_def act_bind_def act_catch_def act_simps read_clock_def on_world_def
      user_request_def Let_def get_subscription_def assert_consumer_exists_def init_proxy_state_def lend_def give_back_def)

lemma sample_rest_reachable: "rest_reachable sample_auth (\<lambda>_. sample_rest_env) sample_proxy_config sample_rest_used"
  by (rule rest_reachable.request [OF rest_reachable.init sample_used(1)]) (simp add: sample_rest_def)

lemma sample_second_user:
  "\<exists>r kr'. kafka_rest_request sample_auth (\<lambda>_. sample_rest_env) True sample_proxy_config (Some ''Basic b'') ListTopics sample_rest_used =
     Some (r, kr')"
  by (cases "get_user_proxy sample_auth (\<lambda>_. sample_rest_env) True sample_proxy_config (Some ''Basic b'') sample_rest_used")
    (auto simp: kafka_rest_request_def user_request_def Let_def split: sum.splits option.splits prod.splits)


theorem janitor_keeps_used_proxies_witness:
  "dict_get (kr_proxies (disconnect_idle_proxy_if_any (\<lambda>_. sample_rest_env) 0 100 5000 sample_rest_used)) ''Basic a'' \<noteq> None"
proof -
  let ?proxy = "snd (hd (kr_proxies sample_rest_used))"
  have "dict_get (kr_proxies sample_rest_used) ''Basic a'' = Some ?proxy" by (simp add: sample_used(2))
  moreover have "\<not> is_idle 0 100 5000 ?proxy" by (simp add: is_idle_def sample_used(2) init_proxy_state_def IDLE_PROXY_TIMEOUT_def)
  ultimately show ?thesis
    using janitor_keeps_used_proxies [OF sample_rest_reachable, of "''Basic a''" ?proxy 0 100 5000] by simp
qed


theorem falsy_values_are_lost_witness: "rest_serialize sample_rest_env (JInt 0) ''json'' None sample_user = (Inr [], sample_user)"
  by (rule falsy_values_are_lost) code_simp

theorem stored_schema_is_found_witness:
  "fst (topic_cache_get_schema_id sample_ser_ext (\<lambda>_. True) ''t'' (sample_pb []) (topic_cache_set_schema sample_ser_ext ''t'' 7 (sample_pb []) []))
     = Some 7"
  using stored_schema_is_found [of "\<lambda>_. True" 7 sample_ser_ext "''t''" "sample_pb []" "[]"] by blast

end
