(* ===== verification/Protobuf_Reader.thy ===== *)
theory Protobuf_Reader
  imports Protobuf_Elements
begin

text \<open>
  \<open>karapace/core/protobuf/syntax_reader.py\<close>: the reader under the Protobuf parser. \<open>rd_rest\<close> is the data from
  the position on; the reader never looks further back than at the character it has just read. Every operation
  gives the value and the reader after it, or the exception that ends the parsing. Strings have characters up to
  code 255: an octal escape above that is a \<open>ValueError\<close> here.
\<close>

section \<open>State\<close>

record syntax_reader =
  rd_pos :: nat
  rd_line :: nat
  rd_line_start :: nat
  rd_rest :: string
  rd_location :: location

type_synonym ('z, 'x) reading = "'z syntax_reader_scheme \<Rightarrow> ('x \<times> 'z syntax_reader_scheme) res"

definition rd_return :: "'x \<Rightarrow> ('z, 'x) reading" where
  "rd_return x r = Inr (x, r)"

definition rd_bind :: "('z, 'x) reading \<Rightarrow> ('x \<Rightarrow> ('z, 'y) reading) \<Rightarrow> ('z, 'y) reading" where
  "rd_bind m f r = rbind (m r) (\<lambda>(x, r'). f x r')"

definition rd_raise :: "exn \<Rightarrow> ('z, 'x) reading" where
  "rd_raise e r = Inl e"

definition rd_lift :: "'x res \<Rightarrow> ('z, 'x) reading" where
  "rd_lift v r = rbind v (\<lambda>x. Inr (x, r))"

text \<open>Reading \<open>n\<close> characters.\<close>

definition advance :: "nat \<Rightarrow> 'z syntax_reader_scheme \<Rightarrow> 'z syntax_reader_scheme" where
  "advance n r = r\<lparr>rd_pos := rd_pos r + n, rd_rest := drop n (rd_rest r)\<rparr>"

definition newline :: "'z syntax_reader_scheme \<Rightarrow> 'z syntax_reader_scheme" where
  "newline r = r\<lparr>rd_line := Suc (rd_line r), rd_line_start := rd_pos r\<rparr>"

definition reader_location :: "'z syntax_reader_scheme \<Rightarrow> location" where
  "reader_location r = location_at (rd_location r) (int (rd_line r) + 1) (int (rd_pos r) - int (rd_line_start r) + 1)"

definition exhausted :: "'z syntax_reader_scheme \<Rightarrow> bool" where
  "exhausted r \<longleftrightarrow> rd_rest r = []"

text \<open>\<open>expect\<close>, \<open>expect_with_location\<close> and \<open>unexpected\<close>: the location is only in the message.\<close>

definition rd_expect :: "bool \<Rightarrow> ('z, unit) reading" where
  "rd_expect cond = (if cond then rd_return () else rd_raise ProtobufException)"

section \<open>Comments and white space\<close>

text \<open>
  The body of a comment that ends with a star and a slash: the text so far, and whether only white space
  was read in the line. No text is the result of a comment that does not end.
\<close>

function star_comment :: "string \<Rightarrow> bool \<Rightarrow> 'z syntax_reader_scheme \<Rightarrow> string \<times> 'z syntax_reader_scheme" where
  "star_comment buffer start_of_line r =
     (case rd_rest r of
        c # d # _ \<Rightarrow>
          if c = CHR ''*'' \<and> d = CHR ''/'' then (py_strip buffer, advance 2 r)
          else if c = CHR 0x0A then star_comment (buffer @ [c]) True (advance 1 (newline r))
          else if \<not> start_of_line then star_comment (buffer @ [c]) False (advance 1 r)
          else if c = CHR ''*''
          then (if d = CHR '' '' then star_comment buffer False (advance 2 r) else star_comment buffer True (advance 1 r))
          else if \<not> is_space c then star_comment (buffer @ [c]) False (advance 1 r)
          else star_comment buffer True (advance 1 r)
      | _ \<Rightarrow> ([], r))"
  by pat_completeness auto
termination by (relation "measure (\<lambda>(b, s, r). length (rd_rest r))") (auto simp: advance_def newline_def)

declare star_comment.simps [simp del]

text \<open>The rest of a line with its end; the second part tells whether it has one.\<close>

definition skip_line :: "'z syntax_reader_scheme \<Rightarrow> string \<times> bool \<times> 'z syntax_reader_scheme" where
  "skip_line r =
     (let line = takeWhile (\<lambda>c. c \<noteq> CHR 0x0A) (rd_rest r); ended = length line < length (rd_rest r)
      in (line, ended, if ended then newline (advance (Suc (length line)) r) else advance (length line) r))"

definition skip_space :: "'z syntax_reader_scheme \<Rightarrow> 'z syntax_reader_scheme" where
  "skip_space r = (case rd_rest r of c # _ \<Rightarrow> if c = CHR '' '' then advance 1 r else r | [] \<Rightarrow> r)"

text \<open>The text of a line comment is cut one character before the position, also when no end of line was read.\<close>

definition read_comment :: "('z, string) reading" where
  "read_comment r =
     (case rd_rest r of
        c # d # _ \<Rightarrow>
          if c \<noteq> CHR ''/'' then Inl ProtobufException
          else if d = CHR ''*''
          then (case star_comment [] True (advance 2 r) of (result, r') \<Rightarrow>
                  if result = [] then Inl ProtobufException else Inr (result, r'))
          else if d = CHR ''/''
          then (case skip_line (skip_space (advance 2 r)) of (line, ended, r') \<Rightarrow>
                  let result = (if ended then line else butlast line)
                  in if result = [] then Inl ProtobufException else Inr (result, r'))
          else Inl ProtobufException
      | _ \<Rightarrow> Inl ProtobufException)"

text \<open>How far an operation reads: the rest becomes shorter, or at least not longer.\<close>

lemma rest_advance [simp]: "rd_rest (advance n r) = drop n (rd_rest r)"
  by (simp add: advance_def)

lemma rest_newline [simp]: "rd_rest (newline r) = rd_rest r"
  by (simp add: newline_def)

lemma star_comment_rest: "star_comment b s r = (x, r') \<Longrightarrow> length (rd_rest r') \<le> length (rd_rest r)"
proof (induction b s r rule: star_comment.induct)
  case (1 b s r)
  show ?case
  proof (cases "rd_rest r")
    case Nil
    then show ?thesis using "1.prems" by (simp add: star_comment.simps [of b s r])
  next
    case (Cons c cs)
    show ?thesis
    proof (cases cs)
      case Nil
      then show ?thesis using "1.prems" Cons by (simp add: star_comment.simps [of b s r])
    next
      case (Cons d ds)
      note rest = \<open>rd_rest r = c # cs\<close> Cons
      show ?thesis
        using "1.prems" "1.IH" [OF rest(1) rest(2)] rest
        by (subst (asm) star_comment.simps [of b s r]) (auto split: if_splits)
    qed
  qed
qed

lemma skip_line_rest: "length (rd_rest (snd (snd (skip_line r)))) \<le> length (rd_rest r)"
  by (simp add: skip_line_def Let_def)

lemma skip_space_rest: "length (rd_rest (skip_space r)) \<le> length (rd_rest r)"
  by (simp add: skip_space_def split: list.splits)

lemma read_comment_shorter: "read_comment r = Inr (x, r') \<Longrightarrow> length (rd_rest r') < length (rd_rest r)"
  using star_comment_rest [of "[]" True "advance 2 r"] skip_line_rest [of "skip_space (advance 2 r)"] skip_space_rest [of "advance 2 r"]
  by (auto simp: read_comment_def Let_def split: list.splits if_splits prod.splits)

function skip_whitespace :: "bool \<Rightarrow> 'z syntax_reader_scheme \<Rightarrow> 'z syntax_reader_scheme res" where
  "skip_whitespace skip_comments r =
     (case rd_rest r of
        [] \<Rightarrow> Inr r
      | c # _ \<Rightarrow>
          if c \<in> {CHR '' '', CHR 0x09, CHR 0x0D} then skip_whitespace skip_comments (advance 1 r)
          else if c = CHR 0x0A then skip_whitespace skip_comments (newline (advance 1 r))
          else if skip_comments \<and> c = CHR ''/''
          then rbind (read_comment r) (\<lambda>x. skip_whitespace skip_comments (snd x))
          else Inr r)"
  by pat_completeness auto
termination
  by (relation "measure (\<lambda>(s, r). length (rd_rest r))") (auto dest: read_comment_shorter)

declare skip_whitespace.simps [simp del]

lemma skip_whitespace_rest: "skip_whitespace b r = Inr r' \<Longrightarrow> length (rd_rest r') \<le> length (rd_rest r)"
proof (induction b r rule: skip_whitespace.induct)
  case (1 b r)
  show ?case
  proof (cases "rd_rest r")
    case Nil
    then show ?thesis using "1.prems" by (simp add: skip_whitespace.simps [of b r])
  next
    case (Cons c cs)
    show ?thesis
    proof (cases "c = CHR ''/'' \<and> b")
      case True
      then obtain x where x: "read_comment r = Inr x" "skip_whitespace b (snd x) = Inr r'"
        using "1.prems" Cons by (auto simp: skip_whitespace.simps [of True r] rbind_eq_Inr)
      have "length (rd_rest r') \<le> length (rd_rest (snd x))" using "1.IH"(3) [OF Cons] True x by auto
      with read_comment_shorter [of r "fst x" "snd x"] x show ?thesis by simp
    next
      case False
      then show ?thesis
        using "1.prems" "1.IH"(1,2) [OF Cons] Cons by (auto simp: skip_whitespace.simps [of b r] split: if_splits)
    qed
  qed
qed

section \<open>Progress of readings\<close>

text \<open>
  \<open>rd_mono\<close>: a reading does not put characters back; \<open>rd_reads\<close>: it reads at least one; \<open>rd_fuel n\<close>: it does
  not run out of fuel when fewer than \<open>n\<close> characters are left.
\<close>

definition rd_mono :: "('z, 'x) reading \<Rightarrow> bool" where
  "rd_mono m \<longleftrightarrow> (\<forall>r x r'. m r = Inr (x, r') \<longrightarrow> length (rd_rest r') \<le> length (rd_rest r))"

definition rd_reads :: "('z, 'x) reading \<Rightarrow> bool" where
  "rd_reads m \<longleftrightarrow> (\<forall>r x r'. m r = Inr (x, r') \<longrightarrow> length (rd_rest r') < length (rd_rest r))"

definition rd_fuel :: "nat \<Rightarrow> ('z, 'x) reading \<Rightarrow> bool" where
  "rd_fuel n m \<longleftrightarrow> (\<forall>r. length (rd_rest r) < n \<longrightarrow> m r \<noteq> Inl RecursionError)"

named_theorems rd_intros \<open>progress of readings\<close>

lemma rd_monoI: "(\<And>r x r'. m r = Inr (x, r') \<Longrightarrow> length (rd_rest r') \<le> length (rd_rest r)) \<Longrightarrow> rd_mono m"
  by (simp add: rd_mono_def)

lemma rd_readsI: "(\<And>r x r'. m r = Inr (x, r') \<Longrightarrow> length (rd_rest r') < length (rd_rest r)) \<Longrightarrow> rd_reads m"
  by (simp add: rd_reads_def)

lemma rd_fuelI: "(\<And>r. length (rd_rest r) < n \<Longrightarrow> m r \<noteq> Inl RecursionError) \<Longrightarrow> rd_fuel n m"
  by (simp add: rd_fuel_def)

lemma rd_monoD: "rd_mono m \<Longrightarrow> m r = Inr (x, r') \<Longrightarrow> length (rd_rest r') \<le> length (rd_rest r)"
  by (auto simp: rd_mono_def)

lemma rd_readsD: "rd_reads m \<Longrightarrow> m r = Inr (x, r') \<Longrightarrow> length (rd_rest r') < length (rd_rest r)"
  by (auto simp: rd_reads_def)

lemma rd_fuelD: "rd_fuel n m \<Longrightarrow> length (rd_rest r) < n \<Longrightarrow> m r \<noteq> Inl RecursionError"
  by (auto simp: rd_fuel_def)

lemma rd_reads_mono: "rd_reads m \<Longrightarrow> rd_mono m"
  by (auto simp: rd_reads_def rd_mono_def dest: less_imp_le_nat)

lemma rd_fuel_anti: "rd_fuel n m \<Longrightarrow> k \<le> n \<Longrightarrow> rd_fuel k m"
  by (auto simp: rd_fuel_def)

lemma rd_simple [rd_intros]:
  "rd_mono (rd_return x)" "rd_mono (rd_raise e)" "rd_mono (rd_lift v)" "rd_mono (rd_expect b)" "rd_reads (rd_raise e)"
  "rd_fuel n (rd_return x)" "rd_fuel n (rd_expect b)"
  by (auto simp: rd_mono_def rd_reads_def rd_fuel_def rd_return_def rd_raise_def rd_lift_def rd_expect_def rbind_eq_Inr)

lemma rd_fuel_raise [rd_intros]: "e \<noteq> RecursionError \<Longrightarrow> rd_fuel n (rd_raise e)"
  by (simp add: rd_fuel_def rd_raise_def)

lemma rd_fuel_lift [rd_intros]: "v \<noteq> Inl RecursionError \<Longrightarrow> rd_fuel n (rd_lift v)"
  by (cases v) (auto simp: rd_fuel_def rd_lift_def)

lemma rd_bind_Inr: "rd_bind m f r = Inr (y, r') \<longleftrightarrow> (\<exists>x r1. m r = Inr (x, r1) \<and> f x r1 = Inr (y, r'))"
  by (auto simp: rd_bind_def rbind_eq_Inr)

lemma rd_mono_bind [rd_intros]: "rd_mono m \<Longrightarrow> (\<And>x. rd_mono (f x)) \<Longrightarrow> rd_mono (rd_bind m f)"
  unfolding rd_mono_def rd_bind_Inr by (meson le_trans)

lemma rd_reads_bind1: "rd_reads m \<Longrightarrow> (\<And>x. rd_mono (f x)) \<Longrightarrow> rd_reads (rd_bind m f)"
  unfolding rd_mono_def rd_reads_def rd_bind_Inr by (meson le_less_trans)

lemma rd_reads_bind2: "rd_mono m \<Longrightarrow> (\<And>x. rd_reads (f x)) \<Longrightarrow> rd_reads (rd_bind m f)"
  unfolding rd_mono_def rd_reads_def rd_bind_Inr by (meson less_le_trans)

lemma rd_fuel_bind [rd_intros]: "rd_fuel n m \<Longrightarrow> rd_mono m \<Longrightarrow> (\<And>x. rd_fuel n (f x)) \<Longrightarrow> rd_fuel n (rd_bind m f)"
  unfolding rd_fuel_def rd_mono_def rd_bind_def
  by (auto simp: rbind_eq_Inl split: prod.splits) (meson le_less_trans)

lemma rd_fuel_bind_Suc: "rd_fuel (Suc n) m \<Longrightarrow> rd_reads m \<Longrightarrow> (\<And>x. rd_fuel n (f x)) \<Longrightarrow> rd_fuel (Suc n) (rd_bind m f)"
  unfolding rd_fuel_def rd_reads_def rd_bind_def
  by (auto simp: rbind_eq_Inl split: prod.splits) (meson less_Suc_eq_le less_le_trans)

lemma rd_if [rd_intros]:
  "(b \<Longrightarrow> rd_reads m) \<Longrightarrow> (\<not> b \<Longrightarrow> rd_reads m') \<Longrightarrow> rd_reads (if b then m else m')"
  "(b \<Longrightarrow> rd_mono m) \<Longrightarrow> (\<not> b \<Longrightarrow> rd_mono m') \<Longrightarrow> rd_mono (if b then m else m')"
  "(b \<Longrightarrow> rd_fuel n m) \<Longrightarrow> (\<not> b \<Longrightarrow> rd_fuel n m') \<Longrightarrow> rd_fuel n (if b then m else m')"
  by simp_all

section \<open>Characters and words\<close>

definition rd_skip :: "bool \<Rightarrow> ('z, unit) reading" where
  "rd_skip skip_comments r = rbind (skip_whitespace skip_comments r) (\<lambda>r'. Inr ((), r'))"

definition rd_current :: "('z, char) reading" where
  "rd_current r = (case rd_rest r of [] \<Rightarrow> Inl ProtobufException | c # _ \<Rightarrow> Inr (c, r))"

definition rd_advance :: "nat \<Rightarrow> ('z, unit) reading" where
  "rd_advance n r = Inr ((), advance n r)"

definition peek_char :: "('z, char) reading" where
  "peek_char = rd_bind (rd_skip True) (\<lambda>_. rd_current)"

definition read_char :: "('z, char) reading" where
  "read_char = rd_bind peek_char (\<lambda>c r. Inr (c, advance 1 r))"

definition rd_require :: "char \<Rightarrow> ('z, unit) reading" where
  "rd_require c = rd_bind read_char (\<lambda>x. rd_expect (x = c))"

text \<open>\<open>peek_char(ch)\<close>: reads the character if it is the given one.\<close>

definition peek_is :: "char \<Rightarrow> ('z, bool) reading" where
  "peek_is ch = rd_bind peek_char (\<lambda>c r. if c = ch then Inr (True, advance 1 r) else Inr (False, r))"

definition is_word_char :: "char \<Rightarrow> bool" where
  "is_word_char c \<longleftrightarrow>
     (let n = (of_char c :: nat)
      in (97 \<le> n \<and> n \<le> 122) \<or> (65 \<le> n \<and> n \<le> 90) \<or> (48 \<le> n \<and> n \<le> 57) \<or> c \<in> {CHR ''_'', CHR ''-'', CHR ''.''})"

definition take_word :: "('z, string) reading" where
  "take_word r =
     (let word = takeWhile is_word_char (rd_rest r)
      in if word = [] then Inl ProtobufException else Inr (word, advance (length word) r))"

definition read_word :: "('z, string) reading" where
  "read_word = rd_bind (rd_skip True) (\<lambda>_. take_word)"

definition read_name :: "('z, string) reading" where
  "read_name =
     rd_bind peek_char (\<lambda>c.
       if c = CHR ''('' then rd_bind (rd_advance 1) (\<lambda>_. rd_bind read_word (\<lambda>w. rd_bind (rd_require (CHR '')'')) (\<lambda>_. rd_return w)))
       else if c = CHR ''['' then rd_bind (rd_advance 1) (\<lambda>_. rd_bind read_word (\<lambda>w. rd_bind (rd_require (CHR '']'')) (\<lambda>_. rd_return w)))
       else read_word)"

text \<open>\<open>int(tag, 16)\<close> on a text with the prefix \<open>0x\<close>.\<close>

definition hex_of :: "char \<Rightarrow> int option" where
  "hex_of c =
     (let n = (of_char c :: nat)
      in if 48 \<le> n \<and> n \<le> 57 then Some (int n - 48) else if 97 \<le> n \<and> n \<le> 102 then Some (int n - 87)
         else if 65 \<le> n \<and> n \<le> 70 then Some (int n - 55) else None)"

fun hex_digits :: "string \<Rightarrow> int \<Rightarrow> int option" where
  "hex_digits [] acc = Some acc"
| "hex_digits (c # cs) acc =
     (case hex_of c of
        Some d \<Rightarrow> hex_digits cs (16 * acc + d)
      | None \<Rightarrow> if c = CHR ''_'' \<and> cs \<noteq> [] \<and> hex_of (hd cs) \<noteq> None then hex_digits cs acc else None)"

definition hex_int :: "string \<Rightarrow> int option" where
  "hex_int tag = (let s = drop 2 tag in if s = [] then None else hex_digits s 0)"

definition read_int :: "('z, int) reading" where
  "read_int =
     rd_bind read_word (\<lambda>tag.
       rd_lift (if startswith tag ''0x'' \<or> startswith tag ''0X'' then of_option ProtobufException (hex_int tag)
                else case py_int tag of Inl e \<Rightarrow> Inl ProtobufException | Inr i \<Rightarrow> Inr i))"

lemma rbind_not_Inl: "m \<noteq> Inl e \<Longrightarrow> (\<And>x. m = Inr x \<Longrightarrow> f x \<noteq> Inl e) \<Longrightarrow> rbind m f \<noteq> Inl e"
  by (cases m) auto

lemma read_comment_fuel: "read_comment r \<noteq> Inl RecursionError"
  by (auto simp: read_comment_def Let_def split: list.splits prod.splits)

lemma skip_whitespace_fuel: "skip_whitespace b r \<noteq> Inl RecursionError"
proof (induction b r rule: skip_whitespace.induct)
  case (1 b r)
  show ?case
  proof (cases "rd_rest r")
    case (Cons c cs)
    show ?thesis
    proof (cases "c = CHR ''/'' \<and> b")
      case True
      then show ?thesis
        using "1.IH"(3) [OF Cons] Cons read_comment_fuel [of r] by (auto simp: skip_whitespace.simps [of True r] rbind_eq_Inl)
    qed (use "1.IH"(1,2) [OF Cons] Cons in \<open>auto simp: skip_whitespace.simps [of b r]\<close>)
  qed (simp add: skip_whitespace.simps [of b r])
qed

lemma rd_chars [rd_intros]:
  "rd_mono (rd_skip b)" "rd_fuel n (rd_skip b)" "rd_mono rd_current" "rd_fuel n rd_current" "rd_mono (rd_advance k)"
  "rd_fuel n (rd_advance k)" "rd_fuel n take_word" "rd_reads take_word"
  by (auto simp: rd_mono_def rd_fuel_def rd_reads_def rd_skip_def rd_current_def rd_advance_def take_word_def Let_def rbind_eq_Inr
      rbind_eq_Inl skip_whitespace_fuel takeWhile_eq_Nil_iff dest: skip_whitespace_rest split: list.splits if_splits)

lemma peek_char_progress [rd_intros]: "rd_mono peek_char" "rd_fuel n peek_char"
  unfolding peek_char_def by (intro rd_intros)+

lemma rd_current_Inr: "rd_current r = Inr (c, r') \<longleftrightarrow> r' = r \<and> (\<exists>cs. rd_rest r = c # cs)"
  by (cases "rd_rest r") (auto simp: rd_current_def)

lemma peek_char_rest: "peek_char r = Inr (c, r') \<Longrightarrow> \<exists>cs. rd_rest r' = c # cs"
  by (auto simp: peek_char_def rd_bind_Inr rd_current_Inr)

lemma read_char_progress [rd_intros]: "rd_reads read_char" "rd_mono read_char" "rd_fuel n read_char"
proof -
  show reads: "rd_reads read_char"
  proof (rule rd_readsI)
    fix r r' :: "'z syntax_reader_scheme" and x
    assume "read_char r = Inr (x, r')"
    then obtain r1 where "peek_char r = Inr (x, r1)" "r' = advance 1 r1" by (auto simp: read_char_def rd_bind_Inr)
    with peek_char_rest [of r x r1] rd_monoD [OF peek_char_progress(1)] show "length (rd_rest r') < length (rd_rest r)" by fastforce
  qed
  show "rd_mono read_char" by (rule rd_reads_mono [OF reads])
  show "rd_fuel n read_char"
    unfolding read_char_def by (intro rd_intros) (simp add: rd_fuel_def)
qed

lemma rd_require_progress [rd_intros]: "rd_reads (rd_require c)" "rd_mono (rd_require c)" "rd_fuel n (rd_require c)"
  unfolding rd_require_def by (intro rd_reads_bind1 rd_intros)+

lemma peek_is_progress [rd_intros]: "rd_mono (peek_is c)" "rd_fuel n (peek_is c)"
  unfolding peek_is_def by (intro rd_intros; auto simp: rd_mono_def rd_fuel_def split: if_splits)+

lemma read_word_progress [rd_intros]: "rd_reads read_word" "rd_mono read_word" "rd_fuel n read_word"
  unfolding read_word_def by (intro rd_reads_bind2 rd_intros rd_reads_mono)+

lemma read_name_progress [rd_intros]: "rd_reads read_name" "rd_mono read_name" "rd_fuel n read_name"
proof -
  have word: "rd_reads (rd_bind (rd_advance 1) (\<lambda>_. rd_bind read_word (\<lambda>w. rd_bind (rd_require c) (\<lambda>_. rd_return w))))" for c
    by (intro rd_reads_bind2 [of "rd_advance 1"] rd_reads_bind1 rd_intros)
  show reads: "rd_reads read_name"
    unfolding read_name_def by (rule rd_reads_bind2) (intro rd_intros word)+
  show "rd_mono read_name" by (rule rd_reads_mono [OF reads])
  show "rd_fuel n read_name" unfolding read_name_def by (intro rd_intros)
qed

lemma read_int_progress [rd_intros]: "rd_reads read_int" "rd_mono read_int" "rd_fuel n read_int"
  unfolding read_int_def by (intro rd_reads_bind1 rd_intros; auto split: sum.splits simp: of_option_def split: option.splits)+

section \<open>Strings\<close>

text \<open>\<open>int(c, radix)\<close> of one character, \<open>None\<close> if it is not a digit of the radix.\<close>

definition escape_digit :: "nat \<Rightarrow> char \<Rightarrow> nat option" where
  "escape_digit radix c =
     (let n = (of_char c :: nat);
          d = (if 48 \<le> n \<and> n \<le> 57 then n - 48 else if 97 \<le> n \<and> n \<le> 122 then n - 87
               else if 65 \<le> n \<and> n \<le> 90 then n - 55 else radix)
      in if d < radix then Some d else None)"

definition read_numeric_escape :: "nat \<Rightarrow> nat \<Rightarrow> ('z, char) reading" where
  "read_numeric_escape radix len r =
     (let digits = takeWhile (\<lambda>c. escape_digit radix c \<noteq> None) (take len (rd_rest r));
          v = foldl (\<lambda>v c. v * radix + the (escape_digit radix c)) 0 digits
      in if digits = [] then Inl ProtobufException
         else if v < 256 then Inr (char_of v, advance (length digits) r) else Inl ValueError)"

definition escapes :: "(char \<times> char) list" where
  "escapes = [(CHR ''a'', CHR 0x07), (CHR ''b'', CHR 0x08), (CHR ''f'', CHR 0x0C), (CHR ''n'', CHR 0x0A), (CHR ''r'', CHR 0x0D),
     (CHR ''t'', CHR 0x09), (CHR ''v'', CHR 0x0B)]"

definition read_escape :: "('z, char) reading" where
  "read_escape r =
     (case rd_rest r of
        [] \<Rightarrow> Inl ProtobufException
      | c # _ \<Rightarrow>
          (case map_of escapes c of
             Some d \<Rightarrow> Inr (d, advance 1 r)
           | None \<Rightarrow>
               if c \<in> {CHR ''x'', CHR ''X''} then read_numeric_escape 16 2 (advance 1 r)
               else if 48 \<le> (of_char c :: nat) \<and> (of_char c :: nat) \<le> 55 then read_numeric_escape 8 3 r
               else Inr (c, advance 1 r)))"

lemma read_numeric_escape_progress: "rd_reads (read_numeric_escape radix len)" "read_numeric_escape radix len r \<noteq> Inl RecursionError"
proof -
  show "rd_reads (read_numeric_escape radix len)"
    by (rule rd_readsI) (auto simp: read_numeric_escape_def Let_def takeWhile_eq_Nil_iff split: if_splits)
qed (simp add: read_numeric_escape_def Let_def)

lemma read_escape_progress: "read_escape r = Inr (c, r') \<Longrightarrow> length (rd_rest r') < length (rd_rest r)" "read_escape r \<noteq> Inl RecursionError"
  using rd_readsD [OF read_numeric_escape_progress(1)] rd_monoD [OF rd_reads_mono [OF read_numeric_escape_progress(1)]]
  by (fastforce simp: read_escape_def read_numeric_escape_progress split: list.splits option.splits if_splits)+

definition is_quote :: "char \<Rightarrow> bool" where
  "is_quote c \<longleftrightarrow> c = CHR 0x22 \<or> c = CHR 0x27"

function read_quoted :: "string \<Rightarrow> char \<Rightarrow> ('z, string) reading" where
  "read_quoted result start_quote r =
     (case rd_rest r of
        [] \<Rightarrow> Inl ProtobufException
      | c # _ \<Rightarrow>
          if c = start_quote
          then rbind (peek_char (advance 1 r)) (\<lambda>x.
                 if is_quote (fst x) then read_quoted result (fst x) (advance 1 (snd x)) else Inr (result, snd x))
          else if c = CHR 0x5C
          then rbind (read_escape (advance 1 r)) (\<lambda>x.
                 read_quoted (result @ [fst x]) start_quote (if fst x = CHR 0x0A then newline (snd x) else snd x))
          else read_quoted (result @ [c]) start_quote (if c = CHR 0x0A then newline (advance 1 r) else advance 1 r))"
  by pat_completeness auto
termination
proof (relation "measure (\<lambda>(b, q, r). length (rd_rest r))", goal_cases)
  case (2 result start_quote r c cs x)
  then have "length (rd_rest (snd x)) \<le> length (rd_rest (advance 1 r))"
    using rd_monoD [OF peek_char_progress(1), of "advance 1 r" "fst x" "snd x"] by simp
  with 2 show ?case by auto
next
  case (3 result start_quote r c cs x)
  then have "length (rd_rest (snd x)) < length (rd_rest (advance 1 r))"
    using read_escape_progress(1) [of "advance 1 r" "fst x" "snd x"] by simp
  with 3 show ?case by auto
qed auto

declare read_quoted.simps [simp del]

definition read_quoted_string :: "('z, string) reading" where
  "read_quoted_string = rd_bind read_char (\<lambda>q. if is_quote q then read_quoted [] q else rd_raise ProtobufException)"

definition read_string :: "('z, string) reading" where
  "read_string =
     rd_bind (rd_skip True) (\<lambda>_. rd_bind peek_char (\<lambda>c. if is_quote c then read_quoted_string else read_word))"

lemma read_quoted_progress: "read_quoted b q r = Inr (x, r') \<Longrightarrow> length (rd_rest r') \<le> length (rd_rest r)"
proof (induction b q r rule: read_quoted.induct)
  case (1 b q r)
  show ?case
  proof (cases "rd_rest r")
    case Nil
    then show ?thesis using "1.prems" by (simp add: read_quoted.simps [of b q r])
  next
    case (Cons c cs)
    note ih = "1.IH" [OF Cons]
    show ?thesis
    proof (cases "c = q")
      case True
      then obtain y where y: "peek_char (advance 1 r) = Inr y"
        "(if is_quote (fst y) then read_quoted b (fst y) (advance 1 (snd y)) else Inr (b, snd y)) = Inr (x, r')"
        using "1.prems" Cons by (auto simp: read_quoted.simps [of b q r] rbind_eq_Inr)
      have "length (rd_rest (snd y)) \<le> length (rd_rest (advance 1 r))"
        using rd_monoD [OF peek_char_progress(1), of "advance 1 r" "fst y" "snd y"] y by simp
      moreover have "length (rd_rest r') \<le> length (rd_rest (snd y))"
        using ih(1) [OF True y(1)] y(2) by (auto split: if_splits)
      ultimately show ?thesis using Cons by simp
    next
      case other: False
      show ?thesis
      proof (cases "c = CHR 0x5C")
        case True
        then obtain y where y: "read_escape (advance 1 r) = Inr y"
          "read_quoted (b @ [fst y]) q (if fst y = CHR 0x0A then newline (snd y) else snd y) = Inr (x, r')"
          using "1.prems" Cons other by (auto simp: read_quoted.simps [of b q r] rbind_eq_Inr)
        have "length (rd_rest (snd y)) < length (rd_rest (advance 1 r))"
          using read_escape_progress(1) [of "advance 1 r" "fst y" "snd y"] y by simp
        with ih(2) [OF other True y(1) y(2)] show ?thesis using Cons by (simp split: if_splits)
      next
        case False
        then have "length (rd_rest r') \<le> length (rd_rest (if c = CHR 0x0A then newline (advance 1 r) else advance 1 r))"
          using "1.prems" Cons other ih(3) [OF other False] by (simp add: read_quoted.simps [of b q r])
        then show ?thesis using Cons by (simp split: if_splits)
      qed
    qed
  qed
qed

lemma read_quoted_fuel: "read_quoted b q r \<noteq> Inl RecursionError"
proof (induction b q r rule: read_quoted.induct)
  case (1 b q r)
  show ?case
  proof (cases "rd_rest r")
    case (Cons c cs)
    note ih = "1.IH" [OF Cons]
    have peek: "peek_char (advance 1 r) \<noteq> Inl RecursionError" by (rule rd_fuelD [OF peek_char_progress(2) lessI])
    have "rbind (peek_char (advance 1 r)) (\<lambda>x. if is_quote (fst x) then read_quoted b (fst x) (advance 1 (snd x)) else Inr (b, snd x))
        \<noteq> Inl RecursionError" if "c = q"
      using ih(1) [OF that] by (intro rbind_not_Inl peek) auto
    moreover have "rbind (read_escape (advance 1 r)) (\<lambda>x.
        read_quoted (b @ [fst x]) q (if fst x = CHR 0x0A then newline (snd x) else snd x)) \<noteq> Inl RecursionError"
      if "c \<noteq> q" "c = CHR 0x5C"
      using ih(2) [OF that] by (intro rbind_not_Inl read_escape_progress(2)) auto
    ultimately show ?thesis
      using ih(3) Cons by (subst read_quoted.simps) simp
  qed (simp add: read_quoted.simps [of b q r])
qed

lemma read_quoted_string_progress [rd_intros]:
  "rd_reads read_quoted_string" "rd_mono read_quoted_string" "rd_fuel n read_quoted_string"
proof -
  have q: "rd_mono (read_quoted b q)" "rd_fuel n (read_quoted b q)" for b q
    by (rule rd_monoI, rule read_quoted_progress) (simp_all add: rd_fuel_def read_quoted_fuel)
  show reads: "rd_reads read_quoted_string"
    unfolding read_quoted_string_def by (intro rd_reads_bind1 rd_intros q)
  show "rd_mono read_quoted_string" by (rule rd_reads_mono [OF reads])
  show "rd_fuel n read_quoted_string"
    unfolding read_quoted_string_def by (intro rd_intros q) simp
qed

lemma read_string_progress [rd_intros]: "rd_reads read_string" "rd_mono read_string" "rd_fuel n read_string"
  unfolding read_string_def by (intro rd_reads_bind2 rd_intros)+

section \<open>Data types\<close>

text \<open>The first argument bounds the nesting of map types.\<close>

fun read_data_type_by_name :: "nat \<Rightarrow> string \<Rightarrow> ('z, string) reading" where
  "read_data_type_by_name 0 name = rd_raise RecursionError"
| "read_data_type_by_name (Suc n) name =
     (if name = ''map'' then
        rd_bind (rd_require (CHR ''<'')) (\<lambda>_.
        rd_bind (rd_bind read_word (read_data_type_by_name n)) (\<lambda>key_type.
        rd_bind (rd_require (CHR '','')) (\<lambda>_.
        rd_bind (rd_bind read_word (read_data_type_by_name n)) (\<lambda>value_type.
        rd_bind (rd_require (CHR ''>'')) (\<lambda>_.
          rd_return (''map<'' @ key_type @ '', '' @ value_type @ ''>''))))))
      else rd_return name)"

definition read_data_type :: "nat \<Rightarrow> ('z, string) reading" where
  "read_data_type n = rd_bind read_word (read_data_type_by_name n)"

lemma read_data_type_by_name_mono [rd_intros]: "rd_mono (read_data_type_by_name n name)"
  by (induction n arbitrary: name) (auto intro!: rd_intros)

lemma read_data_type_by_name_fuel [rd_intros]: "rd_fuel n (read_data_type_by_name n name)"
proof (induction n arbitrary: name)
  case (Suc n)
  show ?case by (auto intro!: rd_fuel_bind_Suc [OF rd_require_progress(3,1)] rd_intros Suc.IH)
qed (simp add: rd_fuel_def)

lemma read_data_type_progress [rd_intros]: "rd_reads (read_data_type n)" "rd_mono (read_data_type n)" "rd_fuel n (read_data_type n)"
  unfolding read_data_type_def by (intro rd_reads_bind1 rd_intros)+

section \<open>Documentation\<close>

function read_documentation_from :: "string \<Rightarrow> ('z, string) reading" where
  "read_documentation_from result r =
     rbind (skip_whitespace False r) (\<lambda>r1.
       if startswith (rd_rest r1) ''/''
       then rbind (read_comment r1) (\<lambda>x.
              read_documentation_from (if result = [] then fst x else result @ nl @ fst x) (snd x))
       else Inr (result, r1))"
  by pat_completeness auto
termination
proof (relation "measure (\<lambda>(b, r). length (rd_rest r))", goal_cases)
  case (2 result r r1 x)
  from skip_whitespace_rest [OF 2(1)] read_comment_shorter [of r1 "fst x" "snd x"] 2(3) show ?case by simp
qed simp

declare read_documentation_from.simps [simp del]

definition read_documentation :: "('z, string) reading" where
  "read_documentation = read_documentation_from []"

lemma read_documentation_from_progress:
  "read_documentation_from b r = Inr (x, r') \<Longrightarrow> length (rd_rest r') \<le> length (rd_rest r)"
proof (induction b r rule: read_documentation_from.induct)
  case (1 b r)
    from "1.prems" obtain r1 where r1: "skip_whitespace False r = Inr r1"
      by (subst (asm) read_documentation_from.simps) (auto simp: rbind_eq_Inr)
    note less = skip_whitespace_rest [OF r1]
    show ?case
    proof (cases "startswith (rd_rest r1) ''/''")
      case True
      then obtain y where y: "read_comment r1 = Inr y"
        "read_documentation_from (if b = [] then fst y else b @ nl @ fst y) (snd y) = Inr (x, r')"
        using "1.prems" r1 by (subst (asm) read_documentation_from.simps) (auto simp: rbind_eq_Inr)
      from "1.IH" [OF r1 True y] read_comment_shorter [of r1 "fst y" "snd y"] y(1) less show ?thesis by simp
    next
      case False
      then show ?thesis using "1.prems" r1 less by (subst (asm) read_documentation_from.simps) simp
    qed
qed

lemma read_documentation_from_fuel: "read_documentation_from b r \<noteq> Inl RecursionError"
proof (induction b r rule: read_documentation_from.induct)
  case (1 b r)
  show ?case
  proof (cases "skip_whitespace False r")
    case (Inr r1)
    then show ?thesis
      using "1.IH" [OF Inr] read_comment_fuel [of r1]
      by (subst read_documentation_from.simps) (auto simp: rbind_eq_Inl)
  qed (use skip_whitespace_fuel [of False r] in \<open>subst read_documentation_from.simps, auto\<close>)
qed

lemma read_documentation_progress [rd_intros]: "rd_mono read_documentation" "rd_fuel n read_documentation"
  by (rule rd_monoI, unfold read_documentation_def, rule read_documentation_from_progress)
    (simp_all add: rd_fuel_def read_documentation_from_fuel)

text \<open>The text before the first star with a slash and what follows it.\<close>

fun until_star_slash :: "string \<Rightarrow> (string \<times> string) option" where
  "until_star_slash (c # d # cs) =
     (if c = CHR ''*'' \<and> d = CHR ''/'' then Some ([], cs) else map_option (\<lambda>(x, y). (c # x, y)) (until_star_slash (d # cs)))"
| "until_star_slash _ = None"

definition is_blank :: "char \<Rightarrow> bool" where
  "is_blank c \<longleftrightarrow> c = CHR '' '' \<or> c = CHR 0x09"

text \<open>Blanks at the end are removed, but the first character stays.\<close>

definition trim_trailing :: "string \<Rightarrow> string" where
  "trim_trailing s = (case s of [] \<Rightarrow> [] | c # cs \<Rightarrow> c # rev (dropWhile is_blank (rev cs)))"

text \<open>A trailing comment of one character is taken for none.\<close>

definition with_trailing :: "string \<Rightarrow> string \<Rightarrow> string" where
  "with_trailing documentation body =
     (let t = trim_trailing body
      in if length t = 1 then documentation else if py_strip documentation = [] then t else documentation @ nl @ t)"

text \<open>Only blanks may follow a trailing comment that ends with a star and a slash.\<close>

definition skip_blank_line :: "('z, unit) reading" where
  "skip_blank_line r =
     (let blanks = takeWhile is_blank (rd_rest r); r1 = advance (length blanks) r
      in case rd_rest r1 of
           [] \<Rightarrow> Inr ((), r1)
         | c # _ \<Rightarrow> if c = CHR 0x0A then Inr ((), newline (advance 1 r1)) else Inl ProtobufException)"

lemma skip_blank_line_progress: "rd_mono skip_blank_line" "rd_fuel n skip_blank_line"
proof -
  have "length (rd_rest r') \<le> length (rd_rest r)" if "skip_blank_line r = Inr (x, r')" for r r' :: "'z syntax_reader_scheme" and x
  proof (cases "drop (length (takeWhile is_blank (rd_rest r))) (rd_rest r)")
    case (Cons c cs)
    then have "length (c # cs) \<le> length (rd_rest r)" by (metis length_drop diff_le_self)
    with that Cons show ?thesis by (auto simp: skip_blank_line_def Let_def split: if_splits)
  qed (use that in \<open>auto simp: skip_blank_line_def Let_def\<close>)
  then show "rd_mono (skip_blank_line :: ('z, unit) reading)" by (rule rd_monoI)
qed (simp add: rd_fuel_def skip_blank_line_def Let_def split: list.splits)

text \<open>The part after the two characters that open the comment.\<close>

definition trailing_comment :: "string \<Rightarrow> char \<Rightarrow> ('z, string) reading" where
  "trailing_comment documentation d r =
     (if d = CHR ''*''
      then (case until_star_slash (rd_rest r) of
              None \<Rightarrow> Inl ProtobufException
            | Some (body, rest) \<Rightarrow>
                rbind (skip_blank_line (advance (length body + 2) r)) (\<lambda>x. Inr (with_trailing documentation body, snd x)))
      else if d = CHR ''/''
      then (case skip_line r of (body, _, r1) \<Rightarrow> Inr (with_trailing documentation body, r1))
      else Inl ProtobufException)"

definition try_append_trailing_documentation :: "string \<Rightarrow> ('z, string) reading" where
  "try_append_trailing_documentation documentation r =
     (let r1 = advance (length (takeWhile is_blank (rd_rest r))) r
      in case rd_rest r1 of
           [] \<Rightarrow> Inl ProtobufException
         | [c] \<Rightarrow> if c = CHR ''/'' then Inl ProtobufException else Inr (documentation, r1)
         | c # d # _ \<Rightarrow>
             if c = CHR ''/'' then trailing_comment documentation d (skip_space (advance 2 r1)) else Inr (documentation, r1))"

lemma trailing_comment_progress: "rd_mono (trailing_comment documentation d)" "rd_fuel n (trailing_comment documentation d)"
proof -
  have "length (rd_rest r') \<le> length (rd_rest r)" if "trailing_comment documentation d r = Inr (x, r')" for r r' :: "'z syntax_reader_scheme" and x
  proof -
    have blank: "length (rd_rest r') \<le> length (rd_rest r)" if "skip_blank_line (advance k r) = Inr ((), r')" for k
      using rd_monoD [OF skip_blank_line_progress(1) that] by simp
    show ?thesis
      using that skip_line_rest [of r] blank
      by (auto simp: trailing_comment_def rbind_eq_Inr split: if_splits option.splits prod.splits)
  qed
  then show "rd_mono (trailing_comment documentation d :: ('z, string) reading)" by (rule rd_monoI)
  have "skip_blank_line u \<noteq> Inl RecursionError" for u :: "'y syntax_reader_scheme"
    using rd_fuelD [OF skip_blank_line_progress(2) lessI] .
  then show "rd_fuel n (trailing_comment documentation d :: ('y, string) reading)"
    by (auto simp: rd_fuel_def trailing_comment_def rbind_eq_Inl split: option.splits prod.splits)
qed

lemma drop_eq_length: "drop n xs = ys \<Longrightarrow> length ys \<le> length xs"
  by auto

lemma try_append_progress [rd_intros]:
  "rd_mono (try_append_trailing_documentation documentation)" "rd_fuel n (try_append_trailing_documentation documentation)"
proof -
  have trail: "length (rd_rest r') \<le> length (rd_rest r)" if "trailing_comment documentation d (skip_space (advance k (advance j r))) = Inr (x, r')"
    for r r' :: "'z syntax_reader_scheme" and x d k j
    using rd_monoD [OF trailing_comment_progress(1) that] skip_space_rest [of "advance k (advance j r)"] by simp
  then show "rd_mono (try_append_trailing_documentation documentation :: ('z, string) reading)"
    by (intro rd_monoI) (auto simp: try_append_trailing_documentation_def Let_def dest: drop_eq_length split: list.splits if_splits)
  have "trailing_comment documentation d u \<noteq> Inl RecursionError" for d and u :: "'y syntax_reader_scheme"
    using rd_fuelD [OF trailing_comment_progress(2) lessI] .
  then show "rd_fuel n (try_append_trailing_documentation documentation :: ('y, string) reading)"
    by (auto simp: rd_fuel_def try_append_trailing_documentation_def Let_def split: list.splits)
qed

end
