(* ===== verification/Protobuf_Parser.thy ===== *)
theory Protobuf_Parser
  imports Protobuf_Reader Protobuf_Schema
begin

text \<open>
  The Protobuf parser: \<open>option_reader.py\<close> and \<open>proto_parser.py\<close> of \<open>karapace/core/protobuf\<close>. The recursive
  functions take a bound on the number of calls and loop rounds as their first argument and raise \<open>RecursionError\<close>
  when it is used up; \<open>parse_proto\<close> gives them the length of the data, which is always enough.
\<close>

section \<open>Options\<close>

text \<open>Whether Python takes a value for false.\<close>

fun ov_falsy :: "option_value \<Rightarrow> bool" where
  "ov_falsy (OvPrim (PStr s)) \<longleftrightarrow> s = []"
| "ov_falsy (OvPrim (PBool b)) \<longleftrightarrow> \<not> b"
| "ov_falsy (OvPrim (PInt i)) \<longleftrightarrow> i = 0"
| "ov_falsy (OvMap m) \<longleftrightarrow> m = []"
| "ov_falsy (OvList l) \<longleftrightarrow> l = []"
| "ov_falsy (OvOption e) \<longleftrightarrow> False"

text \<open>\<open>add_to_list\<close>: the values that are added for a value.\<close>

fun listed :: "option_value \<Rightarrow> option_value list" where
  "listed (OvList l) = l"
| "listed v = [v]"

text \<open>
  An entry of a map: the fields of an option with sub-names are collected in a map under its name, other values
  under the same name in a list. A value that is not a map has no item assignment.
\<close>

definition add_map_entry :: "string \<Rightarrow> kind_and_value \<Rightarrow> (string, option_value) dict \<Rightarrow> (string, option_value) dict res" where
  "add_map_entry name kv result =
     (let previous = (case dict_get result name of Some v \<Rightarrow> if ov_falsy v then None else Some v | None \<Rightarrow> None)
      in case kv of
           KOption e \<Rightarrow>
             (case previous of
                None \<Rightarrow> Inr (dict_set result name (OvMap [(oe_name e, kv_value (oe_value e))]))
              | Some (OvMap m) \<Rightarrow> Inr (dict_set result name (OvMap (dict_set m (oe_name e) (kv_value (oe_value e)))))
              | Some _ \<Rightarrow> Inl TypeError)
         | _ \<Rightarrow>
             (case previous of
                None \<Rightarrow> Inr (dict_set result name (kv_value kv))
              | Some v \<Rightarrow> Inr (dict_set result name (OvList (listed v @ listed (kv_value kv))))))"

text \<open>The value of an option with sub-names, given the value that was read.\<close>

definition nest_sub_names :: "string list \<Rightarrow> kind_and_value \<Rightarrow> kind_and_value" where
  "nest_sub_names sub_names kv = fold (\<lambda>sub_name kv. KOption (OptionElement sub_name kv False)) (rev sub_names) kv"

text \<open>
  The separator after the name of an option. In a map the brace that opens a value may follow directly; it is pushed
  back, so that the value is read from it.
\<close>

definition read_separator :: "char \<Rightarrow> ('z, string list) reading" where
  "read_separator key_value_separator =
     rd_bind peek_char (\<lambda>c.
     rd_bind (if c = CHR ''.''
              then rd_bind (rd_advance 1) (\<lambda>_. rd_bind read_name (\<lambda>w. rd_bind peek_char (\<lambda>c. rd_return (py_split (CHR ''.'') w, c))))
              else rd_return ([], c)) (\<lambda>(sub_names, c).
       if key_value_separator = CHR '':'' \<and> c = CHR ''{'' then rd_return sub_names
       else rd_bind (rd_advance 1) (\<lambda>_. rd_bind (rd_expect (c = key_value_separator)) (\<lambda>_. rd_return sub_names))))"

definition read_option_with :: "('z, kind_and_value) reading \<Rightarrow> char \<Rightarrow> ('z, option_element) reading" where
  "read_option_with read_kind_and_value key_value_separator =
     rd_bind peek_char (\<lambda>p.
     rd_bind read_name (\<lambda>name.
     rd_bind (read_separator key_value_separator) (\<lambda>sub_names.
     rd_bind read_kind_and_value (\<lambda>kv.
       rd_return (OptionElement (if p = CHR ''['' then ''['' @ name @ '']'' else name) (nest_sub_names sub_names kv)
         (p = CHR ''(''))))))"

fun read_map_loop ::
    "nat \<Rightarrow> ('z, option_element) reading \<Rightarrow> (string, option_value) dict \<Rightarrow> ('z, (string, option_value) dict) reading" where
  "read_map_loop 0 read_entry result = rd_raise RecursionError"
| "read_map_loop (Suc n) read_entry result =
     rd_bind (peek_is (CHR ''}'')) (\<lambda>closed.
       if closed then rd_return result
       else rd_bind read_entry (\<lambda>e.
            rd_bind (rd_lift (add_map_entry (oe_name e) (oe_value e) result)) (\<lambda>result.
            rd_bind (peek_is (CHR '','')) (\<lambda>comma.
            rd_bind (if comma then rd_return True else peek_is (CHR '';'')) (\<lambda>_.
              read_map_loop n read_entry result)))))"

fun read_list_loop :: "nat \<Rightarrow> ('z, kind_and_value) reading \<Rightarrow> option_value list \<Rightarrow> ('z, option_value list) reading" where
  "read_list_loop 0 read_kind_and_value result = rd_raise RecursionError"
| "read_list_loop (Suc n) read_kind_and_value result =
     rd_bind (peek_is (CHR '']'')) (\<lambda>closed.
       if closed then rd_return result
       else rd_bind read_kind_and_value (\<lambda>kv.
            rd_bind (peek_is (CHR '','')) (\<lambda>comma.
            rd_bind (if comma then rd_return () else rd_bind peek_char (\<lambda>c. rd_expect (c = CHR '']''))) (\<lambda>_.
              read_list_loop n read_kind_and_value (result @ [kv_value kv])))))"

text \<open>The range of digits in the code ends before \<open>9\<close>.\<close>

definition starts_number :: "char \<Rightarrow> bool" where
  "starts_number c \<longleftrightarrow> (48 \<le> (of_char c :: nat) \<and> (of_char c :: nat) < 57) \<or> c = CHR ''-''"

definition word_value :: "string \<Rightarrow> kind_and_value" where
  "word_value word = (if word \<in> {''true'', ''false''} then KBoolean (PStr word) else KEnum (PStr word))"

fun read_kind_and_value :: "nat \<Rightarrow> ('z, kind_and_value) reading" where
  "read_kind_and_value 0 = rd_raise RecursionError"
| "read_kind_and_value (Suc n) =
     rd_bind peek_char (\<lambda>p.
       if p = CHR ''{''
       then rd_bind (rd_require (CHR ''{'')) (\<lambda>_.
            rd_bind (read_map_loop n (read_option_with (read_kind_and_value n) (CHR '':'')) []) (\<lambda>m. rd_return (KMap m)))
       else if p = CHR ''[''
       then rd_bind (rd_require (CHR ''['')) (\<lambda>_.
            rd_bind (read_list_loop n (read_kind_and_value n) []) (\<lambda>l. rd_return (KList l)))
       else if is_quote p then rd_bind read_string (\<lambda>s. rd_return (KString (PStr s)))
       else if starts_number p then rd_bind read_word (\<lambda>w. rd_return (KNumber (PStr w)))
       else rd_bind read_word (\<lambda>w. rd_return (word_value w)))"

definition read_option :: "nat \<Rightarrow> char \<Rightarrow> ('z, option_element) reading" where
  "read_option n = read_option_with (read_kind_and_value n)"

fun read_options_loop :: "nat \<Rightarrow> ('z, option_element) reading \<Rightarrow> option_element list \<Rightarrow> ('z, option_element list) reading" where
  "read_options_loop 0 read_entry result = rd_raise RecursionError"
| "read_options_loop (Suc n) read_entry result =
     rd_bind read_entry (\<lambda>e.
     rd_bind (peek_is (CHR '']'')) (\<lambda>closed.
       if closed then rd_return (result @ [e])
       else rd_bind (peek_is (CHR '','')) (\<lambda>comma. rd_bind (rd_expect comma) (\<lambda>_. read_options_loop n read_entry (result @ [e])))))"

definition read_options :: "nat \<Rightarrow> ('z, option_element list) reading" where
  "read_options n =
     rd_bind (peek_is (CHR ''['')) (\<lambda>present.
       if present then read_options_loop n (read_option n (CHR ''='')) [] else rd_return [])"

section \<open>Values as text\<close>

text \<open>\<open>repr(s)\<close> of a string.\<close>

definition hex_char :: "nat \<Rightarrow> char" where
  "hex_char n = (if n < 10 then char_of (48 + n) else char_of (87 + n))"

definition repr_char :: "char \<Rightarrow> char \<Rightarrow> string" where
  "repr_char quote c =
     (let n = (of_char c :: nat)
      in if c = quote \<or> c = CHR 0x5C then [CHR 0x5C, c]
         else if c = CHR 0x09 then [CHR 0x5C, CHR ''t''] else if c = CHR 0x0A then [CHR 0x5C, CHR ''n'']
         else if c = CHR 0x0D then [CHR 0x5C, CHR ''r'']
         else if n < 32 \<or> (127 \<le> n \<and> n \<le> 160) \<or> n = 173 then [CHR 0x5C, CHR ''x'', hex_char (n div 16), hex_char (n mod 16)]
         else [c])"

definition str_repr :: "string \<Rightarrow> string" where
  "str_repr s =
     (let quote = (if CHR 0x27 \<in> set s \<and> CHR 0x22 \<notin> set s then CHR 0x22 else CHR 0x27)
      in [quote] @ concat (map (repr_char quote) s) @ [quote])"

fun prim_repr :: "prim \<Rightarrow> string" where
  "prim_repr (PStr s) = str_repr s"
| "prim_repr p = prim_str p"

fun ov_repr :: "option_value \<Rightarrow> string res"
and map_reprs :: "(string \<times> option_value) list \<Rightarrow> string list res"
and list_reprs :: "option_value list \<Rightarrow> string list res" where
  "ov_repr (OvPrim p) = Inr (prim_repr p)"
| "ov_repr (OvMap m) = rbind (map_reprs m) (\<lambda>ts. Inr (''{'' @ join_with '', '' ts @ ''}''))"
| "ov_repr (OvList l) = rbind (list_reprs l) (\<lambda>ts. Inr (''['' @ join_with '', '' ts @ '']''))"
| "ov_repr (OvOption e) = option_to_schema e"
| "map_reprs [] = Inr []"
| "map_reprs ((k, v) # m) = rbind (ov_repr v) (\<lambda>t. rbind (map_reprs m) (\<lambda>ts. Inr ((str_repr k @ '': '' @ t) # ts)))"
| "list_reprs [] = Inr []"
| "list_reprs (v # vs) = rbind (ov_repr v) (\<lambda>t. rbind (list_reprs vs) (\<lambda>ts. Inr (t # ts)))"

text \<open>\<open>str(value)\<close>\<close>

fun ov_str :: "option_value \<Rightarrow> string res" where
  "ov_str (OvPrim p) = Inr (prim_str p)"
| "ov_str v = ov_repr v"

text \<open>
  \<open>options.remove(element)\<close> compares the elements of the list by their texts, but an object is equal to itself
  without a comparison: the elements carry their position in the list that was read.
\<close>

fun remove_option :: "nat \<times> option_element \<Rightarrow> (nat \<times> option_element) list \<Rightarrow> (nat \<times> option_element) list res" where
  "remove_option e [] = Inl ValueError"
| "remove_option e (x # xs) =
     (if fst x = fst e then Inr xs
      else rbind (option_to_schema (snd x)) (\<lambda>s. rbind (option_to_schema (snd e)) (\<lambda>t.
             if s = t then Inr xs else rbind (remove_option e xs) (\<lambda>ys. Inr (x # ys)))))"

definition strip_value ::
    "string \<Rightarrow> (nat \<times> option_element) list \<Rightarrow> (string option \<times> (nat \<times> option_element) list) res" where
  "strip_value name options =
     rfold (\<lambda>e (result, options).
         if oe_name (snd e) = name
         then rbind (remove_option e options) (\<lambda>options. rbind (ov_str (kv_value (oe_value (snd e)))) (\<lambda>s. Inr (Some s, options)))
         else Inr (result, options)) options (None, options)"

text \<open>The default value, the JSON name and the other options.\<close>

definition strip_special :: "option_element list \<Rightarrow> (string option \<times> string option \<times> option_element list) res" where
  "strip_special options =
     rbind (strip_value ''default'' (zip [0..<length options] options)) (\<lambda>(default_value, options).
     rbind (strip_value ''json_name'' options) (\<lambda>(json_name, options).
       Inr (default_value, json_name, map snd options)))"

section \<open>Parser\<close>

datatype proto_context = CFile | CMessage | CEnum | CRpc | CExtend | CService

datatype proto_declaration =
    DNone
  | DOption option_element
  | DReserved reserved_element
  | DRpc rpc_element
  | DType type_element
  | DEnumConstant enum_constant_element
  | DService service_element
  | DExtend extend_element
  | DExtensions extensions_element
  | DOneOf one_of_element
  | DGroup group_element
  | DField field_element

record parser = syntax_reader +
  pp_imports :: "string list"
  pp_public_imports :: "string list"
  pp_nested_types :: "type_element list"
  pp_services :: "service_element list"
  pp_extends_list :: "extend_element list"
  pp_options :: "option_element list"
  pp_declaration_count :: nat
  pp_syntax :: "proto_syntax option"
  pp_package_name :: "string option"
  pp_prefix :: string

type_synonym 'x parsing = "parser \<Rightarrow> ('x \<times> parser) res"

definition init_parser :: "location \<Rightarrow> string \<Rightarrow> parser" where
  "init_parser loc data =
     \<lparr>rd_pos = 0, rd_line = 0, rd_line_start = 0, rd_rest = data, rd_location = loc, pp_imports = [], pp_public_imports = [],
      pp_nested_types = [], pp_services = [], pp_extends_list = [], pp_options = [], pp_declaration_count = 0, pp_syntax = None,
      pp_package_name = None, pp_prefix = []\<rparr>"

definition rd_get :: "('z syntax_reader_scheme \<Rightarrow> 'x) \<Rightarrow> ('z, 'x) reading" where
  "rd_get f r = Inr (f r, r)"

text \<open>Changes of the parser outside its reader.\<close>

definition rd_modify :: "(parser \<Rightarrow> parser) \<Rightarrow> unit parsing" where
  "rd_modify f r = Inr ((), f r)"

text \<open>
  The loop over the declarations between braces, after the opening one: each is read with the documentation
  before it.
\<close>

fun read_block :: "nat \<Rightarrow> (string \<Rightarrow> ('z, 'x) reading) \<Rightarrow> 'x list \<Rightarrow> ('z, 'x list) reading" where
  "read_block 0 item result = rd_raise RecursionError"
| "read_block (Suc n) item result =
     rd_bind read_documentation (\<lambda>documentation.
     rd_bind (peek_is (CHR ''}'')) (\<lambda>closed.
       if closed then rd_return result
       else rd_bind (item documentation) (\<lambda>x. read_block n item (result @ [x]))))"

definition read_body :: "nat \<Rightarrow> (string \<Rightarrow> ('z, 'x) reading) \<Rightarrow> ('z, 'x list) reading" where
  "read_body n item = rd_bind (rd_require (CHR ''{'')) (\<lambda>_. read_block n item [])"

section \<open>Fields and groups\<close>

definition read_field_with_label :: "nat \<Rightarrow> location \<Rightarrow> string \<Rightarrow> label option \<Rightarrow> string \<Rightarrow> ('z, field_element) reading" where
  "read_field_with_label n loc documentation label atype =
     rd_bind read_name (\<lambda>name.
     rd_bind (rd_require (CHR ''='')) (\<lambda>_.
     rd_bind read_int (\<lambda>tag.
     rd_bind (read_options n) (\<lambda>options.
     rd_bind (rd_lift (strip_special options)) (\<lambda>(default_value, json_name, options).
     rd_bind (rd_require (CHR '';'')) (\<lambda>_.
     rd_bind (try_append_trailing_documentation documentation) (\<lambda>documentation.
       rd_return \<lparr>fe_location = loc, fe_label = label, fe_element_type = atype, fe_name = name, fe_default_value = default_value,
         fe_json_name = json_name, fe_tag = tag, fe_documentation = documentation, fe_options = options\<rparr>)))))))"

text \<open>The label and the type of a field whose first word was read.\<close>

definition read_label_and_type :: "nat \<Rightarrow> string \<Rightarrow> (label option \<times> string) parsing" where
  "read_label_and_type n word =
     rd_bind (rd_get pp_syntax) (\<lambda>syn.
       if word = ''required''
       then rd_bind (rd_expect (syn \<noteq> Some PROTO_3)) (\<lambda>_. rd_bind (read_data_type n) (\<lambda>t. rd_return (Some REQUIRED, t)))
       else if word = ''optional'' then rd_bind (read_data_type n) (\<lambda>t. rd_return (Some OPTIONAL, t))
       else if word = ''repeated'' then rd_bind (read_data_type n) (\<lambda>t. rd_return (Some REPEATED, t))
       else rd_bind (if syn = Some PROTO_3 then rd_return True
                     else if word = ''map'' then rd_bind peek_char (\<lambda>c. rd_return (c = CHR ''<''))
                     else rd_return False) (\<lambda>permitted.
            rd_bind (rd_expect permitted) (\<lambda>_.
            rd_bind (read_data_type_by_name n word) (\<lambda>t. rd_return (None, t)))))"

definition read_group_with ::
    "nat \<Rightarrow> (string \<Rightarrow> location \<Rightarrow> string \<Rightarrow> proto_declaration parsing) \<Rightarrow> location \<Rightarrow> string \<Rightarrow> label option \<Rightarrow> group_element parsing" where
  "read_group_with n read_field loc documentation label =
     rd_bind read_word (\<lambda>name.
     rd_bind (rd_require (CHR ''='')) (\<lambda>_.
     rd_bind read_int (\<lambda>tag.
     rd_bind (read_body n (\<lambda>nested_documentation.
         rd_bind (rd_get reader_location) (\<lambda>field_location.
         rd_bind read_word (\<lambda>field_label.
         rd_bind (read_field nested_documentation field_location field_label) (\<lambda>d.
           case d of DField f \<Rightarrow> rd_return f | _ \<Rightarrow> rd_raise ProtobufException))))) (\<lambda>fs.
       rd_return \<lparr>ge_label = label, ge_location = loc, ge_name = name, ge_tag = tag, ge_documentation = documentation, ge_fields = fs\<rparr>))))"

fun read_field :: "nat \<Rightarrow> string \<Rightarrow> location \<Rightarrow> string \<Rightarrow> proto_declaration parsing" where
  "read_field 0 documentation loc word = rd_raise RecursionError"
| "read_field (Suc n) documentation loc word =
     rd_bind (read_label_and_type (Suc n) word) (\<lambda>(label, atype).
     rd_bind (rd_expect (\<not> startswith atype ''map<'' \<or> label = None)) (\<lambda>_.
       if atype = ''group''
       then rd_bind (read_group_with n (read_field n) loc documentation label) (\<lambda>g. rd_return (DGroup g))
       else rd_bind (read_field_with_label (Suc n) loc documentation label atype) (\<lambda>f. rd_return (DField f))))"

definition read_group :: "nat \<Rightarrow> location \<Rightarrow> string \<Rightarrow> label option \<Rightarrow> group_element parsing" where
  "read_group n = read_group_with n (read_field n)"

section \<open>Declarations\<close>

fun read_reserved_loop :: "nat \<Rightarrow> reserved_value list \<Rightarrow> ('z, reserved_value list) reading" where
  "read_reserved_loop 0 result = rd_raise RecursionError"
| "read_reserved_loop (Suc n) result =
     rd_bind peek_char (\<lambda>ch.
     rd_bind (if is_quote ch then rd_bind read_quoted_string (\<lambda>s. rd_return (RStr s))
              else rd_bind read_int (\<lambda>tag_start.
                   rd_bind peek_char (\<lambda>ch.
                     if ch = CHR '','' \<or> ch = CHR '';'' then rd_return (RInt tag_start)
                     else rd_bind read_word (\<lambda>w. rd_bind (rd_expect (w = ''to'')) (\<lambda>_.
                          rd_bind read_int (\<lambda>tag_end. rd_return (RRange tag_start tag_end))))))) (\<lambda>v.
     rd_bind read_char (\<lambda>ch.
       if ch = CHR '';'' then rd_return (result @ [v])
       else if ch = CHR '','' then read_reserved_loop n (result @ [v])
       else rd_raise ProtobufException)))"

definition read_reserved :: "nat \<Rightarrow> location \<Rightarrow> string \<Rightarrow> ('z, reserved_element) reading" where
  "read_reserved n loc documentation =
     rd_bind (read_reserved_loop n []) (\<lambda>vs.
     rd_bind (rd_expect (vs \<noteq> [])) (\<lambda>_.
     rd_bind (try_append_trailing_documentation documentation) (\<lambda>documentation.
       rd_return \<lparr>re_location = loc, re_values = vs, re_documentation = documentation\<rparr>)))"

fun read_extensions_loop :: "nat \<Rightarrow> reserved_value list \<Rightarrow> ('z, reserved_value list) reading" where
  "read_extensions_loop 0 result = rd_raise RecursionError"
| "read_extensions_loop (Suc n) result =
     rd_bind read_int (\<lambda>start.
     rd_bind peek_char (\<lambda>ch.
     rd_bind (if ch = CHR '','' \<or> ch = CHR '';'' then rd_return (RInt start)
              else rd_bind read_word (\<lambda>w. rd_bind (rd_expect (w = ''to'')) (\<lambda>_.
                   rd_bind read_word (\<lambda>s.
                   rd_bind (if s = ''max'' then rd_return MAX_TAG_VALUE else rd_lift (py_int s)) (\<lambda>stop.
                     rd_return (RRange start stop)))))) (\<lambda>v.
     rd_bind read_char (\<lambda>ch.
       if ch = CHR '';'' then rd_return (result @ [v])
       else if ch = CHR '','' then read_extensions_loop n (result @ [v])
       else rd_raise ProtobufException))))"

definition read_extensions :: "nat \<Rightarrow> location \<Rightarrow> string \<Rightarrow> ('z, extensions_element) reading" where
  "read_extensions n loc documentation =
     rd_bind (read_extensions_loop n []) (\<lambda>vs. rd_return \<lparr>xe_location = loc, xe_documentation = documentation, xe_values = vs\<rparr>)"

definition read_enum_constant :: "nat \<Rightarrow> string \<Rightarrow> location \<Rightarrow> string \<Rightarrow> ('z, enum_constant_element) reading" where
  "read_enum_constant n documentation loc label =
     rd_bind (rd_require (CHR ''='')) (\<lambda>_.
     rd_bind read_int (\<lambda>tag.
     rd_bind (read_options n) (\<lambda>options.
     rd_bind (rd_require (CHR '';'')) (\<lambda>_.
     rd_bind (try_append_trailing_documentation documentation) (\<lambda>documentation.
       rd_return \<lparr>ec_location = loc, ec_name = label, ec_tag = tag, ec_documentation = documentation, ec_options = options\<rparr>)))))"

definition read_one_of :: "nat \<Rightarrow> string \<Rightarrow> one_of_element parsing" where
  "read_one_of n documentation =
     rd_bind read_name (\<lambda>name.
     rd_bind (read_body n (\<lambda>nested_documentation.
         rd_bind (rd_get reader_location) (\<lambda>loc.
         rd_bind (read_data_type n) (\<lambda>atype.
           if atype = ''group''
           then rd_bind (read_group n loc nested_documentation None) (\<lambda>g. rd_return (DGroup g))
           else if atype = ''option''
           then rd_bind (read_option n (CHR ''='')) (\<lambda>e. rd_bind (rd_require (CHR '';'')) (\<lambda>_. rd_return (DOption e)))
           else rd_bind (read_field_with_label n loc nested_documentation None atype) (\<lambda>f. rd_return (DField f)))))) (\<lambda>ds.
       rd_return \<lparr>oo_name = name, oo_documentation = documentation,
         oo_fields = List.map_filter (\<lambda>d. case d of DField f \<Rightarrow> Some f | _ \<Rightarrow> None) ds,
         oo_groups = List.map_filter (\<lambda>d. case d of DGroup g \<Rightarrow> Some g | _ \<Rightarrow> None) ds,
         oo_options = List.map_filter (\<lambda>d. case d of DOption e \<Rightarrow> Some e | _ \<Rightarrow> None) ds\<rparr>))"

text \<open>The operations that read declarations inside others take the function that reads a declaration.\<close>

type_synonym declaration_reader = "string \<Rightarrow> proto_context \<Rightarrow> proto_declaration parsing"

definition note_extend :: "proto_declaration \<Rightarrow> unit parsing" where
  "note_extend d =
     (case d of DExtend e \<Rightarrow> rd_modify (\<lambda>p. p\<lparr>pp_extends_list := pp_extends_list p @ [e]\<rparr>) | _ \<Rightarrow> rd_return ())"

definition read_message_with :: "nat \<Rightarrow> declaration_reader \<Rightarrow> location \<Rightarrow> string \<Rightarrow> type_element parsing" where
  "read_message_with n read_declaration loc documentation =
     rd_bind read_name (\<lambda>name.
     rd_bind (rd_get pp_prefix) (\<lambda>previous_prefix.
     rd_bind (rd_modify (\<lambda>p. p\<lparr>pp_prefix := pp_prefix p @ name @ ''.''\<rparr>)) (\<lambda>_.
     rd_bind (read_body n (\<lambda>nested_documentation.
         rd_bind (read_declaration nested_documentation CMessage) (\<lambda>d. rd_bind (note_extend d) (\<lambda>_. rd_return d)))) (\<lambda>ds.
     rd_bind (rd_modify (\<lambda>p. p\<lparr>pp_prefix := previous_prefix\<rparr>)) (\<lambda>_.
       rd_return (MessageElement loc name documentation
         (List.map_filter (\<lambda>d. case d of DOption e \<Rightarrow> Some e | _ \<Rightarrow> None) ds)
         (List.map_filter (\<lambda>d. case d of DType t \<Rightarrow> Some t | _ \<Rightarrow> None) ds)
         (List.map_filter (\<lambda>d. case d of DReserved x \<Rightarrow> Some x | _ \<Rightarrow> None) ds)
         (List.map_filter (\<lambda>d. case d of DField f \<Rightarrow> Some f | _ \<Rightarrow> None) ds)
         (List.map_filter (\<lambda>d. case d of DOneOf x \<Rightarrow> Some x | _ \<Rightarrow> None) ds)
         (List.map_filter (\<lambda>d. case d of DExtensions x \<Rightarrow> Some x | _ \<Rightarrow> None) ds)
         (List.map_filter (\<lambda>d. case d of DGroup g \<Rightarrow> Some g | _ \<Rightarrow> None) ds)))))))"

definition read_extend_with :: "nat \<Rightarrow> declaration_reader \<Rightarrow> location \<Rightarrow> string \<Rightarrow> extend_element parsing" where
  "read_extend_with n read_declaration loc documentation =
     rd_bind read_name (\<lambda>name.
     rd_bind (read_body n (\<lambda>nested_documentation. read_declaration nested_documentation CExtend)) (\<lambda>ds.
       rd_return \<lparr>ee_location = loc, ee_name = name, ee_documentation = documentation,
         ee_fields = List.map_filter (\<lambda>d. case d of DField f \<Rightarrow> Some f | _ \<Rightarrow> None) ds\<rparr>))"

definition read_service_with :: "nat \<Rightarrow> declaration_reader \<Rightarrow> location \<Rightarrow> string \<Rightarrow> service_element parsing" where
  "read_service_with n read_declaration loc documentation =
     rd_bind read_name (\<lambda>name.
     rd_bind (read_body n (\<lambda>rpc_documentation. read_declaration rpc_documentation CService)) (\<lambda>ds.
       rd_return \<lparr>se_location = loc, se_name = name, se_documentation = documentation,
         se_rpcs = List.map_filter (\<lambda>d. case d of DRpc x \<Rightarrow> Some x | _ \<Rightarrow> None) ds,
         se_options = List.map_filter (\<lambda>d. case d of DOption e \<Rightarrow> Some e | _ \<Rightarrow> None) ds\<rparr>))"

definition read_enum_with :: "nat \<Rightarrow> declaration_reader \<Rightarrow> location \<Rightarrow> string \<Rightarrow> type_element parsing" where
  "read_enum_with n read_declaration loc documentation =
     rd_bind read_name (\<lambda>name.
     rd_bind (read_body n (\<lambda>value_documentation. read_declaration value_documentation CEnum)) (\<lambda>ds.
       rd_return (EnumElement loc name documentation
         (List.map_filter (\<lambda>d. case d of DOption e \<Rightarrow> Some e | _ \<Rightarrow> None) ds)
         (List.map_filter (\<lambda>d. case d of DEnumConstant x \<Rightarrow> Some x | _ \<Rightarrow> None) ds))))"

text \<open>The type in parentheses of a request or a response, with the word \<open>stream\<close> before it.\<close>

definition read_rpc_type :: "nat \<Rightarrow> ('z, bool \<times> string) reading" where
  "read_rpc_type n =
     rd_bind (rd_require (CHR ''('')) (\<lambda>_.
     rd_bind read_word (\<lambda>word.
     rd_bind (if word = ''stream'' then rd_bind (read_data_type n) (\<lambda>t. rd_return (True, t))
              else rd_bind (read_data_type_by_name n word) (\<lambda>t. rd_return (False, t))) (\<lambda>x.
     rd_bind (rd_require (CHR '')'')) (\<lambda>_. rd_return x))))"

definition read_rpc_with :: "nat \<Rightarrow> declaration_reader \<Rightarrow> location \<Rightarrow> string \<Rightarrow> rpc_element parsing" where
  "read_rpc_with n read_declaration loc documentation =
     rd_bind read_name (\<lambda>name.
     rd_bind (read_rpc_type n) (\<lambda>(request_streaming, request_type).
     rd_bind read_word (\<lambda>w.
     rd_bind (rd_expect (w = ''returns'')) (\<lambda>_.
     rd_bind (read_rpc_type n) (\<lambda>(response_streaming, response_type).
     rd_bind (peek_is (CHR ''{'')) (\<lambda>opened.
     rd_bind (if opened then read_block n (\<lambda>rpc_documentation. read_declaration rpc_documentation CRpc) []
              else rd_bind (rd_require (CHR '';'')) (\<lambda>_. rd_return [])) (\<lambda>ds.
       rd_return \<lparr>rpc_location = loc, rpc_name = name, rpc_documentation = documentation, rpc_request_type = request_type,
         rpc_response_type = response_type, rpc_request_streaming = request_streaming, rpc_response_streaming = response_streaming,
         rpc_options = List.map_filter (\<lambda>d. case d of DOption e \<Rightarrow> Some e | _ \<Rightarrow> None) ds\<rparr>)))))))"

text \<open>The declarations that only change the parser.\<close>

definition read_package :: "proto_declaration parsing" where
  "read_package =
     rd_bind read_name (\<lambda>name.
     rd_bind (rd_modify (\<lambda>p. p\<lparr>pp_package_name := Some name, pp_prefix := name @ ''.''\<rparr>)) (\<lambda>_.
     rd_bind (rd_require (CHR '';'')) (\<lambda>_. rd_return DNone)))"

definition read_import :: "proto_declaration parsing" where
  "read_import =
     rd_bind read_string (\<lambda>import_string.
     rd_bind (if import_string = ''public''
              then rd_bind read_string (\<lambda>s. rd_modify (\<lambda>p. p\<lparr>pp_public_imports := pp_public_imports p @ [s]\<rparr>))
              else rd_modify (\<lambda>p. p\<lparr>pp_imports := pp_imports p @ [import_string]\<rparr>)) (\<lambda>_.
     rd_bind (rd_require (CHR '';'')) (\<lambda>_. rd_return DNone)))"

definition read_syntax :: "nat \<Rightarrow> proto_declaration parsing" where
  "read_syntax index =
     rd_bind (rd_get pp_syntax) (\<lambda>syn.
     rd_bind (rd_expect (syn = None)) (\<lambda>_.
     rd_bind (rd_require (CHR ''='')) (\<lambda>_.
     rd_bind (rd_expect (index = 0)) (\<lambda>_.
     rd_bind read_quoted_string (\<lambda>syntax_string.
     rd_bind (rd_lift (mk_syntax syntax_string)) (\<lambda>x.
     rd_bind (rd_modify (\<lambda>p. p\<lparr>pp_syntax := Some x\<rparr>)) (\<lambda>_.
     rd_bind (rd_require (CHR '';'')) (\<lambda>_. rd_return DNone))))))))"

definition rd_map :: "('x \<Rightarrow> 'y) \<Rightarrow> ('z, 'x) reading \<Rightarrow> ('z, 'y) reading" where
  "rd_map f m = rd_bind m (\<lambda>x. rd_return (f x))"

definition read_labelled :: "nat \<Rightarrow> declaration_reader \<Rightarrow> nat \<Rightarrow> string \<Rightarrow> proto_context \<Rightarrow> location \<Rightarrow> string \<Rightarrow> proto_declaration parsing" where
  "read_labelled n rec index documentation ctx loc label =
     (if label = ''package'' \<and> ctx = CFile then read_package
      else if label = ''import'' \<and> ctx = CFile then read_import
      else if label = ''syntax'' \<and> ctx = CFile then read_syntax index
      else if label = ''option''
      then rd_bind (read_option n (CHR ''='')) (\<lambda>e. rd_bind (rd_require (CHR '';'')) (\<lambda>_. rd_return (DOption e)))
      else if label = ''reserved'' then rd_map DReserved (read_reserved n loc documentation)
      else if label = ''message'' \<and> ctx \<in> {CFile, CMessage} then rd_map DType (read_message_with n rec loc documentation)
      else if label = ''enum'' \<and> ctx \<in> {CFile, CMessage} then rd_map DType (read_enum_with n rec loc documentation)
      else if label = ''service'' \<and> ctx = CFile then rd_map DService (read_service_with n rec loc documentation)
      else if label = ''extend'' \<and> ctx \<in> {CFile, CMessage} then rd_map DExtend (read_extend_with n rec loc documentation)
      else if label = ''rpc'' \<and> ctx = CService then rd_map DRpc (read_rpc_with n rec loc documentation)
      else if label = ''oneof'' \<and> ctx = CMessage then rd_map DOneOf (read_one_of n documentation)
      else if label = ''extensions'' \<and> ctx = CMessage then rd_map DExtensions (read_extensions n loc documentation)
      else if ctx \<in> {CMessage, CExtend} then read_field n documentation loc label
      else if ctx = CEnum then rd_map DEnumConstant (read_enum_constant n documentation loc label)
      else rd_raise ProtobufException)"

fun read_declaration :: "nat \<Rightarrow> declaration_reader" where
  "read_declaration 0 documentation ctx = rd_raise RecursionError"
| "read_declaration (Suc n) documentation ctx =
     rd_bind (rd_get pp_declaration_count) (\<lambda>index.
     rd_bind (rd_modify (\<lambda>p. p\<lparr>pp_declaration_count := Suc (pp_declaration_count p)\<rparr>)) (\<lambda>_.
     rd_bind (peek_is (CHR '';'')) (\<lambda>skipped.
       if skipped then rd_return DNone
       else rd_bind (rd_get reader_location) (\<lambda>loc.
            rd_bind read_word (\<lambda>label.
              read_labelled n (read_declaration n) index documentation ctx loc label)))))"

section \<open>Files\<close>

definition file_element :: "location \<Rightarrow> parser \<Rightarrow> proto_file_element" where
  "file_element loc p =
     \<lparr>pf_location = loc, pf_package_name = pp_package_name p, pf_syntax = pp_syntax p, pf_imports = pp_imports p,
      pf_public_imports = pp_public_imports p, pf_types = pp_nested_types p, pf_services = pp_services p,
      pf_extend_declarations = pp_extends_list p, pf_options = pp_options p\<rparr>"

text \<open>A declaration of the file is stored; names of types and of services are unique. Others are dropped.\<close>

definition add_declaration :: "proto_declaration \<Rightarrow> unit parsing" where
  "add_declaration d p =
     (case d of
        DType t \<Rightarrow>
          if list_ex (\<lambda>x. te_name x = te_name t) (pp_nested_types p) then Inl ProtobufException
          else Inr ((), p\<lparr>pp_nested_types := pp_nested_types p @ [t]\<rparr>)
      | DService e \<Rightarrow>
          if list_ex (\<lambda>x. se_name x = se_name e) (pp_services p) then Inl ProtobufException
          else Inr ((), p\<lparr>pp_services := pp_services p @ [e]\<rparr>)
      | DOption e \<Rightarrow> Inr ((), p\<lparr>pp_options := pp_options p @ [e]\<rparr>)
      | DExtend e \<Rightarrow> Inr ((), p\<lparr>pp_extends_list := pp_extends_list p @ [e]\<rparr>)
      | _ \<Rightarrow> Inr ((), p))"

fun read_proto_file :: "nat \<Rightarrow> location \<Rightarrow> proto_file_element parsing" where
  "read_proto_file 0 loc = rd_raise RecursionError"
| "read_proto_file (Suc n) loc =
     rd_bind read_documentation (\<lambda>documentation.
     rd_bind (rd_get exhausted) (\<lambda>at_end.
       if at_end then rd_get (file_element loc)
       else rd_bind (read_declaration (Suc n) documentation CFile) (\<lambda>d.
            rd_bind (add_declaration d) (\<lambda>_.
              read_proto_file n loc))))"

definition parse_proto :: "location \<Rightarrow> string \<Rightarrow> proto_file_element res" where
  "parse_proto loc data = rbind (read_proto_file (Suc (length data)) loc (init_parser loc data)) (\<lambda>x. Inr (fst x))"

end
