(* ===== verification/Parser_Properties.thy ===== *)
theory Parser_Properties
  imports Protobuf_Parser
begin

text \<open>
  The Protobuf parser ends on every text and the files it accepts are well-formed. For the first, every reading is shown
  to shorten the rest of the text (\<open>rd_mono\<close>, \<open>rd_reads\<close>) and to need no more fuel than that rest has characters
  (\<open>rd_fuel\<close>); for the second, readings leave what the parser has collected alone (\<open>rd_frame\<close>, \<open>rd_post\<close>). Then
  texts on which the parser differs from the language.
\<close>

section \<open>Termination\<close>

lemma rd_parser [rd_intros]:
  "rd_mono (rd_get f)" "rd_fuel n (rd_get f)" "rd_mono m \<Longrightarrow> rd_mono (rd_map g m)" "rd_fuel n m \<Longrightarrow> rd_mono m \<Longrightarrow> rd_fuel n (rd_map g m)"
  unfolding rd_map_def by (auto simp: rd_mono_def rd_fuel_def rd_get_def intro!: rd_intros) (auto simp: rd_bind_def rd_return_def rbind_eq_Inr rbind_eq_Inl)

lemma rd_modify_progress: "(\<And>p. rd_rest (f p) = rd_rest p) \<Longrightarrow> rd_mono (rd_modify f)" "rd_fuel n (rd_modify f)"
  by (auto simp: rd_mono_def rd_fuel_def rd_modify_def)

lemma add_map_entry_fuel: "add_map_entry name kv result \<noteq> Inl RecursionError"
  by (auto simp: add_map_entry_def Let_def split: kind_and_value.splits option.splits option_value.splits if_splits)

lemma read_separator_progress [rd_intros]: "rd_mono (read_separator c)" "rd_fuel n (read_separator c)"
  unfolding read_separator_def split_def by (intro rd_intros)+

lemma read_option_with_progress [rd_intros]:
  assumes "rd_mono m"
  shows "rd_reads (read_option_with m c)" "rd_mono (read_option_with m c)" "rd_fuel n m \<Longrightarrow> rd_fuel n (read_option_with m c)"
proof -
  show reads: "rd_reads (read_option_with m c)"
    unfolding read_option_with_def by (intro rd_reads_bind2 [OF peek_char_progress(1)] rd_reads_bind1 rd_intros assms)
  show "rd_mono (read_option_with m c)" by (rule rd_reads_mono [OF reads])
  show "rd_fuel n m \<Longrightarrow> rd_fuel n (read_option_with m c)"
    unfolding read_option_with_def by (intro rd_intros assms)
qed

lemma read_map_loop_mono [rd_intros]: "rd_mono m \<Longrightarrow> rd_mono (read_map_loop n m result)"
  by (induction n arbitrary: result) (auto intro!: rd_intros)

lemma read_map_loop_fuel: "rd_reads m \<Longrightarrow> rd_fuel n m \<Longrightarrow> rd_fuel n (read_map_loop n m result)"
proof (induction n arbitrary: result)
  case (Suc n)
  have ih: "rd_fuel n (read_map_loop n m result)" for result
    using Suc.IH [OF Suc.prems(1)] rd_fuel_anti [OF Suc.prems(2)] by simp
  show ?case
    unfolding read_map_loop.simps
    by (intro rd_fuel_bind [OF peek_is_progress(2,1)] rd_if rd_simple rd_fuel_bind_Suc [OF Suc.prems(2,1)] rd_fuel_bind ih
        rd_fuel_lift add_map_entry_fuel peek_is_progress)
qed (simp add: rd_fuel_def)

lemma read_list_loop_mono [rd_intros]: "rd_mono m \<Longrightarrow> rd_mono (read_list_loop n m result)"
  by (induction n arbitrary: result) (auto intro!: rd_intros)

lemma read_list_loop_fuel: "rd_reads m \<Longrightarrow> rd_fuel n m \<Longrightarrow> rd_fuel n (read_list_loop n m result)"
proof (induction n arbitrary: result)
  case (Suc n)
  have ih: "rd_fuel n (read_list_loop n m result)" for result
    using Suc.IH [OF Suc.prems(1)] rd_fuel_anti [OF Suc.prems(2)] by simp
  show ?case
    unfolding read_list_loop.simps
    by (intro rd_fuel_bind [OF peek_is_progress(2,1)] rd_if rd_simple rd_fuel_bind_Suc [OF Suc.prems(2,1)] rd_fuel_bind ih
        peek_is_progress peek_char_progress rd_mono_bind)
qed (simp add: rd_fuel_def)

lemma read_kind_and_value_reads [rd_intros]: "rd_reads (read_kind_and_value n)"
proof (induction n)
  case (Suc n)
  note mono = rd_reads_mono [OF Suc.IH]
  show ?case
    unfolding read_kind_and_value.simps
    by (intro rd_reads_bind2 [OF peek_char_progress(1)] rd_if rd_reads_bind1 rd_intros mono)
qed (simp add: rd_intros)

lemma read_kind_and_value_mono [rd_intros]: "rd_mono (read_kind_and_value n)"
  by (rule rd_reads_mono [OF read_kind_and_value_reads])

lemma read_kind_and_value_fuel [rd_intros]: "rd_fuel n (read_kind_and_value n)"
proof (induction n)
  case (Suc n)
  note entry = read_option_with_progress(1,3) [OF read_kind_and_value_mono]
  show ?case
    unfolding read_kind_and_value.simps
    by (intro rd_fuel_bind [OF peek_char_progress(2,1)] rd_if rd_fuel_bind_Suc [OF rd_require_progress(3,1)] rd_fuel_bind
        read_map_loop_fuel read_list_loop_fuel entry Suc.IH rd_intros)
qed (simp add: rd_fuel_def)

lemma read_option_progress [rd_intros]: "rd_reads (read_option n c)" "rd_mono (read_option n c)" "rd_fuel n (read_option n c)"
  unfolding read_option_def by (intro rd_intros)+

lemma read_options_loop_mono [rd_intros]: "rd_mono m \<Longrightarrow> rd_mono (read_options_loop n m result)"
  by (induction n arbitrary: result) (auto intro!: rd_intros)

lemma read_options_loop_fuel: "rd_reads m \<Longrightarrow> rd_fuel n m \<Longrightarrow> rd_fuel n (read_options_loop n m result)"
proof (induction n arbitrary: result)
  case (Suc n)
  have ih: "rd_fuel n (read_options_loop n m result)" for result
    using Suc.IH [OF Suc.prems(1)] rd_fuel_anti [OF Suc.prems(2)] by simp
  show ?case
    unfolding read_options_loop.simps
    by (intro rd_fuel_bind_Suc [OF Suc.prems(2,1)] rd_if rd_fuel_bind ih rd_intros)
qed (simp add: rd_fuel_def)

lemma read_options_progress [rd_intros]: "rd_mono (read_options n)" "rd_fuel n (read_options n)"
  unfolding read_options_def by (intro rd_intros read_options_loop_fuel)+

text \<open>Printing and the removal of options do not recurse without end.\<close>

lemma option_to_schema_fuel:
  "option_to_schema e \<noteq> Inl RecursionError" "kind_to_schema name kv \<noteq> Inl RecursionError" "list_texts l \<noteq> Inl RecursionError"
  "try_to_schema v \<noteq> Inl RecursionError" "format_option_map m \<noteq> Inl RecursionError" "format_option_map_value v \<noteq> Inl RecursionError"
  "format_list_map_value l \<noteq> Inl RecursionError"
  by (induction e and name kv and l and v and m and v and l
      rule: option_to_schema_kind_to_schema_list_texts_try_to_schema_format_option_map_format_option_map_value_format_list_map_value.induct)
    (auto simp: rbind_eq_Inl)

lemma ov_repr_fuel: "ov_repr v \<noteq> Inl RecursionError" "map_reprs m \<noteq> Inl RecursionError" "list_reprs l \<noteq> Inl RecursionError"
  by (induction v and m and l rule: ov_repr_map_reprs_list_reprs.induct) (auto simp: rbind_eq_Inl option_to_schema_fuel)

lemma ov_str_fuel: "ov_str v \<noteq> Inl RecursionError"
  by (cases v) (auto simp: ov_repr_fuel simp del: ov_repr.simps)

lemma remove_option_fuel: "remove_option e xs \<noteq> Inl RecursionError"
  by (induction xs) (auto simp: rbind_eq_Inl option_to_schema_fuel)

lemma rfold_fuel: "(\<And>x acc. f x acc \<noteq> Inl RecursionError) \<Longrightarrow> rfold f xs acc \<noteq> Inl RecursionError"
  by (induction xs arbitrary: acc) (auto simp: rbind_eq_Inl)

lemma strip_value_fuel: "strip_value name options \<noteq> Inl RecursionError"
  unfolding strip_value_def
  by (rule rfold_fuel) (auto simp: rbind_eq_Inl remove_option_fuel ov_str_fuel split: prod.splits)

lemma strip_special_fuel: "strip_special options \<noteq> Inl RecursionError"
  by (auto simp: strip_special_def rbind_eq_Inl strip_value_fuel split: prod.splits)

lemma read_block_mono [rd_intros]: "(\<And>d. rd_mono (item d)) \<Longrightarrow> rd_mono (read_block n item result)"
  by (induction n arbitrary: result) (auto intro!: rd_intros)

lemma read_block_fuel: "(\<And>d. rd_reads (item d)) \<Longrightarrow> (\<And>d. rd_fuel n (item d)) \<Longrightarrow> rd_fuel n (read_block n item result)"
proof (induction n arbitrary: result)
  case (Suc n)
  have ih: "rd_fuel n (read_block n item result)" for result
    using Suc.IH [OF Suc.prems(1)] rd_fuel_anti [OF Suc.prems(2)] by simp
  show ?case
    unfolding read_block.simps
    by (intro rd_fuel_bind [OF read_documentation_progress(2,1)] rd_fuel_bind [OF peek_is_progress(2,1)] rd_if rd_simple
        rd_fuel_bind_Suc [OF Suc.prems(2,1)] ih)
qed (simp add: rd_fuel_def)

lemma read_body_progress [rd_intros]:
  "(\<And>d. rd_mono (item d)) \<Longrightarrow> rd_reads (read_body n item)" "(\<And>d. rd_mono (item d)) \<Longrightarrow> rd_mono (read_body n item)"
  "(\<And>d. rd_reads (item d)) \<Longrightarrow> (\<And>d. rd_fuel n (item d)) \<Longrightarrow> rd_fuel n (read_body n item)"
  unfolding read_body_def by (intro rd_reads_bind1 rd_intros read_block_fuel | assumption | simp)+

lemma read_field_with_label_progress [rd_intros]:
  "rd_reads (read_field_with_label n loc d l t)" "rd_mono (read_field_with_label n loc d l t)" "rd_fuel n (read_field_with_label n loc d l t)"
  unfolding read_field_with_label_def split_def by (intro rd_reads_bind1 rd_intros strip_special_fuel)+

lemma read_label_and_type_progress [rd_intros]: "rd_mono (read_label_and_type n word)" "rd_fuel n (read_label_and_type n word)"
  unfolding read_label_and_type_def by (intro rd_intros)+

lemma declaration_case_progress [rd_intros]:
  "rd_mono (case d of DField f \<Rightarrow> rd_return f | _ \<Rightarrow> rd_raise ProtobufException)"
  "rd_fuel n (case d of DField f \<Rightarrow> rd_return f | _ \<Rightarrow> rd_raise ProtobufException)"
  by (cases d; simp add: rd_intros rd_fuel_raise)+

lemma read_group_with_progress [rd_intros]:
  assumes "\<And>d l w. rd_mono (f d l w)"
  shows "rd_reads (read_group_with n f loc d l)" "rd_mono (read_group_with n f loc d l)"
    "(\<And>d l w. rd_fuel n (f d l w)) \<Longrightarrow> rd_fuel n (read_group_with n f loc d l)"
proof -
  show reads: "rd_reads (read_group_with n f loc d l)"
    unfolding read_group_with_def by (intro rd_reads_bind1 rd_intros assms)
  show "rd_mono (read_group_with n f loc d l)" by (rule rd_reads_mono [OF reads])
  have item: "rd_reads (rd_bind (rd_get reader_location) (\<lambda>loc. rd_bind read_word (\<lambda>w. rd_bind (f d loc w) (\<lambda>x.
      case x of DField f \<Rightarrow> rd_return f | _ \<Rightarrow> rd_raise ProtobufException))))" for d
    by (intro rd_reads_bind2 [of "rd_get reader_location"] rd_reads_bind1 rd_intros assms)
  show "(\<And>d l w. rd_fuel n (f d l w)) \<Longrightarrow> rd_fuel n (read_group_with n f loc d l)"
    unfolding read_group_with_def by (intro rd_intros assms item) 
qed

lemma read_field_mono [rd_intros]: "rd_mono (read_field n d loc w)"
  by (induction n arbitrary: d loc w) (auto intro!: rd_intros simp: split_def)

lemma read_field_reads: "rd_reads (read_field n d loc w)"
proof (cases n)
  case (Suc k)
  then show ?thesis
    by (auto simp: split_def intro!: rd_reads_bind2 [OF read_label_and_type_progress(1)] rd_reads_bind2 [OF rd_simple(4)] rd_if
        rd_reads_bind1 rd_intros)
qed (simp add: rd_intros)

lemma read_field_fuel [rd_intros]: "rd_fuel n (read_field n d loc w)"
proof (induction n arbitrary: d loc w)
  case (Suc n)
  have group: "rd_fuel (Suc n) (read_group_with n (read_field n) loc d l)" for d l
    unfolding read_group_with_def
    by (rule rd_fuel_bind_Suc [OF read_word_progress(3,1)])
      (intro rd_intros Suc.IH rd_reads_bind2 [of "rd_get reader_location"] rd_reads_bind1)
  show ?case
    unfolding read_field.simps split_def by (intro rd_intros group)
qed (simp add: rd_fuel_def)

lemma read_group_progress [rd_intros]:
  "rd_reads (read_group n loc d l)" "rd_mono (read_group n loc d l)" "rd_fuel n (read_group n loc d l)"
  unfolding read_group_def by (intro rd_intros)+

lemma read_reserved_loop_mono [rd_intros]: "rd_mono (read_reserved_loop n result)"
  by (induction n arbitrary: result) (auto intro!: rd_intros)

lemma read_reserved_loop_fuel [rd_intros]: "rd_fuel n (read_reserved_loop n result)"
proof (induction n arbitrary: result)
  case (Suc n)
  show ?case
    unfolding read_reserved_loop.simps
    by (intro rd_fuel_bind [OF peek_char_progress(2,1)] rd_fuel_bind [OF _ _ rd_fuel_bind_Suc [OF read_char_progress(3,1)]] Suc.IH rd_intros)
      simp_all
qed (simp add: rd_fuel_def)

lemma read_reserved_progress [rd_intros]: "rd_mono (read_reserved n loc d)" "rd_fuel n (read_reserved n loc d)"
  unfolding read_reserved_def by (intro rd_intros)+

lemma py_int_fuel: "py_int s \<noteq> Inl RecursionError"
  using py_int_errors by blast

lemma read_extensions_loop_mono [rd_intros]: "rd_mono (read_extensions_loop n result)"
  by (induction n arbitrary: result) (auto intro!: rd_intros)

lemma read_extensions_loop_fuel [rd_intros]: "rd_fuel n (read_extensions_loop n result)"
proof (induction n arbitrary: result)
  case (Suc n)
  show ?case
    unfolding read_extensions_loop.simps
    by (intro rd_fuel_bind_Suc [OF read_int_progress(3,1)] Suc.IH rd_intros py_int_fuel) simp_all
qed (simp add: rd_fuel_def)

lemma read_extensions_progress [rd_intros]: "rd_mono (read_extensions n loc d)" "rd_fuel n (read_extensions n loc d)"
  unfolding read_extensions_def by (intro rd_intros)+

lemma read_enum_constant_progress [rd_intros]: "rd_mono (read_enum_constant n d loc w)" "rd_fuel n (read_enum_constant n d loc w)"
  unfolding read_enum_constant_def by (intro rd_intros)+

lemma read_one_of_progress [rd_intros]: "rd_mono (read_one_of n d)" "rd_fuel n (read_one_of n d)"
  unfolding read_one_of_def by (intro rd_intros rd_reads_bind2 [of "rd_get reader_location"] rd_reads_bind1)+

lemma note_extend_progress [rd_intros]: "rd_mono (note_extend d)" "rd_fuel n (note_extend d)"
  by (cases d; simp add: note_extend_def rd_intros rd_modify_progress)+

text \<open>A reader of declarations that makes progress, with enough fuel for \<open>n\<close> characters.\<close>

definition progressive :: "nat \<Rightarrow> declaration_reader \<Rightarrow> bool" where
  "progressive n f \<longleftrightarrow> (\<forall>d ctx. rd_reads (f d ctx) \<and> rd_fuel n (f d ctx))"

lemma progressiveD: "progressive n f \<Longrightarrow> rd_reads (f d ctx)" "progressive n f \<Longrightarrow> rd_mono (f d ctx)" "progressive n f \<Longrightarrow> rd_fuel n (f d ctx)"
  by (auto simp: progressive_def intro: rd_reads_mono)

lemma read_nested_progress:
  assumes "progressive n f"
  shows "rd_mono (read_message_with n f loc d)" "rd_fuel n (read_message_with n f loc d)"
    "rd_mono (read_extend_with n f loc d)" "rd_fuel n (read_extend_with n f loc d)"
    "rd_mono (read_service_with n f loc d)" "rd_fuel n (read_service_with n f loc d)"
    "rd_mono (read_enum_with n f loc d)" "rd_fuel n (read_enum_with n f loc d)"
  unfolding read_message_with_def read_extend_with_def read_service_with_def read_enum_with_def
  by ((intro rd_intros rd_modify_progress rd_reads_bind1 progressiveD [OF assms]); simp)+

lemma read_rpc_type_progress [rd_intros]: "rd_mono (read_rpc_type n)" "rd_fuel n (read_rpc_type n)"
  unfolding read_rpc_type_def by (intro rd_intros)+

lemma read_rpc_progress:
  assumes "progressive n f"
  shows "rd_mono (read_rpc_with n f loc d)" "rd_fuel n (read_rpc_with n f loc d)"
  unfolding read_rpc_with_def split_def by (intro rd_intros read_block_fuel progressiveD [OF assms])+

lemma mk_syntax_fuel: "mk_syntax s \<noteq> Inl RecursionError"
  by (simp add: mk_syntax_def)

lemma read_file_part_progress [rd_intros]:
  "rd_mono read_package" "rd_fuel n read_package" "rd_mono read_import" "rd_fuel n read_import"
  "rd_mono (read_syntax i)" "rd_fuel n (read_syntax i)"
  unfolding read_package_def read_import_def read_syntax_def
  by ((intro rd_intros rd_modify_progress mk_syntax_fuel); simp)+

lemma read_labelled_progress:
  assumes "progressive n f"
  shows "rd_mono (read_labelled n f i d ctx loc w)" "rd_fuel n (read_labelled n f i d ctx loc w)"
  unfolding read_labelled_def
  by (intro rd_intros read_nested_progress [OF assms] read_rpc_progress [OF assms]; simp)+

lemma peek_is_True: "peek_is c r = Inr (True, r') \<Longrightarrow> length (rd_rest r') < length (rd_rest r)"
  using peek_char_rest [of r] rd_monoD [OF peek_char_progress(1), of r]
  by (fastforce simp: peek_is_def rd_bind_Inr split: if_splits)

lemma peek_is_reads: "rd_reads m \<Longrightarrow> rd_reads (rd_bind (peek_is c) (\<lambda>b. if b then rd_return x else m))"
proof (rule rd_readsI)
  fix r r' y
  assume m: "rd_reads m" and "rd_bind (peek_is c) (\<lambda>b. if b then rd_return x else m) r = Inr (y, r')"
  then obtain b r1 where b: "peek_is c r = Inr (b, r1)" "(if b then rd_return x else m) r1 = Inr (y, r')"
    by (auto simp: rd_bind_Inr)
  then show "length (rd_rest r') < length (rd_rest r)"
    using peek_is_True [of c r r1] rd_monoD [OF peek_is_progress(1) b(1)] rd_readsD [OF m, of r1 y r']
    by (cases b) (auto simp: rd_return_def)
qed

lemma read_declaration_progress: "progressive n (read_declaration n)"
proof (induction n)
  case 0
  then show ?case by (simp add: progressive_def rd_intros rd_fuel_def)
next
  case (Suc n)
  note label = read_labelled_progress [OF Suc.IH]
  have modify: "rd_mono (rd_modify (\<lambda>p. p\<lparr>pp_declaration_count := Suc (pp_declaration_count p)\<rparr>))" by (rule rd_modify_progress) simp
  have "rd_reads (read_declaration (Suc n) d ctx)" for d ctx
    unfolding read_declaration.simps
    by (intro rd_reads_bind2 [of "rd_get pp_declaration_count"] rd_reads_bind2 [OF modify] peek_is_reads
        rd_reads_bind2 [of "rd_get reader_location"] rd_reads_bind1 [OF read_word_progress(1)] rd_intros label)
  moreover have "rd_fuel (Suc n) (read_declaration (Suc n) d ctx)" for d ctx
    unfolding read_declaration.simps
    by (intro rd_fuel_bind_Suc [OF read_word_progress(3,1)] rd_fuel_bind [of _ "rd_get pp_declaration_count"]
        rd_fuel_bind [OF rd_modify_progress(2) modify] rd_fuel_bind [OF peek_is_progress(2,1)] rd_fuel_bind [of _ "rd_get reader_location"]
        rd_if rd_intros label)
  ultimately show ?case by (simp add: progressive_def)
qed

lemma add_declaration_progress: "rd_mono (add_declaration d)" "rd_fuel n (add_declaration d)"
  by (cases d; auto simp: rd_mono_def rd_fuel_def add_declaration_def split: if_splits)+

lemma read_proto_file_fuel: "rd_fuel n (read_proto_file n loc)"
proof (induction n)
  case (Suc n)
  show ?case
    unfolding read_proto_file.simps
    by (intro rd_fuel_bind [OF read_documentation_progress(2,1)] rd_fuel_bind [of _ "rd_get exhausted"] rd_if
        rd_fuel_bind_Suc [OF progressiveD(3) [OF read_declaration_progress] progressiveD(1) [OF read_declaration_progress]]
        rd_fuel_bind [OF add_declaration_progress(2,1)] Suc.IH rd_intros)
qed (simp add: rd_fuel_def)

text \<open>
  C32: The Protobuf parser ends on every text: the bound on calls and loop rounds that it runs with, the length of the
  text, is never used up, so it gives a file or the exception that the code raises.
\<close>

theorem parser_terminates: "parse_proto loc data \<noteq> Inl RecursionError"
proof -
  have "read_proto_file (Suc (length data)) loc (init_parser loc data) \<noteq> Inl RecursionError"
    by (rule rd_fuelD [OF read_proto_file_fuel]) (simp add: init_parser_def)
  then show ?thesis by (auto simp: parse_proto_def rbind_eq_Inl)
qed

section \<open>Readings leave the parser alone\<close>

text \<open>The operations of the reader change only the reader, not what a parser keeps beside it.\<close>

definition rd_frame :: "('z, 'x) reading \<Rightarrow> bool" where
  "rd_frame m \<longleftrightarrow> (\<forall>r x r'. m r = Inr (x, r') \<longrightarrow> syntax_reader.more r' = syntax_reader.more r)"

named_theorems frame_intros \<open>readings that change only the reader\<close>

lemma rd_frameI: "(\<And>r x r'. m r = Inr (x, r') \<Longrightarrow> syntax_reader.more r' = syntax_reader.more r) \<Longrightarrow> rd_frame m"
  by (simp add: rd_frame_def)

lemma rd_frameD: "rd_frame m \<Longrightarrow> m r = Inr (x, r') \<Longrightarrow> syntax_reader.more r' = syntax_reader.more r"
  by (auto simp: rd_frame_def)

lemma more_advance [simp]: "syntax_reader.more (advance n r) = syntax_reader.more r"
  by (simp add: advance_def)

lemma more_newline [simp]: "syntax_reader.more (newline r) = syntax_reader.more r"
  by (simp add: newline_def)

lemma more_skip_line [simp]: "syntax_reader.more (snd (snd (skip_line r))) = syntax_reader.more r"
  by (simp add: skip_line_def Let_def)

lemma more_skip_space [simp]: "syntax_reader.more (skip_space r) = syntax_reader.more r"
  by (simp add: skip_space_def split: list.splits)

lemma star_comment_more: "syntax_reader.more (snd (star_comment b s r)) = syntax_reader.more r"
  by (induction b s r rule: star_comment.induct) (subst star_comment.simps, auto split: list.splits)

lemma read_comment_frame [frame_intros]: "rd_frame read_comment"
proof (rule rd_frameI)
  fix r r' :: "'z syntax_reader_scheme" and x
  assume "read_comment r = Inr (x, r')"
  then show "syntax_reader.more r' = syntax_reader.more r"
    using star_comment_more [of "[]" True "advance 2 r"] more_skip_line [of "skip_space (advance 2 r)"]
    by (auto simp: read_comment_def Let_def simp del: more_skip_line split: list.splits if_splits prod.splits)
qed

lemma skip_whitespace_more: "skip_whitespace b r = Inr r' \<Longrightarrow> syntax_reader.more r' = syntax_reader.more r"
proof (induction b r rule: skip_whitespace.induct)
  case (1 b r)
  show ?case
  proof (cases "rd_rest r")
    case Nil
    then show ?thesis using "1.prems" by (simp add: skip_whitespace.simps [of b r])
  next
    case (Cons c cs)
    show ?thesis
    proof (cases "c = CHR ''/'' \<and> b")
      case True
      then obtain x where x: "read_comment r = Inr x" "skip_whitespace b (snd x) = Inr r'"
        using "1.prems" Cons by (auto simp: skip_whitespace.simps [of True r] rbind_eq_Inr)
      have "syntax_reader.more r' = syntax_reader.more (snd x)" using "1.IH"(3) [OF Cons] True x by auto
      with rd_frameD [OF read_comment_frame, of r "fst x" "snd x"] x show ?thesis by simp
    next
      case False
      then show ?thesis
        using "1.prems" "1.IH"(1,2) [OF Cons] Cons by (auto simp: skip_whitespace.simps [of b r] split: if_splits)
    qed
  qed
qed

lemma frame_simple [frame_intros]:
  "rd_frame (rd_return x)" "rd_frame (rd_raise e)" "rd_frame (rd_lift v)" "rd_frame (rd_expect b)" "rd_frame (rd_skip c)"
  "rd_frame rd_current" "rd_frame (rd_advance k)" "rd_frame take_word" "rd_frame (rd_get f)"
  by (auto simp: rd_frame_def rd_return_def rd_raise_def rd_lift_def rd_expect_def rd_skip_def rd_current_Inr rd_advance_def
      take_word_def Let_def rd_get_def rbind_eq_Inr dest: skip_whitespace_more split: if_splits)

lemma frame_bind [frame_intros]: "rd_frame m \<Longrightarrow> (\<And>x. rd_frame (f x)) \<Longrightarrow> rd_frame (rd_bind m f)"
  unfolding rd_frame_def rd_bind_Inr by metis

lemma frame_if [frame_intros]: "(b \<Longrightarrow> rd_frame m) \<Longrightarrow> (\<not> b \<Longrightarrow> rd_frame m') \<Longrightarrow> rd_frame (if b then m else m')"
  by simp

lemma frame_chars [frame_intros]: "rd_frame peek_char" "rd_frame read_char" "rd_frame (rd_require c)" "rd_frame (peek_is c)"
  "rd_frame read_word" "rd_frame read_name" "rd_frame read_int"
proof -
  show peek: "rd_frame peek_char" unfolding peek_char_def by (intro frame_intros)
  show char: "rd_frame read_char" unfolding read_char_def by (intro frame_intros peek) (simp add: rd_frame_def)
  show require: "rd_frame (rd_require c)" for c unfolding rd_require_def by (intro frame_intros char)
  show "rd_frame (peek_is c)" unfolding peek_is_def by (intro frame_intros peek) (simp add: rd_frame_def)
  show word: "rd_frame read_word" unfolding read_word_def by (intro frame_intros)
  show "rd_frame read_name" unfolding read_name_def by (intro frame_intros peek word require)
  show "rd_frame read_int" unfolding read_int_def by (intro frame_intros word)
qed

lemma read_escape_more: "read_escape r = Inr (c, r') \<Longrightarrow> syntax_reader.more r' = syntax_reader.more r"
  by (auto simp: read_escape_def read_numeric_escape_def Let_def split: list.splits option.splits if_splits)

lemma read_quoted_frame [frame_intros]: "rd_frame (read_quoted b q)"
proof -
  have "read_quoted b q r = Inr (x, r') \<Longrightarrow> syntax_reader.more r' = syntax_reader.more r" for b q x and r r' :: "'z syntax_reader_scheme"
  proof (induction b q r rule: read_quoted.induct)
    case (1 b q r)
    show ?case
    proof (cases "rd_rest r")
      case Nil
      then show ?thesis using "1.prems" by (simp add: read_quoted.simps [of b q r])
    next
      case (Cons c cs)
      note ih = "1.IH" [OF Cons]
      consider (close) "c = q" | (escape) "c \<noteq> q" "c = CHR 0x5C" | (plain) "c \<noteq> q" "c \<noteq> CHR 0x5C" by blast
      then show ?thesis
      proof cases
        case close
        then obtain y where y: "peek_char (advance 1 r) = Inr y"
          "(if is_quote (fst y) then read_quoted b (fst y) (advance 1 (snd y)) else Inr (b, snd y)) = Inr (x, r')"
          using "1.prems" Cons by (auto simp: read_quoted.simps [of b q r] rbind_eq_Inr)
        have "syntax_reader.more (snd y) = syntax_reader.more r"
          using rd_frameD [OF frame_chars(1), of "advance 1 r" "fst y" "snd y"] y by simp
        moreover have "syntax_reader.more r' = syntax_reader.more (snd y)" using ih(1) [OF close y(1)] y(2) by (auto split: if_splits)
        ultimately show ?thesis by simp
      next
        case escape
        then obtain y where y: "read_escape (advance 1 r) = Inr y"
          "read_quoted (b @ [fst y]) q (if fst y = CHR 0x0A then newline (snd y) else snd y) = Inr (x, r')"
          using "1.prems" Cons by (auto simp: read_quoted.simps [of b q r] rbind_eq_Inr)
        have "syntax_reader.more (snd y) = syntax_reader.more r" using read_escape_more [of "advance 1 r" "fst y" "snd y"] y by simp
        with ih(2) [OF escape y(1) y(2)] show ?thesis by (simp split: if_splits)
      next
        case plain
        then have "syntax_reader.more r' = syntax_reader.more (if c = CHR 0x0A then newline (advance 1 r) else advance 1 r)"
          using "1.prems" Cons ih(3) [OF plain] by (simp add: read_quoted.simps [of b q r])
        then show ?thesis by (simp split: if_splits)
      qed
    qed
  qed
  then show "rd_frame (read_quoted b q :: ('z, string) reading)" by (rule rd_frameI)
qed

lemma frame_strings [frame_intros]: "rd_frame read_quoted_string" "rd_frame read_string"
  unfolding read_string_def read_quoted_string_def by (intro frame_intros)+

lemma frame_data_type [frame_intros]: "rd_frame (read_data_type_by_name n name)" "rd_frame (read_data_type n)"
proof -
  show by_name: "rd_frame (read_data_type_by_name n name)" for n name by (induction n arbitrary: name) (auto intro!: frame_intros)
  show "rd_frame (read_data_type n)" unfolding read_data_type_def by (intro frame_intros by_name)
qed

lemma read_documentation_frame [frame_intros]: "rd_frame read_documentation"
proof -
  have "read_documentation_from b r = Inr (x, r') \<Longrightarrow> syntax_reader.more r' = syntax_reader.more r" for b x and r r' :: "'z syntax_reader_scheme"
  proof (induction b r rule: read_documentation_from.induct)
    case (1 b r)
    from "1.prems" obtain r1 where r1: "skip_whitespace False r = Inr r1"
      by (subst (asm) read_documentation_from.simps) (auto simp: rbind_eq_Inr)
    note same = skip_whitespace_more [OF r1]
    show ?case
    proof (cases "startswith (rd_rest r1) ''/''")
      case True
      then obtain y where y: "read_comment r1 = Inr y"
        "read_documentation_from (if b = [] then fst y else b @ nl @ fst y) (snd y) = Inr (x, r')"
        using "1.prems" r1 by (subst (asm) read_documentation_from.simps) (auto simp: rbind_eq_Inr)
      from "1.IH" [OF r1 True y] rd_frameD [OF read_comment_frame, of r1 "fst y" "snd y"] y(1) same show ?thesis by simp
    next
      case False
      then show ?thesis using "1.prems" r1 same by (subst (asm) read_documentation_from.simps) simp
    qed
  qed
  then show "rd_frame (read_documentation :: ('z, string) reading)"
    unfolding read_documentation_def by (rule rd_frameI)
qed

lemma skip_blank_line_frame [frame_intros]: "rd_frame skip_blank_line"
  by (auto simp: rd_frame_def skip_blank_line_def Let_def split: list.splits if_splits)

lemma trailing_comment_frame: "rd_frame (trailing_comment documentation d)"
proof (rule rd_frameI)
  fix r r' :: "'z syntax_reader_scheme" and x
  assume run: "trailing_comment documentation d r = Inr (x, r')"
  have "skip_blank_line (advance k r) = Inr ((), r') \<Longrightarrow> syntax_reader.more r' = syntax_reader.more r" for k
    using rd_frameD [OF skip_blank_line_frame, of "advance k r" "()" r'] by simp
  with run more_skip_line [of r] show "syntax_reader.more r' = syntax_reader.more r"
    by (auto simp: trailing_comment_def rbind_eq_Inr simp del: more_skip_line split: if_splits option.splits prod.splits)
qed

lemma try_append_frame [frame_intros]: "rd_frame (try_append_trailing_documentation documentation)"
  using rd_frameD [OF trailing_comment_frame]
  by (intro rd_frameI) (fastforce simp: try_append_trailing_documentation_def Let_def split: list.splits if_splits)

lemma frame_options [frame_intros]:
  "rd_frame (read_separator c)" "rd_frame m \<Longrightarrow> rd_frame (read_option_with m c)" "rd_frame (read_kind_and_value n)"
  "rd_frame (read_option n c)" "rd_frame (read_options n)"
proof -
  show sep: "rd_frame (read_separator c)" for c unfolding read_separator_def split_def by (intro frame_intros)
  show opt: "rd_frame m \<Longrightarrow> rd_frame (read_option_with m c)" for m :: "('y, kind_and_value) reading" and c
    unfolding read_option_with_def by (intro frame_intros sep)
  have maps: "rd_frame m \<Longrightarrow> rd_frame (read_map_loop n m result)" for m :: "('y, option_element) reading" and n result
    by (induction n arbitrary: result) (auto intro!: frame_intros)
  have lists: "rd_frame m \<Longrightarrow> rd_frame (read_list_loop n m result)" for m :: "('y, kind_and_value) reading" and n result
    by (induction n arbitrary: result) (auto intro!: frame_intros)
  have options: "rd_frame m \<Longrightarrow> rd_frame (read_options_loop n m result)" for m :: "('y, option_element) reading" and n result
    by (induction n arbitrary: result) (auto intro!: frame_intros)
  show kind: "rd_frame (read_kind_and_value n :: ('y, kind_and_value) reading)" for n
    by (induction n) (auto intro!: frame_intros maps lists opt)
  show "rd_frame (read_option n c :: ('y, option_element) reading)" unfolding read_option_def by (intro opt kind)
  show "rd_frame (read_options n :: ('y, option_element list) reading)"
    unfolding read_options_def read_option_def by (intro frame_intros options opt kind)
qed

lemma frame_field_with_label [frame_intros]: "rd_frame (read_field_with_label n loc d l t)"
  unfolding read_field_with_label_def split_def by (intro frame_intros)

lemma frame_reserved [frame_intros]:
  "rd_frame (read_reserved n loc d)" "rd_frame (read_extensions n loc d)" "rd_frame (read_enum_constant n d loc w)"
  "rd_frame (read_rpc_type n)" "rd_frame (read_label_and_type n w)"
proof -
  have "rd_frame (read_reserved_loop n result)" for n result by (induction n arbitrary: result) (auto intro!: frame_intros)
  then show "rd_frame (read_reserved n loc d)" unfolding read_reserved_def by (intro frame_intros)
  have "rd_frame (read_extensions_loop n result)" for n result by (induction n arbitrary: result) (auto intro!: frame_intros)
  then show "rd_frame (read_extensions n loc d)" unfolding read_extensions_def by (intro frame_intros)
  show "rd_frame (read_enum_constant n d loc w)" unfolding read_enum_constant_def by (intro frame_intros)
  show "rd_frame (read_rpc_type n)" unfolding read_rpc_type_def by (intro frame_intros)
  show "rd_frame (read_label_and_type n w)" unfolding read_label_and_type_def by (intro frame_intros)
qed

section \<open>Files that are accepted\<close>

text \<open>The rules for a file in \<open>proto3\<close> syntax: no field and no group is required.\<close>

definition label_ok :: "proto_syntax option \<Rightarrow> label option \<Rightarrow> bool" where
  "label_ok syn l \<longleftrightarrow> (syn = Some PROTO_3 \<longrightarrow> l \<noteq> Some REQUIRED)"

definition field_ok :: "proto_syntax option \<Rightarrow> field_element \<Rightarrow> bool" where
  "field_ok syn f \<longleftrightarrow> label_ok syn (fe_label f)"

definition group_ok :: "proto_syntax option \<Rightarrow> group_element \<Rightarrow> bool" where
  "group_ok syn g \<longleftrightarrow> label_ok syn (ge_label g) \<and> list_all (field_ok syn) (ge_fields g)"

definition one_of_ok :: "proto_syntax option \<Rightarrow> one_of_element \<Rightarrow> bool" where
  "one_of_ok syn x \<longleftrightarrow> list_all (field_ok syn) (oo_fields x) \<and> list_all (group_ok syn) (oo_groups x)"

definition extend_ok :: "proto_syntax option \<Rightarrow> extend_element \<Rightarrow> bool" where
  "extend_ok syn e \<longleftrightarrow> list_all (field_ok syn) (ee_fields e)"

fun type_ok :: "proto_syntax option \<Rightarrow> type_element \<Rightarrow> bool" where
  "type_ok syn (MessageElement l name d os ts rs fs oos xs gs) \<longleftrightarrow>
     list_all (type_ok syn) ts \<and> list_all (field_ok syn) fs \<and> list_all (one_of_ok syn) oos \<and> list_all (group_ok syn) gs"
| "type_ok syn (EnumElement l name d os cs) \<longleftrightarrow> True"

fun declaration_ok :: "proto_syntax option \<Rightarrow> proto_declaration \<Rightarrow> bool" where
  "declaration_ok syn (DField f) \<longleftrightarrow> field_ok syn f"
| "declaration_ok syn (DGroup g) \<longleftrightarrow> group_ok syn g"
| "declaration_ok syn (DOneOf x) \<longleftrightarrow> one_of_ok syn x"
| "declaration_ok syn (DExtend e) \<longleftrightarrow> extend_ok syn e"
| "declaration_ok syn (DType t) \<longleftrightarrow> type_ok syn t"
| "declaration_ok syn _ \<longleftrightarrow> True"

text \<open>What every declaration but \<open>syntax\<close> keeps of the parser.\<close>

definition parser_keeps ::
    "proto_syntax option \<Rightarrow> type_element list \<Rightarrow> service_element list \<Rightarrow> parser \<Rightarrow> bool" where
  "parser_keeps syn ts ss p \<longleftrightarrow>
     pp_syntax p = syn \<and> pp_nested_types p = ts \<and> pp_services p = ss \<and> list_all (extend_ok syn) (pp_extends_list p) \<and>
     0 < pp_declaration_count p"

definition rd_post :: "(parser \<Rightarrow> bool) \<Rightarrow> ('x \<Rightarrow> bool) \<Rightarrow> 'x parsing \<Rightarrow> bool" where
  "rd_post J Q m \<longleftrightarrow> (\<forall>p x p'. J p \<longrightarrow> m p = Inr (x, p') \<longrightarrow> J p' \<and> Q x)"

lemma rd_postD: "rd_post J Q m \<Longrightarrow> J p \<Longrightarrow> m p = Inr (x, p') \<Longrightarrow> J p' \<and> Q x"
  by (auto simp: rd_post_def)

lemma rd_post_bind: "rd_post J R m \<Longrightarrow> (\<And>x. R x \<Longrightarrow> rd_post J Q (f x)) \<Longrightarrow> rd_post J Q (rd_bind m f)"
  unfolding rd_post_def rd_bind_Inr by meson

lemma rd_post_if: "(b \<Longrightarrow> rd_post J Q m) \<Longrightarrow> (\<not> b \<Longrightarrow> rd_post J Q m') \<Longrightarrow> rd_post J Q (if b then m else m')"
  by simp

lemma rd_post_return: "Q x \<Longrightarrow> rd_post J Q (rd_return x)"
  by (simp add: rd_post_def rd_return_def)

lemma rd_post_raise: "rd_post J Q (rd_raise e)"
  by (simp add: rd_post_def rd_raise_def)

lemma parser_keeps_more: "syntax_reader.more p' = syntax_reader.more p \<Longrightarrow> parser_keeps syn ts ss p' = parser_keeps syn ts ss p"
  by (cases p; cases p') (simp add: parser_keeps_def)

lemma rd_post_frame: "rd_frame m \<Longrightarrow> rd_post (parser_keeps syn ts ss) (\<lambda>_. True) m"
  unfolding rd_post_def by (metis rd_frameD parser_keeps_more)

text \<open>A reading of the reader before the rest.\<close>

lemma rd_post_read:
  "rd_frame m \<Longrightarrow> (\<And>x. rd_post (parser_keeps syn ts ss) Q (f x)) \<Longrightarrow> rd_post (parser_keeps syn ts ss) Q (rd_bind m f)"
  by (rule rd_post_bind [OF rd_post_frame])

lemma rd_post_map: "rd_post J (\<lambda>x. Q (g x)) m \<Longrightarrow> rd_post J Q (rd_map g m)"
  unfolding rd_map_def by (erule rd_post_bind) (simp add: rd_post_return)

lemma rd_post_weaken: "rd_post J R m \<Longrightarrow> (\<And>x. R x \<Longrightarrow> Q x) \<Longrightarrow> rd_post J Q m"
  by (auto simp: rd_post_def)

lemma rd_post_modify: "(\<And>p. J p \<Longrightarrow> J (f p)) \<Longrightarrow> rd_post J (\<lambda>_. True) (rd_modify f)"
  by (simp add: rd_post_def rd_modify_def)

lemma read_block_post:
  assumes "\<And>d. rd_post (parser_keeps syn ts ss) R (item d)" and "list_all R result"
  shows "rd_post (parser_keeps syn ts ss) (list_all R) (read_block n item result)"
  using assms(2)
proof (induction n arbitrary: result)
  case (Suc n)
  show ?case
    unfolding read_block.simps
    by (intro rd_post_read frame_intros rd_post_if rd_post_return rd_post_bind [OF assms(1)] Suc.IH Suc.prems)
      (use Suc.prems in \<open>auto intro!: Suc.IH\<close>)
qed (simp add: rd_post_raise)

lemma read_body_post:
  assumes "\<And>d. rd_post (parser_keeps syn ts ss) R (item d)"
  shows "rd_post (parser_keeps syn ts ss) (list_all R) (read_body n item)"
  unfolding read_body_def by (intro rd_post_read frame_intros read_block_post assms) simp

lemma list_all_map_filter: "list_all (\<lambda>d. \<forall>x. f d = Some x \<longrightarrow> P x) ds \<Longrightarrow> list_all P (List.map_filter f ds)"
  by (induction ds) (auto simp: map_filter_simps split: option.splits)

lemma read_field_with_label_post:
  "label_ok syn l \<Longrightarrow> rd_post (parser_keeps syn' ts ss) (field_ok syn) (read_field_with_label n loc d l t)"
  unfolding read_field_with_label_def split_def
  by (intro rd_post_read frame_intros rd_post_return) (simp add: field_ok_def)

lemma read_label_and_type_post:
  "rd_post (parser_keeps syn ts ss) (\<lambda>x. label_ok syn (fst x)) (read_label_and_type n w)"
proof -
  let ?Q = "\<lambda>x :: label option \<times> string. label_ok syn (fst x)"
  have rest: "rd_post (parser_keeps syn ts ss) ?Q (rd_bind m (\<lambda>t. rd_return (l, t)))" if "rd_frame m" "label_ok syn l" for m l
    by (intro rd_post_read that rd_post_return) (use that in simp)
  have get: "rd_post (parser_keeps syn ts ss) (\<lambda>x. x = syn) (rd_get pp_syntax)"
    by (simp add: rd_post_def rd_get_def parser_keeps_def)
  have req: "rd_post (parser_keeps syn ts ss) ?Q (rd_bind (rd_expect (syn \<noteq> Some PROTO_3)) (\<lambda>_. rd_bind (read_data_type n) (\<lambda>t. rd_return (Some REQUIRED, t))))"
  proof (cases "syn = Some PROTO_3")
    case True
    then show ?thesis by (simp add: rd_expect_def rd_bind_def rd_raise_def rd_post_def)
  next
    case False
    then show ?thesis by (intro rd_post_read frame_intros rd_post_return) (simp add: label_ok_def)
  qed
  show ?thesis
    unfolding read_label_and_type_def
  proof (rule rd_post_bind [OF get])
    fix x
    assume x: "x = syn"
    have labels: "label_ok syn None" "label_ok syn (Some OPTIONAL)" "label_ok syn (Some REPEATED)" by (simp_all add: label_ok_def)
    show "rd_post (parser_keeps syn ts ss) ?Q
       (if w = ''required''
        then rd_bind (rd_expect (x \<noteq> Some PROTO_3)) (\<lambda>_. rd_bind (read_data_type n) (\<lambda>t. rd_return (Some REQUIRED, t)))
        else if w = ''optional'' then rd_bind (read_data_type n) (\<lambda>t. rd_return (Some OPTIONAL, t))
        else if w = ''repeated'' then rd_bind (read_data_type n) (\<lambda>t. rd_return (Some REPEATED, t))
        else rd_bind (if x = Some PROTO_3 then rd_return True
                      else if w = ''map'' then rd_bind peek_char (\<lambda>c. rd_return (c = CHR ''<''))
                      else rd_return False) (\<lambda>permitted.
             rd_bind (rd_expect permitted) (\<lambda>_.
             rd_bind (read_data_type_by_name n w) (\<lambda>t. rd_return (None, t)))))"
      unfolding x by (intro rd_post_if req rest rd_post_read frame_intros labels)
  qed
qed

lemma read_group_with_post:
  assumes "\<And>d loc w. rd_post (parser_keeps syn ts ss) (declaration_ok syn) (f d loc w)" and "label_ok syn l"
  shows "rd_post (parser_keeps syn ts ss) (group_ok syn) (read_group_with n f loc d l)"
proof -
  have item: "rd_post (parser_keeps syn ts ss) (field_ok syn) (rd_bind (rd_get reader_location) (\<lambda>loc. rd_bind read_word (\<lambda>w. rd_bind (f d loc w) (\<lambda>x.
      case x of DField f \<Rightarrow> rd_return f | _ \<Rightarrow> rd_raise ProtobufException))))" for d
    by (intro rd_post_read frame_intros rd_post_bind [OF assms(1)])
      (auto simp: rd_post_return rd_post_raise split: proto_declaration.splits)
  show ?thesis
    unfolding read_group_with_def
    by (intro rd_post_read frame_intros rd_post_bind [OF read_body_post [OF item]] rd_post_return)
      (use assms(2) in \<open>simp add: group_ok_def\<close>)
qed

lemma read_field_post: "rd_post (parser_keeps syn ts ss) (declaration_ok syn) (read_field n d loc w)"
proof (induction n arbitrary: d loc w)
  case (Suc n)
  show ?case
    unfolding read_field.simps split_def
    by (rule rd_post_bind [OF read_label_and_type_post], rule rd_post_read [OF frame_simple(4)], rule rd_post_if,
        erule rd_post_bind [OF read_group_with_post [OF Suc.IH]], simp add: rd_post_return,
        erule rd_post_bind [OF read_field_with_label_post], simp add: rd_post_return)
qed (simp add: rd_post_raise)

text \<open>A reader of nested declarations that keeps the parser and gives declarations that obey the rules.\<close>

definition lawful ::
    "proto_syntax option \<Rightarrow> type_element list \<Rightarrow> service_element list \<Rightarrow> declaration_reader \<Rightarrow> bool" where
  "lawful syn ts ss f \<longleftrightarrow> (\<forall>d ctx. ctx \<noteq> CFile \<longrightarrow> rd_post (parser_keeps syn ts ss) (declaration_ok syn) (f d ctx))"

lemma lawfulD: "lawful syn ts ss f \<Longrightarrow> ctx \<noteq> CFile \<Longrightarrow> rd_post (parser_keeps syn ts ss) (declaration_ok syn) (f d ctx)"
  by (simp add: lawful_def)

lemma chosen_ok:
  assumes "list_all (declaration_ok syn) ds"
  shows "list_all (field_ok syn) (List.map_filter (\<lambda>d. case d of DField f \<Rightarrow> Some f | _ \<Rightarrow> None) ds)"
    "list_all (group_ok syn) (List.map_filter (\<lambda>d. case d of DGroup g \<Rightarrow> Some g | _ \<Rightarrow> None) ds)"
    "list_all (one_of_ok syn) (List.map_filter (\<lambda>d. case d of DOneOf x \<Rightarrow> Some x | _ \<Rightarrow> None) ds)"
    "list_all (type_ok syn) (List.map_filter (\<lambda>d. case d of DType t \<Rightarrow> Some t | _ \<Rightarrow> None) ds)"
  using assms by (induction ds; auto simp: map_filter_simps split: option.splits proto_declaration.splits)+

lemma read_one_of_post: "rd_post (parser_keeps syn ts ss) (one_of_ok syn) (read_one_of n d)"
proof -
  let ?item = "\<lambda>d. rd_bind (rd_get reader_location) (\<lambda>loc. rd_bind (read_data_type n) (\<lambda>atype.
      if atype = ''group'' then rd_bind (read_group n loc d None) (\<lambda>g. rd_return (DGroup g))
      else if atype = ''option''
      then rd_bind (read_option n (CHR ''='')) (\<lambda>e. rd_bind (rd_require (CHR '';'')) (\<lambda>_. rd_return (DOption e)))
      else rd_bind (read_field_with_label n loc d None atype) (\<lambda>f. rd_return (DField f))))"
  have none: "label_ok syn None" by (simp add: label_ok_def)
  have group: "rd_post (parser_keeps syn ts ss) (group_ok syn) (read_group n loc d None)" for loc d
    unfolding read_group_def by (rule read_group_with_post [OF read_field_post none])
  have item: "rd_post (parser_keeps syn ts ss) (declaration_ok syn) (?item d)" for d
    by (rule rd_post_read [OF frame_simple(9)], rule rd_post_read [OF frame_data_type(2)], intro rd_post_if,
        rule rd_post_bind [OF group], simp add: rd_post_return, intro rd_post_read frame_intros rd_post_return, simp,
        rule rd_post_bind [OF read_field_with_label_post [OF none]], simp add: rd_post_return)
  show ?thesis
    unfolding read_one_of_def
    by (rule rd_post_read [OF frame_chars(6)], rule rd_post_bind [OF read_body_post [OF item]])
      (simp add: rd_post_return one_of_ok_def chosen_ok)
qed

lemma note_extend_post: "declaration_ok syn d \<Longrightarrow> rd_post (parser_keeps syn ts ss) (\<lambda>_. True) (note_extend d)"
  by (cases d) (auto simp: note_extend_def rd_post_return intro!: rd_post_modify, auto simp: parser_keeps_def)

lemma read_message_post:
  assumes "lawful syn ts ss f"
  shows "rd_post (parser_keeps syn ts ss) (type_ok syn) (read_message_with n f loc d)"
proof -
  have item: "rd_post (parser_keeps syn ts ss) (declaration_ok syn)
      (rd_bind (f d CMessage) (\<lambda>d. rd_bind (note_extend d) (\<lambda>_. rd_return d)))" for d
  proof (rule rd_post_bind [OF lawfulD [OF assms]])
    fix x
    assume ok: "declaration_ok syn x"
    show "rd_post (parser_keeps syn ts ss) (declaration_ok syn) (rd_bind (note_extend x) (\<lambda>_. rd_return x))"
      by (rule rd_post_bind [OF note_extend_post [OF ok]], rule rd_post_return [where Q = "declaration_ok syn", OF ok])
  qed simp
  have modify: "rd_post (parser_keeps syn ts ss) (\<lambda>_. True) (rd_modify (\<lambda>p. p\<lparr>pp_prefix := g p\<rparr>))" for g
    by (rule rd_post_modify) (simp add: parser_keeps_def)
  show ?thesis
    unfolding read_message_with_def
    by (rule rd_post_read [OF frame_chars(6)], rule rd_post_read [OF frame_simple(9)], rule rd_post_bind [OF modify],
        rule rd_post_bind [OF read_body_post [OF item]], rule rd_post_bind [OF modify])
      (simp add: rd_post_return chosen_ok)
qed

lemma read_nested_post:
  assumes "lawful syn ts ss f"
  shows "rd_post (parser_keeps syn ts ss) (extend_ok syn) (read_extend_with n f loc d)"
    "rd_post (parser_keeps syn ts ss) (\<lambda>_. True) (read_service_with n f loc d)"
    "rd_post (parser_keeps syn ts ss) (type_ok syn) (read_enum_with n f loc d)"
    "rd_post (parser_keeps syn ts ss) (\<lambda>_. True) (read_rpc_with n f loc d)"
proof -
  have body: "rd_post (parser_keeps syn ts ss) (list_all (declaration_ok syn)) (read_body n (\<lambda>d. f d ctx))" if "ctx \<noteq> CFile" for ctx
    by (rule read_body_post [OF lawfulD [OF assms that]])
  have block: "rd_post (parser_keeps syn ts ss) (list_all (declaration_ok syn)) (read_block n (\<lambda>d. f d CRpc) [])"
    by (rule read_block_post [OF lawfulD [OF assms]]) simp_all
  show "rd_post (parser_keeps syn ts ss) (extend_ok syn) (read_extend_with n f loc d)"
    unfolding read_extend_with_def
    by (rule rd_post_read [OF frame_chars(6)], rule rd_post_bind [OF body]) (simp_all add: rd_post_return extend_ok_def chosen_ok)
  show "rd_post (parser_keeps syn ts ss) (\<lambda>_. True) (read_service_with n f loc d)"
    unfolding read_service_with_def
    by (rule rd_post_read [OF frame_chars(6)], rule rd_post_bind [OF body]) (simp_all add: rd_post_return)
  show "rd_post (parser_keeps syn ts ss) (type_ok syn) (read_enum_with n f loc d)"
    unfolding read_enum_with_def
    by (rule rd_post_read [OF frame_chars(6)], rule rd_post_bind [OF body]) (simp_all add: rd_post_return)
  show "rd_post (parser_keeps syn ts ss) (\<lambda>_. True) (read_rpc_with n f loc d)"
    unfolding read_rpc_with_def split_def
    by (rule rd_post_read [OF frame_chars(6)], rule rd_post_read [OF frame_reserved(4)], rule rd_post_read [OF frame_chars(5)],
        rule rd_post_read [OF frame_simple(4)], rule rd_post_read [OF frame_reserved(4)], rule rd_post_read [OF frame_chars(4)],
        rule rd_post_bind [OF rd_post_if], rule rd_post_weaken [OF block], rule TrueI, intro rd_post_read frame_intros rd_post_return)
      (simp_all add: rd_post_return)
qed

lemma read_file_part_post:
  "rd_post (parser_keeps syn ts ss) (declaration_ok syn) read_package" "rd_post (parser_keeps syn ts ss) (declaration_ok syn) read_import"
proof -
  have modify: "rd_post (parser_keeps syn ts ss) (\<lambda>_. True) (rd_modify g)"
    if "\<And>p. parser_keeps syn ts ss p \<Longrightarrow> parser_keeps syn ts ss (g p)" for g
    by (intro rd_post_modify that)
  show "rd_post (parser_keeps syn ts ss) (declaration_ok syn) read_package"
    unfolding read_package_def
    by (rule rd_post_read [OF frame_chars(6)], rule rd_post_bind [OF modify], simp add: parser_keeps_def,
        rule rd_post_read [OF frame_chars(3)]) (simp add: rd_post_return)
  show "rd_post (parser_keeps syn ts ss) (declaration_ok syn) read_import"
    unfolding read_import_def
    by (rule rd_post_read [OF frame_strings(2)], rule rd_post_bind [where R = "\<lambda>_. True"], intro rd_post_if,
        rule rd_post_read [OF frame_strings(2)], rule modify, simp add: parser_keeps_def, rule modify, simp add: parser_keeps_def,
        rule rd_post_read [OF frame_chars(3)]) (simp add: rd_post_return)
qed

lemma rd_post_frame_map: "rd_frame m \<Longrightarrow> (\<And>x. Q (g x)) \<Longrightarrow> rd_post (parser_keeps syn ts ss) Q (rd_map g m)"
  by (rule rd_post_map, rule rd_post_weaken [OF rd_post_frame]) auto

lemma read_labelled_post:
  assumes "lawful syn ts ss f" and "ctx = CFile \<Longrightarrow> w \<noteq> ''syntax''"
  shows "rd_post (parser_keeps syn ts ss) (declaration_ok syn) (read_labelled n f i d ctx loc w)"
proof -
  let ?P = "rd_post (parser_keeps syn ts ss) (declaration_ok syn)"
  note nested = read_message_post [OF assms(1)] read_nested_post [OF assms(1)]
  have parts: "?P (rd_map DType (read_message_with n f loc d))" "?P (rd_map DExtend (read_extend_with n f loc d))"
    "?P (rd_map DService (read_service_with n f loc d))" "?P (rd_map DType (read_enum_with n f loc d))"
    "?P (rd_map DRpc (read_rpc_with n f loc d))" "?P (rd_map DOneOf (read_one_of n d))"
    by (rule rd_post_map, rule rd_post_weaken [OF nested(1)], simp, rule rd_post_map, rule rd_post_weaken [OF nested(2)], simp,
        rule rd_post_map, rule rd_post_weaken [OF nested(3)], simp, rule rd_post_map, rule rd_post_weaken [OF nested(4)], simp,
        rule rd_post_map, rule rd_post_weaken [OF nested(5)], simp, rule rd_post_map, rule rd_post_weaken [OF read_one_of_post], simp)
  have simple: "?P (rd_map DReserved (read_reserved n loc d))" "?P (rd_map DExtensions (read_extensions n loc d))"
    "?P (rd_map DEnumConstant (read_enum_constant n d loc w))"
    by (rule rd_post_frame_map; simp add: frame_intros)+
  have opt: "?P (rd_bind (read_option n c) (\<lambda>e. rd_bind (rd_require c') (\<lambda>_. rd_return (DOption e))))" for c c'
    by (intro rd_post_read frame_intros rd_post_return) simp
  show ?thesis
    unfolding read_labelled_def
    by (intro rd_post_if parts simple opt read_file_part_post read_field_post rd_post_raise) (use assms(2) in blast)
qed

lemma read_declaration_lawful: "lawful syn ts ss (read_declaration n)"
proof (induction n)
  case 0
  then show ?case by (simp add: lawful_def rd_post_raise)
next
  case (Suc n)
  have modify: "rd_post (parser_keeps syn ts ss) (\<lambda>_. True) (rd_modify (\<lambda>p. p\<lparr>pp_declaration_count := Suc (pp_declaration_count p)\<rparr>))"
    by (rule rd_post_modify) (simp add: parser_keeps_def)
  show ?case
    unfolding lawful_def read_declaration.simps
    by (intro allI impI, rule rd_post_read [OF frame_simple(9)], rule rd_post_bind [OF modify], rule rd_post_read [OF frame_chars(4)],
        rule rd_post_if, rule rd_post_return, simp, rule rd_post_read [OF frame_simple(9)], rule rd_post_read [OF frame_chars(5)],
        rule read_labelled_post [OF Suc.IH], simp)
qed

text \<open>The rules for a file: unique names of types and services, and the rules for its declarations.\<close>

definition file_ok :: "proto_file_element \<Rightarrow> bool" where
  "file_ok f \<longleftrightarrow>
     distinct (map te_name (pf_types f)) \<and> distinct (map se_name (pf_services f)) \<and> list_all (type_ok (pf_syntax f)) (pf_types f) \<and>
     list_all (extend_ok (pf_syntax f)) (pf_extend_declarations f)"

text \<open>The parser between two declarations of the file: nothing was stored before the first one.\<close>

definition parser_ok :: "parser \<Rightarrow> bool" where
  "parser_ok p \<longleftrightarrow>
     file_ok (file_element DEFAULT_LOCATION p) \<and>
     (pp_declaration_count p = 0 \<longrightarrow> pp_nested_types p = [] \<and> pp_services p = [] \<and> pp_extends_list p = [])"

lemma parser_ok_keeps:
  "parser_keeps syn ts ss p \<Longrightarrow> distinct (map te_name ts) \<Longrightarrow> distinct (map se_name ss) \<Longrightarrow> list_all (type_ok syn) ts \<Longrightarrow> parser_ok p"
  by (auto simp: parser_keeps_def parser_ok_def file_ok_def file_element_def)

lemma parser_ok_more: "syntax_reader.more p' = syntax_reader.more p \<Longrightarrow> parser_ok p' = parser_ok p"
  by (cases p; cases p') (simp add: parser_ok_def file_element_def)

lemma read_syntax_effect:
  assumes "read_syntax i p = Inr (d, p')"
  shows "\<exists>x. d = DNone \<and> i = 0 \<and> parser.more p' = parser.more p \<and> pp_syntax p' = Some x \<and> pp_nested_types p' = pp_nested_types p \<and>
    pp_services p' = pp_services p \<and> pp_extends_list p' = pp_extends_list p \<and> pp_declaration_count p' = pp_declaration_count p"
proof -
  obtain p1 s p2 x p3 where run: "rd_require (CHR ''='') p = Inr ((), p1)" "i = 0" "read_quoted_string p1 = Inr (s, p2)"
      "mk_syntax s = Inr x" "rd_require (CHR '';'') (p2\<lparr>pp_syntax := Some x\<rparr>) = Inr ((), p')" "d = DNone"
    using assms
    by (auto simp: read_syntax_def rd_bind_Inr rd_get_def rd_expect_def rd_return_def rd_raise_def rd_lift_def rd_modify_def rbind_eq_Inr
        split: if_splits)
  have "syntax_reader.more p1 = syntax_reader.more p" "syntax_reader.more p2 = syntax_reader.more p1" "syntax_reader.more p' = syntax_reader.more (p2\<lparr>pp_syntax := Some x\<rparr>)"
    using rd_frameD [OF frame_chars(3) run(1)] rd_frameD [OF frame_strings(1) run(3)] rd_frameD [OF frame_chars(3) run(5)] by simp_all
  then show ?thesis using run(2,6) by (cases p; cases p1; cases p2; cases p') simp
qed

lemma read_declaration_file:
  assumes "parser_ok p" and "read_declaration n doc CFile p = Inr (d, p')"
  shows "parser_ok p' \<and> 0 < pp_declaration_count p' \<and> declaration_ok (pp_syntax p') d"
proof (cases n)
  case 0
  then show ?thesis using assms by (simp add: rd_raise_def)
next
  case (Suc k)
  let ?p = "p\<lparr>pp_declaration_count := Suc (pp_declaration_count p)\<rparr>"
  obtain skipped p1 where p1: "peek_is (CHR '';'') ?p = Inr (skipped, p1)"
    and rest: "(if skipped then rd_return DNone else rd_bind (rd_get reader_location) (\<lambda>loc. rd_bind read_word (\<lambda>label.
        read_labelled k (read_declaration k) (pp_declaration_count p) doc CFile loc label))) p1 = Inr (d, p')"
    using assms(2) Suc by (auto simp: rd_bind_Inr rd_get_def rd_modify_def)
  have more1: "syntax_reader.more p1 = syntax_reader.more ?p" by (rule rd_frameD [OF frame_chars(4) p1])
  let ?K = "parser_keeps (pp_syntax p) (pp_nested_types p) (pp_services p)"
  have K: "?K ?p" using assms(1) by (simp add: parser_ok_def parser_keeps_def file_ok_def file_element_def)
  then have K1: "?K p1" using parser_keeps_more [OF more1] by simp
  have done_K: "parser_ok q \<and> 0 < pp_declaration_count q \<and> declaration_ok (pp_syntax q) d" if "?K q" "declaration_ok (pp_syntax p) d" for q
    using that assms(1) parser_ok_keeps [OF that(1)]
    by (auto simp: parser_ok_def [of p] file_ok_def file_element_def parser_keeps_def)
  show ?thesis
  proof (cases skipped)
    case True
    then show ?thesis using rest K1 done_K by (auto simp: rd_return_def)
  next
    case False
    then obtain label p2 where p2: "read_word p1 = Inr (label, p2)"
      and lab: "read_labelled k (read_declaration k) (pp_declaration_count p) doc CFile (reader_location p1) label p2 = Inr (d, p')"
      using rest by (auto simp: rd_bind_Inr rd_get_def)
    have more2: "syntax_reader.more p2 = syntax_reader.more ?p" using rd_frameD [OF frame_chars(5) p2] more1 by simp
    have K2: "?K p2" using parser_keeps_more [OF more2] K by simp
    show ?thesis
    proof (cases "label = ''syntax''")
      case False
      have "rd_post ?K (declaration_ok (pp_syntax p)) (read_labelled k (read_declaration k) (pp_declaration_count p) doc CFile (reader_location p1) label)"
        by (rule read_labelled_post [OF read_declaration_lawful]) (simp add: False)
      from rd_postD [OF this K2 lab] show ?thesis using done_K by blast
    next
      case True
      then have "read_syntax (pp_declaration_count p) p2 = Inr (d, p')" using lab by (simp add: read_labelled_def)
      from read_syntax_effect [OF this] have "d = DNone" "pp_declaration_count p = 0" "pp_nested_types p' = pp_nested_types p2"
        "pp_services p' = pp_services p2" "pp_extends_list p' = pp_extends_list p2" "pp_declaration_count p' = pp_declaration_count p2"
        by auto
      moreover have "pp_nested_types p2 = pp_nested_types p" "pp_services p2 = pp_services p" "pp_extends_list p2 = pp_extends_list p"
        "0 < pp_declaration_count p2"
        using more2 by (cases p; cases p2; simp)+
      ultimately show ?thesis using assms(1) by (simp add: parser_ok_def file_ok_def file_element_def)
    qed
  qed
qed

lemma add_declaration_ok:
  assumes "parser_ok p" and "0 < pp_declaration_count p" and "declaration_ok (pp_syntax p) d" and "add_declaration d p = Inr (u, p')"
  shows "parser_ok p'"
  using assms
  by (cases d; auto simp: add_declaration_def parser_ok_def file_ok_def file_element_def list_ex_iff split: if_splits; blast)

lemma read_proto_file_ok:
  "parser_ok p \<Longrightarrow> read_proto_file n loc p = Inr (f, p') \<Longrightarrow> file_ok f"
proof (induction n arbitrary: p)
  case 0
  then show ?case by (simp add: rd_raise_def)
next
  case (Suc n)
  obtain doc p1 where p1: "read_documentation p = Inr (doc, p1)"
    and rest: "(if exhausted p1 then rd_get (file_element loc) else rd_bind (read_declaration (Suc n) doc CFile) (\<lambda>d.
        rd_bind (add_declaration d) (\<lambda>_. read_proto_file n loc))) p1 = Inr (f, p')"
    using Suc.prems(2) by (auto simp: rd_bind_Inr rd_get_def simp del: read_declaration.simps)
  have ok1: "parser_ok p1" using parser_ok_more [OF rd_frameD [OF read_documentation_frame p1]] Suc.prems(1) by simp
  show ?case
  proof (cases "exhausted p1")
    case True
    then show ?thesis using rest ok1 by (auto simp: rd_get_def parser_ok_def file_ok_def file_element_def)
  next
    case False
    then obtain d p2 p3 where "read_declaration (Suc n) doc CFile p1 = Inr (d, p2)" "add_declaration d p2 = Inr ((), p3)"
        "read_proto_file n loc p3 = Inr (f, p')"
      using rest by (auto simp: rd_bind_Inr simp del: read_declaration.simps)
    with read_declaration_file [OF ok1] add_declaration_ok Suc.IH show ?thesis by blast
  qed
qed

text \<open>
  C33: The files that the Protobuf parser accepts are well-formed: the types and the services of a file have different
  names, and a file in proto3 syntax has no required field or group, at any depth of nesting and in no extension.
\<close>

theorem parsed_file_is_well_formed:
  assumes "parse_proto loc data = Inr f"
  shows "file_ok f"
proof -
  have "parser_ok (init_parser loc data)" by (simp add: parser_ok_def file_ok_def file_element_def init_parser_def)
  then show ?thesis using assms read_proto_file_ok by (auto simp: parse_proto_def rbind_eq_Inr simp del: read_proto_file.simps)
qed

section \<open>Texts that are rejected or lose information\<close>

definition quoted :: "string \<Rightarrow> string" where
  "quoted s = dq @ s @ dq"

definition sample_proto_text :: string where
  "sample_proto_text = ''syntax='' @ quoted ''proto3'' @ '';message M{}''"

theorem parsed_file_is_well_formed_witness:
  "\<exists>f. parse_proto DEFAULT_LOCATION sample_proto_text = Inr f \<and> map te_name (pf_types f) = [''M''] \<and> file_ok f"
proof -
  have "case parse_proto DEFAULT_LOCATION sample_proto_text of Inr f \<Rightarrow> map te_name (pf_types f) = [''M''] | Inl e \<Rightarrow> False" by code_simp
  then obtain f where f: "parse_proto DEFAULT_LOCATION sample_proto_text = Inr f" "map te_name (pf_types f) = [''M'']"
    by (auto split: sum.splits)
  have "file_ok f" by (rule parsed_file_is_well_formed [OF f(1)])
  show ?thesis
    by (rule exI [of _ f], intro conjI, rule f(1), rule f(2), rule \<open>file_ok f\<close>)
qed

text \<open>
  Comments that Protobuf allows are refused or cut: an empty comment of either kind makes the parser fail, and so does a
  comment of one character at the end of the text; of a longer comment at the end the last character is lost, and a trailing
  comment of one character is ignored.
\<close>

theorem comments_refused_or_cut:
  "parse_proto DEFAULT_LOCATION (''//'' @ nl @ '';'') = Inl ProtobufException \<and>
   parse_proto DEFAULT_LOCATION ''/**/;'' = Inl ProtobufException \<and>
   parse_proto DEFAULT_LOCATION '';// x'' = Inl ProtobufException \<and>
   rbind (read_comment (init_parser DEFAULT_LOCATION ''// last'')) (\<lambda>x. Inr (fst x)) = Inr ''las'' \<and>
   rbind (try_append_trailing_documentation ''doc'' (init_parser DEFAULT_LOCATION ('' // x'' @ nl))) (\<lambda>x. Inr (fst x)) = Inr ''doc''"
proof (intro conjI)
  show "parse_proto DEFAULT_LOCATION (''//'' @ nl @ '';'') = Inl ProtobufException" by code_simp
  show "parse_proto DEFAULT_LOCATION ''/**/;'' = Inl ProtobufException" by code_simp
  show "parse_proto DEFAULT_LOCATION '';// x'' = Inl ProtobufException" by code_simp
  show "rbind (read_comment (init_parser DEFAULT_LOCATION ''// last'')) (\<lambda>x. Inr (fst x)) = Inr ''las''" by code_simp
  show "rbind (try_append_trailing_documentation ''doc'' (init_parser DEFAULT_LOCATION ('' // x'' @ nl))) (\<lambda>x. Inr (fst x)) = Inr ''doc''"
    by code_simp
qed

text \<open>
  A number that starts with the digit 9 is read as the name of an enumeration constant.
\<close>

theorem nine_is_not_a_number:
  "rbind (read_kind_and_value 9 (init_parser DEFAULT_LOCATION ''9;'')) (\<lambda>x. Inr (fst x)) = Inr (KEnum (PStr ''9'')) \<and>
   rbind (read_kind_and_value 9 (init_parser DEFAULT_LOCATION ''8;'')) (\<lambda>x. Inr (fst x)) = Inr (KNumber (PStr ''8''))"
  by code_simp

end
