(* ===== verification/Spec2Isabelle.thy ===== *)
theory Spec2Isabelle
  imports Api_Routers Coordinator_Properties Serialization_Properties Protobuf_Compare_Cases Descriptor_Properties Rest_Properties Parser_Properties
begin

text \<open>
  \<^bold>\<open>Verification of Karapace.\<close> Karapace is a schema registry for Kafka with a Kafka REST proxy. This development models
  its Python code as HOL functions and proves what makes the parts correct. Paths are under \<open>src/src/karapace\<close>.

  \<^bold>\<open>The program.\<close> Every node of the registry reads the schemas topic (\<open>core/schema_reader.py\<close>) into an in-memory
  database (\<open>core/in_memory_database.py\<close>). The nodes elect a primary (\<open>core/coordinator\<close>); only it answers requests that
  change something: it checks them (\<open>core/schema_registry.py\<close>, \<open>core/compatibility\<close>, \<open>core/protobuf\<close>), writes a record to
  the topic (\<open>core/messaging.py\<close>) and waits until its own reader has applied it. The HTTP interface (\<open>api\<close>) authenticates
  and authorises users (\<open>core/auth.py\<close>, \<open>api/oidc\<close>), forwards requests to the primary, and translates errors to answers.
  The REST proxy (\<open>kafka_rest_apis\<close>) produces and consumes messages for HTTP clients and finds their schemas through a
  registry client (\<open>core/serialization.py\<close>).

  \<^bold>\<open>Conventions.\<close> A class or dataclass is a record or a datatype, a method is a function of the same name with the object
  as an argument and the changed object in the result. Raised exceptions are \<open>Inl\<close> of a result (\<open>exn\<close>, \<open>ser_exn\<close>,
  \<open>rest_exn\<close>), also the answers that the handlers raise. Python dictionaries are association lists with distinct keys in
  the order of insertion (\<open>dict\<close>), Python integers are \<open>int\<close>, message headers are words, strings are lists of characters.
  Loops are folds, structural recursion, or functions with a measure. Libraries that the code calls (SHA-1, the JSON
  codec, Avro, \<open>jsonschema\<close>, \<open>networkx\<close>, \<open>re\<close>, JWT, base64, the Kafka clients and clocks) are arguments: the records \<open>ext\<close>,
  \<open>codec\<close>, \<open>env\<close>, \<open>authx\<close>, \<open>kafka_ops\<close>, \<open>admin_ops\<close>, \<open>producer_ops\<close>, \<open>auth_ops\<close>. Where a theorem relies on such
  a library, the law is a named hypothesis (for example \<open>codec_inverse\<close>, \<open>clock_advances\<close>, \<open>broker_clock\<close>,
  \<open>builds_partitions\<close>) with a witness on a concrete library.

  \<^bold>\<open>Theories.\<close>
  \<^item> \<open>Karapace_Prelude\<close>, \<open>Py_Strings\<close>: results, dictionaries (locale \<open>dict_store\<close>), JSON values, strings.
  \<^item> \<open>Schema_Typing\<close>, \<open>Schema_Models\<close>, \<open>Key_Format\<close>: versions, references, dependencies, typed schemas, fingerprints,
    parsing front ends, keys (\<open>core/typing.py\<close>, \<open>schema_references.py\<close>, \<open>dependency.py\<close>, \<open>schema_models.py\<close>, \<open>key_format.py\<close>).
  \<^item> \<open>Memory_Database\<close>, \<open>Database_Properties\<close>: all methods of \<open>InMemoryDatabase\<close>; the invariant \<open>db_ok\<close> of reachable
    states (rule induction on \<open>db_reachable\<close>), id allocation, lookups, and the refinement of a flat table of versions
    (locale \<open>version_store\<close>).
  \<^item> \<open>Schema_Reader\<close>, \<open>Reader_Properties\<close>: the handlers of topic records, batches and readiness; every predicate that the
    database operations keep is kept by the reader (locale \<open>database_invariant\<close> with three interpretations).
  \<^item> \<open>Compare_Result\<close>, \<open>Json_Schema_Utils\<close>, \<open>Json_Schema_Checks\<close>, \<open>Json_Schema_Properties\<close>, \<open>Json_Schema_Soundness\<close>,
    \<open>Compatibility\<close>: the JSON Schema check, its termination, the meaning of its verdicts on strings and numbers, the modes.
  \<^item> \<open>Schema_Registry\<close>, \<open>Registry_Properties\<close>, \<open>Registry_Recovery\<close>, \<open>Registry_Effects\<close>: the operations of the registry with the
    producer; what is checked before a record is sent, the effect of each operation on the table, and that a node that
    replays the topic rebuilds the database of the primary (locale \<open>registry_invariant\<close>).
  \<^item> \<open>Schema_Coordinator\<close>, \<open>Coordinator_Properties\<close>: the group protocol and the election of the primary.
  \<^item> \<open>Authorization\<close>, \<open>Authorization_Properties\<close>, \<open>Oidc_Middleware\<close>: users, access rules (locale \<open>authorization\<close>, interpreted for
    the rules of a file, for no authorisation and for the interface), bearer tokens.
  \<^item> \<open>Api_Controller\<close>, \<open>Api_Routers\<close>: every handler and route of the registry, and the two theorems that span all of it: what
    changes the registry, and which subjects an answer names.
  \<^item> \<open>Protobuf_Elements\<close>, \<open>Protobuf_Schema\<close>, \<open>Protobuf_Schema_Properties\<close>: elements with the texts they print, the tree of
    declared types and the dependency check.
  \<^item> \<open>Protobuf_Reader\<close>, \<open>Protobuf_Parser\<close>, \<open>Parser_Properties\<close>: the reader, the options and the parser (\<open>syntax_reader.py\<close>,
    \<open>option_reader.py\<close>, \<open>proto_parser.py\<close>); it ends on every text, and accepted files are well-formed.
  \<^item> \<open>Protobuf_Compare\<close> and its properties (\<open>Protobuf_Compare_Properties\<close>, \<open>_Soundness\<close>, \<open>_Cases\<close>, \<open>Protobuf_Self_Compare\<close>): the
    comparison of two schemas, with the locale \<open>comparison_relation\<close> for relations that the comparison keeps; a compatible
    verdict keeps the wire format, a schema is compatible with itself.
  \<^item> \<open>Protobuf_Descriptor\<close>, \<open>Descriptor_Properties\<close>: conversion to descriptors and back (\<open>core/protobuf/serialization.py\<close>).
  \<^item> \<open>Message_Encoding\<close>, \<open>Serialization\<close>, \<open>Serialization_Properties\<close>: message headers and indexes, the registry client, the caches
    of the serializer, \<open>serialize\<close> and \<open>deserialize\<close>, with the round trip.
  \<^item> \<open>Rest_Base\<close>, \<open>Rest_Consumers\<close>, \<open>Rest_Metadata\<close>, \<open>Rest_Publish\<close>, \<open>Rest_Proxy\<close>: the REST proxy: answers, the consumer manager
    with its locks, the metadata cache, publishing, users and the janitor. \<open>Consumer_Properties\<close>, \<open>Metadata_Properties\<close> and
    \<open>Rest_Properties\<close> show that a fetch ends within its limits, that commits name existing partitions, that consumers are
    well-formed and used by one request at a time as long as none is deleted, that metadata is recent, that users are kept
    apart, and that every record of a publish request is reported.

  \<^bold>\<open>State.\<close> \<open>database\<close> is \<open>InMemoryDatabase\<close>, \<open>registry\<close> is \<open>KarapaceSchemaRegistry\<close> with its reader and the topic it has
  written, \<open>coordinator\<close> is \<open>SchemaCoordinator\<close>, \<open>serializer\<close> is \<open>SchemaRegistrySerializer\<close>, \<open>parser\<close> is \<open>ProtoParser\<close>,
  \<open>proxy_state\<close> is \<open>UserRestProxy\<close> with its \<open>ConsumerManager\<close>, \<open>kafka_rest\<close> is \<open>KafkaRest\<close>. Requests are handled one after
  the other, as the locks of the code make them; where the locks themselves matter, in the consumer manager, tasks that
  wait and run are steps of the relation \<open>lock_step\<close>.

  \<^bold>\<open>Bounds.\<close> Recursion that Python bounds only by its stack takes a depth and raises \<open>RecursionError\<close> when it is used up.
  The JSON Schema check is started with a depth computed from the sizes of both schemas, and a larger depth gives the same
  answer; the comparison of Protobuf schemas needs one more than the number of types of the first schema, since a message
  is locked while it is compared; the lookup of references needs one more than the number of subjects, since visited ones
  are refused; the Protobuf parser runs with the length of its text, since every call and loop round reads a
  character. In each case a theorem states that the bound is not reached. The loop of a fetch is a
  \<open>partial_function (option)\<close>, and it is proved to return when waiting takes time.

  \<^bold>\<open>Findings.\<close> Theorems on concrete inputs show where the code does not do what it means to; they stand at the end of the
  theory of their component.

  \<^bold>\<open>Not modelled.\<close> Start-up, configuration files, TLS, HTTP transport, metrics, tracing and logging are I/O around the modelled
  functions: \<open>rapu.py\<close>, \<open>core/config.py\<close>, \<open>core/client.py\<close>, \<open>core/stats.py\<close>, the Kafka client wrappers, \<open>core/container.py\<close>. The
  byte encoding of the group protocol and the timers of the coordinator are left out: a round of the protocol is one step.
  The mapping of decoded Protobuf messages to dictionaries (\<open>protobuf_to_dict.py\<close>) and the generated Protobuf classes are
  part of the codec parameter. The health and availability routes only read a status. The Avro anonymiser
  (\<open>core/anonymize_schemas\<close>) is a tool that the servers do not call. Texts of error messages are not modelled, and
  characters end at code 255.
\<close>

end
